(* ===== verification/Exynos_Prelude.thy ===== *)
theory Exynos_Prelude
  imports Main "HOL-Library.Word"
begin

text \<open>
  The prelude of the development: the machine types the C sources use, the arithmetic of
  \<open>unsigned int\<close> with its wrap-around written out, a byte-addressed memory with
  \<open>memcpy\<close>, and the counted loop \<open>for (i = a; i < n; i += d)\<close> together with the rules
  by which every component proves properties of its loops.
\<close>

unbundle bit_operations_syntax

section \<open>Machine types\<close>

type_synonym u8 = "8 word"
type_synonym u16 = "16 word"
type_synonym u32 = "32 word"
type_synonym addr = nat
type_synonym memory = "addr \<Rightarrow> u8"

text \<open>The rules by which loops and memory writes are discharged.\<close>

named_theorems u32_simps
named_theorems mem_simps

section \<open>Arithmetic of unsigned int\<close>

text \<open>
  An \<open>unsigned int\<close> that is used as an offset or a loop index is a \<open>nat\<close> below
  \<open>2 ^ 32\<close>; the operations reduce modulo \<open>2 ^ 32\<close> as C does.
\<close>

abbreviation UINT_RANGE :: nat where
  "UINT_RANGE \<equiv> 4294967296"

definition add32 :: "nat \<Rightarrow> nat \<Rightarrow> nat" where
  "add32 a b = (a + b) mod UINT_RANGE"

definition sub32 :: "nat \<Rightarrow> nat \<Rightarrow> nat" where
  "sub32 a b = (a + UINT_RANGE - b) mod UINT_RANGE"

definition mul32 :: "nat \<Rightarrow> nat \<Rightarrow> nat" where
  "mul32 a b = (a * b) mod UINT_RANGE"

text \<open>\<open>x & ~(2^k - 1)\<close> clears the low \<open>k\<close> bits; \<open>((x + 2^k - 1) >> k) << k\<close> rounds up.\<close>

definition align_down32 :: "nat \<Rightarrow> nat \<Rightarrow> nat" where
  "align_down32 x b = x div b * b"

definition align_up32 :: "nat \<Rightarrow> nat \<Rightarrow> nat" where
  "align_up32 x b = add32 x (b - 1) div b * b"

lemma add32_id [u32_simps]: "a + b < UINT_RANGE \<Longrightarrow> add32 a b = a + b"
  by (simp add: add32_def)

lemma mul32_id [u32_simps]: "a * b < UINT_RANGE \<Longrightarrow> mul32 a b = a * b"
  by (simp add: mul32_def)

lemma sub32_id [u32_simps]: "b \<le> a \<Longrightarrow> a < UINT_RANGE \<Longrightarrow> sub32 a b = a - b"
proof -
  assume "b \<le> a" "a < UINT_RANGE"
  then have "a + UINT_RANGE - b = a - b + UINT_RANGE" "a - b < UINT_RANGE" by linarith+
  then show ?thesis unfolding sub32_def by (simp only: mod_add_self2 mod_less)
qed

lemma align_down32_le: "align_down32 x b \<le> x"
  by (simp add: align_down32_def)

lemma align_down32_dvd: "b dvd align_down32 x b"
  by (simp add: align_down32_def)

lemma less_align_down32_add: "0 < b \<Longrightarrow> x < align_down32 x b + b"
  by (simp add: align_down32_def dividend_less_div_times add.commute)

lemma align_up32_eq: "x + (b - 1) < UINT_RANGE \<Longrightarrow> align_up32 x b = (x + (b - 1)) div b * b"
  by (simp add: align_up32_def add32_id)

text \<open>Row-major indices.\<close>

lemma index_less: "j < H \<Longrightarrow> i < W \<Longrightarrow> j * W + i < H * W" for j i :: nat
proof -
  assume "j < H" "i < W"
  then have "j * W + i < Suc j * W" by simp
  also have "\<dots> \<le> H * W" using \<open>j < H\<close> by (intro mult_le_mono1) simp
  finally show ?thesis .
qed

lemma index_inject:
  fixes t t' k k' b :: nat
  assumes "t * b + k = t' * b + k'" "k < b" "k' < b"
  shows "t = t' \<and> k = k'"
proof -
  have "(t * b + k) div b = t" "(t' * b + k') div b = t'" using assms(2,3) by auto
  with assms(1) show ?thesis by simp
qed

lemma div_less_ceil: "y < H \<Longrightarrow> 0 < b \<Longrightarrow> y div b < (H + b - 1) div b" for y H b :: nat
proof -
  assume "y < H" "0 < b"
  then have "(y + b) div b \<le> (H + b - 1) div b" by (intro div_le_mono) simp
  moreover have "(y + b) div b = Suc (y div b)" using \<open>0 < b\<close> by (metis div_add_self2 Suc_eq_plus1 less_irrefl)
  ultimately show ?thesis by linarith
qed

section \<open>Memory\<close>

text \<open>
  \<open>memcpy d s n\<close> copies \<open>n\<close> bytes from \<open>s\<close> to \<open>d\<close>. The sources are read before the
  destinations are written; C leaves overlapping ranges undefined, and every property
  below keeps the two apart.
\<close>

definition memcpy :: "addr \<Rightarrow> addr \<Rightarrow> nat \<Rightarrow> memory \<Rightarrow> memory" where
  "memcpy d s n m = (\<lambda>a. if d \<le> a \<and> a < d + n then m (s + (a - d)) else m a)"

text \<open>Little-endian loads, as \<open>*(unsigned short *)p\<close> and \<open>*(unsigned int *)p\<close> on the target.\<close>

definition rd16 :: "memory \<Rightarrow> addr \<Rightarrow> u32" where
  "rd16 m p = ucast (m p) OR push_bit 8 (ucast (m (p + 1)))"

definition rd32 :: "memory \<Rightarrow> addr \<Rightarrow> u32" where
  "rd32 m p = ucast (m p) OR push_bit 8 (ucast (m (p + 1)))
     OR push_bit 16 (ucast (m (p + 2))) OR push_bit 24 (ucast (m (p + 3)))"

text \<open>Two ranges of addresses that do not meet.\<close>

definition apart :: "addr \<Rightarrow> nat \<Rightarrow> addr \<Rightarrow> nat \<Rightarrow> bool" where
  "apart a n b k \<longleftrightarrow> a + n \<le> b \<or> b + k \<le> a"

lemma memcpy_out [mem_simps]: "a < d \<or> d + n \<le> a \<Longrightarrow> memcpy d s n m a = m a"
  by (auto simp: memcpy_def)

lemma memcpy_in [mem_simps]: "d \<le> a \<Longrightarrow> a < d + n \<Longrightarrow> memcpy d s n m a = m (s + (a - d))"
  by (simp add: memcpy_def)

section \<open>Counted loops\<close>

text \<open>
  \<open>c_for i n d f s\<close> is \<open>for (; i < n; i += d) s = f i s\<close>; it returns the value the
  loop variable has on exit, which some of the sources read after the loop, and the state.
\<close>

function c_for :: "nat \<Rightarrow> nat \<Rightarrow> nat \<Rightarrow> (nat \<Rightarrow> 's \<Rightarrow> 's) \<Rightarrow> 's \<Rightarrow> nat \<times> 's" where
  "c_for i n d f s = (if i < n \<and> 0 < d then c_for (i + d) n d f (f i s) else (i, s))"
  by pat_completeness auto
termination
  by (relation "measure (\<lambda>(i, n, d, f, s). n - i)") auto

declare c_for.simps [simp del]

lemma c_for_step: "i < n \<Longrightarrow> 0 < d \<Longrightarrow> c_for i n d f s = c_for (i + d) n d f (f i s)"
  by (simp add: c_for.simps)

lemma c_for_done [simp]: "n \<le> i \<Longrightarrow> c_for i n d f s = (i, s)"
  by (simp add: c_for.simps)

lemma dvd_shift:
  fixes i d k :: nat
  assumes "i + d \<le> k"
  shows "d dvd k - (i + d) \<longleftrightarrow> d dvd k - i"
proof -
  from assms have "k - i = (k - (i + d)) + d" by simp
  then show ?thesis by (simp only: dvd_add_triv_right_iff)
qed

lemma dvd_next:
  fixes i d k :: nat
  assumes "i < k" "d dvd k - i"
  shows "i + d \<le> k"
  using dvd_imp_le [OF assms(2)] assms(1) by simp

text \<open>The exit value of the loop variable, when the step divides the distance.\<close>

lemma c_for_exit: "0 < d \<Longrightarrow> i \<le> n \<Longrightarrow> d dvd (n - i) \<Longrightarrow> fst (c_for i n d f s) = n"
proof (induction i n d f s rule: c_for.induct)
  case (1 i n d f s)
  show ?case
  proof (cases "i < n")
    case True
    with 1 have le: "i + d \<le> n" by (simp add: dvd_next)
    moreover have "d dvd n - (i + d)" using "1.prems" by (simp add: dvd_shift [OF le])
    ultimately show ?thesis using 1 True by (simp add: c_for_step)
  next
    case False
    with 1 show ?thesis by simp
  qed
qed

text \<open>An invariant of every iteration holds on exit.\<close>

lemma c_for_invariant:
  assumes "I s"
    and "\<And>k s. i \<le> k \<Longrightarrow> k < n \<Longrightarrow> d dvd (k - i) \<Longrightarrow> I s \<Longrightarrow> I (f k s)"
  shows "I (snd (c_for i n d f s))"
  using assms
proof (induction i n d f s rule: c_for.induct)
  case (1 i n d f s)
  show ?case
  proof (cases "i < n \<and> 0 < d")
    case True
    have "I (snd (c_for (i + d) n d f (f i s)))"
    proof (rule "1.IH" [OF True])
      show "I (f i s)" using "1.prems" True by simp
    next
      fix k s assume "i + d \<le> k" "k < n" "d dvd k - (i + d)" "I s"
      moreover from this have "d dvd k - i" using dvd_shift by blast
      ultimately show "I (f k s)" using "1.prems"(2) by simp
    qed
    with True show ?thesis by (simp add: c_for_step)
  next
    case False
    with "1.prems" show ?thesis by (simp add: c_for.simps)
  qed
qed

text \<open>An invariant that mentions the loop variable, for unit steps.\<close>

lemma c_for_counted:
  assumes "I i s" "i \<le> n"
    and "\<And>k s. i \<le> k \<Longrightarrow> k < n \<Longrightarrow> I k s \<Longrightarrow> I (Suc k) (f k s)"
  shows "I n (snd (c_for i n 1 f s))"
  using assms
proof (induction "n - i" arbitrary: i s)
  case 0
  then show ?case by simp
next
  case (Suc x)
  have "I n (snd (c_for (Suc i) n 1 f (f i s)))"
    using Suc.prems Suc.hyps(2) by (intro Suc.hyps(1)) auto
  then show ?case using Suc.hyps(2) by (simp add: c_for_step)
qed

text \<open>
  What one iteration establishes and the others keep holds on exit: the rule by which a
  loop nest that covers a frame block by block is shown to reach a given pixel.
\<close>

lemma c_for_establish:
  assumes "I s"
    and "\<And>k s. i \<le> k \<Longrightarrow> k < n \<Longrightarrow> d dvd (k - i) \<Longrightarrow> I s \<Longrightarrow> I (f k s)"
    and "\<And>k s. i \<le> k \<Longrightarrow> k < n \<Longrightarrow> d dvd (k - i) \<Longrightarrow> I s \<Longrightarrow> Q s \<Longrightarrow> Q (f k s)"
    and "i \<le> k" "k < n" "d dvd (k - i)" "0 < d"
    and "\<And>s. I s \<Longrightarrow> Q (f k s)"
  shows "Q (snd (c_for i n d f s))"
  using assms
proof (induction i n d f s rule: c_for.induct)
  case (1 i n d f s)
  note inv = "1.prems"(2) and keep = "1.prems"(3) and hit = "1.prems"(8)
  have step: "c_for i n d f s = c_for (i + d) n d f (f i s)"
    using "1.prems" by (simp add: c_for_step)
  have shift: "d dvd k' - i" if "i + d \<le> k'" "d dvd k' - (i + d)" for k'
    using that dvd_shift by blast
  show ?case
  proof (cases "k = i")
    case True
    have "(\<lambda>s. I s \<and> Q s) (snd (c_for (i + d) n d f (f i s)))"
    proof (rule c_for_invariant)
      show "I (f i s) \<and> Q (f i s)" using "1.prems"(1,5) inv hit True by simp
    next
      fix k' s assume "i + d \<le> k'" "k' < n" "d dvd k' - (i + d)" "I s \<and> Q s"
      then show "I (f k' s) \<and> Q (f k' s)" using inv keep shift by simp
    qed
    with step show ?thesis by simp
  next
    case False
    with "1.prems" have le: "i + d \<le> k" by (intro dvd_next) simp_all
    with "1.prems" have "d dvd k - (i + d)" using dvd_shift by blast
    with le have "Q (snd (c_for (i + d) n d f (f i s)))"
      using "1.prems" shift by (intro "1.IH") auto
    with step show ?thesis by simp
  qed
qed


text \<open>The general indexed rule: the invariant follows the loop variable to its exit value.\<close>

lemma c_for_indexed:
  assumes "I i s"
    and "\<And>k s. i \<le> k \<Longrightarrow> k < n \<Longrightarrow> d dvd (k - i) \<Longrightarrow> I k s \<Longrightarrow> I (k + d) (f k s)"
  shows "I (fst (c_for i n d f s)) (snd (c_for i n d f s))"
  using assms
proof (induction i n d f s rule: c_for.induct)
  case (1 i n d f s)
  show ?case
  proof (cases "i < n \<and> 0 < d")
    case True
    have "I (fst (c_for (i + d) n d f (f i s))) (snd (c_for (i + d) n d f (f i s)))"
    proof (rule "1.IH" [OF True])
      show "I (i + d) (f i s)" using "1.prems" True by simp
    next
      fix k s assume "i + d \<le> k" "k < n" "d dvd k - (i + d)" "I k s"
      then show "I (k + d) (f k s)" using "1.prems"(2) dvd_shift by simp
    qed
    with True show ?thesis by (simp add: c_for_step)
  next
    case False
    with "1.prems" show ?thesis by (simp add: c_for.simps)
  qed
qed

section \<open>Copying a frame\<close>

text \<open>
  \<open>copied g D m0 S m\<close>: the destination \<open>D\<close> is being filled from memory \<open>m0\<close>, the byte at
  \<open>a\<close> from address \<open>g a\<close>; nothing outside \<open>D\<close> has changed, no byte of \<open>D\<close> holds anything but
  its old or its final value, and the bytes of \<open>S\<close> are final. Every row copy enlarges \<open>S\<close>,
  and a loop nest is finished when \<open>S\<close> has reached \<open>D\<close>.
\<close>

definition copied :: "(addr \<Rightarrow> addr) \<Rightarrow> addr set \<Rightarrow> memory \<Rightarrow> addr set \<Rightarrow> memory \<Rightarrow> bool" where
  "copied g D m0 S m \<longleftrightarrow> (\<forall>a\<in>D. g a \<notin> D) \<and> S \<subseteq> D \<and> (\<forall>a. a \<notin> D \<longrightarrow> m a = m0 a) \<and>
     (\<forall>a\<in>S. m a = m0 (g a))"

lemma copied_start: "\<forall>a\<in>D. g a \<notin> D \<Longrightarrow> copied g D m0 {} m0"
  by (simp add: copied_def)

lemma copied_write:
  assumes "copied g D m0 S m" "a \<in> D" "b = m (g a)"
  shows "copied g D m0 (insert a S) (m(a := b))"
  using assms by (auto simp: copied_def)

lemma copied_memcpy:
  assumes c: "copied g D m0 S m" and r: "\<And>k. k < n \<Longrightarrow> d + k \<in> D \<and> g (d + k) = s + k"
  shows "copied g D m0 (S \<union> {d..<d + n}) (memcpy d s n m)"
proof -
  have in_D: "a \<in> D \<and> g a = s + (a - d)" if "d \<le> a" "a < d + n" for a
    using r [of "a - d"] that by simp
  then have "m (s + (a - d)) = m0 (g a)" if "d \<le> a" "a < d + n" for a
    using c that by (metis copied_def)
  with c in_D show ?thesis by (auto simp: copied_def memcpy_def)
qed

lemma copied_full: "copied g D m0 S m \<Longrightarrow> D \<subseteq> S \<Longrightarrow> a \<in> D \<Longrightarrow> m a = m0 (g a)"
  by (auto simp: copied_def)

lemma copied_frame: "copied g D m0 S m \<Longrightarrow> a \<notin> D \<Longrightarrow> m a = m0 a"
  by (simp add: copied_def)

lemma copied_value:
  "copied g D m0 S m \<Longrightarrow> a \<in> D \<longrightarrow> a \<in> S \<Longrightarrow> m a = (if a \<in> D then m0 (g a) else m0 a)"
  by (simp add: copied_def)

lemma copied_cong: "copied g D m0 S m \<Longrightarrow> S = S' \<Longrightarrow> copied g D m0 S' m"
  by simp

text \<open>The indices a loop visits, and the loop rule for \<open>copied\<close>.\<close>

definition visits :: "nat \<Rightarrow> nat \<Rightarrow> nat \<Rightarrow> nat set" where
  "visits i n d = {k. i \<le> k \<and> k < n \<and> d dvd (k - i)}"

lemma c_for_copied:
  assumes "copied g D m0 S m" "0 < d"
    and "\<And>k S m. k \<in> visits i n d \<Longrightarrow> copied g D m0 S m \<Longrightarrow> copied g D m0 (S \<union> A k) (f k m)"
  shows "copied g D m0 (S \<union> (\<Union>k\<in>visits i n d. A k)) (snd (c_for i n d f m))"
  using assms
proof (induction i n d f m arbitrary: S rule: c_for.induct)
  case (1 i n d f m)
  show ?case
  proof (cases "i < n")
    case True
    have vs: "visits i n d = insert i (visits (i + d) n d)"
    proof -
      have "k = i \<or> i + d \<le> k \<and> d dvd k - (i + d)" if "i \<le> k" "d dvd k - i" for k
        using that dvd_next [of i k d] dvd_shift [of i d k] by (cases "k = i") auto
      then show ?thesis using True "1.prems"(2) by (auto simp: visits_def dvd_shift)
    qed
    have "copied g D m0 (S \<union> A i) (f i m)" using "1.prems" vs by simp
    then have "copied g D m0 (S \<union> A i \<union> (\<Union>k\<in>visits (i + d) n d. A k)) (snd (c_for (i + d) n d f (f i m)))"
      using "1.prems" True vs by (intro "1.IH") auto
    with True "1.prems"(2) vs show ?thesis by (simp add: c_for_step Un_assoc)
  next
    case False
    then have "visits i n d = {}" by (auto simp: visits_def)
    with False "1.prems" show ?thesis by simp
  qed
qed

end
