(* ===== verification/Sw_Rgb.thy ===== *)
theory Sw_Rgb
  imports Exynos_Prelude
begin

text \<open>
  The RGB to YUV 4:2:0 converters of \<open>libswconverter/swconvertor.c\<close>. The six C functions
  are one loop nest with a different pixel fetch (16-bit RGB565, 32-bit BGRA8888 or
  RGBA8888) and a different chroma store (two planes, or one interleaved plane). The
  model keeps the C structure: a fetch per source format, one loop per chroma store, and
  the running indices \<open>yIndex\<close>, \<open>uIndex\<close>, \<open>vIndex\<close>, \<open>uvIndex\<close> as loop state. The
  pixel arithmetic is on 32-bit words, so that the negative coefficients wrap as they do
  for \<open>unsigned int\<close>.
\<close>

section \<open>Pixel arithmetic\<close>

type_synonym rgb = "u32 \<times> u32 \<times> u32"

definition rgb_Y :: "rgb \<Rightarrow> u8" where
  "rgb_Y = (\<lambda>(R, G, B).
     let Y = 66 * R + 129 * G + 25 * B + 128; Y = drop_bit 8 Y; Y = Y + 16 in ucast Y)"

definition rgb_U :: "rgb \<Rightarrow> u8" where
  "rgb_U = (\<lambda>(R, G, B).
     let U = - 38 * R - 74 * G + 112 * B + 128; U = drop_bit 8 U; U = U + 128 in ucast U)"

definition rgb_V :: "rgb \<Rightarrow> u8" where
  "rgb_V = (\<lambda>(R, G, B).
     let V = 112 * R - 94 * G - 18 * B + 128; V = drop_bit 8 V; V = V + 128 in ucast V)"

text \<open>The masks and shifts of each source format.\<close>

definition rgb565_P :: "u32 \<Rightarrow> rgb" where
  "rgb565_P tmp =
     (let R = drop_bit 8 (tmp AND 0xF800); G = drop_bit 3 (tmp AND 0x7E0);
          B = tmp AND 0x1F; B = push_bit 3 B in (R, G, B))"

definition rgb565_SP :: "u32 \<Rightarrow> rgb" where
  "rgb565_SP tmp =
     (let R = drop_bit 11 (tmp AND 0xF800); R = R * 8; G = drop_bit 5 (tmp AND 0x7E0);
          G = G * 4; B = tmp AND 0x1F; B = B * 8 in (R, G, B))"

definition bgra8888 :: "u32 \<Rightarrow> rgb" where
  "bgra8888 tmp =
     (drop_bit 16 (tmp AND 0xFF0000), drop_bit 8 (tmp AND 0xFF00), tmp AND 0xFF)"

definition rgba8888 :: "u32 \<Rightarrow> rgb" where
  "rgba8888 tmp =
     (tmp AND 0xFF, drop_bit 8 (tmp AND 0xFF00), drop_bit 16 (tmp AND 0xFF0000))"

section \<open>The conversion loops\<close>

text \<open>One pixel of the planar conversion: the state is memory, \<open>yIndex\<close>, \<open>uIndex\<close>, \<open>vIndex\<close>.\<close>

definition yuv420p_pixel ::
  "(memory \<Rightarrow> nat \<Rightarrow> nat \<Rightarrow> rgb) \<Rightarrow> addr \<Rightarrow> addr \<Rightarrow> addr \<Rightarrow> nat \<Rightarrow> nat
     \<Rightarrow> memory \<times> nat \<times> nat \<times> nat \<Rightarrow> memory \<times> nat \<times> nat \<times> nat" where
  "yuv420p_pixel px y_dst u_dst v_dst j i = (\<lambda>(m, yIndex, uIndex, vIndex).
     let rgb = px m j i; m = m(y_dst + yIndex := rgb_Y rgb); yIndex = add32 yIndex 1 in
     if j mod 2 = 0 \<and> i mod 2 = 0 then
       (let m = m(u_dst + uIndex := rgb_U rgb); m = m(v_dst + vIndex := rgb_V rgb)
        in (m, yIndex, add32 uIndex 1, add32 vIndex 1))
     else (m, yIndex, uIndex, vIndex))"

definition yuv420p_loop ::
  "(memory \<Rightarrow> nat \<Rightarrow> nat \<Rightarrow> rgb) \<Rightarrow> addr \<Rightarrow> addr \<Rightarrow> addr \<Rightarrow> nat \<Rightarrow> nat \<Rightarrow> memory \<Rightarrow> memory" where
  "yuv420p_loop px y_dst u_dst v_dst width height m =
     fst (snd (c_for 0 height 1
       (\<lambda>j st. snd (c_for 0 width 1 (yuv420p_pixel px y_dst u_dst v_dst j) st)) (m, 0, 0, 0)))"

text \<open>One pixel of the semi-planar conversion: the state is memory, \<open>yIndex\<close>, \<open>uvIndex\<close>.\<close>

definition yuv420sp_pixel ::
  "(memory \<Rightarrow> nat \<Rightarrow> nat \<Rightarrow> rgb) \<Rightarrow> addr \<Rightarrow> addr \<Rightarrow> nat \<Rightarrow> nat
     \<Rightarrow> memory \<times> nat \<times> nat \<Rightarrow> memory \<times> nat \<times> nat" where
  "yuv420sp_pixel px y_dst uv_dst j i = (\<lambda>(m, yIndex, uvIndex).
     let rgb = px m j i; m = m(y_dst + yIndex := rgb_Y rgb); yIndex = add32 yIndex 1 in
     if j mod 2 = 0 \<and> i mod 2 = 0 then
       (let m = m(uv_dst + uvIndex := rgb_U rgb); uvIndex = add32 uvIndex 1;
            m = m(uv_dst + uvIndex := rgb_V rgb); uvIndex = add32 uvIndex 1
        in (m, yIndex, uvIndex))
     else (m, yIndex, uvIndex))"

definition yuv420sp_loop ::
  "(memory \<Rightarrow> nat \<Rightarrow> nat \<Rightarrow> rgb) \<Rightarrow> addr \<Rightarrow> addr \<Rightarrow> nat \<Rightarrow> nat \<Rightarrow> memory \<Rightarrow> memory" where
  "yuv420sp_loop px y_dst uv_dst width height m =
     fst (snd (c_for 0 height 1
       (\<lambda>j st. snd (c_for 0 width 1 (yuv420sp_pixel px y_dst uv_dst j) st)) (m, 0, 0)))"

text \<open>
  \<open>pSrc[j * width + i]\<close>: the RGB565 functions take \<open>int\<close> sizes (a negative size runs no
  iteration, which \<open>nat\<close> reflects; an \<open>int\<close> index that overflows is undefined in C), the
  others \<open>unsigned int\<close> ones, whose index wraps.
\<close>

definition csc_RGB565_to_YUV420P ::
  "addr \<Rightarrow> addr \<Rightarrow> addr \<Rightarrow> addr \<Rightarrow> int \<Rightarrow> int \<Rightarrow> memory \<Rightarrow> memory" where
  "csc_RGB565_to_YUV420P y_dst u_dst v_dst rgb_src width height =
     yuv420p_loop (\<lambda>m j i. rgb565_P (rd16 m (rgb_src + 2 * (j * nat width + i))))
       y_dst u_dst v_dst (nat width) (nat height)"

definition csc_RGB565_to_YUV420SP ::
  "addr \<Rightarrow> addr \<Rightarrow> addr \<Rightarrow> int \<Rightarrow> int \<Rightarrow> memory \<Rightarrow> memory" where
  "csc_RGB565_to_YUV420SP y_dst uv_dst rgb_src width height =
     yuv420sp_loop (\<lambda>m j i. rgb565_SP (rd16 m (rgb_src + 2 * (j * nat width + i))))
       y_dst uv_dst (nat width) (nat height)"

definition csc_BGRA8888_to_YUV420P ::
  "addr \<Rightarrow> addr \<Rightarrow> addr \<Rightarrow> addr \<Rightarrow> nat \<Rightarrow> nat \<Rightarrow> memory \<Rightarrow> memory" where
  "csc_BGRA8888_to_YUV420P y_dst u_dst v_dst rgb_src width height =
     yuv420p_loop (\<lambda>m j i. bgra8888 (rd32 m (rgb_src + 4 * add32 (mul32 j width) i)))
       y_dst u_dst v_dst width height"

definition csc_RGBA8888_to_YUV420P ::
  "addr \<Rightarrow> addr \<Rightarrow> addr \<Rightarrow> addr \<Rightarrow> nat \<Rightarrow> nat \<Rightarrow> memory \<Rightarrow> memory" where
  "csc_RGBA8888_to_YUV420P y_dst u_dst v_dst rgb_src width height =
     yuv420p_loop (\<lambda>m j i. rgba8888 (rd32 m (rgb_src + 4 * add32 (mul32 j width) i)))
       y_dst u_dst v_dst width height"

definition csc_BGRA8888_to_YUV420SP ::
  "addr \<Rightarrow> addr \<Rightarrow> addr \<Rightarrow> nat \<Rightarrow> nat \<Rightarrow> memory \<Rightarrow> memory" where
  "csc_BGRA8888_to_YUV420SP y_dst uv_dst rgb_src width height =
     yuv420sp_loop (\<lambda>m j i. bgra8888 (rd32 m (rgb_src + 4 * add32 (mul32 j width) i)))
       y_dst uv_dst width height"

definition csc_RGBA8888_to_YUV420SP ::
  "addr \<Rightarrow> addr \<Rightarrow> addr \<Rightarrow> nat \<Rightarrow> nat \<Rightarrow> memory \<Rightarrow> memory" where
  "csc_RGBA8888_to_YUV420SP y_dst uv_dst rgb_src width height =
     yuv420sp_loop (\<lambda>m j i. rgba8888 (rd32 m (rgb_src + 4 * add32 (mul32 j width) i)))
       y_dst uv_dst width height"

section \<open>The reference image\<close>

text \<open>
  What the converters promise, without loops or running indices. \<open>yuv420p_part\<close> gives the
  memory when the first \<open>ny\<close> luma bytes and the first \<open>nu\<close>, \<open>nv\<close> chroma bytes are in
  place; the whole image has \<open>W * H\<close> luma bytes and a chroma sample for every 2 by 2
  block, the blocks at the right and lower edge included.
\<close>

definition luma_at :: "(memory \<Rightarrow> nat \<Rightarrow> nat \<Rightarrow> rgb) \<Rightarrow> memory \<Rightarrow> nat \<Rightarrow> nat \<Rightarrow> rgb" where
  "luma_at px m W n = px m (n div W) (n mod W)"

definition chroma_at :: "(memory \<Rightarrow> nat \<Rightarrow> nat \<Rightarrow> rgb) \<Rightarrow> memory \<Rightarrow> nat \<Rightarrow> nat \<Rightarrow> rgb" where
  "chroma_at px m CW n = px m (2 * (n div CW)) (2 * (n mod CW))"

definition yuv420p_part ::
  "(memory \<Rightarrow> nat \<Rightarrow> nat \<Rightarrow> rgb) \<Rightarrow> addr \<Rightarrow> addr \<Rightarrow> addr \<Rightarrow> nat \<Rightarrow> nat \<Rightarrow> nat \<Rightarrow> nat \<Rightarrow> memory \<Rightarrow> memory" where
  "yuv420p_part px y_dst u_dst v_dst W ny nu nv m = (\<lambda>a.
     if y_dst \<le> a \<and> a < y_dst + ny then rgb_Y (luma_at px m W (a - y_dst))
     else if u_dst \<le> a \<and> a < u_dst + nu then rgb_U (chroma_at px m ((W + 1) div 2) (a - u_dst))
     else if v_dst \<le> a \<and> a < v_dst + nv then rgb_V (chroma_at px m ((W + 1) div 2) (a - v_dst))
     else m a)"

definition chroma_size :: "nat \<Rightarrow> nat \<Rightarrow> nat" where
  "chroma_size W H = (W + 1) div 2 * ((H + 1) div 2)"

definition yuv420p_image ::
  "(memory \<Rightarrow> nat \<Rightarrow> nat \<Rightarrow> rgb) \<Rightarrow> addr \<Rightarrow> addr \<Rightarrow> addr \<Rightarrow> nat \<Rightarrow> nat \<Rightarrow> memory \<Rightarrow> memory" where
  "yuv420p_image px y_dst u_dst v_dst W H =
     yuv420p_part px y_dst u_dst v_dst W (W * H) (chroma_size W H) (chroma_size W H)"

definition yuv420sp_part ::
  "(memory \<Rightarrow> nat \<Rightarrow> nat \<Rightarrow> rgb) \<Rightarrow> addr \<Rightarrow> addr \<Rightarrow> nat \<Rightarrow> nat \<Rightarrow> nat \<Rightarrow> memory \<Rightarrow> memory" where
  "yuv420sp_part px y_dst uv_dst W ny nuv m = (\<lambda>a.
     if y_dst \<le> a \<and> a < y_dst + ny then rgb_Y (luma_at px m W (a - y_dst))
     else if uv_dst \<le> a \<and> a < uv_dst + nuv then
       (let n = a - uv_dst; c = chroma_at px m ((W + 1) div 2) (n div 2)
        in if n mod 2 = 0 then rgb_U c else rgb_V c)
     else m a)"

definition yuv420sp_image ::
  "(memory \<Rightarrow> nat \<Rightarrow> nat \<Rightarrow> rgb) \<Rightarrow> addr \<Rightarrow> addr \<Rightarrow> nat \<Rightarrow> nat \<Rightarrow> memory \<Rightarrow> memory" where
  "yuv420sp_image px y_dst uv_dst W H =
     yuv420sp_part px y_dst uv_dst W (W * H) (2 * chroma_size W H)"



section \<open>Pixel arithmetic against the integers\<close>

lemma take_bit_low_add:
  fixes q c :: int
  assumes "k \<le> n" "k \<le> l"
  shows "take_bit k (take_bit n q + take_bit l c) = take_bit k (q + c)"
proof -
  have "take_bit k (take_bit k (take_bit n q) + take_bit k (take_bit l c)) = take_bit k (take_bit k q + take_bit k c)"
    using assms by (simp add: min_absorb1)
  then show ?thesis by (simp only: take_bit_add)
qed

text \<open>
  A wrapped 32-bit sum, shifted right logically, offset and cut to a byte is the floor
  division of the exact sum: the bits the wrap-around disturbs are the ones the cast drops.
\<close>

lemma scaled_byte:
  fixes e c :: int
  assumes "0 \<le> e + 256 * c" "e + 256 * c < 65536"
  shows "uint (ucast (drop_bit 8 (word_of_int e :: u32) + word_of_int c) :: u8) = e div 256 + c"
proof -
  have "uint (ucast (drop_bit 8 (word_of_int e :: u32) + word_of_int c) :: u8)
      = take_bit 8 (take_bit 32 (drop_bit 8 (take_bit 32 e) + take_bit 32 c))"
    by (simp add: unsigned_ucast_eq uint_word_of_int_eq unsigned_drop_bit_eq uint_word_ariths take_bit_eq_mod)
  also have "\<dots> = take_bit 8 (drop_bit 8 (take_bit 32 e) + take_bit 32 c)"
    by simp
  also have "\<dots> = take_bit 8 (take_bit 24 (drop_bit 8 e) + take_bit 32 c)"
    by (simp add: drop_bit_take_bit)
  also have "\<dots> = take_bit 8 (drop_bit 8 e + c)" by (rule take_bit_low_add) simp_all
  also have "0 \<le> e div 256 + c" "e div 256 + c < 256" using assms by auto
  then have "take_bit 8 (drop_bit 8 e + c) = e div 256 + c"
    by (simp add: take_bit_int_eq_self drop_bit_eq_div)
  finally show ?thesis .
qed

lemma scaled_range: "256 * l \<le> e \<Longrightarrow> e < 256 * h + 256 \<Longrightarrow> e div 256 + c \<in> {l + c..h + c}" for e l h c :: int
  by auto

definition rgb8 :: "rgb \<Rightarrow> bool" where
  "rgb8 = (\<lambda>(R, G, B). uint R \<le> 255 \<and> uint G \<le> 255 \<and> uint B \<le> 255)"

lemma rgb8_bounds:
  assumes "rgb8 (R, G, B)"
  shows "0 \<le> uint R" "0 \<le> uint G" "0 \<le> uint B" "uint R \<le> 255" "uint G \<le> 255" "uint B \<le> 255"
  using assms by (simp_all add: rgb8_def)

lemma rgb_Y_uint:
  assumes "rgb8 (R, G, B)"
  shows "uint (rgb_Y (R, G, B)) = (66 * uint R + 129 * uint G + 25 * uint B + 128) div 256 + 16"
proof -
  let ?e = "66 * uint R + 129 * uint G + 25 * uint B + 128"
  note b = rgb8_bounds [OF assms]
  have "0 \<le> ?e + 256 * 16" using b by linarith
  moreover have "?e + 256 * 16 < 65536" using b by linarith
  ultimately show ?thesis using scaled_byte [of ?e 16] by (simp add: rgb_Y_def Let_def)
qed

lemma rgb_U_uint:
  assumes "rgb8 (R, G, B)"
  shows "uint (rgb_U (R, G, B)) = (- 38 * uint R - 74 * uint G + 112 * uint B + 128) div 256 + 128"
proof -
  let ?e = "- 38 * uint R - 74 * uint G + 112 * uint B + 128"
  note b = rgb8_bounds [OF assms]
  have "0 \<le> ?e + 256 * 128" using b by linarith
  moreover have "?e + 256 * 128 < 65536" using b by linarith
  ultimately show ?thesis using scaled_byte [of ?e 128] by (simp add: rgb_U_def Let_def)
qed

lemma rgb_V_uint:
  assumes "rgb8 (R, G, B)"
  shows "uint (rgb_V (R, G, B)) = (112 * uint R - 94 * uint G - 18 * uint B + 128) div 256 + 128"
proof -
  let ?e = "112 * uint R - 94 * uint G - 18 * uint B + 128"
  note b = rgb8_bounds [OF assms]
  have "0 \<le> ?e + 256 * 128" using b by linarith
  moreover have "?e + 256 * 128 < 65536" using b by linarith
  ultimately show ?thesis using scaled_byte [of ?e 128] by (simp add: rgb_V_def Let_def)
qed

lemma drop_and_le: "uint (drop_bit n (x AND y)) \<le> uint y div 2 ^ n" for x y :: u32
proof -
  have "uint (x AND y) \<le> uint y" by (metis word_and_le1 word_le_def)
  moreover have "uint (drop_bit n (x AND y)) = uint (x AND y) div 2 ^ n"
    using uint_bounded [of "x AND y"]
    by (simp only: unsigned_drop_bit_eq) (simp add: drop_bit_eq_div take_bit_int_eq_self)
  ultimately show ?thesis by (simp add: zdiv_mono1)
qed

lemma rgb8_fetch:
  "rgb8 (bgra8888 t)" "rgb8 (rgba8888 t)"
  using drop_and_le [of 16 t "0xFF0000"] drop_and_le [of 8 t "0xFF00"] drop_and_le [of 0 t "0xFF"]
  by (simp_all add: rgb8_def bgra8888_def rgba8888_def)


lemma rgb565_masks:
  "(0xF800 :: u32) = push_bit 11 (mask 5)" "(0x7E0 :: u32) = push_bit 5 (mask 6)"
  "(0x1F :: u32) = mask 5" "x * 8 = push_bit 3 x" "x * 4 = push_bit 2 x" for x :: u32
  by (simp_all add: push_bit_eq_mult mask_eq_exp_minus_1)

lemma rgb565_P_eq_SP: "rgb565_P t = rgb565_SP t"
  unfolding rgb565_P_def rgb565_SP_def Let_def rgb565_masks prod.inject
  by (intro conjI bit_word_eqI) (auto simp: bit_simps)

lemma rgb8_565: "rgb8 (rgb565_SP t)"
proof -
  have "rgb565_P t = (drop_bit 8 (t AND 0xF800), drop_bit 3 (t AND 0x7E0), push_bit 3 (t AND 0x1F))"
    by (simp add: rgb565_P_def Let_def)
  moreover have "push_bit 3 (t AND 0x1F) = push_bit 3 t AND 0xF8" by (simp add: push_bit_and)
  ultimately show ?thesis
  using drop_and_le [of 8 t "0xF800"] drop_and_le [of 3 t "0x7E0"] drop_and_le [of 0 "push_bit 3 t" "0xF8"]
  by (simp add: rgb565_P_eq_SP [symmetric] rgb8_def)
qed

section \<open>The loops against the reference image\<close>

text \<open>The chroma index before pixel \<open>i\<close> of row \<open>j\<close>.\<close>

definition chroma_pos :: "nat \<Rightarrow> nat \<Rightarrow> nat \<Rightarrow> nat" where
  "chroma_pos W j i = (j + 1) div 2 * ((W + 1) div 2) + (if even j then (i + 1) div 2 else 0)"

lemma chroma_pos_row: "chroma_pos W j W = chroma_pos W (Suc j) 0"
  by (cases "even j") (auto simp: chroma_pos_def elim!: evenE oddE)

lemma chroma_pos_end: "chroma_pos W H 0 = chroma_size W H"
  by (simp add: chroma_pos_def chroma_size_def)

lemma chroma_pos_Suc:
  "chroma_pos W j (Suc i) = (if even j \<and> even i then Suc (chroma_pos W j i) else chroma_pos W j i)"
  by (auto simp: chroma_pos_def elim!: evenE oddE)

lemma chroma_pos_less:
  assumes "j < H" "i < W" "even j" "even i"
  shows "chroma_pos W j i < chroma_size W H"
proof -
  from assms obtain a b where ab: "j = 2 * a" "i = 2 * b" by (auto elim!: evenE)
  with assms have "b < (W + 1) div 2" "Suc a \<le> (H + 1) div 2" by auto
  then have "a * ((W + 1) div 2) + b < Suc a * ((W + 1) div 2)" by simp
  also have "\<dots> \<le> (H + 1) div 2 * ((W + 1) div 2)" using \<open>Suc a \<le> _\<close> by (rule mult_le_mono1)
  finally show ?thesis using ab by (simp add: chroma_pos_def chroma_size_def mult.commute)
qed

lemma chroma_at_pos:
  assumes "i < W" "even j" "even i"
  shows "chroma_at px m ((W + 1) div 2) (chroma_pos W j i) = px m j i"
proof -
  from assms obtain a b where ab: "j = 2 * a" "i = 2 * b" by (auto elim!: evenE)
  with assms have "b < (W + 1) div 2" by auto
  then show ?thesis using ab by (simp add: chroma_at_def chroma_pos_def)
qed

lemma luma_at_pos: "i < W \<Longrightarrow> luma_at px m W (j * W + i) = px m j i"
  by (simp add: luma_at_def)

lemma luma_pos_less: "j < H \<Longrightarrow> i < W \<Longrightarrow> j * W + i < W * H" for j :: nat
  using index_less [of j H i W] by (simp add: mult.commute)

lemma chroma_size_le: "0 < W \<Longrightarrow> 0 < H \<Longrightarrow> chroma_size W H \<le> W * H"
  unfolding chroma_size_def by (intro mult_le_mono) auto

text \<open>Extending the part of the image that is in place by one byte.\<close>

lemma yuv420p_part_y:
  "(yuv420p_part px y u v W ny nu nv m)(y + ny := rgb_Y (luma_at px m W ny)) = yuv420p_part px y u v W (Suc ny) nu nv m"
  by (rule ext) (auto simp: yuv420p_part_def)

lemma yuv420p_part_u:
  "apart y ny u (Suc nu) \<Longrightarrow> (yuv420p_part px y u v W ny nu nv m)(u + nu := rgb_U (chroma_at px m ((W + 1) div 2) nu))
    = yuv420p_part px y u v W ny (Suc nu) nv m"
  by (rule ext) (auto simp: yuv420p_part_def apart_def)

lemma yuv420p_part_v:
  "apart y ny v (Suc nv) \<Longrightarrow> apart u nu v (Suc nv) \<Longrightarrow>
   (yuv420p_part px y u v W ny nu nv m)(v + nv := rgb_V (chroma_at px m ((W + 1) div 2) nv))
    = yuv420p_part px y u v W ny nu (Suc nv) m"
  by (rule ext) (auto simp: yuv420p_part_def apart_def)

text \<open>A fetch that does not see the bytes of the destination planes.\<close>

definition fetch_safe :: "(memory \<Rightarrow> nat \<Rightarrow> nat \<Rightarrow> rgb) \<Rightarrow> addr set \<Rightarrow> nat \<Rightarrow> nat \<Rightarrow> memory \<Rightarrow> bool" where
  "fetch_safe px dst W H m0 \<longleftrightarrow>
     (\<forall>m j i. j < H \<longrightarrow> i < W \<longrightarrow> (\<forall>a. a \<notin> dst \<longrightarrow> m a = m0 a) \<longrightarrow> px m j i = px m0 j i)"

definition p_state where
  "p_state px y u v W m0 j i =
     (yuv420p_part px y u v W (j * W + i) (chroma_pos W j i) (chroma_pos W j i) m0,
      j * W + i, chroma_pos W j i, chroma_pos W j i)"

lemma add32_Suc: "n < N \<Longrightarrow> N < UINT_RANGE \<Longrightarrow> add32 n (Suc 0) = Suc n"
  by (simp add: u32_simps)

lemma chroma_pos_le:
  assumes "j < H" "i < W"
  shows "chroma_pos W j i \<le> chroma_size W H"
proof (cases "even j")
  case True
  then obtain a where a: "j = 2 * a" by (auto elim!: evenE)
  with assms have "Suc a \<le> (H + 1) div 2" by auto
  have "a * ((W + 1) div 2) + (i + 1) div 2 \<le> Suc a * ((W + 1) div 2)"
    using assms by (simp add: div_le_mono)
  also have "\<dots> \<le> (H + 1) div 2 * ((W + 1) div 2)" using \<open>Suc a \<le> _\<close> by (rule mult_le_mono1)
  finally show ?thesis using a by (simp add: chroma_pos_def chroma_size_def mult.commute)
next
  case False
  have "(j + 1) div 2 \<le> (H + 1) div 2" using assms by (intro div_le_mono) simp
  then have "(j + 1) div 2 * ((W + 1) div 2) \<le> (H + 1) div 2 * ((W + 1) div 2)" by (rule mult_le_mono1)
  then show ?thesis using False unfolding chroma_pos_def chroma_size_def by (simp only: if_False mult.commute add_0_right)
qed

lemma apart_sub: "apart a n b k \<Longrightarrow> n' \<le> n \<Longrightarrow> k' \<le> k \<Longrightarrow> apart a n' b k'"
  by (auto simp: apart_def)

lemma yuv420p_pixel_step:
  assumes dis: "apart y (W * H) u (chroma_size W H)" "apart y (W * H) v (chroma_size W H)"
      "apart u (chroma_size W H) v (chroma_size W H)"
    and sz: "W * H < UINT_RANGE" and ji: "j < H" "i < W"
    and px: "fetch_safe px ({y..<y + W * H} \<union> {u..<u + chroma_size W H} \<union> {v..<v + chroma_size W H}) W H m0"
  shows "yuv420p_pixel px y u v j i (p_state px y u v W m0 j i) = p_state px y u v W m0 j (Suc i)"
proof -
  let ?n = "j * W + i" and ?c = "chroma_pos W j i"
  have n: "?n < W * H" using ji by (rule luma_pos_less)
  have cs: "chroma_size W H \<le> W * H" using ji by (intro chroma_size_le) auto
  have c: "?c \<le> chroma_size W H" using ji by (rule chroma_pos_le)
  have fetch: "px (yuv420p_part px y u v W ?n ?c ?c m0) j i = px m0 j i"
  proof -
    have "yuv420p_part px y u v W ?n ?c ?c m0 a = m0 a"
      if "a \<notin> {y..<y + W * H} \<union> {u..<u + chroma_size W H} \<union> {v..<v + chroma_size W H}" for a
    proof -
      from that n c have "\<not> (y \<le> a \<and> a < y + ?n)" "\<not> (u \<le> a \<and> a < u + ?c)" "\<not> (v \<le> a \<and> a < v + ?c)"
        by auto
      then show ?thesis by (simp only: yuv420p_part_def if_False)
    qed
    with px ji show ?thesis unfolding fetch_safe_def by blast
  qed
  have luma: "px m0 j i = luma_at px m0 W ?n" using ji by (simp add: luma_at_pos)
  have yI: "add32 ?n (Suc 0) = Suc ?n" using n sz by (rule add32_Suc)
  show ?thesis
  proof (cases "even j \<and> even i")
    case False
    then have odd: "(j mod 2 = 0 \<and> i mod 2 = 0) = False" by presburger
    show ?thesis
      using False unfolding yuv420p_pixel_def p_state_def Let_def prod.case fetch odd if_False
      by (simp add: yI chroma_pos_Suc luma yuv420p_part_y)
  next
    case True
    then have lt: "?c < chroma_size W H" using ji by (simp add: chroma_pos_less)
    have cI: "add32 ?c (Suc 0) = Suc ?c" using lt cs sz by (intro add32_Suc) auto
    have chroma: "px m0 j i = chroma_at px m0 ((W + 1) div 2) ?c" using ji True chroma_at_pos [of i W j px m0] by simp
    have a: "apart y (Suc ?n) u (Suc ?c)" "apart y (Suc ?n) v (Suc ?c)" "apart u (Suc ?c) v (Suc ?c)"
      using dis n lt by (auto elim!: apart_sub)
    have "(yuv420p_part px y u v W ?n ?c ?c m0)
           (y + ?n := rgb_Y (px m0 j i), u + ?c := rgb_U (px m0 j i), v + ?c := rgb_V (px m0 j i))
        = yuv420p_part px y u v W (Suc ?n) (Suc ?c) (Suc ?c) m0"
      unfolding luma yuv420p_part_y unfolding luma [symmetric] chroma
      using a by (simp only: yuv420p_part_u yuv420p_part_v)
    moreover have "(j mod 2 = 0 \<and> i mod 2 = 0) = True" using True by auto
    ultimately show ?thesis
      using True unfolding yuv420p_pixel_def p_state_def Let_def prod.case fetch
      by (simp add: yI cI chroma_pos_Suc)
  qed
qed

lemma yuv420p_loop_image:
  assumes dis: "apart y (W * H) u (chroma_size W H)" "apart y (W * H) v (chroma_size W H)"
      "apart u (chroma_size W H) v (chroma_size W H)"
    and sz: "W * H < UINT_RANGE"
    and px: "fetch_safe px ({y..<y + W * H} \<union> {u..<u + chroma_size W H} \<union> {v..<v + chroma_size W H}) W H m0"
  shows "yuv420p_loop px y u v W H m0 = yuv420p_image px y u v W H m0"
proof -
  let ?S = "p_state px y u v W m0"
  let ?row = "\<lambda>j st. snd (c_for 0 W 1 (yuv420p_pixel px y u v j) st)"
  have row: "?row j (?S j 0) = ?S (Suc j) 0" if "j < H" for j
  proof -
    have "?row j (?S j 0) = ?S j W"
      by (rule c_for_counted [where I = "\<lambda>i st. st = ?S j i"])
        (use that yuv420p_pixel_step [OF dis sz that _ px] in auto)
    then show ?thesis by (simp add: p_state_def chroma_pos_row add.commute)
  qed
  have "snd (c_for 0 H 1 ?row (?S 0 0)) = ?S H 0"
    by (rule c_for_counted [where I = "\<lambda>j st. st = ?S j 0"]) (use row in auto)
  moreover have "?S 0 0 = (m0, 0, 0, 0)"
    by (simp add: p_state_def chroma_pos_def) (rule ext, auto simp: yuv420p_part_def)
  moreover have "fst (?S H 0) = yuv420p_image px y u v W H m0"
    by (simp add: p_state_def chroma_pos_end yuv420p_image_def mult.commute)
  ultimately show ?thesis by (simp add: yuv420p_loop_def)
qed

subsection \<open>Semi-planar\<close>

lemma yuv420sp_part_y:
  "(yuv420sp_part px y uv W ny nuv m)(y + ny := rgb_Y (luma_at px m W ny)) = yuv420sp_part px y uv W (Suc ny) nuv m"
  by (rule ext) (auto simp: yuv420sp_part_def)

lemma yuv420sp_part_uv:
  assumes "apart y ny uv (2 * Suc c)"
  shows "(yuv420sp_part px y uv W ny (2 * c) m)
      (uv + 2 * c := rgb_U (chroma_at px m ((W + 1) div 2) c),
       uv + Suc (2 * c) := rgb_V (chroma_at px m ((W + 1) div 2) c))
    = yuv420sp_part px y uv W ny (2 * Suc c) m"
proof (rule ext)
  fix a
  consider "a = uv + 2 * c" | "a = uv + Suc (2 * c)" | "a < uv + 2 * c \<or> uv + 2 * Suc c \<le> a"
    by (cases "a < uv + 2 * c"; cases "a = uv + 2 * c"; cases "a = uv + Suc (2 * c)") auto
  then show "((yuv420sp_part px y uv W ny (2 * c) m)
      (uv + 2 * c := rgb_U (chroma_at px m ((W + 1) div 2) c),
       uv + Suc (2 * c) := rgb_V (chroma_at px m ((W + 1) div 2) c))) a
    = yuv420sp_part px y uv W ny (2 * Suc c) m a"
    using assms by cases (auto simp: yuv420sp_part_def apart_def Let_def)
qed

definition sp_state where
  "sp_state px y uv W m0 j i =
     (yuv420sp_part px y uv W (j * W + i) (2 * chroma_pos W j i) m0, j * W + i, 2 * chroma_pos W j i)"

lemma yuv420sp_pixel_step:
  assumes dis: "apart y (W * H) uv (2 * chroma_size W H)"
    and sz: "2 * (W * H) < UINT_RANGE" and ji: "j < H" "i < W"
    and px: "fetch_safe px ({y..<y + W * H} \<union> {uv..<uv + 2 * chroma_size W H}) W H m0"
  shows "yuv420sp_pixel px y uv j i (sp_state px y uv W m0 j i) = sp_state px y uv W m0 j (Suc i)"
proof -
  let ?n = "j * W + i" and ?c = "chroma_pos W j i"
  have n: "?n < W * H" using ji by (rule luma_pos_less)
  have cs: "chroma_size W H \<le> W * H" using ji by (intro chroma_size_le) auto
  have c: "?c \<le> chroma_size W H" using ji by (rule chroma_pos_le)
  have fetch: "px (yuv420sp_part px y uv W ?n (2 * ?c) m0) j i = px m0 j i"
  proof -
    have "yuv420sp_part px y uv W ?n (2 * ?c) m0 a = m0 a"
      if "a \<notin> {y..<y + W * H} \<union> {uv..<uv + 2 * chroma_size W H}" for a
    proof -
      from that n c have "\<not> (y \<le> a \<and> a < y + ?n)" "\<not> (uv \<le> a \<and> a < uv + 2 * ?c)" by auto
      then show ?thesis by (simp only: yuv420sp_part_def if_False)
    qed
    with px ji show ?thesis unfolding fetch_safe_def by blast
  qed
  have luma: "px m0 j i = luma_at px m0 W ?n" using ji by (simp add: luma_at_pos)
  have yI: "add32 ?n (Suc 0) = Suc ?n" using n sz by (intro add32_Suc [where N = "W * H"]) linarith+
  show ?thesis
  proof (cases "even j \<and> even i")
    case False
    then have odd: "(j mod 2 = 0 \<and> i mod 2 = 0) = False" by presburger
    show ?thesis
      using False unfolding yuv420sp_pixel_def sp_state_def Let_def prod.case fetch odd if_False
      by (simp add: yI chroma_pos_Suc luma yuv420sp_part_y)
  next
    case True
    then have lt: "?c < chroma_size W H" using ji by (simp add: chroma_pos_less)
    have cI: "add32 (2 * ?c) (Suc 0) = Suc (2 * ?c)" "add32 (Suc (2 * ?c)) (Suc 0) = Suc (Suc (2 * ?c))"
      using lt cs sz by (auto intro!: add32_Suc [where N = "2 * (W * H)"])
    have chroma: "px m0 j i = chroma_at px m0 ((W + 1) div 2) ?c" using ji True chroma_at_pos [of i W j px m0] by simp
    have a: "apart y (Suc ?n) uv (2 * Suc ?c)"
      using n lt by (intro apart_sub [OF dis]) auto
    have "(yuv420sp_part px y uv W ?n (2 * ?c) m0)
           (y + ?n := rgb_Y (px m0 j i), uv + 2 * ?c := rgb_U (px m0 j i), uv + Suc (2 * ?c) := rgb_V (px m0 j i))
        = yuv420sp_part px y uv W (Suc ?n) (2 * Suc ?c) m0"
      unfolding luma yuv420sp_part_y unfolding luma [symmetric] chroma
      using a by (rule yuv420sp_part_uv)
    moreover have "(j mod 2 = 0 \<and> i mod 2 = 0) = True" using True by auto
    ultimately show ?thesis
      using True unfolding yuv420sp_pixel_def sp_state_def Let_def prod.case fetch
      by (simp add: yI cI chroma_pos_Suc)
  qed
qed

lemma yuv420sp_loop_image:
  assumes dis: "apart y (W * H) uv (2 * chroma_size W H)"
    and sz: "2 * (W * H) < UINT_RANGE"
    and px: "fetch_safe px ({y..<y + W * H} \<union> {uv..<uv + 2 * chroma_size W H}) W H m0"
  shows "yuv420sp_loop px y uv W H m0 = yuv420sp_image px y uv W H m0"
proof -
  let ?S = "sp_state px y uv W m0"
  let ?row = "\<lambda>j st. snd (c_for 0 W 1 (yuv420sp_pixel px y uv j) st)"
  have row: "?row j (?S j 0) = ?S (Suc j) 0" if "j < H" for j
  proof -
    have "?row j (?S j 0) = ?S j W"
      by (rule c_for_counted [where I = "\<lambda>i st. st = ?S j i"])
        (use that yuv420sp_pixel_step [OF dis sz that _ px] in auto)
    then show ?thesis by (simp add: sp_state_def chroma_pos_row add.commute)
  qed
  have "snd (c_for 0 H 1 ?row (?S 0 0)) = ?S H 0"
    by (rule c_for_counted [where I = "\<lambda>j st. st = ?S j 0"]) (use row in auto)
  moreover have "?S 0 0 = (m0, 0, 0)"
    by (simp add: sp_state_def chroma_pos_def) (rule ext, auto simp: yuv420sp_part_def)
  moreover have "fst (?S H 0) = yuv420sp_image px y uv W H m0"
    by (simp add: sp_state_def chroma_pos_end yuv420sp_image_def mult.commute)
  ultimately show ?thesis by (simp add: yuv420sp_loop_def)
qed


section \<open>Concrete fetches\<close>

lemma rd32_cong: "(\<And>k. k < 4 \<Longrightarrow> m (p + k) = m' (p + k)) \<Longrightarrow> rd32 m p = rd32 m' p"
  unfolding rd32_def by (metis add.right_neutral one_less_numeral_iff semiring_norm(76) zero_less_numeral numeral_less_iff semiring_norm(78,79,81))

lemma rd16_cong: "(\<And>k. k < 2 \<Longrightarrow> m (p + k) = m' (p + k)) \<Longrightarrow> rd16 m p = rd16 m' p"
  unfolding rd16_def by (metis add.right_neutral one_less_numeral_iff semiring_norm(76) zero_less_numeral)

lemma fetch_safe_load:
  assumes ld: "\<And>m m' p. (\<And>k. k < s \<Longrightarrow> m (p + k) = m' (p + k)) \<Longrightarrow> ld m p = ld m' p"
    and ix: "\<And>j i. j < H \<Longrightarrow> i < W \<Longrightarrow> ix j i = j * W + i"
    and dis: "\<And>a. a \<in> dst \<Longrightarrow> a < src \<or> src + s * (W * H) \<le> a"
  shows "fetch_safe (\<lambda>m j i. f (ld m (src + s * ix j i))) dst W H m0"
  unfolding fetch_safe_def
proof (intro allI impI)
  fix m :: memory and j i
  assume ji: "j < H" "i < W" and m: "\<forall>a. a \<notin> dst \<longrightarrow> m a = m0 a"
  have "Suc (j * W + i) \<le> W * H" using luma_pos_less [OF ji] by simp
  then have n: "s * (j * W + i) + s \<le> s * (W * H)" by (metis mult_Suc_right mult_le_mono2 add.commute)
  have "ld m (src + s * (j * W + i)) = ld m0 (src + s * (j * W + i))"
  proof (rule ld)
    fix k :: nat assume "k < s"
    with n have "src + s * (j * W + i) + k < src + s * (W * H)" by linarith
    moreover have "src \<le> src + s * (j * W + i) + k" by simp
    ultimately have "src + s * (j * W + i) + k \<notin> dst" using dis by fastforce
    with m show "m (src + s * (j * W + i) + k) = m0 (src + s * (j * W + i) + k)" by blast
  qed
  with ix [OF ji] show "f (ld m (src + s * ix j i)) = f (ld m0 (src + s * ix j i))" by simp
qed

lemma idx32: "j < H \<Longrightarrow> i < W \<Longrightarrow> W * H < UINT_RANGE \<Longrightarrow> add32 (mul32 j W) i = j * W + i"
  using luma_pos_less [of j H i W] by (simp add: u32_simps)

text \<open>The reference image, pixel by pixel.\<close>

definition yuv420p_pixels ::
  "(nat \<Rightarrow> nat \<Rightarrow> rgb) \<Rightarrow> addr \<Rightarrow> addr \<Rightarrow> addr \<Rightarrow> nat \<Rightarrow> nat \<Rightarrow> memory \<Rightarrow> memory \<Rightarrow> bool" where
  "yuv420p_pixels P y u v W H m m' \<longleftrightarrow>
     (\<forall>j i. j < H \<longrightarrow> i < W \<longrightarrow> m' (y + (j * W + i)) = rgb_Y (P j i)) \<and>
     (\<forall>j i. 2 * j < H \<longrightarrow> 2 * i < W \<longrightarrow>
        m' (u + (j * ((W + 1) div 2) + i)) = rgb_U (P (2 * j) (2 * i)) \<and>
        m' (v + (j * ((W + 1) div 2) + i)) = rgb_V (P (2 * j) (2 * i))) \<and>
     (\<forall>a. a \<notin> {y..<y + W * H} \<union> {u..<u + chroma_size W H} \<union> {v..<v + chroma_size W H} \<longrightarrow> m' a = m a)"

definition yuv420sp_pixels ::
  "(nat \<Rightarrow> nat \<Rightarrow> rgb) \<Rightarrow> addr \<Rightarrow> addr \<Rightarrow> nat \<Rightarrow> nat \<Rightarrow> memory \<Rightarrow> memory \<Rightarrow> bool" where
  "yuv420sp_pixels P y uv W H m m' \<longleftrightarrow>
     (\<forall>j i. j < H \<longrightarrow> i < W \<longrightarrow> m' (y + (j * W + i)) = rgb_Y (P j i)) \<and>
     (\<forall>j i. 2 * j < H \<longrightarrow> 2 * i < W \<longrightarrow>
        m' (uv + 2 * (j * ((W + 1) div 2) + i)) = rgb_U (P (2 * j) (2 * i)) \<and>
        m' (uv + 2 * (j * ((W + 1) div 2) + i) + 1) = rgb_V (P (2 * j) (2 * i))) \<and>
     (\<forall>a. a \<notin> {y..<y + W * H} \<union> {uv..<uv + 2 * chroma_size W H} \<longrightarrow> m' a = m a)"

lemma chroma_index_less: "2 * j < H \<Longrightarrow> 2 * i < W \<Longrightarrow> j * ((W + 1) div 2) + i < chroma_size W H" for j i :: nat
  using chroma_pos_less [of "2 * j" H "2 * i" W] by (simp add: chroma_pos_def)

lemma chroma_at_index: "2 * i < W \<Longrightarrow> chroma_at px m ((W + 1) div 2) (j * ((W + 1) div 2) + i) = px m (2 * j) (2 * i)"
  using chroma_at_pos [of "2 * i" W "2 * j" px m] by (simp add: chroma_pos_def)

lemma yuv420p_image_pixels:
  assumes dis: "apart y (W * H) u (chroma_size W H)" "apart y (W * H) v (chroma_size W H)"
      "apart u (chroma_size W H) v (chroma_size W H)"
    and P: "\<And>j i. j < H \<Longrightarrow> i < W \<Longrightarrow> px m j i = P j i"
  shows "yuv420p_pixels P y u v W H m (yuv420p_image px y u v W H m)"
  unfolding yuv420p_pixels_def
proof (intro conjI allI impI)
  fix j i assume ji: "j < H" "i < W"
  then show "yuv420p_image px y u v W H m (y + (j * W + i)) = rgb_Y (P j i)"
    using luma_pos_less [OF ji] by (simp add: yuv420p_image_def yuv420p_part_def luma_at_pos P)
next
  fix j i assume ji: "2 * j < H" "2 * i < W"
  note lt = chroma_index_less [OF ji]
  have "\<not> (y \<le> u + (j * ((W + 1) div 2) + i) \<and> u + (j * ((W + 1) div 2) + i) < y + W * H)"
    using dis(1) lt by (auto simp: apart_def)
  then show "yuv420p_image px y u v W H m (u + (j * ((W + 1) div 2) + i)) = rgb_U (P (2 * j) (2 * i))"
    unfolding yuv420p_image_def yuv420p_part_def using lt ji by (simp only: if_False) (simp add: chroma_at_index [simplified] P)
  have "\<not> (y \<le> v + (j * ((W + 1) div 2) + i) \<and> v + (j * ((W + 1) div 2) + i) < y + W * H)"
    "\<not> (u \<le> v + (j * ((W + 1) div 2) + i) \<and> v + (j * ((W + 1) div 2) + i) < u + chroma_size W H)"
    using dis(2,3) lt by (auto simp: apart_def)
  then show "yuv420p_image px y u v W H m (v + (j * ((W + 1) div 2) + i)) = rgb_V (P (2 * j) (2 * i))"
    unfolding yuv420p_image_def yuv420p_part_def using lt ji by (simp only: if_False) (simp add: chroma_at_index [simplified] P)
qed (auto simp: yuv420p_image_def yuv420p_part_def)

lemma yuv420sp_image_pixels:
  assumes dis: "apart y (W * H) uv (2 * chroma_size W H)"
    and P: "\<And>j i. j < H \<Longrightarrow> i < W \<Longrightarrow> px m j i = P j i"
  shows "yuv420sp_pixels P y uv W H m (yuv420sp_image px y uv W H m)"
  unfolding yuv420sp_pixels_def
proof (intro conjI allI impI)
  fix j i assume ji: "j < H" "i < W"
  then show "yuv420sp_image px y uv W H m (y + (j * W + i)) = rgb_Y (P j i)"
    using luma_pos_less [OF ji] by (simp add: yuv420sp_image_def yuv420sp_part_def luma_at_pos P)
next
  fix j i assume ji: "2 * j < H" "2 * i < W"
  let ?c = "j * ((W + 1) div 2) + i"
  have lt: "?c < chroma_size W H" using ji by (rule chroma_index_less)
  have "\<not> (y \<le> uv + 2 * ?c \<and> uv + 2 * ?c < y + W * H)" using dis lt by (auto simp: apart_def)
  then show "yuv420sp_image px y uv W H m (uv + 2 * ?c) = rgb_U (P (2 * j) (2 * i))"
    unfolding yuv420sp_image_def yuv420sp_part_def using lt ji
    by (simp only: if_False) (simp add: chroma_at_index [simplified] P)
  have "\<not> (y \<le> uv + 2 * ?c + 1 \<and> uv + 2 * ?c + 1 < y + W * H)" using dis lt by (auto simp: apart_def)
  then show "yuv420sp_image px y uv W H m (uv + 2 * ?c + 1) = rgb_V (P (2 * j) (2 * i))"
    unfolding yuv420sp_image_def yuv420sp_part_def using lt ji
    by (simp only: if_False) (simp add: chroma_at_index [simplified] P)
qed (auto simp: yuv420sp_image_def yuv420sp_part_def)


section \<open>The converters\<close>

lemma yuv420p_loop_rd32:
  assumes sz: "W * H < UINT_RANGE"
    and dis: "apart y (W * H) u (chroma_size W H)" "apart y (W * H) v (chroma_size W H)"
      "apart u (chroma_size W H) v (chroma_size W H)"
    and src: "apart src (4 * (W * H)) y (W * H)" "apart src (4 * (W * H)) u (chroma_size W H)"
      "apart src (4 * (W * H)) v (chroma_size W H)"
  shows "yuv420p_pixels (\<lambda>j i. f (rd32 m (src + 4 * (j * W + i)))) y u v W H m
    (yuv420p_loop (\<lambda>m j i. f (rd32 m (src + 4 * add32 (mul32 j W) i))) y u v W H m)"
proof -
  let ?px = "\<lambda>m j i. f (rd32 m (src + 4 * add32 (mul32 j W) i))"
  have "fetch_safe ?px ({y..<y + W * H} \<union> {u..<u + chroma_size W H} \<union> {v..<v + chroma_size W H}) W H m"
    using sz src by (intro fetch_safe_load rd32_cong) (auto simp: idx32 apart_def)
  note loop = yuv420p_loop_image [OF dis sz this]
  show ?thesis
    unfolding loop using sz by (intro yuv420p_image_pixels dis) (simp add: idx32)
qed

lemma yuv420sp_loop_rd32:
  assumes sz: "2 * (W * H) < UINT_RANGE"
    and dis: "apart y (W * H) uv (2 * chroma_size W H)"
    and src: "apart src (4 * (W * H)) y (W * H)" "apart src (4 * (W * H)) uv (2 * chroma_size W H)"
  shows "yuv420sp_pixels (\<lambda>j i. f (rd32 m (src + 4 * (j * W + i)))) y uv W H m
    (yuv420sp_loop (\<lambda>m j i. f (rd32 m (src + 4 * add32 (mul32 j W) i))) y uv W H m)"
proof -
  let ?px = "\<lambda>m j i. f (rd32 m (src + 4 * add32 (mul32 j W) i))"
  have sz': "W * H < UINT_RANGE" using sz by linarith
  have "fetch_safe ?px ({y..<y + W * H} \<union> {uv..<uv + 2 * chroma_size W H}) W H m"
    using sz' src by (intro fetch_safe_load rd32_cong) (auto simp: idx32 apart_def)
  note loop = yuv420sp_loop_image [OF dis sz this]
  show ?thesis
    unfolding loop using sz' by (intro yuv420sp_image_pixels dis) (simp add: idx32)
qed

lemma yuv420p_loop_rd16:
  assumes sz: "W * H < UINT_RANGE"
    and dis: "apart y (W * H) u (chroma_size W H)" "apart y (W * H) v (chroma_size W H)"
      "apart u (chroma_size W H) v (chroma_size W H)"
    and src: "apart src (2 * (W * H)) y (W * H)" "apart src (2 * (W * H)) u (chroma_size W H)"
      "apart src (2 * (W * H)) v (chroma_size W H)"
  shows "yuv420p_pixels (\<lambda>j i. f (rd16 m (src + 2 * (j * W + i)))) y u v W H m
    (yuv420p_loop (\<lambda>m j i. f (rd16 m (src + 2 * (j * W + i)))) y u v W H m)"
proof -
  let ?px = "\<lambda>m j i. f (rd16 m (src + 2 * (j * W + i)))"
  have "fetch_safe ?px ({y..<y + W * H} \<union> {u..<u + chroma_size W H} \<union> {v..<v + chroma_size W H}) W H m"
    using src by (intro fetch_safe_load rd16_cong) (auto simp: apart_def)
  note loop = yuv420p_loop_image [OF dis sz this]
  show ?thesis
    unfolding loop by (intro yuv420p_image_pixels dis) simp
qed

lemma yuv420sp_loop_rd16:
  assumes sz: "2 * (W * H) < UINT_RANGE"
    and dis: "apart y (W * H) uv (2 * chroma_size W H)"
    and src: "apart src (2 * (W * H)) y (W * H)" "apart src (2 * (W * H)) uv (2 * chroma_size W H)"
  shows "yuv420sp_pixels (\<lambda>j i. f (rd16 m (src + 2 * (j * W + i)))) y uv W H m
    (yuv420sp_loop (\<lambda>m j i. f (rd16 m (src + 2 * (j * W + i)))) y uv W H m)"
proof -
  let ?px = "\<lambda>m j i. f (rd16 m (src + 2 * (j * W + i)))"
  have "fetch_safe ?px ({y..<y + W * H} \<union> {uv..<uv + 2 * chroma_size W H}) W H m"
    using src by (intro fetch_safe_load rd16_cong) (auto simp: apart_def)
  note loop = yuv420sp_loop_image [OF dis sz this]
  show ?thesis
    unfolding loop by (intro yuv420sp_image_pixels dis) simp
qed


section \<open>Properties\<close>

text \<open>
  C38 (rgb_to_yuv_bt601). For 8-bit components the wrapped 32-bit arithmetic of the
  converters gives the BT.601 limited-range values: luma is the floor of the weighted sum
  plus 16 and lies in 16..235, both chroma values are the floor plus 128 and lie in 16..240,
  although the intermediate chroma sums go below zero.
\<close>

theorem rgb_to_yuv_bt601:
  assumes "R \<le> 255" "G \<le> 255" "B \<le> 255"
  shows "uint (rgb_Y (R, G, B)) = (66 * uint R + 129 * uint G + 25 * uint B + 128) div 256 + 16 \<and>
    uint (rgb_U (R, G, B)) = (- 38 * uint R - 74 * uint G + 112 * uint B + 128) div 256 + 128 \<and>
    uint (rgb_V (R, G, B)) = (112 * uint R - 94 * uint G - 18 * uint B + 128) div 256 + 128 \<and>
    uint (rgb_Y (R, G, B)) \<in> {16..235} \<and> uint (rgb_U (R, G, B)) \<in> {16..240} \<and>
    uint (rgb_V (R, G, B)) \<in> {16..240}"
proof -
  have ok: "rgb8 (R, G, B)" using assms by (simp add: rgb8_def word_le_def)
  note b = rgb8_bounds [OF ok] and val = rgb_Y_uint [OF ok] rgb_U_uint [OF ok] rgb_V_uint [OF ok]
  let ?y = "66 * uint R + 129 * uint G + 25 * uint B + 128"
    and ?u = "- 38 * uint R - 74 * uint G + 112 * uint B + 128"
    and ?v = "112 * uint R - 94 * uint G - 18 * uint B + 128"
  have "256 * 0 \<le> ?y" using b by linarith
  moreover have "?y < 256 * 219 + 256" using b by linarith
  ultimately have "?y div 256 + 16 \<in> {0 + 16..219 + 16}" by (rule scaled_range)
  moreover have "256 * - 112 \<le> ?u" using b by linarith
  moreover have "?u < 256 * 112 + 256" using b by linarith
  moreover note scaled_range [of "- 112" ?u 112 128]
  moreover have "256 * - 112 \<le> ?v" using b by linarith
  moreover have "?v < 256 * 112 + 256" using b by linarith
  moreover note scaled_range [of "- 112" ?v 112 128]
  ultimately show ?thesis unfolding val by simp
qed

theorem rgb_to_yuv_bt601_witness:
  "uint (rgb_Y (255, 0, 0)) = 82 \<and> uint (rgb_U (255, 0, 0)) = 90 \<and> uint (rgb_V (255, 0, 0)) = 240"
  using rgb_to_yuv_bt601 [of 255 0 0] by simp

text \<open>
  C37 (csc_8888_to_YUV420P_pixels). On planes that do not overlap the source or each other,
  \<open>csc_BGRA8888_to_YUV420P\<close> and \<open>csc_RGBA8888_to_YUV420P\<close> write, for every pixel, the luma
  of that pixel at row-major position, for every 2 by 2 block the chroma of its upper left
  pixel, and no byte outside the three planes; odd widths and heights included.
\<close>

theorem csc_8888_to_YUV420P_pixels:
  assumes "W * H < UINT_RANGE"
    and "apart y (W * H) u (chroma_size W H)" "apart y (W * H) v (chroma_size W H)"
      "apart u (chroma_size W H) v (chroma_size W H)"
    and "apart src (4 * (W * H)) y (W * H)" "apart src (4 * (W * H)) u (chroma_size W H)"
      "apart src (4 * (W * H)) v (chroma_size W H)"
  shows "yuv420p_pixels (\<lambda>j i. bgra8888 (rd32 m (src + 4 * (j * W + i)))) y u v W H m
      (csc_BGRA8888_to_YUV420P y u v src W H m) \<and>
    yuv420p_pixels (\<lambda>j i. rgba8888 (rd32 m (src + 4 * (j * W + i)))) y u v W H m
      (csc_RGBA8888_to_YUV420P y u v src W H m)"
  unfolding csc_BGRA8888_to_YUV420P_def csc_RGBA8888_to_YUV420P_def
  using yuv420p_loop_rd32 [OF assms] by blast

theorem csc_8888_to_YUV420P_pixels_witness:
  "csc_BGRA8888_to_YUV420P 100 200 300 0 3 2 (\<lambda>a. of_nat a) 105
     = rgb_Y (bgra8888 (rd32 (\<lambda>a. of_nat a) 20))"
proof -
  have "yuv420p_pixels (\<lambda>j i. bgra8888 (rd32 (\<lambda>a. of_nat a) (0 + 4 * (j * 3 + i)))) 100 200 300 3 2
      (\<lambda>a. of_nat a) (csc_BGRA8888_to_YUV420P 100 200 300 0 3 2 (\<lambda>a. of_nat a))"
    using csc_8888_to_YUV420P_pixels [of 3 2 100 200 300 0 "\<lambda>a. of_nat a"]
    by (simp add: apart_def chroma_size_def)
  then have "\<And>j i. j < 2 \<Longrightarrow> i < 3 \<Longrightarrow> csc_BGRA8888_to_YUV420P 100 200 300 0 3 2 (\<lambda>a. of_nat a) (100 + (j * 3 + i))
      = rgb_Y (bgra8888 (rd32 (\<lambda>a. of_nat a) (0 + 4 * (j * 3 + i))))"
    unfolding yuv420p_pixels_def by blast
  from this [of 1 2] show ?thesis by simp
qed

text \<open>
  The same for the semi-planar converters, whose chroma
  plane holds U and V interleaved, U first.
\<close>

theorem csc_8888_to_YUV420SP_pixels:
  assumes "2 * (W * H) < UINT_RANGE"
    and "apart y (W * H) uv (2 * chroma_size W H)"
    and "apart src (4 * (W * H)) y (W * H)" "apart src (4 * (W * H)) uv (2 * chroma_size W H)"
  shows "yuv420sp_pixels (\<lambda>j i. bgra8888 (rd32 m (src + 4 * (j * W + i)))) y uv W H m
      (csc_BGRA8888_to_YUV420SP y uv src W H m) \<and>
    yuv420sp_pixels (\<lambda>j i. rgba8888 (rd32 m (src + 4 * (j * W + i)))) y uv W H m
      (csc_RGBA8888_to_YUV420SP y uv src W H m)"
  unfolding csc_BGRA8888_to_YUV420SP_def csc_RGBA8888_to_YUV420SP_def
  using yuv420sp_loop_rd32 [OF assms] by blast

theorem csc_8888_to_YUV420SP_pixels_witness:
  "yuv420sp_pixels (\<lambda>j i. rgba8888 (rd32 (\<lambda>a. of_nat a) (0 + 4 * (j * 3 + i)))) 100 200 3 2
     (\<lambda>a. of_nat a) (csc_RGBA8888_to_YUV420SP 100 200 0 3 2 (\<lambda>a. of_nat a))"
  using csc_8888_to_YUV420SP_pixels [of 3 2 100 200 0 "\<lambda>a. of_nat a"]
  by (simp add: apart_def chroma_size_def)

text \<open>
  The two RGB565 converters extract the components with
  different masks and shifts, but both convert the same 8-bit components: each writes the
  image of the same pixels, planar and semi-planar.
\<close>

theorem csc_RGB565_to_YUV420_pixels:
  assumes "2 * (W * H) < UINT_RANGE"
    and "apart y (W * H) u (chroma_size W H)" "apart y (W * H) v (chroma_size W H)"
      "apart u (chroma_size W H) v (chroma_size W H)" "apart y (W * H) uv (2 * chroma_size W H)"
    and "apart src (2 * (W * H)) y (W * H)" "apart src (2 * (W * H)) u (chroma_size W H)"
      "apart src (2 * (W * H)) v (chroma_size W H)" "apart src (2 * (W * H)) uv (2 * chroma_size W H)"
  shows "yuv420p_pixels (\<lambda>j i. rgb565_SP (rd16 m (src + 2 * (j * W + i)))) y u v W H m
      (csc_RGB565_to_YUV420P y u v src (int W) (int H) m) \<and>
    yuv420sp_pixels (\<lambda>j i. rgb565_SP (rd16 m (src + 2 * (j * W + i)))) y uv W H m
      (csc_RGB565_to_YUV420SP y uv src (int W) (int H) m)"
proof -
  have "W * H < UINT_RANGE" using assms(1) by linarith
  then show ?thesis
    unfolding csc_RGB565_to_YUV420P_def csc_RGB565_to_YUV420SP_def nat_int rgb565_P_eq_SP
    using yuv420p_loop_rd16 assms yuv420sp_loop_rd16 by blast
qed

theorem csc_RGB565_to_YUV420_pixels_witness:
  "yuv420p_pixels (\<lambda>j i. rgb565_SP (rd16 (\<lambda>a. of_nat a) (0 + 2 * (j * 3 + i)))) 100 200 300 3 2
     (\<lambda>a. of_nat a) (csc_RGB565_to_YUV420P 100 200 300 0 (int 3) (int 2) (\<lambda>a. of_nat a))"
  using csc_RGB565_to_YUV420_pixels [of 3 2 100 200 300 400 0 "\<lambda>a. of_nat a"]
  by (simp add: apart_def chroma_size_def)

end
