(* ===== verification/Sw_Tile.thy ===== *)
theory Sw_Tile
  imports Exynos_Prelude
begin

text \<open>
  The tiled formats of \<open>libswconverter/swconvertor.c\<close> in the configuration the build file
  selects (neither \<open>NEON_SUPPORT\<close> nor \<open>USE_NV12T_128X64\<close>): NV12T stores luma in blocks of
  16 by 16 bytes and interleaved chroma in blocks of 16 by 8 bytes. \<open>Tile2D_To_Linear\<close> gives
  the address of one byte; the \<open>csc_tiled_to_linear\<close> functions copy block by block, with
  separate loops for the blocks that the right and the lower edge cut off. The theorems
  show that the loops copy exactly the byte \<open>Tile2D_To_Linear\<close> names for every position of
  the frame and touch nothing else.
\<close>

section \<open>Addresses\<close>

text \<open>
  The code computes \<open>tileAddr\<close>, \<open>offset\<close> and \<open>addr\<close> as \<open>int\<close>; the rounding of \<open>width\<close> is
  unsigned. The \<open>height\<close> argument is rounded too and then not used.
\<close>

definition Tile2D_To_Linear :: "nat \<Rightarrow> nat \<Rightarrow> nat \<Rightarrow> nat \<Rightarrow> int \<Rightarrow> nat" where
  "Tile2D_To_Linear width height xpos ypos crFlag =
     (let width = mul32 (add32 width 15 div 16) 16;
          tileNumX = width div 16
      in if crFlag = 0 then
        (let tileX = xpos div 16; tileY = ypos div 16;
             tileAddr = tileY * tileNumX + tileX;
             offset = (ypos AND 15) * 16 + (xpos AND 15)
         in push_bit 8 tileAddr OR offset)
      else
        (let tileX = xpos div 16; tileY = ypos div 8;
             tileAddr = tileY * tileNumX + tileX;
             offset = (ypos AND 7) * 16 + (xpos AND 15)
         in push_bit 7 tileAddr OR offset))"

section \<open>Interleaving\<close>

definition csc_deinterleave_memcpy :: "addr \<Rightarrow> addr \<Rightarrow> addr \<Rightarrow> nat \<Rightarrow> memory \<Rightarrow> memory" where
  "csc_deinterleave_memcpy dest1 dest2 src src_size m =
     snd (c_for 0 (src_size div 2) 1
       (\<lambda>i m. let m = m(dest1 + i := m (src + i * 2)) in m(dest2 + i := m (src + (i * 2 + 1)))) m)"

definition csc_interleave_memcpy :: "addr \<Rightarrow> addr \<Rightarrow> addr \<Rightarrow> nat \<Rightarrow> memory \<Rightarrow> memory" where
  "csc_interleave_memcpy dest src1 src2 src_size m =
     snd (c_for 0 src_size 1
       (\<lambda>i m. let m = m(dest + mul32 i 2 := m (src1 + i))
              in m(dest + add32 (mul32 i 2) 1 := m (src2 + i))) m)"

section \<open>Block copies\<close>

text \<open>
  One row of a block and the step of the two offsets; the loop bodies of the sources hold
  two such rows, except for the chroma rows at the lower edge.
\<close>

type_synonym row_op = "nat \<Rightarrow> nat \<Rightarrow> nat \<Rightarrow> memory \<Rightarrow> memory"

definition copy_row :: "row_op \<Rightarrow> nat \<Rightarrow> nat \<Rightarrow> memory \<times> nat \<times> nat \<Rightarrow> memory \<times> nat \<times> nat" where
  "copy_row row n stride = (\<lambda>(m, src_offset, dst_offset).
     (row dst_offset src_offset n m, add32 src_offset 16, add32 dst_offset stride))"

definition block1 :: "row_op \<Rightarrow> nat \<Rightarrow> nat \<Rightarrow> nat \<Rightarrow> nat \<Rightarrow> nat \<Rightarrow> nat \<Rightarrow> memory \<Rightarrow> memory" where
  "block1 row stride cnt step src_offset dst_offset n m =
     fst (snd (c_for 0 cnt step (\<lambda>k. copy_row row n stride) (m, src_offset, dst_offset)))"

definition block2 :: "row_op \<Rightarrow> nat \<Rightarrow> nat \<Rightarrow> nat \<Rightarrow> nat \<Rightarrow> nat \<Rightarrow> nat \<Rightarrow> memory \<Rightarrow> memory" where
  "block2 row stride cnt step src_offset dst_offset n m =
     fst (snd (c_for 0 cnt step (\<lambda>k st. copy_row row n stride (copy_row row n stride st))
       (m, src_offset, dst_offset)))"

text \<open>
  One band of blocks: the whole blocks, then, when the width is no multiple of 16, the
  block the right edge cuts off, at the value \<open>j\<close> has after the loop. \<open>blk j n\<close> is the block
  at column \<open>j\<close> with \<open>n\<close> bytes per row.
\<close>

definition band :: "(nat \<Rightarrow> nat \<Rightarrow> memory \<Rightarrow> memory) \<Rightarrow> nat \<Rightarrow> nat \<Rightarrow> memory \<Rightarrow> memory" where
  "band blk aligned_width width m =
     (let (j, m) = c_for 0 aligned_width 16 (\<lambda>j. blk j 16) m
      in if aligned_width \<noteq> width then blk j (sub32 width j) m else m)"

definition csc_tiled_to_linear_y :: "addr \<Rightarrow> addr \<Rightarrow> nat \<Rightarrow> nat \<Rightarrow> memory \<Rightarrow> memory" where
  "csc_tiled_to_linear_y y_dst y_src width height m =
     (let aligned_height = align_down32 height 16;
          aligned_width = align_down32 width 16;
          tiled_width = align_up32 width 16;
          row = (\<lambda>d s. memcpy (y_dst + d) (y_src + s));
          blk = (\<lambda>cnt step i j. block2 row width cnt step
                   (add32 (mul32 tiled_width i) (mul32 j 16)) (add32 (mul32 width i) j));
          (i, m) = c_for 0 aligned_height 16 (\<lambda>i. band (blk 8 1 i) aligned_width width) m
      in if aligned_height \<noteq> height
         then band (blk (sub32 height aligned_height) 2 i) aligned_width width m else m)"

definition csc_tiled_to_linear_uv :: "addr \<Rightarrow> addr \<Rightarrow> nat \<Rightarrow> nat \<Rightarrow> memory \<Rightarrow> memory" where
  "csc_tiled_to_linear_uv uv_dst uv_src width height m =
     (let aligned_height = align_down32 height 8;
          aligned_width = align_down32 width 16;
          tiled_width = align_up32 width 16;
          row = (\<lambda>d s. memcpy (uv_dst + d) (uv_src + s));
          src_offset = (\<lambda>i j. add32 (mul32 tiled_width i) (mul32 j 8));
          dst_offset = (\<lambda>i j. add32 (mul32 width i) j);
          (i, m) = c_for 0 aligned_height 8
            (\<lambda>i. band (\<lambda>j. block2 row width 4 1 (src_offset i j) (dst_offset i j)) aligned_width width) m
      in if aligned_height \<noteq> height
         then band (\<lambda>j. block1 row width (sub32 height aligned_height) 1
                          (src_offset i j) (dst_offset i j)) aligned_width width m
         else m)"

definition csc_tiled_to_linear_uv_deinterleave ::
  "addr \<Rightarrow> addr \<Rightarrow> addr \<Rightarrow> nat \<Rightarrow> nat \<Rightarrow> memory \<Rightarrow> memory" where
  "csc_tiled_to_linear_uv_deinterleave u_dst v_dst uv_src width height m =
     (let aligned_height = align_down32 height 8;
          aligned_width = align_down32 width 16;
          tiled_width = align_up32 width 16;
          row = (\<lambda>d s. csc_deinterleave_memcpy (u_dst + d) (v_dst + d) (uv_src + s));
          src_offset = (\<lambda>i j. add32 (mul32 tiled_width i) (mul32 j 8));
          dst_offset = (\<lambda>i j. add32 (mul32 (width div 2) i) (j div 2));
          (i, m) = c_for 0 aligned_height 8
            (\<lambda>i. band (\<lambda>j. block2 row (width div 2) 4 1 (src_offset i j) (dst_offset i j)) aligned_width width) m
      in if aligned_height \<noteq> height
         then band (\<lambda>j. block1 row (width div 2) (sub32 height aligned_height) 1
                          (src_offset i j) (dst_offset i j)) aligned_width width m
         else m)"

text \<open>In this configuration the two converters in the other direction have no effect.\<close>

definition csc_linear_to_tiled_y :: "addr \<Rightarrow> addr \<Rightarrow> nat \<Rightarrow> nat \<Rightarrow> memory \<Rightarrow> memory" where
  "csc_linear_to_tiled_y y_dst y_src width height m = m"

definition csc_linear_to_tiled_uv :: "addr \<Rightarrow> addr \<Rightarrow> addr \<Rightarrow> nat \<Rightarrow> nat \<Rightarrow> memory \<Rightarrow> memory" where
  "csc_linear_to_tiled_uv uv_dst u_src v_src width height m = m"

section \<open>Address arithmetic\<close>

lemma nat_and_mask: "x AND 15 = x mod 16" "x AND 7 = x mod 8" for x :: nat
proof -
  have "x AND mask 4 = x mod 2 ^ 4" "x AND mask 3 = x mod 2 ^ 3"
    by (simp_all only: take_bit_eq_mask [symmetric] take_bit_eq_mod)
  then show "x AND 15 = x mod 16" "x AND 7 = x mod 8" by (simp_all add: mask_eq_exp_minus_1)
qed

lemma push_or_add: "b < 2 ^ n \<Longrightarrow> push_bit n a OR b = a * 2 ^ n + b" for a b :: nat
proof -
  assume "b < 2 ^ n"
  then have "b = take_bit n b" by (simp add: take_bit_nat_eq_self)
  then have "bit b k \<Longrightarrow> k < n" for k by (metis bit_take_bit_iff)
  then have "push_bit n a + b = push_bit n a OR b"
    by (intro disjunctive_add) (metis bit_push_bit_iff not_less)
  then show ?thesis by (simp add: push_bit_eq_mult)
qed

text \<open>
  The contract of a tiled layout with 16-byte wide blocks of \<open>bh\<close> rows: where the byte at
  column \<open>x\<close> and row \<open>y\<close> of a plane of width \<open>W\<close> is. From it follow the address inside a
  block, that distinct positions have distinct addresses, and the size of the plane.
\<close>

definition tiled_size :: "nat \<Rightarrow> nat \<Rightarrow> nat \<Rightarrow> nat" where
  "tiled_size bh W H = (W + 15) div 16 * 16 * ((H + bh - 1) div bh * bh)"

locale tile_layout =
  fixes bh :: nat and addr :: "nat \<Rightarrow> nat \<Rightarrow> nat \<Rightarrow> nat \<Rightarrow> nat"
  assumes bh_pos: "0 < bh"
    and addr_eq: "W + 15 < UINT_RANGE \<Longrightarrow>
      addr W H x y = (y div bh * ((W + 15) div 16) + x div 16) * (16 * bh) + (y mod bh * 16 + x mod 16)"
begin

lemma block_addr:
  assumes "W + 15 < UINT_RANGE" "16 dvd j" "bh dvd i" "r < bh" "k < 16"
  shows "addr W H (j + k) (i + r) = (W + 15) div 16 * 16 * i + j * bh + 16 * r + k"
proof -
  from assms obtain a b where ab: "j = 16 * a" "i = bh * b" by (auto elim!: dvdE)
  have "(i + r) div bh = b" "(i + r) mod bh = r" "(j + k) div 16 = a" "(j + k) mod 16 = k"
    using assms ab bh_pos by simp_all
  then show ?thesis using assms(1) ab by (simp add: addr_eq algebra_simps)
qed

lemma offset_less: "y mod bh * 16 + x mod 16 < 16 * bh"
proof -
  have "y mod bh < bh" using bh_pos by simp
  then have "Suc (y mod bh) * 16 \<le> bh * 16" by (intro mult_le_mono1) simp
  moreover have "x mod 16 < 16" by simp
  ultimately show ?thesis by simp
qed

lemma addr_inject:
  assumes "W + 15 < UINT_RANGE" "x < W" "x' < W" "addr W H x y = addr W H x' y'"
  shows "x = x' \<and> y = y'"
proof -
  let ?n = "(W + 15) div 16"
  let ?t = "y div bh * ?n + x div 16" and ?t' = "y' div bh * ?n + x' div 16"
  let ?o = "y mod bh * 16 + x mod 16" and ?o' = "y' mod bh * 16 + x' mod 16"
  have eq: "?t * (16 * bh) + ?o = ?t' * (16 * bh) + ?o'" using assms by (simp add: addr_eq)
  have "?o < 16 * bh" "?o' < 16 * bh" by (rule offset_less)+
  with eq have t: "?t = ?t'" and o: "?o = ?o'" using index_inject by blast+
  have "x div 16 < ?n" "x' div 16 < ?n" using assms by auto
  with t have "y div bh = y' div bh" "x div 16 = x' div 16" using index_inject by blast+
  moreover from o have "y mod bh = y' mod bh" "x mod 16 = x' mod 16" using index_inject [OF o] by auto
  ultimately show ?thesis by (metis div_mult_mod_eq)
qed

lemma addr_less:
  assumes "W + 15 < UINT_RANGE" "x < W" "y < H"
  shows "addr W H x y < tiled_size bh W H"
proof -
  let ?n = "(W + 15) div 16" and ?h = "(H + bh - 1) div bh"
  have "x div 16 < ?n" using assms by auto
  moreover have "y div bh < ?h" using assms bh_pos by (intro div_less_ceil)
  ultimately have "y div bh * ?n + x div 16 < ?h * ?n" by (intro index_less)
  then have "(y div bh * ?n + x div 16) * (16 * bh) + (y mod bh * 16 + x mod 16) < ?h * ?n * (16 * bh)"
    using offset_less by (rule index_less)
  then show ?thesis using assms(1) by (simp add: addr_eq tiled_size_def ac_simps)
qed

end

section \<open>Rows, blocks, bands, frames\<close>

text \<open>A step that adds the addresses \<open>A\<close> to what is in place.\<close>

definition adds :: "(addr \<Rightarrow> addr) \<Rightarrow> addr set \<Rightarrow> memory \<Rightarrow> addr set \<Rightarrow> (memory \<Rightarrow> memory) \<Rightarrow> bool" where
  "adds g D m0 A f \<longleftrightarrow> (\<forall>S m. copied g D m0 S m \<longrightarrow> copied g D m0 (S \<union> A) (f m))"

lemma addsD: "adds g D m0 A f \<Longrightarrow> copied g D m0 S m \<Longrightarrow> copied g D m0 (S \<union> A) (f m)"
  by (simp add: adds_def)

lemma adds_for:
  assumes "0 < d" "\<And>k. k \<in> visits i n d \<Longrightarrow> adds g D m0 (A k) (f k)"
  shows "adds g D m0 (\<Union>k\<in>visits i n d. A k) (\<lambda>m. snd (c_for i n d f m))"
  unfolding adds_def using assms by (auto intro!: c_for_copied dest: addsD)

text \<open>The state of a block copy after \<open>r\<close> rows.\<close>

definition rows_done ::
  "(addr \<Rightarrow> addr) \<Rightarrow> addr set \<Rightarrow> memory \<Rightarrow> addr set \<Rightarrow> (nat \<Rightarrow> addr set) \<Rightarrow> nat \<Rightarrow> nat \<Rightarrow> nat \<Rightarrow> nat
     \<Rightarrow> memory \<times> nat \<times> nat \<Rightarrow> bool" where
  "rows_done g D m0 S A stride s0 d0 r = (\<lambda>(m, so, d).
     so = s0 + 16 * r \<and> d = d0 + stride * r \<and> copied g D m0 (S \<union> (\<Union>r'<r. A r')) m)"

lemma copy_row_done:
  assumes "adds g D m0 (A r) (row (d0 + stride * r) (s0 + 16 * r) n)"
    and "s0 + 16 * R < UINT_RANGE" "d0 + stride * R < UINT_RANGE" "r < R"
    and "rows_done g D m0 S A stride s0 d0 r st"
  shows "rows_done g D m0 S A stride s0 d0 (Suc r) (copy_row row n stride st)"
proof -
  obtain m where st: "st = (m, s0 + 16 * r, d0 + stride * r)"
    and c: "copied g D m0 (S \<union> (\<Union>r'<r. A r')) m"
    using assms(5) by (auto simp: rows_done_def)
  have "16 * r + 16 \<le> 16 * R" "stride * r + stride \<le> stride * R"
    using assms(4) mult_le_mono2 [of "Suc r" R stride] by (simp_all add: add.commute)
  with assms(2,3) have "add32 (s0 + 16 * r) 16 = s0 + 16 * Suc r"
    "add32 (d0 + stride * r) stride = d0 + stride * Suc r"
    by (simp_all add: u32_simps)
  moreover have "copied g D m0 (S \<union> (\<Union>r'<Suc r. A r')) (row (d0 + stride * r) (s0 + 16 * r) n m)"
    using addsD [OF assms(1) c] by (simp add: lessThan_Suc Un_ac)
  ultimately show ?thesis by (simp add: st copy_row_def rows_done_def)
qed

lemma rows_start: "copied g D m0 S m \<Longrightarrow> rows_done g D m0 S A stride s0 d0 0 (m, s0, d0)"
  by (simp add: rows_done_def)

lemma rows_finish: "rows_done g D m0 S A stride s0 d0 r st \<Longrightarrow> copied g D m0 (S \<union> (\<Union>r'<r. A r')) (fst st)"
  by (auto simp: rows_done_def)

lemma adds_block1:
  assumes "\<And>r. r < R \<Longrightarrow> adds g D m0 (A r) (row (d0 + stride * r) (s0 + 16 * r) n)"
    and "s0 + 16 * R < UINT_RANGE" "d0 + stride * R < UINT_RANGE"
  shows "adds g D m0 (\<Union>r<R. A r) (block1 row stride R 1 s0 d0 n)"
  unfolding adds_def
proof (intro allI impI)
  fix S m assume c: "copied g D m0 S m"
  let ?r = "c_for 0 R 1 (\<lambda>k. copy_row row n stride) (m, s0, d0)"
  have "rows_done g D m0 S A stride s0 d0 (fst ?r) (snd ?r)"
    by (rule c_for_indexed [where I = "rows_done g D m0 S A stride s0 d0", OF rows_start [OF c]])
      (use assms in \<open>auto intro: copy_row_done\<close>)
  then show "copied g D m0 (S \<union> (\<Union>r<R. A r)) (block1 row stride R 1 s0 d0 n m)"
    unfolding block1_def by (simp add: c_for_exit rows_finish)
qed

text \<open>Two rows per iteration: a full block of \<open>R = 2 * cnt\<close> rows, or \<open>R\<close> rows counted in twos.\<close>

lemma adds_block2:
  assumes "\<And>r. r < R \<Longrightarrow> adds g D m0 (A r) (row (d0 + stride * r) (s0 + 16 * r) n)"
    and "s0 + 16 * R < UINT_RANGE" "d0 + stride * R < UINT_RANGE"
    and "q * step = 2" "q * cnt = R" "step dvd cnt"
  shows "adds g D m0 (\<Union>r<R. A r) (block2 row stride cnt step s0 d0 n)"
  unfolding adds_def
proof (intro allI impI)
  fix S m assume c: "copied g D m0 S m"
  let ?f = "\<lambda>k st. copy_row row n stride (copy_row row n stride st)"
  let ?r = "c_for 0 cnt step ?f (m, s0, d0)"
  let ?I = "\<lambda>k. rows_done g D m0 S A stride s0 d0 (q * k)"
  have "?I (fst ?r) (snd ?r)"
  proof (rule c_for_indexed [where I = ?I])
    show "?I 0 (m, s0, d0)" using c by (simp add: rows_start)
  next
    fix k st assume k: "k < cnt" "step dvd k - 0" and I: "?I k st"
    have "k + step \<le> cnt" using k assms(6) by (metis dvd_diff_nat dvd_next diff_zero)
    then have "q * k + 2 \<le> R" using assms(4,5) by (metis add_mult_distrib2 mult_le_mono2)
    then have lt: "q * k < R" "Suc (q * k) < R" by simp_all
    have "rows_done g D m0 S A stride s0 d0 (Suc (q * k)) (copy_row row n stride st)"
      using copy_row_done assms(1) [OF lt(1)] assms(2,3) lt(1) I by blast
    then have "rows_done g D m0 S A stride s0 d0 (Suc (Suc (q * k))) (?f k st)"
      using copy_row_done assms(1) [OF lt(2)] assms(2,3) lt(2) by blast
    then show "?I (k + step) (?f k st)" using assms(4) by (simp add: add_mult_distrib2)
  qed
  moreover have "fst ?r = cnt" using assms(4,6) by (intro c_for_exit) (auto intro: gr0I)
  ultimately show "copied g D m0 (S \<union> (\<Union>r<R. A r)) (block2 row stride cnt step s0 d0 n m)"
    unfolding block2_def using assms(5) rows_finish by fastforce
qed

text \<open>
  A range cut into strips of \<open>d\<close>, with an operation of its own for what remains: the shape
  of both the bands of a frame and the blocks of a band.
\<close>

lemma strips_cover:
  fixes w d :: nat
  assumes "0 < d" "d dvd w"
  shows "(\<Union>j\<in>visits 0 w d. \<Union>x\<in>{j..<j + d}. c x) = (\<Union>x<w. c x)"
proof -
  have "j + d \<le> w" if "j \<in> visits 0 w d" for j
    using that assms(2) dvd_next [of j w d] by (auto simp: visits_def intro: dvd_diff_nat)
  moreover have "x div d * d \<in> visits 0 w d \<and> x \<in> {x div d * d..<x div d * d + d}" if "x < w" for x
    using that assms(1) le_less_trans [of "x div d * d" x w] dividend_less_div_times [of d x]
    by (auto simp: visits_def add.commute)
  ultimately have "(\<Union>j\<in>visits 0 w d. {j..<j + d}) = {..<w}"
    by (intro equalityI subsetI) (force dest: order_less_le_trans, blast)
  then show ?thesis by (metis UN_UN_flatten)
qed

lemma adds_strips:
  assumes d: "0 < d" and w: "w = align_down32 W d"
    and full: "\<And>j. d dvd j \<Longrightarrow> j + d \<le> W \<Longrightarrow> adds g D m0 (\<Union>x\<in>{j..<j + d}. c x) (f j)"
    and tail: "w \<noteq> W \<Longrightarrow> adds g D m0 (\<Union>x\<in>{w..<W}. c x) (t w)"
  shows "adds g D m0 (\<Union>x<W. c x) (\<lambda>m. let (j, m) = c_for 0 w d f m in if w \<noteq> W then t j m else m)"
  unfolding adds_def
proof (intro allI impI)
  fix S m assume S: "copied g D m0 S m"
  have dw: "d dvd w" "w \<le> W" using align_down32_dvd align_down32_le by (auto simp: w)
  have "adds g D m0 (\<Union>j\<in>visits 0 w d. \<Union>x\<in>{j..<j + d}. c x) (\<lambda>m. snd (c_for 0 w d f m))"
  proof (rule adds_for [OF d])
    fix k assume k: "k \<in> visits 0 w d"
    then have "k + d \<le> W" using dw dvd_next [of k w d] by (auto simp: visits_def intro: dvd_diff_nat order_trans)
    with k show "adds g D m0 (\<Union>x\<in>{k..<k + d}. c x) (f k)" using full by (simp add: visits_def)
  qed
  then have strips: "copied g D m0 (S \<union> (\<Union>x<w. c x)) (snd (c_for 0 w d f m))"
    using addsD [OF _ S] strips_cover [OF d dw(1)] by metis
  have exit: "fst (c_for 0 w d f m) = w" using d dw by (intro c_for_exit) simp_all
  have split: "{..<W} = {..<w} \<union> {w..<W}" using dw by auto
  show "copied g D m0 (S \<union> (\<Union>x<W. c x)) (let (j, m) = c_for 0 w d f m in if w \<noteq> W then t j m else m)"
  proof (cases "w = W")
    case True
    with strips exit show ?thesis by (simp add: split_beta Let_def)
  next
    case False
    have "copied g D m0 (S \<union> (\<Union>x<w. c x) \<union> (\<Union>x\<in>{w..<W}. c x)) (t w (snd (c_for 0 w d f m)))"
      using addsD [OF tail [OF False] strips] .
    moreover have "S \<union> (\<Union>x<w. c x) \<union> (\<Union>x\<in>{w..<W}. c x) = S \<union> (\<Union>x<W. c x)" unfolding split by blast
    ultimately show ?thesis using False exit by (simp add: split_beta Let_def)
  qed
qed

lemma adds_band:
  assumes "w = align_down32 W 16" "W < UINT_RANGE"
    and "\<And>j n. 16 dvd j \<Longrightarrow> j + n \<le> W \<Longrightarrow> n \<le> 16 \<Longrightarrow> n = 16 \<or> j + n = W \<Longrightarrow>
      adds g D m0 (\<Union>x\<in>{j..<j + n}. c x) (blk j n)"
  shows "adds g D m0 (\<Union>x<W. c x) (band blk w W)"
proof -
  have w: "16 dvd w" "w \<le> W" "W < w + 16"
    using assms(1) align_down32_dvd align_down32_le less_align_down32_add [of 16 W] by auto
  have "adds g D m0 (\<Union>x\<in>{w..<W}. c x) (blk w (sub32 W w))"
    using assms(3) [of w "W - w"] w assms(2) by (simp add: u32_simps)
  then have "adds g D m0 (\<Union>x<W. c x)
      (\<lambda>m. let (j, m) = c_for 0 w 16 (\<lambda>j. blk j 16) m in if w \<noteq> W then blk j (sub32 W j) m else m)"
    by (intro adds_strips assms(1)) (use assms(3) in auto)
  then show ?thesis unfolding band_def [abs_def] .
qed

lemma swap: "(\<Union>y\<in>A. \<Union>x\<in>B. cell y x) = (\<Union>x\<in>B. \<Union>y\<in>A. cell y x)"
  by blast

lemma adds_frame:
  assumes "0 < bh" "h = align_down32 H bh" "w = align_down32 W 16" "W < UINT_RANGE"
    and full: "\<And>i j n. bh dvd i \<Longrightarrow> i + bh \<le> H \<Longrightarrow> 16 dvd j \<Longrightarrow> j + n \<le> W \<Longrightarrow> n \<le> 16 \<Longrightarrow>
      n = 16 \<or> j + n = W \<Longrightarrow> adds g D m0 (\<Union>y\<in>{i..<i + bh}. \<Union>x\<in>{j..<j + n}. cell y x) (F i j n)"
    and tail: "\<And>j n. h \<noteq> H \<Longrightarrow> 16 dvd j \<Longrightarrow> j + n \<le> W \<Longrightarrow> n \<le> 16 \<Longrightarrow>
      n = 16 \<or> j + n = W \<Longrightarrow> adds g D m0 (\<Union>y\<in>{h..<H}. \<Union>x\<in>{j..<j + n}. cell y x) (T h j n)"
  shows "adds g D m0 (\<Union>y<H. \<Union>x<W. cell y x)
    (\<lambda>m. let (i, m) = c_for 0 h bh (\<lambda>i. band (F i) w W) m in if h \<noteq> H then band (T i) w W m else m)"
proof (rule adds_strips [OF assms(1,2)])
  fix i assume i: "bh dvd i" "i + bh \<le> H"
  show "adds g D m0 (\<Union>y\<in>{i..<i + bh}. \<Union>x<W. cell y x) (band (F i) w W)"
    using full [OF i] by (subst swap, intro adds_band [OF assms(3,4)], subst swap)
next
  assume h: "h \<noteq> H"
  show "adds g D m0 (\<Union>y\<in>{h..<H}. \<Union>x<W. cell y x) (band (T h) w W)"
    using tail [OF h] by (subst swap, intro adds_band [OF assms(3,4)], subst swap)
qed

text \<open>Copying the rows of one block, whatever the row operation and the loop shape.\<close>

definition block_rows :: "row_op \<Rightarrow> nat \<Rightarrow> nat \<Rightarrow> (nat \<Rightarrow> nat \<Rightarrow> nat \<Rightarrow> memory \<Rightarrow> memory) \<Rightarrow> bool" where
  "block_rows row stride R blk \<longleftrightarrow> (\<forall>g D m0 A s0 d0 n.
     (\<forall>r<R. adds g D m0 (A r) (row (d0 + stride * r) (s0 + 16 * r) n)) \<longrightarrow>
     s0 + 16 * R < UINT_RANGE \<longrightarrow> d0 + stride * R < UINT_RANGE \<longrightarrow>
     adds g D m0 (\<Union>r<R. A r) (blk s0 d0 n))"

lemma block_rowsD:
  assumes "block_rows row stride R blk" "\<forall>r<R. adds g D m0 (A r) (row (d0 + stride * r) (s0 + 16 * r) n)"
    "s0 + 16 * R < UINT_RANGE" "d0 + stride * R < UINT_RANGE"
  shows "adds g D m0 (\<Union>r<R. A r) (blk s0 d0 n)"
  using assms(1) [unfolded block_rows_def, THEN spec, THEN spec, THEN spec, THEN spec [of _ A],
    THEN spec [of _ s0], THEN spec [of _ d0], THEN spec [of _ n]] assms(2-4) by simp

lemma block_rows_one: "block_rows row stride R (block1 row stride R 1)"
  unfolding block_rows_def by (intro allI impI adds_block1) auto

lemma block_rows_two: "R = 2 * cnt \<Longrightarrow> block_rows row stride R (block2 row stride cnt 1)"
  unfolding block_rows_def by (intro allI impI adds_block2 [where q = 2]) auto

lemma block_rows_even: "even R \<Longrightarrow> block_rows row stride R (block2 row stride R 2)"
  unfolding block_rows_def by (intro allI impI adds_block2 [where q = 1]) auto

lemma adds_block:
  assumes blk: "block_rows row stride R blk"
    and small: "tw * i + bh * j + 16 * R < UINT_RANGE" "stride * i + off j + stride * R < UINT_RANGE"
    and row: "\<And>r. r < R \<Longrightarrow> adds g D m0 (\<Union>x\<in>{j..<j + n}. cell (i + r) x)
      (row (stride * (i + r) + off j) (tw * i + bh * j + 16 * r) n)"
  shows "adds g D m0 (\<Union>y\<in>{i..<i + R}. \<Union>x\<in>{j..<j + n}. cell y x)
    (blk (add32 (mul32 tw i) (mul32 j bh)) (add32 (mul32 stride i) (off j)) n)"
proof -
  let ?A = "\<lambda>r. \<Union>x\<in>{j..<j + n}. cell (i + r) x"
  have "(\<Union>y\<in>{i..<i + R}. \<Union>x\<in>{j..<j + n}. cell y x) = (\<Union>r<R. ?A r)"
  proof -
    have "{i..<i + R} = (\<lambda>r. i + r) ` {..<R}"
      by (simp add: lessThan_atLeast0 add.commute)
    then show ?thesis by simp
  qed
  moreover have "add32 (mul32 tw i) (mul32 j bh) = tw * i + bh * j"
    "add32 (mul32 stride i) (off j) = stride * i + off j"
    using small by (simp_all add: u32_simps mult.commute [of j])
  moreover have "adds g D m0 (\<Union>r<R. ?A r) (blk (tw * i + bh * j) (stride * i + off j) n)"
  proof -
    have "\<forall>r<R. adds g D m0 (?A r) (row (stride * i + off j + stride * r) (tw * i + bh * j + 16 * r) n)"
      using row by (simp add: algebra_simps)
    then show ?thesis by (rule block_rowsD [OF blk]) (use small in auto)
  qed
  ultimately show ?thesis by simp
qed

lemma tile_offsets_fit:
  fixes W H tw bh i j R stride off :: nat
  assumes "(W + 16) * (H + bh) < UINT_RANGE" "tw \<le> W + 16" "i + R \<le> H" "R \<le> bh" "j \<le> W"
    "stride \<le> W" "off \<le> j" "0 < bh"
  shows "tw * i + bh * j + 16 * R < UINT_RANGE" "stride * i + off + stride * R < UINT_RANGE"
proof -
  have "tw * i + bh * j + 16 * R \<le> (W + 16) * i + bh * W + 16 * bh"
    using assms by (intro add_mono mult_mono) auto
  also have "\<dots> = (W + 16) * (i + bh)" by (simp add: algebra_simps)
  also have "\<dots> \<le> (W + 16) * (H + bh)" using assms by (intro mult_le_mono2) simp
  finally show "tw * i + bh * j + 16 * R < UINT_RANGE" using assms(1) by simp
  have "stride * (i + R) + off \<le> (W + 16) * H + (W + 16) * bh"
  proof (intro add_mono)
    show "stride * (i + R) \<le> (W + 16) * H" using assms by (intro mult_mono) auto
    have "off \<le> (W + 16) * 1" using assms by simp
    also have "\<dots> \<le> (W + 16) * bh" using assms by (intro mult_le_mono2) simp
    finally show "off \<le> (W + 16) * bh" .
  qed
  then show "stride * i + off + stride * R < UINT_RANGE"
    using assms(1) by (simp add: algebra_simps)
qed

lemma adds_tile_frame:
  assumes bh: "0 < bh" and h: "h = align_down32 H bh" and w: "w = align_down32 W 16"
    and tw: "tw = align_up32 W 16" and fits: "(W + 16) * (H + bh) < UINT_RANGE"
    and stride: "stride \<le> W" "\<And>j. off j \<le> j"
    and F: "block_rows row stride bh F" and T: "h \<noteq> H \<Longrightarrow> block_rows row stride (H - h) T"
    and row: "\<And>i r j n. bh dvd i \<Longrightarrow> r < bh \<Longrightarrow> i + r < H \<Longrightarrow> 16 dvd j \<Longrightarrow> j + n \<le> W \<Longrightarrow> n \<le> 16 \<Longrightarrow>
      n = 16 \<or> j + n = W \<Longrightarrow> adds g D m0 (\<Union>x\<in>{j..<j + n}. cell (i + r) x)
        (row (stride * (i + r) + off j) (tw * i + bh * j + 16 * r) n)"
  shows "adds g D m0 (\<Union>y<H. \<Union>x<W. cell y x)
    (\<lambda>m. let (i, m) = c_for 0 h bh (\<lambda>i. band (\<lambda>j. F (add32 (mul32 tw i) (mul32 j bh))
                 (add32 (mul32 stride i) (off j))) w W) m
         in if h \<noteq> H then band (\<lambda>j. T (add32 (mul32 tw i) (mul32 j bh))
                 (add32 (mul32 stride i) (off j))) w W m else m)"
proof (rule adds_frame [OF bh h w])
  have "(W + 16) * 1 \<le> (W + 16) * (H + bh)" using bh by (intro mult_le_mono2) simp
  with fits have W: "W + 16 < UINT_RANGE" by (simp only: mult_1_right)
  then show "W < UINT_RANGE" by simp
  have tw_le: "tw \<le> W + 16" using W div_times_less_eq_dividend [of "W + 15" 16] by (simp add: tw align_up32_eq)
  note block = adds_block [where off = off, OF _ tile_offsets_fit [OF fits tw_le _ _ _ stride bh]]
  {
    fix i j n assume "bh dvd i" "i + bh \<le> H" "16 dvd j" "j + n \<le> W" "n \<le> 16" "n = 16 \<or> j + n = W"
    then show "adds g D m0 (\<Union>y\<in>{i..<i + bh}. \<Union>x\<in>{j..<j + n}. cell y x)
        (F (add32 (mul32 tw i) (mul32 j bh)) (add32 (mul32 stride i) (off j)) n)"
      by (intro block [OF F] row) auto
  next
    fix j n assume "h \<noteq> H" "16 dvd j" "j + n \<le> W" "n \<le> 16" "n = 16 \<or> j + n = W"
    moreover have "bh dvd h" "h \<le> H" "H < h + bh"
      using h align_down32_dvd align_down32_le less_align_down32_add [OF bh] by auto
    ultimately have "adds g D m0 (\<Union>y\<in>{h..<h + (H - h)}. \<Union>x\<in>{j..<j + n}. cell y x)
        (T (add32 (mul32 tw h) (mul32 j bh)) (add32 (mul32 stride h) (off j)) n)"
      by (intro block [OF T] row) auto
    with \<open>h \<le> H\<close> show "adds g D m0 (\<Union>y\<in>{h..<H}. \<Union>x\<in>{j..<j + n}. cell y x)
        (T (add32 (mul32 tw h) (mul32 j bh)) (add32 (mul32 stride h) (off j)) n)" by simp
  }
qed

section \<open>Planes\<close>

lemma shifted_range: "(\<Union>x\<in>{j..<j + n}. {d + (b + x)}) = {d + (b + j)..<d + (b + j) + n}" for b d j n :: nat
proof -
  have "x \<in> (\<Union>x\<in>{j..<j + n}. {d + (b + x)})" if "d + (b + j) \<le> x" "x < d + (b + j) + n" for x
    using that by (intro UN_I [of "x - d - b"]) auto
  then show ?thesis by auto
qed

lemma adds_two:
  assumes "a \<in> D" "g a = s" "b \<in> D" "g b = t"
  shows "adds g D m0 {a, b} (\<lambda>m. let m = m(a := m s) in m(b := m t))"
  unfolding adds_def
proof (intro allI impI)
  fix S m assume "copied g D m0 S m"
  then have "copied g D m0 (insert a S) (m(a := m s))" using assms by (auto intro: copied_write)
  then have "copied g D m0 (insert b (insert a S)) (m(a := m s, b := (m(a := m s)) t))"
    using assms by (auto intro: copied_write)
  then show "copied g D m0 (S \<union> {a, b}) (let m = m(a := m s) in m(b := m t))"
    by (simp add: insert_commute)
qed

text \<open>Where a byte of interleaved chroma goes when the two components are split into planes.\<close>

definition split_cell :: "addr \<Rightarrow> addr \<Rightarrow> nat \<Rightarrow> nat \<Rightarrow> nat \<Rightarrow> addr" where
  "split_cell u v W y x = (if even x then u else v) + (W div 2 * y + x div 2)"

definition split_dst :: "addr \<Rightarrow> addr \<Rightarrow> nat \<Rightarrow> nat \<Rightarrow> addr set" where
  "split_dst u v W H = {u..<u + W div 2 * H} \<union> {v..<v + W div 2 * H}"

lemma split_index_less:
  fixes x y W H :: nat
  assumes "x < W" "y < H" "even W"
  shows "x div 2 < W div 2" "W div 2 * y + x div 2 < W div 2 * H"
proof -
  show x: "x div 2 < W div 2" using assms by presburger
  then show "W div 2 * y + x div 2 < W div 2 * H"
    using index_less [OF assms(2) x] by (simp add: mult.commute)
qed

lemma split_cell_dst:
  "x < W \<Longrightarrow> y < H \<Longrightarrow> even W \<Longrightarrow> split_cell u v W y x \<in> split_dst u v W H"
  using split_index_less [of x W y H] by (simp add: split_cell_def split_dst_def)

text \<open>
  Reading a tiled plane row by row, for either layout: every destination byte is the byte
  of the same position, and nothing outside the destination changes.
\<close>

context tile_layout
begin

definition plane_src :: "addr \<Rightarrow> addr \<Rightarrow> nat \<Rightarrow> nat \<Rightarrow> addr \<Rightarrow> addr" where
  "plane_src dst src W H a = src + addr W H ((a - dst) mod W) ((a - dst) div W)"

lemma plane_src_pixel: "x < W \<Longrightarrow> plane_src dst src W H (dst + (W * y + x)) = src + addr W H x y"
  by (simp add: plane_src_def)

lemma memcpy_row:
  assumes "W + 15 < UINT_RANGE" "bh dvd i" "r < bh" "i + r < H" "16 dvd j" "j + n \<le> W" "n \<le> 16"
  shows "adds (plane_src dst src W H) {dst..<dst + W * H} m0 (\<Union>x\<in>{j..<j + n}. {dst + (W * (i + r) + x)})
    (memcpy (dst + (W * (i + r) + j)) (src + ((W + 15) div 16 * 16 * i + bh * j + 16 * r)) n)"
  unfolding adds_def
proof (intro allI impI)
  fix S m assume c: "copied (plane_src dst src W H) {dst..<dst + W * H} m0 S m"
  let ?d = "dst + (W * (i + r) + j)" and ?s = "src + ((W + 15) div 16 * 16 * i + bh * j + 16 * r)"
  have "copied (plane_src dst src W H) {dst..<dst + W * H} m0 (S \<union> {?d..<?d + n}) (memcpy ?d ?s n m)"
  proof (rule copied_memcpy [OF c])
    fix k assume k: "k < n"
    have "W * (i + r) + (j + k) < W * H"
      using index_less [of "i + r" H "j + k" W] assms k by (simp add: mult.commute)
    moreover have "plane_src dst src W H (dst + (W * (i + r) + (j + k))) = ?s + k"
      using plane_src_pixel [of "j + k" W dst src H "i + r"] block_addr [of W j i r k H] assms k by simp
    ultimately show "?d + k \<in> {dst..<dst + W * H} \<and> plane_src dst src W H (?d + k) = ?s + k"
      by (simp add: add.assoc)
  qed
  moreover have "(\<Union>x\<in>{j..<j + n}. {dst + (W * (i + r) + x)}) = {?d..<?d + n}"
    by (rule shifted_range)
  ultimately show "copied (plane_src dst src W H) {dst..<dst + W * H} m0
      (S \<union> (\<Union>x\<in>{j..<j + n}. {dst + (W * (i + r) + x)})) (memcpy ?d ?s n m)" by simp
qed

lemma plane_src_apart:
  assumes "W + 15 < UINT_RANGE" "apart dst (W * H) src (tiled_size bh W H)"
  shows "\<forall>a\<in>{dst..<dst + W * H}. plane_src dst src W H a \<notin> {dst..<dst + W * H}"
proof
  fix a assume a: "a \<in> {dst..<dst + W * H}"
  then have "0 < W" by (auto intro: gr0I)
  then have "(a - dst) mod W < W" "(a - dst) div W < H"
    using a less_mult_imp_div_less [of "a - dst" H W] by (auto simp: mult.commute)
  then have "addr W H ((a - dst) mod W) ((a - dst) div W) < tiled_size bh W H"
    using addr_less assms(1) by simp
  then show "plane_src dst src W H a \<notin> {dst..<dst + W * H}"
    using assms(2) by (auto simp: plane_src_def apart_def)
qed

lemma plane_copied:
  fixes m :: memory
  assumes "(W + 16) * (H + bh) < UINT_RANGE" "apart dst (W * H) src (tiled_size bh W H)"
    and "block_rows (\<lambda>d s. memcpy (dst + d) (src + s)) W bh F"
    and "align_down32 H bh \<noteq> H \<Longrightarrow> block_rows (\<lambda>d s. memcpy (dst + d) (src + s)) W (H - align_down32 H bh) T"
  defines "tw \<equiv> align_up32 W 16" and "w \<equiv> align_down32 W 16" and "h \<equiv> align_down32 H bh"
  defines "m' \<equiv> let (i, m) = c_for 0 h bh (\<lambda>i. band (\<lambda>j. F (add32 (mul32 tw i) (mul32 j bh))
                 (add32 (mul32 W i) j)) w W) m
         in if h \<noteq> H then band (\<lambda>j. T (add32 (mul32 tw i) (mul32 j bh))
                 (add32 (mul32 W i) j)) w W m else m"
  shows "m' a = (if a \<in> {dst..<dst + W * H} then m (src + addr W H ((a - dst) mod W) ((a - dst) div W)) else m a)"
proof -
  have "(W + 16) * 1 \<le> (W + 16) * (H + bh)" using bh_pos by (intro mult_le_mono2) simp
  with assms(1) have W: "W + 15 < UINT_RANGE" by (simp only: mult_1_right)
  have tw: "tw = (W + 15) div 16 * 16" using W by (simp add: tw_def align_up32_eq)
  let ?g = "plane_src dst src W H" and ?D = "{dst..<dst + W * H}"
  have "adds ?g ?D m (\<Union>y<H. \<Union>x<W. {dst + (W * y + x)}) (\<lambda>m. let (i, m) = c_for 0 h bh (\<lambda>i. band (\<lambda>j. F (add32 (mul32 tw i) (mul32 j bh))
                 (add32 (mul32 W i) j)) w W) m
         in if h \<noteq> H then band (\<lambda>j. T (add32 (mul32 tw i) (mul32 j bh))
                 (add32 (mul32 W i) j)) w W m else m)"
    by (rule adds_tile_frame [where off = "\<lambda>j. j", OF bh_pos _ _ _ assms(1) _ _ assms(3)])
      (use assms(4) W in \<open>auto simp: h_def w_def tw_def tw [unfolded tw_def] intro: memcpy_row\<close>)
  then have c: "copied ?g ?D m ({} \<union> (\<Union>y<H. \<Union>x<W. {dst + (W * y + x)})) m'"
    unfolding m'_def by (rule addsD) (rule copied_start [OF plane_src_apart [OF W assms(2)]])
  have "a \<in> (\<Union>y<H. \<Union>x<W. {dst + (W * y + x)})" if a: "a \<in> ?D"
  proof (intro UN_I)
    show "(a - dst) div W \<in> {..<H}" using a less_mult_imp_div_less [of "a - dst" H W] by (auto simp: mult.commute)
    show "(a - dst) mod W \<in> {..<W}" using a by (cases "W = 0") auto
    show "a \<in> {dst + (W * ((a - dst) div W) + (a - dst) mod W)}" using a by simp
  qed
  then show ?thesis using c copied_frame [OF c]
    by (cases "a \<in> ?D") (auto simp: copied_def plane_src_def)
qed


text \<open>
  The same for interleaved chroma that is split on the way: the even bytes of a row go to
  one plane, the odd bytes to another.
\<close>

definition split_src :: "addr \<Rightarrow> addr \<Rightarrow> addr \<Rightarrow> nat \<Rightarrow> nat \<Rightarrow> addr \<Rightarrow> addr" where
  "split_src u v src W H a =
     (if u \<le> a \<and> a < u + W div 2 * H
      then src + addr W H (2 * ((a - u) mod (W div 2))) ((a - u) div (W div 2))
      else src + addr W H (2 * ((a - v) mod (W div 2)) + 1) ((a - v) div (W div 2)))"

lemma split_cell_src:
  assumes "x < W" "y < H" "even W" "apart u (W div 2 * H) v (W div 2 * H)"
  shows "split_src u v src W H (split_cell u v W y x) = src + addr W H x y"
proof -
  let ?k = "W div 2 * y + x div 2"
  note lt = split_index_less [OF assms(1-3)]
  have k: "?k mod (W div 2) = x div 2" "?k div (W div 2) = y" using lt by simp_all
  show ?thesis
  proof (cases "even x")
    case True
    then show ?thesis using lt k by (simp add: split_cell_def split_src_def)
  next
    case False
    then have "\<not> (u \<le> v + ?k \<and> v + ?k < u + W div 2 * H)" using lt assms(4) by (simp add: apart_def) linarith
    moreover from False have "2 * (x div 2) + 1 = x" by presburger
    ultimately show ?thesis using k False by (simp only: split_cell_def split_src_def if_False diff_add_inverse)
  qed
qed

lemma deinterleave_row:
  assumes "W + 15 < UINT_RANGE" "bh dvd i" "r < bh" "i + r < H" "16 dvd j" "j + n \<le> W" "n \<le> 16"
    and "n = 16 \<or> j + n = W" "even W" "apart u (W div 2 * H) v (W div 2 * H)"
  shows "adds (split_src u v src W H) (split_dst u v W H) m0
    (\<Union>x\<in>{j..<j + n}. {split_cell u v W (i + r) x})
    (csc_deinterleave_memcpy (u + (W div 2 * (i + r) + j div 2)) (v + (W div 2 * (i + r) + j div 2))
      (src + ((W + 15) div 16 * 16 * i + bh * j + 16 * r)) n)"
proof -
  let ?g = "split_src u v src W H" and ?D = "split_dst u v W H" and ?c = "split_cell u v W (i + r)"
  let ?b = "W div 2 * (i + r) + j div 2" and ?s = "src + ((W + 15) div 16 * 16 * i + bh * j + 16 * r)"
  let ?f = "\<lambda>k m. let m = m(u + ?b + k := m (?s + k * 2)) in m(v + ?b + k := m (?s + (k * 2 + 1)))"
  have n: "even n" using assms(5,8,9) by presburger
  have j: "even j" using assms(5) by presburger
  have cell: "?c (j + 2 * k) = u + ?b + k" "?c (j + (2 * k + 1)) = v + ?b + k" for k
    using j by (auto simp: split_cell_def elim!: evenE)
  have pix: "?c (j + k) \<in> ?D" "?g (?c (j + k)) = ?s + k" if "k < n" for k
  proof -
    have x: "j + k < W" "k < 16" using that assms(6,7) by simp_all
    show "?c (j + k) \<in> ?D" by (rule split_cell_dst [OF x(1) assms(4,9)])
    show "?g (?c (j + k)) = ?s + k"
      using split_cell_src [OF x(1) assms(4,9,10)] block_addr [OF assms(1,5,2,3) x(2)]
      by (simp add: mult.commute)
  qed
  have step: "adds ?g ?D m0 {?c (j + 2 * k), ?c (j + (2 * k + 1))} (?f k)" if k: "k \<in> visits 0 (n div 2) 1" for k
  proof -
    have kn: "2 * k < n" "2 * k + 1 < n" using k n by (auto simp: visits_def elim!: evenE)
    show ?thesis using adds_two [OF pix [OF kn(1)] pix [OF kn(2)], of m0]
      unfolding cell by (simp add: mult.commute [of k])
  qed
  have "(\<Union>k\<in>visits 0 (n div 2) 1. {?c (j + 2 * k), ?c (j + (2 * k + 1))}) = (\<Union>x\<in>{j..<j + n}. {?c x})"
  proof -
    have "x \<in> (\<Union>k\<in>visits 0 (n div 2) 1. {j + 2 * k, j + (2 * k + 1)})" if "j \<le> x" "x < j + n" for x
    proof (rule UN_I [of "(x - j) div 2"])
      show "(x - j) div 2 \<in> visits 0 (n div 2) 1" using that n by (auto simp: visits_def elim!: evenE)
      have "x - j = 2 * ((x - j) div 2) \<or> x - j = 2 * ((x - j) div 2) + 1" by presburger
      then show "x \<in> {j + 2 * ((x - j) div 2), j + (2 * ((x - j) div 2) + 1)}" using that(1) by auto
    qed
    moreover have "j + 2 * k \<in> {j..<j + n}" "j + (2 * k + 1) \<in> {j..<j + n}" if "k \<in> visits 0 (n div 2) 1" for k
      using that n by (auto simp: visits_def elim!: evenE)
    ultimately have "{j..<j + n} = (\<Union>k\<in>visits 0 (n div 2) 1. {j + 2 * k, j + (2 * k + 1)})" by auto
    then show ?thesis by (simp only:) blast
  qed
  moreover have "adds ?g ?D m0 (\<Union>k\<in>visits 0 (n div 2) 1. {?c (j + 2 * k), ?c (j + (2 * k + 1))})
      (\<lambda>m. snd (c_for 0 (n div 2) 1 ?f m))"
    using step by (intro adds_for) simp_all
  ultimately show ?thesis by (simp only: csc_deinterleave_memcpy_def [abs_def])
qed

lemma split_src_apart:
  assumes "W + 15 < UINT_RANGE" "even W" "apart u (W div 2 * H) src (tiled_size bh W H)"
    "apart v (W div 2 * H) src (tiled_size bh W H)"
  shows "\<forall>a\<in>split_dst u v W H. split_src u v src W H a \<notin> split_dst u v W H"
proof
  fix a assume a: "a \<in> split_dst u v W H"
  have small: "addr W H (2 * (k mod (W div 2)) + c) (k div (W div 2)) < tiled_size bh W H"
    if k: "k < W div 2 * H" and c: "c \<le> 1" for k c
  proof -
    have "0 < W div 2" using k by (intro gr0I) simp
    then have "k mod (W div 2) < W div 2" "k div (W div 2) < H"
      using less_mult_imp_div_less [of k H "W div 2"] k by (simp_all add: mult.commute)
    moreover from this(1) c assms(2) have "2 * (k mod (W div 2)) + c < W" by (auto elim!: evenE)
    ultimately show ?thesis using addr_less assms(1) by simp
  qed
  have "src \<le> split_src u v src W H a \<and> split_src u v src W H a < src + tiled_size bh W H"
  proof (cases "u \<le> a \<and> a < u + W div 2 * H")
    case True
    moreover from True have "a - u < W div 2 * H" by linarith
    ultimately show ?thesis using small [of "a - u" 0] by (simp add: split_src_def)
  next
    case False
    with a have "a - v < W div 2 * H" by (auto simp: split_dst_def)
    then show ?thesis using small [of "a - v" 1] by (simp add: split_src_def False)
  qed
  then show "split_src u v src W H a \<notin> split_dst u v W H"
    using assms(3,4) by (auto simp: split_dst_def apart_def)
qed

lemma split_copied:
  fixes m :: memory
  assumes "(W + 16) * (H + bh) < UINT_RANGE" "even W" "apart u (W div 2 * H) v (W div 2 * H)"
    and "apart u (W div 2 * H) src (tiled_size bh W H)" "apart v (W div 2 * H) src (tiled_size bh W H)"
    and "block_rows (\<lambda>d s. csc_deinterleave_memcpy (u + d) (v + d) (src + s)) (W div 2) bh F"
    and "align_down32 H bh \<noteq> H \<Longrightarrow> block_rows (\<lambda>d s. csc_deinterleave_memcpy (u + d) (v + d) (src + s))
      (W div 2) (H - align_down32 H bh) T"
  defines "tw \<equiv> align_up32 W 16" and "w \<equiv> align_down32 W 16" and "h \<equiv> align_down32 H bh"
  defines "m' \<equiv> let (i, m) = c_for 0 h bh (\<lambda>i. band (\<lambda>j. F (add32 (mul32 tw i) (mul32 j bh))
                 (add32 (mul32 (W div 2) i) (j div 2))) w W) m
         in if h \<noteq> H then band (\<lambda>j. T (add32 (mul32 tw i) (mul32 j bh))
                 (add32 (mul32 (W div 2) i) (j div 2))) w W m else m"
  shows "x < W \<Longrightarrow> y < H \<Longrightarrow> m' (split_cell u v W y x) = m (src + addr W H x y)"
    and "a \<notin> split_dst u v W H \<Longrightarrow> m' a = m a"
proof -
  have "(W + 16) * 1 \<le> (W + 16) * (H + bh)" using bh_pos by (intro mult_le_mono2) simp
  with assms(1) have W: "W + 15 < UINT_RANGE" by (simp only: mult_1_right)
  have tw: "tw = (W + 15) div 16 * 16" using W by (simp add: tw_def align_up32_eq)
  let ?g = "split_src u v src W H" and ?D = "split_dst u v W H"
  have "adds ?g ?D m (\<Union>y<H. \<Union>x<W. {split_cell u v W y x}) (\<lambda>m. let (i, m) = c_for 0 h bh (\<lambda>i. band (\<lambda>j. F (add32 (mul32 tw i) (mul32 j bh))
                 (add32 (mul32 (W div 2) i) (j div 2))) w W) m
         in if h \<noteq> H then band (\<lambda>j. T (add32 (mul32 tw i) (mul32 j bh))
                 (add32 (mul32 (W div 2) i) (j div 2))) w W m else m)"
    by (rule adds_tile_frame [where off = "\<lambda>j. j div 2", OF bh_pos _ _ _ assms(1) _ _ assms(6)])
      (use assms(2,3,7) W in \<open>auto simp: h_def w_def tw_def tw [unfolded tw_def] intro: deinterleave_row\<close>)
  then have c: "copied ?g ?D m ({} \<union> (\<Union>y<H. \<Union>x<W. {split_cell u v W y x})) m'"
    unfolding m'_def by (rule addsD) (rule copied_start [OF split_src_apart [OF W assms(2,4,5)]])
  show "m' a = m a" if "a \<notin> ?D" using c that by (rule copied_frame)
  show "m' (split_cell u v W y x) = m (src + addr W H x y)" if xy: "x < W" "y < H"
  proof -
    have "split_cell u v W y x \<in> {} \<union> (\<Union>y<H. \<Union>x<W. {split_cell u v W y x})" using xy by blast
    with c have "m' (split_cell u v W y x) = m (?g (split_cell u v W y x))" by (simp only: copied_def)
    then show ?thesis using split_cell_src [OF xy assms(2,3)] by simp
  qed
qed

end

interpretation luma_tiles: tile_layout 16 "\<lambda>W H x y. Tile2D_To_Linear W H x y 0"
proof unfold_locales
  fix W H x y :: nat
  assume W: "W + 15 < UINT_RANGE"
  have "(W + 15) div 16 * 16 < UINT_RANGE" using W by (meson div_times_less_eq_dividend le_less_trans)
  moreover have "y mod 16 * 16 + x mod 16 < 2 ^ 8" using index_less [of "y mod 16" 16 "x mod 16" 16] by simp
  ultimately show "Tile2D_To_Linear W H x y 0
      = (y div 16 * ((W + 15) div 16) + x div 16) * (16 * 16) + (y mod 16 * 16 + x mod 16)"
    using W by (simp add: Tile2D_To_Linear_def Let_def u32_simps nat_and_mask push_or_add)
qed simp

interpretation chroma_tiles: tile_layout 8 "\<lambda>W H x y. Tile2D_To_Linear W H x y 1"
proof unfold_locales
  fix W H x y :: nat
  assume W: "W + 15 < UINT_RANGE"
  have "(W + 15) div 16 * 16 < UINT_RANGE" using W by (meson div_times_less_eq_dividend le_less_trans)
  moreover have "y mod 8 * 16 + x mod 16 < 2 ^ 7" using index_less [of "y mod 8" 8 "x mod 16" 16] by simp
  ultimately show "Tile2D_To_Linear W H x y 1
      = (y div 8 * ((W + 15) div 16) + x div 16) * (16 * 8) + (y mod 8 * 16 + x mod 16)"
    using W by (simp add: Tile2D_To_Linear_def Let_def u32_simps nat_and_mask push_or_add)
qed simp

section \<open>Interleaving planes\<close>

lemma interleave_bytes:
  assumes "2 * n < UINT_RANGE" "apart dst (2 * n) s1 n" "apart dst (2 * n) s2 n"
  shows "csc_interleave_memcpy dst s1 s2 n m a =
    (if a \<in> {dst..<dst + 2 * n} then m ((if even (a - dst) then s1 else s2) + (a - dst) div 2) else m a)"
proof -
  let ?g = "\<lambda>a. (if even (a - dst) then s1 else s2) + (a - dst) div 2" and ?D = "{dst..<dst + 2 * n}"
  let ?f = "\<lambda>i m. let m = m(dst + mul32 i 2 := m (s1 + i)) in m(dst + add32 (mul32 i 2) 1 := m (s2 + i))"
  have "adds ?g ?D m {dst + 2 * i, dst + (2 * i + 1)} (?f i)" if i: "i \<in> visits 0 n 1" for i
  proof -
    from i have lt: "i < n" by (simp add: visits_def)
    then have "mul32 i 2 = 2 * i" "add32 (mul32 i 2) 1 = 2 * i + 1" using assms(1) by (simp_all add: u32_simps)
    moreover have "adds ?g ?D m {dst + 2 * i, dst + (2 * i + 1)}
        (\<lambda>m. let m = m(dst + 2 * i := m (s1 + i)) in m(dst + (2 * i + 1) := m (s2 + i)))"
      using lt by (intro adds_two) auto
    ultimately show ?thesis by (simp only:)
  qed
  then have "adds ?g ?D m (\<Union>i\<in>visits 0 n 1. {dst + 2 * i, dst + (2 * i + 1)}) (\<lambda>m. snd (c_for 0 n 1 ?f m))"
    by (intro adds_for) simp_all
  moreover have "copied ?g ?D m {} m"
    using assms(2,3) by (intro copied_start) (auto simp: apart_def)
  ultimately have c: "copied ?g ?D m ({} \<union> (\<Union>i\<in>visits 0 n 1. {dst + 2 * i, dst + (2 * i + 1)}))
      (csc_interleave_memcpy dst s1 s2 n m)"
    unfolding csc_interleave_memcpy_def by (rule addsD)
  have "a \<in> (\<Union>i\<in>visits 0 n 1. {dst + 2 * i, dst + (2 * i + 1)})" if a: "a \<in> ?D"
  proof (rule UN_I [of "(a - dst) div 2"])
    show "(a - dst) div 2 \<in> visits 0 n 1" using a by (auto simp: visits_def)
    have "a - dst = 2 * ((a - dst) div 2) \<or> a - dst = 2 * ((a - dst) div 2) + 1" by presburger
    then show "a \<in> {dst + 2 * ((a - dst) div 2), dst + (2 * ((a - dst) div 2) + 1)}" using a by auto
  qed
  then show ?thesis by (intro copied_value [OF c]) blast
qed

lemma deinterleave_bytes:
  assumes "apart d1 n d2 n" "apart d1 n src (2 * n)" "apart d2 n src (2 * n)"
  shows "csc_deinterleave_memcpy d1 d2 src (2 * n) m a =
    (if a \<in> {d1..<d1 + n} then m (src + 2 * (a - d1))
     else if a \<in> {d2..<d2 + n} then m (src + (2 * (a - d2) + 1)) else m a)"
proof -
  let ?D = "{d1..<d1 + n} \<union> {d2..<d2 + n}"
  let ?g = "\<lambda>a. if a \<in> {d1..<d1 + n} then src + 2 * (a - d1) else src + (2 * (a - d2) + 1)"
  let ?f = "\<lambda>i m. let m = m(d1 + i := m (src + i * 2)) in m(d2 + i := m (src + (i * 2 + 1)))"
  have "adds ?g ?D m {d1 + i, d2 + i} (?f i)" if i: "i \<in> visits 0 n 1" for i
  proof -
    from i have "i < n" by (simp add: visits_def)
    moreover from this have "(d2 + i \<in> {d1..<d1 + n}) = False" using assms(1) by (auto simp: apart_def)
    ultimately show ?thesis by (intro adds_two) (simp_all only: if_False, auto)
  qed
  then have "adds ?g ?D m (\<Union>i\<in>visits 0 n 1. {d1 + i, d2 + i}) (\<lambda>m. snd (c_for 0 n 1 ?f m))"
    by (intro adds_for) simp_all
  moreover have "copied ?g ?D m {} m" using assms by (intro copied_start) (auto simp: apart_def)
  ultimately have c: "copied ?g ?D m ({} \<union> (\<Union>i\<in>visits 0 n 1. {d1 + i, d2 + i})) (csc_deinterleave_memcpy d1 d2 src (2 * n) m)"
    unfolding csc_deinterleave_memcpy_def by (subst nonzero_mult_div_cancel_left) (simp, rule addsD)
  have "a \<in> (\<Union>i\<in>visits 0 n 1. {d1 + i, d2 + i})" if a: "a \<in> ?D"
  proof -
    obtain i where "i < n" "a = d1 + i \<or> a = d2 + i"
      using a by (metis Un_iff atLeastLessThan_iff le_add_diff_inverse nat_add_left_cancel_less)
    then show ?thesis by (auto simp: visits_def)
  qed
  then have "csc_deinterleave_memcpy d1 d2 src (2 * n) m a = (if a \<in> ?D then m (?g a) else m a)"
    by (intro copied_value [OF c]) blast
  then show ?thesis by simp
qed

section \<open>Properties\<close>

text \<open>
  For a width below \<open>2^32 - 15\<close>, \<open>Tile2D_To_Linear\<close> gives distinct
  positions of a frame distinct addresses, in the luma and in the chroma layout, and every
  address is inside the plane rounded up to whole tiles.
\<close>
theorem tile_addresses:
  assumes "W + 15 < UINT_RANGE" "x < W" "y < H" "x' < W" "y' < H"
  shows "(Tile2D_To_Linear W H x y 0 = Tile2D_To_Linear W H x' y' 0 \<longleftrightarrow> x = x' \<and> y = y') \<and>
    (Tile2D_To_Linear W H x y 1 = Tile2D_To_Linear W H x' y' 1 \<longleftrightarrow> x = x' \<and> y = y') \<and>
    Tile2D_To_Linear W H x y 0 < tiled_size 16 W H \<and>
    Tile2D_To_Linear W H x y 1 < tiled_size 8 W H"
  using luma_tiles.addr_inject chroma_tiles.addr_inject luma_tiles.addr_less chroma_tiles.addr_less assms
  by metis

theorem tile_addresses_witness:
  "Tile2D_To_Linear 40 20 17 18 0 \<noteq> Tile2D_To_Linear 40 20 18 17 0"
  using tile_addresses [of 40 17 18 20 18 17] by simp

lemma tiled_y_bytes:
  assumes "(W + 16) * (H + 16) < UINT_RANGE" "even H" "apart dst (W * H) src (tiled_size 16 W H)"
  shows "csc_tiled_to_linear_y dst src W H m a =
    (if a \<in> {dst..<dst + W * H}
     then m (src + Tile2D_To_Linear W H ((a - dst) mod W) ((a - dst) div W) 0) else m a)"
proof -
  let ?row = "\<lambda>d s. memcpy (dst + d) (src + s)" and ?h = "align_down32 H 16"
  have "(W + 16) * H \<le> (W + 16) * (H + 16)" by (intro mult_le_mono2) simp
  then have "16 * H < UINT_RANGE" using assms(1) by (simp add: algebra_simps)
  then have sub: "sub32 H ?h = H - ?h" by (intro sub32_id) (auto simp: align_down32_le)
  have "even ?h" using align_down32_dvd [of 16 H] by presburger
  then have "even (H - ?h)" using assms(2) by simp
  then have T: "block_rows ?row W (H - ?h) (block2 ?row W (sub32 H ?h) 2)"
    unfolding sub by (rule block_rows_even)
  have F: "block_rows ?row W 16 (block2 ?row W 8 1)" by (rule block_rows_two) simp
  show ?thesis using luma_tiles.plane_copied [where m = m, OF assms(1,3) F T]
    unfolding csc_tiled_to_linear_y_def Let_def by (simp only:)
qed

text \<open>
  C2 (tiled_to_linear_y). For a frame of even height whose offsets fit an
  \<open>unsigned int\<close> and whose source and destination do not meet, \<open>csc_tiled_to_linear_y\<close>
  stores at row \<open>y\<close> and column \<open>x\<close> the byte at \<open>Tile2D_To_Linear\<close> of the luma layout, for
  every width, and writes nothing outside the \<open>W * H\<close> bytes of the destination.
\<close>
theorem tiled_to_linear_y:
  assumes "(W + 16) * (H + 16) < UINT_RANGE" "even H" "apart dst (W * H) src (tiled_size 16 W H)"
  shows "csc_tiled_to_linear_y dst src W H m a =
    (if a \<in> {dst..<dst + W * H}
     then m (src + Tile2D_To_Linear W H ((a - dst) mod W) ((a - dst) div W) 0) else m a)"
  using assms by (rule tiled_y_bytes)

theorem tiled_to_linear_y_witness:
  "csc_tiled_to_linear_y 4000 0 20 18 (\<lambda>a. of_nat a) (4000 + (17 * 20 + 18)) =
     of_nat (Tile2D_To_Linear 20 18 18 17 0)"
  using tiled_to_linear_y [of 20 18 4000 0 "\<lambda>a. of_nat a" "4000 + (17 * 20 + 18)"]
  by (simp add: apart_def tiled_size_def)

lemma height_fits:
  "(W + 16) * (H + b) < UINT_RANGE \<Longrightarrow> H < UINT_RANGE" for W H b :: nat
proof -
  assume "(W + 16) * (H + b) < UINT_RANGE"
  moreover have "1 * (H + b) \<le> (W + 16) * (H + b)" by (intro mult_le_mono1) simp
  ultimately have "H + b < UINT_RANGE" by (simp only: mult_1 le_less_trans)
  then show ?thesis by simp
qed

lemma tiled_uv_bytes:
  assumes "(W + 16) * (H + 8) < UINT_RANGE" "apart dst (W * H) src (tiled_size 8 W H)"
  shows "csc_tiled_to_linear_uv dst src W H m a =
    (if a \<in> {dst..<dst + W * H}
     then m (src + Tile2D_To_Linear W H ((a - dst) mod W) ((a - dst) div W) 1) else m a)"
proof -
  let ?row = "\<lambda>d s. memcpy (dst + d) (src + s)" and ?h = "align_down32 H 8"
  have sub: "sub32 H ?h = H - ?h" using height_fits [OF assms(1)] by (intro sub32_id align_down32_le)
  have T: "block_rows ?row W (H - ?h) (block1 ?row W (sub32 H ?h) 1)"
    unfolding sub by (rule block_rows_one)
  have F: "block_rows ?row W 8 (block2 ?row W 4 1)" by (rule block_rows_two) simp
  show ?thesis using chroma_tiles.plane_copied [where m = m, OF assms F T]
    unfolding csc_tiled_to_linear_uv_def Let_def by (simp only:)
qed

text \<open>
  The same for interleaved chroma: for every width and every
  height, even or odd, \<open>csc_tiled_to_linear_uv\<close> stores at row \<open>y\<close> and column \<open>x\<close> the byte at
  \<open>Tile2D_To_Linear\<close> of the chroma layout and writes nothing else.
\<close>
theorem tiled_to_linear_uv:
  assumes "(W + 16) * (H + 8) < UINT_RANGE" "apart dst (W * H) src (tiled_size 8 W H)"
  shows "csc_tiled_to_linear_uv dst src W H m a =
    (if a \<in> {dst..<dst + W * H}
     then m (src + Tile2D_To_Linear W H ((a - dst) mod W) ((a - dst) div W) 1) else m a)"
  using assms by (rule tiled_uv_bytes)

theorem tiled_to_linear_uv_witness:
  "csc_tiled_to_linear_uv 4000 0 20 9 (\<lambda>a. of_nat a) (4000 + (8 * 20 + 18)) =
     of_nat (Tile2D_To_Linear 20 9 18 8 1)"
  using tiled_to_linear_uv [of 20 9 4000 0 "\<lambda>a. of_nat a" "4000 + (8 * 20 + 18)"]
  by (simp add: apart_def tiled_size_def)

lemma tiled_split_bytes:
  assumes "(W + 16) * (H + 8) < UINT_RANGE" "even W" "apart u (W div 2 * H) v (W div 2 * H)"
    and "apart u (W div 2 * H) src (tiled_size 8 W H)" "apart v (W div 2 * H) src (tiled_size 8 W H)"
  shows "(\<forall>x < W div 2. \<forall>y < H.
      csc_tiled_to_linear_uv_deinterleave u v src W H m (u + (y * (W div 2) + x))
        = m (src + Tile2D_To_Linear W H (2 * x) y 1) \<and>
      csc_tiled_to_linear_uv_deinterleave u v src W H m (v + (y * (W div 2) + x))
        = m (src + Tile2D_To_Linear W H (2 * x + 1) y 1)) \<and>
    (\<forall>a. a \<notin> {u..<u + W div 2 * H} \<union> {v..<v + W div 2 * H} \<longrightarrow>
      csc_tiled_to_linear_uv_deinterleave u v src W H m a = m a)"
proof -
  let ?row = "\<lambda>d s. csc_deinterleave_memcpy (u + d) (v + d) (src + s)" and ?h = "align_down32 H 8"
  let ?m' = "csc_tiled_to_linear_uv_deinterleave u v src W H m"
  have sub: "sub32 H ?h = H - ?h" using height_fits [OF assms(1)] by (intro sub32_id align_down32_le)
  have T: "block_rows ?row (W div 2) (H - ?h) (block1 ?row (W div 2) (sub32 H ?h) 1)"
    unfolding sub by (rule block_rows_one)
  have F: "block_rows ?row (W div 2) 8 (block2 ?row (W div 2) 4 1)" by (rule block_rows_two) simp
  have cell: "?m' (split_cell u v W y x) = m (src + Tile2D_To_Linear W H x y 1)" if "x < W" "y < H" for x y
    using chroma_tiles.split_copied(1) [where m = m, OF assms F T that]
    unfolding csc_tiled_to_linear_uv_deinterleave_def Let_def by assumption
  have frame: "?m' a = m a" if "a \<notin> split_dst u v W H" for a
    using chroma_tiles.split_copied(2) [where m = m, OF assms F T that]
    unfolding csc_tiled_to_linear_uv_deinterleave_def Let_def by assumption
  have "2 * x < W" "2 * x + 1 < W" if "x < W div 2" for x using that by auto
  then have "?m' (u + (y * (W div 2) + x)) = m (src + Tile2D_To_Linear W H (2 * x) y 1) \<and>
      ?m' (v + (y * (W div 2) + x)) = m (src + Tile2D_To_Linear W H (2 * x + 1) y 1)"
    if "x < W div 2" "y < H" for x y
    using cell [of "2 * x" y] cell [of "2 * x + 1" y] that
    by (simp add: split_cell_def mult.commute)
  with frame show ?thesis by (simp add: split_dst_def)
qed

text \<open>
  For an even width, the byte at column \<open>2 * x\<close> of
  row \<open>y\<close> of the tiled chroma goes to column \<open>x\<close> of the U plane, the byte at column
  \<open>2 * x + 1\<close> to column \<open>x\<close> of the V plane, for every height, and nothing outside the two
  planes changes.
\<close>
theorem tiled_to_linear_uv_deinterleave:
  assumes "(W + 16) * (H + 8) < UINT_RANGE" "even W" "apart u (W div 2 * H) v (W div 2 * H)"
    and "apart u (W div 2 * H) src (tiled_size 8 W H)" "apart v (W div 2 * H) src (tiled_size 8 W H)"
  shows "(\<forall>x < W div 2. \<forall>y < H.
      csc_tiled_to_linear_uv_deinterleave u v src W H m (u + (y * (W div 2) + x))
        = m (src + Tile2D_To_Linear W H (2 * x) y 1) \<and>
      csc_tiled_to_linear_uv_deinterleave u v src W H m (v + (y * (W div 2) + x))
        = m (src + Tile2D_To_Linear W H (2 * x + 1) y 1)) \<and>
    (\<forall>a. a \<notin> {u..<u + W div 2 * H} \<union> {v..<v + W div 2 * H} \<longrightarrow>
      csc_tiled_to_linear_uv_deinterleave u v src W H m a = m a)"
  using assms by (rule tiled_split_bytes)

theorem tiled_to_linear_uv_deinterleave_witness:
  "csc_tiled_to_linear_uv_deinterleave 4000 6000 0 20 9 (\<lambda>a. of_nat a) (6000 + (8 * 10 + 9))
     = of_nat (Tile2D_To_Linear 20 9 19 8 1)"
proof -
  have "\<forall>x < 20 div 2. \<forall>y < 9.
      csc_tiled_to_linear_uv_deinterleave 4000 6000 0 20 9 (\<lambda>a. of_nat a) (6000 + (y * (20 div 2) + x))
        = of_nat (0 + Tile2D_To_Linear 20 9 (2 * x + 1) y 1)"
    using tiled_to_linear_uv_deinterleave [of 20 9 4000 6000 0 "\<lambda>a. of_nat a"]
    by (simp add: apart_def tiled_size_def)
  from this [THEN spec [of _ 9]] have "\<forall>y < 9.
      csc_tiled_to_linear_uv_deinterleave 4000 6000 0 20 9 (\<lambda>a. of_nat a) (6000 + (y * 10 + 9))
        = of_nat (Tile2D_To_Linear 20 9 19 y 1)" by simp
  from this [THEN spec [of _ 8]] show ?thesis by simp
qed

text \<open>
  De-interleaving what \<open>csc_interleave_memcpy\<close> produced from two
  planes of \<open>n\<close> bytes gives back the two planes, provided the buffers do not meet.
\<close>
theorem interleave_round_trip:
  assumes "2 * n < UINT_RANGE" "apart tmp (2 * n) s1 n" "apart tmp (2 * n) s2 n"
    and "apart d1 n d2 n" "apart d1 n tmp (2 * n)" "apart d2 n tmp (2 * n)" "i < n"
  shows "csc_deinterleave_memcpy d1 d2 tmp (2 * n) (csc_interleave_memcpy tmp s1 s2 n m) (d1 + i) = m (s1 + i) \<and>
    csc_deinterleave_memcpy d1 d2 tmp (2 * n) (csc_interleave_memcpy tmp s1 s2 n m) (d2 + i) = m (s2 + i)"
proof -
  have "(d2 + i \<in> {d1..<d1 + n}) = False" using assms(4,7) by (auto simp: apart_def)
  then show ?thesis unfolding deinterleave_bytes [OF assms(4-6)] interleave_bytes [OF assms(1-3)]
    using assms(7) by (simp only: if_False) simp
qed

theorem interleave_round_trip_witness:
  "csc_deinterleave_memcpy 60 70 20 6 (csc_interleave_memcpy 20 0 10 3 (\<lambda>a. of_nat a)) (70 + 2) = 12"
  using interleave_round_trip [of 3 20 0 10 60 70 2 "\<lambda>a. of_nat a"] by (simp add: apart_def)

end
