(* ===== verification/Exynos_Format.thy ===== *)
theory Exynos_Format
  imports Exynos_Prelude "HOL-Library.Signed_Division"
begin

text \<open>
  The pixel format tables of \<open>libexynosutils/exynos_format_v4l2.c\<close>: the translation between
  Android and V4L2 formats in both directions, the number of planes, the frame size and
  the bits per pixel. The formats are datatypes with one constructor per constant the code
  names; every other value is the last constructor. The return value -1 is \<open>None\<close>. The
  theorems show where the two translations are inverse to each other, that the plane
  tables agree, and that a frame size holds the pixels the format describes.
\<close>

section \<open>Formats\<close>

datatype hal_format =
    HAL_PIXEL_FORMAT_RGBA_8888
  | HAL_PIXEL_FORMAT_RGBX_8888
  | HAL_PIXEL_FORMAT_RGB_888
  | HAL_PIXEL_FORMAT_RGB_565
  | HAL_PIXEL_FORMAT_BGRA_8888
  | HAL_PIXEL_FORMAT_EXYNOS_YV12_M
  | HAL_PIXEL_FORMAT_EXYNOS_YCbCr_420_P_M
  | HAL_PIXEL_FORMAT_YV12
  | HAL_PIXEL_FORMAT_EXYNOS_YCbCr_420_P
  | HAL_PIXEL_FORMAT_EXYNOS_YCbCr_420_PN
  | HAL_PIXEL_FORMAT_YCbCr_422_SP
  | HAL_PIXEL_FORMAT_EXYNOS_YCbCr_420_SP
  | HAL_PIXEL_FORMAT_EXYNOS_YCbCr_420_SPN
  | HAL_PIXEL_FORMAT_EXYNOS_YCbCr_420_SP_M
  | HAL_PIXEL_FORMAT_EXYNOS_YCbCr_420_SP_M_PRIV
  | HAL_PIXEL_FORMAT_EXYNOS_YCbCr_420_SP_M_S10B
  | HAL_PIXEL_FORMAT_EXYNOS_YCbCr_420_SPN_S10B
  | HAL_PIXEL_FORMAT_YCbCr_422_I
  | HAL_PIXEL_FORMAT_EXYNOS_CbYCrY_422_I
  | HAL_PIXEL_FORMAT_EXYNOS_YCrCb_422_SP
  | HAL_PIXEL_FORMAT_EXYNOS_YCrCb_420_SP_M
  | HAL_PIXEL_FORMAT_EXYNOS_YCrCb_420_SP_M_FULL
  | HAL_PIXEL_FORMAT_YCrCb_420_SP
  | HAL_PIXEL_FORMAT_EXYNOS_YCbCr_420_SP_M_TILED
  | HAL_PIXEL_FORMAT_EXYNOS_YCbCr_420_SPN_TILED
  | HAL_PIXEL_FORMAT_EXYNOS_YCrCb_422_I
  | HAL_PIXEL_FORMAT_EXYNOS_CrYCbY_422_I
  | HAL_PIXEL_FORMAT_EXYNOS_YCbCr_P010_M
  | HAL_PIXEL_FORMAT_EXYNOS_YCbCr_422_P
  | HAL_PIXEL_FORMAT_EXYNOS_YCrCb_420_SP_M_SBWC
  | HAL_PIXEL_FORMAT_EXYNOS_YCrCb_420_SP_M_10B_SBWC
  | HAL_PIXEL_FORMAT_EXYNOS_YCbCr_420_SP_M_SBWC
  | HAL_PIXEL_FORMAT_EXYNOS_YCbCr_420_SP_M_10B_SBWC
  | HAL_PIXEL_FORMAT_EXYNOS_YCbCr_420_SP_M_SBWC_L50
  | HAL_PIXEL_FORMAT_EXYNOS_YCbCr_420_SP_M_10B_SBWC_L40
  | HAL_PIXEL_FORMAT_YCBCR_P010
  | HAL_PIXEL_FORMAT_EXYNOS_ARGB_8888
  | HAL_PIXEL_FORMAT_other int

datatype v4l2_format =
    V4L2_PIX_FMT_YVU420M
  | V4L2_PIX_FMT_RGB32
  | V4L2_PIX_FMT_RGB24
  | V4L2_PIX_FMT_RGB565
  | V4L2_PIX_FMT_BGR32
  | V4L2_PIX_FMT_YUV420M
  | V4L2_PIX_FMT_YVU420
  | V4L2_PIX_FMT_YUV420
  | V4L2_PIX_FMT_YUV420N
  | V4L2_PIX_FMT_NV16
  | V4L2_PIX_FMT_NV12
  | V4L2_PIX_FMT_NV12N
  | V4L2_PIX_FMT_NV12M
  | V4L2_PIX_FMT_NV12N_10B
  | V4L2_PIX_FMT_YUYV
  | V4L2_PIX_FMT_UYVY
  | V4L2_PIX_FMT_NV61
  | V4L2_PIX_FMT_NV21M
  | V4L2_PIX_FMT_NV21
  | V4L2_PIX_FMT_NV12MT
  | V4L2_PIX_FMT_NV12MT_16X16
  | V4L2_PIX_FMT_NV12NT
  | V4L2_PIX_FMT_YVYU
  | V4L2_PIX_FMT_VYUY
  | V4L2_PIX_FMT_NV12M_P010
  | V4L2_PIX_FMT_YUV422P
  | V4L2_PIX_FMT_NV21M_SBWC_8B
  | V4L2_PIX_FMT_NV21M_SBWC_10B
  | V4L2_PIX_FMT_NV12M_SBWC_8B
  | V4L2_PIX_FMT_NV12M_SBWC_10B
  | V4L2_PIX_FMT_NV12M_SBWCL_8B
  | V4L2_PIX_FMT_NV12M_SBWCL_10B
  | V4L2_PIX_FMT_other int

section \<open>Tables\<close>

definition HAL_PIXEL_FORMAT_2_V4L2_PIX :: "bool \<Rightarrow> hal_format \<Rightarrow> v4l2_format option" where
  "HAL_PIXEL_FORMAT_2_V4L2_PIX uses_fimc hal_pixel_format = (case hal_pixel_format of
      HAL_PIXEL_FORMAT_RGBA_8888 \<Rightarrow> Some V4L2_PIX_FMT_RGB32
    | HAL_PIXEL_FORMAT_RGBX_8888 \<Rightarrow> Some V4L2_PIX_FMT_RGB32
    | HAL_PIXEL_FORMAT_RGB_888 \<Rightarrow> Some V4L2_PIX_FMT_RGB24
    | HAL_PIXEL_FORMAT_RGB_565 \<Rightarrow> Some V4L2_PIX_FMT_RGB565
    | HAL_PIXEL_FORMAT_BGRA_8888 \<Rightarrow> Some V4L2_PIX_FMT_BGR32
    | HAL_PIXEL_FORMAT_EXYNOS_YV12_M \<Rightarrow> Some V4L2_PIX_FMT_YVU420M
    | HAL_PIXEL_FORMAT_EXYNOS_YCbCr_420_P_M \<Rightarrow> Some V4L2_PIX_FMT_YUV420M
    | HAL_PIXEL_FORMAT_YV12 \<Rightarrow> Some V4L2_PIX_FMT_YVU420
    | HAL_PIXEL_FORMAT_EXYNOS_YCbCr_420_P \<Rightarrow> Some V4L2_PIX_FMT_YUV420
    | HAL_PIXEL_FORMAT_EXYNOS_YCbCr_420_PN \<Rightarrow> Some V4L2_PIX_FMT_YUV420N
    | HAL_PIXEL_FORMAT_YCbCr_422_SP \<Rightarrow> Some V4L2_PIX_FMT_NV16
    | HAL_PIXEL_FORMAT_EXYNOS_YCbCr_420_SP \<Rightarrow> Some V4L2_PIX_FMT_NV12
    | HAL_PIXEL_FORMAT_EXYNOS_YCbCr_420_SPN \<Rightarrow> Some V4L2_PIX_FMT_NV12N
    | HAL_PIXEL_FORMAT_EXYNOS_YCbCr_420_SP_M \<Rightarrow> Some V4L2_PIX_FMT_NV12M
    | HAL_PIXEL_FORMAT_EXYNOS_YCbCr_420_SP_M_PRIV \<Rightarrow> Some V4L2_PIX_FMT_NV12M
    | HAL_PIXEL_FORMAT_EXYNOS_YCbCr_420_SP_M_S10B \<Rightarrow> Some V4L2_PIX_FMT_NV12M
    | HAL_PIXEL_FORMAT_EXYNOS_YCbCr_420_SPN_S10B \<Rightarrow> Some V4L2_PIX_FMT_NV12N_10B
    | HAL_PIXEL_FORMAT_YCbCr_422_I \<Rightarrow> Some V4L2_PIX_FMT_YUYV
    | HAL_PIXEL_FORMAT_EXYNOS_CbYCrY_422_I \<Rightarrow> Some V4L2_PIX_FMT_UYVY
    | HAL_PIXEL_FORMAT_EXYNOS_YCrCb_422_SP \<Rightarrow> Some V4L2_PIX_FMT_NV61
    | HAL_PIXEL_FORMAT_EXYNOS_YCrCb_420_SP_M \<Rightarrow> Some V4L2_PIX_FMT_NV21M
    | HAL_PIXEL_FORMAT_EXYNOS_YCrCb_420_SP_M_FULL \<Rightarrow> Some V4L2_PIX_FMT_NV21M
    | HAL_PIXEL_FORMAT_YCrCb_420_SP \<Rightarrow> Some V4L2_PIX_FMT_NV21
    | HAL_PIXEL_FORMAT_EXYNOS_YCbCr_420_SP_M_TILED \<Rightarrow> Some (if uses_fimc then V4L2_PIX_FMT_NV12MT else V4L2_PIX_FMT_NV12MT_16X16)
    | HAL_PIXEL_FORMAT_EXYNOS_YCbCr_420_SPN_TILED \<Rightarrow> Some V4L2_PIX_FMT_NV12NT
    | HAL_PIXEL_FORMAT_EXYNOS_YCrCb_422_I \<Rightarrow> Some V4L2_PIX_FMT_YVYU
    | HAL_PIXEL_FORMAT_EXYNOS_CrYCbY_422_I \<Rightarrow> Some V4L2_PIX_FMT_VYUY
    | HAL_PIXEL_FORMAT_EXYNOS_YCbCr_P010_M \<Rightarrow> Some V4L2_PIX_FMT_NV12M_P010
    | HAL_PIXEL_FORMAT_EXYNOS_YCbCr_422_P \<Rightarrow> Some V4L2_PIX_FMT_YUV422P
    | HAL_PIXEL_FORMAT_EXYNOS_YCrCb_420_SP_M_SBWC \<Rightarrow> Some V4L2_PIX_FMT_NV21M_SBWC_8B
    | HAL_PIXEL_FORMAT_EXYNOS_YCrCb_420_SP_M_10B_SBWC \<Rightarrow> Some V4L2_PIX_FMT_NV21M_SBWC_10B
    | HAL_PIXEL_FORMAT_EXYNOS_YCbCr_420_SP_M_SBWC \<Rightarrow> Some V4L2_PIX_FMT_NV12M_SBWC_8B
    | HAL_PIXEL_FORMAT_EXYNOS_YCbCr_420_SP_M_10B_SBWC \<Rightarrow> Some V4L2_PIX_FMT_NV12M_SBWC_10B
    | HAL_PIXEL_FORMAT_EXYNOS_YCbCr_420_SP_M_SBWC_L50 \<Rightarrow> Some V4L2_PIX_FMT_NV12M_SBWCL_8B
    | HAL_PIXEL_FORMAT_EXYNOS_YCbCr_420_SP_M_10B_SBWC_L40 \<Rightarrow> Some V4L2_PIX_FMT_NV12M_SBWCL_10B
    | _ \<Rightarrow> None)"

definition V4L2_PIX_2_HAL_PIXEL_FORMAT :: "v4l2_format \<Rightarrow> hal_format option" where
  "V4L2_PIX_2_HAL_PIXEL_FORMAT v4l2_pixel_format = (case v4l2_pixel_format of
      V4L2_PIX_FMT_RGB32 \<Rightarrow> Some HAL_PIXEL_FORMAT_RGBA_8888
    | V4L2_PIX_FMT_RGB24 \<Rightarrow> Some HAL_PIXEL_FORMAT_RGB_888
    | V4L2_PIX_FMT_RGB565 \<Rightarrow> Some HAL_PIXEL_FORMAT_RGB_565
    | V4L2_PIX_FMT_BGR32 \<Rightarrow> Some HAL_PIXEL_FORMAT_BGRA_8888
    | V4L2_PIX_FMT_YUV420 \<Rightarrow> Some HAL_PIXEL_FORMAT_EXYNOS_YCbCr_420_P
    | V4L2_PIX_FMT_YUV420N \<Rightarrow> Some HAL_PIXEL_FORMAT_EXYNOS_YCbCr_420_PN
    | V4L2_PIX_FMT_YUV420M \<Rightarrow> Some HAL_PIXEL_FORMAT_EXYNOS_YCbCr_420_P_M
    | V4L2_PIX_FMT_YVU420 \<Rightarrow> Some HAL_PIXEL_FORMAT_YV12
    | V4L2_PIX_FMT_YVU420M \<Rightarrow> Some HAL_PIXEL_FORMAT_EXYNOS_YV12_M
    | V4L2_PIX_FMT_NV16 \<Rightarrow> Some HAL_PIXEL_FORMAT_YCbCr_422_SP
    | V4L2_PIX_FMT_NV12 \<Rightarrow> Some HAL_PIXEL_FORMAT_EXYNOS_YCbCr_420_SP
    | V4L2_PIX_FMT_NV12N \<Rightarrow> Some HAL_PIXEL_FORMAT_EXYNOS_YCbCr_420_SPN
    | V4L2_PIX_FMT_NV12M \<Rightarrow> Some HAL_PIXEL_FORMAT_EXYNOS_YCbCr_420_SP_M
    | V4L2_PIX_FMT_NV21M \<Rightarrow> Some HAL_PIXEL_FORMAT_EXYNOS_YCrCb_420_SP_M
    | V4L2_PIX_FMT_YUYV \<Rightarrow> Some HAL_PIXEL_FORMAT_YCbCr_422_I
    | V4L2_PIX_FMT_UYVY \<Rightarrow> Some HAL_PIXEL_FORMAT_EXYNOS_CbYCrY_422_I
    | V4L2_PIX_FMT_NV21 \<Rightarrow> Some HAL_PIXEL_FORMAT_YCrCb_420_SP
    | V4L2_PIX_FMT_NV12MT \<Rightarrow> Some HAL_PIXEL_FORMAT_EXYNOS_YCbCr_420_SP_M_TILED
    | V4L2_PIX_FMT_NV12MT_16X16 \<Rightarrow> Some HAL_PIXEL_FORMAT_EXYNOS_YCbCr_420_SP_M_TILED
    | V4L2_PIX_FMT_NV12NT \<Rightarrow> Some HAL_PIXEL_FORMAT_EXYNOS_YCbCr_420_SPN_TILED
    | V4L2_PIX_FMT_NV61 \<Rightarrow> Some HAL_PIXEL_FORMAT_EXYNOS_YCrCb_422_SP
    | V4L2_PIX_FMT_YVYU \<Rightarrow> Some HAL_PIXEL_FORMAT_EXYNOS_YCrCb_422_I
    | V4L2_PIX_FMT_VYUY \<Rightarrow> Some HAL_PIXEL_FORMAT_EXYNOS_CrYCbY_422_I
    | V4L2_PIX_FMT_NV12N_10B \<Rightarrow> Some HAL_PIXEL_FORMAT_EXYNOS_YCbCr_420_SPN_S10B
    | V4L2_PIX_FMT_NV12M_P010 \<Rightarrow> Some HAL_PIXEL_FORMAT_EXYNOS_YCbCr_P010_M
    | V4L2_PIX_FMT_YUV422P \<Rightarrow> Some HAL_PIXEL_FORMAT_EXYNOS_YCbCr_422_P
    | V4L2_PIX_FMT_NV21M_SBWC_8B \<Rightarrow> Some HAL_PIXEL_FORMAT_EXYNOS_YCrCb_420_SP_M_SBWC
    | V4L2_PIX_FMT_NV21M_SBWC_10B \<Rightarrow> Some HAL_PIXEL_FORMAT_EXYNOS_YCrCb_420_SP_M_10B_SBWC
    | V4L2_PIX_FMT_NV12M_SBWC_8B \<Rightarrow> Some HAL_PIXEL_FORMAT_EXYNOS_YCbCr_420_SP_M_SBWC
    | V4L2_PIX_FMT_NV12M_SBWC_10B \<Rightarrow> Some HAL_PIXEL_FORMAT_EXYNOS_YCbCr_420_SP_M_10B_SBWC
    | V4L2_PIX_FMT_NV12M_SBWCL_8B \<Rightarrow> Some HAL_PIXEL_FORMAT_EXYNOS_YCbCr_420_SP_M_SBWC_L50
    | V4L2_PIX_FMT_NV12M_SBWCL_10B \<Rightarrow> Some HAL_PIXEL_FORMAT_EXYNOS_YCbCr_420_SP_M_10B_SBWC_L40
    | _ \<Rightarrow> None)"

definition NUM_PLANES :: "hal_format \<Rightarrow> nat" where
  "NUM_PLANES hal_pixel_format = (case hal_pixel_format of
      HAL_PIXEL_FORMAT_EXYNOS_YV12_M \<Rightarrow> 3
    | HAL_PIXEL_FORMAT_EXYNOS_YCbCr_420_P_M \<Rightarrow> 3
    | HAL_PIXEL_FORMAT_EXYNOS_YCbCr_420_SP_M \<Rightarrow> 2
    | HAL_PIXEL_FORMAT_EXYNOS_YCbCr_420_SP_M_PRIV \<Rightarrow> 2
    | HAL_PIXEL_FORMAT_EXYNOS_YCbCr_420_SP_M_S10B \<Rightarrow> 2
    | HAL_PIXEL_FORMAT_EXYNOS_YCbCr_420_SPN_S10B \<Rightarrow> 2
    | HAL_PIXEL_FORMAT_EXYNOS_YCbCr_P010_M \<Rightarrow> 2
    | HAL_PIXEL_FORMAT_EXYNOS_YCrCb_420_SP_M \<Rightarrow> 2
    | HAL_PIXEL_FORMAT_EXYNOS_YCrCb_420_SP_M_FULL \<Rightarrow> 2
    | HAL_PIXEL_FORMAT_EXYNOS_YCbCr_420_SP_M_TILED \<Rightarrow> 2
    | HAL_PIXEL_FORMAT_YV12 \<Rightarrow> 1
    | HAL_PIXEL_FORMAT_YCrCb_420_SP \<Rightarrow> 1
    | HAL_PIXEL_FORMAT_YCbCr_422_I \<Rightarrow> 1
    | HAL_PIXEL_FORMAT_YCbCr_422_SP \<Rightarrow> 1
    | HAL_PIXEL_FORMAT_EXYNOS_YCbCr_420_SP \<Rightarrow> 1
    | HAL_PIXEL_FORMAT_EXYNOS_YCbCr_420_P \<Rightarrow> 1
    | HAL_PIXEL_FORMAT_EXYNOS_YCrCb_422_I \<Rightarrow> 1
    | HAL_PIXEL_FORMAT_EXYNOS_CbYCrY_422_I \<Rightarrow> 1
    | HAL_PIXEL_FORMAT_EXYNOS_CrYCbY_422_I \<Rightarrow> 1
    | HAL_PIXEL_FORMAT_EXYNOS_YCrCb_422_SP \<Rightarrow> 1
    | HAL_PIXEL_FORMAT_EXYNOS_YCbCr_422_P \<Rightarrow> 1
    | HAL_PIXEL_FORMAT_EXYNOS_YCbCr_420_SPN_TILED \<Rightarrow> 1
    | HAL_PIXEL_FORMAT_EXYNOS_YCbCr_420_SPN \<Rightarrow> 1
    | HAL_PIXEL_FORMAT_EXYNOS_YCbCr_420_PN \<Rightarrow> 1
    | _ \<Rightarrow> 1)"

text \<open>
  \<open>width\<close> and \<open>height\<close> are \<open>int\<close>; a product that exceeds \<open>int\<close> is undefined in C, and the
  result is converted to \<open>unsigned int\<close>. Division truncates.
\<close>

definition ALIGN_UP :: "int \<Rightarrow> int \<Rightarrow> int" where
  "ALIGN_UP x a = (x + a - 1) AND NOT (a - 1)"

definition GET_32BPP_FRAME_SIZE :: "int \<Rightarrow> int \<Rightarrow> int" where
  "GET_32BPP_FRAME_SIZE w h = push_bit 2 (w * h)"

definition GET_24BPP_FRAME_SIZE :: "int \<Rightarrow> int \<Rightarrow> int" where
  "GET_24BPP_FRAME_SIZE w h = (w * h) * 3"

definition GET_16BPP_FRAME_SIZE :: "int \<Rightarrow> int \<Rightarrow> int" where
  "GET_16BPP_FRAME_SIZE w h = push_bit 1 (w * h)"

definition frame_bytes :: "hal_format \<Rightarrow> int \<Rightarrow> int \<Rightarrow> int" where
  "frame_bytes hal_pixel_format width height = (case hal_pixel_format of
      HAL_PIXEL_FORMAT_RGB_565 \<Rightarrow> GET_16BPP_FRAME_SIZE width height
    | HAL_PIXEL_FORMAT_RGB_888 \<Rightarrow> GET_24BPP_FRAME_SIZE width height
    | HAL_PIXEL_FORMAT_RGBA_8888 \<Rightarrow> GET_32BPP_FRAME_SIZE width height
    | HAL_PIXEL_FORMAT_BGRA_8888 \<Rightarrow> GET_32BPP_FRAME_SIZE width height
    | HAL_PIXEL_FORMAT_RGBX_8888 \<Rightarrow> GET_32BPP_FRAME_SIZE width height
    | HAL_PIXEL_FORMAT_EXYNOS_YCbCr_420_P \<Rightarrow>
        (let size = ALIGN_UP width 16 * height in size + ALIGN_UP (width sdiv 2) 16 * height)
    | HAL_PIXEL_FORMAT_YV12 \<Rightarrow>
        (let size = ALIGN_UP width 16 * height in size + ALIGN_UP (width sdiv 2) 16 * height)
    | HAL_PIXEL_FORMAT_YCrCb_420_SP \<Rightarrow> (width * height * 3) sdiv 2
    | HAL_PIXEL_FORMAT_EXYNOS_YCbCr_420_SP \<Rightarrow> (width * height * 3) sdiv 2
    | HAL_PIXEL_FORMAT_EXYNOS_YCbCr_420_SPN \<Rightarrow>
        (ALIGN_UP width 16 * ALIGN_UP height 16 + 256)
        + ALIGN_UP (ALIGN_UP width 16 * (ALIGN_UP height 16 sdiv 2) + 256) 16
    | HAL_PIXEL_FORMAT_EXYNOS_YCbCr_420_SPN_TILED \<Rightarrow>
        (ALIGN_UP width 16 * ALIGN_UP height 16 + 256)
        + ALIGN_UP (ALIGN_UP width 16 * (ALIGN_UP height 16 sdiv 2) + 256) 16
    | HAL_PIXEL_FORMAT_EXYNOS_YCbCr_420_PN \<Rightarrow>
        (ALIGN_UP width 16 * ALIGN_UP height 16 + 256)
        + 2 * ALIGN_UP (ALIGN_UP (width sdiv 2) 16 * (ALIGN_UP height 16 sdiv 2) + 256) 16
    | HAL_PIXEL_FORMAT_YCbCr_422_SP \<Rightarrow> GET_16BPP_FRAME_SIZE width height
    | HAL_PIXEL_FORMAT_YCbCr_422_I \<Rightarrow> GET_16BPP_FRAME_SIZE width height
    | HAL_PIXEL_FORMAT_EXYNOS_CbYCrY_422_I \<Rightarrow> GET_16BPP_FRAME_SIZE width height
    | HAL_PIXEL_FORMAT_EXYNOS_YCrCb_422_SP \<Rightarrow> GET_16BPP_FRAME_SIZE width height
    | HAL_PIXEL_FORMAT_EXYNOS_YCrCb_422_I \<Rightarrow> GET_16BPP_FRAME_SIZE width height
    | HAL_PIXEL_FORMAT_EXYNOS_CrYCbY_422_I \<Rightarrow> GET_16BPP_FRAME_SIZE width height
    | _ \<Rightarrow> 0)"

definition FRAME_SIZE :: "hal_format \<Rightarrow> int \<Rightarrow> int \<Rightarrow> nat" where
  "FRAME_SIZE hal_pixel_format width height = nat (frame_bytes hal_pixel_format width height mod 2 ^ 32)"

definition V4L2_PIX_2_YUV_INFO :: "v4l2_format \<Rightarrow> (nat \<times> nat) option" where
  "V4L2_PIX_2_YUV_INFO v4l2_pixel_format = (case v4l2_pixel_format of
      V4L2_PIX_FMT_NV12 \<Rightarrow> Some (12, 1)
    | V4L2_PIX_FMT_NV21 \<Rightarrow> Some (12, 1)
    | V4L2_PIX_FMT_NV12N \<Rightarrow> Some (12, 1)
    | V4L2_PIX_FMT_NV12NT \<Rightarrow> Some (12, 1)
    | V4L2_PIX_FMT_YUV420 \<Rightarrow> Some (12, 1)
    | V4L2_PIX_FMT_YVU420 \<Rightarrow> Some (12, 1)
    | V4L2_PIX_FMT_YUV420N \<Rightarrow> Some (12, 1)
    | V4L2_PIX_FMT_NV12M \<Rightarrow> Some (12, 2)
    | V4L2_PIX_FMT_NV21M \<Rightarrow> Some (12, 2)
    | V4L2_PIX_FMT_NV12MT \<Rightarrow> Some (12, 2)
    | V4L2_PIX_FMT_NV12MT_16X16 \<Rightarrow> Some (12, 2)
    | V4L2_PIX_FMT_NV12M_SBWC_8B \<Rightarrow> Some (12, 2)
    | V4L2_PIX_FMT_YUV420M \<Rightarrow> Some (12, 3)
    | V4L2_PIX_FMT_YVU420M \<Rightarrow> Some (12, 3)
    | V4L2_PIX_FMT_YUYV \<Rightarrow> Some (16, 1)
    | V4L2_PIX_FMT_YVYU \<Rightarrow> Some (16, 1)
    | V4L2_PIX_FMT_UYVY \<Rightarrow> Some (16, 1)
    | V4L2_PIX_FMT_VYUY \<Rightarrow> Some (16, 1)
    | V4L2_PIX_FMT_NV16 \<Rightarrow> Some (16, 1)
    | V4L2_PIX_FMT_NV61 \<Rightarrow> Some (16, 1)
    | _ \<Rightarrow> None)"

definition get_yuv_bpp :: "v4l2_format \<Rightarrow> int" where
  "get_yuv_bpp v4l2_pixel_format = (case V4L2_PIX_2_YUV_INFO v4l2_pixel_format of
      Some (bpp, planes) \<Rightarrow> int bpp | None \<Rightarrow> -1)"

definition get_yuv_planes :: "v4l2_format \<Rightarrow> int" where
  "get_yuv_planes v4l2_pixel_format = (case V4L2_PIX_2_YUV_INFO v4l2_pixel_format of
      Some (bpp, planes) \<Rightarrow> int planes | None \<Rightarrow> -1)"

section \<open>Rounding\<close>

lemma and_not_mask: "x AND NOT (mask n) = x div 2 ^ n * 2 ^ n" for x :: int
proof (rule bit_eqI)
  fix k
  have "x div 2 ^ n * 2 ^ n = push_bit n (drop_bit n x)" by (simp add: push_bit_eq_mult drop_bit_eq_div)
  then show "bit (x AND NOT (mask n)) k \<longleftrightarrow> bit (x div 2 ^ n * 2 ^ n) k"
    by (auto simp: bit_simps)
qed

lemma ALIGN_UP_16: "ALIGN_UP x 16 = (x + 15) div 16 * 16"
  using and_not_mask [of "x + 15" 4] by (simp add: ALIGN_UP_def mask_eq_exp_minus_1 add.commute)

lemma ALIGN_UP_bounds: "x \<le> ALIGN_UP x 16" "ALIGN_UP x 16 \<le> x + 15" "16 dvd ALIGN_UP x 16"
  unfolding ALIGN_UP_16 by (presburger, presburger, simp)

lemma sdiv_two: "0 \<le> x \<Longrightarrow> x sdiv 2 = x div 2" for x :: int
  by (cases "x = 0") (simp_all add: signed_divide_int_def)

lemmas bytes_defs = frame_bytes_def GET_16BPP_FRAME_SIZE_def GET_24BPP_FRAME_SIZE_def GET_32BPP_FRAME_SIZE_def

text \<open>The sizes with aligned planes, for even dimensions.\<close>

lemma aligned_sizes:
  fixes w h :: int
  assumes "0 \<le> w" "0 \<le> h" "even w" "even h"
  defines "A \<equiv> ALIGN_UP w 16" and "B \<equiv> ALIGN_UP h 16" and "C \<equiv> ALIGN_UP (w sdiv 2) 16"
  shows "w * h \<le> A * B" "A * B \<le> (w + 16) * (h + 16)"
    and "w * h \<le> A * h" "A * h \<le> (w + 16) * (h + 16)"
    and "w * h \<le> 2 * (C * h)" "C * h \<le> (w + 16) * (h + 16)"
    and "2 * (A * (B sdiv 2)) = A * B" "w * h \<le> 4 * (C * (B sdiv 2))" "C * (B sdiv 2) \<le> (w + 16) * (h + 16)"
proof -
  have A: "w \<le> A" "A \<le> w + 16" "0 \<le> A" and B: "h \<le> B" "B \<le> h + 16" "0 \<le> B"
    using ALIGN_UP_bounds(1,2) [of w] ALIGN_UP_bounds(1,2) [of h] assms(1,2) by (auto simp: A_def B_def)
  have C: "w div 2 \<le> C" "C \<le> w + 16" "0 \<le> C"
    using ALIGN_UP_bounds(1,2) [of "w div 2"] assms(1) by (auto simp: C_def sdiv_two)
  have "16 dvd B" by (simp add: B_def ALIGN_UP_bounds(3))
  then obtain b where b: "B = 2 * b" "B sdiv 2 = b"
    using B(3) by (auto simp: sdiv_two elim!: dvdE)
  have w: "w = 2 * (w div 2)" using assms(3) by simp
  have half: "w div 2 * b \<le> C * b" "w div 2 * h \<le> C * h" "(w div 2) * h \<le> C * B"
    using C B b assms by (auto intro!: mult_mono)
  show "w * h \<le> A * B" "A * B \<le> (w + 16) * (h + 16)" "w * h \<le> A * h" "A * h \<le> (w + 16) * (h + 16)"
    "C * h \<le> (w + 16) * (h + 16)" using A B C assms(1,2) by (auto intro!: mult_mono)
  show "2 * (A * (B sdiv 2)) = A * B" unfolding b(2) unfolding b(1) by simp
  show "w * h \<le> 2 * (C * h)" using half(2) w by (metis mult.assoc mult_left_mono zero_le_numeral)
  have "w * h = 2 * (w div 2 * h)" using w by (metis mult.assoc)
  also have "\<dots> \<le> 2 * (C * (2 * b))" using half(3) unfolding b(1) by linarith
  finally show "w * h \<le> 4 * (C * (B sdiv 2))" unfolding b(2) by simp
  show "C * (B sdiv 2) \<le> (w + 16) * (h + 16)" using C B b assms by (auto intro!: mult_mono)
qed

lemma linear_sizes:
  fixes x a b c s u n k :: int
  assumes "0 \<le> x" "x \<le> a" "a \<le> u"
  shows "x \<le> 2 * c \<Longrightarrow> c \<le> u \<Longrightarrow> x * 12 \<le> 8 * (a + c) \<and> a + c \<le> 4 * u + 1024"
    and "2 * s = a \<Longrightarrow> s + 256 \<le> n \<Longrightarrow> n \<le> s + 256 + 15 \<Longrightarrow>
      x * 12 \<le> 8 * (a + 256 + n) \<and> a + 256 + n \<le> 4 * u + 1024"
    and "x \<le> 4 * c \<Longrightarrow> c \<le> u \<Longrightarrow> c + 256 \<le> k \<Longrightarrow> k \<le> c + 256 + 15 \<Longrightarrow>
      x * 12 \<le> 8 * (a + 256 + 2 * k) \<and> a + 256 + 2 * k \<le> 4 * u + 1024"
  using assms by auto

lemma frame_bytes_bounds:
  assumes "0 \<le> w" "0 \<le> h" "even w" "even h"
    and "HAL_PIXEL_FORMAT_2_V4L2_PIX fimc f = Some v" "get_yuv_planes v = 1"
  shows "w * h * get_yuv_bpp v \<le> 8 * frame_bytes f w h \<and> frame_bytes f w h \<le> 4 * ((w + 16) * (h + 16)) + 1024"
proof -
  note sz = aligned_sizes [OF assms(1-4)]
  have wh: "0 \<le> w * h" "even (w * h)" using assms by simp_all
  have sp: "w * h * 12 \<le> 8 * ((w * h * 3) sdiv 2)" "(w * h * 3) sdiv 2 \<le> 4 * ((w + 16) * (h + 16)) + 1024"
    using sz(1,2) wh by (auto simp: sdiv_two)
  let ?A = "ALIGN_UP w 16" and ?B = "ALIGN_UP h 16" and ?C = "ALIGN_UP (w sdiv 2) 16"
  let ?U = "4 * ((w + 16) * (h + 16)) + 1024"
  have p: "w * h * 12 \<le> 8 * (?A * h + ?C * h) \<and> ?A * h + ?C * h \<le> ?U"
    using linear_sizes(1) [OF wh(1) sz(3-6)] .
  let ?s = "?A * (?B sdiv 2) + 256" and ?c = "?C * (?B sdiv 2) + 256"
  have spn: "w * h * 12 \<le> 8 * (?A * ?B + 256 + ALIGN_UP ?s 16) \<and> ?A * ?B + 256 + ALIGN_UP ?s 16 \<le> ?U"
    using linear_sizes(2) [OF wh(1) sz(1,2,7) ALIGN_UP_bounds(1,2)] .
  have pn: "w * h * 12 \<le> 8 * (?A * ?B + 256 + 2 * ALIGN_UP ?c 16) \<and> ?A * ?B + 256 + 2 * ALIGN_UP ?c 16 \<le> ?U"
    using linear_sizes(3) [OF wh(1) sz(1,2,8,9) ALIGN_UP_bounds(1,2)] .
  have i422: "w * h * 16 \<le> 8 * push_bit 1 (w * h)" "push_bit 1 (w * h) \<le> 4 * ((w + 16) * (h + 16)) + 1024"
    using sz(1,2) wh by (auto simp: push_bit_eq_mult)
  show ?thesis using assms(5,6) sp p spn pn i422
    by (cases f; cases fimc)
      (simp_all add: HAL_PIXEL_FORMAT_2_V4L2_PIX_def get_yuv_planes_def get_yuv_bpp_def
        V4L2_PIX_2_YUV_INFO_def bytes_defs Let_def)
qed

section \<open>Properties\<close>

text \<open>
  C40 (v4l2_hal_round_trip). Translating a V4L2 format to its Android format and back gives
  the same V4L2 format; of the two tiled NV12MT variants, which share one Android format,
  it gives the one the build is configured for.
\<close>
theorem v4l2_hal_round_trip:
  assumes "V4L2_PIX_2_HAL_PIXEL_FORMAT v = Some h"
  shows "HAL_PIXEL_FORMAT_2_V4L2_PIX fimc h = Some (if v \<in> {V4L2_PIX_FMT_NV12MT, V4L2_PIX_FMT_NV12MT_16X16}
    then (if fimc then V4L2_PIX_FMT_NV12MT else V4L2_PIX_FMT_NV12MT_16X16) else v)"
  using assms by (cases v) (auto simp: V4L2_PIX_2_HAL_PIXEL_FORMAT_def HAL_PIXEL_FORMAT_2_V4L2_PIX_def)

theorem v4l2_hal_round_trip_witness:
  "HAL_PIXEL_FORMAT_2_V4L2_PIX False HAL_PIXEL_FORMAT_YCrCb_420_SP = Some V4L2_PIX_FMT_NV21"
  using v4l2_hal_round_trip [of V4L2_PIX_FMT_NV21 HAL_PIXEL_FORMAT_YCrCb_420_SP False]
  by (simp add: V4L2_PIX_2_HAL_PIXEL_FORMAT_def)

text \<open>
  Translating an Android format to V4L2 and back succeeds, gives a
  format with the same number of planes and the same V4L2 format, and gives back the format
  itself except for the four that share the V4L2 format of another one.
\<close>
theorem hal_v4l2_round_trip:
  assumes "HAL_PIXEL_FORMAT_2_V4L2_PIX fimc h = Some v"
  shows "\<exists>h'. V4L2_PIX_2_HAL_PIXEL_FORMAT v = Some h' \<and> NUM_PLANES h' = NUM_PLANES h \<and>
    HAL_PIXEL_FORMAT_2_V4L2_PIX fimc h' = Some v \<and>
    (h' = h \<or> (h, h') \<in> {(HAL_PIXEL_FORMAT_RGBX_8888, HAL_PIXEL_FORMAT_RGBA_8888),
      (HAL_PIXEL_FORMAT_EXYNOS_YCbCr_420_SP_M_PRIV, HAL_PIXEL_FORMAT_EXYNOS_YCbCr_420_SP_M),
      (HAL_PIXEL_FORMAT_EXYNOS_YCbCr_420_SP_M_S10B, HAL_PIXEL_FORMAT_EXYNOS_YCbCr_420_SP_M),
      (HAL_PIXEL_FORMAT_EXYNOS_YCrCb_420_SP_M_FULL, HAL_PIXEL_FORMAT_EXYNOS_YCrCb_420_SP_M)})"
  using assms by (cases h; cases fimc)
    (auto simp: V4L2_PIX_2_HAL_PIXEL_FORMAT_def HAL_PIXEL_FORMAT_2_V4L2_PIX_def NUM_PLANES_def)

theorem hal_v4l2_round_trip_witness:
  "\<exists>h'. V4L2_PIX_2_HAL_PIXEL_FORMAT V4L2_PIX_FMT_NV12MT_16X16 = Some h' \<and> NUM_PLANES h' = 2"
  using hal_v4l2_round_trip [of False HAL_PIXEL_FORMAT_EXYNOS_YCbCr_420_SP_M_TILED V4L2_PIX_FMT_NV12MT_16X16]
  by (auto simp: HAL_PIXEL_FORMAT_2_V4L2_PIX_def NUM_PLANES_def)

text \<open>
  For every Android format whose V4L2 format has an entry in
  \<open>V4L2_PIX_2_YUV_INFO\<close>, \<open>NUM_PLANES\<close> and \<open>get_yuv_planes\<close> give the same number of planes,
  with one exception: for the compressed two-buffer format \<open>NUM_PLANES\<close> has no case and
  gives 1 while \<open>get_yuv_planes\<close> gives 2.
\<close>
theorem plane_tables_agree:
  assumes "HAL_PIXEL_FORMAT_2_V4L2_PIX fimc h = Some v" "0 \<le> get_yuv_planes v"
  shows "if h = HAL_PIXEL_FORMAT_EXYNOS_YCbCr_420_SP_M_SBWC then NUM_PLANES h = 1 \<and> get_yuv_planes v = 2
    else get_yuv_planes v = int (NUM_PLANES h)"
  using assms by (cases h; cases fimc)
    (auto simp: HAL_PIXEL_FORMAT_2_V4L2_PIX_def NUM_PLANES_def get_yuv_planes_def V4L2_PIX_2_YUV_INFO_def)

theorem plane_tables_agree_witness:
  "get_yuv_planes V4L2_PIX_FMT_YVU420M = int (NUM_PLANES HAL_PIXEL_FORMAT_EXYNOS_YV12_M)"
  using plane_tables_agree [of False HAL_PIXEL_FORMAT_EXYNOS_YV12_M V4L2_PIX_FMT_YVU420M]
  by (simp add: HAL_PIXEL_FORMAT_2_V4L2_PIX_def get_yuv_planes_def V4L2_PIX_2_YUV_INFO_def)

text \<open>
  For every single-buffer YUV format and even dimensions whose
  sizes fit an \<open>int\<close>, \<open>FRAME_SIZE\<close> is at least \<open>width * height * get_yuv_bpp / 8\<close> bytes: the
  size table never gives less than the bits per pixel table asks for.
\<close>
theorem frame_size_holds_pixels:
  assumes "0 \<le> w" "0 \<le> h" "even w" "even h" "4 * ((w + 16) * (h + 16)) + 1024 < 2 ^ 31"
    and "HAL_PIXEL_FORMAT_2_V4L2_PIX fimc f = Some v" "get_yuv_planes v = 1"
  shows "w * h * get_yuv_bpp v \<le> 8 * int (FRAME_SIZE f w h)"
proof -
  note b = frame_bytes_bounds [OF assms(1-4) assms(6,7)]
  have "0 \<le> get_yuv_bpp v"
    using assms(7) by (auto simp: get_yuv_planes_def get_yuv_bpp_def split: option.splits)
  then have "0 \<le> w * h * get_yuv_bpp v" using assms(1,2) by simp
  then have "0 \<le> frame_bytes f w h" "frame_bytes f w h < 2 ^ 32"
    using b le_less_trans [OF _ assms(5), of "frame_bytes f w h"] by simp_all
  then have "int (FRAME_SIZE f w h) = frame_bytes f w h" by (simp add: FRAME_SIZE_def)
  with b show ?thesis by simp
qed

theorem frame_size_holds_pixels_witness:
  "1920 * 1080 * get_yuv_bpp V4L2_PIX_FMT_YUV420N \<le> 8 * int (FRAME_SIZE HAL_PIXEL_FORMAT_EXYNOS_YCbCr_420_PN 1920 1080)"
  using frame_size_holds_pixels [of 1920 1080 False HAL_PIXEL_FORMAT_EXYNOS_YCbCr_420_PN V4L2_PIX_FMT_YUV420N]
  by (simp add: HAL_PIXEL_FORMAT_2_V4L2_PIX_def get_yuv_planes_def V4L2_PIX_2_YUV_INFO_def)

end
