(* ===== verification/Csc_Convert.thy ===== *)
theory Csc_Convert
  imports Sw_Rgb Sw_Tile Exynos_Format
begin

text \<open>
  The software half of \<open>libcsc/csc.c\<close>: the conversion handle, the copies that add or remove
  the padding of the video codec's buffers (\<open>copy_mfc_data\<close>), one converter per source
  format and the dispatcher \<open>conv_sw\<close>. A converter takes the handle and the memory and
  returns an error code and the memory. The theorems show which pairs of formats are
  supported, that an unsupported pair leaves memory alone, that a conversion between YUV
  4:2:0 formats keeps every luma and chroma sample, and that adding and removing the
  codec's padding are inverse to each other.
\<close>

section \<open>The handle\<close>

datatype CSC_ERRORCODE =
    CSC_ErrorNone | CSC_Error | CSC_ErrorNotInit | CSC_ErrorInvalidAddress
  | CSC_ErrorUnsupportFormat | CSC_ErrorNotImplemented

text \<open>The enumerations a caller can pass any value for have a constructor for the others.\<close>

datatype CSC_METHOD = CSC_METHOD_SW | CSC_METHOD_HW | CSC_METHOD_other int

datatype CSC_HW_TYPE = CSC_HW_TYPE_FIMC | CSC_HW_TYPE_GSCALER

abbreviation (input) CSC_Y_PLANE :: nat where "CSC_Y_PLANE \<equiv> 0"
abbreviation (input) CSC_RGB_PLANE :: nat where "CSC_RGB_PLANE \<equiv> 0"
abbreviation (input) CSC_U_PLANE :: nat where "CSC_U_PLANE \<equiv> 1"
abbreviation (input) CSC_UV_PLANE :: nat where "CSC_UV_PLANE \<equiv> 1"
abbreviation (input) CSC_V_PLANE :: nat where "CSC_V_PLANE \<equiv> 2"

abbreviation (input) CSC_MEMORY_MFC :: int where "CSC_MEMORY_MFC \<equiv> 5"

abbreviation (input) MFC_IMG_ALIGN_WIDTH :: nat where "MFC_IMG_ALIGN_WIDTH \<equiv> 16"

record CSC_FORMAT =
  width :: nat
  height :: nat
  crop_left :: nat
  crop_top :: nat
  crop_width :: nat
  crop_height :: nat
  color_format :: hal_format
  cacheable :: nat
  format_mode_drm :: nat

record CSC_BUFFER =
  planes :: "addr list"
  mem_type :: int

record CSC_HW_PROPERTY =
  fixed_node :: int
  mode_drm :: int

record CSC_HANDLE =
  dst_format :: CSC_FORMAT
  src_format :: CSC_FORMAT
  dst_buffer :: CSC_BUFFER
  src_buffer :: CSC_BUFFER
  csc_method :: CSC_METHOD
  csc_hw_type :: CSC_HW_TYPE
  csc_hw_handle :: nat
  hw_property :: CSC_HW_PROPERTY
  csc_mode :: int
  csc_range :: int
  colorspace :: int
  hw_filter :: nat
  frame_rate :: nat

abbreviation src_plane :: "CSC_HANDLE \<Rightarrow> nat \<Rightarrow> addr" where
  "src_plane h k \<equiv> planes (src_buffer h) ! k"

abbreviation dst_plane :: "CSC_HANDLE \<Rightarrow> nat \<Rightarrow> addr" where
  "dst_plane h k \<equiv> planes (dst_buffer h) ! k"

section \<open>Row copies\<close>

text \<open>
  The number of iterations of \<open>for (i = 0; i < (int)n; i++)\<close>: none when \<open>n\<close> exceeds the
  largest \<open>int\<close>.
\<close>

definition int_count :: "nat \<Rightarrow> nat" where
  "int_count n = (if n < 2 ^ 31 then n else 0)"

text \<open>\<open>n\<close> bytes per row; the strides times the \<open>int\<close> row number are \<open>unsigned int\<close>.\<close>

definition copy_rows :: "addr \<Rightarrow> nat \<Rightarrow> addr \<Rightarrow> nat \<Rightarrow> nat \<Rightarrow> nat \<Rightarrow> memory \<Rightarrow> memory" where
  "copy_rows pDst dst_stride pSrc src_stride n rows m =
     snd (c_for 0 (int_count rows) 1
       (\<lambda>i. memcpy (pDst + mul32 dst_stride i) (pSrc + mul32 src_stride i) n) m)"

section \<open>Codec buffers\<close>

text \<open>Decoder side: the padding at the end of every row is removed.\<close>

definition mfc_unpad_planar :: "CSC_HANDLE \<Rightarrow> memory \<Rightarrow> memory" where
  "mfc_unpad_planar h m =
     (let f = src_format h;
          m = copy_rows (dst_plane h CSC_Y_PLANE) (crop_width f) (src_plane h CSC_Y_PLANE) (width f)
                (crop_width f) (crop_height f) m;
          m = copy_rows (dst_plane h CSC_U_PLANE) (crop_width f div 2) (src_plane h CSC_U_PLANE)
                (align_up32 (crop_width f div 2) MFC_IMG_ALIGN_WIDTH) (crop_width f div 2) (crop_height f div 2) m
      in copy_rows (dst_plane h CSC_V_PLANE) (crop_width f div 2) (src_plane h CSC_V_PLANE)
                (align_up32 (crop_width f div 2) MFC_IMG_ALIGN_WIDTH) (crop_width f div 2) (crop_height f div 2) m)"

definition mfc_unpad_semiplanar :: "CSC_HANDLE \<Rightarrow> memory \<Rightarrow> memory" where
  "mfc_unpad_semiplanar h m =
     (let f = src_format h;
          m = copy_rows (dst_plane h CSC_Y_PLANE) (crop_width f) (src_plane h CSC_Y_PLANE) (width f)
                (crop_width f) (crop_height f) m
      in copy_rows (dst_plane h CSC_UV_PLANE) (crop_width f) (src_plane h CSC_UV_PLANE) (width f)
                (crop_width f) (crop_height f div 2) m)"

definition mfc_unpad_P010 :: "CSC_HANDLE \<Rightarrow> memory \<Rightarrow> memory" where
  "mfc_unpad_P010 h m =
     (let f = src_format h;
          m = copy_rows (dst_plane h CSC_Y_PLANE) (mul32 (crop_width f) 2) (src_plane h CSC_Y_PLANE)
                (mul32 (width f) 2) (mul32 (crop_width f) 2) (crop_height f) m
      in copy_rows (dst_plane h CSC_UV_PLANE) (mul32 (crop_width f) 2) (src_plane h CSC_UV_PLANE)
                (mul32 (width f) 2) (mul32 (crop_width f) 2) (crop_height f div 2) m)"

text \<open>Encoder side: padding is added, unless both formats have the same width.\<close>

definition same_width :: "CSC_HANDLE \<Rightarrow> bool" where
  "same_width h \<longleftrightarrow> width (src_format h) = width (dst_format h) \<and>
     crop_width (src_format h) = crop_width (dst_format h)"

definition mfc_pad_planar :: "CSC_HANDLE \<Rightarrow> memory \<Rightarrow> memory" where
  "mfc_pad_planar h m =
     (let f = src_format h; g = dst_format h;
          m = (if same_width h
               then memcpy (dst_plane h CSC_Y_PLANE) (src_plane h CSC_Y_PLANE) (mul32 (width f) (height f)) m
               else copy_rows (dst_plane h CSC_Y_PLANE) (width g) (src_plane h CSC_Y_PLANE) (crop_width f)
                      (crop_width f) (height f) m);
          m = copy_rows (dst_plane h CSC_U_PLANE) (align_up32 (width g div 2) MFC_IMG_ALIGN_WIDTH)
                (src_plane h CSC_U_PLANE) (crop_width f div 2) (crop_width f div 2) (height f div 2) m
      in copy_rows (dst_plane h CSC_V_PLANE) (align_up32 (width g div 2) MFC_IMG_ALIGN_WIDTH)
                (src_plane h CSC_V_PLANE) (crop_width f div 2) (crop_width f div 2) (height f div 2) m)"

definition mfc_pad_semiplanar :: "CSC_HANDLE \<Rightarrow> memory \<Rightarrow> memory" where
  "mfc_pad_semiplanar h m =
     (let f = src_format h; g = dst_format h in
      if same_width h then
        (let m = memcpy (dst_plane h CSC_Y_PLANE) (src_plane h CSC_Y_PLANE) (mul32 (width f) (height f)) m
         in memcpy (dst_plane h CSC_UV_PLANE) (src_plane h CSC_UV_PLANE) (mul32 (width f) (height f div 2)) m)
      else
        (let m = copy_rows (dst_plane h CSC_Y_PLANE) (width g) (src_plane h CSC_Y_PLANE) (crop_width f)
                   (crop_width f) (height f) m
         in copy_rows (dst_plane h CSC_UV_PLANE) (width g) (src_plane h CSC_UV_PLANE) (crop_width f)
                   (crop_width f) (height f div 2) m))"

definition mfc_pad_P010 :: "CSC_HANDLE \<Rightarrow> memory \<Rightarrow> memory" where
  "mfc_pad_P010 h m =
     (let f = src_format h; g = dst_format h in
      if same_width h then
        (let m = memcpy (dst_plane h CSC_Y_PLANE) (src_plane h CSC_Y_PLANE)
                   (mul32 (mul32 (width f) 2) (height f)) m
         in memcpy (dst_plane h CSC_UV_PLANE) (src_plane h CSC_UV_PLANE)
                   (mul32 (mul32 (width f) 2) (height f div 2)) m)
      else
        (let m = copy_rows (dst_plane h CSC_Y_PLANE) (mul32 (width g) 2) (src_plane h CSC_Y_PLANE)
                   (mul32 (crop_width f) 2) (mul32 (crop_width f) 2) (height f) m
         in copy_rows (dst_plane h CSC_UV_PLANE) (mul32 (width g) 2) (src_plane h CSC_UV_PLANE)
                   (mul32 (crop_width f) 2) (mul32 (crop_width f) 2) (height f div 2) m))"

definition mfc_copy_rgb :: "CSC_HANDLE \<Rightarrow> memory \<Rightarrow> memory" where
  "mfc_copy_rgb h = memcpy (dst_plane h CSC_Y_PLANE) (src_plane h CSC_Y_PLANE)
     (mul32 (mul32 (width (src_format h)) (height (src_format h))) 4)"

definition copy_mfc_data :: "CSC_HANDLE \<Rightarrow> memory \<Rightarrow> CSC_ERRORCODE \<times> memory" where
  "copy_mfc_data handle m = (case color_format (src_format handle) of
      HAL_PIXEL_FORMAT_EXYNOS_YCbCr_420_P_M \<Rightarrow> (CSC_ErrorNone, mfc_unpad_planar handle m)
    | HAL_PIXEL_FORMAT_EXYNOS_YCbCr_420_PN \<Rightarrow> (CSC_ErrorNone, mfc_unpad_planar handle m)
    | HAL_PIXEL_FORMAT_EXYNOS_YV12_M \<Rightarrow> (CSC_ErrorNone, mfc_unpad_planar handle m)
    | HAL_PIXEL_FORMAT_EXYNOS_YCbCr_420_SP_M \<Rightarrow> (CSC_ErrorNone, mfc_unpad_semiplanar handle m)
    | HAL_PIXEL_FORMAT_EXYNOS_YCbCr_420_SP_M_PRIV \<Rightarrow> (CSC_ErrorNone, mfc_unpad_semiplanar handle m)
    | HAL_PIXEL_FORMAT_EXYNOS_YCbCr_420_SP_M_S10B \<Rightarrow> (CSC_ErrorNone, mfc_unpad_semiplanar handle m)
    | HAL_PIXEL_FORMAT_EXYNOS_YCbCr_420_SPN \<Rightarrow> (CSC_ErrorNone, mfc_unpad_semiplanar handle m)
    | HAL_PIXEL_FORMAT_EXYNOS_YCrCb_420_SP_M \<Rightarrow> (CSC_ErrorNone, mfc_unpad_semiplanar handle m)
    | HAL_PIXEL_FORMAT_EXYNOS_YCbCr_P010_M \<Rightarrow> (CSC_ErrorNone, mfc_unpad_P010 handle m)
    | HAL_PIXEL_FORMAT_EXYNOS_YCbCr_420_P \<Rightarrow> (CSC_ErrorNone, mfc_pad_planar handle m)
    | HAL_PIXEL_FORMAT_YV12 \<Rightarrow> (CSC_ErrorNone, mfc_pad_planar handle m)
    | HAL_PIXEL_FORMAT_EXYNOS_YCbCr_420_SP \<Rightarrow> (CSC_ErrorNone, mfc_pad_semiplanar handle m)
    | HAL_PIXEL_FORMAT_YCrCb_420_SP \<Rightarrow> (CSC_ErrorNone, mfc_pad_semiplanar handle m)
    | HAL_PIXEL_FORMAT_YCBCR_P010 \<Rightarrow> (CSC_ErrorNone, mfc_pad_P010 handle m)
    | HAL_PIXEL_FORMAT_BGRA_8888 \<Rightarrow> (CSC_ErrorNone, mfc_copy_rgb handle m)
    | HAL_PIXEL_FORMAT_RGBA_8888 \<Rightarrow> (CSC_ErrorNone, mfc_copy_rgb handle m)
    | HAL_PIXEL_FORMAT_EXYNOS_ARGB_8888 \<Rightarrow> (CSC_ErrorNone, mfc_copy_rgb handle m)
    | _ \<Rightarrow> (CSC_ErrorUnsupportFormat, m))"

section \<open>Converters\<close>

text \<open>The families of destination formats the switch statements group.\<close>

definition is_planar :: "hal_format \<Rightarrow> bool" where
  "is_planar f \<longleftrightarrow> f = HAL_PIXEL_FORMAT_EXYNOS_YCbCr_420_P \<or> f = HAL_PIXEL_FORMAT_EXYNOS_YCbCr_420_P_M \<or>
     f = HAL_PIXEL_FORMAT_EXYNOS_YCbCr_420_PN"

definition is_semiplanar :: "hal_format \<Rightarrow> bool" where
  "is_semiplanar f \<longleftrightarrow> f = HAL_PIXEL_FORMAT_EXYNOS_YCbCr_420_SP \<or> f = HAL_PIXEL_FORMAT_EXYNOS_YCbCr_420_SP_M \<or>
     f = HAL_PIXEL_FORMAT_EXYNOS_YCbCr_420_SP_M_PRIV \<or> f = HAL_PIXEL_FORMAT_EXYNOS_YCbCr_420_SPN"

definition is_yv12 :: "hal_format \<Rightarrow> bool" where
  "is_yv12 f \<longleftrightarrow> f = HAL_PIXEL_FORMAT_YV12 \<or> f = HAL_PIXEL_FORMAT_EXYNOS_YV12_M"

definition conv_sw_src_argb888 :: "CSC_HANDLE \<Rightarrow> memory \<Rightarrow> CSC_ERRORCODE \<times> memory" where
  "conv_sw_src_argb888 handle m =
     (let dst = color_format (dst_format handle); f = src_format handle in
      if dst = HAL_PIXEL_FORMAT_BGRA_8888 then
        (if mem_type (src_buffer handle) = CSC_MEMORY_MFC then copy_mfc_data handle m
         else (CSC_ErrorUnsupportFormat, m))
      else if is_planar dst then
        (CSC_ErrorNone, csc_BGRA8888_to_YUV420P (dst_plane handle CSC_Y_PLANE) (dst_plane handle CSC_U_PLANE)
           (dst_plane handle CSC_V_PLANE) (src_plane handle CSC_RGB_PLANE) (width f) (height f) m)
      else if is_semiplanar dst then
        (CSC_ErrorNone, csc_BGRA8888_to_YUV420SP (dst_plane handle CSC_Y_PLANE) (dst_plane handle CSC_UV_PLANE)
           (src_plane handle CSC_RGB_PLANE) (width f) (height f) m)
      else if is_yv12 dst then
        (CSC_ErrorNone, csc_BGRA8888_to_YUV420P (dst_plane handle CSC_Y_PLANE) (dst_plane handle CSC_V_PLANE)
           (dst_plane handle CSC_U_PLANE) (src_plane handle CSC_RGB_PLANE) (width f) (height f) m)
      else (CSC_ErrorUnsupportFormat, m))"

definition conv_sw_src_rgba888 :: "CSC_HANDLE \<Rightarrow> memory \<Rightarrow> CSC_ERRORCODE \<times> memory" where
  "conv_sw_src_rgba888 handle m =
     (let dst = color_format (dst_format handle); f = src_format handle in
      if dst = HAL_PIXEL_FORMAT_RGBA_8888 then
        (if mem_type (src_buffer handle) = CSC_MEMORY_MFC then copy_mfc_data handle m
         else (CSC_ErrorUnsupportFormat, m))
      else if is_planar dst then
        (CSC_ErrorNone, csc_RGBA8888_to_YUV420P (dst_plane handle CSC_Y_PLANE) (dst_plane handle CSC_U_PLANE)
           (dst_plane handle CSC_V_PLANE) (src_plane handle CSC_RGB_PLANE) (width f) (height f) m)
      else if is_semiplanar dst then
        (CSC_ErrorNone, csc_RGBA8888_to_YUV420SP (dst_plane handle CSC_Y_PLANE) (dst_plane handle CSC_UV_PLANE)
           (src_plane handle CSC_RGB_PLANE) (width f) (height f) m)
      else if is_yv12 dst then
        (CSC_ErrorNone, csc_RGBA8888_to_YUV420P (dst_plane handle CSC_Y_PLANE) (dst_plane handle CSC_V_PLANE)
           (dst_plane handle CSC_U_PLANE) (src_plane handle CSC_RGB_PLANE) (width f) (height f) m)
      else (CSC_ErrorUnsupportFormat, m))"

definition conv_sw_src_nv12t :: "CSC_HANDLE \<Rightarrow> memory \<Rightarrow> CSC_ERRORCODE \<times> memory" where
  "conv_sw_src_nv12t handle m =
     (let dst = color_format (dst_format handle); f = src_format handle in
      if is_planar dst then
        (let m = csc_tiled_to_linear_y (dst_plane handle CSC_Y_PLANE) (src_plane handle CSC_Y_PLANE)
                   (crop_width f) (crop_height f) m
         in (CSC_ErrorNone, csc_tiled_to_linear_uv_deinterleave (dst_plane handle CSC_U_PLANE)
               (dst_plane handle CSC_V_PLANE) (src_plane handle CSC_UV_PLANE)
               (crop_width f) (crop_height f div 2) m))
      else if is_semiplanar dst then
        (let m = csc_tiled_to_linear_y (dst_plane handle CSC_Y_PLANE) (src_plane handle CSC_Y_PLANE)
                   (crop_width f) (crop_height f) m
         in (CSC_ErrorNone, csc_tiled_to_linear_uv (dst_plane handle CSC_UV_PLANE)
               (src_plane handle CSC_UV_PLANE) (crop_width f) (crop_height f div 2) m))
      else (CSC_ErrorUnsupportFormat, m))"

text \<open>Three planes, and two planes, of one buffer to another.\<close>

definition bypass_planar :: "CSC_HANDLE \<Rightarrow> memory \<Rightarrow> memory" where
  "bypass_planar handle m =
     (let n = mul32 (width (src_format handle)) (height (src_format handle));
          m = memcpy (dst_plane handle CSC_Y_PLANE) (src_plane handle CSC_Y_PLANE) n m;
          m = memcpy (dst_plane handle CSC_U_PLANE) (src_plane handle CSC_U_PLANE) (n div 4) m
      in memcpy (dst_plane handle CSC_V_PLANE) (src_plane handle CSC_V_PLANE) (n div 4) m)"

definition bypass_semiplanar :: "CSC_HANDLE \<Rightarrow> memory \<Rightarrow> memory" where
  "bypass_semiplanar handle m =
     (let n = mul32 (width (src_format handle)) (height (src_format handle));
          m = memcpy (dst_plane handle CSC_Y_PLANE) (src_plane handle CSC_Y_PLANE) n m
      in memcpy (dst_plane handle CSC_UV_PLANE) (src_plane handle CSC_UV_PLANE) (n div 2) m)"

definition conv_sw_src_yuv420p :: "CSC_HANDLE \<Rightarrow> memory \<Rightarrow> CSC_ERRORCODE \<times> memory" where
  "conv_sw_src_yuv420p handle m =
     (let dst = color_format (dst_format handle);
          n = mul32 (width (src_format handle)) (height (src_format handle)) in
      if is_planar dst then
        (if mem_type (src_buffer handle) = CSC_MEMORY_MFC then copy_mfc_data handle m
         else (CSC_ErrorNone, bypass_planar handle m))
      else if is_semiplanar dst then
        (let m = memcpy (dst_plane handle CSC_Y_PLANE) (src_plane handle CSC_Y_PLANE) n m
         in (CSC_ErrorNone, csc_interleave_memcpy (dst_plane handle CSC_UV_PLANE)
               (src_plane handle CSC_U_PLANE) (src_plane handle CSC_V_PLANE) (n div 4) m))
      else (CSC_ErrorUnsupportFormat, m))"

definition conv_sw_src_yvu420p :: "CSC_HANDLE \<Rightarrow> memory \<Rightarrow> CSC_ERRORCODE \<times> memory" where
  "conv_sw_src_yvu420p handle m =
     (let dst = color_format (dst_format handle);
          n = mul32 (width (src_format handle)) (height (src_format handle)) in
      if is_yv12 dst then
        (if mem_type (src_buffer handle) = CSC_MEMORY_MFC then copy_mfc_data handle m
         else (CSC_ErrorNone, bypass_planar handle m))
      else if is_semiplanar dst then
        (let m = memcpy (dst_plane handle CSC_Y_PLANE) (src_plane handle CSC_Y_PLANE) n m
         in (CSC_ErrorNone, csc_interleave_memcpy (dst_plane handle CSC_UV_PLANE)
               (src_plane handle CSC_V_PLANE) (src_plane handle CSC_U_PLANE) (n div 4) m))
      else (CSC_ErrorUnsupportFormat, m))"

text \<open>
  The loop nest that separates interleaved chroma. \<open>srcOffset\<close> and \<open>dstOffset\<close> are \<open>int\<close>
  variables that hold \<open>unsigned int\<close> results; \<open>p[k]\<close> with an \<open>int\<close> index is the byte at
  \<open>p + k\<close>. \<open>a\<close> and \<open>b\<close> say which byte of a pair \<open>pDstU\<close> and \<open>pDstV\<close> get.
\<close>

definition to_int32 :: "nat \<Rightarrow> int" where
  "to_int32 n = (if n < 2 ^ 31 then int n else int n - 2 ^ 32)"

definition elem :: "addr \<Rightarrow> int \<Rightarrow> addr" where
  "elem p k = nat (int p + k)"

definition split_chroma :: "nat \<Rightarrow> nat \<Rightarrow> CSC_HANDLE \<Rightarrow> memory \<Rightarrow> memory" where
  "split_chroma a b handle m =
     (let f = src_format handle; pSrc = src_plane handle CSC_UV_PLANE;
          pDstU = dst_plane handle CSC_U_PLANE; pDstV = dst_plane handle CSC_V_PLANE
      in snd (c_for 0 (int_count (crop_height f div 2)) 1
        (\<lambda>i m. snd (c_for 0 (int_count (crop_width f div 2)) 1
          (\<lambda>j m. let srcOffset = to_int32 (add32 (mul32 i (width f)) (mul32 j 2));
                     dstOffset = to_int32 (mul32 i (crop_width f div 2));
                     m = m(elem pDstU (dstOffset + int j) := m (elem pSrc (srcOffset + int a)))
                 in m(elem pDstV (dstOffset + int j) := m (elem pSrc (srcOffset + int b)))) m)) m))"

definition crop_luma :: "CSC_HANDLE \<Rightarrow> memory \<Rightarrow> memory" where
  "crop_luma handle = copy_rows (dst_plane handle CSC_Y_PLANE) (crop_width (src_format handle))
     (src_plane handle CSC_Y_PLANE) (width (src_format handle)) (crop_width (src_format handle))
     (crop_height (src_format handle))"

definition conv_sw_src_yuv420sp :: "CSC_HANDLE \<Rightarrow> memory \<Rightarrow> CSC_ERRORCODE \<times> memory" where
  "conv_sw_src_yuv420sp handle m =
     (let dst = color_format (dst_format handle) in
      if is_semiplanar dst then
        (if mem_type (src_buffer handle) = CSC_MEMORY_MFC then copy_mfc_data handle m
         else (CSC_ErrorNone, bypass_semiplanar handle m))
      else if is_planar dst then (CSC_ErrorNone, split_chroma 0 1 handle (crop_luma handle m))
      else if is_yv12 dst then (CSC_ErrorNone, split_chroma 1 0 handle (crop_luma handle m))
      else (CSC_ErrorUnsupportFormat, m))"

definition conv_sw_src_yvu420sp :: "CSC_HANDLE \<Rightarrow> memory \<Rightarrow> CSC_ERRORCODE \<times> memory" where
  "conv_sw_src_yvu420sp handle m =
     (let dst = color_format (dst_format handle) in
      if dst = HAL_PIXEL_FORMAT_YCrCb_420_SP \<or> dst = HAL_PIXEL_FORMAT_EXYNOS_YCrCb_420_SP_M
          \<or> dst = HAL_PIXEL_FORMAT_EXYNOS_YCbCr_420_SP_M_PRIV then
        (if mem_type (src_buffer handle) = CSC_MEMORY_MFC then copy_mfc_data handle m
         else (CSC_ErrorNone, bypass_semiplanar handle m))
      else if is_planar dst then (CSC_ErrorNone, split_chroma 1 0 handle (crop_luma handle m))
      else if is_yv12 dst then (CSC_ErrorNone, split_chroma 0 1 handle (crop_luma handle m))
      else (CSC_ErrorUnsupportFormat, m))"

definition conv_sw_src_yuvP010 :: "CSC_HANDLE \<Rightarrow> memory \<Rightarrow> CSC_ERRORCODE \<times> memory" where
  "conv_sw_src_yuvP010 handle m =
     (let dst = color_format (dst_format handle);
          n = mul32 (mul32 (width (src_format handle)) 2) (height (src_format handle)) in
      if dst = HAL_PIXEL_FORMAT_YCBCR_P010 \<or> dst = HAL_PIXEL_FORMAT_EXYNOS_YCbCr_P010_M then
        (if mem_type (src_buffer handle) = CSC_MEMORY_MFC then copy_mfc_data handle m
         else
           (let m = memcpy (dst_plane handle CSC_Y_PLANE) (src_plane handle CSC_Y_PLANE) n m
            in (CSC_ErrorNone, memcpy (dst_plane handle CSC_UV_PLANE) (src_plane handle CSC_UV_PLANE) (n div 2) m)))
      else (CSC_ErrorUnsupportFormat, m))"

definition conv_sw :: "CSC_HANDLE \<Rightarrow> memory \<Rightarrow> CSC_ERRORCODE \<times> memory" where
  "conv_sw handle m = (case color_format (src_format handle) of
      HAL_PIXEL_FORMAT_EXYNOS_YCbCr_420_SP_M_TILED \<Rightarrow> conv_sw_src_nv12t handle m
    | HAL_PIXEL_FORMAT_EXYNOS_YCbCr_420_SPN_TILED \<Rightarrow> conv_sw_src_nv12t handle m
    | HAL_PIXEL_FORMAT_EXYNOS_YCbCr_420_P \<Rightarrow> conv_sw_src_yuv420p handle m
    | HAL_PIXEL_FORMAT_EXYNOS_YCbCr_420_P_M \<Rightarrow> conv_sw_src_yuv420p handle m
    | HAL_PIXEL_FORMAT_EXYNOS_YCbCr_420_PN \<Rightarrow> conv_sw_src_yuv420p handle m
    | HAL_PIXEL_FORMAT_YV12 \<Rightarrow> conv_sw_src_yvu420p handle m
    | HAL_PIXEL_FORMAT_EXYNOS_YV12_M \<Rightarrow> conv_sw_src_yvu420p handle m
    | HAL_PIXEL_FORMAT_EXYNOS_YCbCr_420_SP \<Rightarrow> conv_sw_src_yuv420sp handle m
    | HAL_PIXEL_FORMAT_EXYNOS_YCbCr_420_SP_M \<Rightarrow> conv_sw_src_yuv420sp handle m
    | HAL_PIXEL_FORMAT_EXYNOS_YCbCr_420_SP_M_PRIV \<Rightarrow> conv_sw_src_yuv420sp handle m
    | HAL_PIXEL_FORMAT_EXYNOS_YCbCr_420_SP_M_S10B \<Rightarrow> conv_sw_src_yuv420sp handle m
    | HAL_PIXEL_FORMAT_EXYNOS_YCbCr_420_SPN \<Rightarrow> conv_sw_src_yuv420sp handle m
    | HAL_PIXEL_FORMAT_YCBCR_P010 \<Rightarrow> conv_sw_src_yuvP010 handle m
    | HAL_PIXEL_FORMAT_EXYNOS_YCbCr_P010_M \<Rightarrow> conv_sw_src_yuvP010 handle m
    | HAL_PIXEL_FORMAT_YCrCb_420_SP \<Rightarrow> conv_sw_src_yvu420sp handle m
    | HAL_PIXEL_FORMAT_EXYNOS_YCrCb_420_SP_M \<Rightarrow> conv_sw_src_yvu420sp handle m
    | HAL_PIXEL_FORMAT_BGRA_8888 \<Rightarrow> conv_sw_src_argb888 handle m
    | HAL_PIXEL_FORMAT_RGBA_8888 \<Rightarrow> conv_sw_src_rgba888 handle m
    | HAL_PIXEL_FORMAT_EXYNOS_ARGB_8888 \<Rightarrow> copy_mfc_data handle m
    | _ \<Rightarrow> (CSC_ErrorUnsupportFormat, m))"

section \<open>Bytes of a row copy\<close>

lemma int_count_id: "n < 2 ^ 31 \<Longrightarrow> int_count n = n"
  by (simp add: int_count_def)

text \<open>
  Row \<open>i\<close> of the copy, byte \<open>x\<close>: what \<open>copy_rows\<close> leaves at every address, when the
  destination stride holds a row and source and destination do not meet.
\<close>

lemma copy_rows_bytes:
  assumes "rows < 2 ^ 31" "ds * rows < UINT_RANGE" "ss * rows < UINT_RANGE"
    and "n \<le> ds" "n \<le> ss" "apart d (ds * rows) s (ss * rows)"
  shows "copy_rows d ds s ss n rows m a =
    (if d \<le> a \<and> a < d + ds * rows \<and> (a - d) mod ds < n
     then m (s + (ss * ((a - d) div ds) + (a - d) mod ds)) else m a)"
proof (cases "n = 0")
  case True
  have "memcpy d' s' 0 m = m" for d' s' m by (rule ext) (auto simp: memcpy_def)
  then have "copy_rows d ds s ss n rows m = m"
    unfolding copy_rows_def True by (intro c_for_invariant [where I = "\<lambda>m'. m' = m"]) simp_all
  then show ?thesis by (simp add: True)
next
  case False
  let ?D = "{a. d \<le> a \<and> a < d + ds * rows \<and> (a - d) mod ds < n}"
  let ?g = "\<lambda>a. s + (ss * ((a - d) div ds) + (a - d) mod ds)"
  have ds: "0 < ds" using False assms(4) by simp
  have row: "adds ?g ?D m {d + ds * i..<d + ds * i + n}
      (memcpy (d + mul32 ds i) (s + mul32 ss i) n)" if i: "i < rows" for i
    unfolding adds_def
  proof (intro allI impI)
    fix S m' assume c: "copied ?g ?D m S m'"
    have le: "ds * i + ds \<le> ds * rows" "ss * i \<le> ss * rows"
      using i mult_le_mono2 [of "Suc i" rows ds] by simp_all
    then have "ds * i < UINT_RANGE" using assms(2) by linarith
    then have "mul32 ds i = ds * i" "mul32 ss i = ss * i"
      using assms(2,3) le_less_trans [OF le(2) assms(3)] by (simp_all only: mul32_id)
    moreover have "copied ?g ?D m (S \<union> {d + ds * i..<d + ds * i + n}) (memcpy (d + ds * i) (s + ss * i) n m')"
    proof (rule copied_memcpy [OF c])
      fix k assume "k < n"
      then have "(ds * i + k) div ds = i" "(ds * i + k) mod ds = k" "ds * i + k < ds * rows"
        using ds assms(4) le by simp_all
      then show "d + ds * i + k \<in> ?D \<and> ?g (d + ds * i + k) = s + ss * i + k"
        using \<open>k < n\<close> by (simp add: add.assoc)
    qed
    ultimately show "copied ?g ?D m (S \<union> {d + ds * i..<d + ds * i + n})
        (memcpy (d + mul32 ds i) (s + mul32 ss i) n m')" by simp
  qed
  have "adds ?g ?D m (\<Union>i\<in>visits 0 (int_count rows) 1. {d + ds * i..<d + ds * i + n}) (copy_rows d ds s ss n rows)"
    unfolding copy_rows_def [abs_def] using assms(1) row
    by (intro adds_for) (auto simp: int_count_id visits_def)
  moreover have "copied ?g ?D m {} m"
  proof (rule copied_start, rule ballI)
    fix a assume a: "a \<in> ?D"
    then have "(a - d) div ds < rows" using less_mult_imp_div_less [of "a - d" rows ds] by (auto simp: mult.commute)
    then have "ss * ((a - d) div ds) + ss \<le> ss * rows" using mult_le_mono2 [of "Suc ((a - d) div ds)" rows ss] by simp
    then have "s \<le> ?g a" "?g a < s + ss * rows" using a assms(5) by auto
    then show "?g a \<notin> ?D" using assms(6) by (auto simp: apart_def)
  qed
  ultimately have c: "copied ?g ?D m ({} \<union> (\<Union>i\<in>visits 0 (int_count rows) 1. {d + ds * i..<d + ds * i + n}))
      (copy_rows d ds s ss n rows m)" by (rule addsD)
  have "a \<in> (\<Union>i\<in>visits 0 (int_count rows) 1. {d + ds * i..<d + ds * i + n})" if a: "a \<in> ?D"
  proof (rule UN_I [of "(a - d) div ds"])
    show "(a - d) div ds \<in> visits 0 (int_count rows) 1"
      using a less_mult_imp_div_less [of "a - d" rows ds] assms(1) by (auto simp: int_count_id visits_def mult.commute)
    obtain q r where qr: "q = (a - d) div ds" "r = (a - d) mod ds" by simp
    then have "d + ds * q + r = a" "r < n" using a by simp_all
    then show "a \<in> {d + ds * ((a - d) div ds)..<d + ds * ((a - d) div ds) + n}"
      unfolding qr(1) [symmetric] by simp
  qed
  then have "copy_rows d ds s ss n rows m a = (if a \<in> ?D then m (?g a) else m a)"
    by (intro copied_value [OF c]) blast
  then show ?thesis by simp
qed

text \<open>Without padding it is one \<open>memcpy\<close>.\<close>

lemma copy_rows_packed:
  assumes "rows < 2 ^ 31" "n * rows < UINT_RANGE" "apart d (n * rows) s (n * rows)"
  shows "copy_rows d n s n n rows m = memcpy d s (n * rows) m"
proof
  fix a
  show "copy_rows d n s n n rows m a = memcpy d s (n * rows) m a"
    using copy_rows_bytes [OF assms(1,2,2) order_refl order_refl assms(3)]
    by (cases "n = 0") (auto simp: memcpy_def)
qed

section \<open>Bytes of separated chroma\<close>

lemma elem_id: "n < 2 ^ 31 \<Longrightarrow> elem p (to_int32 n + int k) = p + n + k"
  by (simp add: elem_def to_int32_def nat_int_add)

lemma split_chroma_bytes:
  fixes handle :: CSC_HANDLE
  defines "w \<equiv> width (src_format handle)" and "hw \<equiv> crop_width (src_format handle) div 2"
    and "hh \<equiv> crop_height (src_format handle) div 2"
    and "pS \<equiv> src_plane handle CSC_UV_PLANE" and "pU \<equiv> dst_plane handle CSC_U_PLANE"
    and "pV \<equiv> dst_plane handle CSC_V_PLANE"
  assumes "2 * hw \<le> w" "w * hh < 2 ^ 31" "hh < 2 ^ 31" "p \<le> 1" "q \<le> 1"
    and "apart pU (hw * hh) pV (hw * hh)" "apart pU (hw * hh) pS (w * hh)" "apart pV (hw * hh) pS (w * hh)"
  shows "split_chroma p q handle m a =
    (if pU \<le> a \<and> a < pU + hw * hh then m (pS + (w * ((a - pU) div hw) + 2 * ((a - pU) mod hw) + p))
     else if pV \<le> a \<and> a < pV + hw * hh then m (pS + (w * ((a - pV) div hw) + 2 * ((a - pV) mod hw) + q))
     else m a)"
proof (cases "hh = 0")
  case True
  then show ?thesis by (auto simp: split_chroma_def int_count_def hh_def Let_def)
next
  case False
  let ?D = "{pU..<pU + hw * hh} \<union> {pV..<pV + hw * hh}"
  let ?g = "\<lambda>a. if a \<in> {pU..<pU + hw * hh} then pS + (w * ((a - pU) div hw) + 2 * ((a - pU) mod hw) + p)
    else pS + (w * ((a - pV) div hw) + 2 * ((a - pV) mod hw) + q)"
  let ?f = "\<lambda>i j m. let srcOffset = to_int32 (add32 (mul32 i w) (mul32 j 2));
                     dstOffset = to_int32 (mul32 i hw);
                     m = m(elem pU (dstOffset + int j) := m (elem pS (srcOffset + int p)))
                 in m(elem pV (dstOffset + int j) := m (elem pS (srcOffset + int q)))"
  let ?A = "\<lambda>i j. {pU + (hw * i + j), pV + (hw * i + j)}"
  have whh: "w * 1 \<le> w * hh" using False by (intro mult_le_mono2) simp
  then have "w < 2 ^ 31" using assms(8) by (simp only: mult_1_right)
  then have hw: "hw < 2 ^ 31" using assms(7) by simp
  have step: "adds ?g ?D m (?A i j) (?f i j)" if i: "i < hh" and j: "j < hw" for i j
  proof -
    have le: "w * i + w \<le> w * hh" "hw * i + j < hw * hh"
      using mult_le_mono2 [of "Suc i" hh w] i index_less [OF i j] by (simp_all add: mult.commute)
    have "hw * hh \<le> w * hh" using assms(7) by (intro mult_le_mono1) simp
    then have "hw * i + j < 2 ^ 31" using le(2) assms(8) by (meson le_less_trans less_trans)
    then have small: "w * i + 2 * j < 2 ^ 31" "hw * i < 2 ^ 31" using le(1) assms(7,8) j by linarith+
    then have off: "add32 (mul32 i w) (mul32 j 2) = w * i + 2 * j" "mul32 i hw = hw * i"
      by (simp_all add: u32_simps mult.commute)
    have k: "(hw * i + j) div hw = i" "(hw * i + j) mod hw = j" using j by simp_all
    have V: "(pV + (hw * i + j) \<in> {pU..<pU + hw * hh}) = False" using le assms(12) by (auto simp: apart_def)
    have U: "(pU + (hw * i + j) \<in> {pU..<pU + hw * hh}) = True" using le by auto
    have "?g (pU + (hw * i + j)) = pS + (w * i + 2 * j + p)" by (simp only: U if_True diff_add_inverse k)
    moreover have "?g (pV + (hw * i + j)) = pS + (w * i + 2 * j + q)" by (simp only: V if_False diff_add_inverse k)
    ultimately have "adds ?g ?D m (?A i j) (\<lambda>m. let m = m(pU + (hw * i + j) := m (pS + (w * i + 2 * j + p)))
        in m(pV + (hw * i + j) := m (pS + (w * i + 2 * j + q))))"
      using le by (intro adds_two) auto
    then show ?thesis unfolding off Let_def [of "to_int32 _"] elem_id [OF small(1)] elem_id [OF small(2)]
      by (simp only: add.assoc)
  qed
  have "adds ?g ?D m (\<Union>i\<in>visits 0 hh 1. \<Union>j\<in>visits 0 hw 1. ?A i j)
      (\<lambda>m. snd (c_for 0 hh 1 (\<lambda>i m. snd (c_for 0 hw 1 (?f i) m)) m))"
    using step by (intro adds_for) (auto simp: visits_def)
  moreover have "split_chroma p q handle = (\<lambda>m. snd (c_for 0 hh 1 (\<lambda>i m. snd (c_for 0 hw 1 (?f i) m)) m))"
    unfolding split_chroma_def [abs_def] Let_def [of "src_format _"]
    unfolding w_def [symmetric] hw_def [symmetric] hh_def [symmetric]
      pS_def [symmetric] pU_def [symmetric] pV_def [symmetric] int_count_id [OF hw] int_count_id [OF assms(9)]
    by (simp only: Let_def [of pS] Let_def [of pU] Let_def [of pV])
  ultimately have all: "adds ?g ?D m (\<Union>i\<in>visits 0 hh 1. \<Union>j\<in>visits 0 hw 1. ?A i j) (split_chroma p q handle)"
    by (simp only:)
  have "copied ?g ?D m {} m"
  proof (rule copied_start, rule ballI)
    fix a assume a: "a \<in> ?D"
    have src: "pS \<le> pS + (w * (k div hw) + 2 * (k mod hw) + c) \<and>
        pS + (w * (k div hw) + 2 * (k mod hw) + c) < pS + w * hh" if "k < hw * hh" "c \<le> 1" for k c
    proof -
      have "k div hw < hh" using that(1) less_mult_imp_div_less [of k hh hw] by (simp add: mult.commute)
      then have "w * (k div hw) + w \<le> w * hh" using mult_le_mono2 [of "Suc (k div hw)" hh w] by simp
      moreover have "k mod hw < hw" using that(1) by (cases "hw = 0") auto
      ultimately show ?thesis using assms(7) that(2) by simp
    qed
    have "pS \<le> ?g a \<and> ?g a < pS + w * hh"
    proof (cases "a \<in> {pU..<pU + hw * hh}")
      case True
      then have "a - pU < hw * hh" by auto
      from src [OF this assms(10)] True show ?thesis by (simp only: if_True)
    next
      case False
      with a have "a - pV < hw * hh" by auto
      from src [OF this assms(11)] False show ?thesis by (simp only: if_False)
    qed
    then show "?g a \<notin> ?D" using assms(13,14) by (auto simp: apart_def)
  qed
  with all have c: "copied ?g ?D m ({} \<union> (\<Union>i\<in>visits 0 hh 1. \<Union>j\<in>visits 0 hw 1. ?A i j)) (split_chroma p q handle m)"
    by (rule addsD)
  have "a \<in> (\<Union>i\<in>visits 0 hh 1. \<Union>j\<in>visits 0 hw 1. ?A i j)" if a: "a \<in> ?D"
  proof -
    obtain k where k: "k < hw * hh" "a = pU + k \<or> a = pV + k"
      using a by (metis Un_iff atLeastLessThan_iff le_add_diff_inverse nat_add_left_cancel_less)
    then have "k div hw < hh" using less_mult_imp_div_less [of k hh hw] by (simp add: mult.commute)
    moreover have "k mod hw < hw" using k(1) by (cases "hw = 0") simp_all
    moreover have "k = hw * (k div hw) + k mod hw" by simp
    ultimately show ?thesis using k(2)
      by (intro UN_I [of "k div hw"] UN_I [of "k mod hw"]) (auto simp: visits_def)
  qed
  then have "split_chroma p q handle m a = (if a \<in> ?D then m (?g a) else m a)"
    by (intro copied_value [OF c]) blast
  then show ?thesis by auto
qed

section \<open>Samples\<close>

text \<open>
  What a YUV 4:2:0 buffer means, independently of the converters: where the chroma samples
  of a format are, in two planes or in pairs. \<open>Planes a b\<close> has Cb in plane \<open>a\<close> and Cr in
  plane \<open>b\<close>; \<open>Pairs a b\<close> has the pair of a pixel block in plane 1, Cb at \<open>a\<close> and Cr at \<open>b\<close>.
\<close>

datatype chroma_layout = Planes nat nat | Pairs nat nat

definition layout_of :: "hal_format \<Rightarrow> chroma_layout option" where
  "layout_of f = (if is_planar f then Some (Planes 1 2) else if is_yv12 f then Some (Planes 2 1)
     else if is_semiplanar f then Some (Pairs 0 1)
     else if f = HAL_PIXEL_FORMAT_YCrCb_420_SP \<or> f = HAL_PIXEL_FORMAT_EXYNOS_YCrCb_420_SP_M
     then Some (Pairs 1 0) else None)"

definition luma_addr :: "addr list \<Rightarrow> nat \<Rightarrow> nat \<Rightarrow> nat \<Rightarrow> addr" where
  "luma_addr ps W x y = ps ! 0 + (y * W + x)"

fun cb_addr :: "chroma_layout \<Rightarrow> addr list \<Rightarrow> nat \<Rightarrow> nat \<Rightarrow> nat \<Rightarrow> addr" where
  "cb_addr (Planes a b) ps W x y = ps ! a + (y * (W div 2) + x)"
| "cb_addr (Pairs a b) ps W x y = ps ! 1 + (y * W + 2 * x + a)"

fun cr_addr :: "chroma_layout \<Rightarrow> addr list \<Rightarrow> nat \<Rightarrow> nat \<Rightarrow> nat \<Rightarrow> addr" where
  "cr_addr (Planes a b) ps W x y = ps ! b + (y * (W div 2) + x)"
| "cr_addr (Pairs a b) ps W x y = ps ! 1 + (y * W + 2 * x + b)"

text \<open>The byte ranges of a buffer, and ranges that do not meet.\<close>

fun buffer_ranges :: "chroma_layout \<Rightarrow> addr list \<Rightarrow> nat \<Rightarrow> nat \<Rightarrow> (addr \<times> nat) list" where
  "buffer_ranges (Planes a b) ps W H = [(ps ! 0, W * H), (ps ! 1, W * H div 4), (ps ! 2, W * H div 4)]"
| "buffer_ranges (Pairs a b) ps W H = [(ps ! 0, W * H), (ps ! 1, W * H div 2)]"

definition apart_all :: "(addr \<times> nat) list \<Rightarrow> (addr \<times> nat) list \<Rightarrow> bool" where
  "apart_all xs ys \<longleftrightarrow> (\<forall>(a, n)\<in>set xs. \<forall>(b, k)\<in>set ys. apart a n b k)"

fun pairwise_apart :: "(addr \<times> nat) list \<Rightarrow> bool" where
  "pairwise_apart [] = True"
| "pairwise_apart (r # rs) = (apart_all [r] rs \<and> pairwise_apart rs)"

lemma memcpy_at: "k < n \<Longrightarrow> memcpy d s n m (d + k) = m (s + k)"
  by (simp add: memcpy_def)

lemma memcpy_keep: "apart a k d n \<Longrightarrow> j < k \<Longrightarrow> memcpy d s n m (a + j) = m (a + j)"
  by (auto simp: memcpy_def apart_def)

lemma memcpy_keep2: "apart d n a k \<Longrightarrow> j < k \<Longrightarrow> memcpy d s n m (a + j) = m (a + j)"
  by (auto simp: memcpy_def apart_def)

lemma bypass_planar_bytes:
  assumes "W = width (src_format h)" "H = height (src_format h)" "W * H < UINT_RANGE"
    and "pairwise_apart (buffer_ranges (Planes a b) (planes (dst_buffer h)) W H)"
    and "apart_all (buffer_ranges (Planes a b) (planes (dst_buffer h)) W H)
      (buffer_ranges (Planes a b) (planes (src_buffer h)) W H)"
  shows "k < W * H \<Longrightarrow> bypass_planar h m (dst_plane h 0 + k) = m (src_plane h 0 + k)"
    and "k < W * H div 4 \<Longrightarrow> bypass_planar h m (dst_plane h 1 + k) = m (src_plane h 1 + k)"
    and "k < W * H div 4 \<Longrightarrow> bypass_planar h m (dst_plane h 2 + k) = m (src_plane h 2 + k)"
proof -
  let ?d = "\<lambda>i. dst_plane h i" and ?s = "\<lambda>i. src_plane h i"
  have m: "bypass_planar h m = memcpy (?d 2) (?s 2) (W * H div 4) (memcpy (?d 1) (?s 1) (W * H div 4)
      (memcpy (?d 0) (?s 0) (W * H) m))"
    using assms(3) by (simp add: bypass_planar_def Let_def assms(1,2) mul32_id)
  have "apart (?d 0) (W * H) (?d 1) (W * H div 4)" "apart (?d 0) (W * H) (?d 2) (W * H div 4)"
    "apart (?d 1) (W * H div 4) (?d 2) (W * H div 4)"
    "apart (?d 0) (W * H) (?s 1) (W * H div 4)" "apart (?d 0) (W * H) (?s 2) (W * H div 4)"
    "apart (?d 1) (W * H div 4) (?s 2) (W * H div 4)"
    using assms(4,5) by (simp_all add: apart_all_def)
  note keep = this(1-3) [THEN memcpy_keep] this(4-6) [THEN memcpy_keep2]
  show "bypass_planar h m (?d 0 + k) = m (?s 0 + k)" if "k < W * H"
    using that by (simp add: m keep [simplified] memcpy_at)
  show "bypass_planar h m (?d 1 + k) = m (?s 1 + k)" if "k < W * H div 4"
    using that by (simp add: m keep [simplified] memcpy_at)
  show "bypass_planar h m (?d 2 + k) = m (?s 2 + k)" if "k < W * H div 4"
    using that by (simp add: m keep [simplified] memcpy_at)
qed

lemma bypass_semiplanar_bytes:
  assumes "W = width (src_format h)" "H = height (src_format h)" "W * H < UINT_RANGE"
    and "pairwise_apart (buffer_ranges (Pairs a b) (planes (dst_buffer h)) W H)"
    and "apart_all (buffer_ranges (Pairs a b) (planes (dst_buffer h)) W H)
      (buffer_ranges (Pairs c d) (planes (src_buffer h)) W H)"
  shows "k < W * H \<Longrightarrow> bypass_semiplanar h m (dst_plane h 0 + k) = m (src_plane h 0 + k)"
    and "k < W * H div 2 \<Longrightarrow> bypass_semiplanar h m (dst_plane h 1 + k) = m (src_plane h 1 + k)"
proof -
  let ?d = "\<lambda>i. dst_plane h i" and ?s = "\<lambda>i. src_plane h i"
  have m: "bypass_semiplanar h m = memcpy (?d 1) (?s 1) (W * H div 2) (memcpy (?d 0) (?s 0) (W * H) m)"
    using assms(3) by (simp add: bypass_semiplanar_def Let_def assms(1,2) mul32_id)
  have "apart (?d 0) (W * H) (?d 1) (W * H div 2)" "apart (?d 0) (W * H) (?s 1) (W * H div 2)"
    using assms(4,5) by (simp_all add: apart_all_def)
  note keep = this(1) [THEN memcpy_keep] this(2) [THEN memcpy_keep2]
  show "bypass_semiplanar h m (?d 0 + k) = m (?s 0 + k)" if "k < W * H"
    using that by (simp add: m keep [simplified] memcpy_at)
  show "bypass_semiplanar h m (?d 1 + k) = m (?s 1 + k)" if "k < W * H div 2"
    using that by (simp add: m keep [simplified] memcpy_at)
qed

text \<open>Planes to pairs: luma is copied, then the two chroma planes are interleaved.\<close>

lemma interleave_samples:
  fixes s0 :: addr and m :: memory
  assumes "W * H < UINT_RANGE" "4 dvd W * H"
    and "apart d0 (W * H) d1 (W * H div 2)" "apart d0 (W * H) s1 (W * H div 4)" "apart d0 (W * H) s2 (W * H div 4)"
    and "apart d1 (W * H div 2) s1 (W * H div 4)" "apart d1 (W * H div 2) s2 (W * H div 4)"
  defines "m' \<equiv> csc_interleave_memcpy d1 s1 s2 (W * H div 4) (memcpy d0 s0 (W * H) m)"
  shows "k < W * H \<Longrightarrow> m' (d0 + k) = m (s0 + k)"
    and "k < W * H div 4 \<Longrightarrow> m' (d1 + 2 * k) = m (s1 + k)"
    and "k < W * H div 4 \<Longrightarrow> m' (d1 + (2 * k + 1)) = m (s2 + k)"
proof -
  have n: "2 * (W * H div 4) = W * H div 2" using assms(2) by presburger
  note bytes = interleave_bytes [of "W * H div 4" d1 s1 s2, unfolded n, OF _ assms(6,7), folded n]
  have small: "W * H div 2 < UINT_RANGE" using assms(1) by linarith
  note keep = assms(4,5) [THEN memcpy_keep2]
  have in_range: "2 * k + 1 < W * H div 2" if "k < W * H div 4" for k using that n by linarith
  show "m' (d0 + k) = m (s0 + k)" if "k < W * H"
    using that assms(3) small by (auto simp: m'_def bytes n memcpy_at apart_def)
  show "m' (d1 + 2 * k) = m (s1 + k)" if "k < W * H div 4"
    using that small in_range [OF that] by (simp add: m'_def bytes n keep)
  show "m' (d1 + (2 * k + 1)) = m (s2 + k)" if "k < W * H div 4"
    using that small in_range [OF that] by (simp add: m'_def bytes n keep)
qed

text \<open>Pairs to planes: luma row by row, then the pairs are separated.\<close>

lemma separate_samples:
  fixes h :: CSC_HANDLE and m :: memory
  defines "f \<equiv> src_format h" and "d \<equiv> (\<lambda>i. dst_plane h i)" and "s \<equiv> (\<lambda>i. src_plane h i)"
  assumes "crop_width f = W" "width f = W" "crop_height f = H" "even W" "even H" "W * H < 2 ^ 31" "0 < W" "0 < H"
    and "pairwise_apart (buffer_ranges (Planes a b) (planes (dst_buffer h)) W H)"
    and "apart_all (buffer_ranges (Planes a b) (planes (dst_buffer h)) W H)
      (buffer_ranges (Pairs a' b') (planes (src_buffer h)) W H)"
    and "p \<le> 1" "q \<le> 1"
  defines "m' \<equiv> split_chroma p q h (crop_luma h m)"
  shows "k < W * H \<Longrightarrow> m' (d 0 + k) = m (s 0 + k)"
    and "k < W * H div 4 \<Longrightarrow> m' (d 1 + k) = m (s 1 + (2 * k + p))"
    and "k < W * H div 4 \<Longrightarrow> m' (d 2 + k) = m (s 1 + (2 * k + q))"
proof -
  from assms(7,8) obtain w e where we: "W = 2 * w" "H = 2 * e" by (auto elim!: evenE)
  have quarter: "W * H div 4 = w * e" "W * H div 2 = W * e" "W div 2 = w" "H div 2 = e"
    by (simp_all add: we)
  have "1 * H \<le> W * H" using assms(10) by (intro mult_le_mono1) simp
  then have "H < 2 ^ 31" using assms(9) by (simp only: mult_1)
  then have H: "H < 2 ^ 31" "e < 2 ^ 31" using we(2) by simp_all
  have ap: "apart (d 0) (W * H) (d 1) (w * e)" "apart (d 0) (W * H) (d 2) (w * e)"
    "apart (d 1) (w * e) (d 2) (w * e)" "apart (d 0) (W * H) (s 0) (W * H)" "apart (d 0) (W * H) (s 1) (W * e)"
    "apart (d 1) (w * e) (s 1) (W * e)" "apart (d 2) (w * e) (s 1) (W * e)"
    using assms(12,13) by (simp_all add: apart_all_def d_def s_def quarter)
  have luma: "crop_luma h m = memcpy (d 0) (s 0) (W * H) m"
    using copy_rows_packed [OF H(1) _ ap(4)] assms(4-6,9)
    by (simp add: crop_luma_def d_def s_def f_def)
  note bytes = split_chroma_bytes [of h, folded f_def, unfolded assms(4-6) quarter(3,4), folded d_def s_def]
  have "W * e < 2 ^ 31" using assms(9) we(2) by simp
  then have m': "m' x = (if d 1 \<le> x \<and> x < d 1 + w * e then crop_luma h m (s 1 + (W * ((x - d 1) div w) + 2 * ((x - d 1) mod w) + p))
     else if d 2 \<le> x \<and> x < d 2 + w * e then crop_luma h m (s 1 + (W * ((x - d 2) div w) + 2 * ((x - d 2) mod w) + q))
     else crop_luma h m x)" for x
    unfolding m'_def using bytes [OF _ _ H(2) assms(14,15) ap(3,6,7)] we(1) by (simp add: d_def s_def)
  have pos: "W * (k div w) + 2 * (k mod w) = 2 * k" for k
  proof -
    have "2 * (w * (k div w) + k mod w) = 2 * k" by simp
    then show ?thesis unfolding we(1) by (simp only: distrib_left mult.assoc)
  qed
  have in_src: "2 * k + c < W * e" if "k < w * e" "c \<le> 1" for k c
    using that we(1) by simp
  note keep = ap(5) [THEN memcpy_keep2]
  show "m' (d 0 + k) = m (s 0 + k)" if "k < W * H"
    using that ap(1,2) by (auto simp: m' luma memcpy_at apart_def)
  show "m' (d 1 + k) = m (s 1 + (2 * k + p))" if "k < W * H div 4"
    using that in_src [OF _ assms(14)] quarter(1) by (simp add: m' luma pos keep [simplified])
  show "m' (d 2 + k) = m (s 1 + (2 * k + q))" if k: "k < W * H div 4"
  proof -
    have "\<not> (d 1 \<le> d 2 + k \<and> d 2 + k < d 1 + w * e)" using ap(3) k quarter(1) by (auto simp: apart_def)
    then show ?thesis using k in_src [OF _ assms(15)] quarter(1)
      by (simp only: m' if_False) (simp add: luma pos keep [simplified])
  qed
qed

lemmas format_families = is_planar_def is_semiplanar_def is_yv12_def

text \<open>The supported pairs of formats.\<close>

definition sw_supported :: "hal_format \<Rightarrow> hal_format \<Rightarrow> bool \<Rightarrow> bool" where
  "sw_supported src dst mfc \<longleftrightarrow>
     (if src \<in> {HAL_PIXEL_FORMAT_EXYNOS_YCbCr_420_SP_M_TILED, HAL_PIXEL_FORMAT_EXYNOS_YCbCr_420_SPN_TILED} \<or> is_planar src
        then is_planar dst \<or> is_semiplanar dst
      else if is_yv12 src then is_yv12 dst \<or> is_semiplanar dst
      else if is_semiplanar src \<or> src = HAL_PIXEL_FORMAT_EXYNOS_YCbCr_420_SP_M_S10B
        then is_semiplanar dst \<or> is_planar dst \<or> is_yv12 dst
      else if layout_of src = Some (Pairs 1 0)
        then layout_of dst = Some (Pairs 1 0) \<or> dst = HAL_PIXEL_FORMAT_EXYNOS_YCbCr_420_SP_M_PRIV \<or>
          is_planar dst \<or> is_yv12 dst
      else if src \<in> {HAL_PIXEL_FORMAT_YCBCR_P010, HAL_PIXEL_FORMAT_EXYNOS_YCbCr_P010_M}
        then dst \<in> {HAL_PIXEL_FORMAT_YCBCR_P010, HAL_PIXEL_FORMAT_EXYNOS_YCbCr_P010_M}
      else if src \<in> {HAL_PIXEL_FORMAT_BGRA_8888, HAL_PIXEL_FORMAT_RGBA_8888}
        then dst = src \<and> mfc \<or> is_planar dst \<or> is_semiplanar dst \<or> is_yv12 dst
      else src = HAL_PIXEL_FORMAT_EXYNOS_ARGB_8888)"

lemmas conv_defs = conv_sw_src_nv12t_def conv_sw_src_yuv420p_def conv_sw_src_yvu420p_def
  conv_sw_src_yuv420sp_def conv_sw_src_yvu420sp_def conv_sw_src_yuvP010_def conv_sw_src_argb888_def
  conv_sw_src_rgba888_def

text \<open>
  \<open>conv_sw\<close> succeeds exactly on the pairs of formats of
  \<open>sw_supported\<close>; on every other pair it returns \<open>CSC_ErrorUnsupportFormat\<close> and memory is
  as it was.
\<close>
theorem conv_sw_supported:
  "if sw_supported (color_format (src_format h)) (color_format (dst_format h))
        (mem_type (src_buffer h) = CSC_MEMORY_MFC)
   then fst (conv_sw h m) = CSC_ErrorNone else conv_sw h m = (CSC_ErrorUnsupportFormat, m)"
  by (cases "color_format (src_format h)")
    (auto simp: conv_sw_def conv_defs copy_mfc_data_def sw_supported_def layout_of_def format_families Let_def)


text \<open>The pixel at \<open>(x, y)\<close> is the same in both buffers.\<close>

definition same_sample ::
  "chroma_layout \<Rightarrow> addr list \<Rightarrow> memory \<Rightarrow> chroma_layout \<Rightarrow> addr list \<Rightarrow> memory \<Rightarrow> nat \<Rightarrow> nat \<Rightarrow> nat \<Rightarrow> bool" where
  "same_sample K ds m' L ss m W x y \<longleftrightarrow>
     m' (luma_addr ds W x y) = m (luma_addr ss W x y) \<and>
     m' (cb_addr K ds W (x div 2) (y div 2)) = m (cb_addr L ss W (x div 2) (y div 2)) \<and>
     m' (cr_addr K ds W (x div 2) (y div 2)) = m (cr_addr L ss W (x div 2) (y div 2))"

lemma sample_indices:
  fixes W H x y :: nat
  assumes "even W" "even H" "x < W" "y < H"
  shows "y * W + x < W * H" "y div 2 * (W div 2) + x div 2 < W * H div 4"
    "c \<le> 1 \<Longrightarrow> y div 2 * W + 2 * (x div 2) + c = 2 * (y div 2 * (W div 2) + x div 2) + c"
    "c \<le> 1 \<Longrightarrow> 2 * (y div 2 * (W div 2) + x div 2) + c < W * H div 2" "4 dvd W * H"
proof -
  from assms(1,2) obtain w e where we: "W = 2 * w" "H = 2 * e" by (auto elim!: evenE)
  show "y * W + x < W * H" using index_less [OF assms(4,3)] by (simp add: mult.commute)
  have "x div 2 < w" "y div 2 < e" using assms we by auto
  then have i: "y div 2 * w + x div 2 < e * w" by (rule index_less [rotated])
  then show "y div 2 * (W div 2) + x div 2 < W * H div 4" by (simp add: we mult.commute)
  show "c \<le> 1 \<Longrightarrow> 2 * (y div 2 * (W div 2) + x div 2) + c < W * H div 2" using i by (simp add: we mult.commute)
  show "c \<le> 1 \<Longrightarrow> y div 2 * W + 2 * (x div 2) + c = 2 * (y div 2 * (W div 2) + x div 2) + c"
    by (simp add: we algebra_simps)
  show "4 dvd W * H" by (simp add: we)
qed

lemma layout_cases:
  assumes "layout_of f = Some L"
  obtains "is_planar f" "L = Planes 1 2" | "is_yv12 f" "L = Planes 2 1" | "is_semiplanar f" "L = Pairs 0 1"
    | "f = HAL_PIXEL_FORMAT_YCrCb_420_SP \<or> f = HAL_PIXEL_FORMAT_EXYNOS_YCrCb_420_SP_M" "L = Pairs 1 0"
  using assms by (auto simp: layout_of_def split: if_splits)

lemma conv_sw_families:
  "is_planar (color_format (src_format h)) \<Longrightarrow> conv_sw h m = conv_sw_src_yuv420p h m"
  "is_yv12 (color_format (src_format h)) \<Longrightarrow> conv_sw h m = conv_sw_src_yvu420p h m"
  "is_semiplanar (color_format (src_format h)) \<Longrightarrow> conv_sw h m = conv_sw_src_yuv420sp h m"
  "color_format (src_format h) = HAL_PIXEL_FORMAT_YCrCb_420_SP \<or>
   color_format (src_format h) = HAL_PIXEL_FORMAT_EXYNOS_YCrCb_420_SP_M \<Longrightarrow> conv_sw h m = conv_sw_src_yvu420sp h m"
  by (auto simp: conv_sw_def format_families)

lemma same_bypass_planar:
  assumes "width (src_format h) = W" "height (src_format h) = H" "even W" "even H" "W * H < 2 ^ 31" "x < W" "y < H"
    and "pairwise_apart (buffer_ranges (Planes a b) (planes (dst_buffer h)) W H)"
    and "apart_all (buffer_ranges (Planes a b) (planes (dst_buffer h)) W H) (buffer_ranges (Planes a b) (planes (src_buffer h)) W H)"
    and "a = 1 \<and> b = 2 \<or> a = 2 \<and> b = 1"
  shows "same_sample (Planes a b) (planes (dst_buffer h)) (bypass_planar h m) (Planes a b) (planes (src_buffer h)) m W x y"
proof -
  have "W * H < UINT_RANGE" using assms(5) by simp
  note bytes = bypass_planar_bytes [OF assms(1,2) [symmetric] this assms(8,9)]
  note idx = sample_indices(1,2) [OF assms(3,4,6,7)]
  show ?thesis using assms(10) bytes(1) [OF idx(1)] bytes(2) [OF idx(2)] bytes(3) [OF idx(2)]
    by (auto simp: same_sample_def luma_addr_def)
qed

lemma same_bypass_semiplanar:
  assumes "width (src_format h) = W" "height (src_format h) = H" "even W" "even H" "W * H < 2 ^ 31" "x < W" "y < H"
    and "pairwise_apart (buffer_ranges (Pairs a b) (planes (dst_buffer h)) W H)"
    and "apart_all (buffer_ranges (Pairs a b) (planes (dst_buffer h)) W H) (buffer_ranges (Pairs a b) (planes (src_buffer h)) W H)"
    and "a \<le> 1" "b \<le> 1"
  shows "same_sample (Pairs a b) (planes (dst_buffer h)) (bypass_semiplanar h m) (Pairs a b) (planes (src_buffer h)) m W x y"
proof -
  have "W * H < UINT_RANGE" using assms(5) by simp
  note bytes = bypass_semiplanar_bytes [OF assms(1,2) [symmetric] this assms(8,9)]
  note idx = sample_indices [OF assms(3,4,6,7)]
  show ?thesis
    using bytes(1) [OF idx(1)] bytes(2) [OF idx(4) [OF assms(10)]] bytes(2) [OF idx(4) [OF assms(11)]]
    unfolding idx(3) [OF assms(10), symmetric] idx(3) [OF assms(11), symmetric]
    by (simp add: same_sample_def luma_addr_def)
qed

lemma same_interleave:
  fixes ds ss :: "addr list"
  assumes "even W" "even H" "W * H < 2 ^ 31" "x < W" "y < H"
    and "pairwise_apart (buffer_ranges (Pairs 0 1) ds W H)"
    and "apart_all (buffer_ranges (Pairs 0 1) ds W H) (buffer_ranges (Planes a b) ss W H)"
    and "a = 1 \<and> b = 2 \<or> a = 2 \<and> b = 1"
  shows "same_sample (Pairs 0 1) ds (csc_interleave_memcpy (ds ! 1) (ss ! a) (ss ! b) (W * H div 4)
    (memcpy (ds ! 0) (ss ! 0) (W * H) m)) (Planes a b) ss m W x y"
proof -
  note idx = sample_indices [OF assms(1,2,4,5)]
  have "apart (ds ! 0) (W * H) (ds ! 1) (W * H div 2)" "apart (ds ! 0) (W * H) (ss ! a) (W * H div 4)"
    "apart (ds ! 0) (W * H) (ss ! b) (W * H div 4)" "apart (ds ! 1) (W * H div 2) (ss ! a) (W * H div 4)"
    "apart (ds ! 1) (W * H div 2) (ss ! b) (W * H div 4)"
    using assms(6-8) by (auto simp: apart_all_def)
  note il = interleave_samples [OF _ idx(5) this]
  have "W * H < UINT_RANGE" using assms(3) by simp
  from il(1) [OF this idx(1)] il(2,3) [OF this idx(2)] show ?thesis
    unfolding same_sample_def luma_addr_def cb_addr.simps cr_addr.simps
      idx(3) [OF zero_le_one] idx(3) [OF order_refl] by (simp only: add_0_right simp_thms)
qed

lemma same_separate:
  assumes "width (src_format h) = W" "crop_width (src_format h) = W" "crop_height (src_format h) = H"
    and "even W" "even H" "W * H < 2 ^ 31" "x < W" "y < H"
    and "pairwise_apart (buffer_ranges (Planes a b) (planes (dst_buffer h)) W H)"
    and "apart_all (buffer_ranges (Planes a b) (planes (dst_buffer h)) W H) (buffer_ranges (Pairs c d) (planes (src_buffer h)) W H)"
    and "a = 1 \<and> b = 2 \<and> p = c \<and> q = d \<or> a = 2 \<and> b = 1 \<and> p = d \<and> q = c" "p \<le> 1" "q \<le> 1"
  shows "same_sample (Planes a b) (planes (dst_buffer h)) (split_chroma p q h (crop_luma h m)) (Pairs c d) (planes (src_buffer h)) m W x y"
proof -
  have pos: "0 < W" "0 < H" using assms(7,8) by simp_all
  note sep = separate_samples [OF assms(2,1,3-6) pos assms(9,10,12,13)]
  note idx = sample_indices [OF assms(4,5,7,8)]
  show ?thesis
    using sep(1) [OF idx(1)] sep(2,3) [OF idx(2)] assms(11)
    unfolding idx(3) [OF assms(12), symmetric] idx(3) [OF assms(13), symmetric]
    by (auto simp: same_sample_def luma_addr_def)
qed

text \<open>
  Frames without padding in ordinary memory: one size, even, small enough for \<open>int\<close> offsets,
  and buffers that do not meet.
\<close>

definition plain_frames :: "CSC_HANDLE \<Rightarrow> chroma_layout \<Rightarrow> chroma_layout \<Rightarrow> nat \<Rightarrow> nat \<Rightarrow> bool" where
  "plain_frames h L K W H \<longleftrightarrow>
     mem_type (src_buffer h) \<noteq> CSC_MEMORY_MFC \<and>
     width (src_format h) = W \<and> crop_width (src_format h) = W \<and>
     height (src_format h) = H \<and> crop_height (src_format h) = H \<and>
     even W \<and> even H \<and> W * H < 2 ^ 31 \<and>
     pairwise_apart (buffer_ranges K (planes (dst_buffer h)) W H) \<and>
     apart_all (buffer_ranges K (planes (dst_buffer h)) W H) (buffer_ranges L (planes (src_buffer h)) W H)"

lemma mul32_frame: "W * H < 2 ^ 31 \<Longrightarrow> mul32 W H = W * H"
  by (simp add: mul32_id)

lemma keeps_from_planar:
  assumes "is_planar (color_format (src_format h))" "layout_of (color_format (dst_format h)) = Some K"
    and "fst (conv_sw_src_yuv420p h m) = CSC_ErrorNone" "plain_frames h (Planes 1 2) K W H" "x < W" "y < H"
  shows "same_sample K (planes (dst_buffer h)) (snd (conv_sw_src_yuv420p h m)) (Planes 1 2) (planes (src_buffer h)) m W x y"
  using assms(2)
proof (cases rule: layout_cases)
  case 1
  with assms show ?thesis
    by (auto simp: conv_sw_src_yuv420p_def plain_frames_def intro!: same_bypass_planar)
next
  case 3
  moreover from this have "\<not> is_planar (color_format (dst_format h))" by (auto simp: format_families)
  ultimately show ?thesis using assms same_interleave [where a = 1 and b = 2]
    by (simp add: conv_sw_src_yuv420p_def plain_frames_def mul32_frame Let_def)
qed (use assms(3) in \<open>auto simp: conv_sw_src_yuv420p_def format_families\<close>)

lemma keeps_from_yv12:
  assumes "is_yv12 (color_format (src_format h))" "layout_of (color_format (dst_format h)) = Some K"
    and "fst (conv_sw_src_yvu420p h m) = CSC_ErrorNone" "plain_frames h (Planes 2 1) K W H" "x < W" "y < H"
  shows "same_sample K (planes (dst_buffer h)) (snd (conv_sw_src_yvu420p h m)) (Planes 2 1) (planes (src_buffer h)) m W x y"
  using assms(2)
proof (cases rule: layout_cases)
  case 2
  with assms show ?thesis
    by (auto simp: conv_sw_src_yvu420p_def plain_frames_def intro!: same_bypass_planar)
next
  case 3
  moreover from this have "\<not> is_yv12 (color_format (dst_format h))" by (auto simp: format_families)
  ultimately show ?thesis using assms same_interleave [where a = 2 and b = 1]
    by (simp add: conv_sw_src_yvu420p_def plain_frames_def mul32_frame Let_def)
qed (use assms(3) in \<open>auto simp: conv_sw_src_yvu420p_def format_families\<close>)

lemma keeps_from_semiplanar:
  assumes "is_semiplanar (color_format (src_format h))" "layout_of (color_format (dst_format h)) = Some K"
    and "fst (conv_sw_src_yuv420sp h m) = CSC_ErrorNone" "plain_frames h (Pairs 0 1) K W H" "x < W" "y < H"
  shows "same_sample K (planes (dst_buffer h)) (snd (conv_sw_src_yuv420sp h m)) (Pairs 0 1) (planes (src_buffer h)) m W x y"
  using assms(2)
proof (cases rule: layout_cases)
  case 1
  then have "conv_sw_src_yuv420sp h m = (CSC_ErrorNone, split_chroma 0 1 h (crop_luma h m))"
    by (auto simp: conv_sw_src_yuv420sp_def format_families)
  with 1 assms(4-6) show ?thesis by (auto simp: plain_frames_def intro!: same_separate)
next
  case 2
  then have "conv_sw_src_yuv420sp h m = (CSC_ErrorNone, split_chroma 1 0 h (crop_luma h m))"
    by (auto simp: conv_sw_src_yuv420sp_def format_families)
  with 2 assms(4-6) show ?thesis by (auto simp: plain_frames_def intro!: same_separate)
next
  case 3
  with assms show ?thesis
    by (auto simp: conv_sw_src_yuv420sp_def plain_frames_def intro!: same_bypass_semiplanar)
qed (use assms(3) in \<open>auto simp: conv_sw_src_yuv420sp_def format_families\<close>)

lemma keeps_from_cr_first:
  assumes "layout_of (color_format (dst_format h)) = Some K"
    and "color_format (dst_format h) \<noteq> HAL_PIXEL_FORMAT_EXYNOS_YCbCr_420_SP_M_PRIV"
    and "fst (conv_sw_src_yvu420sp h m) = CSC_ErrorNone" "plain_frames h (Pairs 1 0) K W H" "x < W" "y < H"
  shows "same_sample K (planes (dst_buffer h)) (snd (conv_sw_src_yvu420sp h m)) (Pairs 1 0) (planes (src_buffer h)) m W x y"
  using assms(1)
proof (cases rule: layout_cases)
  case 1
  then have "conv_sw_src_yvu420sp h m = (CSC_ErrorNone, split_chroma 1 0 h (crop_luma h m))"
    by (auto simp: conv_sw_src_yvu420sp_def format_families)
  with 1 assms(4-6) show ?thesis by (auto simp: plain_frames_def intro!: same_separate)
next
  case 2
  then have "conv_sw_src_yvu420sp h m = (CSC_ErrorNone, split_chroma 0 1 h (crop_luma h m))"
    by (auto simp: conv_sw_src_yvu420sp_def format_families)
  with 2 assms(4-6) show ?thesis by (auto simp: plain_frames_def intro!: same_separate)
next
  case 4
  with assms show ?thesis
    by (auto simp: conv_sw_src_yvu420sp_def plain_frames_def intro!: same_bypass_semiplanar)
qed (use assms(2,3) in \<open>auto simp: conv_sw_src_yvu420sp_def format_families\<close>)

text \<open>
  C1 (conv_sw_keeps_samples). For frames without padding, of even size and below \<open>2 ^ 31\<close> pixels whose
  buffers do not meet, every conversion that succeeds between the planar, YV12 and semi-planar 4:2:0 formats of eight
  bits in memory that is not the codec's keeps the luma, Cb and Cr sample of every pixel, wherever
  the two formats put them, except from a Cr-first source to \<open>YCbCr_420_SP_M_PRIV\<close>.
\<close>
theorem conv_sw_keeps_samples:
  assumes "layout_of (color_format (src_format h)) = Some L" "layout_of (color_format (dst_format h)) = Some K"
    and "fst (conv_sw h m) = CSC_ErrorNone" "plain_frames h L K W H" "x < W" "y < H"
    and "\<not> (L = Pairs 1 0 \<and> color_format (dst_format h) = HAL_PIXEL_FORMAT_EXYNOS_YCbCr_420_SP_M_PRIV)"
  shows "same_sample K (planes (dst_buffer h)) (snd (conv_sw h m)) L (planes (src_buffer h)) m W x y"
  using assms(1)
proof (cases rule: layout_cases)
  case 1
  with assms show ?thesis using keeps_from_planar [of h K m W H x y] by (simp add: conv_sw_families)
next
  case 2
  with assms show ?thesis using keeps_from_yv12 [of h K m W H x y] by (simp add: conv_sw_families)
next
  case 3
  with assms show ?thesis using keeps_from_semiplanar [of h K m W H x y] by (simp add: conv_sw_families)
next
  case 4
  with assms show ?thesis using keeps_from_cr_first [of h K m W H x y] by (simp add: conv_sw_families)
qed

definition sample_handle :: "hal_format \<Rightarrow> hal_format \<Rightarrow> nat \<Rightarrow> nat \<Rightarrow> nat \<Rightarrow> nat \<Rightarrow> int \<Rightarrow> addr list \<Rightarrow> addr list \<Rightarrow> CSC_HANDLE" where
  "sample_handle src dst w cw hgt dw mem ss ds =
     \<lparr> dst_format = \<lparr> width = dw, height = hgt, crop_left = 0, crop_top = 0, crop_width = cw, crop_height = hgt,
         color_format = dst, cacheable = 0, format_mode_drm = 0 \<rparr>,
       src_format = \<lparr> width = w, height = hgt, crop_left = 0, crop_top = 0, crop_width = cw, crop_height = hgt,
         color_format = src, cacheable = 0, format_mode_drm = 0 \<rparr>,
       dst_buffer = \<lparr> planes = ds, mem_type = mem \<rparr>, src_buffer = \<lparr> planes = ss, mem_type = mem \<rparr>,
       csc_method = CSC_METHOD_SW, csc_hw_type = CSC_HW_TYPE_FIMC, csc_hw_handle = 0,
       hw_property = \<lparr> fixed_node = 5, mode_drm = 0 \<rparr>, csc_mode = 0, csc_range = 0, colorspace = 0,
       hw_filter = 0, frame_rate = 0 \<rparr>"

lemmas sample_simps = sample_handle_def layout_of_def format_families plain_frames_def apart_all_def apart_def

theorem conv_sw_keeps_samples_witness:
  "snd (conv_sw (sample_handle HAL_PIXEL_FORMAT_YV12 HAL_PIXEL_FORMAT_EXYNOS_YCbCr_420_SP 4 4 4 4 1
      [0, 16, 20] [100, 200, 0]) (\<lambda>a. of_nat a)) (200 + 1) = 16"
proof -
  let ?h = "sample_handle HAL_PIXEL_FORMAT_YV12 HAL_PIXEL_FORMAT_EXYNOS_YCbCr_420_SP 4 4 4 4 1 [0, 16, 20] [100, 200, 0]"
  have "same_sample (Pairs 0 1) (planes (dst_buffer ?h)) (snd (conv_sw ?h (\<lambda>a. of_nat a))) (Planes 2 1)
      (planes (src_buffer ?h)) (\<lambda>a. of_nat a) 4 0 0"
    by (rule conv_sw_keeps_samples [where H = 4])
      (simp_all add: sample_simps conv_sw_def conv_sw_src_yvu420p_def Let_def)
  then show ?thesis by (simp add: same_sample_def sample_handle_def)
qed

text \<open>
  From a Cr-first semi-planar source to
  \<open>YCbCr_420_SP_M_PRIV\<close>, a Cb-first format, \<open>conv_sw\<close> succeeds but copies the pairs as they
  are: the destination still has Cr first.
\<close>
theorem cr_first_to_priv_not_swapped:
  assumes "layout_of (color_format (src_format h)) = Some (Pairs 1 0)"
    and "color_format (dst_format h) = HAL_PIXEL_FORMAT_EXYNOS_YCbCr_420_SP_M_PRIV"
    and "plain_frames h (Pairs 1 0) (Pairs 0 1) W H" "x < W" "y < H"
  shows "fst (conv_sw h m) = CSC_ErrorNone \<and> layout_of (color_format (dst_format h)) = Some (Pairs 0 1) \<and>
    same_sample (Pairs 1 0) (planes (dst_buffer h)) (snd (conv_sw h m)) (Pairs 1 0) (planes (src_buffer h)) m W x y"
proof -
  have "conv_sw h m = (CSC_ErrorNone, bypass_semiplanar h m)" using assms(1)
    by (cases rule: layout_cases)
      (use assms(2,3) in \<open>auto simp: conv_sw_families conv_sw_src_yvu420sp_def plain_frames_def\<close>)
  moreover have "same_sample (Pairs 1 0) (planes (dst_buffer h)) (bypass_semiplanar h m) (Pairs 1 0)
      (planes (src_buffer h)) m W x y"
    using assms(3-5) by (intro same_bypass_semiplanar) (auto simp: plain_frames_def)
  ultimately show ?thesis using assms(2) by (simp add: layout_of_def format_families)
qed

theorem cr_first_to_priv_not_swapped_witness:
  "snd (conv_sw (sample_handle HAL_PIXEL_FORMAT_YCrCb_420_SP HAL_PIXEL_FORMAT_EXYNOS_YCbCr_420_SP_M_PRIV 4 4 4 4 1
      [0, 16, 0] [100, 200, 0]) (\<lambda>a. of_nat a)) 200 = 16"
proof -
  let ?h = "sample_handle HAL_PIXEL_FORMAT_YCrCb_420_SP HAL_PIXEL_FORMAT_EXYNOS_YCbCr_420_SP_M_PRIV 4 4 4 4 1
      [0, 16, 0] [100, 200, 0]"
  have "same_sample (Pairs 1 0) (planes (dst_buffer ?h)) (snd (conv_sw ?h (\<lambda>a. of_nat a))) (Pairs 1 0)
      (planes (src_buffer ?h)) (\<lambda>a. of_nat a) 4 0 0"
    using cr_first_to_priv_not_swapped [of ?h 4 4 0 0 "\<lambda>a. of_nat a"]
    by (simp add: sample_simps)
  then show ?thesis by (simp add: same_sample_def sample_handle_def)
qed

section \<open>Padding round trip\<close>

lemma copy_rows_keep:
  assumes "rows < 2 ^ 31" "ds * rows < UINT_RANGE" "n \<le> ds" "apart d (ds * rows) a k" "j < k"
  shows "copy_rows d ds s ss n rows m (a + j) = m (a + j)"
  unfolding copy_rows_def
proof (rule c_for_invariant [where I = "\<lambda>m'. m' (a + j) = m (a + j)"])
  fix i m' assume i: "i < int_count rows" and I: "m' (a + j) = m (a + j)"
  then have "ds * i + ds \<le> ds * rows" using assms(1) mult_le_mono2 [of "Suc i" rows ds] by (simp add: int_count_id)
  moreover from this have "mul32 ds i = ds * i" using assms(2) by (intro mul32_id) linarith
  ultimately have "a + j < d + mul32 ds i \<or> d + mul32 ds i + n \<le> a + j"
    using assms(3,4,5) by (auto simp: apart_def)
  then show "memcpy (d + mul32 ds i) (s + mul32 ss i) n m' (a + j) = m (a + j)" using I by (simp add: mem_simps)
qed simp

lemma copy_rows_at:
  assumes "rows < 2 ^ 31" "ds * rows < UINT_RANGE" "ss * rows < UINT_RANGE"
    and "n \<le> ds" "n \<le> ss" "apart d (ds * rows) s (ss * rows)" "x < n" "i < rows"
  shows "copy_rows d ds s ss n rows m (d + (ds * i + x)) = m (s + (ss * i + x))"
proof -
  have "ds * i + ds \<le> ds * rows" using assms(8) mult_le_mono2 [of "Suc i" rows ds] by simp
  then show ?thesis using assms(4,7) by (simp add: copy_rows_bytes [OF assms(1-6)])
qed

lemma apart_sym: "apart a n b k \<longleftrightarrow> apart b k a n"
  by (auto simp: apart_def)

lemma pad_unpad:
  assumes "rows < 2 ^ 31" "P * rows < UINT_RANGE" "n \<le> P" "apart p (P * rows) s (n * rows)" "apart d (n * rows) p (P * rows)"
    and "\<And>j. j < n * rows \<Longrightarrow> m1 (s + j) = m (s + j)"
    and "\<And>j. j < P * rows \<Longrightarrow> m3 (p + j) = copy_rows p P s n n rows m1 (p + j)"
    and "k < n * rows"
  shows "copy_rows d n p P n rows m3 (d + k) = m (s + k)"
proof -
  have n: "n * rows < UINT_RANGE" using assms(2,3) by (meson le_less_trans mult_le_mono1)
  have i: "k div n < rows" using assms(8) less_mult_imp_div_less [of k rows n] by (simp add: mult.commute)
  have x: "k mod n < n" using assms(8) by (cases "n = 0") simp_all
  have k: "n * (k div n) + k mod n = k" by simp
  have in_p: "P * (k div n) + k mod n < P * rows"
    using index_less [OF i, of "k mod n" P] x assms(3) by (simp add: mult.commute)
  have "copy_rows d n p P n rows m3 (d + (n * (k div n) + k mod n)) = m3 (p + (P * (k div n) + k mod n))"
    by (rule copy_rows_at [OF assms(1) n assms(2) order_refl assms(3,5) x i])
  also have "\<dots> = copy_rows p P s n n rows m1 (p + (P * (k div n) + k mod n))" by (rule assms(7) [OF in_p])
  also have "\<dots> = m1 (s + (n * (k div n) + k mod n))"
    by (rule copy_rows_at [OF assms(1,2) n assms(3) order_refl assms(4) x i])
  finally show ?thesis using assms(6) [OF assms(8)] by (simp only: k)
qed

text \<open>
  A plane that is padded and unpadded: its source, its place in the codec's buffer, its
  destination, bytes per row, padded bytes per row and rows. Several planes do not disturb
  each other when what one writes is apart from what the other reads.
\<close>

type_synonym plane_job = "addr \<times> addr \<times> addr \<times> nat \<times> nat \<times> nat"

definition pad_job :: "plane_job \<Rightarrow> memory \<Rightarrow> memory" where
  "pad_job = (\<lambda>(s, p, d, n, P, rows). copy_rows p P s n n rows)"

definition unpad_job :: "plane_job \<Rightarrow> memory \<Rightarrow> memory" where
  "unpad_job = (\<lambda>(s, p, d, n, P, rows). copy_rows d n p P n rows)"

definition job_ok :: "plane_job \<Rightarrow> bool" where
  "job_ok = (\<lambda>(s, p, d, n, P, rows). rows < 2 ^ 31 \<and> P * rows < UINT_RANGE \<and> n \<le> P \<and>
     apart p (P * rows) s (n * rows) \<and> apart d (n * rows) p (P * rows))"

definition undisturbed :: "plane_job \<Rightarrow> plane_job \<Rightarrow> bool" where
  "undisturbed = (\<lambda>(s, p, d, n, P, rows) (s', p', d', n', P', rows').
     apart p' (P' * rows') s (n * rows) \<and> apart p' (P' * rows') p (P * rows) \<and>
     apart d' (n' * rows') p (P * rows) \<and> apart d' (n' * rows') d (n * rows))"

lemma undisturbedD:
  assumes "undisturbed (s, p, d, n, P, rows) j"
  shows "apart (fst (snd j)) ((fst (snd (snd (snd (snd j))))) * snd (snd (snd (snd (snd j))))) s (n * rows)"
    and "apart (fst (snd j)) ((fst (snd (snd (snd (snd j))))) * snd (snd (snd (snd (snd j))))) p (P * rows)"
    and "apart (fst (snd (snd j))) ((fst (snd (snd (snd j)))) * snd (snd (snd (snd (snd j))))) p (P * rows)"
    and "apart (fst (snd (snd j))) ((fst (snd (snd (snd j)))) * snd (snd (snd (snd (snd j))))) d (n * rows)"
  using assms by (auto simp: undisturbed_def split: prod.splits)

lemma pad_job_keep:
  assumes "job_ok j" "apart (fst (snd j)) ((fst (snd (snd (snd (snd j))))) * snd (snd (snd (snd (snd j))))) a k" "i < k"
  shows "pad_job j m (a + i) = m (a + i)"
  using assms by (auto simp: pad_job_def job_ok_def intro!: copy_rows_keep split: prod.splits)

lemma unpad_job_keep:
  assumes "job_ok j" "apart (fst (snd (snd j))) ((fst (snd (snd (snd j)))) * snd (snd (snd (snd (snd j))))) a k" "i < k"
  shows "unpad_job j m (a + i) = m (a + i)"
proof -
  obtain s p d n P rows where j: "j = (s, p, d, n, P, rows)" by (cases j)
  have "n * rows < UINT_RANGE" using assms(1) by (auto simp: j job_ok_def intro: le_less_trans [OF mult_le_mono1])
  then show ?thesis using assms by (auto simp: j unpad_job_def job_ok_def intro!: copy_rows_keep)
qed

lemma fold_keep: "(\<And>j m. j \<in> set js \<Longrightarrow> f j m a = m a) \<Longrightarrow> fold f js m a = m a"
  by (induction js arbitrary: m) auto

lemma jobs_round_trip:
  assumes "job_ok x" "\<forall>j\<in>set as \<union> set bs. job_ok j \<and> undisturbed x j"
    and "x = (s, p, d, n, P, rows)" "k < n * rows"
  shows "fold unpad_job (as @ x # bs) (fold pad_job (as @ x # bs) m) (d + k) = m (s + k)"
proof -
  let ?js = "as @ x # bs"
  define ma where "ma = fold pad_job as m"
  define mb where "mb = fold pad_job bs (pad_job x ma)"
  define mc where "mc = fold unpad_job as mb"
  have und: "job_ok j" "undisturbed (s, p, d, n, P, rows) j" if "j \<in> set as \<union> set bs" for j
    using assms(2,3) that by auto
  have "ma (s + i) = m (s + i)" if "i < n * rows" for i unfolding ma_def
    by (rule fold_keep, rule pad_job_keep [OF und(1) undisturbedD(1) [OF und(2)] that]) auto
  moreover have "mc (p + i) = pad_job x ma (p + i)" if i: "i < P * rows" for i
  proof -
    have "mb (p + i) = pad_job x ma (p + i)" unfolding mb_def
      by (rule fold_keep, rule pad_job_keep [OF und(1) undisturbedD(2) [OF und(2)] i]) auto
    moreover have "mc (p + i) = mb (p + i)" unfolding mc_def
      by (rule fold_keep, rule unpad_job_keep [OF und(1) undisturbedD(3) [OF und(2)] i]) auto
    ultimately show ?thesis by simp
  qed
  ultimately have "unpad_job x mc (d + k) = m (s + k)"
    using assms(1,4) by (auto simp: job_ok_def unpad_job_def pad_job_def assms(3) intro!: pad_unpad [where ?m1.0 = ma])
  moreover have "fold unpad_job bs (unpad_job x mc) (d + k) = unpad_job x mc (d + k)"
    by (rule fold_keep, rule unpad_job_keep [OF und(1) undisturbedD(4) [OF und(2)] assms(4)]) auto
  ultimately show ?thesis by (simp add: mc_def mb_def ma_def)
qed

lemma half_rows: "P * (H div 2) \<le> P * H" for P H :: nat
  by (intro mult_le_mono2) simp

text \<open>
  C36 (mfc_round_trip_semiplanar). Adding the codec's padding to a semi-planar frame of \<open>W\<close> by
  \<open>H\<close> bytes (rows of \<open>P\<close> bytes in the codec's buffer) and removing it again gives back every
  luma and chroma byte, for every padded width \<open>P\<close>.
\<close>
theorem mfc_round_trip_semiplanar:
  assumes "color_format (src_format enc) \<in> {HAL_PIXEL_FORMAT_EXYNOS_YCbCr_420_SP, HAL_PIXEL_FORMAT_YCrCb_420_SP}"
    and "color_format (src_format dec) \<in> {HAL_PIXEL_FORMAT_EXYNOS_YCbCr_420_SP_M, HAL_PIXEL_FORMAT_EXYNOS_YCrCb_420_SP_M}"
    and "\<not> same_width enc" "crop_width (src_format enc) = W" "crop_width (src_format dec) = W"
    and "width (dst_format enc) = P" "width (src_format dec) = P"
    and "height (src_format enc) = H" "crop_height (src_format dec) = H"
    and "src_buffer dec = dst_buffer enc" "W \<le> P" "P * H < 2 ^ 31" "H < 2 ^ 31"
    and "pairwise_apart [(src_plane enc 0, W * H), (src_plane enc 1, W * (H div 2)), (dst_plane enc 0, P * H),
      (dst_plane enc 1, P * (H div 2)), (dst_plane dec 0, W * H), (dst_plane dec 1, W * (H div 2))]"
  shows "(k < W * H \<longrightarrow> snd (copy_mfc_data dec (snd (copy_mfc_data enc m))) (dst_plane dec 0 + k) = m (src_plane enc 0 + k)) \<and>
    (k < W * (H div 2) \<longrightarrow> snd (copy_mfc_data dec (snd (copy_mfc_data enc m))) (dst_plane dec 1 + k) = m (src_plane enc 1 + k))"
proof -
  let ?Y = "(src_plane enc 0, dst_plane enc 0, dst_plane dec 0, W, P, H)"
  let ?C = "(src_plane enc 1, dst_plane enc 1, dst_plane dec 1, W, P, H div 2)"
  have "snd (copy_mfc_data enc m) = fold pad_job [?Y, ?C] m" using assms(1,3,4,6,8)
    by (auto simp: copy_mfc_data_def mfc_pad_semiplanar_def pad_job_def Let_def)
  moreover have "snd (copy_mfc_data dec m') = fold unpad_job [?Y, ?C] m'" for m' using assms(2,5,7,9,10)
    by (auto simp: copy_mfc_data_def mfc_unpad_semiplanar_def unpad_job_def Let_def)
  ultimately have m': "snd (copy_mfc_data dec (snd (copy_mfc_data enc m))) = fold unpad_job [?Y, ?C] (fold pad_job [?Y, ?C] m)"
    by simp
  have half: "P * (H div 2) < UINT_RANGE" "H div 2 < 2 ^ 31"
    using le_less_trans [OF half_rows assms(12)] assms(13) by simp_all
  then have "job_ok ?Y" "job_ok ?C" "undisturbed ?Y ?C" "undisturbed ?C ?Y"
    using assms(11-14) by (auto simp: job_ok_def undisturbed_def apart_all_def apart_sym)
  then show ?thesis unfolding m'
    using jobs_round_trip [of ?Y "[]" "[?C]"] jobs_round_trip [of ?C "[?Y]" "[]"] by auto
qed

theorem mfc_round_trip_semiplanar_witness:
  "snd (copy_mfc_data (sample_handle HAL_PIXEL_FORMAT_EXYNOS_YCbCr_420_SP_M HAL_PIXEL_FORMAT_EXYNOS_YCbCr_420_SP 16 6 4 6 5
      [100, 200, 0] [300, 400, 0]) (snd (copy_mfc_data (sample_handle HAL_PIXEL_FORMAT_EXYNOS_YCbCr_420_SP
      HAL_PIXEL_FORMAT_EXYNOS_YCbCr_420_SP_M 6 6 4 16 5 [0, 24, 0] [100, 200, 0]) (\<lambda>a. of_nat a)))) (400 + 11) = 24 + 11"
  using mfc_round_trip_semiplanar [where W = 6 and P = 16 and H = 4 and k = 11 and m = "\<lambda>a. of_nat a" and
    dec = "sample_handle HAL_PIXEL_FORMAT_EXYNOS_YCbCr_420_SP_M HAL_PIXEL_FORMAT_EXYNOS_YCbCr_420_SP 16 6 4 6 5
      [100, 200, 0] [300, 400, 0]" and
    enc = "sample_handle HAL_PIXEL_FORMAT_EXYNOS_YCbCr_420_SP HAL_PIXEL_FORMAT_EXYNOS_YCbCr_420_SP_M 6 6 4 16 5
      [0, 24, 0] [100, 200, 0]"]
  by (simp add: sample_handle_def same_width_def apart_all_def apart_def)

lemma chroma_stride:
  assumes "even W" "W + 15 < UINT_RANGE"
  shows "align_up32 (align_up32 W 16 div 2) 16 = align_up32 (W div 2) 16"
proof -
  from assms(1) obtain v where v: "W = 2 * v" by (auto elim!: evenE)
  define q where "q = (v + 7) div 8"
  have "(2 * v + 15) div 16 = q" unfolding q_def by presburger
  then have P: "align_up32 W 16 = 2 * (8 * q)" using assms(2) by (simp add: align_up32_eq v)
  have "8 * q \<le> v + 7" by (simp add: q_def)
  then have "8 * q + 15 < UINT_RANGE" "v + 15 < UINT_RANGE" using assms(2) v by linarith+
  moreover have "(8 * q + 15) div 16 = (q + 1) div 2" by presburger
  moreover have "(v + 15) div 16 = (q + 1) div 2"
  proof -
    have "(v + 15) div 8 = q + 1" unfolding q_def by presburger
    then show ?thesis using div_mult2_eq [of "v + 15" 8 2] by simp
  qed
  ultimately show ?thesis unfolding P unfolding v by (simp add: align_up32_eq)
qed

text \<open>
  The same for three planes when the padded width is the even
  width rounded up to 16: the chroma stride the decoder side computes from the cropped width
  is then the one the encoder side computes from the padded width.
\<close>
theorem mfc_round_trip_planar:
  assumes "color_format (src_format enc) \<in> {HAL_PIXEL_FORMAT_EXYNOS_YCbCr_420_P, HAL_PIXEL_FORMAT_YV12}"
    and "color_format (src_format dec) \<in> {HAL_PIXEL_FORMAT_EXYNOS_YCbCr_420_P_M, HAL_PIXEL_FORMAT_EXYNOS_YV12_M,
      HAL_PIXEL_FORMAT_EXYNOS_YCbCr_420_PN}"
    and "\<not> same_width enc" "crop_width (src_format enc) = W" "crop_width (src_format dec) = W"
    and "width (dst_format enc) = align_up32 W 16" "width (src_format dec) = align_up32 W 16"
    and "height (src_format enc) = H" "crop_height (src_format dec) = H" "src_buffer dec = dst_buffer enc"
    and "even W" "(W + 15) * H < 2 ^ 31" "W + 15 < 2 ^ 31" "H < 2 ^ 31"
    and "pairwise_apart [(src_plane enc 0, W * H), (src_plane enc 1, W div 2 * (H div 2)), (src_plane enc 2, W div 2 * (H div 2)),
      (dst_plane enc 0, align_up32 W 16 * H), (dst_plane enc 1, align_up32 (W div 2) 16 * (H div 2)),
      (dst_plane enc 2, align_up32 (W div 2) 16 * (H div 2)),
      (dst_plane dec 0, W * H), (dst_plane dec 1, W div 2 * (H div 2)), (dst_plane dec 2, W div 2 * (H div 2))]"
  shows "(k < W * H \<longrightarrow> snd (copy_mfc_data dec (snd (copy_mfc_data enc m))) (dst_plane dec 0 + k) = m (src_plane enc 0 + k)) \<and>
    (k < W div 2 * (H div 2) \<longrightarrow>
      snd (copy_mfc_data dec (snd (copy_mfc_data enc m))) (dst_plane dec 1 + k) = m (src_plane enc 1 + k) \<and>
      snd (copy_mfc_data dec (snd (copy_mfc_data enc m))) (dst_plane dec 2 + k) = m (src_plane enc 2 + k))"
proof -
  let ?P = "align_up32 W 16" and ?Q = "align_up32 (W div 2) 16"
  let ?Y = "(src_plane enc 0, dst_plane enc 0, dst_plane dec 0, W, ?P, H)"
  let ?U = "(src_plane enc 1, dst_plane enc 1, dst_plane dec 1, W div 2, ?Q, H div 2)"
  let ?V = "(src_plane enc 2, dst_plane enc 2, dst_plane dec 2, W div 2, ?Q, H div 2)"
  have stride: "align_up32 (?P div 2) 16 = ?Q" using assms(11,13) by (intro chroma_stride) simp_all
  have "snd (copy_mfc_data enc m) = fold pad_job [?Y, ?U, ?V] m" using assms(1,3,8)
    by (auto simp: copy_mfc_data_def mfc_pad_planar_def pad_job_def Let_def assms(4,6) stride)
  moreover have "snd (copy_mfc_data dec m') = fold unpad_job [?Y, ?U, ?V] m'" for m' using assms(2,5,7,9,10)
    by (auto simp: copy_mfc_data_def mfc_unpad_planar_def unpad_job_def Let_def)
  ultimately have m': "snd (copy_mfc_data dec (snd (copy_mfc_data enc m))) =
      fold unpad_job [?Y, ?U, ?V] (fold pad_job [?Y, ?U, ?V] m)" by simp
  have P: "?P = (W + 15) div 16 * 16" "?Q = (W div 2 + 15) div 16 * 16"
    using assms(13) by (auto simp: align_up32_eq)
  then have le: "W \<le> ?P" "?P \<le> W + 15" "W div 2 \<le> ?Q" "?Q \<le> W + 15" by (simp_all only:)
  then have "?P * H \<le> (W + 15) * H" "?Q * (H div 2) \<le> (W + 15) * H" by (auto intro!: mult_mono)
  from this [THEN le_less_trans, OF assms(12)] have "?P * H < UINT_RANGE" "?Q * (H div 2) < UINT_RANGE" by simp_all
  then have "job_ok ?Y" "job_ok ?U" "job_ok ?V" "undisturbed ?Y ?U" "undisturbed ?Y ?V" "undisturbed ?U ?Y"
    "undisturbed ?U ?V" "undisturbed ?V ?Y" "undisturbed ?V ?U"
    using assms(14,15) le by (auto simp: job_ok_def undisturbed_def apart_all_def apart_sym)
  then show ?thesis unfolding m'
    using jobs_round_trip [of ?Y "[]" "[?U, ?V]"] jobs_round_trip [of ?U "[?Y]" "[?V]"]
      jobs_round_trip [of ?V "[?Y, ?U]" "[]"] by auto
qed

theorem mfc_round_trip_planar_witness:
  "snd (copy_mfc_data (sample_handle HAL_PIXEL_FORMAT_EXYNOS_YV12_M HAL_PIXEL_FORMAT_YV12 16 6 4 6 5
      [100, 200, 300] [400, 500, 600]) (snd (copy_mfc_data (sample_handle HAL_PIXEL_FORMAT_YV12
      HAL_PIXEL_FORMAT_EXYNOS_YV12_M 6 6 4 16 5 [0, 24, 30] [100, 200, 300]) (\<lambda>a. of_nat a)))) (600 + 5) = 30 + 5"
  using mfc_round_trip_planar [where W = 6 and H = 4 and k = 5 and m = "\<lambda>a. of_nat a" and
    dec = "sample_handle HAL_PIXEL_FORMAT_EXYNOS_YV12_M HAL_PIXEL_FORMAT_YV12 16 6 4 6 5 [100, 200, 300] [400, 500, 600]" and
    enc = "sample_handle HAL_PIXEL_FORMAT_YV12 HAL_PIXEL_FORMAT_EXYNOS_YV12_M 6 6 4 16 5 [0, 24, 30] [100, 200, 300]"]
  by (simp add: sample_handle_def same_width_def apart_all_def apart_def align_up32_eq)

end
