(* ===== verification/Csc_Handle.thy ===== *)
theory Csc_Handle
  imports Csc_Convert
begin

text \<open>
  The handle interface of \<open>libcsc/csc.c\<close>: life cycle, properties, formats, buffers, and
  \<open>csc_convert\<close> with its hardware path. Handles are pointers into a heap; \<open>None\<close> as the
  result of an operation means that it reads a pointer that is not allocated, which is
  undefined in C. The scaler libraries the hardware path calls are not part of the
  sources: what they return is given by an environment that may depend on all calls made
  before, and every call is recorded in a log. The theorems show the round trips of the
  properties, what the software path does to the world, which accelerator handles are
  used when, and what is left behind when the accelerator cannot be opened.
\<close>

section \<open>The world\<close>

text \<open>The preprocessor symbols of the build.\<close>

record build =
  USES_FIMC :: bool
  USES_GSCALER :: bool
  DEFAULT_CSC_HW :: int

abbreviation (input) CSC_HW_SC0 :: int where "CSC_HW_SC0 \<equiv> 4"
abbreviation (input) CSC_HW_MAX :: int where "CSC_HW_MAX \<equiv> 7"
abbreviation (input) CSC_FT_MAX :: nat where "CSC_FT_MAX \<equiv> 7"

text \<open>The geometry arguments of the scaler's format calls.\<close>

record hw_frame =
  hw_width :: nat
  hw_height :: nat
  hw_left :: nat
  hw_top :: nat
  hw_crop_width :: nat
  hw_crop_height :: nat
  hw_v4l2 :: int
  hw_cacheable :: nat
  hw_drm :: int

text \<open>Calls of the scaler libraries; the calls that create a handle are logged with their result.\<close>

datatype hw_call =
    exynos_fimc_create_exclusive int nat
  | exynos_fimc_create nat
  | exynos_fimc_destroy nat
  | exynos_fimc_set_src_format nat hw_frame
  | exynos_fimc_set_dst_format nat hw_frame
  | exynos_fimc_set_src_addr nat CSC_BUFFER
  | exynos_fimc_set_dst_addr nat CSC_BUFFER
  | exynos_fimc_set_rotation nat int int int
  | exynos_fimc_convert nat
  | exynos_sc_create int nat
  | exynos_sc_destroy nat
  | exynos_sc_set_csc_property nat int int nat
  | exynos_sc_set_src_format nat hw_frame
  | exynos_sc_set_dst_format nat hw_frame
  | exynos_sc_set_src_addr nat CSC_BUFFER
  | exynos_sc_set_dst_addr nat CSC_BUFFER
  | exynos_sc_set_rotation nat int int int
  | exynos_sc_set_framerate nat nat
  | exynos_sc_convert nat

text \<open>
  The environment: the handle a create call returns (0 for a failure), what a convert call
  returns and does to memory, and the format translation of the scaler library.
\<close>

record hw_env =
  hw_create :: "hw_call list \<Rightarrow> int \<Rightarrow> nat"
  hw_convert :: "hw_call list \<Rightarrow> nat \<Rightarrow> memory \<Rightarrow> int \<times> memory"
  hal_pixfmt_to_v4l2 :: "hal_format \<Rightarrow> int"

record csc_world =
  heap :: "nat \<Rightarrow> CSC_HANDLE option"
  mem :: memory
  hw_log :: "hw_call list"

definition log_call :: "hw_call \<Rightarrow> csc_world \<Rightarrow> csc_world" where
  "log_call c w = w\<lparr>hw_log := hw_log w @ [c]\<rparr>"

text \<open>The check for NULL every operation starts with, and the access to the handle.\<close>

definition with_handle ::
  "csc_world \<Rightarrow> nat \<Rightarrow> CSC_ERRORCODE \<Rightarrow> (CSC_HANDLE \<Rightarrow> (CSC_ERRORCODE \<times> csc_world) option)
     \<Rightarrow> (CSC_ERRORCODE \<times> csc_world) option" where
  "with_handle w p err k = (if p = 0 then Some (err, w) else case heap w p of None \<Rightarrow> None | Some h \<Rightarrow> k h)"

definition update_handle :: "csc_world \<Rightarrow> nat \<Rightarrow> CSC_HANDLE \<Rightarrow> csc_world" where
  "update_handle w p h = w\<lparr>heap := (heap w)(p \<mapsto> h)\<rparr>"

section \<open>Hardware path\<close>

definition conv_hw :: "build \<Rightarrow> hw_env \<Rightarrow> CSC_HANDLE \<Rightarrow> csc_world \<Rightarrow> CSC_ERRORCODE \<times> csc_world" where
  "conv_hw B E handle w =
     (if USES_FIMC B \<and> csc_hw_type handle = CSC_HW_TYPE_FIMC then
        (let (r, m) = hw_convert E (hw_log w) (csc_hw_handle handle) (mem w);
             w = log_call (exynos_fimc_convert (csc_hw_handle handle)) w\<lparr>mem := m\<rparr>
         in (if r \<noteq> 0 then CSC_Error else CSC_ErrorNone, w))
      else if USES_GSCALER B \<and> csc_hw_type handle = CSC_HW_TYPE_GSCALER then
        (if fixed_node (hw_property handle) \<ge> CSC_HW_SC0 then
           (let (r, m) = hw_convert E (hw_log w) (csc_hw_handle handle) (mem w);
                w = log_call (exynos_sc_convert (csc_hw_handle handle)) w\<lparr>mem := m\<rparr>
            in (if r \<noteq> 0 then CSC_Error else CSC_ErrorNone, w))
         else (CSC_Error, w))
      else (CSC_ErrorNotImplemented, w))"

text \<open>
  Opening the accelerator: with both symbols defined the second assignment of
  \<open>csc_hw_type\<close> wins. When no accelerator can be opened the handle is freed.
\<close>

definition open_hw :: "build \<Rightarrow> hw_env \<Rightarrow> CSC_HANDLE \<Rightarrow> csc_world \<Rightarrow> nat \<times> csc_world" where
  "open_hw B E h w =
     (let node = fixed_node (hw_property h) in
      if USES_FIMC B \<and> csc_hw_type h = CSC_HW_TYPE_FIMC then
        (let r = hw_create E (hw_log w) node
         in (r, log_call (if node \<ge> 0 then exynos_fimc_create_exclusive node r else exynos_fimc_create r) w))
      else if USES_GSCALER B \<and> csc_hw_type h = CSC_HW_TYPE_GSCALER then
        (if node \<ge> CSC_HW_SC0 \<and> node < CSC_HW_MAX then
           (let r = hw_create E (hw_log w) (node - CSC_HW_SC0)
            in (r, log_call (exynos_sc_create (node - CSC_HW_SC0) r) w))
         else (0, w))
      else (0, w))"

definition csc_init_hw :: "build \<Rightarrow> hw_env \<Rightarrow> nat \<Rightarrow> CSC_HANDLE \<Rightarrow> csc_world \<Rightarrow> CSC_ERRORCODE \<times> csc_world" where
  "csc_init_hw B E p h w =
     (if csc_method h = CSC_METHOD_HW then
        (let h = (if USES_FIMC B then h\<lparr>csc_hw_type := CSC_HW_TYPE_FIMC\<rparr> else h);
             h = (if USES_GSCALER B then h\<lparr>csc_hw_type := CSC_HW_TYPE_GSCALER\<rparr> else h);
             (r, w) = open_hw B E h w;
             h = h\<lparr>csc_hw_handle := r\<rparr>
         in if csc_hw_handle h = 0 then (CSC_ErrorNotInit, w\<lparr>heap := (heap w)(p := None)\<rparr>)
            else (CSC_ErrorNone, update_handle w p h))
      else (CSC_ErrorNone, w))"

definition hw_frame_of :: "hw_env \<Rightarrow> CSC_HANDLE \<Rightarrow> CSC_FORMAT \<Rightarrow> nat \<Rightarrow> nat \<Rightarrow> hw_frame" where
  "hw_frame_of E h f w hgt = \<lparr>hw_width = w, hw_height = hgt, hw_left = crop_left f, hw_top = crop_top f,
     hw_crop_width = crop_width f, hw_crop_height = crop_height f,
     hw_v4l2 = hal_pixfmt_to_v4l2 E (color_format f), hw_cacheable = cacheable f, hw_drm = mode_drm (hw_property h)\<rparr>"

definition csc_set_format :: "build \<Rightarrow> hw_env \<Rightarrow> CSC_HANDLE \<Rightarrow> csc_world \<Rightarrow> csc_world" where
  "csc_set_format B E h w =
     (if csc_method h = CSC_METHOD_HW then
        (if USES_FIMC B \<and> csc_hw_type h = CSC_HW_TYPE_FIMC then
           (let w = log_call (exynos_fimc_set_src_format (csc_hw_handle h) (hw_frame_of E h (src_format h)
                      (align_up32 (width (src_format h)) 16) (align_up32 (height (src_format h)) 2))) w
            in log_call (exynos_fimc_set_dst_format (csc_hw_handle h) (hw_frame_of E h (dst_format h)
                      (align_up32 (width (dst_format h)) 16) (align_up32 (height (dst_format h)) 2))) w)
         else if USES_GSCALER B \<and> csc_hw_type h = CSC_HW_TYPE_GSCALER then
           (if fixed_node (hw_property h) \<ge> CSC_HW_SC0 then
              (let w = log_call (exynos_sc_set_csc_property (csc_hw_handle h) (csc_range h) (colorspace h) (hw_filter h)) w;
                   w = log_call (exynos_sc_set_src_format (csc_hw_handle h) (hw_frame_of E h (src_format h)
                         (width (src_format h)) (height (src_format h)))) w
               in log_call (exynos_sc_set_dst_format (csc_hw_handle h) (hw_frame_of E h (dst_format h)
                         (width (dst_format h)) (height (dst_format h)))) w)
            else w)
         else w)
      else w)"

definition csc_set_buffer :: "build \<Rightarrow> CSC_HANDLE \<Rightarrow> csc_world \<Rightarrow> csc_world" where
  "csc_set_buffer B h w =
     (if csc_method h = CSC_METHOD_HW then
        (if USES_FIMC B \<and> csc_hw_type h = CSC_HW_TYPE_FIMC then
           (let w = log_call (exynos_fimc_set_src_addr (csc_hw_handle h) (src_buffer h)) w
            in log_call (exynos_fimc_set_dst_addr (csc_hw_handle h) (dst_buffer h)) w)
         else if USES_GSCALER B \<and> csc_hw_type h = CSC_HW_TYPE_GSCALER then
           (if fixed_node (hw_property h) \<ge> CSC_HW_SC0 then
              (let w = log_call (exynos_sc_set_src_addr (csc_hw_handle h) (src_buffer h)) w
               in log_call (exynos_sc_set_dst_addr (csc_hw_handle h) (dst_buffer h)) w)
            else w)
         else w)
      else w)"

section \<open>Life cycle\<close>

text \<open>\<open>malloc\<close> returned \<open>p\<close>; all fields but three are zeroed by \<open>memset\<close>.\<close>

definition zero_format :: CSC_FORMAT where
  "zero_format = \<lparr> width = 0, height = 0, crop_left = 0, crop_top = 0, crop_width = 0, crop_height = 0,
     color_format = HAL_PIXEL_FORMAT_other 0, cacheable = 0, format_mode_drm = 0 \<rparr>"

definition new_handle :: "build \<Rightarrow> CSC_METHOD \<Rightarrow> CSC_HANDLE" where
  "new_handle B method =
     \<lparr> dst_format = zero_format, src_format = zero_format,
       dst_buffer = \<lparr> planes = [0, 0, 0], mem_type = 0 \<rparr>, src_buffer = \<lparr> planes = [0, 0, 0], mem_type = 0 \<rparr>,
       csc_method = method, csc_hw_type = CSC_HW_TYPE_FIMC, csc_hw_handle = 0,
       hw_property = \<lparr> fixed_node = DEFAULT_CSC_HW B, mode_drm = 0 \<rparr>,
       csc_mode = 0, csc_range = 0, colorspace = 0, hw_filter = 0, frame_rate = 0 \<rparr>"

definition csc_init :: "build \<Rightarrow> nat \<Rightarrow> CSC_METHOD \<Rightarrow> csc_world \<Rightarrow> nat \<times> csc_world" where
  "csc_init B p method w = (if p = 0 then (0, w) else (p, update_handle w p (new_handle B method)))"

definition csc_deinit :: "build \<Rightarrow> csc_world \<Rightarrow> nat \<Rightarrow> (CSC_ERRORCODE \<times> csc_world) option" where
  "csc_deinit B w p = with_handle w p CSC_ErrorNone (\<lambda>h.
     let w = (if csc_method h = CSC_METHOD_HW then
                (if USES_FIMC B \<and> csc_hw_type h = CSC_HW_TYPE_FIMC then
                   log_call (exynos_fimc_destroy (csc_hw_handle h)) w
                 else if USES_GSCALER B \<and> csc_hw_type h = CSC_HW_TYPE_GSCALER then
                   (if fixed_node (hw_property h) \<ge> CSC_HW_SC0
                    then log_call (exynos_sc_destroy (csc_hw_handle h)) w else w)
                 else w)
              else w)
     in Some (CSC_ErrorNone, w\<lparr>heap := (heap w)(p := None)\<rparr>))"

section \<open>Properties of a handle\<close>

text \<open>A getter returns the values it stores through its pointer arguments.\<close>

definition read_handle :: "csc_world \<Rightarrow> nat \<Rightarrow> (CSC_HANDLE \<Rightarrow> 'v) \<Rightarrow> (CSC_ERRORCODE \<times> 'v option) option" where
  "read_handle w p f = (if p = 0 then Some (CSC_ErrorNotInit, None)
     else case heap w p of None \<Rightarrow> None | Some h \<Rightarrow> Some (CSC_ErrorNone, Some (f h)))"

definition csc_get_method :: "csc_world \<Rightarrow> nat \<Rightarrow> (CSC_ERRORCODE \<times> CSC_METHOD option) option" where
  "csc_get_method w p = read_handle w p csc_method"

definition csc_set_method :: "csc_world \<Rightarrow> nat \<Rightarrow> CSC_METHOD \<Rightarrow> (CSC_ERRORCODE \<times> csc_world) option" where
  "csc_set_method w p method = with_handle w p CSC_ErrorNotInit (\<lambda>h. case method of
      CSC_METHOD_SW \<Rightarrow> Some (CSC_ErrorNone, update_handle w p (h\<lparr>csc_method := method\<rparr>))
    | CSC_METHOD_HW \<Rightarrow> Some (CSC_ErrorNone, update_handle w p (h\<lparr>csc_method := method\<rparr>))
    | _ \<Rightarrow> Some (CSC_Error, w))"

datatype CSC_HW_PROPERTY_TYPE =
    CSC_HW_PROPERTY_FIXED_NODE | CSC_HW_PROPERTY_MODE_DRM | CSC_HW_PROPERTY_other int

definition csc_set_hw_property ::
  "csc_world \<Rightarrow> nat \<Rightarrow> CSC_HW_PROPERTY_TYPE \<Rightarrow> int \<Rightarrow> (CSC_ERRORCODE \<times> csc_world) option" where
  "csc_set_hw_property w p property value = with_handle w p CSC_ErrorNotInit (\<lambda>h. case property of
      CSC_HW_PROPERTY_FIXED_NODE \<Rightarrow>
        Some (CSC_ErrorNone, update_handle w p (h\<lparr>hw_property := (hw_property h)\<lparr>fixed_node := value\<rparr>\<rparr>))
    | CSC_HW_PROPERTY_MODE_DRM \<Rightarrow>
        Some (CSC_ErrorNone, update_handle w p (h\<lparr>hw_property := (hw_property h)\<lparr>mode_drm := value\<rparr>\<rparr>))
    | _ \<Rightarrow> Some (CSC_ErrorUnsupportFormat, w))"

definition csc_get_eq_property :: "csc_world \<Rightarrow> nat \<Rightarrow> (CSC_ERRORCODE \<times> (int \<times> int \<times> int) option) option" where
  "csc_get_eq_property w p = read_handle w p (\<lambda>h. (csc_mode h, csc_range h, colorspace h))"

definition csc_set_eq_property ::
  "csc_world \<Rightarrow> nat \<Rightarrow> int \<times> int \<times> int \<Rightarrow> (CSC_ERRORCODE \<times> csc_world) option" where
  "csc_set_eq_property w p = (\<lambda>(mode, range, cs). with_handle w p CSC_Error (\<lambda>h.
     Some (CSC_ErrorNone, update_handle w p (h\<lparr>csc_mode := mode, csc_range := range, colorspace := cs\<rparr>))))"

definition csc_set_filter_property ::
  "build \<Rightarrow> csc_world \<Rightarrow> nat \<Rightarrow> nat \<Rightarrow> (CSC_ERRORCODE \<times> csc_world) option" where
  "csc_set_filter_property B w p flt = with_handle w p CSC_Error (\<lambda>h.
     if flt \<ge> CSC_FT_MAX then Some (CSC_Error, w)
     else Some (CSC_ErrorNone, update_handle w p
       (h\<lparr>hw_filter := flt, hw_property := (hw_property h)\<lparr>fixed_node := DEFAULT_CSC_HW B\<rparr>\<rparr>)))"

definition csc_set_framerate :: "csc_world \<Rightarrow> nat \<Rightarrow> nat \<Rightarrow> (CSC_ERRORCODE \<times> csc_world) option" where
  "csc_set_framerate w p rate = with_handle w p CSC_ErrorNotInit (\<lambda>h.
     Some (CSC_ErrorNone, update_handle w p (h\<lparr>frame_rate := rate\<rparr>)))"

text \<open>The eight format arguments, in the order of the parameters.\<close>

type_synonym format_args = "nat \<times> nat \<times> nat \<times> nat \<times> nat \<times> nat \<times> hal_format \<times> nat"

definition format_args_of :: "CSC_FORMAT \<Rightarrow> format_args" where
  "format_args_of f = (width f, height f, crop_left f, crop_top f, crop_width f, crop_height f, color_format f, cacheable f)"

definition set_format_args :: "format_args \<Rightarrow> CSC_FORMAT \<Rightarrow> CSC_FORMAT" where
  "set_format_args = (\<lambda>(w, h, l, t, cw, ch, cf, c) f.
     f\<lparr>width := w, height := h, crop_left := l, crop_top := t, crop_width := cw, crop_height := ch,
       color_format := cf, cacheable := c\<rparr>)"

definition csc_get_src_format :: "csc_world \<Rightarrow> nat \<Rightarrow> (CSC_ERRORCODE \<times> format_args option) option" where
  "csc_get_src_format w p = read_handle w p (\<lambda>h. format_args_of (src_format h))"

definition csc_set_src_format :: "csc_world \<Rightarrow> nat \<Rightarrow> format_args \<Rightarrow> (CSC_ERRORCODE \<times> csc_world) option" where
  "csc_set_src_format w p args = with_handle w p CSC_ErrorNotInit (\<lambda>h.
     Some (CSC_ErrorNone, update_handle w p (h\<lparr>src_format := set_format_args args (src_format h)\<rparr>)))"

definition csc_get_dst_format :: "csc_world \<Rightarrow> nat \<Rightarrow> (CSC_ERRORCODE \<times> format_args option) option" where
  "csc_get_dst_format w p = read_handle w p (\<lambda>h. format_args_of (dst_format h))"

definition csc_set_dst_format :: "csc_world \<Rightarrow> nat \<Rightarrow> format_args \<Rightarrow> (CSC_ERRORCODE \<times> csc_world) option" where
  "csc_set_dst_format w p args = with_handle w p CSC_ErrorNotInit (\<lambda>h.
     Some (CSC_ErrorNone, update_handle w p (h\<lparr>dst_format := set_format_args args (dst_format h)\<rparr>)))"

definition csc_set_src_buffer ::
  "csc_world \<Rightarrow> nat \<Rightarrow> addr \<times> addr \<times> addr \<Rightarrow> int \<Rightarrow> (CSC_ERRORCODE \<times> csc_world) option" where
  "csc_set_src_buffer w p = (\<lambda>(a0, a1, a2) type. with_handle w p CSC_ErrorNotInit (\<lambda>h.
     Some (CSC_ErrorNone, update_handle w p (h\<lparr>src_buffer := \<lparr>planes = [a0, a1, a2], mem_type = type\<rparr>\<rparr>))))"

definition csc_set_dst_buffer ::
  "csc_world \<Rightarrow> nat \<Rightarrow> addr \<times> addr \<times> addr \<Rightarrow> int \<Rightarrow> (CSC_ERRORCODE \<times> csc_world) option" where
  "csc_set_dst_buffer w p = (\<lambda>(a0, a1, a2) type. with_handle w p CSC_ErrorNotInit (\<lambda>h.
     Some (CSC_ErrorNone, update_handle w p (h\<lparr>dst_buffer := \<lparr>planes = [a0, a1, a2], mem_type = type\<rparr>\<rparr>))))"

section \<open>Conversion\<close>

definition run_conversion :: "build \<Rightarrow> hw_env \<Rightarrow> CSC_HANDLE \<Rightarrow> csc_world \<Rightarrow> CSC_ERRORCODE \<times> csc_world" where
  "run_conversion B E h w =
     (if csc_method h = CSC_METHOD_HW then conv_hw B E h w
      else (let (r, m) = conv_sw h (mem w) in (r, w\<lparr>mem := m\<rparr>)))"

text \<open>The first conversion of a hardware handle opens the accelerator.\<close>

definition open_if_needed :: "build \<Rightarrow> hw_env \<Rightarrow> nat \<Rightarrow> CSC_HANDLE \<Rightarrow> csc_world \<Rightarrow> CSC_ERRORCODE \<times> csc_world" where
  "open_if_needed B E p h w =
     (if csc_method h = CSC_METHOD_HW \<and> csc_hw_handle h = 0 then csc_init_hw B E p h w else (CSC_ErrorNone, w))"

definition csc_convert :: "build \<Rightarrow> hw_env \<Rightarrow> csc_world \<Rightarrow> nat \<Rightarrow> (CSC_ERRORCODE \<times> csc_world) option" where
  "csc_convert B E w p = with_handle w p CSC_ErrorNotInit (\<lambda>h.
     let (ret, w) = open_if_needed B E p h w
     in if ret \<noteq> CSC_ErrorNone then Some (ret, w)
        else (case heap w p of None \<Rightarrow> None | Some h \<Rightarrow>
          (let w = csc_set_format B E h w;
               w = csc_set_buffer B h w;
               w = (if USES_GSCALER B \<and> fixed_node (hw_property h) \<ge> CSC_HW_SC0
                    then log_call (exynos_sc_set_framerate (csc_hw_handle h) (frame_rate h)) w else w)
           in Some (run_conversion B E h w))))"

definition csc_convert_with_rotation ::
  "build \<Rightarrow> hw_env \<Rightarrow> csc_world \<Rightarrow> nat \<Rightarrow> int \<Rightarrow> int \<Rightarrow> int \<Rightarrow> (CSC_ERRORCODE \<times> csc_world) option" where
  "csc_convert_with_rotation B E w p rotation flip_horizontal flip_vertical = with_handle w p CSC_ErrorNotInit (\<lambda>h.
     let (ret, w) = open_if_needed B E p h w
     in if ret \<noteq> CSC_ErrorNone then Some (ret, w)
        else (case heap w p of None \<Rightarrow> None | Some h \<Rightarrow>
          (let w = csc_set_format B E h w;
               w = csc_set_buffer B h w;
               w = (if USES_FIMC B
                    then log_call (exynos_fimc_set_rotation (csc_hw_handle h) rotation flip_horizontal flip_vertical) w
                    else w);
               w = (if USES_GSCALER B \<and> fixed_node (hw_property h) \<ge> CSC_HW_SC0
                    then log_call (exynos_sc_set_framerate (csc_hw_handle h) (frame_rate h))
                           (log_call (exynos_sc_set_rotation (csc_hw_handle h) rotation flip_horizontal flip_vertical) w)
                    else w)
           in Some (run_conversion B E h w))))"

section \<open>The contract of a property\<close>

text \<open>
  A getter and a setter of one property: the laws by which both of them are a pair of
  accesses to one field of the handle.
\<close>

locale handle_property =
  fixes get :: "csc_world \<Rightarrow> nat \<Rightarrow> (CSC_ERRORCODE \<times> 'v option) option"
    and set :: "csc_world \<Rightarrow> nat \<Rightarrow> 'v \<Rightarrow> (CSC_ERRORCODE \<times> csc_world) option"
    and field :: "CSC_HANDLE \<Rightarrow> 'v"
    and upd :: "'v \<Rightarrow> CSC_HANDLE \<Rightarrow> CSC_HANDLE"
    and valid :: "'v \<Rightarrow> bool"
  assumes get_live: "p \<noteq> 0 \<Longrightarrow> heap w p = Some h \<Longrightarrow> get w p = Some (CSC_ErrorNone, Some (field h))"
    and get_null: "get w 0 = Some (CSC_ErrorNotInit, None)"
    and set_live: "p \<noteq> 0 \<Longrightarrow> heap w p = Some h \<Longrightarrow> valid v \<Longrightarrow>
      set w p v = Some (CSC_ErrorNone, update_handle w p (upd v h))"
    and set_null: "\<exists>e. e \<noteq> CSC_ErrorNone \<and> set w 0 v = Some (e, w)"
    and field_upd: "field (upd v h) = v"
    and upd_upd: "upd v (upd v' h) = upd v h"
begin

lemma round_trip:
  assumes "p \<noteq> 0" "heap w p = Some h" "valid v"
  shows "\<exists>w'. set w p v = Some (CSC_ErrorNone, w') \<and> get w' p = Some (CSC_ErrorNone, Some v) \<and>
    (\<forall>q. q \<noteq> p \<longrightarrow> heap w' q = heap w q) \<and> mem w' = mem w \<and> hw_log w' = hw_log w"
  using assms set_live get_live [of p "update_handle w p (upd v h)" "upd v h"]
  by (auto simp: update_handle_def field_upd)

lemma last_set_wins:
  assumes "p \<noteq> 0" "heap w p = Some h" "valid v" "valid v'" "set w p v = Some (e, w')"
  shows "set w' p v' = set w p v'"
  using assms set_live [OF assms(1,2)] set_live [of p w' "upd v h" v']
  by (auto simp: update_handle_def upd_upd)

end

lemma set_format_args_of: "format_args_of (set_format_args a f) = a"
  by (simp add: format_args_of_def set_format_args_def split: prod.split)

lemma set_format_args_twice: "set_format_args a (set_format_args b f) = set_format_args a f"
  by (simp add: set_format_args_def split: prod.split)

interpretation src_fmt: handle_property csc_get_src_format csc_set_src_format
  "\<lambda>h. format_args_of (src_format h)" "\<lambda>v h. h\<lparr>src_format := set_format_args v (src_format h)\<rparr>" "\<lambda>_. True"
  by unfold_locales
    (auto simp: csc_get_src_format_def csc_set_src_format_def read_handle_def with_handle_def
      set_format_args_of set_format_args_twice)

interpretation dst_fmt: handle_property csc_get_dst_format csc_set_dst_format
  "\<lambda>h. format_args_of (dst_format h)" "\<lambda>v h. h\<lparr>dst_format := set_format_args v (dst_format h)\<rparr>" "\<lambda>_. True"
  by unfold_locales
    (auto simp: csc_get_dst_format_def csc_set_dst_format_def read_handle_def with_handle_def
      set_format_args_of set_format_args_twice)

interpretation eq_prop: handle_property csc_get_eq_property csc_set_eq_property
  "\<lambda>h. (csc_mode h, csc_range h, colorspace h)"
  "\<lambda>v h. h\<lparr>csc_mode := fst v, csc_range := fst (snd v), colorspace := snd (snd v)\<rparr>" "\<lambda>_. True"
  by unfold_locales (auto simp: csc_get_eq_property_def csc_set_eq_property_def read_handle_def with_handle_def)

interpretation method_prop: handle_property csc_get_method csc_set_method csc_method
  "\<lambda>v h. h\<lparr>csc_method := v\<rparr>" "\<lambda>v. v = CSC_METHOD_SW \<or> v = CSC_METHOD_HW"
  by unfold_locales (auto simp: csc_get_method_def csc_set_method_def read_handle_def with_handle_def)

text \<open>
  On a live handle, what \<open>csc_set_src_format\<close>,
  \<open>csc_set_dst_format\<close>, \<open>csc_set_eq_property\<close> and \<open>csc_set_method\<close> (with one of its two
  values) store, the matching getter returns in full; the source and the destination format
  do not affect each other, and no other handle changes.
\<close>
theorem csc_properties_round_trip:
  assumes "p \<noteq> 0" "heap w p = Some h"
  shows "\<exists>w1 w2 w3 w4. csc_set_src_format w p a = Some (CSC_ErrorNone, w1) \<and>
    csc_set_dst_format w1 p b = Some (CSC_ErrorNone, w2) \<and>
    csc_set_eq_property w2 p e = Some (CSC_ErrorNone, w3) \<and>
    csc_set_method w3 p CSC_METHOD_HW = Some (CSC_ErrorNone, w4) \<and>
    csc_get_src_format w4 p = Some (CSC_ErrorNone, Some a) \<and>
    csc_get_dst_format w4 p = Some (CSC_ErrorNone, Some b) \<and>
    csc_get_eq_property w4 p = Some (CSC_ErrorNone, Some e) \<and>
    csc_get_method w4 p = Some (CSC_ErrorNone, Some CSC_METHOD_HW) \<and>
    (\<forall>q. q \<noteq> p \<longrightarrow> heap w4 q = heap w q) \<and> mem w4 = mem w \<and> hw_log w4 = hw_log w"
  using assms
  by (simp add: src_fmt.set_live dst_fmt.set_live eq_prop.set_live method_prop.set_live
      src_fmt.get_live dst_fmt.get_live eq_prop.get_live method_prop.get_live update_handle_def set_format_args_of)

theorem csc_properties_round_trip_witness:
  "\<exists>w'. csc_set_src_format (snd (csc_init \<lparr>USES_FIMC = False, USES_GSCALER = True, DEFAULT_CSC_HW = 5\<rparr> 8 CSC_METHOD_SW
      \<lparr>heap = (\<lambda>_. None), mem = (\<lambda>_. 0), hw_log = []\<rparr>)) 8 (16, 8, 1, 2, 14, 6, HAL_PIXEL_FORMAT_YV12, 0) = Some (CSC_ErrorNone, w')"
  using csc_properties_round_trip [of 8 "snd (csc_init \<lparr>USES_FIMC = False, USES_GSCALER = True, DEFAULT_CSC_HW = 5\<rparr> 8
      CSC_METHOD_SW \<lparr>heap = (\<lambda>_. None), mem = (\<lambda>_. 0), hw_log = []\<rparr>)"
    "new_handle \<lparr>USES_FIMC = False, USES_GSCALER = True, DEFAULT_CSC_HW = 5\<rparr> CSC_METHOD_SW"
    "(16, 8, 1, 2, 14, 6, HAL_PIXEL_FORMAT_YV12, 0)" "(8, 8, 0, 0, 8, 8, HAL_PIXEL_FORMAT_YCrCb_420_SP, 1)" "(0, 1, 3)"]
  by (auto simp: csc_init_def update_handle_def)

text \<open>
  Every operation on a NULL handle returns an error code and changes
  nothing, except \<open>csc_deinit\<close>, which succeeds; the code is \<open>CSC_Error\<close> for the equation and
  filter properties and \<open>CSC_ErrorNotInit\<close> for the others.
\<close>
theorem csc_null_handle:
  "csc_get_method w 0 = Some (CSC_ErrorNotInit, None) \<and> csc_get_eq_property w 0 = Some (CSC_ErrorNotInit, None) \<and>
   csc_get_src_format w 0 = Some (CSC_ErrorNotInit, None) \<and> csc_get_dst_format w 0 = Some (CSC_ErrorNotInit, None) \<and>
   csc_set_method w 0 m = Some (CSC_ErrorNotInit, w) \<and> csc_set_hw_property w 0 pr v = Some (CSC_ErrorNotInit, w) \<and>
   csc_set_eq_property w 0 e = Some (CSC_Error, w) \<and> csc_set_filter_property B w 0 flt = Some (CSC_Error, w) \<and>
   csc_set_framerate w 0 r = Some (CSC_ErrorNotInit, w) \<and> csc_set_src_format w 0 a = Some (CSC_ErrorNotInit, w) \<and>
   csc_set_dst_format w 0 a = Some (CSC_ErrorNotInit, w) \<and> csc_set_src_buffer w 0 ps t = Some (CSC_ErrorNotInit, w) \<and>
   csc_set_dst_buffer w 0 ps t = Some (CSC_ErrorNotInit, w) \<and> csc_convert B E w 0 = Some (CSC_ErrorNotInit, w) \<and>
   csc_convert_with_rotation B E w 0 rot fh fv = Some (CSC_ErrorNotInit, w) \<and> csc_deinit B w 0 = Some (CSC_ErrorNone, w)"
  by (cases ps; cases e)
    (simp add: csc_get_method_def csc_get_eq_property_def csc_get_src_format_def csc_get_dst_format_def
      read_handle_def csc_set_method_def csc_set_hw_property_def csc_set_eq_property_def csc_set_filter_property_def
      csc_set_framerate_def csc_set_src_format_def csc_set_dst_format_def csc_set_src_buffer_def csc_set_dst_buffer_def
      csc_convert_def csc_convert_with_rotation_def csc_deinit_def with_handle_def)


section \<open>Accelerator handles\<close>

text \<open>The handles that are open after a log, and the handle a call is made with.\<close>

fun live_step :: "hw_call \<Rightarrow> nat set \<Rightarrow> nat set" where
  "live_step (exynos_fimc_create_exclusive n r) S = (if r = 0 then S else insert r S)"
| "live_step (exynos_fimc_create r) S = (if r = 0 then S else insert r S)"
| "live_step (exynos_sc_create n r) S = (if r = 0 then S else insert r S)"
| "live_step (exynos_fimc_destroy r) S = S - {r}"
| "live_step (exynos_sc_destroy r) S = S - {r}"
| "live_step _ S = S"

definition live :: "hw_call list \<Rightarrow> nat set" where
  "live log = fold live_step log {}"

fun used_handle :: "hw_call \<Rightarrow> nat option" where
  "used_handle (exynos_fimc_destroy r) = Some r"
| "used_handle (exynos_fimc_set_src_format r f) = Some r"
| "used_handle (exynos_fimc_set_dst_format r f) = Some r"
| "used_handle (exynos_fimc_set_src_addr r b) = Some r"
| "used_handle (exynos_fimc_set_dst_addr r b) = Some r"
| "used_handle (exynos_fimc_set_rotation r a b c) = Some r"
| "used_handle (exynos_fimc_convert r) = Some r"
| "used_handle (exynos_sc_destroy r) = Some r"
| "used_handle (exynos_sc_set_csc_property r a b c) = Some r"
| "used_handle (exynos_sc_set_src_format r f) = Some r"
| "used_handle (exynos_sc_set_dst_format r f) = Some r"
| "used_handle (exynos_sc_set_src_addr r b) = Some r"
| "used_handle (exynos_sc_set_dst_addr r b) = Some r"
| "used_handle (exynos_sc_set_rotation r a b c) = Some r"
| "used_handle (exynos_sc_set_framerate r n) = Some r"
| "used_handle (exynos_sc_convert r) = Some r"
| "used_handle _ = None"

text \<open>A log in which every call is made with NULL or with a handle that is open.\<close>

fun sound_from :: "nat set \<Rightarrow> hw_call list \<Rightarrow> bool" where
  "sound_from S [] = True"
| "sound_from S (c # cs) = ((case used_handle c of None \<Rightarrow> True | Some r \<Rightarrow> r = 0 \<or> r \<in> S) \<and> sound_from (live_step c S) cs)"

lemma sound_from_append:
  "sound_from S (xs @ [c]) \<longleftrightarrow> sound_from S xs \<and>
     (case used_handle c of None \<Rightarrow> True | Some r \<Rightarrow> r = 0 \<or> r \<in> fold live_step xs S)"
  by (induction xs arbitrary: S) (auto split: option.splits)

lemma live_snoc: "live (xs @ [c]) = live_step c (live xs)"
  by (simp add: live_def)

lemma zero_not_live: "0 \<notin> live xs"
proof (induction xs rule: rev_induct)
  case (snoc c xs)
  then show ?case by (cases c) (auto simp: live_snoc)
qed (simp add: live_def)

text \<open>The invariant of the world.\<close>

definition csc_ok :: "csc_world \<Rightarrow> bool" where
  "csc_ok w \<longleftrightarrow> sound_from {} (hw_log w) \<and> heap w 0 = None \<and>
     (\<forall>p h. heap w p = Some h \<longrightarrow> csc_hw_handle h \<noteq> 0 \<longrightarrow> csc_hw_handle h \<in> live (hw_log w)) \<and>
     (\<forall>p q h k. heap w p = Some h \<longrightarrow> heap w q = Some k \<longrightarrow> p \<noteq> q \<longrightarrow>
        csc_hw_handle h \<noteq> 0 \<longrightarrow> csc_hw_handle h \<noteq> csc_hw_handle k)"

text \<open>Calls that neither open nor close a handle, all made with the same handle \<open>r\<close>.\<close>

definition only_uses :: "nat \<Rightarrow> csc_world \<Rightarrow> csc_world \<Rightarrow> bool" where
  "only_uses r w w' \<longleftrightarrow> heap w' = heap w \<and>
     (\<exists>cs. hw_log w' = hw_log w @ cs \<and> (\<forall>c\<in>set cs. used_handle c = Some r \<and> (\<forall>S. live_step c S = S)))"

lemma only_uses_refl: "only_uses r w w"
  by (auto simp: only_uses_def)

lemma only_uses_trans: "only_uses r w w' \<Longrightarrow> only_uses r w' w'' \<Longrightarrow> only_uses r w w''"
  by (auto simp: only_uses_def)

lemma only_uses_log:
  "only_uses r w w' \<Longrightarrow> used_handle c = Some r \<Longrightarrow> \<forall>S. live_step c S = S \<Longrightarrow> only_uses r w (log_call c w')"
  by (auto simp: only_uses_def log_call_def)

lemma only_uses_mem: "only_uses r w w' \<Longrightarrow> only_uses r w (w'\<lparr>mem := m\<rparr>)"
  by (simp add: only_uses_def)

lemma only_uses_live: "only_uses r w w' \<Longrightarrow> live (hw_log w') = live (hw_log w)"
proof -
  assume "only_uses r w w'"
  then obtain cs where "hw_log w' = hw_log w @ cs" "\<forall>c\<in>set cs. \<forall>S. live_step c S = S"
    by (auto simp: only_uses_def)
  moreover from this(2) have "fold live_step cs S = S" for S by (induction cs arbitrary: S) auto
  ultimately show ?thesis by (simp add: live_def)
qed

lemma only_uses_ok:
  assumes "csc_ok w" "only_uses r w w'" "r = 0 \<or> r \<in> live (hw_log w)"
  shows "csc_ok w'"
proof -
  obtain cs where cs: "hw_log w' = hw_log w @ cs" "\<forall>c\<in>set cs. used_handle c = Some r \<and> (\<forall>S. live_step c S = S)"
    using assms(2) by (auto simp: only_uses_def)
  have "sound_from S (xs @ cs)" if "sound_from S xs" "r = 0 \<or> r \<in> fold live_step xs S" for S xs
    using that cs(2)
  proof (induction cs rule: rev_induct)
    case (snoc c cs)
    have "fold live_step cs T = T" for T using snoc.prems(3) by (induction cs arbitrary: T) auto
    then show ?case using snoc by (simp add: sound_from_append flip: append_assoc)
  qed simp
  then show ?thesis using assms only_uses_live [OF assms(2)]
    by (auto simp: csc_ok_def cs(1) live_def only_uses_def)
qed

lemma csc_set_format_uses: "only_uses r w w' \<Longrightarrow> csc_hw_handle h = r \<Longrightarrow> only_uses r w (csc_set_format B E h w')"
  by (auto simp: csc_set_format_def Let_def intro!: only_uses_log)

lemma csc_set_buffer_uses: "only_uses r w w' \<Longrightarrow> csc_hw_handle h = r \<Longrightarrow> only_uses r w (csc_set_buffer B h w')"
  by (auto simp: csc_set_buffer_def Let_def intro!: only_uses_log)

lemma run_conversion_uses:
  "only_uses r w w' \<Longrightarrow> csc_hw_handle h = r \<Longrightarrow> only_uses r w (snd (run_conversion B E h w'))"
  by (auto simp: run_conversion_def conv_hw_def Let_def split: prod.splits intro!: only_uses_log only_uses_mem)

text \<open>
  What the scaler library documents of its handles: a create call returns NULL or a handle
  that is not open already.
\<close>

definition fresh_handles :: "hw_env \<Rightarrow> bool" where
  "fresh_handles E \<longleftrightarrow> (\<forall>log n. hw_create E log n \<notin> live log)"

lemma csc_ok_ptr: "csc_ok w \<Longrightarrow> heap w p = Some h \<Longrightarrow> 0 < p"
  by (rule gr0I) (auto simp: csc_ok_def)

lemma csc_ok_update:
  assumes "csc_ok w" "heap w p = Some h" "csc_hw_handle h' = csc_hw_handle h"
  shows "csc_ok (update_handle w p h')"
  using assms csc_ok_ptr [OF assms(1,2)] by (auto simp: csc_ok_def update_handle_def)

lemma csc_ok_free: "csc_ok w \<Longrightarrow> csc_ok (w\<lparr>heap := (heap w)(p := None)\<rparr>)"
  by (auto simp: csc_ok_def)

lemma csc_ok_create:
  assumes "csc_ok w" "heap w p = Some h0" "used_handle c = None" "r \<noteq> 0" "r \<notin> live (hw_log w)"
    and "\<And>S. live_step c S = insert r S" "csc_hw_handle h = r"
  shows "csc_ok (update_handle (log_call c w) p h)"
proof -
  have "csc_hw_handle k \<noteq> csc_hw_handle h" if "heap w q = Some k" for q k
    using assms(1,4,5,7) that unfolding csc_ok_def by metis
  then show ?thesis using assms csc_ok_ptr [OF assms(1,2)]
    by (auto simp: csc_ok_def update_handle_def log_call_def sound_from_append live_snoc)
qed

lemma csc_ok_create_failed:
  assumes "csc_ok w" "used_handle c = None" "\<And>S. live_step c S = S"
  shows "csc_ok (log_call c w)"
  using assms by (auto simp: csc_ok_def log_call_def sound_from_append live_snoc)

lemma csc_ok_destroy:
  assumes "csc_ok w" "heap w p = Some h" "used_handle c = Some (csc_hw_handle h)"
    and "\<And>S. live_step c S = S - {csc_hw_handle h}"
  shows "csc_ok ((log_call c w)\<lparr>heap := (heap w)(p := None)\<rparr>)"
proof -
  have "csc_hw_handle h = 0 \<or> csc_hw_handle h \<in> live (hw_log w)" using assms(1,2) by (auto simp: csc_ok_def)
  moreover have "csc_hw_handle k \<noteq> csc_hw_handle h" if "heap w q = Some k" "q \<noteq> p" "csc_hw_handle k \<noteq> 0" for q k
    using assms(1,2) that by (auto simp: csc_ok_def)
  ultimately show ?thesis using assms
    by (auto simp: csc_ok_def log_call_def sound_from_append live_snoc live_def [symmetric] split: if_splits)
qed

lemma open_hw_ok:
  assumes "csc_ok w" "heap w p = Some h0" "fresh_handles E" "open_hw B E h w = (r, w')"
  shows "heap w' = heap w \<and> (if r = 0 then csc_ok w' else csc_ok (update_handle w' p (k\<lparr>csc_hw_handle := r\<rparr>)))"
proof -
  have fresh: "hw_create E log n \<notin> live log" for log n using assms(3) by (simp add: fresh_handles_def)
  consider "w' = w" "r = 0" | c where "w' = log_call c w" "used_handle c = None" "r \<notin> live (hw_log w)"
      "\<And>S. live_step c S = (if r = 0 then S else insert r S)"
    using assms(4) fresh by (auto simp: open_hw_def Let_def split: if_splits)
  then show ?thesis
  proof cases
    case 2
    then show ?thesis using csc_ok_create [OF assms(1,2) 2(2), of r] csc_ok_create_failed [OF assms(1) 2(2)]
      by (auto simp: log_call_def)
  qed (use assms(1) in simp)
qed

lemma csc_init_hw_ok:
  assumes "csc_ok w" "heap w p = Some h" "fresh_handles E" "csc_init_hw B E p h w = (e, w')"
  shows "csc_ok w' \<and> (e = CSC_ErrorNone \<longrightarrow> heap w' p \<noteq> None)"
proof (cases "csc_method h = CSC_METHOD_HW")
  case True
  define h1 where "h1 = (let h = (if USES_FIMC B then h\<lparr>csc_hw_type := CSC_HW_TYPE_FIMC\<rparr> else h)
    in if USES_GSCALER B then h\<lparr>csc_hw_type := CSC_HW_TYPE_GSCALER\<rparr> else h)"
  obtain r v where rv: "open_hw B E h1 w = (r, v)" by fastforce
  then show ?thesis using open_hw_ok [OF assms(1-3) rv, of h1] assms(4) True csc_ok_free [of v p]
    by (auto simp: csc_init_hw_def h1_def [unfolded Let_def, symmetric] Let_def update_handle_def split: if_splits)
next
  case False
  then show ?thesis using assms by (auto simp: csc_init_hw_def)
qed

section \<open>Sequences of calls\<close>

text \<open>
  One call of the interface. \<open>Init p m\<close> is \<open>csc_init\<close> where \<open>malloc\<close> returns \<open>p\<close>: NULL or
  memory that is not allocated.
\<close>

datatype csc_api =
    Init nat CSC_METHOD | Deinit nat | Set_method nat CSC_METHOD | Set_hw_property nat CSC_HW_PROPERTY_TYPE int
  | Set_eq nat "int \<times> int \<times> int" | Set_filter nat nat | Set_framerate nat nat
  | Set_src_format nat format_args | Set_dst_format nat format_args
  | Set_src_buffer nat "addr \<times> addr \<times> addr" int | Set_dst_buffer nat "addr \<times> addr \<times> addr" int
  | Convert nat | Convert_rotated nat int int int

fun csc_exec :: "build \<Rightarrow> hw_env \<Rightarrow> csc_api \<Rightarrow> csc_world \<Rightarrow> (CSC_ERRORCODE \<times> csc_world) option" where
  "csc_exec B E (Init p m) w = (if heap w p = None then Some (CSC_ErrorNone, snd (csc_init B p m w)) else None)"
| "csc_exec B E (Deinit p) w = csc_deinit B w p"
| "csc_exec B E (Set_method p m) w = csc_set_method w p m"
| "csc_exec B E (Set_hw_property p pr v) w = csc_set_hw_property w p pr v"
| "csc_exec B E (Set_eq p e) w = csc_set_eq_property w p e"
| "csc_exec B E (Set_filter p f) w = csc_set_filter_property B w p f"
| "csc_exec B E (Set_framerate p r) w = csc_set_framerate w p r"
| "csc_exec B E (Set_src_format p a) w = csc_set_src_format w p a"
| "csc_exec B E (Set_dst_format p a) w = csc_set_dst_format w p a"
| "csc_exec B E (Set_src_buffer p a t) w = csc_set_src_buffer w p a t"
| "csc_exec B E (Set_dst_buffer p a t) w = csc_set_dst_buffer w p a t"
| "csc_exec B E (Convert p) w = csc_convert B E w p"
| "csc_exec B E (Convert_rotated p r a b) w = csc_convert_with_rotation B E w p r a b"

inductive csc_reachable :: "build \<Rightarrow> hw_env \<Rightarrow> csc_world \<Rightarrow> bool" for B E where
  start: "csc_reachable B E \<lparr>heap = (\<lambda>_. None), mem = m, hw_log = []\<rparr>"
| call: "csc_reachable B E w \<Longrightarrow> csc_exec B E a w = Some (e, w') \<Longrightarrow> csc_reachable B E w'"

inductive_cases csc_call_cases: "csc_reachable B E w"

lemma with_handle_ok:
  assumes "csc_ok w" "with_handle w p err k = Some (e, w')"
    and "\<And>h. heap w p = Some h \<Longrightarrow> k h = Some (e, w') \<Longrightarrow> csc_ok w'"
  shows "csc_ok w'"
  using assms by (auto simp: with_handle_def split: if_splits option.splits)

lemma csc_deinit_ok:
  assumes "csc_ok w" "csc_deinit B w p = Some (e, w')"
  shows "csc_ok w'"
  using assms(1,2) unfolding csc_deinit_def
proof (rule with_handle_ok, goal_cases)
  case (1 h)
  note d = csc_ok_destroy [OF assms(1) 1(1)]
  from 1(2) show ?case
    using d [of "exynos_fimc_destroy (csc_hw_handle h)"] d [of "exynos_sc_destroy (csc_hw_handle h)"]
      csc_ok_free [OF assms(1), of p]
    by (auto simp: Let_def log_call_def split: if_splits)
qed

lemma csc_set_ok:
  assumes "csc_ok w"
  shows "csc_set_method w p m = Some (e, w') \<Longrightarrow> csc_ok w'"
    and "csc_set_hw_property w p pr v = Some (e, w') \<Longrightarrow> csc_ok w'"
    and "csc_set_eq_property w p eq = Some (e, w') \<Longrightarrow> csc_ok w'"
    and "csc_set_filter_property B w p f = Some (e, w') \<Longrightarrow> csc_ok w'"
    and "csc_set_framerate w p r = Some (e, w') \<Longrightarrow> csc_ok w'"
    and "csc_set_src_format w p a = Some (e, w') \<Longrightarrow> csc_ok w'"
    and "csc_set_dst_format w p a = Some (e, w') \<Longrightarrow> csc_ok w'"
    and "csc_set_src_buffer w p ps t = Some (e, w') \<Longrightarrow> csc_ok w'"
    and "csc_set_dst_buffer w p ps t = Some (e, w') \<Longrightarrow> csc_ok w'"
  unfolding csc_set_method_def csc_set_hw_property_def csc_set_eq_property_def csc_set_filter_property_def
    csc_set_framerate_def csc_set_src_format_def csc_set_dst_format_def csc_set_src_buffer_def csc_set_dst_buffer_def
    with_handle_def
  using assms by (auto split: CSC_METHOD.splits CSC_HW_PROPERTY_TYPE.splits if_splits prod.splits option.splits
    intro: csc_ok_update)

lemma open_if_needed_ok:
  assumes "csc_ok w" "fresh_handles E" "heap w p = Some h" "open_if_needed B E p h w = (e, w')"
  shows "csc_ok w'"
  using csc_init_hw_ok [OF assms(1,3,2), of B e w'] assms(1,4) by (auto simp: open_if_needed_def split: if_splits)

lemma only_uses_handle_ok:
  assumes "csc_ok w" "heap w p = Some h" "only_uses (csc_hw_handle h) w w'"
  shows "csc_ok w'"
  using assms by (intro only_uses_ok [OF assms(1,3)]) (auto simp: csc_ok_def)

lemmas conversion_uses = run_conversion_uses only_uses_log csc_set_buffer_uses csc_set_format_uses only_uses_refl

lemma csc_convert_ok:
  assumes "csc_ok w" "fresh_handles E" "csc_convert B E w p = Some (e, w')"
  shows "csc_ok w'"
  using assms(1) assms(3) [unfolded csc_convert_def]
proof (rule with_handle_ok, goal_cases)
  case (1 h)
  obtain ret v where v: "open_if_needed B E p h w = (ret, v)" by fastforce
  note ok = open_if_needed_ok [OF assms(1,2) 1(1) v]
  show ?case using 1(2) ok
    by (auto simp: v Let_def prod_eq_iff split: if_splits option.splits
      elim!: only_uses_handle_ok intro!: conversion_uses)
qed

lemma csc_convert_with_rotation_ok:
  assumes "csc_ok w" "fresh_handles E" "csc_convert_with_rotation B E w p r a b = Some (e, w')"
  shows "csc_ok w'"
  using assms(1) assms(3) [unfolded csc_convert_with_rotation_def]
proof (rule with_handle_ok, goal_cases)
  case (1 h)
  obtain ret v where v: "open_if_needed B E p h w = (ret, v)" by fastforce
  note ok = open_if_needed_ok [OF assms(1,2) 1(1) v]
  show ?case using 1(2) ok
    by (auto simp: v Let_def prod_eq_iff split: if_splits option.splits
      elim!: only_uses_handle_ok intro!: conversion_uses)
qed

lemma csc_init_ok:
  assumes "csc_ok w" "heap w p = None"
  shows "csc_ok (snd (csc_init B p m w))"
  using assms by (auto simp: csc_ok_def csc_init_def update_handle_def new_handle_def)

lemma csc_exec_ok:
  assumes "csc_ok w" "fresh_handles E" "csc_exec B E a w = Some (e, w')"
  shows "csc_ok w'"
  using assms(3) csc_init_ok [OF assms(1)]
  by (cases a) (auto split: if_splits dest: csc_deinit_ok [OF assms(1)] csc_set_ok [OF assms(1)]
    csc_convert_ok [OF assms(1,2)] csc_convert_with_rotation_ok [OF assms(1,2)])

text \<open>
  C3 (hw_handles_sound). In every sequence of calls of the interface, every call the
  library makes into the scaler libraries carries NULL or a scaler handle that was created
  before and not destroyed since, provided a create call returns no handle that is already
  open; and two handles never share a scaler handle.
\<close>
theorem hw_handles_sound:
  assumes "csc_reachable B E w" "fresh_handles E"
  shows "sound_from {} (hw_log w) \<and>
    (\<forall>p q h k. heap w p = Some h \<longrightarrow> heap w q = Some k \<longrightarrow> p \<noteq> q \<longrightarrow>
       csc_hw_handle h \<noteq> 0 \<longrightarrow> csc_hw_handle h \<noteq> csc_hw_handle k)"
proof -
  from assms(1) have "csc_ok w"
  proof induction
    case (start m)
    show ?case by (simp add: csc_ok_def)
  next
    case (call w a e w')
    then show ?case using csc_exec_ok assms(2) by blast
  qed
  then show ?thesis by (simp add: csc_ok_def)
qed

text \<open>A scaler library with one device: it can be opened when it is not open.\<close>

definition demo_env :: hw_env where
  "demo_env = \<lparr>hw_create = (\<lambda>log n. if 1 \<in> live log then 0 else 1), hw_convert = (\<lambda>log r m. (0, m)),
     hal_pixfmt_to_v4l2 = (\<lambda>_. 0)\<rparr>"

definition demo_build :: build where
  "demo_build = \<lparr>USES_FIMC = False, USES_GSCALER = True, DEFAULT_CSC_HW = 5\<rparr>"

definition demo_world :: csc_world where
  "demo_world = snd (csc_init demo_build 8 CSC_METHOD_HW \<lparr>heap = (\<lambda>_. None), mem = (\<lambda>_. 0), hw_log = []\<rparr>)"

lemmas demo_defs = demo_env_def demo_build_def demo_world_def csc_init_def new_handle_def update_handle_def
  csc_convert_def with_handle_def open_if_needed_def csc_init_hw_def open_hw_def log_call_def Let_def
  csc_set_format_def csc_set_buffer_def run_conversion_def conv_hw_def

lemma demo_env_fresh: "fresh_handles demo_env"
  by (auto simp: fresh_handles_def demo_env_def zero_not_live)

lemma demo_world_reachable: "csc_reachable demo_build demo_env demo_world"
proof -
  have "csc_reachable demo_build demo_env \<lparr>heap = (\<lambda>_. None), mem = (\<lambda>_. 0), hw_log = []\<rparr>" by (rule start)
  then show ?thesis unfolding demo_world_def
    by (rule call [where a = "Init 8 CSC_METHOD_HW"]) simp
qed

theorem hw_handles_sound_witness:
  "sound_from {} (hw_log (snd (the (csc_convert demo_build demo_env demo_world 8)))) \<and>
   length (hw_log (snd (the (csc_convert demo_build demo_env demo_world 8)))) = 8"
proof -
  obtain e w' where some: "csc_convert demo_build demo_env demo_world 8 = Some (e, w')"
    by (simp add: demo_defs live_def)
  then have "csc_reachable demo_build demo_env w'"
    by (intro call [OF demo_world_reachable, where a = "Convert 8"]) simp
  then have "sound_from {} (hw_log w')" using hw_handles_sound [OF _ demo_env_fresh] by simp
  then show ?thesis using some by (auto simp: demo_defs live_def)
qed

text \<open>
  C39 (failed_open_dangles). When the accelerator of a hardware handle cannot be opened,
  \<open>csc_convert\<close> returns \<open>CSC_ErrorNotInit\<close> and has freed the handle behind the caller's back:
  the caller's next call with it, \<open>csc_deinit\<close> included, accesses freed memory.
\<close>
theorem failed_open_dangles:
  assumes "p \<noteq> 0" "heap w p = Some h" "csc_method h = CSC_METHOD_HW" "csc_hw_handle h = 0"
    and "\<And>log n. hw_create E log n = 0"
  shows "\<exists>w'. csc_convert B E w p = Some (CSC_ErrorNotInit, w') \<and> heap w' p = None \<and>
    csc_deinit B w' p = None \<and> csc_convert B E w' p = None \<and> csc_get_method w' p = None"
  using assms
  by (auto simp: csc_convert_def with_handle_def open_if_needed_def csc_init_hw_def open_hw_def Let_def
    log_call_def csc_deinit_def csc_get_method_def read_handle_def)

theorem failed_open_dangles_witness:
  "\<exists>w'. csc_convert demo_build (demo_env\<lparr>hw_create := \<lambda>log n. 0\<rparr>) demo_world 8 = Some (CSC_ErrorNotInit, w') \<and>
    csc_deinit demo_build w' 8 = None"
  using failed_open_dangles [of 8 demo_world "new_handle demo_build CSC_METHOD_HW" "demo_env\<lparr>hw_create := \<lambda>log n. 0\<rparr>" demo_build]
  by (auto simp: demo_world_def csc_init_def update_handle_def new_handle_def)

text \<open>
  A handle whose accelerator is open and that is switched to the
  software method is freed by \<open>csc_deinit\<close> without closing the accelerator: no call is made,
  and the scaler handle stays open with nothing left that refers to it.
\<close>
theorem method_switch_leaks:
  assumes "p \<noteq> 0" "heap w p = Some h" "csc_hw_handle h \<in> live (hw_log w)"
  shows "\<exists>w1 w2. csc_set_method w p CSC_METHOD_SW = Some (CSC_ErrorNone, w1) \<and>
    csc_deinit B w1 p = Some (CSC_ErrorNone, w2) \<and> heap w2 p = None \<and> hw_log w2 = hw_log w \<and>
    csc_hw_handle h \<in> live (hw_log w2)"
  using assms method_prop.set_live [OF assms(1,2), of CSC_METHOD_SW]
  by (auto simp: csc_deinit_def with_handle_def update_handle_def)

theorem method_switch_leaks_witness:
  "\<exists>w1 w2. csc_set_method (snd (the (csc_convert demo_build demo_env demo_world 8))) 8 CSC_METHOD_SW = Some (CSC_ErrorNone, w1) \<and>
    csc_deinit demo_build w1 8 = Some (CSC_ErrorNone, w2) \<and> 1 \<in> live (hw_log w2)"
proof -
  let ?w = "snd (the (csc_convert demo_build demo_env demo_world 8))"
  obtain h where h: "heap ?w 8 = Some h" "csc_hw_handle h = 1" by (simp add: demo_defs live_def)
  have "csc_hw_handle h \<in> live (hw_log ?w)" using h(2) by (simp add: demo_defs live_def)
  then show ?thesis using method_switch_leaks [OF _ h(1), of demo_build] h(2) by auto
qed

text \<open>
  With any method but hardware, \<open>csc_convert\<close> returns what
  \<open>conv_sw\<close> returns for the handle, memory is what \<open>conv_sw\<close> makes of it, and no handle
  changes. The scaler library is called at most once, to set the frame rate, and then with
  the handle the conversion has, which is NULL for a handle that never used the hardware.
\<close>
theorem csc_convert_software:
  assumes "p \<noteq> 0" "heap w p = Some h" "csc_method h \<noteq> CSC_METHOD_HW"
  shows "csc_convert B E w p = Some (fst (conv_sw h (mem w)), w\<lparr>mem := snd (conv_sw h (mem w)),
    hw_log := hw_log w @ (if USES_GSCALER B \<and> fixed_node (hw_property h) \<ge> 4
      then [exynos_sc_set_framerate (csc_hw_handle h) (frame_rate h)] else [])\<rparr>)"
  using assms
  by (auto simp: csc_convert_def with_handle_def open_if_needed_def csc_set_format_def csc_set_buffer_def
    run_conversion_def log_call_def Let_def split: prod.split)

theorem csc_convert_software_witness:
  "\<exists>w'. csc_convert demo_build demo_env (snd (csc_init demo_build 8 CSC_METHOD_SW demo_world)) 8 =
     Some (CSC_ErrorUnsupportFormat, w') \<and> hw_log w' = [exynos_sc_set_framerate 0 0]"
  using csc_convert_software [of 8 "snd (csc_init demo_build 8 CSC_METHOD_SW demo_world)"
    "new_handle demo_build CSC_METHOD_SW" demo_build demo_env]
  by (simp add: demo_world_def csc_init_def update_handle_def new_handle_def zero_format_def conv_sw_def demo_build_def)

end
