(* ===== verification/St_Device.thy ===== *)
theory St_Device
  imports Exynos_Prelude
begin

text \<open>
  The sound trigger HAL, \<open>libaudio/sthal/sound_trigger_hw.c\<close>: the device state, the
  utility functions and the control of the VTS, the low-power unit that listens for key
  phrases. The kernel, tinyalsa, libcutils and the audio HAL are not part of the sources:
  what a call into them returns is given by an environment that may depend on all calls
  made before, and every call is recorded in a log. The theorems show what the mixer
  controls of the VTS are set to when it is powered up and down, that a model binary is
  written completely, and what the loading of a model through the mapped buffer copies.
\<close>

section \<open>State\<close>

abbreviation (input) EINVAL :: int where "EINVAL \<equiv> 22"
abbreviation (input) ENOSYS :: int where "ENOSYS \<equiv> 38"
abbreviation (input) EBUSY :: int where "EBUSY \<equiv> 16"
abbreviation (input) EFAULT :: int where "EFAULT \<equiv> 14"
abbreviation (input) ENOMEM :: int where "ENOMEM \<equiv> 12"
abbreviation (input) HOTWORD_INDEX :: nat where "HOTWORD_INDEX \<equiv> 0"
abbreviation (input) SVOICE_INDEX :: nat where "SVOICE_INDEX \<equiv> 1"
abbreviation (input) MAX_SOUND_MODELS :: nat where "MAX_SOUND_MODELS \<equiv> 2"
abbreviation (input) HANDLE_NONE :: int where "HANDLE_NONE \<equiv> -1"
abbreviation (input) NULL :: int where "NULL \<equiv> 0"

datatype VTS_MIC_CONF = VTS_MAIN_MIC | VTS_HEADSET_MIC
datatype VOICECALL_STATE = VOICECALL_STOPPED | VOICECALL_STARTED
datatype RECOG_CBSTATE = RECOG_CB_NONE | RECOG_CB_STARTED | RECOG_CB_CALLED
datatype MODEL_EXECSTATE = MODEL_STATE_NONE | MODEL_STATE_RUNNING | MODEL_STATE_STOPABORT
datatype sound_model_type = SOUND_MODEL_TYPE_KEYPHRASE | SOUND_MODEL_TYPE_GENERIC | SOUND_MODEL_TYPE_OTHER int

abbreviation (input) SVOICE_UNKNOWN_MODE :: int where "SVOICE_UNKNOWN_MODE \<equiv> 0"
abbreviation (input) SVOICE_BIXBY_MODE :: int where "SVOICE_BIXBY_MODE \<equiv> 1"
abbreviation (input) SVOICE_LPSD_MODE :: int where "SVOICE_LPSD_MODE \<equiv> 2"
abbreviation (input) SVOICE_BIXBY_ALWAYS_MODE :: int where "SVOICE_BIXBY_ALWAYS_MODE \<equiv> 3"
abbreviation (input) MODEL_RECOGNIZE_STOPPED :: int where "MODEL_RECOGNIZE_STOPPED \<equiv> 0"
abbreviation (input) MODEL_RECOGNIZE_STARTED :: int where "MODEL_RECOGNIZE_STARTED \<equiv> 1"

text \<open>
  The framework's structures, with the fields the HAL reads or writes; the rest of a phrase is
  copied as a whole.
\<close>

record phrase_extra =
  confidence_level :: nat
  num_levels :: nat
  first_level :: "nat \<times> nat"
  phrase_rest :: "u8 list"

record recognition_config =
  capture_requested :: bool
  num_phrases :: nat
  phrases :: "phrase_extra list"
  data_size :: nat

record recognition_event =
  ev_type :: sound_model_type
  ev_model :: int
  ev_capture_available :: bool
  ev_trigger_in_data :: bool
  ev_sample_rate :: nat
  ev_num_phrases :: nat
  ev_phrase_extras :: "phrase_extra list"

text \<open>
  Calls that leave the HAL. Pointers and file descriptors are integers, NULL is 0; a mixer control
  is named by its name. The calls \<open>errno\<close>, \<open>socket_fd\<close> and \<open>ioctl_value\<close> read what the call
  before them left in memory.
\<close>

datatype st_call =
    mixer_open nat
  | mixer_close int
  | mixer_get_ctl_by_name int string
  | mixer_ctl_set_value string int
  | pcm_open nat nat
  | pcm_is_ready int
  | pcm_read int nat
  | pcm_close int
  | notify_sthal_status_call int
  | sys_open string
  | sys_close int
  | sys_read int
  | sys_write int "u8 list"
  | sys_ioctl int string int
  | ioctl_value
  | mmap_dev int nat
  | munmap_dev int nat
  | memcpy_mapped int "u8 list"
  | errno
  | socketpair
  | socket_fd nat
  | uevent_open_socket
  | uevent_recv int
  | pthread_create
  | pthread_join
  | calloc_event
  | malloc_config
  | recognition_callback nat int recognition_event int
  | sys_access string
  | sys_dlopen string
  | sys_dlsym int string
  | sys_dlclose int

record st_env =
  sys :: "st_call list \<Rightarrow> st_call \<Rightarrow> int"
  during_callback :: "st_call list \<Rightarrow> int list"
  str_parms :: "string \<Rightarrow> (string \<Rightarrow> int option) option"
  MMAP_INTERFACE_ENABLED :: bool
  main_mic_ctlname :: "string list"
  main_mic_ctlvalue :: "int list"
  MAIN_MIC_CONTROL_COUNT :: nat
  headset_mic_ctlname :: "string list"
  headset_mic_ctlvalue :: "int list"
  HEADSET_MIC_CONTROL_COUNT :: nat
  VTS_MIXER_CARD :: nat
  VTS_SOUND_CARD :: nat
  VTS_TRICAP_DEVICE_NODE :: nat
  VTS_RECORD_DEVICE_NODE :: nat
  VTS_HOTWORD_MODEL :: string
  VTS_SVOICE_MODEL :: string
  VTSDRV_MISC_MODEL_BIN_MAXSZ :: nat
  SOUND_TRIGGER_MAX_PHRASES :: nat
  sizeof_sound_model :: nat
  AUDIO_PRIMARY_HAL_LIBRARY_PATH :: string

text \<open>
  A running callback thread: its two polled descriptors, \<open>recoveryCnt\<close>, and the bytes that wait to be
  read from the second descriptor, one end of a pair of sockets.
\<close>

record cb_thread =
  fds0 :: int
  fds1 :: int
  recoveryCnt :: int
  unread1 :: "u8 list"

text \<open>
  The device. The last two fields are not fields of the C structure: the running callback
  thread, if there is one, and the log of the calls made, latest first.
\<close>

record sound_trigger_device =
  model_handles :: "int list"
  recognition_callbacks :: "int list"
  recognition_cookies :: "int list"
  sound_model_callbacks :: "int list"
  sound_model_cookies :: "int list"
  send_socket :: int
  term_socket :: int
  uevent_socket :: int
  configs :: "recognition_config option list"
  mixer :: int
  vtsdev_fd :: int
  mapped_addr :: int
  is_streaming :: int
  sthal_opened :: bool
  callback_thread_active :: bool
  is_seamless_recording :: bool
  streaming_pcm :: int
  recognize_started :: int
  active_mic :: VTS_MIC_CONF
  is_mic_configured :: bool
  audio_primary_lib :: int
  notify_sthal_status :: int
  is_recording :: bool
  recording_pcm :: int
  backlog_size :: int
  svoicemodel_mode :: int
  voicecall_state :: VOICECALL_STATE
  recog_cbstate :: RECOG_CBSTATE
  model_execstate :: "MODEL_EXECSTATE list"
  model_stopfailedhandles :: "int list"
  is_generic :: int
  cb_thread_of :: "cb_thread option"
  calls :: "st_call list"

type_synonym stdev = sound_trigger_device

definition syscall :: "st_env \<Rightarrow> st_call \<Rightarrow> stdev \<Rightarrow> int \<times> stdev" where
  "syscall E c d = (sys E (calls d) c, d\<lparr>calls := c # calls d\<rparr>)"

definition emit :: "st_call \<Rightarrow> stdev \<Rightarrow> stdev" where
  "emit c d = d\<lparr>calls := c # calls d\<rparr>"

text \<open>The tests \<open>m & (0x1 << i)\<close> and the updates \<open>m |= 0x1 << i\<close>, \<open>m &= ~(0x1 << i)\<close> of bit masks.\<close>

definition has_bit :: "int \<Rightarrow> nat \<Rightarrow> bool" where
  "has_bit m i = (m AND push_bit i 1 \<noteq> 0)"

definition with_bit :: "int \<Rightarrow> nat \<Rightarrow> int" where
  "with_bit m i = m OR push_bit i 1"

definition without_bit :: "int \<Rightarrow> nat \<Rightarrow> int" where
  "without_bit m i = m AND NOT (push_bit i 1)"

section \<open>Utility functions\<close>

fun mixer_loop :: "st_env \<Rightarrow> string list \<Rightarrow> int list option \<Rightarrow> nat \<Rightarrow> nat \<Rightarrow> bool \<Rightarrow> stdev \<Rightarrow> int \<times> stdev" where
  "mixer_loop E path_name path_ctlvalue 0 i rv d = (0, d)"
| "mixer_loop E path_name path_ctlvalue (Suc ctrl_count) i rv d =
     (let (mixerctl, d) = syscall E (mixer_get_ctl_by_name (mixer d) (path_name ! i)) d in
      if mixerctl \<noteq> NULL then
        (let v = (case path_ctlvalue of Some vs \<Rightarrow> vs ! i | None \<Rightarrow> 0);
             (ret, d) = syscall E (mixer_ctl_set_value (path_name ! i) v) d
         in if ret \<noteq> 0 then (-EINVAL, d)
            else mixer_loop E path_name path_ctlvalue ctrl_count (if rv then i - 1 else i + 1) rv d)
      else (-EINVAL, d))"

definition set_mixer_ctrls :: "st_env \<Rightarrow> string list \<Rightarrow> int list option \<Rightarrow> nat \<Rightarrow> bool \<Rightarrow> stdev \<Rightarrow> int \<times> stdev" where
  "set_mixer_ctrls E path_name path_ctlvalue ctrl_count rv d =
     (if mixer d \<noteq> NULL then mixer_loop E path_name path_ctlvalue ctrl_count (if rv then ctrl_count - 1 else 0) rv d
      else (-EINVAL, d))"

definition load_modelbinary :: "st_env \<Rightarrow> nat \<Rightarrow> u8 list \<Rightarrow> nat \<Rightarrow> stdev \<Rightarrow> int \<times> stdev" where
  "load_modelbinary E model_index data len d =
     (let d = emit (memcpy_mapped (mapped_addr d) (take len data)) d;
          len = (if len > VTSDRV_MISC_MODEL_BIN_MAXSZ E then VTSDRV_MISC_MODEL_BIN_MAXSZ E else len);
          ioctl_cmd = (if model_index = HOTWORD_INDEX then ''VTSDRV_MISC_IOCTL_WRITE_GOOGLE''
                       else ''VTSDRV_MISC_IOCTL_WRITE_SVOICE'');
          (r, d) = syscall E (sys_ioctl (vtsdev_fd d) ioctl_cmd (int len)) d
      in if r < 0 then (-EINVAL, d) else (0, d))"

text \<open>The loop of \<open>sysfs_write\<close> ends when \<open>len\<close> is zero; a \<open>write\<close> that keeps returning 0 makes it run forever.\<close>

partial_function (option) write_loop ::
  "st_env \<Rightarrow> int \<Rightarrow> u8 list \<Rightarrow> int \<Rightarrow> int \<Rightarrow> stdev \<Rightarrow> (int \<times> stdev) option" where
  "write_loop E fd data len written d =
     (if len = 0 then Some (0, d)
      else let r = syscall E (sys_write fd (take (nat len) (drop (nat written) data))) d in
        if fst r < 0 then Some (fst r, snd r)
        else write_loop E fd data (len - fst r) (written + fst r) (snd r))"

definition sysfs_write :: "st_env \<Rightarrow> string \<Rightarrow> u8 list \<Rightarrow> nat \<Rightarrow> stdev \<Rightarrow> (int \<times> stdev) option" where
  "sysfs_write E path data len d =
     (let (fd, d) = syscall E (sys_open path) d in
      if fd < 0 then Some (fd, d)
      else case write_loop E fd data (int len) 0 d of
             None \<Rightarrow> None
           | Some (ret, d) \<Rightarrow> Some (ret, emit (sys_close fd) d))"

text \<open>A \<open>calloc\<close> that fails returns NULL.\<close>

definition zero_phrase :: phrase_extra where
  "zero_phrase = \<lparr>confidence_level = 0, num_levels = 0, first_level = (0, 0), phrase_rest = []\<rparr>"

definition event_phrases :: "st_env \<Rightarrow> recognition_config option \<Rightarrow> phrase_extra list" where
  "event_phrases E c =
     (let zero = replicate (SOUND_TRIGGER_MAX_PHRASES E) zero_phrase in
      case c of None \<Rightarrow> zero
      | Some c \<Rightarrow> (let n = min (num_phrases c) (SOUND_TRIGGER_MAX_PHRASES E) in take n (phrases c) @ drop n zero))"

definition sound_trigger_event_alloc :: "st_env \<Rightarrow> nat \<Rightarrow> stdev \<Rightarrow> recognition_event option \<times> stdev" where
  "sound_trigger_event_alloc E index d =
     (let (p, d) = syscall E calloc_event d in
      if p = NULL then (None, d)
      else (let ps = event_phrases E (configs d ! index);
                first = (ps ! 0)\<lparr>confidence_level := 100, num_levels := 1, first_level := (100, 0)\<rparr>
            in (Some \<lparr>ev_type = SOUND_MODEL_TYPE_KEYPHRASE, ev_model = model_handles d ! index,
                      ev_capture_available = True, ev_trigger_in_data = False, ev_sample_rate = 16000,
                      ev_num_phrases = 1, ev_phrase_extras = ps[0 := first]\<rparr>, d)))"

definition sound_trigger_generic_event_alloc :: "st_env \<Rightarrow> nat \<Rightarrow> stdev \<Rightarrow> recognition_event option \<times> stdev" where
  "sound_trigger_generic_event_alloc E index d =
     (let (p, d) = syscall E calloc_event d in
      if p = NULL then (None, d)
      else (Some \<lparr>ev_type = SOUND_MODEL_TYPE_GENERIC, ev_model = model_handles d ! index,
                  ev_capture_available = True, ev_trigger_in_data = False, ev_sample_rate = 16000,
                  ev_num_phrases = 0, ev_phrase_extras = []\<rparr>, d))"

definition ParseExtraConfigData :: "st_env \<Rightarrow> string \<Rightarrow> stdev \<Rightarrow> stdev" where
  "ParseExtraConfigData E keyValuePairs d =
     (case str_parms E keyValuePairs of
        None \<Rightarrow> d
      | Some parms \<Rightarrow>
          (let d = (case parms ''voice_trig'' of None \<Rightarrow> d | Some v \<Rightarrow> d\<lparr>backlog_size := v\<rparr>)
           in case parms ''wakeup_mode'' of None \<Rightarrow> d | Some v \<Rightarrow> d\<lparr>svoicemodel_mode := v\<rparr>))"

section \<open>Microphone and power\<close>

definition stdev_vts_set_mic :: "st_env \<Rightarrow> bool \<Rightarrow> stdev \<Rightarrow> stdev" where
  "stdev_vts_set_mic E enable_mic d =
     (if enable_mic then
        (if \<not> is_mic_configured d then
           (let (ctrls, values, count) =
                  (if active_mic d = VTS_HEADSET_MIC
                   then (headset_mic_ctlname E, headset_mic_ctlvalue E, HEADSET_MIC_CONTROL_COUNT E)
                   else (main_mic_ctlname E, main_mic_ctlvalue E, MAIN_MIC_CONTROL_COUNT E));
                (_, d) = set_mixer_ctrls E ctrls (Some values) count False d
            in d\<lparr>is_mic_configured := True\<rparr>)
         else d)
      else
        (let (ctrls, count) = (if active_mic d = VTS_HEADSET_MIC then (headset_mic_ctlname E, HEADSET_MIC_CONTROL_COUNT E)
                               else (main_mic_ctlname E, MAIN_MIC_CONTROL_COUNT E))
         in if is_mic_configured d then
              (let (_, d) = set_mixer_ctrls E ctrls None count True d in d\<lparr>is_mic_configured := False\<rparr>)
            else d))"

definition model_recognize_start_ctlname :: "string list" where
  "model_recognize_start_ctlname = [''VTS Active Keyphrase'', ''VTS VoiceRecognization Mode'', ''VTS VoiceTrigger Value'']"

definition model_recognize_stop_ctlname :: "string list" where
  "model_recognize_stop_ctlname = [''VTS Active Keyphrase'', ''VTS VoiceRecognization Mode'']"

definition model_backlog_size_ctlname :: "string list" where
  "model_backlog_size_ctlname = [''VTS VoiceTrigger Value'']"

definition hotword_recognize_start_ctlvalue :: "int list" where "hotword_recognize_start_ctlvalue = [1, 4, 2000]"
definition hotword_recognize_stop_ctlvalue :: "int list" where "hotword_recognize_stop_ctlvalue = [1, 9]"

text \<open>The three modes of the SVoice model; an unknown mode is treated as Bixby mode.\<close>

definition svoice_start_ctlvalue :: "int \<Rightarrow> int list" where
  "svoice_start_ctlvalue mode =
     (if mode = SVOICE_BIXBY_MODE then [0, 1, 1800]
      else if mode = SVOICE_LPSD_MODE then [0, 2, 0]
      else if mode = SVOICE_BIXBY_ALWAYS_MODE then [0, 3, 1800]
      else [0, 1, 1800])"

definition svoice_stop_ctlvalue :: "int \<Rightarrow> int list" where
  "svoice_stop_ctlvalue mode =
     (if mode = SVOICE_BIXBY_MODE then [0, 6]
      else if mode = SVOICE_LPSD_MODE then [0, 7]
      else if mode = SVOICE_BIXBY_ALWAYS_MODE then [0, 8]
      else [0, 6])"

text \<open>
  The two halves of \<open>stdev_vts_set_power\<close>, each with its early exits. The result of a step says
  whether the function goes on.
\<close>

definition start_hotword :: "st_env \<Rightarrow> int \<Rightarrow> stdev \<Rightarrow> bool \<times> stdev" where
  "start_hotword E enabled_algorithms d =
     (if has_bit enabled_algorithms HOTWORD_INDEX then
        (let (r, d) = set_mixer_ctrls E model_recognize_start_ctlname (Some hotword_recognize_start_ctlvalue) 3 False d in
         if r \<noteq> 0 then (False, d)
         else (let d = d\<lparr>recognize_started := with_bit (recognize_started d) HOTWORD_INDEX\<rparr>
               in (True, if notify_sthal_status d \<noteq> NULL then emit (notify_sthal_status_call MODEL_RECOGNIZE_STARTED) d else d)))
      else (True, d))"

definition start_svoice :: "st_env \<Rightarrow> int \<Rightarrow> stdev \<Rightarrow> stdev" where
  "start_svoice E enabled_algorithms d =
     (if has_bit enabled_algorithms SVOICE_INDEX then
        (let (r, d) = set_mixer_ctrls E model_recognize_start_ctlname
                        (Some (svoice_start_ctlvalue (svoicemodel_mode d))) 3 False d in
         if r \<noteq> 0 then d
         else if (svoicemodel_mode d = SVOICE_BIXBY_MODE \<or> svoicemodel_mode d = SVOICE_BIXBY_ALWAYS_MODE) \<and> backlog_size d \<noteq> 0 then
           (let (r, d) = set_mixer_ctrls E model_backlog_size_ctlname (Some [backlog_size d]) 1 False d in
            if r \<noteq> 0 then d else d\<lparr>recognize_started := with_bit (recognize_started d) SVOICE_INDEX\<rparr>)
         else d\<lparr>recognize_started := with_bit (recognize_started d) SVOICE_INDEX\<rparr>)
      else d)"

definition stop_hotword :: "st_env \<Rightarrow> stdev \<Rightarrow> bool \<times> stdev" where
  "stop_hotword E d =
     (if has_bit (recognize_started d) HOTWORD_INDEX then
        (let (r, d) = set_mixer_ctrls E model_recognize_stop_ctlname (Some hotword_recognize_stop_ctlvalue) 2 False d in
         if r \<noteq> 0 then (False, d)
         else (let d = d\<lparr>recognize_started := without_bit (recognize_started d) HOTWORD_INDEX\<rparr>
               in (True, if notify_sthal_status d \<noteq> NULL then emit (notify_sthal_status_call MODEL_RECOGNIZE_STOPPED) d else d)))
      else (True, d))"

definition stop_svoice :: "st_env \<Rightarrow> stdev \<Rightarrow> bool \<times> stdev" where
  "stop_svoice E d =
     (if has_bit (recognize_started d) SVOICE_INDEX then
        (let (r, d) = set_mixer_ctrls E model_recognize_stop_ctlname
                        (Some (svoice_stop_ctlvalue (svoicemodel_mode d))) 2 False d in
         if r \<noteq> 0 then (False, d)
         else (True, d\<lparr>recognize_started := without_bit (recognize_started d) SVOICE_INDEX\<rparr>))
      else (True, d))"

definition close_streaming_pcm :: "stdev \<Rightarrow> stdev" where
  "close_streaming_pcm d =
     (if streaming_pcm d \<noteq> NULL then (emit (pcm_close (streaming_pcm d)) d)\<lparr>streaming_pcm := NULL\<rparr> else d)"

definition stdev_vts_set_power :: "st_env \<Rightarrow> int \<Rightarrow> stdev \<Rightarrow> stdev" where
  "stdev_vts_set_power E enabled_algorithms d =
     (let d = d\<lparr>is_streaming := 0\<rparr>;
          d = close_streaming_pcm d;
          d = d\<lparr>is_seamless_recording := False\<rparr>
      in if enabled_algorithms \<noteq> 0 then
           (let d = stdev_vts_set_mic E True d;
                (go, d) = start_hotword E enabled_algorithms d
            in if go then start_svoice E enabled_algorithms d else d)
         else
           (let (go, d) = stop_hotword E d in
            if \<not> go then d
            else (let (go, d) = stop_svoice E d in
                  if \<not> go then d
                  else if recognize_started d = 0 \<and> \<not> is_recording d then stdev_vts_set_mic E False d else d)))"

section \<open>Mixer, sockets, models\<close>

definition stdev_init_mixer :: "st_env \<Rightarrow> stdev \<Rightarrow> int \<times> stdev" where
  "stdev_init_mixer E d =
     (let (m, d) = syscall E (mixer_open (VTS_MIXER_CARD E)) d; d = d\<lparr>mixer := m\<rparr>
      in if mixer d = NULL then (-1, d) else (0, d))"

definition stdev_close_callback_thread_sockets :: "stdev \<Rightarrow> stdev" where
  "stdev_close_callback_thread_sockets d =
     (let d = (if send_socket d \<ge> 0 then (emit (sys_close (send_socket d)) d)\<lparr>send_socket := -1\<rparr> else d);
          d = (if term_socket d \<ge> 0 then (emit (sys_close (term_socket d)) d)\<lparr>term_socket := -1\<rparr> else d)
      in if uevent_socket d \<ge> 0 then (emit (sys_close (uevent_socket d)) d)\<lparr>uevent_socket := -1\<rparr> else d)"

definition vts_load_sound_model :: "st_env \<Rightarrow> u8 list \<Rightarrow> nat \<Rightarrow> nat \<Rightarrow> stdev \<Rightarrow> (int \<times> stdev) option" where
  "vts_load_sound_model E buffer buffer_len model_index d =
     (if model_index = HOTWORD_INDEX then
        (if MMAP_INTERFACE_ENABLED E then Some (load_modelbinary E model_index buffer buffer_len d)
         else sysfs_write E (VTS_HOTWORD_MODEL E) buffer buffer_len d)
      else if model_index = SVOICE_INDEX then
        (if MMAP_INTERFACE_ENABLED E then Some (load_modelbinary E model_index buffer buffer_len d)
         else sysfs_write E (VTS_SVOICE_MODEL E) buffer buffer_len d)
      else Some (-ENOSYS, d))"

definition stdev_active_callback_bitmask :: "stdev \<Rightarrow> int" where
  "stdev_active_callback_bitmask d =
     fold (\<lambda>i m. if recognition_callbacks d ! i \<noteq> NULL then with_bit m i else m) [0..<MAX_SOUND_MODELS] 0"

section \<open>Bit masks\<close>

lemma mask_cases: "m \<in> {0..3} \<Longrightarrow> m = 0 \<or> m = 1 \<or> m = 2 \<or> m = (3::int)"
  by auto

lemma with_bit_range: "m \<in> {0..3} \<Longrightarrow> i < 2 \<Longrightarrow> with_bit m i \<in> {1..3}"
  by (drule mask_cases) (elim disjE; auto simp: with_bit_def less_2_cases_iff)

lemma without_bit_range: "m \<in> {0..3} \<Longrightarrow> i < 2 \<Longrightarrow> without_bit m i \<in> {0..3}"
  by (drule mask_cases) (elim disjE; auto simp: without_bit_def less_2_cases_iff)

lemma has_bit_simps [simp]:
  "\<not> has_bit 0 i" "has_bit 1 0" "\<not> has_bit 1 (Suc 0)" "\<not> has_bit 2 0" "has_bit 2 (Suc 0)"
  "has_bit 3 0" "has_bit 3 (Suc 0)"
  by (simp_all add: has_bit_def)

lemma has_bit_push_bit [simp]: "has_bit (push_bit i 1) j \<longleftrightarrow> i = j"
  by (auto simp: has_bit_def bit_eq_iff bit_simps)

lemma active_callback_bitmask_eq:
  "stdev_active_callback_bitmask d =
     (if recognition_callbacks d ! 0 \<noteq> NULL then 1 else 0) + (if recognition_callbacks d ! 1 \<noteq> NULL then 2 else 0)"
  by (simp add: stdev_active_callback_bitmask_def with_bit_def upt_rec)

lemma active_callback_bitmask_0 [simp]:
  "stdev_active_callback_bitmask d = 0 \<longleftrightarrow> recognition_callbacks d ! 0 = NULL \<and> recognition_callbacks d ! 1 = NULL"
  by (simp add: active_callback_bitmask_eq)

lemma active_callback_bitmask_range: "stdev_active_callback_bitmask d \<in> {0..3}"
  by (simp add: active_callback_bitmask_eq)

section \<open>What the control of the VTS keeps\<close>

text \<open>
  A call is quiet when it neither concerns a pcm node nor calls a client. The mixer operations
  change nothing but two flags, and add only quiet calls to the log.
\<close>

fun quiet :: "st_call \<Rightarrow> bool" where
  "quiet (pcm_open _ _) = False"
| "quiet (pcm_is_ready _) = False"
| "quiet (pcm_read _ _) = False"
| "quiet (pcm_close _) = False"
| "quiet (recognition_callback _ _ _ _) = False"
| "quiet _ = True"

definition quiet_ext :: "st_call list \<Rightarrow> st_call list \<Rightarrow> bool" where
  "quiet_ext cs cs' \<longleftrightarrow> (\<exists>ls. list_all quiet ls \<and> cs' = ls @ cs)"

lemma quiet_ext_refl [simp]: "quiet_ext cs cs"
  by (auto simp: quiet_ext_def intro: exI [of _ "[]"])

lemma quiet_ext_Cons: "quiet c \<Longrightarrow> quiet_ext cs cs' \<Longrightarrow> quiet_ext cs (c # cs')"
  by (metis append_Cons list.pred_inject(2) quiet_ext_def)

lemma quiet_ext_trans [trans]: "quiet_ext a b \<Longrightarrow> quiet_ext b c \<Longrightarrow> quiet_ext a c"
  by (fastforce simp: quiet_ext_def intro: exI [of _ "_ @ _"])

definition mixer_erase :: "stdev \<Rightarrow> stdev" where
  "mixer_erase d = d\<lparr>recognize_started := 0, is_mic_configured := False, calls := []\<rparr>"

definition mixer_keep :: "stdev \<Rightarrow> stdev \<Rightarrow> bool" where
  "mixer_keep d d' \<longleftrightarrow> mixer_erase d' = mixer_erase d \<and> quiet_ext (calls d) (calls d')"

lemma mixer_keep_refl [simp, intro]: "mixer_keep d d"
  by (simp add: mixer_keep_def)

lemma mixer_keep_trans [trans]: "mixer_keep d1 d2 \<Longrightarrow> mixer_keep d2 d3 \<Longrightarrow> mixer_keep d1 d3"
  by (auto simp: mixer_keep_def intro: quiet_ext_trans)

lemma mixer_keep_emit [simp]: "quiet c \<Longrightarrow> mixer_keep d d' \<Longrightarrow> mixer_keep d (emit c d')"
  by (auto simp: mixer_keep_def mixer_erase_def emit_def intro: quiet_ext_Cons)

lemma mixer_keep_syscall [simp]: "quiet c \<Longrightarrow> mixer_keep d d' \<Longrightarrow> mixer_keep d (snd (syscall E c d'))"
  by (auto simp: mixer_keep_def mixer_erase_def syscall_def intro: quiet_ext_Cons)

lemma mixer_keep_flags [simp]:
  "mixer_keep d (d'\<lparr>recognize_started := r\<rparr>) \<longleftrightarrow> mixer_keep d d'"
  "mixer_keep d (d'\<lparr>is_mic_configured := m\<rparr>) \<longleftrightarrow> mixer_keep d d'"
  by (simp_all add: mixer_keep_def mixer_erase_def)

lemma mixer_keep_fields:
  assumes "mixer_keep d d'"
  shows "model_handles d' = model_handles d" "recognition_callbacks d' = recognition_callbacks d"
    "recognition_cookies d' = recognition_cookies d" "sound_model_callbacks d' = sound_model_callbacks d"
    "sound_model_cookies d' = sound_model_cookies d" "send_socket d' = send_socket d"
    "term_socket d' = term_socket d" "uevent_socket d' = uevent_socket d" "configs d' = configs d"
    "mixer d' = mixer d" "vtsdev_fd d' = vtsdev_fd d" "mapped_addr d' = mapped_addr d"
    "is_streaming d' = is_streaming d" "sthal_opened d' = sthal_opened d"
    "callback_thread_active d' = callback_thread_active d"
    "is_seamless_recording d' = is_seamless_recording d" "streaming_pcm d' = streaming_pcm d"
    "active_mic d' = active_mic d" "audio_primary_lib d' = audio_primary_lib d"
    "notify_sthal_status d' = notify_sthal_status d" "is_recording d' = is_recording d"
    "recording_pcm d' = recording_pcm d" "backlog_size d' = backlog_size d"
    "svoicemodel_mode d' = svoicemodel_mode d" "voicecall_state d' = voicecall_state d"
    "recog_cbstate d' = recog_cbstate d" "model_execstate d' = model_execstate d"
    "model_stopfailedhandles d' = model_stopfailedhandles d" "is_generic d' = is_generic d"
    "cb_thread_of d' = cb_thread_of d"
  using assms by (cases d; cases d'; simp add: mixer_keep_def mixer_erase_def)+

lemmas vts_unfold = Let_def case_prod_unfold

lemma mixer_loop_keep: "mixer_keep d (snd (mixer_loop E ns vs n i rv d))"
proof (induction n arbitrary: i d)
  case (Suc n)
  let ?d1 = "snd (syscall E (mixer_get_ctl_by_name (mixer d) (ns ! i)) d)"
  let ?d2 = "snd (syscall E (mixer_ctl_set_value (ns ! i) (case vs of Some vs \<Rightarrow> vs ! i | None \<Rightarrow> 0)) ?d1)"
  have "mixer_keep d ?d1" "mixer_keep d ?d2" by simp_all
  then show ?case
    using mixer_keep_trans [OF \<open>mixer_keep d ?d2\<close> Suc.IH] by (simp add: vts_unfold)
qed simp

lemma set_mixer_ctrls_keep: "mixer_keep d (snd (set_mixer_ctrls E ns vs n rv d))"
  by (simp add: set_mixer_ctrls_def mixer_loop_keep)

text \<open>
  The interface of an operation on the mixer: it keeps everything but the two flags and the
  log. Its clients use the equations of the fields and chain operations by \<open>after\<close>.
\<close>

locale mixer_op =
  fixes op :: "stdev \<Rightarrow> stdev"
  assumes keep: "mixer_keep d (op d)"
begin

lemmas fields [simp] = mixer_keep_fields [OF keep]

lemma after [simp]: "mixer_keep d d' \<Longrightarrow> mixer_keep d (op d')"
  by (rule mixer_keep_trans [OF _ keep])

end

interpretation set_mixer: mixer_op "\<lambda>d. snd (set_mixer_ctrls E ns vs n rv d)" for E ns vs n rv
  by unfold_locales (rule set_mixer_ctrls_keep)

interpretation set_mic: mixer_op "stdev_vts_set_mic E on" for E on
  by unfold_locales (simp add: stdev_vts_set_mic_def vts_unfold)

interpretation hotword_on: mixer_op "\<lambda>d. snd (start_hotword E a d)" for E a
  by unfold_locales (simp add: start_hotword_def vts_unfold)

interpretation svoice_on: mixer_op "start_svoice E a" for E a
  by unfold_locales (simp add: start_svoice_def vts_unfold)

interpretation hotword_off: mixer_op "\<lambda>d. snd (stop_hotword E d)" for E
  by unfold_locales (simp add: stop_hotword_def vts_unfold)

interpretation svoice_off: mixer_op "\<lambda>d. snd (stop_svoice E d)" for E
  by unfold_locales (simp add: stop_svoice_def vts_unfold)

text \<open>Powering the VTS up or down is a mixer operation after the streaming node was given up.\<close>

definition end_streaming :: "stdev \<Rightarrow> stdev" where
  "end_streaming d = (close_streaming_pcm (d\<lparr>is_streaming := 0\<rparr>))\<lparr>is_seamless_recording := False\<rparr>"

definition vts_power :: "st_env \<Rightarrow> int \<Rightarrow> stdev \<Rightarrow> stdev" where
  "vts_power E a d =
     (if a \<noteq> 0 then
        (let d = stdev_vts_set_mic E True d; r = start_hotword E a d
         in if fst r then start_svoice E a (snd r) else snd r)
      else
        (let r = stop_hotword E d; r' = stop_svoice E (snd r)
         in if \<not> fst r then snd r
            else if \<not> fst r' then snd r'
            else if recognize_started (snd r') = 0 \<and> \<not> is_recording (snd r') then stdev_vts_set_mic E False (snd r')
            else snd r'))"

lemma set_power_eq: "stdev_vts_set_power E a d = vts_power E a (end_streaming d)"
  by (simp add: stdev_vts_set_power_def vts_power_def end_streaming_def vts_unfold)

interpretation vts_power: mixer_op "vts_power E a" for E a
  by unfold_locales (simp add: vts_power_def Let_def)

section \<open>The mixer when every control can be set\<close>

definition mixer_healthy :: "st_env \<Rightarrow> bool" where
  "mixer_healthy E \<longleftrightarrow> (\<forall>cs m n v. sys E cs (mixer_get_ctl_by_name m n) \<noteq> NULL \<and> sys E cs (mixer_ctl_set_value n v) = 0)"

text \<open>The calls that set the controls with the given indices, in their order.\<close>

definition control_calls :: "int \<Rightarrow> string list \<Rightarrow> int list option \<Rightarrow> nat list \<Rightarrow> st_call list" where
  "control_calls m names vals is =
     concat (map (\<lambda>i. [mixer_get_ctl_by_name m (names ! i),
                       mixer_ctl_set_value (names ! i) (case vals of Some vs \<Rightarrow> vs ! i | None \<Rightarrow> 0)]) is)"

lemma control_calls_Cons:
  "control_calls m names vals (i # is) =
     mixer_get_ctl_by_name m (names ! i) #
     mixer_ctl_set_value (names ! i) (case vals of Some vs \<Rightarrow> vs ! i | None \<Rightarrow> 0) # control_calls m names vals is"
  by (simp add: control_calls_def)

definition log_calls :: "st_call list \<Rightarrow> stdev \<Rightarrow> stdev" where
  "log_calls cs d = d\<lparr>calls := rev cs @ calls d\<rparr>"

lemma log_calls_simps [simp]:
  "log_calls [] d = d"
  "log_calls cs2 (log_calls cs1 d) = log_calls (cs1 @ cs2) d"
  "calls (log_calls cs d) = rev cs @ calls d"
  "emit c d = log_calls [c] d"
  by (simp_all add: log_calls_def emit_def)

lemma log_calls_keep: "list_all quiet cs \<Longrightarrow> mixer_keep d (log_calls cs d)"
  by (auto simp: mixer_keep_def mixer_erase_def log_calls_def quiet_ext_def intro!: exI [of _ "rev cs"])

lemma quiet_control_calls [simp]: "list_all quiet (control_calls m ns vs is)"
  by (induction "is") (simp_all add: control_calls_def)

lemma log_calls_mixer [simp]: "mixer (log_calls cs d) = mixer d"
  by (simp add: log_calls_def)

lemma mixer_loop_step:
  "mixer_healthy E \<Longrightarrow> mixer_loop E ns vs (Suc n) i rv d =
     mixer_loop E ns vs n (if rv then i - 1 else i + 1) rv (log_calls (control_calls (mixer d) ns vs [i]) d)"
  by (simp add: mixer_healthy_def syscall_def control_calls_def log_calls_def)

declare mixer_loop.simps(2) [simp del]

lemma control_calls_append:
  "control_calls m ns vs (is @ js) = control_calls m ns vs is @ control_calls m ns vs js"
  by (simp add: control_calls_def)

lemma control_calls_Nil [simp]: "control_calls m ns vs [] = []"
  by (simp add: control_calls_def)

lemma mixer_loop_healthy:
  assumes "mixer_healthy E"
  shows "mixer_loop E ns vs n i False d = (0, log_calls (control_calls (mixer d) ns vs [i..<i + n]) d)"
proof (induction n arbitrary: i d)
  case (Suc n)
  have "[i..<i + Suc n] = [i] @ [Suc i..<Suc i + n]" by (simp add: upt_rec)
  then show ?case
    by (simp add: mixer_loop_step [OF assms] Suc flip: control_calls_append)
qed simp

lemma mixer_loop_healthy_rev:
  assumes "mixer_healthy E"
  shows "mixer_loop E ns vs n (n - 1) True d = (0, log_calls (control_calls (mixer d) ns vs (rev [0..<n])) d)"
proof (induction n arbitrary: d)
  case (Suc n)
  have "rev [0..<Suc n] = [n] @ rev [0..<n]" by simp
  then show ?case
    using Suc by (simp add: mixer_loop_step [OF assms] flip: control_calls_append)
qed simp

lemma set_mixer_ctrls_healthy:
  assumes "mixer_healthy E" "mixer d \<noteq> NULL"
  shows "set_mixer_ctrls E ns vs n rv d =
     (0, log_calls (control_calls (mixer d) ns vs (if rv then rev [0..<n] else [0..<n])) d)"
  using assms by (simp add: set_mixer_ctrls_def mixer_loop_healthy mixer_loop_healthy_rev [simplified])

text \<open>The controls of the active microphone, switched on in order and off in reverse.\<close>

definition mic_on_calls :: "st_env \<Rightarrow> stdev \<Rightarrow> st_call list" where
  "mic_on_calls E d = (if active_mic d = VTS_HEADSET_MIC
     then control_calls (mixer d) (headset_mic_ctlname E) (Some (headset_mic_ctlvalue E)) [0..<HEADSET_MIC_CONTROL_COUNT E]
     else control_calls (mixer d) (main_mic_ctlname E) (Some (main_mic_ctlvalue E)) [0..<MAIN_MIC_CONTROL_COUNT E])"

definition mic_off_calls :: "st_env \<Rightarrow> stdev \<Rightarrow> st_call list" where
  "mic_off_calls E d = (if active_mic d = VTS_HEADSET_MIC
     then control_calls (mixer d) (headset_mic_ctlname E) None (rev [0..<HEADSET_MIC_CONTROL_COUNT E])
     else control_calls (mixer d) (main_mic_ctlname E) None (rev [0..<MAIN_MIC_CONTROL_COUNT E]))"

lemma set_mic_on:
  assumes "mixer_healthy E" "mixer d \<noteq> NULL"
  shows "stdev_vts_set_mic E True d =
     (log_calls (if is_mic_configured d then [] else mic_on_calls E d) d)\<lparr>is_mic_configured := True\<rparr>"
  by (cases "active_mic d") (simp_all add: stdev_vts_set_mic_def set_mixer_ctrls_healthy [OF assms] mic_on_calls_def)

lemma set_mic_off:
  assumes "mixer_healthy E" "mixer d \<noteq> NULL"
  shows "stdev_vts_set_mic E False d =
     (log_calls (if is_mic_configured d then mic_off_calls E d else []) d)\<lparr>is_mic_configured := False\<rparr>"
  by (cases "active_mic d") (simp_all add: stdev_vts_set_mic_def set_mixer_ctrls_healthy [OF assms] mic_off_calls_def)

text \<open>The controls that start and stop the two models, in the mode the client asked for.\<close>

definition hotword_on_calls :: "stdev \<Rightarrow> st_call list" where
  "hotword_on_calls d =
     control_calls (mixer d) model_recognize_start_ctlname (Some hotword_recognize_start_ctlvalue) [0..<3] @
     (if notify_sthal_status d \<noteq> NULL then [notify_sthal_status_call MODEL_RECOGNIZE_STARTED] else [])"

definition svoice_on_calls :: "stdev \<Rightarrow> st_call list" where
  "svoice_on_calls d =
     control_calls (mixer d) model_recognize_start_ctlname (Some (svoice_start_ctlvalue (svoicemodel_mode d))) [0..<3] @
     (if svoicemodel_mode d \<in> {SVOICE_BIXBY_MODE, SVOICE_BIXBY_ALWAYS_MODE} \<and> backlog_size d \<noteq> 0
      then control_calls (mixer d) model_backlog_size_ctlname (Some [backlog_size d]) [0..<1] else [])"

definition hotword_off_calls :: "stdev \<Rightarrow> st_call list" where
  "hotword_off_calls d =
     control_calls (mixer d) model_recognize_stop_ctlname (Some hotword_recognize_stop_ctlvalue) [0..<2] @
     (if notify_sthal_status d \<noteq> NULL then [notify_sthal_status_call MODEL_RECOGNIZE_STOPPED] else [])"

definition svoice_off_calls :: "stdev \<Rightarrow> st_call list" where
  "svoice_off_calls d =
     control_calls (mixer d) model_recognize_stop_ctlname (Some (svoice_stop_ctlvalue (svoicemodel_mode d))) [0..<2]"

lemma log_calls_upd [simp]:
  "log_calls cs (d\<lparr>recognize_started := r\<rparr>) = (log_calls cs d)\<lparr>recognize_started := r\<rparr>"
  "log_calls cs (d\<lparr>is_mic_configured := m\<rparr>) = (log_calls cs d)\<lparr>is_mic_configured := m\<rparr>"
  by (simp_all add: log_calls_def)

lemma log_calls_fields [simp]:
  "recognize_started (log_calls cs d) = recognize_started d" "is_mic_configured (log_calls cs d) = is_mic_configured d"
  "svoicemodel_mode (log_calls cs d) = svoicemodel_mode d" "backlog_size (log_calls cs d) = backlog_size d"
  "notify_sthal_status (log_calls cs d) = notify_sthal_status d" "is_recording (log_calls cs d) = is_recording d"
  "active_mic (log_calls cs d) = active_mic d"
  by (simp_all add: log_calls_def)

lemma flag_same:
  "recognize_started d = r \<Longrightarrow> d\<lparr>recognize_started := r\<rparr> = d"
  "is_mic_configured d = m \<Longrightarrow> d\<lparr>is_mic_configured := m\<rparr> = d"
  by auto

lemma start_hotword_healthy:
  assumes "mixer_healthy E" "mixer d \<noteq> NULL"
  shows "start_hotword E a d = (True, if has_bit a 0 then
     (log_calls (hotword_on_calls d) d)\<lparr>recognize_started := with_bit (recognize_started d) 0\<rparr> else d)"
  by (simp add: start_hotword_def set_mixer_ctrls_healthy [OF assms] hotword_on_calls_def)

lemma start_svoice_healthy:
  assumes "mixer_healthy E" "mixer d \<noteq> NULL"
  shows "start_svoice E a d = (if has_bit a 1 then
     (log_calls (svoice_on_calls d) d)\<lparr>recognize_started := with_bit (recognize_started d) 1\<rparr> else d)"
  using assms by (simp add: start_svoice_def set_mixer_ctrls_healthy svoice_on_calls_def)

lemma stop_hotword_healthy:
  assumes "mixer_healthy E" "mixer d \<noteq> NULL"
  shows "stop_hotword E d = (True, if has_bit (recognize_started d) 0 then
     (log_calls (hotword_off_calls d) d)\<lparr>recognize_started := without_bit (recognize_started d) 0\<rparr> else d)"
  by (simp add: stop_hotword_def set_mixer_ctrls_healthy [OF assms] hotword_off_calls_def)

lemma stop_svoice_healthy:
  assumes "mixer_healthy E" "mixer d \<noteq> NULL"
  shows "stop_svoice E d = (True, if has_bit (recognize_started d) 1 then
     (log_calls (svoice_off_calls d) d)\<lparr>recognize_started := without_bit (recognize_started d) 1\<rparr> else d)"
  by (simp add: stop_svoice_def set_mixer_ctrls_healthy [OF assms] svoice_off_calls_def)

lemmas healthy_steps = set_mic_on set_mic_off start_hotword_healthy start_svoice_healthy stop_hotword_healthy stop_svoice_healthy

definition power_on_calls :: "st_env \<Rightarrow> int \<Rightarrow> stdev \<Rightarrow> st_call list" where
  "power_on_calls E a d =
     (if is_mic_configured d then [] else mic_on_calls E d) @
     (if has_bit a 0 then hotword_on_calls d else []) @
     (if has_bit a 1 then svoice_on_calls d else [])"

definition power_off_calls :: "st_env \<Rightarrow> stdev \<Rightarrow> st_call list" where
  "power_off_calls E d =
     (if has_bit (recognize_started d) 0 then hotword_off_calls d else []) @
     (if has_bit (recognize_started d) 1 then svoice_off_calls d else []) @
     (if is_mic_configured d \<and> \<not> is_recording d then mic_off_calls E d else [])"

lemma vts_power_on:
  assumes "mixer_healthy E" "mixer d \<noteq> NULL" "recognize_started d \<in> {0..3}" "a \<in> {1..3}"
  shows "vts_power E a d =
    (log_calls (power_on_calls E a d) d)\<lparr>recognize_started := recognize_started d OR a, is_mic_configured := True\<rparr>"
proof -
  have "a = 1 \<or> a = 2 \<or> a = 3" using assms(4) by auto
  then show ?thesis
    using mask_cases [OF assms(3)] assms(1,2)
    by (elim disjE)
      (simp_all add: vts_power_def healthy_steps power_on_calls_def with_bit_def hotword_on_calls_def svoice_on_calls_def)
qed

lemma vts_power_off:
  assumes "mixer_healthy E" "mixer d \<noteq> NULL" "recognize_started d \<in> {0..3}"
  shows "vts_power E 0 d =
    (log_calls (power_off_calls E d) d)\<lparr>recognize_started := 0, is_mic_configured := is_mic_configured d \<and> is_recording d\<rparr>"
  using mask_cases [OF assms(3)] assms(1,2)
  by (elim disjE; cases "is_mic_configured d"; cases "is_recording d")
    (simp_all add: vts_power_def healthy_steps power_off_calls_def without_bit_def hotword_off_calls_def svoice_off_calls_def
      mic_off_calls_def Let_def flag_same)

lemma end_streaming_fields [simp]:
  "is_streaming (end_streaming d) = 0" "streaming_pcm (end_streaming d) = NULL" "\<not> is_seamless_recording (end_streaming d)"
  "model_handles (end_streaming d) = model_handles d" "recognition_callbacks (end_streaming d) = recognition_callbacks d"
  "recognition_cookies (end_streaming d) = recognition_cookies d" "configs (end_streaming d) = configs d"
  "sound_model_callbacks (end_streaming d) = sound_model_callbacks d"
  "sound_model_cookies (end_streaming d) = sound_model_cookies d"
  "send_socket (end_streaming d) = send_socket d" "term_socket (end_streaming d) = term_socket d"
  "uevent_socket (end_streaming d) = uevent_socket d" "mixer (end_streaming d) = mixer d"
  "sthal_opened (end_streaming d) = sthal_opened d" "callback_thread_active (end_streaming d) = callback_thread_active d"
  "recognize_started (end_streaming d) = recognize_started d" "is_mic_configured (end_streaming d) = is_mic_configured d"
  "active_mic (end_streaming d) = active_mic d" "notify_sthal_status (end_streaming d) = notify_sthal_status d"
  "is_recording (end_streaming d) = is_recording d" "recording_pcm (end_streaming d) = recording_pcm d"
  "backlog_size (end_streaming d) = backlog_size d" "svoicemodel_mode (end_streaming d) = svoicemodel_mode d"
  "voicecall_state (end_streaming d) = voicecall_state d" "recog_cbstate (end_streaming d) = recog_cbstate d"
  "model_execstate (end_streaming d) = model_execstate d" "is_generic (end_streaming d) = is_generic d"
  "model_stopfailedhandles (end_streaming d) = model_stopfailedhandles d" "cb_thread_of (end_streaming d) = cb_thread_of d"
  by (simp_all add: end_streaming_def close_streaming_pcm_def log_calls_def)

text \<open>Powering the VTS never touches the models, the clients and the thread.\<close>

lemma set_power_fields [simp]:
  "is_streaming (stdev_vts_set_power E a d) = 0" "streaming_pcm (stdev_vts_set_power E a d) = NULL"
  "\<not> is_seamless_recording (stdev_vts_set_power E a d)"
  "model_handles (stdev_vts_set_power E a d) = model_handles d"
  "recognition_callbacks (stdev_vts_set_power E a d) = recognition_callbacks d"
  "recognition_cookies (stdev_vts_set_power E a d) = recognition_cookies d"
  "configs (stdev_vts_set_power E a d) = configs d"
  "sound_model_callbacks (stdev_vts_set_power E a d) = sound_model_callbacks d"
  "sound_model_cookies (stdev_vts_set_power E a d) = sound_model_cookies d"
  "send_socket (stdev_vts_set_power E a d) = send_socket d" "term_socket (stdev_vts_set_power E a d) = term_socket d"
  "uevent_socket (stdev_vts_set_power E a d) = uevent_socket d" "mixer (stdev_vts_set_power E a d) = mixer d"
  "sthal_opened (stdev_vts_set_power E a d) = sthal_opened d"
  "callback_thread_active (stdev_vts_set_power E a d) = callback_thread_active d"
  "active_mic (stdev_vts_set_power E a d) = active_mic d"
  "notify_sthal_status (stdev_vts_set_power E a d) = notify_sthal_status d"
  "is_recording (stdev_vts_set_power E a d) = is_recording d" "recording_pcm (stdev_vts_set_power E a d) = recording_pcm d"
  "backlog_size (stdev_vts_set_power E a d) = backlog_size d"
  "svoicemodel_mode (stdev_vts_set_power E a d) = svoicemodel_mode d"
  "voicecall_state (stdev_vts_set_power E a d) = voicecall_state d"
  "recog_cbstate (stdev_vts_set_power E a d) = recog_cbstate d"
  "model_execstate (stdev_vts_set_power E a d) = model_execstate d"
  "is_generic (stdev_vts_set_power E a d) = is_generic d"
  "model_stopfailedhandles (stdev_vts_set_power E a d) = model_stopfailedhandles d"
  "cb_thread_of (stdev_vts_set_power E a d) = cb_thread_of d"
  by (simp_all add: set_power_eq)

lemma set_power_bitmask [simp]:
  "stdev_active_callback_bitmask (stdev_vts_set_power E a d) = stdev_active_callback_bitmask d"
  by (simp add: active_callback_bitmask_eq)

text \<open>Whatever fails, \<open>recognize_started\<close> stays a mask of the two models.\<close>

lemma set_mixer_flags [simp]:
  "recognize_started (snd (set_mixer_ctrls E ns vs n rv d)) = recognize_started d"
  "is_mic_configured (snd (set_mixer_ctrls E ns vs n rv d)) = is_mic_configured d"
proof -
  have "recognize_started (snd (mixer_loop E ns vs n i rv d)) = recognize_started d \<and>
        is_mic_configured (snd (mixer_loop E ns vs n i rv d)) = is_mic_configured d" for n i d
    by (induction n arbitrary: i d) (auto simp: mixer_loop.simps vts_unfold syscall_def)
  then show "recognize_started (snd (set_mixer_ctrls E ns vs n rv d)) = recognize_started d"
    "is_mic_configured (snd (set_mixer_ctrls E ns vs n rv d)) = is_mic_configured d"
    by (simp_all add: set_mixer_ctrls_def)
qed

lemma set_mic_recognize [simp]: "recognize_started (stdev_vts_set_mic E on d) = recognize_started d"
  by (simp add: stdev_vts_set_mic_def vts_unfold)

lemma mask_range_weaken: "m \<in> {1..3} \<Longrightarrow> m \<in> {0..(3::int)}"
  by auto

lemma start_stop_range:
  assumes "recognize_started d \<in> {0..3}"
  shows "recognize_started (snd (start_hotword E a d)) \<in> {0..3}"
    "recognize_started (start_svoice E a d) \<in> {0..3}"
    "recognize_started (snd (stop_hotword E d)) \<in> {0..3}"
    "recognize_started (snd (stop_svoice E d)) \<in> {0..3}"
  using assms mask_range_weaken [OF with_bit_range [OF assms]] without_bit_range [OF assms]
  by (simp_all add: start_hotword_def start_svoice_def stop_hotword_def stop_svoice_def vts_unfold del: atLeastAtMost_iff)

lemma set_power_range: "recognize_started d \<in> {0..3} \<Longrightarrow> recognize_started (stdev_vts_set_power E a d) \<in> {0..3}"
  using start_stop_range by (simp add: set_power_eq vts_power_def Let_def del: atLeastAtMost_iff) simp

section \<open>PCM nodes\<close>

text \<open>The nodes a log leaves open, and logs in which only open nodes are used; closing NULL is kept apart.\<close>

fun live_pcms :: "st_env \<Rightarrow> st_call list \<Rightarrow> int set" where
  "live_pcms E [] = {}"
| "live_pcms E (pcm_open a b # cs) = insert (sys E cs (pcm_open a b)) (live_pcms E cs) - {NULL}"
| "live_pcms E (pcm_close p # cs) = live_pcms E cs - {p}"
| "live_pcms E (_ # cs) = live_pcms E cs"

fun pcm_safe :: "st_env \<Rightarrow> st_call list \<Rightarrow> bool" where
  "pcm_safe E [] = True"
| "pcm_safe E (pcm_close p # cs) \<longleftrightarrow> (p = NULL \<or> p \<in> live_pcms E cs) \<and> pcm_safe E cs"
| "pcm_safe E (pcm_read p n # cs) \<longleftrightarrow> p \<in> live_pcms E cs \<and> pcm_safe E cs"
| "pcm_safe E (pcm_is_ready p # cs) \<longleftrightarrow> p \<in> live_pcms E cs \<and> pcm_safe E cs"
| "pcm_safe E (_ # cs) \<longleftrightarrow> pcm_safe E cs"

lemma quiet_pcms: "quiet c \<Longrightarrow> live_pcms E (c # cs) = live_pcms E cs \<and> pcm_safe E (c # cs) = pcm_safe E cs"
  by (cases c) simp_all

lemma quiet_ext_pcms:
  assumes "quiet_ext cs cs'"
  shows "live_pcms E cs' = live_pcms E cs" "pcm_safe E cs' = pcm_safe E cs"
proof -
  obtain ls where "list_all quiet ls" "cs' = ls @ cs" using assms by (auto simp: quiet_ext_def)
  moreover have "list_all quiet ls \<Longrightarrow> live_pcms E (ls @ cs) = live_pcms E cs \<and> pcm_safe E (ls @ cs) = pcm_safe E cs"
    by (induction ls) (simp_all add: quiet_pcms)
  ultimately show "live_pcms E cs' = live_pcms E cs" "pcm_safe E cs' = pcm_safe E cs" by auto
qed

lemma NULL_not_live [simp]: "NULL \<notin> live_pcms E cs"
  by (induction cs rule: live_pcms.induct) auto

definition callback_count :: "nat \<Rightarrow> st_call list \<Rightarrow> nat" where
  "callback_count i cs = length (filter (\<lambda>c. case c of recognition_callback j _ _ _ \<Rightarrow> j = i | _ \<Rightarrow> False) cs)"

lemma callback_count_Cons:
  "callback_count i (c # cs) = (case c of recognition_callback j _ _ _ \<Rightarrow> if j = i then 1 else 0 | _ \<Rightarrow> 0) + callback_count i cs"
  by (simp add: callback_count_def split: st_call.split)

lemma quiet_ext_callbacks: "quiet_ext cs cs' \<Longrightarrow> callback_count i cs' = callback_count i cs"
proof -
  have "list_all quiet ls \<Longrightarrow> callback_count i (ls @ cs) = callback_count i cs" for ls
    by (induction ls) (auto simp: callback_count_def split: st_call.splits)
  then show "quiet_ext cs cs' \<Longrightarrow> callback_count i cs' = callback_count i cs"
    by (auto simp: quiet_ext_def)
qed

text \<open>The device holds its pcm nodes: they are open and distinct, and the log is safe.\<close>

definition pcms_ok :: "st_env \<Rightarrow> stdev \<Rightarrow> bool" where
  "pcms_ok E d \<longleftrightarrow> pcm_safe E (calls d) \<and>
     (streaming_pcm d \<noteq> NULL \<longrightarrow> streaming_pcm d \<in> live_pcms E (calls d)) \<and>
     (recording_pcm d \<noteq> NULL \<longrightarrow> recording_pcm d \<in> live_pcms E (calls d) \<and> recording_pcm d \<noteq> streaming_pcm d)"

lemma mixer_keep_pcms_ok:
  assumes "mixer_keep d d'"
  shows "pcms_ok E d' = pcms_ok E d"
proof -
  have q: "quiet_ext (calls d) (calls d')" using assms by (simp add: mixer_keep_def)
  have f: "streaming_pcm d' = streaming_pcm d" "recording_pcm d' = recording_pcm d"
    using mixer_keep_fields [OF assms] by simp_all
  show ?thesis unfolding pcms_ok_def f quiet_ext_pcms [OF q] ..
qed

lemma end_streaming_pcms_ok: "pcms_ok E d \<Longrightarrow> pcms_ok E (end_streaming d)"
  by (auto simp: pcms_ok_def end_streaming_def close_streaming_pcm_def log_calls_def)

lemma set_power_pcms_ok: "pcms_ok E d \<Longrightarrow> pcms_ok E (stdev_vts_set_power E a d)"
  by (simp add: set_power_eq mixer_keep_pcms_ok [OF vts_power.keep] end_streaming_pcms_ok)

lemma set_power_callback_count [simp]: "callback_count i (calls (stdev_vts_set_power E a d)) = callback_count i (calls d)"
proof -
  have "callback_count i (calls (end_streaming d)) = callback_count i (calls d)"
    by (simp add: end_streaming_def close_streaming_pcm_def log_calls_def callback_count_Cons)
  then show ?thesis
    using quiet_ext_callbacks [of "calls (end_streaming d)" "calls (vts_power E a (end_streaming d))"]
      vts_power.keep [of "end_streaming d" E a] by (simp add: set_power_eq mixer_keep_def)
qed

section \<open>Powering up and down\<close>

text \<open>The device as the loader leaves it, and an environment in which every call succeeds.\<close>

definition g_stdev :: stdev where
  "g_stdev = \<lparr>model_handles = [0, 0], recognition_callbacks = [0, 0], recognition_cookies = [0, 0],
     sound_model_callbacks = [0, 0], sound_model_cookies = [0, 0], send_socket = 0, term_socket = 0, uevent_socket = 0,
     configs = [None, None], mixer = 0, vtsdev_fd = 0, mapped_addr = 0, is_streaming = 0, sthal_opened = False,
     callback_thread_active = False, is_seamless_recording = False, streaming_pcm = 0, recognize_started = 0,
     active_mic = VTS_MAIN_MIC, is_mic_configured = False, audio_primary_lib = 0, notify_sthal_status = 0,
     is_recording = False, recording_pcm = 0, backlog_size = 0, svoicemodel_mode = 0,
     voicecall_state = VOICECALL_STOPPED, recog_cbstate = RECOG_CB_NONE,
     model_execstate = [MODEL_STATE_NONE, MODEL_STATE_NONE], model_stopfailedhandles = [0, 0], is_generic = 0,
     cb_thread_of = None, calls = []\<rparr>"

fun sample_sys :: "st_call list \<Rightarrow> st_call \<Rightarrow> int" where
  "sample_sys cs (mixer_ctl_set_value _ _) = 0"
| "sample_sys cs (pcm_open _ _) = 100 + int (length cs)"
| "sample_sys cs (sys_write _ bs) = (if length bs \<le> 1 then int (length bs) else int (length bs) - 1)"
| "sample_sys cs (sys_ioctl _ _ _) = 0"
| "sample_sys cs socketpair = 0"
| "sample_sys cs pthread_create = 0"
| "sample_sys cs (sys_access _) = 0"
| "sample_sys cs (pcm_read _ _) = 0"
| "sample_sys cs _ = 7"

definition sample_env :: st_env where
  "sample_env = \<lparr>sys = sample_sys, during_callback = (\<lambda>_. []), str_parms = (\<lambda>_. None), MMAP_INTERFACE_ENABLED = True,
     main_mic_ctlname = [''main a'', ''main b''], main_mic_ctlvalue = [1, 2], MAIN_MIC_CONTROL_COUNT = 2,
     headset_mic_ctlname = [''headset''], headset_mic_ctlvalue = [3], HEADSET_MIC_CONTROL_COUNT = 1,
     VTS_MIXER_CARD = 0, VTS_SOUND_CARD = 0, VTS_TRICAP_DEVICE_NODE = 6, VTS_RECORD_DEVICE_NODE = 7,
     VTS_HOTWORD_MODEL = ''hotword'', VTS_SVOICE_MODEL = ''svoice'', VTSDRV_MISC_MODEL_BIN_MAXSZ = 2,
     SOUND_TRIGGER_MAX_PHRASES = 10, sizeof_sound_model = 4, AUDIO_PRIMARY_HAL_LIBRARY_PATH = ''audio''\<rparr>"

lemma sample_env_healthy: "mixer_healthy sample_env"
  by (simp add: mixer_healthy_def sample_env_def)

text \<open>
  When every mixer control can be set, powering up switches the
  microphone on if it is off, then starts exactly the requested models, and adds them to
  \<open>recognize_started\<close>; powering down stops exactly the models that were started and switches the
  microphone off, in reverse order, unless a recording uses it. Both give up the streaming node
  first and leave the rest of the device alone.
\<close>

theorem vts_set_power_controls:
  assumes "mixer_healthy E" "mixer d \<noteq> NULL" "recognize_started d \<in> {0..3}"
  defines "c \<equiv> (if streaming_pcm d \<noteq> NULL then [pcm_close (streaming_pcm d)] else [])"
  shows "(a \<in> {1..3} \<longrightarrow> stdev_vts_set_power E a d =
            d\<lparr>is_streaming := 0, is_seamless_recording := False, streaming_pcm := NULL,
              recognize_started := recognize_started d OR a, is_mic_configured := True,
              calls := rev (c @ power_on_calls E a d) @ calls d\<rparr>) \<and>
         stdev_vts_set_power E 0 d =
            d\<lparr>is_streaming := 0, is_seamless_recording := False, streaming_pcm := NULL,
              recognize_started := 0, is_mic_configured := is_mic_configured d \<and> is_recording d,
              calls := rev (c @ power_off_calls E d) @ calls d\<rparr>"
proof -
  have c: "calls (end_streaming d) = rev c @ calls d"
    by (simp add: end_streaming_def close_streaming_pcm_def c_def log_calls_def)
  have e: "end_streaming d = d\<lparr>is_streaming := 0, is_seamless_recording := False, streaming_pcm := NULL, calls := rev c @ calls d\<rparr>"
    by (simp add: end_streaming_def close_streaming_pcm_def c_def log_calls_def)
  have h: "mixer_healthy E" "mixer (end_streaming d) \<noteq> NULL" "recognize_started (end_streaming d) \<in> {0..3}"
    using assms by simp_all
  have p: "power_on_calls E a (end_streaming d) = power_on_calls E a d"
    "power_off_calls E (end_streaming d) = power_off_calls E d"
    by (simp_all add: power_on_calls_def power_off_calls_def mic_on_calls_def mic_off_calls_def hotword_on_calls_def
      svoice_on_calls_def hotword_off_calls_def svoice_off_calls_def)
  show ?thesis
    using vts_power_on [OF h, of a] vts_power_off [OF h]
    by (simp add: set_power_eq p log_calls_def) (simp add: e)
qed

theorem vts_set_power_controls_witness:
  "mixer_healthy sample_env \<and> mixer (g_stdev\<lparr>mixer := 7\<rparr>) \<noteq> NULL \<and> recognize_started (g_stdev\<lparr>mixer := 7\<rparr>) \<in> {0..3} \<and>
   is_mic_configured (stdev_vts_set_power sample_env 1 (g_stdev\<lparr>mixer := 7\<rparr>))"
proof -
  have "mixer (g_stdev\<lparr>mixer := 7\<rparr>) \<noteq> NULL" "recognize_started (g_stdev\<lparr>mixer := 7\<rparr>) \<in> {0..3}"
    by (simp_all add: g_stdev_def)
  note power = vts_set_power_controls [OF sample_env_healthy this, of 1]
  have "is_mic_configured (stdev_vts_set_power sample_env 1 (g_stdev\<lparr>mixer := 7\<rparr>))"
    unfolding power [THEN conjunct1, rule_format, OF atLeastAtMost_iff [THEN iffD2], simplified] by simp
  with \<open>mixer (g_stdev\<lparr>mixer := 7\<rparr>) \<noteq> NULL\<close> \<open>recognize_started (g_stdev\<lparr>mixer := 7\<rparr>) \<in> {0..3}\<close>
  show ?thesis using sample_env_healthy by blast
qed

section \<open>Writing a model\<close>

text \<open>The bytes of a descriptor's writes the kernel accepted, in order.\<close>

fun delivered :: "st_env \<Rightarrow> int \<Rightarrow> st_call list \<Rightarrow> u8 list" where
  "delivered E fd [] = []"
| "delivered E fd (sys_write f bs # cs) =
     delivered E fd cs @ (if f = fd then take (nat (sys E cs (sys_write f bs))) bs else [])"
| "delivered E fd (_ # cs) = delivered E fd cs"

definition writes_progress :: "st_env \<Rightarrow> bool" where
  "writes_progress E \<longleftrightarrow> (\<forall>cs fd bs. bs \<noteq> [] \<longrightarrow>
     0 < sys E cs (sys_write fd bs) \<and> sys E cs (sys_write fd bs) \<le> int (length bs))"

lemma write_loop_complete:
  assumes "writes_progress E" "written + n \<le> length data"
  shows "\<exists>d'. write_loop E fd data (int n) (int written) d = Some (0, d') \<and>
     delivered E fd (calls d') = delivered E fd (calls d) @ take n (drop written data)"
  using assms(2)
proof (induction n arbitrary: written d rule: less_induct)
  case (less n)
  show ?case
  proof (cases "n = 0")
    case False
    let ?bs = "take n (drop written data)"
    let ?c = "sys_write fd ?bs"
    define t where "t = nat (sys E (calls d) ?c)"
    have "?bs \<noteq> []" "length ?bs = n" using False less.prems by simp_all
    moreover have "0 < sys E (calls d) ?c \<and> sys E (calls d) ?c \<le> int (length ?bs)"
      using assms(1) \<open>?bs \<noteq> []\<close> unfolding writes_progress_def by blast
    ultimately have t: "0 < t" "t \<le> n" "sys E (calls d) ?c = int t"
      unfolding t_def by linarith+
    obtain d' where d': "write_loop E fd data (int (n - t)) (int (written + t)) (d\<lparr>calls := ?c # calls d\<rparr>) = Some (0, d')"
      "delivered E fd (calls d') = delivered E fd (?c # calls d) @ take (n - t) (drop (written + t) data)"
      using less.IH [of "n - t" "written + t" "d\<lparr>calls := ?c # calls d\<rparr>"] t less.prems by auto
    have loop: "write_loop E fd data (int n) (int written) d = Some (0, d')"
      using d'(1) t False by (subst write_loop.simps) (simp add: syscall_def of_nat_diff)
    have "delivered E fd (?c # calls d) = delivered E fd (calls d) @ take t ?bs"
      using t(3) by simp
    moreover have "?bs = take t ?bs @ take (n - t) (drop (written + t) data)"
    proof -
      have "take t ?bs = take t (drop written data)" using t(2) by simp
      moreover have "drop (written + t) data = drop t (drop written data)" by (simp add: add.commute)
      ultimately show ?thesis
        using take_add [of t "n - t" "drop written data"] t(2) by (simp only: le_add_diff_inverse)
    qed
    ultimately have "delivered E fd (calls d') = delivered E fd (calls d) @ ?bs"
      using d'(2) by (metis append_assoc)
    with loop show ?thesis by blast
  qed (simp add: write_loop.simps)
qed

text \<open>
  C35 (sysfs_write_complete). When each write accepts at least one of the bytes offered to it,
  however few, \<open>sysfs_write\<close> returns 0 after it delivered all bytes of the model in order, and closes
  the file.
\<close>

theorem sysfs_write_complete:
  assumes "writes_progress E" "len \<le> length data"
    and "fd = sys E (calls d) (sys_open path)" "fd \<ge> 0"
  shows "\<exists>d'. sysfs_write E path data len d = Some (0, d') \<and>
     delivered E fd (calls d') = delivered E fd (calls d) @ take len data \<and> hd (calls d') = sys_close fd"
proof -
  let ?d = "d\<lparr>calls := sys_open path # calls d\<rparr>"
  obtain d' where "write_loop E fd data (int len) (int 0) ?d = Some (0, d')"
    "delivered E fd (calls d') = delivered E fd (calls ?d) @ take len data"
    using write_loop_complete [of E 0 len data fd ?d] assms by auto
  then show ?thesis
    using assms(3,4) by (simp add: sysfs_write_def syscall_def log_calls_def)
qed

theorem sysfs_write_complete_witness:
  "\<exists>d'. sysfs_write sample_env ''svoice'' [1, 2, 3] 3 g_stdev = Some (0, d') \<and> delivered sample_env 7 (calls d') = [1, 2, 3]"
proof -
  have "writes_progress sample_env"
    by (auto simp: writes_progress_def sample_env_def Suc_le_eq)
  then show ?thesis
    using sysfs_write_complete [of sample_env 3 "[1, 2, 3]" 7 g_stdev "''svoice''"]
    by (auto simp: sample_env_def g_stdev_def)
qed

text \<open>
  The length of a model is limited to the size of the mapping only
  after the copy: a model that is larger is copied whole, past the end of the mapping, and the
  driver is told the size of the mapping.
\<close>

theorem load_modelbinary_overflow:
  assumes "VTSDRV_MISC_MODEL_BIN_MAXSZ E < len" "len \<le> length data"
  shows "\<exists>cmd. calls (snd (load_modelbinary E i data len d)) =
     [sys_ioctl (vtsdev_fd d) cmd (int (VTSDRV_MISC_MODEL_BIN_MAXSZ E)), memcpy_mapped (mapped_addr d) (take len data)] @ calls d \<and>
     length (take len data) > VTSDRV_MISC_MODEL_BIN_MAXSZ E"
  using assms by (simp add: load_modelbinary_def vts_unfold syscall_def log_calls_def)

theorem load_modelbinary_overflow_witness:
  "VTSDRV_MISC_MODEL_BIN_MAXSZ sample_env < 3 \<and>
   (\<exists>cmd. calls (snd (load_modelbinary sample_env 0 [1, 2, 3] 3 g_stdev)) =
      [sys_ioctl 0 cmd 2, memcpy_mapped 0 [1, 2, 3]])"
  using load_modelbinary_overflow [of sample_env 3 "[1, 2, 3]" 0 g_stdev]
  by (simp add: sample_env_def g_stdev_def)

end
