(* ===== verification/St_Thread.thy ===== *)
theory St_Thread
  imports St_Device
begin

text \<open>
  The callback thread of the sound trigger HAL: how it is started and joined, what one round
  of its loop does, and the recovery from a stop request that arrived while the thread was
  inside the client's callback. The thread holds the device lock for a whole round, so a round
  is one step; the only code of other threads that runs meanwhile is the part of
  \<open>stdev_stop_recognition\<close> that works without the lock.
\<close>

section \<open>Stop requests that cannot get the lock\<close>

definition handle_matches :: "stdev \<Rightarrow> int \<Rightarrow> bool" where
  "handle_matches d handle = (0 \<le> handle \<and> handle < int MAX_SOUND_MODELS \<and> model_handles d ! nat handle = handle)"

definition mark_stopabort :: "int \<Rightarrow> stdev \<Rightarrow> stdev" where
  "mark_stopabort handle d =
     d\<lparr>model_stopfailedhandles := (model_stopfailedhandles d)[nat handle := handle],
       model_execstate := (model_execstate d)[nat handle := MODEL_STATE_STOPABORT]\<rparr>"

text \<open>
  The loop of \<open>stdev_stop_recognition\<close> after a failed \<open>trylock\<close>; \<open>fails\<close> further attempts fail.
  \<open>Undefined\<close> is the write outside the arrays after the last attempt, whose handle is not checked.
\<close>

datatype stop_result = Return int stdev | Acquired | Undefined

fun stop_wait :: "nat \<Rightarrow> nat \<Rightarrow> int \<Rightarrow> stdev \<Rightarrow> stop_result" where
  "stop_wait fails retry_count handle d =
     (if recog_cbstate d = RECOG_CB_CALLED then
        (if voicecall_state d = VOICECALL_STARTED then Return 0 d
         else if \<not> handle_matches d handle then Return (-ENOSYS) d
         else Return (-EBUSY) (mark_stopabort handle d))
      else if retry_count + 1 > 100 then
        (if 0 \<le> handle \<and> handle < int MAX_SOUND_MODELS then Return (-ENOSYS) (mark_stopabort handle d) else Undefined)
      else case fails of 0 \<Rightarrow> Acquired | Suc n \<Rightarrow> stop_wait n (retry_count + 1) handle d)"

declare stop_wait.simps [simp del]

text \<open>A stop request while the callback thread is in the client's callback.\<close>

definition stop_in_callback :: "int \<Rightarrow> stdev \<Rightarrow> stdev" where
  "stop_in_callback handle d = (case stop_wait 100 0 handle d of Return _ d' \<Rightarrow> d' | _ \<Rightarrow> d)"

section \<open>Recovery\<close>

definition stop_aborted :: "st_env \<Rightarrow> nat \<Rightarrow> stdev \<Rightarrow> stdev" where
  "stop_aborted E i d =
     (let d = (if recognition_callbacks d ! i = NULL \<and> \<not> has_bit (is_streaming d) i then d
               else d\<lparr>configs := (configs d)[i := None], recognition_callbacks := (recognition_callbacks d)[i := NULL]\<rparr>)
      in if is_streaming d = 0 \<or> has_bit (is_streaming d) i then
           (let d = stdev_vts_set_power E 0 d; active_bitmask = stdev_active_callback_bitmask d
            in if active_bitmask \<noteq> 0 then stdev_vts_set_power E active_bitmask d else d)
         else d)"

definition recover_model :: "st_env \<Rightarrow> nat \<Rightarrow> stdev \<Rightarrow> stdev" where
  "recover_model E i d =
     (let d = (if model_execstate d ! i = MODEL_STATE_STOPABORT \<and> model_stopfailedhandles d ! i = int i
               then stop_aborted E i d else d)
      in d\<lparr>model_execstate := (model_execstate d)[i := MODEL_STATE_NONE],
           model_stopfailedhandles := (model_stopfailedhandles d)[i := HANDLE_NONE]\<rparr>)"

definition handle_stop_recognition_l :: "st_env \<Rightarrow> stdev \<Rightarrow> stdev" where
  "handle_stop_recognition_l E d = fold (recover_model E) [0..<MAX_SOUND_MODELS] d"

definition stop_failed :: "stdev \<Rightarrow> bool" where
  "stop_failed d = (model_stopfailedhandles d ! HOTWORD_INDEX \<noteq> HANDLE_NONE \<or>
                    model_stopfailedhandles d ! SVOICE_INDEX \<noteq> HANDLE_NONE)"

section \<open>The loop\<close>

fun strstr :: "string \<Rightarrow> string \<Rightarrow> bool" where
  "strstr [] needle = (needle = [])"
| "strstr (c # hay) needle = (take (length needle) (c # hay) = needle \<or> strstr hay needle)"

definition call_client :: "st_env \<Rightarrow> nat \<Rightarrow> recognition_event \<Rightarrow> stdev \<Rightarrow> stdev" where
  "call_client E i event d =
     (if model_execstate d ! i = MODEL_STATE_RUNNING \<and> recognition_callbacks d ! i \<noteq> NULL then
        (let d = d\<lparr>recog_cbstate := RECOG_CB_CALLED\<rparr>;
             d = emit (recognition_callback i (recognition_callbacks d ! i) event (recognition_cookies d ! i)) d;
             d = fold stop_in_callback (during_callback E (calls d)) d
         in d\<lparr>recognition_callbacks := (recognition_callbacks d)[i := NULL]\<rparr>)
      else d)"

definition wants_capture :: "nat \<Rightarrow> stdev \<Rightarrow> bool" where
  "wants_capture i d = (model_execstate d ! i = MODEL_STATE_RUNNING \<and>
     (case configs d ! i of None \<Rightarrow> False | Some c \<Rightarrow> capture_requested c))"

text \<open>What the thread does for one wake-up word; the result \<open>True\<close> is the jump to \<open>exit\<close>.\<close>

definition trigger_event :: "st_env \<Rightarrow> nat \<Rightarrow> stdev \<Rightarrow> bool \<times> stdev" where
  "trigger_event E i d =
     (let (event, d) = (if has_bit (is_generic d) i then sound_trigger_generic_event_alloc E i d
                        else sound_trigger_event_alloc E i d) in
      case event of
        None \<Rightarrow> (True, d)
      | Some event \<Rightarrow>
          (let d = call_client E i event d in
           if wants_capture i d then (True, d\<lparr>is_streaming := push_bit i 1\<rparr>)
           else (let d = (if stop_failed d \<or> model_execstate d ! i = MODEL_STATE_STOPABORT then
                            (let d = handle_stop_recognition_l E d
                             in d\<lparr>model_execstate := (model_execstate d)[i := MODEL_STATE_NONE]\<rparr>)
                          else d);
                     active_bitmask = stdev_active_callback_bitmask d
                 in if active_bitmask \<noteq> 0 then (False, stdev_vts_set_power E active_bitmask (stdev_vts_set_power E 0 d))
                    else (True, d))))"

text \<open>The strings of a message end in NUL; the loop goes from one to the next.\<close>

function uevent_scan :: "st_env \<Rightarrow> string \<Rightarrow> stdev \<Rightarrow> bool \<times> stdev" where
  "uevent_scan E msg d =
     (if msg = [] then (False, d)
      else let s = takeWhile (\<lambda>c. c \<noteq> CHR 0x00) msg; rest = drop (length s + 1) msg in
        if strstr s ''VOICE_WAKEUP_WORD_ID=1'' \<or> strstr s ''VOICE_WAKEUP_WORD_ID=LPSD'' \<or> strstr s ''VOICE_WAKEUP_WORD_ID=2'' then
          (let i = (if strstr s ''VOICE_WAKEUP_WORD_ID=1'' \<or> strstr s ''VOICE_WAKEUP_WORD_ID=LPSD'' then SVOICE_INDEX
                    else HOTWORD_INDEX);
               r = trigger_event E i d
           in if fst r then r else uevent_scan E rest (snd r))
        else uevent_scan E rest d)"
  by pat_completeness auto

termination uevent_scan
  by (relation "measure (\<lambda>(E, msg, d). length msg)") auto

declare uevent_scan.simps [simp del]

text \<open>
  What \<open>poll\<close> returns for the uevent socket, and the message that can then be received; no message is
  \<open>n <= 0\<close>. The other descriptor is readable when bytes wait at it.
\<close>

record wake =
  poll_err :: int
  pollin0 :: bool
  pollerr0 :: bool
  uevent_msg :: string

definition thread_exit :: "st_env \<Rightarrow> stdev \<Rightarrow> stdev" where
  "thread_exit E d =
     (let d = (if is_streaming d = 0 then stdev_vts_set_power E 0 d else d)
      in d\<lparr>callback_thread_active := False, recog_cbstate := RECOG_CB_NONE, cb_thread_of := None\<rparr>)"

text \<open>The recovery of the uevent socket; it is tried once in the life of a thread.\<close>

definition recover_socket :: "st_env \<Rightarrow> cb_thread \<Rightarrow> stdev \<Rightarrow> bool \<times> stdev" where
  "recover_socket E t d =
     (let t = t\<lparr>recoveryCnt := recoveryCnt t + 1\<rparr>; d = d\<lparr>cb_thread_of := Some t\<rparr> in
      if recoveryCnt t > 1 then (True, d)
      else (let d = emit (sys_close (fds0 t)) d;
                (s, d) = syscall E uevent_open_socket d;
                d = d\<lparr>uevent_socket := s\<rparr>
            in if s = -1 then (True, d) else (False, d\<lparr>cb_thread_of := Some (t\<lparr>fds0 := s\<rparr>)\<rparr>)))"

definition thread_round :: "st_env \<Rightarrow> wake \<Rightarrow> cb_thread \<Rightarrow> stdev \<Rightarrow> bool \<times> stdev" where
  "thread_round E w t d =
     (if poll_err w < 0 then (True, d)
      else if pollin0 w then uevent_scan E (uevent_msg w) (emit (uevent_recv (fds0 t)) d)
      else if unread1 t \<noteq> [] then (True, (emit (sys_read (fds1 t)) d)\<lparr>cb_thread_of := Some (t\<lparr>unread1 := drop 4 (unread1 t)\<rparr>)\<rparr>)
      else if pollerr0 w then recover_socket E t d
      else (False, d))"

definition callback_thread_step :: "st_env \<Rightarrow> wake \<Rightarrow> stdev \<Rightarrow> stdev" where
  "callback_thread_step E w d =
     (case cb_thread_of d of
        None \<Rightarrow> d
      | Some t \<Rightarrow>
          (let (leave, d) = thread_round E w t (d\<lparr>recog_cbstate := RECOG_CB_STARTED\<rparr>)
           in if leave then thread_exit E d else d\<lparr>recog_cbstate := RECOG_CB_NONE\<rparr>))"

definition callback_thread_loop :: "st_env \<Rightarrow> wake list \<Rightarrow> stdev \<Rightarrow> stdev" where
  "callback_thread_loop E ws d = fold (callback_thread_step E) ws d"

section \<open>Starting and joining\<close>

text \<open>
  The start of \<open>callback_thread_loop\<close> copies the sockets and clears \<open>recog_cbstate\<close>; it needs the lock
  the creator still holds, and nothing it reads changes before it runs.
\<close>

definition thread_prologue :: "stdev \<Rightarrow> stdev" where
  "thread_prologue d =
     d\<lparr>recog_cbstate := RECOG_CB_NONE,
       cb_thread_of := Some \<lparr>fds0 = uevent_socket d, fds1 = term_socket d, recoveryCnt = 0, unread1 = []\<rparr>\<rparr>"

definition start_failed :: "int \<Rightarrow> stdev \<Rightarrow> int \<times> stdev" where
  "start_failed ret d = (-ret, stdev_close_callback_thread_sockets (d\<lparr>callback_thread_active := False\<rparr>))"

definition stdev_start_callback_thread :: "st_env \<Rightarrow> stdev \<Rightarrow> int \<times> stdev" where
  "stdev_start_callback_thread E d =
     (if callback_thread_active d then (0, d)
      else
        (let d = stdev_close_callback_thread_sockets d;
             (r, d) = syscall E socketpair d
         in if r = -1 then (let (e, d) = syscall E errno d in start_failed e d)
            else
              (let (s0, d) = syscall E (socket_fd 0) d;
                   (s1, d) = syscall E (socket_fd 1) d;
                   d = d\<lparr>send_socket := s0, term_socket := s1\<rparr>;
                   (u, d) = syscall E uevent_open_socket d;
                   d = d\<lparr>uevent_socket := u\<rparr>
               in if u = -1 then (let (e, d) = syscall E errno d in start_failed e d)
                  else
                    (let d = d\<lparr>callback_thread_active := True\<rparr>;
                         (ret, d) = syscall E pthread_create d
                     in if ret \<noteq> 0 then start_failed ret d else (0, thread_prologue d)))))"

text \<open>What is written to one end of the pair of sockets waits at the other end, where the thread polls if it is its descriptor.\<close>

definition write_send_socket :: "u8 list \<Rightarrow> stdev \<Rightarrow> stdev" where
  "write_send_socket bs d = (emit (sys_write (send_socket d) bs) d)\<lparr>cb_thread_of :=
     map_option (\<lambda>t. if fds1 t = term_socket d then t\<lparr>unread1 := unread1 t @ bs\<rparr> else t) (cb_thread_of d)\<rparr>"

text \<open>
  Joining: the thread handles the wake-ups \<open>ws\<close>; then no further uevent comes, and \<open>poll\<close> can return only
  for the other socket. Without a byte there this last round changes nothing and the thread is still
  running, which stands for a join that does not return.
\<close>

definition no_uevent :: wake where
  "no_uevent = \<lparr>poll_err = 1, pollin0 = False, pollerr0 = False, uevent_msg = []\<rparr>"

definition stdev_join_callback_thread :: "st_env \<Rightarrow> wake list \<Rightarrow> bool \<Rightarrow> stdev \<Rightarrow> stdev" where
  "stdev_join_callback_thread E ws keep_vts_powered d =
     (let d = (if callback_thread_active d then
                 (let d = write_send_socket [84] d;
                      d = callback_thread_loop E (ws @ [no_uevent]) d
                  in emit pthread_join d)
               else d);
          d = (if \<not> keep_vts_powered then stdev_vts_set_power E 0 d else d)
      in stdev_close_callback_thread_sockets d)"

definition stdev_close_mixer :: "st_env \<Rightarrow> wake list \<Rightarrow> stdev \<Rightarrow> stdev" where
  "stdev_close_mixer E ws d =
     (let d = stdev_vts_set_power E 0 d; d = stdev_join_callback_thread E ws False d
      in emit (mixer_close (mixer d)) d)"

section \<open>The invariant\<close>

text \<open>
  The arrays have one entry per model; once the device is open a handle is the index of its
  model or free; the masks name the two models; a thread runs exactly while
  \<open>callback_thread_active\<close> is set, only on an open device, and polls the term socket; the seamless recording and its pcm
  node exist only while the VTS streams; and the pcm nodes are used correctly.
\<close>

definition shape_ok :: "stdev \<Rightarrow> bool" where
  "shape_ok d \<longleftrightarrow> length (model_handles d) = 2 \<and> length (recognition_callbacks d) = 2 \<and>
     length (recognition_cookies d) = 2 \<and> length (sound_model_callbacks d) = 2 \<and> length (sound_model_cookies d) = 2 \<and>
     length (configs d) = 2 \<and> length (model_execstate d) = 2 \<and> length (model_stopfailedhandles d) = 2"

definition handles_ok :: "stdev \<Rightarrow> bool" where
  "handles_ok d \<longleftrightarrow> (sthal_opened d \<longrightarrow> (\<forall>i < 2. model_handles d ! i \<in> {-1, int i} \<and>
     model_stopfailedhandles d ! i \<in> {HANDLE_NONE, int i}))"

definition masks_ok :: "stdev \<Rightarrow> bool" where
  "masks_ok d \<longleftrightarrow> is_streaming d \<in> {0, 1, 2} \<and> recognize_started d \<in> {0..3}"

definition thread_ok :: "stdev \<Rightarrow> bool" where
  "thread_ok d \<longleftrightarrow> (callback_thread_active d \<longleftrightarrow> cb_thread_of d \<noteq> None) \<and> (callback_thread_active d \<longrightarrow> sthal_opened d) \<and>
     (\<forall>t. cb_thread_of d = Some t \<longrightarrow> fds1 t = term_socket d)"

definition stream_ok :: "stdev \<Rightarrow> bool" where
  "stream_ok d \<longleftrightarrow> (is_seamless_recording d \<or> streaming_pcm d \<noteq> NULL \<longrightarrow> is_streaming d \<noteq> 0)"

definition st_ok :: "st_env \<Rightarrow> stdev \<Rightarrow> bool" where
  "st_ok E d \<longleftrightarrow> shape_ok d \<and> handles_ok d \<and> masks_ok d \<and> thread_ok d \<and> stream_ok d \<and> pcms_ok E d"

lemmas st_ok_parts = shape_ok_def handles_ok_def masks_ok_def thread_ok_def stream_ok_def

lemma pcms_ok_cong:
  "calls d' = calls d \<Longrightarrow> streaming_pcm d' = streaming_pcm d \<Longrightarrow> recording_pcm d' = recording_pcm d \<Longrightarrow>
   pcms_ok E d' = pcms_ok E d"
  by (simp add: pcms_ok_def)

lemma pcms_ok_quiet [simp]: "quiet c \<Longrightarrow> pcms_ok E (d\<lparr>calls := c # cs\<rparr>) = pcms_ok E (d\<lparr>calls := cs\<rparr>)"
  by (simp add: pcms_ok_def quiet_pcms)

lemma set_power_ok: "st_ok E d \<Longrightarrow> st_ok E (stdev_vts_set_power E a d)"
  by (simp add: st_ok_def st_ok_parts set_power_pcms_ok set_power_range del: atLeastAtMost_iff)

text \<open>
  The microphone is in use only for somebody: while a recording runs, a client waits, or the VTS
  streams; and a started model has its microphone.
\<close>

definition has_client :: "stdev \<Rightarrow> bool" where
  "has_client d \<longleftrightarrow> (\<exists>i < 2. recognition_callbacks d ! i \<noteq> NULL)"

definition mic_inv :: "stdev \<Rightarrow> bool" where
  "mic_inv d \<longleftrightarrow>
     (recognize_started d \<noteq> 0 \<longrightarrow> is_mic_configured d \<and> mixer d \<noteq> NULL \<and> sthal_opened d \<and> (has_client d \<or> is_streaming d \<noteq> 0)) \<and>
     (is_mic_configured d \<longrightarrow> is_recording d \<or> has_client d \<or> is_streaming d \<noteq> 0)"

lemma has_client_iff: "has_client d \<longleftrightarrow> stdev_active_callback_bitmask d \<noteq> 0"
  by (auto simp: has_client_def less_2_cases_iff)

lemma bitmask_range: "stdev_active_callback_bitmask d \<noteq> 0 \<Longrightarrow> stdev_active_callback_bitmask d \<in> {1..3}"
  by (simp add: active_callback_bitmask_eq split: if_splits)

text \<open>Powering down leaves no model started and the microphone only to a recording.\<close>

lemma vts_power_off_idle:
  assumes "recognize_started d = 0"
  shows "recognize_started (vts_power E 0 d) = 0"
    "is_mic_configured (vts_power E 0 d) \<longleftrightarrow> is_mic_configured d \<and> is_recording d"
  using assms by (simp_all add: vts_power_def stop_hotword_def stop_svoice_def stdev_vts_set_mic_def vts_unfold)

lemma power_off_flags:
  assumes "mixer_healthy E" "recognize_started d \<in> {0..3}" "recognize_started d \<noteq> 0 \<longrightarrow> mixer d \<noteq> NULL"
  shows "recognize_started (stdev_vts_set_power E 0 d) = 0"
    "is_mic_configured (stdev_vts_set_power E 0 d) \<longleftrightarrow> is_mic_configured d \<and> is_recording d"
proof -
  have "recognize_started (vts_power E 0 (end_streaming d)) = 0 \<and>
     (is_mic_configured (vts_power E 0 (end_streaming d)) \<longleftrightarrow> is_mic_configured d \<and> is_recording d)"
  proof (cases "recognize_started d = 0")
    case True
    then show ?thesis by (simp add: vts_power_off_idle)
  next
    case False
    then have "mixer (end_streaming d) \<noteq> NULL" "recognize_started (end_streaming d) \<in> {0..3}"
      using assms by simp_all
    from vts_power_off [OF assms(1) this] show ?thesis by simp
  qed
  then show "recognize_started (stdev_vts_set_power E 0 d) = 0"
    "is_mic_configured (stdev_vts_set_power E 0 d) \<longleftrightarrow> is_mic_configured d \<and> is_recording d"
    by (simp_all add: set_power_eq)
qed

text \<open>Powering up always switches the microphone on; a model is started only through an open mixer.\<close>

lemma mic_on_flag [simp]: "is_mic_configured (stdev_vts_set_mic E True d)"
  by (simp add: stdev_vts_set_mic_def vts_unfold)

lemma start_keep_mic [simp]:
  "is_mic_configured (snd (start_hotword E a d)) = is_mic_configured d"
  "is_mic_configured (start_svoice E a d) = is_mic_configured d"
  by (simp_all add: start_hotword_def start_svoice_def vts_unfold)

lemma start_without_mixer:
  "mixer d = NULL \<Longrightarrow> recognize_started (snd (start_hotword E a d)) = recognize_started d"
  "mixer d = NULL \<Longrightarrow> recognize_started (start_svoice E a d) = recognize_started d"
  by (simp_all add: start_hotword_def start_svoice_def set_mixer_ctrls_def)

lemma power_on_mic: "a \<noteq> 0 \<Longrightarrow> is_mic_configured (stdev_vts_set_power E a d)"
  by (simp add: set_power_eq vts_power_def Let_def)

lemma power_on_without_mixer:
  "a \<noteq> 0 \<Longrightarrow> mixer d = NULL \<Longrightarrow> recognize_started (stdev_vts_set_power E a d) = recognize_started d"
  by (simp add: set_power_eq vts_power_def Let_def start_without_mixer)

lemma has_client_power [simp]: "has_client (stdev_vts_set_power E a d) = has_client d"
  by (simp add: has_client_def)

lemma power_off_mic_inv:
  "mixer_healthy E \<Longrightarrow> recognize_started d \<in> {0..3} \<Longrightarrow> recognize_started d \<noteq> 0 \<longrightarrow> mixer d \<noteq> NULL \<Longrightarrow>
     mic_inv (stdev_vts_set_power E 0 d)"
  by (simp add: mic_inv_def power_off_flags del: atLeastAtMost_iff)

lemma power_on_mic_inv:
  "has_client d \<Longrightarrow> a \<noteq> 0 \<Longrightarrow> sthal_opened d \<Longrightarrow> recognize_started d \<noteq> 0 \<longrightarrow> mixer d \<noteq> NULL \<Longrightarrow>
     mic_inv (stdev_vts_set_power E a d)"
  by (cases "mixer d = NULL") (simp_all add: mic_inv_def power_on_mic power_on_without_mixer)

section \<open>Rounds of the thread keep the invariant\<close>

text \<open>A client is called at most once for each registration: the calls made and the call still due.\<close>

definition quota :: "nat \<Rightarrow> stdev \<Rightarrow> nat" where
  "quota i d = callback_count i (calls d) + (if recognition_callbacks d ! i \<noteq> NULL then 1 else 0)"

lemma set_power_quota [simp]: "quota i (stdev_vts_set_power E a d) = quota i d"
  by (simp add: quota_def)

text \<open>While the microphone's users change hands only this part of the invariant holds.\<close>

definition mic_weak :: "stdev \<Rightarrow> bool" where
  "mic_weak d \<longleftrightarrow> (recognize_started d \<noteq> 0 \<longrightarrow> is_mic_configured d \<and> mixer d \<noteq> NULL \<and> sthal_opened d)"

lemma mic_inv_weak: "mic_inv d \<Longrightarrow> mic_weak d"
  by (auto simp: mic_inv_def mic_weak_def)

lemma mic_weak_streaming: "mic_weak d \<Longrightarrow> is_streaming d \<noteq> 0 \<Longrightarrow> mic_inv d"
  by (auto simp: mic_inv_def mic_weak_def)

lemma power_off_weak:
  "mixer_healthy E \<Longrightarrow> st_ok E d \<Longrightarrow> mic_weak d \<Longrightarrow> mic_inv (stdev_vts_set_power E 0 d)"
  by (rule power_off_mic_inv) (auto simp: st_ok_def masks_ok_def mic_weak_def)

lemma power_cycle_weak:
  assumes "mixer_healthy E" "st_ok E d" "mic_weak d" "sthal_opened d" "stdev_active_callback_bitmask d \<noteq> 0"
  shows "mic_inv (stdev_vts_set_power E (stdev_active_callback_bitmask d) (stdev_vts_set_power E 0 d))"
proof (rule power_on_mic_inv)
  show "recognize_started (stdev_vts_set_power E 0 d) \<noteq> 0 \<longrightarrow> mixer (stdev_vts_set_power E 0 d) \<noteq> NULL"
    using power_off_weak [OF assms(1-3)] by (simp add: mic_inv_def)
qed (use assms in \<open>simp_all add: has_client_iff del: active_callback_bitmask_0\<close>)

lemma release_ok:
  "st_ok E d \<Longrightarrow>
   st_ok E (d\<lparr>configs := (configs d)[i := None], recognition_callbacks := (recognition_callbacks d)[i := NULL]\<rparr>)"
  by (simp add: st_ok_def st_ok_parts pcms_ok_def)

lemma stop_aborted_ok: "st_ok E d \<Longrightarrow> st_ok E (stop_aborted E i d)"
  by (simp add: stop_aborted_def Let_def release_ok set_power_ok)

lemma stop_aborted_fields [simp]:
  "model_handles (stop_aborted E i d) = model_handles d" "model_execstate (stop_aborted E i d) = model_execstate d"
  "model_stopfailedhandles (stop_aborted E i d) = model_stopfailedhandles d"
  "sthal_opened (stop_aborted E i d) = sthal_opened d" "callback_thread_active (stop_aborted E i d) = callback_thread_active d"
  "cb_thread_of (stop_aborted E i d) = cb_thread_of d" "is_recording (stop_aborted E i d) = is_recording d"
  "voicecall_state (stop_aborted E i d) = voicecall_state d" "recog_cbstate (stop_aborted E i d) = recog_cbstate d"
  "recording_pcm (stop_aborted E i d) = recording_pcm d" "mixer (stop_aborted E i d) = mixer d"
  "term_socket (stop_aborted E i d) = term_socket d"
  by (simp_all add: stop_aborted_def Let_def)

lemma stop_aborted_mic:
  assumes "mixer_healthy E" "st_ok E d" "mic_weak d" "sthal_opened d" "i < 2"
  shows "mic_inv (stop_aborted E i d)"
proof -
  define d1 where "d1 = (if recognition_callbacks d ! i = NULL \<and> \<not> has_bit (is_streaming d) i then d
    else d\<lparr>configs := (configs d)[i := None], recognition_callbacks := (recognition_callbacks d)[i := NULL]\<rparr>)"
  have d1: "st_ok E d1" "mic_weak d1" "sthal_opened d1" "is_streaming d1 = is_streaming d"
    using assms by (simp_all add: d1_def release_ok mic_weak_def)
  have eq: "stop_aborted E i d = (if is_streaming d = 0 \<or> has_bit (is_streaming d) i then
      (let d = stdev_vts_set_power E 0 d1; b = stdev_active_callback_bitmask d1
       in if b \<noteq> 0 then stdev_vts_set_power E b d else d) else d1)"
    by (simp add: stop_aborted_def d1_def Let_def)
  show ?thesis
  proof (cases "is_streaming d = 0 \<or> has_bit (is_streaming d) i")
    case True
    then show ?thesis
      using power_off_weak [OF assms(1) d1(1,2)] power_cycle_weak [OF assms(1) d1(1,2,3)]
      by (simp add: eq Let_def del: active_callback_bitmask_0)
  next
    case False
    then show ?thesis
      using mic_weak_streaming [OF d1(2)] d1(4) by (simp add: eq)
  qed
qed

lemma stop_aborted_quota: "shape_ok d \<Longrightarrow> i < 2 \<Longrightarrow> quota j (stop_aborted E i d) \<le> quota j d"
  by (cases "i = j") (simp_all add: stop_aborted_def Let_def, simp_all add: quota_def shape_ok_def)

text \<open>
  The contract of what the callback thread does to the device on an open device: the invariant,
  the weak microphone invariant and the quota of calls.
\<close>

definition keeps :: "st_env \<Rightarrow> stdev \<Rightarrow> stdev \<Rightarrow> bool" where
  "keeps E d d' \<longleftrightarrow> (st_ok E d \<and> sthal_opened d \<longrightarrow>
     st_ok E d' \<and> sthal_opened d' \<and> callback_thread_active d' = callback_thread_active d \<and>
     (mixer_healthy E \<and> mic_weak d \<longrightarrow> mic_weak d') \<and> (\<forall>i < 2. quota i d' \<le> quota i d))"

lemma keeps_refl [simp]: "keeps E d d"
  by (simp add: keeps_def)

lemma keeps_trans [trans]: "keeps E d1 d2 \<Longrightarrow> keeps E d2 d3 \<Longrightarrow> keeps E d1 d3"
  by (auto simp: keeps_def intro: le_trans)

lemma keeps_power_off: "keeps E d (stdev_vts_set_power E 0 d)"
  by (auto simp: keeps_def set_power_ok intro!: mic_inv_weak power_off_weak)

lemma mark_none_ok:
  "i < 2 \<Longrightarrow> st_ok E d \<Longrightarrow> st_ok E (d\<lparr>model_execstate := (model_execstate d)[i := MODEL_STATE_NONE],
     model_stopfailedhandles := (model_stopfailedhandles d)[i := HANDLE_NONE]\<rparr>)"
  unfolding st_ok_def
proof (elim conjE, intro conjI)
  assume "i < 2" "handles_ok d" "shape_ok d"
  then show "handles_ok (d\<lparr>model_execstate := (model_execstate d)[i := MODEL_STATE_NONE],
     model_stopfailedhandles := (model_stopfailedhandles d)[i := HANDLE_NONE]\<rparr>)"
    by (auto simp: handles_ok_def shape_ok_def nth_list_update)
qed (simp_all add: shape_ok_def masks_ok_def thread_ok_def stream_ok_def pcms_ok_def)

lemma keeps_stop_aborted: "i < 2 \<Longrightarrow> keeps E d (stop_aborted E i d)"
  by (simp add: keeps_def stop_aborted_ok stop_aborted_mic mic_inv_weak stop_aborted_quota st_ok_def [of E d])

lemma keeps_mark_none:
  "i < 2 \<Longrightarrow> keeps E d (d\<lparr>model_execstate := (model_execstate d)[i := MODEL_STATE_NONE],
     model_stopfailedhandles := (model_stopfailedhandles d)[i := HANDLE_NONE]\<rparr>)"
  by (simp add: keeps_def mark_none_ok) (simp add: mic_weak_def quota_def)

lemma keeps_recover_model: "i < 2 \<Longrightarrow> keeps E d (recover_model E i d)"
  using keeps_trans [OF keeps_stop_aborted keeps_mark_none, of i i E d] keeps_mark_none [of i E d]
  by (simp add: recover_model_def Let_def)

lemma keeps_handle_stop: "keeps E d (handle_stop_recognition_l E d)"
  using keeps_trans [OF keeps_recover_model keeps_recover_model, of 0 1 E d]
  by (simp add: handle_stop_recognition_l_def upt_rec)

text \<open>Stop requests during a callback change only the two arrays that record them.\<close>

definition abort_erase :: "stdev \<Rightarrow> stdev" where
  "abort_erase d = d\<lparr>model_execstate := [], model_stopfailedhandles := []\<rparr>"

lemma stop_wait_called:
  "recog_cbstate d = RECOG_CB_CALLED \<Longrightarrow> stop_wait n r h d =
     (if voicecall_state d = VOICECALL_STARTED then Return 0 d
      else if \<not> handle_matches d h then Return (-ENOSYS) d else Return (-EBUSY) (mark_stopabort h d))"
  by (simp add: stop_wait.simps)

lemma mark_stopabort_ok:
  assumes "st_ok E d" "0 \<le> h" "h < 2"
  shows "st_ok E (mark_stopabort h d)"
  using assms by (auto simp: st_ok_def st_ok_parts pcms_ok_def mark_stopabort_def nth_list_update)

lemma stop_in_callback_ok:
  assumes "st_ok E d" "recog_cbstate d = RECOG_CB_CALLED"
  shows "st_ok E (stop_in_callback h d)" "abort_erase (stop_in_callback h d) = abort_erase d"
  using assms mark_stopabort_ok [OF assms(1), of h]
  by (simp_all add: stop_in_callback_def stop_wait_called handle_matches_def abort_erase_def mark_stopabort_def)

lemma abort_erase_fields:
  assumes "abort_erase d' = abort_erase d"
  shows "recog_cbstate d' = recog_cbstate d" "recognition_callbacks d' = recognition_callbacks d"
    "calls d' = calls d" "sthal_opened d' = sthal_opened d" "callback_thread_active d' = callback_thread_active d"
    "recognize_started d' = recognize_started d" "is_mic_configured d' = is_mic_configured d" "mixer d' = mixer d"
    "model_handles d' = model_handles d" "configs d' = configs d" "is_streaming d' = is_streaming d"
    "voicecall_state d' = voicecall_state d" "cb_thread_of d' = cb_thread_of d" "term_socket d' = term_socket d"
  using assms by (cases d; cases d'; simp add: abort_erase_def)+

lemma stops_in_callback_ok:
  assumes "st_ok E d" "recog_cbstate d = RECOG_CB_CALLED"
  shows "st_ok E (fold stop_in_callback hs d) \<and> abort_erase (fold stop_in_callback hs d) = abort_erase d"
  using assms
proof (induction hs arbitrary: d)
  case (Cons h hs)
  note step = stop_in_callback_ok [OF Cons.prems, of h]
  have "recog_cbstate (stop_in_callback h d) = RECOG_CB_CALLED"
    using abort_erase_fields(1) [OF step(2)] Cons.prems(2) by simp
  from Cons.IH [OF step(1) this] step(2) show ?case by simp
qed simp

lemma keeps_call_client:
  assumes "i < 2"
  shows "keeps E d (call_client E i event d)"
proof (cases "model_execstate d ! i = MODEL_STATE_RUNNING \<and> recognition_callbacks d ! i \<noteq> NULL")
  case True
  define d1 where "d1 = emit (recognition_callback i (recognition_callbacks d ! i) event (recognition_cookies d ! i))
    (d\<lparr>recog_cbstate := RECOG_CB_CALLED\<rparr>)"
  define d2 where "d2 = fold stop_in_callback (during_callback E (calls d1)) d1"
  have eq: "call_client E i event d = d2\<lparr>recognition_callbacks := (recognition_callbacks d2)[i := NULL]\<rparr>"
    using True by (simp add: call_client_def d1_def d2_def Let_def log_calls_def)
  show ?thesis
    unfolding keeps_def eq
  proof
    assume d: "st_ok E d \<and> sthal_opened d"
    have d1: "st_ok E d1" "recog_cbstate d1 = RECOG_CB_CALLED"
      using d by (auto simp: d1_def st_ok_def st_ok_parts pcms_ok_def log_calls_def)
    have d2: "st_ok E d2" "abort_erase d2 = abort_erase d1"
      using stops_in_callback_ok [OF d1] by (simp_all add: d2_def)
    note f = abort_erase_fields [OF d2(2)]
    have "st_ok E (d2\<lparr>recognition_callbacks := (recognition_callbacks d2)[i := NULL]\<rparr>)"
      using d2(1) by (simp add: st_ok_def st_ok_parts pcms_ok_def)
    moreover have "quota j (d2\<lparr>recognition_callbacks := (recognition_callbacks d2)[i := NULL]\<rparr>) \<le> quota j d" if "j < 2" for j
      using True d that assms
      by (auto simp: quota_def f d1_def log_calls_def callback_count_Cons st_ok_def shape_ok_def nth_list_update)
    ultimately show "st_ok E (d2\<lparr>recognition_callbacks := (recognition_callbacks d2)[i := NULL]\<rparr>) \<and>
      sthal_opened (d2\<lparr>recognition_callbacks := (recognition_callbacks d2)[i := NULL]\<rparr>) \<and>
      callback_thread_active (d2\<lparr>recognition_callbacks := (recognition_callbacks d2)[i := NULL]\<rparr>) = callback_thread_active d \<and>
      (mixer_healthy E \<and> mic_weak d \<longrightarrow> mic_weak (d2\<lparr>recognition_callbacks := (recognition_callbacks d2)[i := NULL]\<rparr>)) \<and>
      (\<forall>j < 2. quota j (d2\<lparr>recognition_callbacks := (recognition_callbacks d2)[i := NULL]\<rparr>) \<le> quota j d)"
      using d by (simp add: f d1_def log_calls_def mic_weak_def)
  qed
next
  case False
  then show ?thesis unfolding call_client_def by (simp only: if_False keeps_refl)
qed

lemma keeps_quiet_call: "quiet c \<Longrightarrow> keeps E d (d\<lparr>calls := c # calls d\<rparr>)"
  using quiet_ext_callbacks [OF quiet_ext_Cons, of c "calls d" "calls d"]
  by (simp add: keeps_def st_ok_def st_ok_parts mic_weak_def quota_def)

lemma keeps_power_cycle:
  "stdev_active_callback_bitmask d \<noteq> 0 \<Longrightarrow>
   keeps E d (stdev_vts_set_power E (stdev_active_callback_bitmask d) (stdev_vts_set_power E 0 d))"
  by (auto simp: keeps_def set_power_ok intro!: mic_inv_weak power_cycle_weak simp del: active_callback_bitmask_0)

lemma keeps_streaming: "i < 2 \<Longrightarrow> keeps E d (d\<lparr>is_streaming := 2 ^ i\<rparr>)"
  by (drule less_2_cases) (elim disjE; simp add: keeps_def st_ok_def st_ok_parts pcms_ok_def mic_weak_def quota_def)

lemma keeps_execstate: "keeps E d (d\<lparr>model_execstate := (model_execstate d)[i := s]\<rparr>)"
  by (simp add: keeps_def st_ok_def st_ok_parts pcms_ok_def mic_weak_def quota_def)

lemma keeps_alloc:
  "keeps E d (snd (sound_trigger_event_alloc E i d))" "keeps E d (snd (sound_trigger_generic_event_alloc E i d))"
  by (simp_all add: sound_trigger_event_alloc_def sound_trigger_generic_event_alloc_def syscall_def keeps_quiet_call Let_def)

text \<open>What the thread does after the client was told.\<close>

definition after_client :: "st_env \<Rightarrow> nat \<Rightarrow> stdev \<Rightarrow> stdev" where
  "after_client E i d =
     (if stop_failed d \<or> model_execstate d ! i = MODEL_STATE_STOPABORT then
        (let d = handle_stop_recognition_l E d in d\<lparr>model_execstate := (model_execstate d)[i := MODEL_STATE_NONE]\<rparr>)
      else d)"

lemma keeps_after_client: "keeps E d (after_client E i d)"
  using keeps_trans [OF keeps_handle_stop keeps_execstate, of E d i MODEL_STATE_NONE]
  by (simp add: after_client_def Let_def)

lemma trigger_event_eq:
  "trigger_event E i d =
     (let r = (if has_bit (is_generic d) i then sound_trigger_generic_event_alloc E i d else sound_trigger_event_alloc E i d)
      in case fst r of None \<Rightarrow> (True, snd r)
         | Some event \<Rightarrow>
             (let d = call_client E i event (snd r); d' = after_client E i d; b = stdev_active_callback_bitmask d' in
              if wants_capture i d then (True, d\<lparr>is_streaming := push_bit i 1\<rparr>)
              else if b \<noteq> 0 then (False, stdev_vts_set_power E b (stdev_vts_set_power E 0 d'))
              else (True, d')))"
  unfolding trigger_event_def after_client_def Let_def case_prod_unfold by (simp only:)

lemma keeps_trigger_event:
  assumes "i < 2"
  shows "keeps E d (snd (trigger_event E i d))"
proof -
  define r where "r = (if has_bit (is_generic d) i then sound_trigger_generic_event_alloc E i d
    else sound_trigger_event_alloc E i d)"
  have r: "keeps E d (snd r)" by (simp add: r_def keeps_alloc)
  have c: "keeps E d (call_client E i event (snd r))" for event
    by (rule keeps_trans [OF r keeps_call_client [OF assms]])
  have a: "keeps E d (after_client E i (call_client E i event (snd r)))" for event
    by (rule keeps_trans [OF c keeps_after_client])
  show ?thesis
    unfolding trigger_event_eq Let_def
    unfolding r_def [symmetric]
    by (auto split: option.split simp del: active_callback_bitmask_0
        intro: r a keeps_trans [OF c keeps_streaming [OF assms]] keeps_trans [OF a keeps_power_cycle])
qed

lemma trigger_event_goes_on:
  assumes "i < 2" "mixer_healthy E" "st_ok E d" "sthal_opened d" "mic_weak d" "\<not> fst (trigger_event E i d)"
  shows "mic_inv (snd (trigger_event E i d))"
proof -
  define r where "r = (if has_bit (is_generic d) i then sound_trigger_generic_event_alloc E i d
    else sound_trigger_event_alloc E i d)"
  have "keeps E d (after_client E i (call_client E i event (snd r)))" for event
    by (rule keeps_trans [OF keeps_trans [OF _ keeps_call_client [OF assms(1)]] keeps_after_client])
      (simp add: r_def keeps_alloc)
  then have "mic_inv (stdev_vts_set_power E (stdev_active_callback_bitmask d') (stdev_vts_set_power E 0 d'))"
    if "d' = after_client E i (call_client E i event (snd r))" "stdev_active_callback_bitmask d' \<noteq> 0" for event d'
    using that assms by (intro power_cycle_weak) (auto simp: keeps_def)
  then show ?thesis
    using assms(6) unfolding trigger_event_eq Let_def
    unfolding r_def [symmetric]
    by (auto split: option.splits if_splits simp del: active_callback_bitmask_0)
qed

text \<open>The model a string of a message announces.\<close>

definition wakeup_model :: "string \<Rightarrow> nat option" where
  "wakeup_model s =
     (if strstr s ''VOICE_WAKEUP_WORD_ID=1'' \<or> strstr s ''VOICE_WAKEUP_WORD_ID=LPSD'' then Some SVOICE_INDEX
      else if strstr s ''VOICE_WAKEUP_WORD_ID=2'' then Some HOTWORD_INDEX else None)"

lemma wakeup_model_less: "wakeup_model s = Some i \<Longrightarrow> i < 2"
  by (auto simp: wakeup_model_def split: if_splits)

lemma uevent_scan_step:
  "uevent_scan E msg d =
     (if msg = [] then (False, d)
      else let s = takeWhile (\<lambda>c. c \<noteq> CHR 0x00) msg; rest = drop (length s + 1) msg in
        case wakeup_model s of None \<Rightarrow> uevent_scan E rest d
        | Some i \<Rightarrow> if fst (trigger_event E i d) then trigger_event E i d else uevent_scan E rest (snd (trigger_event E i d)))"
proof -
  define s where "s = takeWhile (\<lambda>c. c \<noteq> CHR 0x00) msg"
  show ?thesis
    by (subst uevent_scan.simps)
      (cases "strstr s ''VOICE_WAKEUP_WORD_ID=1'' \<or> strstr s ''VOICE_WAKEUP_WORD_ID=LPSD''";
        cases "strstr s ''VOICE_WAKEUP_WORD_ID=2''"; simp add: Let_def wakeup_model_def flip: s_def)
qed

lemma uevent_scan_induct [case_names empty other event]:
  assumes "\<And>d. P [] d"
    and "\<And>msg d rest. msg \<noteq> [] \<Longrightarrow> wakeup_model (takeWhile (\<lambda>c. c \<noteq> CHR 0x00) msg) = None \<Longrightarrow>
      rest = drop (length (takeWhile (\<lambda>c. c \<noteq> CHR 0x00) msg) + 1) msg \<Longrightarrow> P rest d \<Longrightarrow> P msg d"
    and "\<And>msg d rest i. msg \<noteq> [] \<Longrightarrow> wakeup_model (takeWhile (\<lambda>c. c \<noteq> CHR 0x00) msg) = Some i \<Longrightarrow>
      rest = drop (length (takeWhile (\<lambda>c. c \<noteq> CHR 0x00) msg) + 1) msg \<Longrightarrow> P rest (snd (trigger_event E i d)) \<Longrightarrow> P msg d"
  shows "P msg d"
proof (induction "length msg" arbitrary: msg d rule: less_induct)
  case less
  let ?s = "takeWhile (\<lambda>c. c \<noteq> CHR 0x00) msg"
  show ?case
  proof (cases "msg = []")
    case False
    then have shorter: "length (drop (length ?s + 1) msg) < length msg" by simp
    show ?thesis
      by (cases "wakeup_model ?s") (use assms(2,3) [OF False _ refl] less [OF shorter] in blast)+
  qed (simp add: assms(1))
qed

lemma keeps_uevent_scan: "keeps E d (snd (uevent_scan E msg d))"
proof (induction msg d rule: uevent_scan_induct [where E = E])
  case (event msg d rest i)
  then show ?case
    using keeps_trigger_event [OF wakeup_model_less, of _ i E d]
    by (subst uevent_scan_step) (auto simp: Let_def intro: keeps_trans)
qed (simp_all add: uevent_scan_step [of _ "[]"], subst uevent_scan_step, simp add: Let_def)

lemma uevent_scan_goes_on:
  assumes "mixer_healthy E"
  shows "st_ok E d \<Longrightarrow> sthal_opened d \<Longrightarrow> mic_inv d \<Longrightarrow> \<not> fst (uevent_scan E msg d) \<Longrightarrow> mic_inv (snd (uevent_scan E msg d))"
proof (induction msg d rule: uevent_scan_induct [where E = E])
  case (event msg d rest i)
  have i: "i < 2" using event.hyps(2) by (rule wakeup_model_less)
  have k: "keeps E d (snd (trigger_event E i d))" by (rule keeps_trigger_event [OF i])
  have scan: "uevent_scan E msg d =
    (if fst (trigger_event E i d) then trigger_event E i d else uevent_scan E rest (snd (trigger_event E i d)))"
    using event.hyps by (subst uevent_scan_step) (simp add: Let_def)
  with event.prems(4) have go: "\<not> fst (trigger_event E i d)" by (auto split: if_splits)
  have "mic_inv (snd (trigger_event E i d))"
    by (rule trigger_event_goes_on [OF i assms event.prems(1,2) mic_inv_weak [OF event.prems(3)] go])
  with event.IH k event.prems(1,2,4) go show ?case by (simp add: scan keeps_def)
next
  case (other msg d rest)
  then show ?case by (subst uevent_scan_step, subst (asm) uevent_scan_step) (simp add: Let_def)
qed (simp add: uevent_scan_step [of _ "[]"])

section \<open>The contract of a device operation\<close>

text \<open>
  What the environment promises: a pcm node that is opened is none of those already open, and,
  for the microphone invariant, a node that was opened is ready.
\<close>

definition pcm_fresh :: "st_env \<Rightarrow> bool" where
  "pcm_fresh E \<longleftrightarrow> (\<forall>cs a b. sys E cs (pcm_open a b) \<notin> live_pcms E cs)"

definition pcm_ready :: "st_env \<Rightarrow> bool" where
  "pcm_ready E \<longleftrightarrow> (\<forall>cs p. sys E cs (pcm_is_ready p) \<noteq> 0)"

text \<open>
  The interface every operation of the HAL has towards its callers: it keeps the invariant and,
  in a healthy environment, the microphone invariant.
\<close>

locale device_op =
  fixes E :: st_env and pre :: "stdev \<Rightarrow> bool" and op :: "stdev \<Rightarrow> stdev"
  assumes ok: "pcm_fresh E \<Longrightarrow> st_ok E d \<Longrightarrow> pre d \<Longrightarrow> st_ok E (op d)"
    and mic: "pcm_fresh E \<Longrightarrow> mixer_healthy E \<Longrightarrow> pcm_ready E \<Longrightarrow> st_ok E d \<Longrightarrow> pre d \<Longrightarrow> mic_inv d \<Longrightarrow> mic_inv (op d)"

text \<open>An operation that registers no client uses up the calls that are due.\<close>

locale client_op = device_op +
  assumes quota: "pcm_fresh E \<Longrightarrow> st_ok E d \<Longrightarrow> pre d \<Longrightarrow> i < 2 \<Longrightarrow> quota i (op d) \<le> quota i d"
begin

lemma quota_chain: "pcm_fresh E \<Longrightarrow> st_ok E d \<Longrightarrow> pre d \<Longrightarrow> i < 2 \<Longrightarrow> quota i d \<le> n \<Longrightarrow> quota i (op d) \<le> n"
  by (rule le_trans [OF quota])

end

text \<open>Operations that only change what none of the invariants reads.\<close>

definition neutral :: "stdev \<Rightarrow> stdev \<Rightarrow> bool" where
  "neutral d d' \<longleftrightarrow> model_handles d' = model_handles d \<and> recognition_callbacks d' = recognition_callbacks d \<and>
     length (recognition_cookies d') = length (recognition_cookies d) \<and>
     length (sound_model_callbacks d') = length (sound_model_callbacks d) \<and>
     length (sound_model_cookies d') = length (sound_model_cookies d) \<and> length (configs d') = length (configs d) \<and>
     length (model_execstate d') = length (model_execstate d) \<and> model_stopfailedhandles d' = model_stopfailedhandles d \<and>
     sthal_opened d' = sthal_opened d \<and> is_streaming d' = is_streaming d \<and> recognize_started d' = recognize_started d \<and>
     callback_thread_active d' = callback_thread_active d \<and> (cb_thread_of d' = None \<longleftrightarrow> cb_thread_of d = None) \<and>
     ((\<forall>t. cb_thread_of d' = Some t \<longrightarrow> fds1 t = term_socket d') \<longleftrightarrow> (\<forall>t. cb_thread_of d = Some t \<longrightarrow> fds1 t = term_socket d)) \<and>
     is_seamless_recording d' = is_seamless_recording d \<and> streaming_pcm d' = streaming_pcm d \<and>
     recording_pcm d' = recording_pcm d \<and> is_mic_configured d' = is_mic_configured d \<and> mixer d' = mixer d \<and>
     is_recording d' = is_recording d \<and> quiet_ext (calls d) (calls d')"

lemma neutral_refl [simp]: "neutral d d"
  by (simp add: neutral_def)

lemma neutral_trans [trans]: "neutral d1 d2 \<Longrightarrow> neutral d2 d3 \<Longrightarrow> neutral d1 d3"
  by (auto simp: neutral_def intro: quiet_ext_trans)

lemma neutral_st_ok: "neutral d d' \<Longrightarrow> st_ok E d' = st_ok E d"
  unfolding neutral_def
  by (elim conjE, frule quiet_ext_pcms(1) [of _ _ E], drule quiet_ext_pcms(2) [of _ _ E])
    (simp add: st_ok_def st_ok_parts pcms_ok_def)

lemma neutral_mic_inv: "neutral d d' \<Longrightarrow> mic_inv d' = mic_inv d"
  by (simp add: neutral_def mic_inv_def has_client_def)

lemma neutral_quota: "neutral d d' \<Longrightarrow> quota i d' = quota i d"
  unfolding neutral_def by (elim conjE, drule quiet_ext_callbacks [of _ _ i]) (simp add: quota_def)

lemma neutral_emit [simp]: "quiet c \<Longrightarrow> neutral d d' \<Longrightarrow> neutral d (emit c d')"
  by (auto simp: neutral_def log_calls_def intro: quiet_ext_Cons)

lemma neutral_syscall [simp]: "quiet c \<Longrightarrow> neutral d d' \<Longrightarrow> neutral d (snd (syscall E c d'))"
  by (auto simp: neutral_def syscall_def intro: quiet_ext_Cons)

lemma client_op_neutral:
  assumes "\<And>d. neutral d (op d)"
  shows "client_op E pre op"
  by unfold_locales (simp_all add: neutral_st_ok [OF assms] neutral_mic_inv [OF assms] neutral_quota [OF assms])


lemma neutral_keeps: "neutral d d' \<Longrightarrow> keeps E d d'"
  using neutral_st_ok [of d d' E] neutral_quota [of d d'] by (simp add: keeps_def) (simp add: neutral_def mic_weak_def)

lemma neutral_cbstate [simp]: "neutral d (d'\<lparr>recog_cbstate := s\<rparr>) = neutral d d'"
  by (simp add: neutral_def)

lemma neutral_recover_socket: "cb_thread_of d = Some t \<Longrightarrow> neutral d (snd (recover_socket E t d))"
  by (simp add: recover_socket_def neutral_def Let_def case_prod_unfold syscall_def log_calls_def quiet_ext_Cons)

lemma neutral_read_term:
  "cb_thread_of d = Some t \<Longrightarrow> neutral d ((emit (sys_read (fds1 t)) d)\<lparr>cb_thread_of := Some (t\<lparr>unread1 := drop 4 (unread1 t)\<rparr>)\<rparr>)"
  by (simp add: neutral_def log_calls_def quiet_ext_Cons)

lemma neutral_write_send [simp]: "neutral d (write_send_socket bs d)"
  by (auto simp: write_send_socket_def neutral_def log_calls_def quiet_ext_Cons)

lemma thread_exit_ok: "st_ok E d \<Longrightarrow> st_ok E (thread_exit E d)"
  using set_power_ok [of E d 0] by (auto simp: thread_exit_def Let_def st_ok_def st_ok_parts pcms_ok_def)

lemma thread_exit_mic:
  assumes "mixer_healthy E" "st_ok E d" "mic_weak d"
  shows "mic_inv (thread_exit E d)"
  using power_off_weak [OF assms] mic_weak_streaming [OF assms(3)]
  by (auto simp: thread_exit_def Let_def mic_inv_def has_client_def)

lemma thread_exit_quota [simp]: "quota i (thread_exit E d) = quota i d"
  using set_power_quota [of i E 0 d] by (simp add: thread_exit_def Let_def quota_def)

lemma thread_exit_fields [simp]:
  "sthal_opened (thread_exit E d) = sthal_opened d" "\<not> callback_thread_active (thread_exit E d)"
  "cb_thread_of (thread_exit E d) = None"
  by (simp_all add: thread_exit_def Let_def)

lemma thread_round_keeps:
  assumes "cb_thread_of d = Some t"
  shows "keeps E d (snd (thread_round E w t d))"
  using keeps_trans [OF neutral_keeps keeps_uevent_scan, of d "emit (uevent_recv (fds0 t)) d" E "uevent_msg w"]
    neutral_keeps [OF neutral_read_term [OF assms], of E] neutral_keeps [OF neutral_recover_socket [OF assms], of E E]
  by (simp add: thread_round_def del: log_calls_simps)

lemma thread_round_goes_on:
  assumes "mixer_healthy E" "st_ok E d" "sthal_opened d" "mic_inv d" "cb_thread_of d = Some t"
    and "\<not> fst (thread_round E w t d)"
  shows "mic_inv (snd (thread_round E w t d))"
proof -
  have n: "neutral d (emit (uevent_recv (fds0 t)) d)" by (simp del: log_calls_simps)
  have "sthal_opened (emit (uevent_recv (fds0 t)) d)" using assms(3) by (simp add: log_calls_def)
  then show ?thesis
    using uevent_scan_goes_on [OF assms(1), of "emit (uevent_recv (fds0 t)) d" "uevent_msg w"] assms
      neutral_st_ok [OF n, of E] neutral_mic_inv [OF n] neutral_mic_inv [OF neutral_recover_socket [OF assms(5)], of E]
    by (simp add: thread_round_def split: if_splits del: log_calls_simps)
qed

interpretation thread_step: client_op E "\<lambda>_. True" "callback_thread_step E w" for E w
proof -
  have *: "(st_ok E d \<longrightarrow> st_ok E (callback_thread_step E w d)) \<and>
     (mixer_healthy E \<and> st_ok E d \<and> mic_inv d \<longrightarrow> mic_inv (callback_thread_step E w d)) \<and>
     (st_ok E d \<and> i < 2 \<longrightarrow> quota i (callback_thread_step E w d) \<le> quota i d)" for d i
  proof (cases "cb_thread_of d")
    case (Some t)
    define d0 where "d0 = d\<lparr>recog_cbstate := RECOG_CB_STARTED\<rparr>"
    define r where "r = thread_round E w t d0"
    have n: "neutral d d0" by (simp add: d0_def)
    have step: "callback_thread_step E w d = (if fst r then thread_exit E (snd r) else (snd r)\<lparr>recog_cbstate := RECOG_CB_NONE\<rparr>)"
      using Some by (simp add: callback_thread_step_def r_def d0_def case_prod_unfold)
    have n': "neutral (snd r) ((snd r)\<lparr>recog_cbstate := RECOG_CB_NONE\<rparr>)" by simp
    have open_dev: "st_ok E d \<Longrightarrow> sthal_opened d0" using Some by (auto simp: st_ok_def thread_ok_def d0_def)
    have k: "keeps E d0 (snd r)" unfolding r_def by (rule thread_round_keeps) (simp add: d0_def Some)
    have g: "mixer_healthy E \<Longrightarrow> st_ok E d0 \<Longrightarrow> sthal_opened d0 \<Longrightarrow> mic_inv d0 \<Longrightarrow> \<not> fst r \<Longrightarrow> mic_inv (snd r)"
      unfolding r_def by (rule thread_round_goes_on) (simp_all add: d0_def Some)
    show ?thesis
      using k g open_dev neutral_st_ok [OF n, of E] neutral_mic_inv [OF n] neutral_quota [OF n, of i]
        neutral_st_ok [OF n', of E] neutral_mic_inv [OF n'] neutral_quota [OF n', of i]
      by (auto simp: step keeps_def thread_exit_ok intro!: thread_exit_mic dest: mic_inv_weak)
  qed (simp add: callback_thread_step_def)
  show "client_op E (\<lambda>_. True) (callback_thread_step E w)"
    by unfold_locales (use * in blast)+
qed

interpretation thread_loop: client_op E "\<lambda>_. True" "callback_thread_loop E ws" for E ws
proof
  show "pcm_fresh E \<Longrightarrow> st_ok E d \<Longrightarrow> True \<Longrightarrow> st_ok E (callback_thread_loop E ws d)" for d
    by (induction ws arbitrary: d) (simp_all add: callback_thread_loop_def thread_step.ok)
  show "pcm_fresh E \<Longrightarrow> mixer_healthy E \<Longrightarrow> pcm_ready E \<Longrightarrow> st_ok E d \<Longrightarrow> True \<Longrightarrow> mic_inv d \<Longrightarrow>
      mic_inv (callback_thread_loop E ws d)" for d
    by (induction ws arbitrary: d) (simp_all add: callback_thread_loop_def thread_step.ok thread_step.mic)
  show "pcm_fresh E \<Longrightarrow> st_ok E d \<Longrightarrow> True \<Longrightarrow> i < 2 \<Longrightarrow> quota i (callback_thread_loop E ws d) \<le> quota i d" for d i
  proof (induction ws arbitrary: d)
    case (Cons w ws)
    then show ?case
      using le_trans [OF Cons.IH [of "callback_thread_step E w d"] thread_step.quota [of E d i w]] thread_step.ok [of E d w]
      by (simp add: callback_thread_loop_def)
  qed (simp add: callback_thread_loop_def)
qed

text \<open>The byte that waits at the socket ends the thread, whatever came before.\<close>

lemma step_opened [simp]: "st_ok E d \<Longrightarrow> sthal_opened (callback_thread_step E w d) = sthal_opened d"
proof (cases "cb_thread_of d")
  case (Some t)
  assume ok: "st_ok E d"
  with Some have "sthal_opened d" by (auto simp: st_ok_def thread_ok_def)
  let ?d = "d\<lparr>recog_cbstate := RECOG_CB_STARTED\<rparr>"
  have "st_ok E ?d" using ok neutral_st_ok [of d ?d E] by simp
  with thread_round_keeps [of ?d t E w] \<open>sthal_opened d\<close> Some show ?thesis
    by (simp add: keeps_def callback_thread_step_def case_prod_unfold Let_def)
qed (simp add: callback_thread_step_def)

lemma loop_opened [simp]: "pcm_fresh E \<Longrightarrow> st_ok E d \<Longrightarrow> sthal_opened (callback_thread_loop E ws d) = sthal_opened d"
  by (induction ws arbitrary: d) (simp_all add: callback_thread_loop_def thread_step.ok)

definition term_waits :: "stdev \<Rightarrow> bool" where
  "term_waits d \<longleftrightarrow> (\<forall>t. cb_thread_of d = Some t \<longrightarrow> unread1 t \<noteq> [])"

lemma write_send_waits:
  "(\<And>t. cb_thread_of d = Some t \<Longrightarrow> fds1 t = term_socket d) \<Longrightarrow> bs \<noteq> [] \<Longrightarrow> term_waits (write_send_socket bs d)"
  by (auto simp: term_waits_def write_send_socket_def dest: arg_cong [where f = unread1])

text \<open>Handling a uevent leaves the thread and its sockets alone, so the byte still waits when the thread goes on.\<close>

lemma stop_in_callback_thread [simp]: "cb_thread_of (stop_in_callback h d) = cb_thread_of d"
  by (simp add: stop_in_callback_def stop_wait.simps mark_stopabort_def split: stop_result.split)

lemma stops_in_callback_thread [simp]: "cb_thread_of (fold stop_in_callback hs d) = cb_thread_of d"
  by (induction hs arbitrary: d) simp_all

lemma handle_stop_thread [simp]: "cb_thread_of (handle_stop_recognition_l E d) = cb_thread_of d"
  by (simp add: handle_stop_recognition_l_def upt_rec recover_model_def Let_def)

lemma call_client_thread [simp]: "cb_thread_of (call_client E i event d) = cb_thread_of d"
  by (simp add: call_client_def Let_def log_calls_def)

lemma after_client_thread [simp]: "cb_thread_of (after_client E i d) = cb_thread_of d"
  by (simp add: after_client_def Let_def)

lemma event_alloc_thread [simp]:
  "cb_thread_of (snd (sound_trigger_event_alloc E i d)) = cb_thread_of d"
  "cb_thread_of (snd (sound_trigger_generic_event_alloc E i d)) = cb_thread_of d"
  by (simp_all add: sound_trigger_event_alloc_def sound_trigger_generic_event_alloc_def syscall_def Let_def)

lemma trigger_event_thread [simp]: "cb_thread_of (snd (trigger_event E i d)) = cb_thread_of d"
  unfolding trigger_event_eq Let_def by (simp del: active_callback_bitmask_0 split: option.split)

lemma uevent_scan_thread [simp]: "cb_thread_of (snd (uevent_scan E msg d)) = cb_thread_of d"
proof (induction msg d rule: uevent_scan_induct [where E = E])
  case (event msg d rest i)
  then show ?case by (subst uevent_scan_step) (simp add: Let_def)
qed (simp_all add: uevent_scan_step [of _ "[]"], subst uevent_scan_step, simp add: Let_def)

lemma step_waits: "term_waits d \<Longrightarrow> term_waits (callback_thread_step E w d)"
  by (auto simp: term_waits_def callback_thread_step_def thread_round_def case_prod_unfold Let_def log_calls_def split: option.splits if_splits)

lemma loop_waits: "term_waits d \<Longrightarrow> term_waits (callback_thread_loop E ws d)"
  by (induction ws arbitrary: d) (simp_all add: callback_thread_loop_def step_waits)

lemma loop_terminated: "term_waits d \<Longrightarrow> cb_thread_of (callback_thread_loop E (ws @ [no_uevent]) d) = None"
  using loop_waits [of d E ws]
  by (simp add: callback_thread_loop_def callback_thread_step_def thread_round_def no_uevent_def term_waits_def split: option.split)

lemma loop_terminated_active:
  "pcm_fresh E \<Longrightarrow> st_ok E d \<Longrightarrow> term_waits d \<Longrightarrow> \<not> callback_thread_active (callback_thread_loop E (ws @ [no_uevent]) d)"
  using thread_loop.ok [of E d "ws @ [no_uevent]"] loop_terminated [of d E ws]
  by (simp add: st_ok_def thread_ok_def)

lemma neutral_close_sockets: "cb_thread_of d = None \<Longrightarrow> neutral d (stdev_close_callback_thread_sockets d)"
  by (simp add: stdev_close_callback_thread_sockets_def Let_def neutral_def log_calls_def quiet_ext_Cons)

lemma close_sockets_fields [simp]:
  "send_socket (stdev_close_callback_thread_sockets d) < 0" "term_socket (stdev_close_callback_thread_sockets d) < 0"
  "uevent_socket (stdev_close_callback_thread_sockets d) < 0"
  by (simp_all add: stdev_close_callback_thread_sockets_def Let_def log_calls_def)

text \<open>The part of joining that ends the thread.\<close>

definition end_thread :: "st_env \<Rightarrow> wake list \<Rightarrow> stdev \<Rightarrow> stdev" where
  "end_thread E ws d =
     (if callback_thread_active d then
        emit pthread_join (callback_thread_loop E (ws @ [no_uevent]) (write_send_socket [84] d))
      else d)"

lemma join_eq:
  "stdev_join_callback_thread E ws k d =
     stdev_close_callback_thread_sockets (if \<not> k then stdev_vts_set_power E 0 (end_thread E ws d) else end_thread E ws d)"
  by (simp add: stdev_join_callback_thread_def end_thread_def Let_def)

lemma end_thread_props:
  assumes "pcm_fresh E" "st_ok E d"
  shows "st_ok E (end_thread E ws d)" "\<not> callback_thread_active (end_thread E ws d)"
    "sthal_opened (end_thread E ws d) = sthal_opened d"
    "mixer_healthy E \<Longrightarrow> pcm_ready E \<Longrightarrow> mic_inv d \<Longrightarrow> mic_inv (end_thread E ws d)"
    "i < 2 \<Longrightarrow> quota i (end_thread E ws d) \<le> quota i d" "cb_thread_of (end_thread E ws d) = None"
proof -
  define d1 where "d1 = write_send_socket [84] d"
  define d2 where "d2 = callback_thread_loop E (ws @ [no_uevent]) d1"
  have n1: "neutral d d1" and n2: "neutral d2 (emit pthread_join d2)" by (simp_all add: d1_def del: log_calls_simps)
  have d1: "st_ok E d1" using assms(2) neutral_st_ok [OF n1] by simp
  have w: "term_waits d1" unfolding d1_def using assms(2) by (intro write_send_waits) (simp_all add: st_ok_def thread_ok_def)
  have d2: "st_ok E d2" "\<not> callback_thread_active d2" "sthal_opened d2 = sthal_opened d1"
    unfolding d2_def using thread_loop.ok [OF assms(1) d1] loop_terminated_active [OF assms(1) d1 w] loop_opened [OF assms(1) d1]
    by simp_all
  have m: "mixer_healthy E \<Longrightarrow> pcm_ready E \<Longrightarrow> mic_inv d1 \<Longrightarrow> mic_inv d2" "i < 2 \<Longrightarrow> quota i d2 \<le> quota i d1" 
    unfolding d2_def using thread_loop.mic [OF assms(1) _ _ d1] thread_loop.quota [OF assms(1) d1] by simp_all
  have eq: "end_thread E ws d = (if callback_thread_active d then emit pthread_join d2 else d)"
    by (simp add: end_thread_def d1_def d2_def)
  show "st_ok E (end_thread E ws d)" "\<not> callback_thread_active (end_thread E ws d)"
    "sthal_opened (end_thread E ws d) = sthal_opened d"
    "mixer_healthy E \<Longrightarrow> pcm_ready E \<Longrightarrow> mic_inv d \<Longrightarrow> mic_inv (end_thread E ws d)"
    "i < 2 \<Longrightarrow> quota i (end_thread E ws d) \<le> quota i d" "cb_thread_of (end_thread E ws d) = None"
    using d2 d2(1) [unfolded st_ok_def thread_ok_def] assms(2) [unfolded st_ok_def thread_ok_def] m assms(2) neutral_st_ok [OF n2, of E] neutral_mic_inv [OF n1] neutral_mic_inv [OF n2]
      neutral_quota [OF n1, of i] neutral_quota [OF n2, of i] n1 n2
    by (simp_all add: eq neutral_def del: log_calls_simps)
qed

lemma join_fields:
  assumes "pcm_fresh E" "st_ok E d"
  shows "\<not> callback_thread_active (stdev_join_callback_thread E ws k d)"
    "sthal_opened (stdev_join_callback_thread E ws k d) = sthal_opened d"
  using end_thread_props(2,3,6) [OF assms, of ws]
    neutral_close_sockets [of "end_thread E ws d"] neutral_close_sockets [of "stdev_vts_set_power E 0 (end_thread E ws d)"]
  by (simp_all add: join_eq neutral_def)

interpretation join: client_op E "\<lambda>_. True" "stdev_join_callback_thread E ws k" for E ws k
proof
  fix d i
  let ?d = "if \<not> k then stdev_vts_set_power E 0 (end_thread E ws d) else end_thread E ws d"
  assume a: "pcm_fresh E" "st_ok E d"
  note t = end_thread_props [OF a, where ws = ws]
  have n: "neutral ?d (stdev_join_callback_thread E ws k d)" unfolding join_eq by (rule neutral_close_sockets) (simp add: t(6))
  have "st_ok E ?d" using t(1) by (simp add: set_power_ok)
  then show "st_ok E (stdev_join_callback_thread E ws k d)" using neutral_st_ok [OF n] by simp
  have "quota i ?d \<le> quota i d" if "i < 2" using t(5) [OF that] by simp
  then show "quota i (stdev_join_callback_thread E ws k d) \<le> quota i d" if "i < 2"
    using neutral_quota [OF n] that by simp
  show "mic_inv (stdev_join_callback_thread E ws k d)" if "mixer_healthy E" "pcm_ready E" "mic_inv d"
  proof -
    have "mic_inv ?d" using t(4) [OF that] power_off_weak [OF that(1) t(1)] by (simp add: mic_inv_weak)
    then show ?thesis using neutral_mic_inv [OF n] by simp
  qed
qed

text \<open>Starting the thread changes the fields that belong to it and nothing else.\<close>

definition thread_erase :: "stdev \<Rightarrow> stdev" where
  "thread_erase d = d\<lparr>send_socket := 0, term_socket := 0, uevent_socket := 0, callback_thread_active := False,
     recog_cbstate := RECOG_CB_NONE, cb_thread_of := None, calls := []\<rparr>"

definition thread_keep :: "stdev \<Rightarrow> stdev \<Rightarrow> bool" where
  "thread_keep d d' \<longleftrightarrow> thread_erase d' = thread_erase d \<and> quiet_ext (calls d) (calls d')"

lemma thread_keep_upd [simp]:
  "thread_keep d (d'\<lparr>send_socket := s\<rparr>) = thread_keep d d'" "thread_keep d (d'\<lparr>term_socket := s\<rparr>) = thread_keep d d'"
  "thread_keep d (d'\<lparr>uevent_socket := s\<rparr>) = thread_keep d d'"
  "thread_keep d (d'\<lparr>callback_thread_active := b\<rparr>) = thread_keep d d'"
  "thread_keep d (d'\<lparr>recog_cbstate := c\<rparr>) = thread_keep d d'" "thread_keep d (d'\<lparr>cb_thread_of := t\<rparr>) = thread_keep d d'"
  by (simp_all add: thread_keep_def thread_erase_def)

lemma thread_keep_refl [simp]: "thread_keep d d"
  by (simp add: thread_keep_def)

lemma thread_keep_syscall [simp]: "quiet c \<Longrightarrow> thread_keep d d' \<Longrightarrow> thread_keep d (snd (syscall E c d'))"
  by (auto simp: thread_keep_def thread_erase_def syscall_def intro: quiet_ext_Cons)

lemma thread_keep_emit [simp]: "quiet c \<Longrightarrow> thread_keep d d' \<Longrightarrow> thread_keep d (emit c d')"
  by (auto simp: thread_keep_def thread_erase_def log_calls_def intro: quiet_ext_Cons)

lemma thread_keep_sockets [simp]: "thread_keep d d' \<Longrightarrow> thread_keep d (stdev_close_callback_thread_sockets d')"
  by (simp add: stdev_close_callback_thread_sockets_def Let_def del: log_calls_simps)

lemma thread_keep_start: "thread_keep d (snd (stdev_start_callback_thread E d))"
  by (simp add: stdev_start_callback_thread_def start_failed_def thread_prologue_def vts_unfold)

lemma thread_keep_fields:
  assumes "thread_keep d d'"
  shows "model_handles d' = model_handles d" "recognition_callbacks d' = recognition_callbacks d"
    "recognition_cookies d' = recognition_cookies d" "sound_model_callbacks d' = sound_model_callbacks d"
    "sound_model_cookies d' = sound_model_cookies d" "configs d' = configs d" "mixer d' = mixer d"
    "is_streaming d' = is_streaming d" "sthal_opened d' = sthal_opened d"
    "is_seamless_recording d' = is_seamless_recording d" "streaming_pcm d' = streaming_pcm d"
    "recognize_started d' = recognize_started d" "is_mic_configured d' = is_mic_configured d"
    "active_mic d' = active_mic d" "notify_sthal_status d' = notify_sthal_status d" "is_recording d' = is_recording d"
    "recording_pcm d' = recording_pcm d" "backlog_size d' = backlog_size d"
    "svoicemodel_mode d' = svoicemodel_mode d" "voicecall_state d' = voicecall_state d"
    "model_execstate d' = model_execstate d" "model_stopfailedhandles d' = model_stopfailedhandles d"
    "is_generic d' = is_generic d"
  using assms by (cases d; cases d'; simp add: thread_keep_def thread_erase_def)+

lemmas start_fields [simp] = thread_keep_fields [OF thread_keep_start]
lemmas close_sockets_keep [simp] = thread_keep_fields [OF thread_keep_sockets [OF thread_keep_refl]]

lemma close_sockets_thread [simp]:
  "cb_thread_of (stdev_close_callback_thread_sockets d) = cb_thread_of d"
  "callback_thread_active (stdev_close_callback_thread_sockets d) = callback_thread_active d"
  by (simp_all add: stdev_close_callback_thread_sockets_def Let_def log_calls_def)

lemma start_thread_active:
  assumes "callback_thread_active d \<longleftrightarrow> cb_thread_of d \<noteq> None"
  shows "callback_thread_active (snd (stdev_start_callback_thread E d)) \<longleftrightarrow>
    cb_thread_of (snd (stdev_start_callback_thread E d)) \<noteq> None"
  using assms
  by (cases "cb_thread_of d") (simp_all add: stdev_start_callback_thread_def start_failed_def thread_prologue_def vts_unfold syscall_def)

lemma start_thread_wired:
  assumes "thread_ok d" "cb_thread_of (snd (stdev_start_callback_thread E d)) = Some t"
  shows "fds1 t = term_socket (snd (stdev_start_callback_thread E d))"
  using assms
  by (auto simp: thread_ok_def stdev_start_callback_thread_def start_failed_def thread_prologue_def vts_unfold syscall_def split: if_splits)

lemma start_thread_ok:
  assumes "st_ok E d" "sthal_opened d"
  shows "st_ok E (snd (stdev_start_callback_thread E d))"
proof -
  have q: "quiet_ext (calls d) (calls (snd (stdev_start_callback_thread E d)))"
    using thread_keep_start [of d E] by (simp add: thread_keep_def)
  have t: "thread_ok d" using assms(1) by (simp add: st_ok_def)
  then have "callback_thread_active d \<longleftrightarrow> cb_thread_of d \<noteq> None" by (simp add: thread_ok_def)
  from start_thread_active [OF this] have "thread_ok (snd (stdev_start_callback_thread E d))"
    unfolding thread_ok_def using assms(2) by (intro conjI allI impI start_thread_wired [OF t]) simp_all
  then show ?thesis
    using assms by (simp add: st_ok_def shape_ok_def handles_ok_def masks_ok_def stream_ok_def pcms_ok_def quiet_ext_pcms [OF q])
qed

lemma start_thread_mic [simp]: "mic_inv (snd (stdev_start_callback_thread E d)) = mic_inv d"
  by (simp add: mic_inv_def has_client_def)

lemma start_thread_quota [simp]: "quota i (snd (stdev_start_callback_thread E d)) = quota i d"
  using thread_keep_start [of d E] quiet_ext_callbacks by (simp add: quota_def thread_keep_def)

text \<open>When it reports success there is a thread, provided \<open>errno\<close> is set by a failing call.\<close>

definition errno_set :: "st_env \<Rightarrow> bool" where
  "errno_set E \<longleftrightarrow> (\<forall>cs. sys E cs errno \<noteq> 0)"

lemma start_thread_success:
  "errno_set E \<Longrightarrow> fst (stdev_start_callback_thread E d) = 0 \<Longrightarrow> callback_thread_active (snd (stdev_start_callback_thread E d))"
  by (simp add: stdev_start_callback_thread_def start_failed_def thread_prologue_def errno_set_def vts_unfold syscall_def
      split: if_splits)

section \<open>Ending the thread\<close>

text \<open>
  C10 (join_ends_thread). Joining ends the callback thread, when the device satisfies the invariant
  \<open>st_ok\<close> and the kernel gives a pcm node no address that is in use. The byte that the join writes
  into one socket reaches the socket that the thread polls, which leaves its loop for it, whatever
  wake-ups it handles before. Then no thread is left and the three sockets are closed. Unless the VTS
  is to stay powered nothing streams any more; if moreover the mixer is healthy, pcm nodes are ready
  and the microphone was on only for somebody, no model is started.
\<close>

theorem join_ends_thread:
  assumes "pcm_fresh E" "st_ok E d"
  shows "cb_thread_of (stdev_join_callback_thread E ws k d) = None \<and>
    \<not> callback_thread_active (stdev_join_callback_thread E ws k d) \<and>
    send_socket (stdev_join_callback_thread E ws k d) < 0 \<and> term_socket (stdev_join_callback_thread E ws k d) < 0 \<and>
    uevent_socket (stdev_join_callback_thread E ws k d) < 0 \<and>
    (\<not> k \<longrightarrow> is_streaming (stdev_join_callback_thread E ws k d) = 0 \<and> streaming_pcm (stdev_join_callback_thread E ws k d) = NULL) \<and>
    (\<not> k \<and> mixer_healthy E \<and> pcm_ready E \<and> mic_inv d \<longrightarrow> recognize_started (stdev_join_callback_thread E ws k d) = 0)"
proof -
  let ?d = "end_thread E ws d"
  note t = end_thread_props [OF assms, where ws = ws]
  have "recognize_started (stdev_vts_set_power E 0 ?d) = 0" if "mixer_healthy E" "pcm_ready E" "mic_inv d"
    using power_off_flags(1) [OF that(1), of ?d] t(1) t(4) [OF that] by (simp add: st_ok_def masks_ok_def mic_inv_def)
  moreover have "cb_thread_of ?d = None" using t(1,2) by (simp add: st_ok_def thread_ok_def)
  ultimately show ?thesis using t(2) by (auto simp: join_eq)
qed

text \<open>Two models wait for their words on an open device whose thread runs.\<close>

definition running_device :: stdev where
  "running_device = g_stdev\<lparr>mixer := 7, sthal_opened := True, model_handles := [0, 1], model_stopfailedhandles := [-1, -1],
     recognition_callbacks := [11, 12], recognition_cookies := [21, 22],
     configs := [Some \<lparr>capture_requested = False, num_phrases = 0, phrases = [], data_size = 0\<rparr>,
                 Some \<lparr>capture_requested = True, num_phrases = 0, phrases = [], data_size = 0\<rparr>],
     model_execstate := [MODEL_STATE_RUNNING, MODEL_STATE_RUNNING], recognize_started := 3, is_mic_configured := True,
     callback_thread_active := True, cb_thread_of := Some \<lparr>fds0 = 5, fds1 = 6, recoveryCnt = 0, unread1 = []\<rparr>,
     send_socket := 4, term_socket := 6, uevent_socket := 5\<rparr>"

lemma sample_live: "live_pcms sample_env cs \<subseteq> {100..<100 + int (length cs)}"
proof (induction sample_env cs rule: live_pcms.induct)
  case (2 a b cs)
  then show ?case by (force simp: sample_env_def)
qed (auto simp: sample_env_def)

lemma sample_fresh: "pcm_fresh sample_env"
  using sample_live by (fastforce simp: pcm_fresh_def sample_env_def)

lemma running_device_ok: "st_ok sample_env running_device" "mic_inv running_device" "sthal_opened running_device"
  by (simp_all add: running_device_def g_stdev_def st_ok_def st_ok_parts pcms_ok_def mic_inv_def has_client_iff less_2_cases_iff
      all_conj_distrib nth_Cons')

theorem join_ends_thread_witness:
  "st_ok sample_env running_device \<and> callback_thread_active running_device \<and>
   cb_thread_of (stdev_join_callback_thread sample_env [] False running_device) = None"
  using join_ends_thread [OF sample_fresh running_device_ok(1), of "[]" False] running_device_ok(1)
  by (simp add: running_device_def)

section \<open>Wake-up events\<close>

definition alloc_works :: "st_env \<Rightarrow> bool" where
  "alloc_works E \<longleftrightarrow> (\<forall>cs. sys E cs calloc_event \<noteq> NULL)"

definition event_of :: "st_env \<Rightarrow> nat \<Rightarrow> stdev \<Rightarrow> recognition_event" where
  "event_of E i d = the (fst (if has_bit (is_generic d) i then sound_trigger_generic_event_alloc E i d
     else sound_trigger_event_alloc E i d))"

lemma trigger_event_alloc:
  assumes "alloc_works E"
  shows "trigger_event E i d =
     (let d = call_client E i (event_of E i d) (emit calloc_event d);
          d' = after_client E i d; b = stdev_active_callback_bitmask d' in
      if wants_capture i d then (True, d\<lparr>is_streaming := push_bit i 1\<rparr>)
      else if b \<noteq> 0 then (False, stdev_vts_set_power E b (stdev_vts_set_power E 0 d'))
      else (True, d'))"
  using assms
  by (simp add: trigger_event_eq event_of_def sound_trigger_event_alloc_def sound_trigger_generic_event_alloc_def
      alloc_works_def syscall_def log_calls_def vts_unfold)

lemma event_of_model: "alloc_works E \<Longrightarrow> ev_model (event_of E i d) = model_handles d ! i"
  by (simp add: event_of_def sound_trigger_event_alloc_def sound_trigger_generic_event_alloc_def alloc_works_def syscall_def
      vts_unfold)

text \<open>
  A wake-up event for a running model with a registered client calls that
  client exactly once, with the model's handle and its own cookie, and unregisters it; if the
  client asked for the captured sound and made no stop request meanwhile, the VTS goes on streaming
  for this model and the thread ends.
\<close>

theorem wakeup_calls_client:
  assumes "alloc_works E" "st_ok E d" "i < 2"
    and "model_execstate d ! i = MODEL_STATE_RUNNING" "recognition_callbacks d ! i \<noteq> NULL"
    and "during_callback E (recognition_callback i (recognition_callbacks d ! i) (event_of E i d) (recognition_cookies d ! i)
           # calloc_event # calls d) = []"
    and "configs d ! i = Some c" "capture_requested c"
  shows "fst (trigger_event E i d) \<and>
    calls (snd (trigger_event E i d)) =
      recognition_callback i (recognition_callbacks d ! i) (event_of E i d) (recognition_cookies d ! i) # calloc_event # calls d \<and>
    ev_model (event_of E i d) = model_handles d ! i \<and>
    recognition_callbacks (snd (trigger_event E i d)) = (recognition_callbacks d)[i := NULL] \<and>
    is_streaming (snd (trigger_event E i d)) = 2 ^ i"
proof -
  define d' where "d' = call_client E i (event_of E i d) (emit calloc_event d)"
  have d': "d' = d\<lparr>recog_cbstate := RECOG_CB_CALLED, recognition_callbacks := (recognition_callbacks d)[i := NULL],
      calls := recognition_callback i (recognition_callbacks d ! i) (event_of E i d) (recognition_cookies d ! i)
        # calloc_event # calls d\<rparr>"
    using assms(4-6) by (simp add: d'_def call_client_def Let_def log_calls_def)
  have "wants_capture i d'" using assms(4,7,8) by (simp add: d' wants_capture_def)
  then have "trigger_event E i d = (True, d'\<lparr>is_streaming := push_bit i 1\<rparr>)"
    unfolding trigger_event_alloc [OF assms(1)] Let_def d'_def [symmetric] by simp
  then show ?thesis using event_of_model [OF assms(1)] by (simp add: d')
qed

theorem wakeup_calls_client_witness:
  "\<exists>ev. calls (snd (trigger_event sample_env 1 running_device)) = [recognition_callback 1 12 ev 22, calloc_event] \<and> ev_model ev = 1"
proof -
  have "alloc_works sample_env" by (simp add: alloc_works_def sample_env_def)
  from wakeup_calls_client [OF this running_device_ok(1), of 1] show ?thesis
    by (simp add: running_device_def g_stdev_def) (simp add: sample_env_def)
qed

section \<open>A stop request during the callback\<close>

lemma recover_model_fields:
  "model_execstate (recover_model E i d) = (model_execstate d)[i := MODEL_STATE_NONE]"
  "model_stopfailedhandles (recover_model E i d) = (model_stopfailedhandles d)[i := HANDLE_NONE]"
  "j \<noteq> i \<or> model_execstate d ! i \<noteq> MODEL_STATE_STOPABORT \<Longrightarrow>
     recognition_callbacks (recover_model E i d) ! j = recognition_callbacks d ! j"
  by (auto simp: recover_model_def stop_aborted_def Let_def)

lemma handle_stop_fields:
  assumes "shape_ok d"
  shows "model_execstate (handle_stop_recognition_l E d) = [MODEL_STATE_NONE, MODEL_STATE_NONE]"
    "model_stopfailedhandles (handle_stop_recognition_l E d) = [HANDLE_NONE, HANDLE_NONE]"
    "j < 2 \<Longrightarrow> model_execstate d ! j \<noteq> MODEL_STATE_STOPABORT \<Longrightarrow>
       recognition_callbacks (handle_stop_recognition_l E d) ! j = recognition_callbacks d ! j"
proof -
  obtain a b where ex: "model_execstate d = [a, b]"
    using assms by (auto simp: shape_ok_def length_Suc_conv numeral_2_eq_2)
  obtain a' b' where sf: "model_stopfailedhandles d = [a', b']"
    using assms by (auto simp: shape_ok_def length_Suc_conv numeral_2_eq_2)
  have eq: "handle_stop_recognition_l E d = recover_model E 1 (recover_model E 0 d)"
    by (simp add: handle_stop_recognition_l_def upt_rec)
  show "model_execstate (handle_stop_recognition_l E d) = [MODEL_STATE_NONE, MODEL_STATE_NONE]"
    "model_stopfailedhandles (handle_stop_recognition_l E d) = [HANDLE_NONE, HANDLE_NONE]"
    by (simp_all add: eq recover_model_fields(1,2) ex sf)
  assume "j < 2" "model_execstate d ! j \<noteq> MODEL_STATE_STOPABORT"
  then show "recognition_callbacks (handle_stop_recognition_l E d) ! j = recognition_callbacks d ! j"
    by (auto simp: eq recover_model_fields ex less_2_cases_iff)
qed

text \<open>
  A client that is stopped while its callback runs takes the
  other model down with it: the recovery marks both models as not running, so the other client
  stays registered and its model keeps being started, but no later wake-up event reaches it.
\<close>

theorem stop_in_callback_silences_other:
  assumes "alloc_works E" "st_ok E d" "sthal_opened d" "voicecall_state d = VOICECALL_STOPPED" "i < 2" "j < 2" "i \<noteq> j"
    and "model_handles d ! i = int i"
    and "model_execstate d ! i = MODEL_STATE_RUNNING" "recognition_callbacks d ! i \<noteq> NULL"
    and "model_execstate d ! j = MODEL_STATE_RUNNING" "recognition_callbacks d ! j \<noteq> NULL"
    and "during_callback E (recognition_callback i (recognition_callbacks d ! i) (event_of E i d) (recognition_cookies d ! i)
           # calloc_event # calls d) = [int i]"
  defines "d' \<equiv> snd (trigger_event E i d)"
  shows "recognition_callbacks d' ! j = recognition_callbacks d ! j \<and> model_execstate d' ! j = MODEL_STATE_NONE \<and>
    (\<exists>a. has_bit a j \<and> (\<exists>d0. d' = stdev_vts_set_power E a d0)) \<and>
    (let d'' = snd (trigger_event E j d') in
       callback_count j (calls d'') = callback_count j (calls d') \<and>
       recognition_callbacks d'' ! j = recognition_callbacks d ! j \<and> model_execstate d'' ! j = MODEL_STATE_NONE)"
proof -
  define e where "e = call_client E i (event_of E i d) (emit calloc_event d)"
  have len: "length (model_execstate d) = 2" "length (model_stopfailedhandles d) = 2" "length (recognition_callbacks d) = 2"
    using assms(2) by (simp_all add: st_ok_def shape_ok_def)
  have e: "e = d\<lparr>recog_cbstate := RECOG_CB_CALLED, recognition_callbacks := (recognition_callbacks d)[i := NULL],
      calls := recognition_callback i (recognition_callbacks d ! i) (event_of E i d) (recognition_cookies d ! i)
        # calloc_event # calls d,
      model_stopfailedhandles := (model_stopfailedhandles d)[i := int i],
      model_execstate := (model_execstate d)[i := MODEL_STATE_STOPABORT]\<rparr>"
    using assms(4,5,8,9,10,13)
    by (simp add: e_def call_client_def Let_def log_calls_def stop_in_callback_def stop_wait_called handle_matches_def
        mark_stopabort_def)
  have shape: "shape_ok e" using assms(2) by (simp add: e st_ok_def shape_ok_def)
  define f where "f = after_client E i e"
  have fe: "f = (handle_stop_recognition_l E e)\<lparr>model_execstate := [MODEL_STATE_NONE, MODEL_STATE_NONE]\<rparr>"
  proof -
    have "model_execstate e ! i = MODEL_STATE_STOPABORT" using len assms(5) by (simp add: e)
    moreover have "[MODEL_STATE_NONE, MODEL_STATE_NONE][i := MODEL_STATE_NONE] = [MODEL_STATE_NONE, MODEL_STATE_NONE]"
      using assms(5) by (auto simp: less_2_cases_iff)
    ultimately show ?thesis by (simp add: f_def after_client_def Let_def handle_stop_fields [OF shape])
  qed
  have cbj: "recognition_callbacks f ! j = recognition_callbacks d ! j"
    using handle_stop_fields(3) [OF shape assms(6), of E] assms(7,11) by (simp add: fe) (simp add: e)
  then have b: "stdev_active_callback_bitmask f \<noteq> 0" "has_bit (stdev_active_callback_bitmask f) j"
    using assms(6,12) by (auto simp: less_2_cases_iff active_callback_bitmask_eq)
  have "\<not> wants_capture i e" using len assms(5) by (simp add: e wants_capture_def)
  then have t: "trigger_event E i d = (False, stdev_vts_set_power E (stdev_active_callback_bitmask f) (stdev_vts_set_power E 0 f))"
    unfolding trigger_event_alloc [OF assms(1)] Let_def e_def [symmetric] f_def [symmetric] using b(1) by simp
  then have d': "d' = stdev_vts_set_power E (stdev_active_callback_bitmask f) (stdev_vts_set_power E 0 f)"
    by (simp add: d'_def)
  have f1: "model_execstate f = [MODEL_STATE_NONE, MODEL_STATE_NONE]" "model_stopfailedhandles f = [HANDLE_NONE, HANDLE_NONE]"
    by (simp_all add: fe handle_stop_fields [OF shape])
  define g where "g = call_client E j (event_of E j d') (emit calloc_event d')"
  have g: "g = emit calloc_event d'"
    using f1 assms(6) by (auto simp: g_def call_client_def d' log_calls_def less_2_cases_iff)
  have "after_client E j g = g" "\<not> wants_capture j g"
    using f1 assms(6) by (auto simp: g after_client_def stop_failed_def wants_capture_def d' log_calls_def less_2_cases_iff)
  then have "snd (trigger_event E j d') = (if stdev_active_callback_bitmask g \<noteq> 0
      then stdev_vts_set_power E (stdev_active_callback_bitmask g) (stdev_vts_set_power E 0 g) else g)"
    unfolding trigger_event_alloc [OF assms(1)] Let_def g_def [symmetric] by simp
  then have "callback_count j (calls (snd (trigger_event E j d'))) = callback_count j (calls d') \<and>
    recognition_callbacks (snd (trigger_event E j d')) ! j = recognition_callbacks d' ! j \<and>
    model_execstate (snd (trigger_event E j d')) = model_execstate d'"
    by (simp add: g callback_count_Cons) (simp add: log_calls_def)
  then show ?thesis
    using cbj f1 b(2) assms(6) by (auto simp: d' Let_def less_2_cases_iff)
qed

theorem stop_in_callback_silences_other_witness:
  "\<exists>E d. recognition_callbacks d ! 1 = 12 \<and> model_execstate d ! 1 = MODEL_STATE_NONE \<and>
     d = snd (trigger_event E 0 running_device)"
proof -
  let ?E = "sample_env\<lparr>during_callback := \<lambda>_. [0]\<rparr>"
  have "alloc_works ?E" by (simp add: alloc_works_def sample_env_def)
  moreover have "st_ok ?E running_device"
    by (simp add: running_device_def g_stdev_def st_ok_def st_ok_parts pcms_ok_def less_2_cases_iff all_conj_distrib nth_Cons')
  ultimately show ?thesis
    using stop_in_callback_silences_other [of ?E running_device 0 1]
    by (auto simp: running_device_def g_stdev_def)
qed

end
