(* ===== verification/St_Api.thy ===== *)
theory St_Api
  imports St_Thread
begin

text \<open>
  The interface of the sound trigger HAL: the device methods \<open>stdev_*\<close> the framework calls and the
  exported functions \<open>sound_trigger_*\<close> the audio HAL calls. An operation is one step on the device: it
  takes the device lock for its whole body, with three exceptions. \<open>sound_trigger_read_samples\<close> takes
  only \<open>trigger_lock\<close>, without which others may close the node it reads, so it is given in its two
  parts as well; \<open>sound_trigger_read_recording_samples\<close> takes only \<open>recording_lock\<close>, which every
  operation that closes the recording node takes too; \<open>sound_trigger_notify_ahal_record_status\<close> takes
  no lock, and is one step only when nothing else runs. Where an operation joins the callback thread
  the wake-ups the thread still handles are an argument. The result of an operation is its return
  value with the new device.
\<close>

section \<open>Models\<close>

type_synonym uuid = "nat \<times> nat \<times> nat \<times> nat \<times> nat list"

definition bixby_uuid :: uuid where
  "bixby_uuid = (0x1817de20, 0xfa3b, 0x11e5, 0xbef2, [0x00, 0x02, 0xa5, 0xd5, 0xc5, 0x1b])"

definition hotword_uuid :: uuid where
  "hotword_uuid = (0x7038ddc8, 0x30f2, 0x11e6, 0xb0ac, [0x40, 0xa8, 0xf0, 0x3d, 0x3f, 0x15])"

text \<open>A sound model with the bytes that start at its address.\<close>

record sound_model =
  sm_type :: sound_model_type
  vendor_uuid :: uuid
  sm_data_size :: nat
  sm_data_offset :: nat
  sm_bytes :: "u8 list"

abbreviation (input) RECOGNITION_MODE_VOICE_TRIGGER :: nat where "RECOGNITION_MODE_VOICE_TRIGGER \<equiv> 1"

record properties =
  implementor :: string
  description :: string
  version :: int
  prop_uuid :: uuid
  max_sound_models :: nat
  max_key_phrases :: nat
  max_users :: nat
  recognition_modes :: nat
  capture_transition :: bool
  max_buffer_ms :: nat
  concurrent_capture :: bool
  trigger_in_event :: bool
  power_consumption_mw :: nat

definition hw_properties :: properties where
  "hw_properties = \<lparr>implementor = ''Samsung SLSI'',
     description = ''Exynos Primary SoundTrigger HAL, OK Google and SVoice'',
     version = 1, prop_uuid = bixby_uuid, max_sound_models = 2, max_key_phrases = 1, max_users = 1,
     recognition_modes = RECOGNITION_MODE_VOICE_TRIGGER, capture_transition = True, max_buffer_ms = 0,
     concurrent_capture = False, trigger_in_event = False, power_consumption_mw = 0\<rparr>"

definition stdev_get_properties :: "st_env \<Rightarrow> bool \<Rightarrow> stdev \<Rightarrow> int \<times> properties option \<times> stdev" where
  "stdev_get_properties E null_arg d =
     (if null_arg then (-EINVAL, None, d)
      else (let (r, d) = syscall E (sys_ioctl (vtsdev_fd d) ''VTSDRV_MISC_IOCTL_READ_GOOGLE_VERSION'' 0) d;
                (v, d) = (if r < 0 then (0, d) else syscall E ioctl_value d)
            in (0, Some (hw_properties\<lparr>version := v\<rparr>), d)))"

text \<open>Which model a structure describes; the second component is the new \<open>is_generic\<close>.\<close>

definition model_index_of :: "sound_model \<Rightarrow> int \<Rightarrow> (nat \<times> int) option" where
  "model_index_of m g =
     (case sm_type m of
        SOUND_MODEL_TYPE_KEYPHRASE \<Rightarrow>
          (if vendor_uuid m = bixby_uuid then Some (SVOICE_INDEX, without_bit g SVOICE_INDEX)
           else if vendor_uuid m = hotword_uuid then Some (HOTWORD_INDEX, without_bit g HOTWORD_INDEX)
           else None)
      | SOUND_MODEL_TYPE_GENERIC \<Rightarrow>
          (if vendor_uuid m = bixby_uuid then Some (SVOICE_INDEX, with_bit g SVOICE_INDEX)
           else if vendor_uuid m = hotword_uuid then Some (HOTWORD_INDEX, with_bit g HOTWORD_INDEX)
           else None)
      | SOUND_MODEL_TYPE_OTHER _ \<Rightarrow> None)"

text \<open>\<open>None\<close> stands for a write of the model that never ends; the second component is the stored handle.\<close>

definition stdev_load_sound_model ::
  "st_env \<Rightarrow> sound_model option \<Rightarrow> bool \<Rightarrow> int \<Rightarrow> int \<Rightarrow> stdev \<Rightarrow> (int \<times> int option \<times> stdev) option" where
  "stdev_load_sound_model E sm null_handle callback cookie d =
     (case sm of
        None \<Rightarrow> Some (-EINVAL, None, d)
      | Some m \<Rightarrow>
          if null_handle then Some (-EINVAL, None, d)
          else if sm_data_size m = 0 \<or> sm_data_offset m < sizeof_sound_model E then Some (-EINVAL, None, d)
          else case model_index_of m (is_generic d) of
            None \<Rightarrow> Some (-EINVAL, None, d)
          | Some (i, g) \<Rightarrow>
              (let d = d\<lparr>is_generic := g\<rparr> in
               if model_handles d ! i \<noteq> -1 then Some (-ENOSYS, None, d)
               else case vts_load_sound_model E (drop (sm_data_offset m) (sm_bytes m)) (sm_data_size m) i d of
                 None \<Rightarrow> None
               | Some (ret, d) \<Rightarrow>
                   if ret \<noteq> 0 then Some (ret, None, d)
                   else Some (ret, Some (int i),
                     d\<lparr>model_handles := (model_handles d)[i := int i],
                       sound_model_callbacks := (sound_model_callbacks d)[i := callback],
                       sound_model_cookies := (sound_model_cookies d)[i := cookie]\<rparr>)))"

section \<open>Recognition\<close>

definition stdev_stop_recognition_l :: "st_env \<Rightarrow> wake list \<Rightarrow> int \<Rightarrow> stdev \<Rightarrow> int \<times> stdev" where
  "stdev_stop_recognition_l E ws handle d =
     (if voicecall_state d = VOICECALL_STARTED then (0, d)
      else if \<not> handle_matches d handle then (-ENOSYS, d)
      else let h = nat handle in
        if recognition_callbacks d ! h = NULL \<and> \<not> has_bit (is_streaming d) h then (-ENOSYS, d)
        else
          (let d = d\<lparr>configs := (configs d)[h := None], recognition_callbacks := (recognition_callbacks d)[h := NULL]\<rparr>;
               d = (if is_streaming d = 0 \<or> has_bit (is_streaming d) h then
                      (let active_bitmask = stdev_active_callback_bitmask d in
                       if active_bitmask = 0 then stdev_join_callback_thread E ws False d
                       else stdev_vts_set_power E active_bitmask (stdev_vts_set_power E 0 d))
                    else d)
           in (0, d\<lparr>model_stopfailedhandles := (model_stopfailedhandles d)[h := HANDLE_NONE],
                    model_execstate := (model_execstate d)[h := MODEL_STATE_NONE]\<rparr>)))"

text \<open>\<open>fails\<close> attempts to take the lock fail; \<open>None\<close> stands for undefined behaviour.\<close>

definition stdev_stop_recognition :: "st_env \<Rightarrow> wake list \<Rightarrow> nat \<Rightarrow> int \<Rightarrow> stdev \<Rightarrow> (int \<times> stdev) option" where
  "stdev_stop_recognition E ws fails handle d =
     (case fails of
        0 \<Rightarrow> Some (stdev_stop_recognition_l E ws handle d)
      | Suc n \<Rightarrow>
          (case stop_wait n 0 handle d of
             Return ret d' \<Rightarrow> Some (ret, d')
           | Acquired \<Rightarrow> Some (stdev_stop_recognition_l E ws handle d)
           | Undefined \<Rightarrow> None))"

definition stdev_unload_sound_model :: "st_env \<Rightarrow> wake list \<Rightarrow> int \<Rightarrow> stdev \<Rightarrow> int \<times> stdev" where
  "stdev_unload_sound_model E ws handle d =
     (if handle < 0 \<or> handle \<ge> int MAX_SOUND_MODELS then (-EINVAL, d)
      else let h = nat handle in
        if model_handles d ! h \<noteq> handle then (-ENOSYS, d)
        else (let (ret, d) = (if recognition_callbacks d ! h \<noteq> NULL \<or> has_bit (is_streaming d) h
                              then stdev_stop_recognition_l E ws handle d else (0, d))
              in (ret, d\<lparr>model_handles := (model_handles d)[h := -1]\<rparr>)))"

text \<open>The copy of the configuration; the parameters are the bytes after it. The result says whether memory was there.\<close>

definition copy_config :: "st_env \<Rightarrow> nat \<Rightarrow> (recognition_config \<times> string) option \<Rightarrow> stdev \<Rightarrow> bool \<times> stdev" where
  "copy_config E h config d =
     (case config of
        None \<Rightarrow> (True, d)
      | Some (c, params) \<Rightarrow>
          (let (p, d) = syscall E malloc_config d in
           if p = NULL then (False, d\<lparr>configs := (configs d)[h := None]\<rparr>)
           else (let d = d\<lparr>configs := (configs d)[h := Some c]\<rparr> in
                 (True, if data_size c > 0
                        then ParseExtraConfigData E params (d\<lparr>backlog_size := 0, svoicemodel_mode := SVOICE_UNKNOWN_MODE\<rparr>)
                        else d))))"

definition stdev_start_recognition ::
  "st_env \<Rightarrow> int \<Rightarrow> (recognition_config \<times> string) option \<Rightarrow> int \<Rightarrow> int \<Rightarrow> stdev \<Rightarrow> int \<times> stdev" where
  "stdev_start_recognition E handle config callback cookie d =
     (if \<not> handle_matches d handle then (-ENOSYS, d)
      else
        (let h = nat handle;
             d = (if recognition_callbacks d ! h \<noteq> NULL \<and> stop_failed d then handle_stop_recognition_l E d else d)
         in if voicecall_state d = VOICECALL_STARTED then (-EBUSY, d)
            else
              (let (ok, d) = copy_config E h config d in
               if \<not> ok then (-ENOMEM, d)
               else
                 (let (ret, d) = stdev_start_callback_thread E d in
                  if ret \<noteq> 0 then (ret, d)
                  else
                    (let d = d\<lparr>recognition_callbacks := (recognition_callbacks d)[h := callback],
                               recognition_cookies := (recognition_cookies d)[h := cookie]\<rparr>;
                         d = (if is_streaming d = 0 \<or> has_bit (is_streaming d) h
                              then (let d = stdev_vts_set_power E 0 d
                                    in stdev_vts_set_power E (stdev_active_callback_bitmask d) d)
                              else d)
                     in (0, d\<lparr>model_stopfailedhandles := (model_stopfailedhandles d)[h := HANDLE_NONE],
                              model_execstate := (model_execstate d)[h := MODEL_STATE_RUNNING]\<rparr>))))))"

text \<open>The variant for the extended configuration copies its \<open>base\<close>; the parameters follow the extended structure.\<close>

record recognition_config_extended_1_3 =
  base :: recognition_config
  extended_params :: string

definition stdev_start_recognition_extended ::
  "st_env \<Rightarrow> int \<Rightarrow> recognition_config_extended_1_3 option \<Rightarrow> int \<Rightarrow> int \<Rightarrow> stdev \<Rightarrow> int \<times> stdev" where
  "stdev_start_recognition_extended E handle config callback cookie d =
     stdev_start_recognition E handle (map_option (\<lambda>c. (base c, extended_params c)) config) callback cookie d"

section \<open>Streaming and recording\<close>

type_synonym size_t = "64 word"

definition sound_trigger_open_for_streaming :: "st_env \<Rightarrow> stdev \<Rightarrow> int \<times> stdev" where
  "sound_trigger_open_for_streaming E d =
     (if \<not> sthal_opened d then (-EFAULT, d)
      else if voicecall_state d = VOICECALL_STARTED then (-EBUSY, d)
      else if is_streaming d = 0 then (-EBUSY, d)
      else if is_seamless_recording d then (-EBUSY, d)
      else (let (p, d) = syscall E (pcm_open (VTS_SOUND_CARD E) (VTS_TRICAP_DEVICE_NODE E)) d;
                d = d\<lparr>streaming_pcm := p\<rparr>;
                (ready, d) = (if p \<noteq> NULL then syscall E (pcm_is_ready p) d else (1, d))
            in if ready = 0 then (-EFAULT, d) else (1, d\<lparr>is_seamless_recording := True\<rparr>)))"

text \<open>
  A read of the stream: the checks, which give an error or the node, and the read of that node. Only
  \<open>trigger_lock\<close> is held, so an operation that does not take it may come between the two.
\<close>

definition read_samples_check :: "int \<Rightarrow> stdev \<Rightarrow> size_t + int" where
  "read_samples_check audio_handle d =
     (if audio_handle \<le> 0 then Inl (word_of_int (-EINVAL))
      else if \<not> sthal_opened d then Inl (word_of_int (-EFAULT))
      else if voicecall_state d = VOICECALL_STARTED then Inl (word_of_int (-EBUSY))
      else if is_streaming d = 0 then Inl (word_of_int (-EINVAL))
      else Inr (streaming_pcm d))"

definition read_samples_pcm :: "st_env \<Rightarrow> nat \<Rightarrow> int \<Rightarrow> stdev \<Rightarrow> size_t \<times> stdev" where
  "read_samples_pcm E buffer_len p d =
     (if p \<noteq> NULL then (let (ret, d) = syscall E (pcm_read p buffer_len) d in (word_of_int ret, d)) else (0, d))"

definition sound_trigger_read_samples :: "st_env \<Rightarrow> int \<Rightarrow> nat \<Rightarrow> stdev \<Rightarrow> size_t \<times> stdev" where
  "sound_trigger_read_samples E audio_handle buffer_len d =
     (case read_samples_check audio_handle d of Inl e \<Rightarrow> (e, d) | Inr p \<Rightarrow> read_samples_pcm E buffer_len p d)"

definition sound_trigger_close_for_streaming :: "st_env \<Rightarrow> int \<Rightarrow> stdev \<Rightarrow> int \<times> stdev" where
  "sound_trigger_close_for_streaming E audio_handle d =
     (if audio_handle \<le> 0 then (-EINVAL, d)
      else if \<not> sthal_opened d then (-EFAULT, d)
      else if voicecall_state d = VOICECALL_STARTED then (-EBUSY, d)
      else if \<not> is_seamless_recording d then (-EINVAL, d)
      else if is_streaming d = 0 then (-EINVAL, d)
      else (let d = (emit (pcm_close (streaming_pcm d)) d)\<lparr>streaming_pcm := NULL, is_seamless_recording := False\<rparr>;
                active_bitmask = stdev_active_callback_bitmask d;
                d = stdev_vts_set_power E 0 d
            in (0, if active_bitmask \<noteq> 0
                   then (let (_, d) = stdev_start_callback_thread E d in stdev_vts_set_power E active_bitmask d)
                   else d)))"

definition close_recording_pcm :: "stdev \<Rightarrow> stdev" where
  "close_recording_pcm d =
     (if recording_pcm d \<noteq> NULL then (emit (pcm_close (recording_pcm d)) d)\<lparr>recording_pcm := NULL\<rparr> else d)"

definition mic_off_if_unused :: "st_env \<Rightarrow> stdev \<Rightarrow> stdev" where
  "mic_off_if_unused E d =
     (if stdev_active_callback_bitmask d = 0 \<and> is_streaming d = 0 then stdev_vts_set_mic E False d else d)"

text \<open>Opening the recording node; the result says whether it failed.\<close>

definition open_recording_pcm :: "st_env \<Rightarrow> stdev \<Rightarrow> bool \<times> stdev" where
  "open_recording_pcm E d =
     (let (p, d) = syscall E (pcm_open (VTS_SOUND_CARD E) (VTS_RECORD_DEVICE_NODE E)) d;
          d = d\<lparr>recording_pcm := p\<rparr>;
          (ready, d) = (if p \<noteq> NULL then syscall E (pcm_is_ready p) d else (1, d))
      in (ready = 0, d))"

definition sound_trigger_open_recording :: "st_env \<Rightarrow> stdev \<Rightarrow> int \<times> stdev" where
  "sound_trigger_open_recording E d =
     (if \<not> sthal_opened d then (-EFAULT, d)
      else if voicecall_state d = VOICECALL_STARTED then (-EBUSY, d)
      else (let d = (if is_recording d then (mic_off_if_unused E (close_recording_pcm d))\<lparr>is_recording := False\<rparr> else d);
                d = stdev_vts_set_mic E True d;
                (failed, d) = open_recording_pcm E d
            in if failed then (-EFAULT, d) else (1, d\<lparr>is_recording := True\<rparr>)))"

definition sound_trigger_read_recording_samples :: "st_env \<Rightarrow> nat \<Rightarrow> stdev \<Rightarrow> size_t \<times> stdev" where
  "sound_trigger_read_recording_samples E buffer_len d =
     (if \<not> sthal_opened d then (word_of_int (-EFAULT), d)
      else if voicecall_state d = VOICECALL_STARTED then (word_of_int (-EBUSY), d)
      else if \<not> is_recording d then (word_of_int (-EINVAL), d)
      else if recording_pcm d \<noteq> NULL then
        (let (ret, d) = syscall E (pcm_read (recording_pcm d) buffer_len) d in (word_of_int ret, d))
      else (0, d))"

definition sound_trigger_close_recording :: "st_env \<Rightarrow> stdev \<Rightarrow> int \<times> stdev" where
  "sound_trigger_close_recording E d =
     (if \<not> sthal_opened d then (-EFAULT, d)
      else if voicecall_state d = VOICECALL_STARTED then (-EBUSY, d)
      else (let d = (if stop_failed d then handle_stop_recognition_l E d else d) in
            if \<not> is_recording d then (-EINVAL, d)
            else (let d = (emit (pcm_close (recording_pcm d)) d)\<lparr>recording_pcm := NULL\<rparr>;
                      d = mic_off_if_unused E d
                  in (0, d\<lparr>is_recording := False\<rparr>))))"

section \<open>Status notifications\<close>

definition mic_of :: "int \<Rightarrow> VTS_MIC_CONF" where
  "mic_of is_connected = (if is_connected \<noteq> 0 then VTS_HEADSET_MIC else VTS_MAIN_MIC)"

text \<open>The pcm nodes are closed before the microphone changes and opened again afterwards.\<close>

definition close_pcms :: "stdev \<Rightarrow> stdev" where
  "close_pcms d =
     (let d = (if is_recording d then (close_recording_pcm d)\<lparr>is_recording := False\<rparr> else d)
      in if is_streaming d \<noteq> 0 then (close_streaming_pcm d)\<lparr>is_seamless_recording := False\<rparr> else d)"

definition reopen_recording :: "st_env \<Rightarrow> stdev \<Rightarrow> bool \<times> stdev" where
  "reopen_recording E d =
     (if is_recording d then
        (let d = stdev_vts_set_mic E True d in
         if recording_pcm d = NULL then open_recording_pcm E d else (False, d))
      else (False, d))"

definition reopen_streaming :: "st_env \<Rightarrow> stdev \<Rightarrow> int \<times> stdev" where
  "reopen_streaming E d =
     (if is_streaming d \<noteq> 0 \<and> is_seamless_recording d \<and> streaming_pcm d = NULL then
        (let (p, d) = syscall E (pcm_open (VTS_SOUND_CARD E) (VTS_TRICAP_DEVICE_NODE E)) d;
             d = d\<lparr>streaming_pcm := p\<rparr>;
             (ready, d) = (if p \<noteq> NULL then syscall E (pcm_is_ready p) d else (1, d))
         in if ready = 0 then (-EFAULT, close_recording_pcm d) else (0, d))
      else (0, d))"

definition sound_trigger_headset_status :: "st_env \<Rightarrow> int \<Rightarrow> stdev \<Rightarrow> int \<times> stdev" where
  "sound_trigger_headset_status E is_connected d =
     (if \<not> sthal_opened d then (-EFAULT, d)
      else if is_mic_configured d then
        (let tmp_streaming = is_streaming d; tmp_recording = is_recording d; tmp_seamless = is_seamless_recording d;
             d = close_pcms d;
             active_bitmask = stdev_active_callback_bitmask d;
             d = stdev_vts_set_power E 0 d;
             d = d\<lparr>active_mic := mic_of is_connected, is_recording := tmp_recording\<rparr>;
             d = (if active_bitmask \<noteq> 0 \<or> tmp_streaming \<noteq> 0 then
                    (stdev_vts_set_power E (active_bitmask OR tmp_streaming) d)
                      \<lparr>is_streaming := tmp_streaming, is_seamless_recording := tmp_seamless\<rparr>
                  else d);
             (failed, d) = reopen_recording E d
         in if failed then (-EFAULT, d) else reopen_streaming E d)
      else (0, d\<lparr>active_mic := mic_of is_connected\<rparr>))"

definition sound_trigger_voicecall_status :: "st_env \<Rightarrow> int \<Rightarrow> stdev \<Rightarrow> int \<times> stdev" where
  "sound_trigger_voicecall_status E callstate d =
     (if \<not> sthal_opened d then (-EFAULT, d)
      else if callstate = 1 then
        (let d = (if is_mic_configured d then
                    (let streaming = is_streaming d;
                         d = close_pcms d;
                         d = (if streaming \<noteq> 0 then d\<lparr>is_streaming := 0\<rparr> else d);
                         d = stdev_vts_set_power E 0 d
                     in d\<lparr>recognition_callbacks := (recognition_callbacks d)[HOTWORD_INDEX := NULL, SVOICE_INDEX := NULL]\<rparr>)
                  else d)
         in (0, d\<lparr>voicecall_state := VOICECALL_STARTED\<rparr>))
      else (0, d\<lparr>voicecall_state := VOICECALL_STOPPED\<rparr>))"

definition sound_trigger_notify_ahal_record_status :: "st_env \<Rightarrow> int \<Rightarrow> stdev \<Rightarrow> int \<times> stdev" where
  "sound_trigger_notify_ahal_record_status E state d =
     (if state = 0 then (0, d)
      else if state = 1 then (0, if is_mic_configured d then stdev_vts_set_power E 0 d else d)
      else (-1, d))"

section \<open>Opening and closing the device\<close>

definition stdev_close :: "st_env \<Rightarrow> wake list \<Rightarrow> stdev \<Rightarrow> int \<times> stdev" where
  "stdev_close E ws d =
     (if \<not> sthal_opened d then (-EFAULT, d)
      else (let d = stdev_join_callback_thread E ws False d;
                d = stdev_close_mixer E [] d;
                d = (if MMAP_INTERFACE_ENABLED E then
                       (emit (sys_close (vtsdev_fd d)) (emit (munmap_dev (mapped_addr d) (VTSDRV_MISC_MODEL_BIN_MAXSZ E)) d))
                         \<lparr>vtsdev_fd := -1\<rparr>
                     else d)
            in (0, d\<lparr>recognition_callbacks := replicate MAX_SOUND_MODELS NULL,
                     sound_model_callbacks := replicate MAX_SOUND_MODELS NULL,
                     configs := replicate MAX_SOUND_MODELS None,
                     sthal_opened := False\<rparr>)))"

text \<open>The device file and the mapping, in the builds that use them; the result says whether the function goes on.\<close>

definition open_vtsdev :: "st_env \<Rightarrow> stdev \<Rightarrow> bool \<times> stdev" where
  "open_vtsdev E d =
     (if MMAP_INTERFACE_ENABLED E then
        (let (fd, d) = syscall E (sys_open ''/dev/vts_fio_dev'') d; d = d\<lparr>vtsdev_fd := fd\<rparr> in
         if fd < 0 then (False, d)
         else (let (a, d) = syscall E (mmap_dev fd (VTSDRV_MISC_MODEL_BIN_MAXSZ E)) d; d = d\<lparr>mapped_addr := a\<rparr> in
               if a = -1 then (False, emit (sys_close fd) d) else (True, d)))
      else (True, d))"

definition reset_device :: "stdev \<Rightarrow> stdev" where
  "reset_device d =
     d\<lparr>send_socket := -1, term_socket := -1, uevent_socket := -1, streaming_pcm := NULL,
       is_seamless_recording := False, sthal_opened := True, recognize_started := 0, is_mic_configured := False,
       active_mic := VTS_MAIN_MIC, is_recording := False, recording_pcm := NULL,
       voicecall_state := VOICECALL_STOPPED, recog_cbstate := RECOG_CB_NONE,
       model_handles := replicate MAX_SOUND_MODELS (-1),
       model_execstate := replicate MAX_SOUND_MODELS MODEL_STATE_NONE,
       model_stopfailedhandles := replicate MAX_SOUND_MODELS HANDLE_NONE\<rparr>"

text \<open>The audio HAL's notification function, if its library is there; \<open>False\<close> is the jump to \<open>hal_exit\<close>.\<close>

definition link_audio_hal :: "st_env \<Rightarrow> stdev \<Rightarrow> bool \<times> stdev" where
  "link_audio_hal E d =
     (let (r, d) = syscall E (sys_access (AUDIO_PRIMARY_HAL_LIBRARY_PATH E)) d in
      if r = 0 then
        (let (l, d) = syscall E (sys_dlopen (AUDIO_PRIMARY_HAL_LIBRARY_PATH E)) d; d = d\<lparr>audio_primary_lib := l\<rparr> in
         if l = NULL then (False, d)
         else (let (f, d) = syscall E (sys_dlsym l ''notify_sthal_status'') d in (True, d\<lparr>notify_sthal_status := f\<rparr>)))
      else (True, d))"

definition stdev_open :: "st_env \<Rightarrow> bool \<Rightarrow> stdev \<Rightarrow> int \<times> stdev" where
  "stdev_open E name_matches d =
     (if \<not> name_matches then (-EINVAL, d)
      else if sthal_opened d then (-EBUSY, d)
      else (let (ok, d) = open_vtsdev E d in
            if \<not> ok then (-EINVAL, d)
            else (let (ret, d) = stdev_init_mixer E d in
                  if ret \<noteq> 0 then (ret, d)
                  else (let d = reset_device d; (ok, d) = link_audio_hal E d in
                        if \<not> ok then (ret, stdev_close_mixer E [] d)
                        else (let (r, d) = set_mixer_ctrls E [''VTS Force Reset''] (Some [1]) 1 False d in
                              if r \<noteq> 0 then (ret, d) else (0, d))))))"

end
