(* ===== verification/St_Invariant.thy ===== *)
theory St_Invariant
  imports St_Api
begin

text \<open>
  The invariants of the sound trigger HAL over all its operations: every operation is shown to
  meet the contract of a device operation, and the reachable states of the device, under any
  sequence of operations and rounds of the callback thread, inherit the invariants. The theorems
  show that handles and arrays stay consistent, that pcm nodes are used only while they are open,
  that the microphone is on only while somebody uses it, and that a client is called at most once
  for each time it registers.
\<close>

section \<open>Mixer operations and recovery\<close>

lemma mixer_keep_st_ok:
  assumes "mixer_keep d d'" "recognize_started d' \<in> {0..3}" "st_ok E d"
  shows "st_ok E d'"
  using assms(2,3) mixer_keep_pcms_ok [OF assms(1), of E]
  by (simp add: st_ok_def st_ok_parts mixer_keep_fields [OF assms(1)])

lemma mixer_keep_quota:
  assumes "mixer_keep d d'"
  shows "quota i d' = quota i d"
  using quiet_ext_callbacks [of "calls d" "calls d'" i] mixer_keep_fields(2) [OF assms] assms
  by (simp add: quota_def mixer_keep_def)

lemma set_mic_ok: "st_ok E d \<Longrightarrow> st_ok E (stdev_vts_set_mic E on d)"
  by (rule mixer_keep_st_ok [OF set_mic.keep]) (simp_all add: st_ok_def masks_ok_def)

lemma set_mic_quota [simp]: "quota i (stdev_vts_set_mic E on d) = quota i d"
  by (rule mixer_keep_quota [OF set_mic.keep])

lemma mic_off_flag [simp]: "\<not> is_mic_configured (stdev_vts_set_mic E False d)"
  by (simp add: stdev_vts_set_mic_def vts_unfold)

lemma recover_model_mic:
  assumes "mixer_healthy E" "st_ok E d" "sthal_opened d" "mic_inv d" "i < 2"
  shows "mic_inv (recover_model E i d)"
  using stop_aborted_mic [OF assms(1,2) mic_inv_weak [OF assms(4)] assms(3,5)] assms(4)
  by (simp add: recover_model_def Let_def mic_inv_def has_client_def)

lemma handle_stop_mic:
  assumes "mixer_healthy E" "st_ok E d" "sthal_opened d" "mic_inv d"
  shows "mic_inv (handle_stop_recognition_l E d)"
proof -
  have "keeps E d (recover_model E 0 d)" by (rule keeps_recover_model) simp
  then show ?thesis
    using recover_model_mic [OF assms, of 0] recover_model_mic [OF assms(1), of "recover_model E 0 d" 1] assms
    by (simp add: handle_stop_recognition_l_def upt_rec keeps_def)
qed

lemma step_weak:
  assumes "mixer_healthy E" "st_ok E d" "mic_weak d"
  shows "mic_weak (callback_thread_step E w d)"
proof (cases "cb_thread_of d")
  case (Some t)
  define d0 where "d0 = d\<lparr>recog_cbstate := RECOG_CB_STARTED\<rparr>"
  define r where "r = thread_round E w t d0"
  have "st_ok E d0" using assms(2) neutral_st_ok [of d d0 E] by (simp add: d0_def)
  moreover have "sthal_opened d0" "mic_weak d0"
    using Some assms(2,3) by (auto simp: st_ok_def thread_ok_def d0_def mic_weak_def)
  moreover have "keeps E d0 (snd r)" unfolding r_def by (rule thread_round_keeps) (simp add: d0_def Some)
  ultimately have r: "st_ok E (snd r)" "mic_weak (snd r)" using assms(1) by (auto simp: keeps_def)
  have "callback_thread_step E w d = (if fst r then thread_exit E (snd r) else (snd r)\<lparr>recog_cbstate := RECOG_CB_NONE\<rparr>)"
    using Some by (simp add: callback_thread_step_def r_def d0_def case_prod_unfold)
  then show ?thesis
    using mic_inv_weak [OF thread_exit_mic [OF assms(1) r]] r(2) by (simp add: mic_weak_def)
qed (simp add: callback_thread_step_def assms)

lemma join_weak:
  assumes "pcm_fresh E" "mixer_healthy E" "st_ok E d" "mic_weak d"
  shows "mic_inv (stdev_join_callback_thread E ws False d)"
proof -
  have loop: "mic_weak (callback_thread_loop E ws d)" if "st_ok E d" "mic_weak d" for ws d
    using that by (induction ws arbitrary: d) (simp_all add: callback_thread_loop_def step_weak assms thread_step.ok)
  have n: "neutral d (write_send_socket [84] d)" by (rule neutral_write_send)
  then have "mic_weak (write_send_socket [84] d)" using assms(4) by (simp add: mic_weak_def neutral_def)
  then have "mic_weak (end_thread E ws d)"
    using loop [of "write_send_socket [84] d" "ws @ [no_uevent]"] assms(3,4) neutral_st_ok [OF n, of E]
    by (simp add: end_thread_def mic_weak_def log_calls_def)
  from power_off_weak [OF assms(2) end_thread_props(1) [OF assms(1,3)] this] show ?thesis
    by (simp add: join_eq mic_inv_def has_client_def)
qed

section \<open>Recognition operations\<close>

text \<open>The end of stopping and starting: the marks of one model.\<close>

lemma mark_state_ok:
  assumes "i < 2" "st_ok E d"
  shows "st_ok E (d\<lparr>model_stopfailedhandles := (model_stopfailedhandles d)[i := HANDLE_NONE],
     model_execstate := (model_execstate d)[i := s]\<rparr>)"
  using mark_none_ok [OF assms] by (simp add: st_ok_def st_ok_parts pcms_ok_def)

lemma mark_state_mic [simp]:
  "mic_inv (d\<lparr>model_stopfailedhandles := a, model_execstate := b\<rparr>) = mic_inv d"
  by (simp add: mic_inv_def has_client_def)

lemma mark_state_quota [simp]:
  "quota i (d\<lparr>model_stopfailedhandles := a, model_execstate := b\<rparr>) = quota i d"
  by (simp add: quota_def)

lemma release_weak:
  "mic_weak d \<Longrightarrow> mic_weak (d\<lparr>configs := c, recognition_callbacks := b\<rparr>)"
  by (simp add: mic_weak_def)

lemma release_quota:
  "st_ok E d \<Longrightarrow> i < 2 \<Longrightarrow>
   quota i (d\<lparr>configs := c, recognition_callbacks := (recognition_callbacks d)[h := NULL]\<rparr>) \<le> quota i d"
  by (cases "h = i") (auto simp: quota_def st_ok_def shape_ok_def)

definition stop_model :: "st_env \<Rightarrow> wake list \<Rightarrow> nat \<Rightarrow> stdev \<Rightarrow> stdev" where
  "stop_model E ws h d =
     (let d = d\<lparr>configs := (configs d)[h := None], recognition_callbacks := (recognition_callbacks d)[h := NULL]\<rparr>;
          b = stdev_active_callback_bitmask d in
      if is_streaming d = 0 \<or> has_bit (is_streaming d) h then
        (if b = 0 then stdev_join_callback_thread E ws False d
         else stdev_vts_set_power E b (stdev_vts_set_power E 0 d))
      else d)"

lemma stop_l_eq:
  "stdev_stop_recognition_l E ws handle d =
     (if voicecall_state d = VOICECALL_STARTED then (0, d)
      else if \<not> handle_matches d handle then (-ENOSYS, d)
      else if recognition_callbacks d ! nat handle = NULL \<and> \<not> has_bit (is_streaming d) (nat handle) then (-ENOSYS, d)
      else (0, (stop_model E ws (nat handle) d)
        \<lparr>model_stopfailedhandles := (model_stopfailedhandles (stop_model E ws (nat handle) d))[nat handle := HANDLE_NONE],
         model_execstate := (model_execstate (stop_model E ws (nat handle) d))[nat handle := MODEL_STATE_NONE]\<rparr>))"
  unfolding stdev_stop_recognition_l_def stop_model_def Let_def by simp

lemma handle_matches_less: "handle_matches d h \<Longrightarrow> nat h < 2"
  by (auto simp: handle_matches_def)

lemma stop_model_props:
  assumes "pcm_fresh E" "st_ok E d"
  shows "st_ok E (stop_model E ws h d)" "i < 2 \<Longrightarrow> quota i (stop_model E ws h d) \<le> quota i d"
    "sthal_opened (stop_model E ws h d) = sthal_opened d"
    "mixer_healthy E \<Longrightarrow> sthal_opened d \<Longrightarrow> mic_weak d \<Longrightarrow> mic_inv (stop_model E ws h d)"
proof -
  define d1 where "d1 = d\<lparr>configs := (configs d)[h := None], recognition_callbacks := (recognition_callbacks d)[h := NULL]\<rparr>"
  have d1: "st_ok E d1" "sthal_opened d1 = sthal_opened d" "is_streaming d1 = is_streaming d"
    using assms(2) by (simp_all add: d1_def release_ok)
  have w: "mic_weak d \<Longrightarrow> mic_weak d1" by (simp add: d1_def release_weak)
  have q: "i < 2 \<Longrightarrow> quota i d1 \<le> quota i d" unfolding d1_def by (rule release_quota [OF assms(2)])
  have eq: "stop_model E ws h d = (if is_streaming d1 = 0 \<or> has_bit (is_streaming d1) h then
      (if stdev_active_callback_bitmask d1 = 0 then stdev_join_callback_thread E ws False d1
       else stdev_vts_set_power E (stdev_active_callback_bitmask d1) (stdev_vts_set_power E 0 d1)) else d1)"
    unfolding stop_model_def Let_def d1_def by simp
  show "st_ok E (stop_model E ws h d)"
    using d1(1) join.ok [OF assms(1) d1(1)] by (simp add: eq set_power_ok del: active_callback_bitmask_0)
  show "i < 2 \<Longrightarrow> quota i (stop_model E ws h d) \<le> quota i d"
    using q join.quota [OF assms(1) d1(1), of i ws False] by (simp add: eq del: active_callback_bitmask_0)
  show "sthal_opened (stop_model E ws h d) = sthal_opened d"
    using d1 join_fields(2) [OF assms(1) d1(1)] by (simp add: eq)
  assume m: "mixer_healthy E" "sthal_opened d" "mic_weak d"
  show "mic_inv (stop_model E ws h d)"
    using join_weak [OF assms(1) m(1) d1(1) w [OF m(3)]] power_cycle_weak [OF m(1) d1(1) w [OF m(3)]] d1(2) m(2)
      mic_weak_streaming [OF w [OF m(3)]]
    by (simp add: eq del: active_callback_bitmask_0)
qed

interpretation stop_l: client_op E sthal_opened "\<lambda>d. snd (stdev_stop_recognition_l E ws h d)" for E ws h
proof
  fix d i
  assume a: "pcm_fresh E" "st_ok E d" "sthal_opened d"
  note p = stop_model_props [OF a(1,2), where ws = ws and h = "nat h"]
  show "st_ok E (snd (stdev_stop_recognition_l E ws h d))"
    using a p(1) mark_state_ok [OF handle_matches_less p(1)] by (simp add: stop_l_eq)
  show "quota i (snd (stdev_stop_recognition_l E ws h d)) \<le> quota i d" if "i < 2"
    using p(2) [OF that] by (simp add: stop_l_eq)
  show "mic_inv (snd (stdev_stop_recognition_l E ws h d))" if "mixer_healthy E" "pcm_ready E" "mic_inv d"
    using p(4) [OF that(1) a(3) mic_inv_weak [OF that(3)]] that(3) by (simp add: stop_l_eq)
qed

lemma stop_l_opened: "pcm_fresh E \<Longrightarrow> st_ok E d \<Longrightarrow> sthal_opened (snd (stdev_stop_recognition_l E ws h d)) = sthal_opened d"
  using stop_model_props(3) by (simp add: stop_l_eq)

text \<open>The state after an operation whose result may be undefined.\<close>

definition state_of :: "stdev \<Rightarrow> (int \<times> stdev) option \<Rightarrow> stdev" where
  "state_of d r = (case r of None \<Rightarrow> d | Some (_, d') \<Rightarrow> d')"


lemma stop_wait_not_called:
  assumes "recog_cbstate d \<noteq> RECOG_CB_CALLED"
  shows "stop_wait n r h d =
     (if 100 \<le> r then (if 0 \<le> h \<and> h < 2 then Return (-ENOSYS) (mark_stopabort h d) else Undefined)
      else case n of 0 \<Rightarrow> Acquired | Suc m \<Rightarrow> stop_wait m (r + 1) h d)"
  using assms by (subst stop_wait.simps) simp

lemma stop_wait_return:
  assumes "stop_wait n r h d = Return v d'"
  shows "d' = d \<or> d' = mark_stopabort h d \<and> 0 \<le> h \<and> h < 2"
proof (cases "recog_cbstate d = RECOG_CB_CALLED")
  case True
  then show ?thesis
    using assms by (cases "handle_matches d h") (simp_all add: stop_wait_called handle_matches_def split: if_splits)
next
  case False
  show ?thesis
    using assms
  proof (induction n arbitrary: r)
    case 0
    then show ?case by (simp add: stop_wait_not_called [OF False] split: if_splits)
  next
    case (Suc n)
    then show ?case by (simp add: stop_wait_not_called [OF False, of "Suc n"] split: if_splits)
  qed
qed

lemma mark_stopabort_inv [simp]:
  "mic_inv (mark_stopabort h d) = mic_inv d" "quota i (mark_stopabort h d) = quota i d"
  by (simp_all add: mark_stopabort_def mic_inv_def has_client_def quota_def)

lemma stop_cases:
  obtains "state_of d (stdev_stop_recognition E ws n h d) = d"
  | "state_of d (stdev_stop_recognition E ws n h d) = mark_stopabort h d" "0 \<le> h" "h < 2"
  | "state_of d (stdev_stop_recognition E ws n h d) = snd (stdev_stop_recognition_l E ws h d)"
proof (cases n)
  case (Suc m)
  then show thesis
    using stop_wait_return [of m 0 h d] that
    by (cases "stop_wait m 0 h d") (auto simp: stdev_stop_recognition_def state_of_def case_prod_unfold)
qed (use that(3) in \<open>simp add: stdev_stop_recognition_def state_of_def case_prod_unfold\<close>)

interpretation stop: client_op E sthal_opened "\<lambda>d. state_of d (stdev_stop_recognition E ws n h d)" for E ws n h
proof
  fix d i
  assume a: "pcm_fresh E" "st_ok E d" "sthal_opened d"
  show "st_ok E (state_of d (stdev_stop_recognition E ws n h d))"
    by (rule stop_cases [of d E ws n h]) (simp_all add: a mark_stopabort_ok stop_l.ok)
  show "quota i (state_of d (stdev_stop_recognition E ws n h d)) \<le> quota i d" if "i < 2"
    by (rule stop_cases [of d E ws n h]) (simp_all add: a stop_l.quota that)
  show "mic_inv (state_of d (stdev_stop_recognition E ws n h d))" if "mixer_healthy E" "pcm_ready E" "mic_inv d"
    by (rule stop_cases [of d E ws n h]) (simp_all add: a stop_l.mic that)
qed

lemma drop_handle_inv:
  "st_ok E d \<Longrightarrow> i < 2 \<Longrightarrow> st_ok E (d\<lparr>model_handles := (model_handles d)[i := -1]\<rparr>)"
  "mic_inv (d\<lparr>model_handles := m\<rparr>) = mic_inv d" "quota j (d\<lparr>model_handles := m\<rparr>) = quota j d"
proof -
  show "st_ok E d \<Longrightarrow> i < 2 \<Longrightarrow> st_ok E (d\<lparr>model_handles := (model_handles d)[i := -1]\<rparr>)"
    unfolding st_ok_def
  proof (elim conjE, intro conjI)
    assume "handles_ok d" "shape_ok d" "i < 2"
    then show "handles_ok (d\<lparr>model_handles := (model_handles d)[i := -1]\<rparr>)"
      by (auto simp: handles_ok_def shape_ok_def nth_list_update)
  qed (simp_all add: shape_ok_def masks_ok_def thread_ok_def stream_ok_def pcms_ok_def)
qed (simp_all add: mic_inv_def has_client_def quota_def)

interpretation unload: client_op E sthal_opened "\<lambda>d. snd (stdev_unload_sound_model E ws h d)" for E ws h
proof
  fix d i
  assume a: "pcm_fresh E" "st_ok E d" "sthal_opened d"
  let ?d = "if recognition_callbacks d ! nat h \<noteq> NULL \<or> has_bit (is_streaming d) (nat h)
    then snd (stdev_stop_recognition_l E ws h d) else d"
  have eq: "snd (stdev_unload_sound_model E ws h d) =
    (if h < 0 \<or> h \<ge> 2 \<or> model_handles d ! nat h \<noteq> h then d else ?d\<lparr>model_handles := (model_handles ?d)[nat h := -1]\<rparr>)"
    by (simp add: stdev_unload_sound_model_def Let_def case_prod_unfold)
  have ok: "st_ok E ?d" using a(2) stop_l.ok [OF a, of ws h] by simp
  show "st_ok E (snd (stdev_unload_sound_model E ws h d))"
  proof (cases "h < 0 \<or> h \<ge> 2 \<or> model_handles d ! nat h \<noteq> h")
    case False
    then have "nat h < 2" by auto
    from drop_handle_inv(1) [OF ok this] False show ?thesis unfolding eq by (simp only: if_False)
  qed (use a(2) in \<open>simp only: eq if_True\<close>)
  show "quota i (snd (stdev_unload_sound_model E ws h d)) \<le> quota i d" if "i < 2"
    unfolding eq using stop_l.quota [OF a that, of ws h] by (simp add: drop_handle_inv)
  show "mic_inv (snd (stdev_unload_sound_model E ws h d))" if "mixer_healthy E" "pcm_ready E" "mic_inv d"
    unfolding eq using stop_l.mic [OF a(1) that(1,2) a(2,3) that(3), of ws h] that(3) by (simp add: drop_handle_inv)
qed

text \<open>Starting: everything before the client is registered, and the registration.\<close>

lemma neutral_parse: "neutral d d' \<Longrightarrow> neutral d (ParseExtraConfigData E p d')"
  by (simp add: ParseExtraConfigData_def neutral_def Let_def split: option.split)

lemma neutral_configs: "length c = length (configs d') \<Longrightarrow> neutral d d' \<Longrightarrow> neutral d (d'\<lparr>configs := c\<rparr>)"
  by (simp add: neutral_def)

lemma neutral_mode [simp]: "neutral d (d'\<lparr>backlog_size := b, svoicemodel_mode := m\<rparr>) = neutral d d'"
  by (simp add: neutral_def)

lemma neutral_copy_config: "neutral d (snd (copy_config E h c d))"
proof -
  let ?d = "snd (syscall E malloc_config d)"
  have n: "neutral d ?d" by simp
  show ?thesis
    by (cases c) (auto simp: copy_config_def vts_unfold neutral_parse neutral_configs n)
qed

definition register :: "st_env \<Rightarrow> nat \<Rightarrow> int \<Rightarrow> int \<Rightarrow> stdev \<Rightarrow> stdev" where
  "register E h callback cookie d =
     (let d = d\<lparr>recognition_callbacks := (recognition_callbacks d)[h := callback],
                recognition_cookies := (recognition_cookies d)[h := cookie]\<rparr>
      in if is_streaming d = 0 \<or> has_bit (is_streaming d) h
         then stdev_vts_set_power E (stdev_active_callback_bitmask d) (stdev_vts_set_power E 0 d) else d)"

lemma register_props:
  assumes "st_ok E d" "h < 2"
  shows "st_ok E (register E h cb ck d)" "sthal_opened (register E h cb ck d) = sthal_opened d"
    "i < 2 \<Longrightarrow> quota i (register E h cb ck d) \<le> quota i d + (if i = h then 1 else 0)"
    "mixer_healthy E \<Longrightarrow> sthal_opened d \<Longrightarrow> mic_weak d \<Longrightarrow> mic_inv (register E h cb ck d)"
proof -
  define d1 where "d1 = d\<lparr>recognition_callbacks := (recognition_callbacks d)[h := cb],
    recognition_cookies := (recognition_cookies d)[h := ck]\<rparr>"
  have d1: "st_ok E d1" "sthal_opened d1 = sthal_opened d" "is_streaming d1 = is_streaming d" "mic_weak d1 = mic_weak d"
    using assms(1) by (simp_all add: d1_def st_ok_def st_ok_parts pcms_ok_def mic_weak_def)
  have q: "i < 2 \<Longrightarrow> quota i d1 \<le> quota i d + (if i = h then 1 else 0)"
    using assms by (simp add: d1_def quota_def st_ok_def shape_ok_def nth_list_update)
  have eq: "register E h cb ck d = (if is_streaming d1 = 0 \<or> has_bit (is_streaming d1) h
      then stdev_vts_set_power E (stdev_active_callback_bitmask d1) (stdev_vts_set_power E 0 d1) else d1)"
    unfolding register_def Let_def d1_def by simp
  show "st_ok E (register E h cb ck d)" "sthal_opened (register E h cb ck d) = sthal_opened d"
    using d1 by (simp_all add: eq set_power_ok)
  show "i < 2 \<Longrightarrow> quota i (register E h cb ck d) \<le> quota i d + (if i = h then 1 else 0)"
    using q by (cases "i = h") (simp_all add: eq)
  assume m: "mixer_healthy E" "sthal_opened d" "mic_weak d"
  note off = power_off_weak [OF m(1) d1(1)]
  have "mic_inv (stdev_vts_set_power E 0 (stdev_vts_set_power E 0 d1))"
    using power_off_weak [OF m(1) set_power_ok [OF d1(1)]] mic_inv_weak [OF off] d1(4) m(3) by simp
  then show "mic_inv (register E h cb ck d)"
    using power_cycle_weak [OF m(1) d1(1)] mic_weak_streaming [of d1] d1 m
    by (cases "stdev_active_callback_bitmask d1 = 0") (simp_all add: eq del: active_callback_bitmask_0)
qed

definition recovered :: "st_env \<Rightarrow> nat \<Rightarrow> stdev \<Rightarrow> stdev" where
  "recovered E h d = (if recognition_callbacks d ! h \<noteq> NULL \<and> stop_failed d then handle_stop_recognition_l E d else d)"

lemma start_eq:
  "stdev_start_recognition E handle config cb ck d =
     (if \<not> handle_matches d handle then (-ENOSYS, d)
      else let h = nat handle; d1 = recovered E h d; r2 = copy_config E h config d1; r3 = stdev_start_callback_thread E (snd r2);
               d4 = register E h cb ck (snd r3) in
        if voicecall_state d1 = VOICECALL_STARTED then (-EBUSY, d1)
        else if \<not> fst r2 then (-ENOMEM, snd r2)
        else if fst r3 \<noteq> 0 then r3
        else (0, d4\<lparr>model_stopfailedhandles := (model_stopfailedhandles d4)[h := HANDLE_NONE],
                    model_execstate := (model_execstate d4)[h := MODEL_STATE_RUNNING]\<rparr>))"
  unfolding stdev_start_recognition_def recovered_def register_def Let_def case_prod_unfold
  by (simp add: set_power_bitmask)

lemma start_props:
  assumes "pcm_fresh E" "st_ok E d" "sthal_opened d"
  shows "st_ok E (snd (stdev_start_recognition E handle config cb ck d))"
    "mixer_healthy E \<Longrightarrow> mic_inv d \<Longrightarrow> mic_inv (snd (stdev_start_recognition E handle config cb ck d))"
    "i < 2 \<Longrightarrow> quota i (snd (stdev_start_recognition E handle config cb ck d)) \<le>
       quota i d + (if fst (stdev_start_recognition E handle config cb ck d) = 0 \<and> int i = handle then 1 else 0)"
proof -
  define h where "h = nat handle"
  define d1 where "d1 = recovered E h d"
  define r2 where "r2 = copy_config E h config d1"
  define r3 where "r3 = stdev_start_callback_thread E (snd r2)"
  define d4 where "d4 = register E h cb ck (snd r3)"
  have d1: "keeps E d d1" by (simp add: d1_def recovered_def keeps_handle_stop)
  have n: "neutral d1 (snd r2)" by (simp add: r2_def neutral_copy_config)
  have ok1: "st_ok E d1" "sthal_opened d1" "i < 2 \<Longrightarrow> quota i d1 \<le> quota i d"
    using d1 assms(2,3) by (simp_all add: keeps_def)
  have ok2: "st_ok E (snd r2)" "sthal_opened (snd r2)"
    using ok1 n neutral_st_ok [OF n, of E] by (simp_all add: neutral_def)
  have ok3: "st_ok E (snd r3)" "sthal_opened (snd r3)" using ok2 by (simp_all add: r3_def start_thread_ok)
  have q3: "quota i (snd r3) = quota i d1" using neutral_quota [OF n] by (simp add: r3_def)
  have m1: "mixer_healthy E \<Longrightarrow> mic_inv d \<Longrightarrow> mic_inv d1"
    using handle_stop_mic [OF _ assms(2,3)] by (simp add: d1_def recovered_def)
  have m3: "mic_inv (snd r2) = mic_inv d1" "mic_inv (snd r3) = mic_inv d1"
    using neutral_mic_inv [OF n] by (simp_all add: r3_def)
  have eq: "stdev_start_recognition E handle config cb ck d =
     (if \<not> handle_matches d handle then (-ENOSYS, d)
      else if voicecall_state d1 = VOICECALL_STARTED then (-EBUSY, d1)
      else if \<not> fst r2 then (-ENOMEM, snd r2)
      else if fst r3 \<noteq> 0 then r3
      else (0, d4\<lparr>model_stopfailedhandles := (model_stopfailedhandles d4)[h := HANDLE_NONE],
                  model_execstate := (model_execstate d4)[h := MODEL_STATE_RUNNING]\<rparr>))"
    unfolding start_eq Let_def d1_def r2_def r3_def d4_def h_def by simp
  have h: "handle_matches d handle \<Longrightarrow> h < 2" by (simp add: h_def handle_matches_less)
  note reg = register_props [OF ok3(1), where cb = cb and ck = ck]
  show "st_ok E (snd (stdev_start_recognition E handle config cb ck d))"
    using assms(2) ok1(1) ok2(1) ok3(1) mark_state_ok [OF h reg(1) [OF h]] by (simp add: eq d4_def)
  show "mixer_healthy E \<Longrightarrow> mic_inv d \<Longrightarrow> mic_inv (snd (stdev_start_recognition E handle config cb ck d))"
    using m1 m3 reg(4) [OF h _ ok3(2) mic_inv_weak] by (simp add: eq d4_def)
  assume i: "i < 2"
  have q: "quota i d1 \<le> quota i d" "quota i (snd r2) \<le> quota i d" "quota i (snd r3) \<le> quota i d"
    using ok1(3) [OF i] q3 neutral_quota [OF n, of i] by simp_all
  have "handle_matches d handle \<Longrightarrow> quota i d4 \<le> quota i d + (if int i = handle then 1 else 0)"
    using q(3) reg(3) [OF h i] by (auto simp: d4_def h_def handle_matches_def split: if_splits)
  with q show "quota i (snd (stdev_start_recognition E handle config cb ck d)) \<le>
       quota i d + (if fst (stdev_start_recognition E handle config cb ck d) = 0 \<and> int i = handle then 1 else 0)"
    by (cases "int i = handle") (simp_all add: eq)
qed

interpretation start: device_op E sthal_opened "\<lambda>d. snd (stdev_start_recognition E h c cb ck d)" for E h c cb ck
  by unfold_locales (simp_all add: start_props(1,2))

text \<open>Loading a model writes it through the file system or the mapping; only its own fields change.\<close>


lemma neutral_write_loop:
  assumes "write_loop E fd data len written d = Some r"
  shows "neutral d (snd r)"
proof (rule write_loop.raw_induct [where P = "\<lambda>E fd data len written d r. neutral d (snd r)", OF _ assms])
  fix loop E fd data len written d r
  let ?c = "sys_write fd (take (nat len) (drop (nat written) data))"
  have n: "neutral d (snd (syscall E ?c d))" by simp
  assume IH: "\<And>E fd data len written d r. loop E fd data len written d = Some r \<Longrightarrow> neutral d (snd r)"
    and body: "(if len = 0 then Some (0, d)
          else let r = syscall E ?c d in if fst r < 0 then Some (fst r, snd r)
               else loop E fd data (len - fst r) (written + fst r) (snd r)) = Some r"
  show "neutral d (snd r)"
  proof (cases "len = 0 \<or> fst (syscall E ?c d) < 0")
    case True
    then show ?thesis using body n by (auto simp: Let_def split: if_splits)
  next
    case False
    then have "loop E fd data (len - fst (syscall E ?c d)) (written + fst (syscall E ?c d)) (snd (syscall E ?c d)) = Some r"
      using body by (simp add: Let_def)
    from neutral_trans [OF n IH [OF this]] show ?thesis .
  qed
qed

lemma neutral_vts_load: "vts_load_sound_model E buf len i d = Some r \<Longrightarrow> neutral d (snd r)"
proof -
  have f: "sysfs_write E path buf len d = Some r \<Longrightarrow> neutral d (snd r)" for path
    using neutral_trans [OF neutral_syscall neutral_write_loop, of "sys_open path" d d E _ buf "int len" 0]
    by (auto simp: sysfs_write_def vts_unfold split: if_splits option.splits simp del: log_calls_simps intro!: neutral_emit)
  have m: "neutral d (snd (load_modelbinary E i buf len d))"
    by (simp add: load_modelbinary_def vts_unfold del: log_calls_simps)
  show "vts_load_sound_model E buf len i d = Some r \<Longrightarrow> neutral d (snd r)"
    using f m by (auto simp: vts_load_sound_model_def split: if_splits)
qed

definition load_state :: "stdev \<Rightarrow> (int \<times> int option \<times> stdev) option \<Rightarrow> stdev" where
  "load_state d r = (case r of None \<Rightarrow> d | Some (_, _, d') \<Rightarrow> d')"

lemma model_index_less: "model_index_of m g = Some (i, g') \<Longrightarrow> i < 2"
  by (auto simp: model_index_of_def split: sound_model_type.splits if_splits)

lemma load_state_eq:
  "load_state d (stdev_load_sound_model E sm nh cb ck d) =
     (case sm of None \<Rightarrow> d
      | Some m \<Rightarrow>
          if nh \<or> sm_data_size m = 0 \<or> sm_data_offset m < sizeof_sound_model E then d
          else case model_index_of m (is_generic d) of None \<Rightarrow> d
          | Some (i, g) \<Rightarrow>
              (let d1 = d\<lparr>is_generic := g\<rparr> in
               if model_handles d ! i \<noteq> -1 then d1
               else case vts_load_sound_model E (drop (sm_data_offset m) (sm_bytes m)) (sm_data_size m) i d1 of None \<Rightarrow> d
               | Some (ret, d2) \<Rightarrow> if ret \<noteq> 0 then d2
                   else d2\<lparr>model_handles := (model_handles d2)[i := int i],
                           sound_model_callbacks := (sound_model_callbacks d2)[i := cb],
                           sound_model_cookies := (sound_model_cookies d2)[i := ck]\<rparr>))"
  by (simp add: load_state_def stdev_load_sound_model_def Let_def split: option.split)

lemma load_cases:
  obtains d' where "neutral d d'" "load_state d (stdev_load_sound_model E sm nh cb ck d) = d'"
  | d' i where "neutral d d'" "i < 2"
      "load_state d (stdev_load_sound_model E sm nh cb ck d) =
        d'\<lparr>model_handles := (model_handles d')[i := int i], sound_model_callbacks := (sound_model_callbacks d')[i := cb],
           sound_model_cookies := (sound_model_cookies d')[i := ck]\<rparr>"
proof (cases "\<exists>m i g d2. sm = Some m \<and> \<not> (nh \<or> sm_data_size m = 0 \<or> sm_data_offset m < sizeof_sound_model E) \<and>
    model_index_of m (is_generic d) = Some (i, g) \<and> model_handles d ! i = -1 \<and>
    vts_load_sound_model E (drop (sm_data_offset m) (sm_bytes m)) (sm_data_size m) i (d\<lparr>is_generic := g\<rparr>) = Some (0, d2)")
  case True
  then obtain m i g d2 where *: "sm = Some m" "\<not> (nh \<or> sm_data_size m = 0 \<or> sm_data_offset m < sizeof_sound_model E)"
    "model_index_of m (is_generic d) = Some (i, g)" "model_handles d ! i = -1"
    "vts_load_sound_model E (drop (sm_data_offset m) (sm_bytes m)) (sm_data_size m) i (d\<lparr>is_generic := g\<rparr>) = Some (0, d2)"
    by blast
  have "neutral d (d\<lparr>is_generic := g\<rparr>)" by (simp add: neutral_def)
  from neutral_trans [OF this neutral_vts_load [OF *(5)]] have "neutral d d2" by simp
  from that(2) [OF this model_index_less [OF *(3)]] * show thesis by (simp add: load_state_eq)
next
  case False
  have "neutral d (d\<lparr>is_generic := g\<rparr>)" for g by (simp add: neutral_def)
  then have "neutral d d2" if "vts_load_sound_model E b n i (d\<lparr>is_generic := g\<rparr>) = Some (r, d2)" for b n i g r d2
    using neutral_trans [OF _ neutral_vts_load [OF that]] by simp
  then have "neutral d (load_state d (stdev_load_sound_model E sm nh cb ck d))"
    using False unfolding load_state_eq by (auto simp: Let_def neutral_def split: option.split)
  then show thesis using that(1) by blast
qed

lemma set_handle_ok:
  assumes "st_ok E d" "i < 2" "length a = length (sound_model_callbacks d)" "length b = length (sound_model_cookies d)"
  shows "st_ok E (d\<lparr>model_handles := (model_handles d)[i := int i], sound_model_callbacks := a, sound_model_cookies := b\<rparr>)"
  using assms unfolding st_ok_def
proof (elim conjE, intro conjI)
  assume "handles_ok d" "shape_ok d"
  then show "handles_ok (d\<lparr>model_handles := (model_handles d)[i := int i], sound_model_callbacks := a, sound_model_cookies := b\<rparr>)"
    using assms(2) by (auto simp: handles_ok_def shape_ok_def nth_list_update)
qed (simp_all add: shape_ok_def masks_ok_def thread_ok_def stream_ok_def pcms_ok_def)

interpretation load: client_op E "\<lambda>_. True" "\<lambda>d. load_state d (stdev_load_sound_model E sm nh cb ck d)" for E sm nh cb ck
proof
  fix d i
  assume a: "st_ok E d"
  let ?d = "load_state d (stdev_load_sound_model E sm nh cb ck d)"
  have "st_ok E ?d \<and> mic_inv ?d = mic_inv d \<and> quota i ?d = quota i d"
  proof (rule load_cases [of d E sm nh cb ck])
    fix d' assume "neutral d d'" "?d = d'"
    then show ?thesis using a by (simp add: neutral_st_ok neutral_mic_inv neutral_quota)
  next
    fix d' j
    assume n: "neutral d d'" and j: "j < 2"
      and d: "?d = d'\<lparr>model_handles := (model_handles d')[j := int j], sound_model_callbacks := (sound_model_callbacks d')[j := cb],
        sound_model_cookies := (sound_model_cookies d')[j := ck]\<rparr>"
    have "st_ok E d'" using a neutral_st_ok [OF n, of E] by simp
    from set_handle_ok [OF this j length_list_update length_list_update] neutral_mic_inv [OF n] neutral_quota [OF n, of i]
    show ?thesis by (simp add: d mic_inv_def has_client_def quota_def)
  qed
  then show "st_ok E ?d" "mic_inv d \<Longrightarrow> mic_inv ?d" "quota i ?d \<le> quota i d" by simp_all
qed

section \<open>Streaming and recording operations\<close>

text \<open>Opening a pcm node: the log and the field that holds it.\<close>

definition opened_pcm :: "st_env \<Rightarrow> nat \<Rightarrow> nat \<Rightarrow> stdev \<Rightarrow> int" where
  "opened_pcm E crd nd d = sys E (calls d) (pcm_open crd nd)"

definition pcm_opened_log :: "st_env \<Rightarrow> nat \<Rightarrow> nat \<Rightarrow> stdev \<Rightarrow> st_call list" where
  "pcm_opened_log E crd nd d =
     (if opened_pcm E crd nd d \<noteq> NULL then pcm_is_ready (opened_pcm E crd nd d) # pcm_open crd nd # calls d
      else pcm_open crd nd # calls d)"

lemma pcm_opened_log_props:
  "live_pcms E (pcm_opened_log E crd nd d) = insert (opened_pcm E crd nd d) (live_pcms E (calls d)) - {NULL}"
  "pcm_safe E (pcm_opened_log E crd nd d) = pcm_safe E (calls d)"
  "callback_count i (pcm_opened_log E crd nd d) = callback_count i (calls d)"
  by (auto simp: pcm_opened_log_def opened_pcm_def callback_count_Cons)

lemma fresh_pcm: "pcm_fresh E \<Longrightarrow> opened_pcm E crd nd d \<notin> live_pcms E (calls d)"
  by (simp add: pcm_fresh_def opened_pcm_def)

lemma open_recording_pcm_eq:
  "snd (open_recording_pcm E d) = d\<lparr>recording_pcm := opened_pcm E (VTS_SOUND_CARD E) (VTS_RECORD_DEVICE_NODE E) d,
     calls := pcm_opened_log E (VTS_SOUND_CARD E) (VTS_RECORD_DEVICE_NODE E) d\<rparr>"
  "pcm_ready E \<Longrightarrow> \<not> fst (open_recording_pcm E d)"
  by (simp_all add: open_recording_pcm_def syscall_def pcm_opened_log_def opened_pcm_def pcm_ready_def Let_def case_prod_unfold)

lemma store_recording_ok:
  assumes "pcm_fresh E" "st_ok E d"
  shows "st_ok E (d\<lparr>recording_pcm := opened_pcm E c n d, calls := pcm_opened_log E c n d\<rparr>)"
  using assms(2) fresh_pcm [OF assms(1), of c n d]
  by (auto simp: st_ok_def st_ok_parts pcms_ok_def pcm_opened_log_props)

lemma store_streaming_ok:
  assumes "pcm_fresh E" "st_ok E d" "is_streaming d \<noteq> 0"
  shows "st_ok E (d\<lparr>streaming_pcm := opened_pcm E c n d, calls := pcm_opened_log E c n d\<rparr>)"
  using assms(2,3) fresh_pcm [OF assms(1), of c n d]
  by (auto simp: st_ok_def st_ok_parts pcms_ok_def pcm_opened_log_props)

lemma close_recording_pcm_ok: "st_ok E d \<Longrightarrow> st_ok E (close_recording_pcm d)"
  by (auto simp: close_recording_pcm_def log_calls_def st_ok_def st_ok_parts pcms_ok_def)

lemma close_recording_pcm_fields [simp]:
  "recognize_started (close_recording_pcm d) = recognize_started d" "is_mic_configured (close_recording_pcm d) = is_mic_configured d"
  "mixer (close_recording_pcm d) = mixer d" "sthal_opened (close_recording_pcm d) = sthal_opened d"
  "recognition_callbacks (close_recording_pcm d) = recognition_callbacks d" "is_streaming (close_recording_pcm d) = is_streaming d"
  "is_recording (close_recording_pcm d) = is_recording d" "is_seamless_recording (close_recording_pcm d) = is_seamless_recording d"
  "callback_count i (calls (close_recording_pcm d)) = callback_count i (calls d)"
  by (simp_all add: close_recording_pcm_def log_calls_def callback_count_Cons)

lemma close_recording_pcm_inv [simp]:
  "mic_inv (close_recording_pcm d) = mic_inv d" "mic_weak (close_recording_pcm d) = mic_weak d"
  "quota i (close_recording_pcm d) = quota i d"
  by (simp_all add: mic_inv_def mic_weak_def has_client_def quota_def)

interpretation open_streaming: client_op E "\<lambda>_. True" "\<lambda>d. snd (sound_trigger_open_for_streaming E d)" for E
proof
  fix d i
  let ?c = "VTS_SOUND_CARD E" let ?n = "VTS_TRICAP_DEVICE_NODE E"
  let ?d = "d\<lparr>streaming_pcm := opened_pcm E ?c ?n d, calls := pcm_opened_log E ?c ?n d\<rparr>"
  define b where "b \<longleftrightarrow> \<not> sthal_opened d \<or> voicecall_state d = VOICECALL_STARTED \<or> is_streaming d = 0 \<or> is_seamless_recording d"
  define s where "s \<longleftrightarrow> opened_pcm E ?c ?n d = NULL \<or>
    sys E (pcm_open ?c ?n # calls d) (pcm_is_ready (opened_pcm E ?c ?n d)) \<noteq> 0"
  have same: "\<not> is_seamless_recording d' \<Longrightarrow> d'\<lparr>is_seamless_recording := False\<rparr> = d'" for d' :: stdev
    by simp
  have eq: "snd (sound_trigger_open_for_streaming E d) = (if b then d else ?d\<lparr>is_seamless_recording := s\<rparr>)"
  proof (cases b)
    case False
    then show ?thesis
      by (cases "opened_pcm E ?c ?n d = NULL"; cases s)
        (simp_all add: b_def s_def sound_trigger_open_for_streaming_def syscall_def pcm_opened_log_def opened_pcm_def Let_def same)
  qed (auto simp: b_def sound_trigger_open_for_streaming_def)
  have s: "s \<Longrightarrow> is_streaming d \<noteq> 0 \<or> b" by (simp add: b_def)
  show "quota i (snd (sound_trigger_open_for_streaming E d)) \<le> quota i d"
    by (simp add: eq quota_def pcm_opened_log_props)
  show "mic_inv d \<Longrightarrow> mic_inv (snd (sound_trigger_open_for_streaming E d))"
    by (simp add: eq mic_inv_def has_client_def)
  assume a: "pcm_fresh E" "st_ok E d"
  have "\<not> b \<Longrightarrow> st_ok E ?d" by (rule store_streaming_ok [OF a]) (simp add: b_def)
  then show "st_ok E (snd (sound_trigger_open_for_streaming E d))"
    using a s by (cases b) (simp_all add: eq st_ok_def stream_ok_def, simp_all add: st_ok_parts pcms_ok_def)
qed

lemma read_ok: "st_ok E d \<Longrightarrow> p \<in> live_pcms E (calls d) \<Longrightarrow> st_ok E (d\<lparr>calls := pcm_read p n # calls d\<rparr>)"
  by (simp add: st_ok_def st_ok_parts pcms_ok_def)

lemma read_inv [simp]:
  "mic_inv (d\<lparr>calls := cs\<rparr>) = mic_inv d" "quota i (d\<lparr>calls := pcm_read p n # calls d\<rparr>) = quota i d"
  by (simp_all add: mic_inv_def has_client_def quota_def callback_count_Cons)

interpretation read_samples: client_op E "\<lambda>_. True" "\<lambda>d. snd (sound_trigger_read_samples E h n d)" for E h n
proof -
  have eq: "snd (sound_trigger_read_samples E h n d) = d \<or>
    streaming_pcm d \<noteq> NULL \<and> snd (sound_trigger_read_samples E h n d) = d\<lparr>calls := pcm_read (streaming_pcm d) n # calls d\<rparr>" for d
    by (simp add: sound_trigger_read_samples_def read_samples_check_def read_samples_pcm_def syscall_def)
  show "client_op E (\<lambda>_. True) (\<lambda>d. snd (sound_trigger_read_samples E h n d))"
  proof
    fix d i
    show "st_ok E d \<Longrightarrow> st_ok E (snd (sound_trigger_read_samples E h n d))"
      using eq [of d] read_ok [of E d "streaming_pcm d" n] by (auto simp: st_ok_def [of E d] pcms_ok_def)
    show "quota i (snd (sound_trigger_read_samples E h n d)) \<le> quota i d"
      "mic_inv d \<Longrightarrow> mic_inv (snd (sound_trigger_read_samples E h n d))"
      using eq [of d] by auto
  qed
qed

interpretation read_recording: client_op E "\<lambda>_. True" "\<lambda>d. snd (sound_trigger_read_recording_samples E n d)" for E n
proof -
  have eq: "snd (sound_trigger_read_recording_samples E n d) = d \<or>
    recording_pcm d \<noteq> NULL \<and> snd (sound_trigger_read_recording_samples E n d) = d\<lparr>calls := pcm_read (recording_pcm d) n # calls d\<rparr>" for d
    by (simp add: sound_trigger_read_recording_samples_def syscall_def)
  show "client_op E (\<lambda>_. True) (\<lambda>d. snd (sound_trigger_read_recording_samples E n d))"
  proof
    fix d i
    show "st_ok E d \<Longrightarrow> st_ok E (snd (sound_trigger_read_recording_samples E n d))"
      using eq [of d] read_ok [of E d "recording_pcm d" n] by (auto simp: st_ok_def [of E d] pcms_ok_def)
    show "quota i (snd (sound_trigger_read_recording_samples E n d)) \<le> quota i d"
      "mic_inv d \<Longrightarrow> mic_inv (snd (sound_trigger_read_recording_samples E n d))"
      using eq [of d] by auto
  qed
qed

definition closed_stream :: "stdev \<Rightarrow> stdev" where
  "closed_stream d = (emit (pcm_close (streaming_pcm d)) d)\<lparr>streaming_pcm := NULL, is_seamless_recording := False\<rparr>"

lemma closed_stream_props:
  "st_ok E d \<Longrightarrow> st_ok E (closed_stream d)" "mic_inv (closed_stream d) = mic_inv d"
  "quota i (closed_stream d) = quota i d" "sthal_opened (closed_stream d) = sthal_opened d"
  "stdev_active_callback_bitmask (closed_stream d) = stdev_active_callback_bitmask d"
proof -
  show "st_ok E d \<Longrightarrow> st_ok E (closed_stream d)"
    by (simp add: closed_stream_def log_calls_def st_ok_def st_ok_parts pcms_ok_def) blast
qed (simp_all add: closed_stream_def log_calls_def mic_inv_def has_client_def quota_def callback_count_Cons
    active_callback_bitmask_eq)

lemma close_streaming_eq:
  "snd (sound_trigger_close_for_streaming E h d) =
     (if h \<le> 0 \<or> \<not> sthal_opened d \<or> voicecall_state d = VOICECALL_STARTED \<or> \<not> is_seamless_recording d \<or> is_streaming d = 0
      then d
      else let b = stdev_active_callback_bitmask d; d2 = stdev_vts_set_power E 0 (closed_stream d) in
        if b \<noteq> 0 then stdev_vts_set_power E b (snd (stdev_start_callback_thread E d2)) else d2)"
proof -
  have b: "stdev_active_callback_bitmask (closed_stream d) = stdev_active_callback_bitmask d"
    by (rule closed_stream_props)
  show ?thesis
    unfolding sound_trigger_close_for_streaming_def Let_def closed_stream_def [symmetric] b case_prod_unfold by simp
qed

interpretation close_streaming: client_op E "\<lambda>_. True" "\<lambda>d. snd (sound_trigger_close_for_streaming E h d)" for E h
proof
  fix d i
  define d2 where "d2 = stdev_vts_set_power E 0 (closed_stream d)"
  define b where "b = stdev_active_callback_bitmask d"
  have b': "has_client (snd (stdev_start_callback_thread E d2)) \<longleftrightarrow> b \<noteq> 0"
    by (simp add: has_client_def d2_def b_def closed_stream_def log_calls_def less_2_cases_iff) blast
  show "quota i (snd (sound_trigger_close_for_streaming E h d)) \<le> quota i d"
    by (simp add: close_streaming_eq closed_stream_props Let_def)
  assume a: "st_ok E d"
  have d2: "st_ok E d2" using closed_stream_props(1) [OF a] by (simp add: d2_def set_power_ok)
  then have d3: "sthal_opened d \<Longrightarrow> st_ok E (snd (stdev_start_callback_thread E d2))"
    by (rule start_thread_ok) (simp add: d2_def closed_stream_props)
  show "st_ok E (snd (sound_trigger_close_for_streaming E h d))"
    using a d2 d3 by (simp add: close_streaming_eq Let_def set_power_ok flip: d2_def del: active_callback_bitmask_0)
  assume m: "mixer_healthy E" "mic_inv d"
  have m2: "mic_inv d2"
    unfolding d2_def by (rule power_off_weak [OF m(1) closed_stream_props(1) [OF a]]) (simp add: mic_inv_weak closed_stream_props m)
  have "mic_inv (stdev_vts_set_power E b (snd (stdev_start_callback_thread E d2)))" if "b \<noteq> 0" "sthal_opened d"
    by (rule power_on_mic_inv)
      (use that b' m2 in \<open>simp_all add: mic_inv_def d2_def closed_stream_props\<close>)
  then show "mic_inv (snd (sound_trigger_close_for_streaming E h d))"
    using m(2) m2 by (simp add: close_streaming_eq Let_def flip: d2_def b_def del: active_callback_bitmask_0)
qed

lemma recording_flag_ok [simp]: "st_ok E (d\<lparr>is_recording := r\<rparr>) = st_ok E d"
  by (simp add: st_ok_def st_ok_parts pcms_ok_def)

lemma recording_flag_quota [simp]: "quota i (d\<lparr>is_recording := r\<rparr>) = quota i d"
  by (simp add: quota_def)

lemma mic_off_if_unused_props:
  "st_ok E d \<Longrightarrow> st_ok E (mic_off_if_unused E d)" "quota i (mic_off_if_unused E d) = quota i d"
  "sthal_opened (mic_off_if_unused E d) = sthal_opened d"
  by (simp_all add: mic_off_if_unused_def set_mic_ok)

lemma has_client_mic [simp]: "has_client (stdev_vts_set_mic E on d) = has_client d"
  by (simp add: has_client_def)

text \<open>The microphone goes off with the last user, so the recording may end.\<close>

lemma mic_off_if_unused_mic: "mic_inv d \<Longrightarrow> mic_inv ((mic_off_if_unused E d)\<lparr>is_recording := False\<rparr>)"
  by (auto simp: mic_off_if_unused_def mic_inv_def has_client_iff active_callback_bitmask_eq)

lemma open_recording_pcm_quota [simp]: "quota i (snd (open_recording_pcm E d)) = quota i d"
  by (simp add: open_recording_pcm_eq quota_def pcm_opened_log_props)

lemma open_recording_eq:
  "snd (sound_trigger_open_recording E d) =
     (if \<not> sthal_opened d \<or> voicecall_state d = VOICECALL_STARTED then d
      else let d1 = (if is_recording d then (mic_off_if_unused E (close_recording_pcm d))\<lparr>is_recording := False\<rparr> else d);
               r = open_recording_pcm E (stdev_vts_set_mic E True d1)
           in if fst r then snd r else (snd r)\<lparr>is_recording := True\<rparr>)"
  by (simp add: sound_trigger_open_recording_def Let_def case_prod_unfold)

interpretation open_recording: client_op E "\<lambda>_. True" "\<lambda>d. snd (sound_trigger_open_recording E d)" for E
proof
  fix d i
  define d1 where "d1 = (if is_recording d then (mic_off_if_unused E (close_recording_pcm d))\<lparr>is_recording := False\<rparr> else d)"
  define d2 where "d2 = stdev_vts_set_mic E True d1"
  define r where "r = open_recording_pcm E d2"
  have eq: "snd (sound_trigger_open_recording E d) =
     (if \<not> sthal_opened d \<or> voicecall_state d = VOICECALL_STARTED then d else if fst r then snd r else (snd r)\<lparr>is_recording := True\<rparr>)"
    unfolding open_recording_eq Let_def d1_def d2_def r_def by simp
  have q: "quota i (snd r) = quota i d"
    by (simp add: r_def d2_def d1_def mic_off_if_unused_props)
  then show "quota i (snd (sound_trigger_open_recording E d)) \<le> quota i d" by (simp add: eq)
  assume a: "pcm_fresh E" "st_ok E d"
  have "st_ok E d2" by (simp add: d2_def d1_def set_mic_ok mic_off_if_unused_props close_recording_pcm_ok a(2))
  then have "st_ok E (snd r)" by (simp add: r_def open_recording_pcm_eq store_recording_ok [OF a(1)])
  then show "st_ok E (snd (sound_trigger_open_recording E d))" using a by (simp add: eq)
  assume m: "mixer_healthy E" "pcm_ready E" "mic_inv d"
  have "mic_inv d1" using m(3) mic_off_if_unused_mic [of "close_recording_pcm d" E] by (simp add: d1_def)
  then have "mic_inv ((snd r)\<lparr>is_recording := True\<rparr>)"
    by (simp add: r_def d2_def open_recording_pcm_eq mic_inv_def has_client_def)
  then show "mic_inv (snd (sound_trigger_open_recording E d))"
    using m open_recording_pcm_eq(2) [OF m(2), of d2] by (simp add: eq r_def)
qed

definition stop_recovered :: "st_env \<Rightarrow> stdev \<Rightarrow> stdev" where
  "stop_recovered E d = (if stop_failed d then handle_stop_recognition_l E d else d)"

definition closed_recording :: "stdev \<Rightarrow> stdev" where
  "closed_recording d = (emit (pcm_close (recording_pcm d)) d)\<lparr>recording_pcm := NULL\<rparr>"

lemma closed_recording_props:
  "st_ok E d \<Longrightarrow> st_ok E (closed_recording d)" "mic_inv (closed_recording d) = mic_inv d"
  "quota i (closed_recording d) = quota i d"
proof -
  show "st_ok E d \<Longrightarrow> st_ok E (closed_recording d)"
    by (cases "recording_pcm d = NULL") (auto simp: closed_recording_def log_calls_def st_ok_def st_ok_parts pcms_ok_def)
qed (simp_all add: closed_recording_def log_calls_def mic_inv_def has_client_def quota_def callback_count_Cons)

lemma close_recording_eq:
  "snd (sound_trigger_close_recording E d) =
     (if \<not> sthal_opened d \<or> voicecall_state d = VOICECALL_STARTED then d
      else let d1 = stop_recovered E d in
        if \<not> is_recording d1 then d1 else (mic_off_if_unused E (closed_recording d1))\<lparr>is_recording := False\<rparr>)"
  unfolding sound_trigger_close_recording_def Let_def stop_recovered_def closed_recording_def by simp

interpretation close_recording: client_op E "\<lambda>_. True" "\<lambda>d. snd (sound_trigger_close_recording E d)" for E
proof
  fix d i
  define d1 where "d1 = stop_recovered E d"
  have k: "keeps E d d1" by (simp add: d1_def stop_recovered_def keeps_handle_stop)
  have eq: "snd (sound_trigger_close_recording E d) =
     (if \<not> sthal_opened d \<or> voicecall_state d = VOICECALL_STARTED then d
      else if \<not> is_recording d1 then d1 else (mic_off_if_unused E (closed_recording d1))\<lparr>is_recording := False\<rparr>)"
    unfolding close_recording_eq Let_def d1_def by simp
  assume a: "st_ok E d"
  have d1: "sthal_opened d \<Longrightarrow> st_ok E d1" "sthal_opened d \<Longrightarrow> i < 2 \<Longrightarrow> quota i d1 \<le> quota i d"
    using k a by (simp_all add: keeps_def)
  show "st_ok E (snd (sound_trigger_close_recording E d))"
    using a d1(1) by (simp add: eq mic_off_if_unused_props closed_recording_props)
  show "quota i (snd (sound_trigger_close_recording E d)) \<le> quota i d" if "i < 2"
    using d1(2) that by (simp add: eq mic_off_if_unused_props closed_recording_props)
  assume m: "mixer_healthy E" "mic_inv d"
  have "sthal_opened d \<Longrightarrow> mic_inv d1" using handle_stop_mic [OF m(1) a _ m(2)] m(2) by (simp add: d1_def stop_recovered_def)
  then show "mic_inv (snd (sound_trigger_close_recording E d))"
    using m(2) mic_off_if_unused_mic [of "closed_recording d1" E] by (simp add: eq closed_recording_props)
qed

section \<open>Status notifications\<close>

lemma close_streaming_pcm_props:
  "st_ok E d \<Longrightarrow> st_ok E ((close_streaming_pcm d)\<lparr>is_seamless_recording := False\<rparr>)"
  "mic_weak ((close_streaming_pcm d)\<lparr>is_seamless_recording := False\<rparr>) = mic_weak d"
  "quota i ((close_streaming_pcm d)\<lparr>is_seamless_recording := False\<rparr>) = quota i d"
proof -
  show "st_ok E d \<Longrightarrow> st_ok E ((close_streaming_pcm d)\<lparr>is_seamless_recording := False\<rparr>)"
    by (simp add: close_streaming_pcm_def log_calls_def st_ok_def st_ok_parts pcms_ok_def) blast
qed (simp_all add: close_streaming_pcm_def log_calls_def mic_weak_def quota_def callback_count_Cons)

lemma close_pcms_props:
  "st_ok E d \<Longrightarrow> st_ok E (close_pcms d)" "mic_weak (close_pcms d) = mic_weak d" "quota i (close_pcms d) = quota i d"
  "\<not> is_recording (close_pcms d)" "is_streaming (close_pcms d) = is_streaming d" "sthal_opened (close_pcms d) = sthal_opened d"
  "recognition_callbacks (close_pcms d) = recognition_callbacks d" "mixer (close_pcms d) = mixer d"
proof -
  let ?d = "if is_recording d then (close_recording_pcm d)\<lparr>is_recording := False\<rparr> else d"
  have eq: "close_pcms d = (if is_streaming ?d \<noteq> 0 then (close_streaming_pcm ?d)\<lparr>is_seamless_recording := False\<rparr> else ?d)"
    by (simp add: close_pcms_def Let_def)
  have d: "st_ok E d \<Longrightarrow> st_ok E ?d" "mic_weak ?d = mic_weak d" "quota i ?d = quota i d" "\<not> is_recording ?d"
    by (simp_all add: close_recording_pcm_ok) (simp_all add: mic_weak_def)
  show "st_ok E d \<Longrightarrow> st_ok E (close_pcms d)" "mic_weak (close_pcms d) = mic_weak d" "quota i (close_pcms d) = quota i d"
    unfolding eq using d close_streaming_pcm_props(1) [of E ?d] close_streaming_pcm_props(2) [of ?d] close_streaming_pcm_props(3) [of i ?d] by simp_all
  show "\<not> is_recording (close_pcms d)" "is_streaming (close_pcms d) = is_streaming d" "sthal_opened (close_pcms d) = sthal_opened d"
    "recognition_callbacks (close_pcms d) = recognition_callbacks d" "mixer (close_pcms d) = mixer d"
    by (simp_all add: eq close_streaming_pcm_def log_calls_def)
qed

text \<open>After the pcm nodes are closed and the VTS is powered down, the microphone is off.\<close>

lemma close_and_power_off:
  assumes "mixer_healthy E" "st_ok E d" "mic_weak d"
  shows "\<not> is_mic_configured (stdev_vts_set_power E 0 (close_pcms d))" "recognize_started (stdev_vts_set_power E 0 (close_pcms d)) = 0"
  using power_off_flags [OF assms(1), of "close_pcms d"] close_pcms_props(1) [OF assms(2)] close_pcms_props(2,4) [of d] assms(3)
  by (simp_all add: st_ok_def masks_ok_def mic_weak_def)

interpretation voicecall: client_op E "\<lambda>_. True" "\<lambda>d. snd (sound_trigger_voicecall_status E s d)" for E s
proof
  fix d i
  define d1 where "d1 = (if is_streaming d \<noteq> 0 then (close_pcms d)\<lparr>is_streaming := 0\<rparr> else close_pcms d)"
  define d2 where "d2 = stdev_vts_set_power E 0 d1"
  define d3 where "d3 = d2\<lparr>recognition_callbacks := (recognition_callbacks d2)[HOTWORD_INDEX := NULL, SVOICE_INDEX := NULL]\<rparr>"
  have same: "d2 = stdev_vts_set_power E 0 (close_pcms d)"
    by (simp add: d2_def d1_def stdev_vts_set_power_def close_streaming_pcm_def log_calls_def)
  define v where "v = (if s = 1 then VOICECALL_STARTED else VOICECALL_STOPPED)"
  have eq: "snd (sound_trigger_voicecall_status E s d) =
     (if \<not> sthal_opened d then d else (if s = 1 \<and> is_mic_configured d then d3 else d)\<lparr>voicecall_state := v\<rparr>)"
    unfolding sound_trigger_voicecall_status_def d1_def d2_def d3_def v_def Let_def by simp
  have v: "st_ok E (x\<lparr>voicecall_state := v\<rparr>) = st_ok E x" "mic_inv (x\<lparr>voicecall_state := v\<rparr>) = mic_inv x"
    "quota i (x\<lparr>voicecall_state := v\<rparr>) = quota i x" for x
    by (simp_all add: st_ok_def st_ok_parts pcms_ok_def mic_inv_def has_client_def quota_def)
  assume a: "st_ok E d"
  have d2: "st_ok E d2" unfolding same by (rule set_power_ok [OF close_pcms_props(1) [OF a]])
  then have d3: "st_ok E d3" by (simp add: d3_def st_ok_def st_ok_parts pcms_ok_def)
  with a show "st_ok E (snd (sound_trigger_voicecall_status E s d))" by (simp add: eq v)
  show "quota i (snd (sound_trigger_voicecall_status E s d)) \<le> quota i d" if "i < 2"
  proof -
    have "quota i d2 = quota i d" unfolding same by (simp add: close_pcms_props)
    moreover have "quota i d3 \<le> quota i d2"
      using d2 that by (auto simp: d3_def quota_def st_ok_def shape_ok_def nth_list_update less_2_cases_iff)
    ultimately show ?thesis by (simp add: eq v)
  qed
  assume m: "mixer_healthy E" "mic_inv d"
  have "\<not> is_mic_configured d2" "recognize_started d2 = 0"
    unfolding same by (rule close_and_power_off [OF m(1) a mic_inv_weak [OF m(2)]])+
  then have "mic_inv d3" by (simp add: d3_def mic_inv_def)
  with m(2) show "mic_inv (snd (sound_trigger_voicecall_status E s d))" by (simp add: eq v)
qed

interpretation notify: client_op E "\<lambda>_. True" "\<lambda>d. snd (sound_trigger_notify_ahal_record_status E s d)" for E s
proof
  fix d i
  show "st_ok E d \<Longrightarrow> st_ok E (snd (sound_trigger_notify_ahal_record_status E s d))"
    "quota i (snd (sound_trigger_notify_ahal_record_status E s d)) \<le> quota i d"
    "mixer_healthy E \<Longrightarrow> st_ok E d \<Longrightarrow> mic_inv d \<Longrightarrow> mic_inv (snd (sound_trigger_notify_ahal_record_status E s d))"
    by (simp_all add: sound_trigger_notify_ahal_record_status_def set_power_ok power_off_weak mic_inv_weak)
qed

lemma reopen_recording_props:
  assumes "pcm_fresh E" "st_ok E d"
  shows "st_ok E (snd (reopen_recording E d))" "quota i (snd (reopen_recording E d)) = quota i d"
    "mic_inv d \<Longrightarrow> mic_inv (snd (reopen_recording E d))"
proof -
  let ?d = "stdev_vts_set_mic E True d"
  have d: "st_ok E ?d" by (rule set_mic_ok [OF assms(2)])
  have m: "is_recording d \<Longrightarrow> mic_inv d \<Longrightarrow> mic_inv ?d" by (simp add: mic_inv_def has_client_def)
  have o: "st_ok E (snd (open_recording_pcm E ?d))" "mic_inv (snd (open_recording_pcm E ?d)) = mic_inv ?d"
    by (simp_all add: open_recording_pcm_eq store_recording_ok [OF assms(1) d]) (simp add: mic_inv_def has_client_def)
  show "st_ok E (snd (reopen_recording E d))" "quota i (snd (reopen_recording E d)) = quota i d"
    "mic_inv d \<Longrightarrow> mic_inv (snd (reopen_recording E d))"
    using assms(2) d m o by (simp_all add: reopen_recording_def Let_def)
qed

lemma reopen_streaming_eq:
  "snd (reopen_streaming E d) =
     (let p = opened_pcm E (VTS_SOUND_CARD E) (VTS_TRICAP_DEVICE_NODE E) d;
          d1 = d\<lparr>streaming_pcm := p, calls := pcm_opened_log E (VTS_SOUND_CARD E) (VTS_TRICAP_DEVICE_NODE E) d\<rparr> in
      if \<not> (is_streaming d \<noteq> 0 \<and> is_seamless_recording d \<and> streaming_pcm d = NULL) then d
      else if p \<noteq> NULL \<and> sys E (pcm_open (VTS_SOUND_CARD E) (VTS_TRICAP_DEVICE_NODE E) # calls d) (pcm_is_ready p) = 0
      then close_recording_pcm d1 else d1)"
proof (cases "opened_pcm E (VTS_SOUND_CARD E) (VTS_TRICAP_DEVICE_NODE E) d = NULL")
  case True
  then show ?thesis by (simp add: reopen_streaming_def opened_pcm_def pcm_opened_log_def syscall_def Let_def)
next
  case False
  then have "d\<lparr>calls := c # cs, streaming_pcm := q, calls := e # c # cs\<rparr> = d\<lparr>streaming_pcm := q, calls := e # c # cs\<rparr>" for c cs q e
    by simp
  with False show ?thesis by (simp add: reopen_streaming_def opened_pcm_def pcm_opened_log_def syscall_def Let_def)
qed

lemma store_streaming_inv:
  "mic_inv (d\<lparr>streaming_pcm := p\<rparr>) = mic_inv d"
  "quota i (d\<lparr>streaming_pcm := p, calls := pcm_opened_log E c n d\<rparr>) = quota i d"
  by (simp_all add: mic_inv_def has_client_def quota_def pcm_opened_log_props)

lemma reopen_streaming_props:
  assumes "pcm_fresh E" "st_ok E d"
  shows "st_ok E (snd (reopen_streaming E d))" "quota i (snd (reopen_streaming E d)) = quota i d"
    "mic_inv (snd (reopen_streaming E d)) = mic_inv d"
  by (simp_all add: reopen_streaming_eq Let_def assms store_streaming_ok [OF assms] close_recording_pcm_ok store_streaming_inv)

definition switched_mic :: "st_env \<Rightarrow> int \<Rightarrow> stdev \<Rightarrow> stdev" where
  "switched_mic E is_connected d =
     (let b = stdev_active_callback_bitmask d;
          d3 = (stdev_vts_set_power E 0 (close_pcms d))\<lparr>active_mic := mic_of is_connected, is_recording := is_recording d\<rparr>
      in if b \<noteq> 0 \<or> is_streaming d \<noteq> 0 then
           (stdev_vts_set_power E (b OR is_streaming d) d3)
             \<lparr>is_streaming := is_streaming d, is_seamless_recording := is_seamless_recording d\<rparr>
         else d3)"

lemma headset_eq:
  "snd (sound_trigger_headset_status E c d) =
     (if \<not> sthal_opened d then d
      else if is_mic_configured d then
        (let r = reopen_recording E (switched_mic E c d) in if fst r then snd r else snd (reopen_streaming E (snd r)))
      else d\<lparr>active_mic := mic_of c\<rparr>)"
proof -
  have "stdev_active_callback_bitmask (close_pcms d) = stdev_active_callback_bitmask d"
    by (simp add: active_callback_bitmask_eq close_pcms_props)
  then show ?thesis
    unfolding sound_trigger_headset_status_def switched_mic_def Let_def case_prod_unfold by simp
qed

lemma active_mic_inv [simp]:
  "st_ok E (d\<lparr>active_mic := m\<rparr>) = st_ok E d" "mic_inv (d\<lparr>active_mic := m\<rparr>) = mic_inv d" "quota i (d\<lparr>active_mic := m\<rparr>) = quota i d"
  by (simp_all add: st_ok_def st_ok_parts pcms_ok_def mic_inv_def has_client_def quota_def)

lemma switched_mic_props:
  assumes "st_ok E d"
  shows "st_ok E (switched_mic E c d)" "quota i (switched_mic E c d) = quota i d"
    "mixer_healthy E \<Longrightarrow> sthal_opened d \<Longrightarrow> mic_inv d \<Longrightarrow> mic_inv (switched_mic E c d)"
proof -
  define b where "b = stdev_active_callback_bitmask d"
  define d2 where "d2 = stdev_vts_set_power E 0 (close_pcms d)"
  define d3 where "d3 = d2\<lparr>active_mic := mic_of c, is_recording := is_recording d\<rparr>"
  define d4 where "d4 = stdev_vts_set_power E (b OR is_streaming d) d3"
  have eq: "switched_mic E c d = (if b \<noteq> 0 \<or> is_streaming d \<noteq> 0
      then d4\<lparr>is_streaming := is_streaming d, is_seamless_recording := is_seamless_recording d\<rparr> else d3)"
    unfolding switched_mic_def Let_def d2_def d3_def d4_def b_def by simp
  have d3: "st_ok E d3" using set_power_ok [OF close_pcms_props(1) [OF assms], of 0] by (simp add: d3_def d2_def)
  then have d4: "st_ok E d4" unfolding d4_def by (rule set_power_ok)
  have s: "is_streaming d \<in> {0, 1, 2}" "is_seamless_recording d \<Longrightarrow> is_streaming d \<noteq> 0" "streaming_pcm d4 = NULL"
    using assms by (simp_all add: st_ok_def masks_ok_def stream_ok_def d4_def)
  have "st_ok E (d4\<lparr>is_streaming := is_streaming d, is_seamless_recording := is_seamless_recording d\<rparr>)"
    using d4 s by (simp add: st_ok_def st_ok_parts pcms_ok_def)
  with d3 show "st_ok E (switched_mic E c d)" by (simp add: eq)
  have q: "quota i d2 = quota i d" by (simp add: d2_def close_pcms_props)
  then show "quota i (switched_mic E c d) = quota i d"
    by (simp add: eq d4_def d3_def) (simp add: quota_def)
  assume m: "mixer_healthy E" "sthal_opened d" "mic_inv d"
  have r: "\<not> is_mic_configured d3" "recognize_started d3 = 0"
    using close_and_power_off [OF m(1) assms mic_inv_weak [OF m(3)]] by (simp_all add: d3_def d2_def)
  have a: "b OR is_streaming d \<noteq> 0" if "b \<noteq> 0 \<or> is_streaming d \<noteq> 0" using that by (simp add: or_eq_0_iff)
  have "mixer d3 \<noteq> NULL" if "recognize_started d4 \<noteq> 0" "b OR is_streaming d \<noteq> 0"
    using power_on_without_mixer [OF that(2), of d3 E] that(1) r(2) by (auto simp: d4_def)
  moreover have "has_client d4 \<longleftrightarrow> b \<noteq> 0"
    by (simp add: has_client_def d4_def d3_def d2_def close_pcms_props b_def less_2_cases_iff) blast
  moreover have "is_mic_configured d4" "sthal_opened d4" "mixer d4 = mixer d3" if "b OR is_streaming d \<noteq> 0"
    using power_on_mic [OF that, of E d3] m(2) by (simp_all add: d4_def d3_def d2_def close_pcms_props)
  ultimately show "mic_inv (switched_mic E c d)"
    using r a by (auto simp: eq mic_inv_def has_client_def)
qed

interpretation headset: client_op E "\<lambda>_. True" "\<lambda>d. snd (sound_trigger_headset_status E c d)" for E c
proof
  fix d i
  assume a: "pcm_fresh E" "st_ok E d"
  note s = switched_mic_props [OF a(2), where c = c]
  note r = reopen_recording_props [OF a(1) s(1)]
  note t = reopen_streaming_props [OF a(1) r(1)]
  show "st_ok E (snd (sound_trigger_headset_status E c d))"
    using a(2) r(1) t(1) by (simp add: headset_eq Let_def)
  show "quota i (snd (sound_trigger_headset_status E c d)) \<le> quota i d"
    using s(2) r(2) t(2) by (simp add: headset_eq Let_def)
  show "mic_inv (snd (sound_trigger_headset_status E c d))" if "mixer_healthy E" "mic_inv d"
    using that(2) r(3) t(3) s(3) [OF that(1) _ that(2)] by (simp add: headset_eq Let_def)
qed

section \<open>Opening and closing\<close>

lemma join_off_flags:
  assumes "pcm_fresh E" "mixer_healthy E" "pcm_ready E" "st_ok E d" "mic_inv d"
  shows "recognize_started (stdev_join_callback_thread E ws False d) = 0"
    "is_mic_configured (stdev_join_callback_thread E ws False d) \<Longrightarrow> is_recording (stdev_join_callback_thread E ws False d)"
proof -
  let ?d = "end_thread E ws d"
  note t = end_thread_props [OF assms(1,4), where ws = ws]
  have "recognize_started ?d \<in> {0..3}" "recognize_started ?d \<noteq> 0 \<longrightarrow> mixer ?d \<noteq> NULL"
    using t(1) t(4) [OF assms(2,3,5)] by (simp_all add: st_ok_def masks_ok_def mic_inv_def)
  from power_off_flags [OF assms(2) this]
  show "recognize_started (stdev_join_callback_thread E ws False d) = 0"
    "is_mic_configured (stdev_join_callback_thread E ws False d) \<Longrightarrow> is_recording (stdev_join_callback_thread E ws False d)"
    by (simp_all add: join_eq)
qed

lemma close_mixer_eq: "stdev_close_mixer E ws d = emit (mixer_close (mixer (stdev_join_callback_thread E ws False (stdev_vts_set_power E 0 d))))
    (stdev_join_callback_thread E ws False (stdev_vts_set_power E 0 d))"
  by (simp add: stdev_close_mixer_def Let_def)

lemma close_mixer_props:
  assumes "pcm_fresh E" "st_ok E d"
  shows "st_ok E (stdev_close_mixer E ws d)" "\<not> callback_thread_active (stdev_close_mixer E ws d)"
    "cb_thread_of (stdev_close_mixer E ws d) = None"
    "i < 2 \<Longrightarrow> quota i (stdev_close_mixer E ws d) \<le> quota i d"
    "sthal_opened (stdev_close_mixer E ws d) = sthal_opened d"
    "mixer_healthy E \<Longrightarrow> pcm_ready E \<Longrightarrow> mic_inv d \<Longrightarrow> mic_inv (stdev_close_mixer E ws d) \<and>
       recognize_started (stdev_close_mixer E ws d) = 0 \<and>
       (is_mic_configured (stdev_close_mixer E ws d) \<longrightarrow> is_recording (stdev_close_mixer E ws d))"
proof -
  define d1 where "d1 = stdev_vts_set_power E 0 d"
  define d2 where "d2 = stdev_join_callback_thread E ws False d1"
  have eq: "stdev_close_mixer E ws d = emit (mixer_close (mixer d2)) d2" by (simp add: close_mixer_eq d1_def d2_def)
  have n: "neutral d2 (stdev_close_mixer E ws d)" by (simp add: eq del: log_calls_simps)
  have d1: "st_ok E d1" unfolding d1_def by (rule set_power_ok [OF assms(2)])
  have d2: "st_ok E d2" unfolding d2_def by (rule join.ok [OF assms(1) d1 TrueI])
  then show ok: "st_ok E (stdev_close_mixer E ws d)" by (simp add: neutral_st_ok [OF n])
  show na: "\<not> callback_thread_active (stdev_close_mixer E ws d)"
    using join_fields(1) [OF assms(1) d1, of ws False] n by (simp add: neutral_def d2_def)
  then show "cb_thread_of (stdev_close_mixer E ws d) = None" using ok by (simp add: st_ok_def thread_ok_def)
  show "i < 2 \<Longrightarrow> quota i (stdev_close_mixer E ws d) \<le> quota i d"
    using join.quota [OF assms(1) d1 TrueI, of i ws False] neutral_quota [OF n, of i] by (simp add: d2_def d1_def)
  show "sthal_opened (stdev_close_mixer E ws d) = sthal_opened d"
    using join_fields(2) [OF assms(1) d1, of ws False] n by (simp add: neutral_def d2_def d1_def)
  assume m: "mixer_healthy E" "pcm_ready E" "mic_inv d"
  have m1: "mic_inv d1" unfolding d1_def by (rule power_off_weak [OF m(1) assms(2) mic_inv_weak [OF m(3)]])
  show "mic_inv (stdev_close_mixer E ws d) \<and> recognize_started (stdev_close_mixer E ws d) = 0 \<and>
       (is_mic_configured (stdev_close_mixer E ws d) \<longrightarrow> is_recording (stdev_close_mixer E ws d))"
    using join.mic [OF assms(1) m(1,2) d1 TrueI m1, of ws False] join_off_flags [OF assms(1) m(1,2) d1 m1, of ws] n
      neutral_mic_inv [OF n] by (simp add: d2_def [symmetric] neutral_def)
qed

definition closed_device :: "stdev \<Rightarrow> stdev" where
  "closed_device d = d\<lparr>recognition_callbacks := replicate MAX_SOUND_MODELS NULL,
     sound_model_callbacks := replicate MAX_SOUND_MODELS NULL, configs := replicate MAX_SOUND_MODELS None, sthal_opened := False\<rparr>"

definition unmapped :: "st_env \<Rightarrow> stdev \<Rightarrow> stdev" where
  "unmapped E d = (if MMAP_INTERFACE_ENABLED E then
     (emit (sys_close (vtsdev_fd d)) (emit (munmap_dev (mapped_addr d) (VTSDRV_MISC_MODEL_BIN_MAXSZ E)) d))\<lparr>vtsdev_fd := -1\<rparr>
     else d)"

lemma neutral_vtsdev [simp]:
  "neutral d (d'\<lparr>vtsdev_fd := f\<rparr>) = neutral d d'" "neutral d (d'\<lparr>mapped_addr := m\<rparr>) = neutral d d'"
  by (simp_all add: neutral_def)

lemma neutral_unmapped: "neutral d (unmapped E d)"
  by (simp add: unmapped_def del: log_calls_simps)

lemma close_eq:
  "snd (stdev_close E ws d) = (if \<not> sthal_opened d then d
     else closed_device (unmapped E (stdev_close_mixer E [] (stdev_join_callback_thread E ws False d))))"
  unfolding stdev_close_def Let_def closed_device_def unmapped_def by simp

interpretation close: client_op E "\<lambda>_. True" "\<lambda>d. snd (stdev_close E ws d)" for E ws
proof
  fix d i
  assume a: "pcm_fresh E" "st_ok E d"
  define d1 where "d1 = stdev_join_callback_thread E ws False d"
  define d2 where "d2 = unmapped E (stdev_close_mixer E [] d1)"
  have eq: "snd (stdev_close E ws d) = (if \<not> sthal_opened d then d else closed_device d2)"
    by (simp add: close_eq d1_def d2_def)
  have d1: "st_ok E d1" unfolding d1_def by (rule join.ok [OF a TrueI])
  note c = close_mixer_props [OF a(1) d1, where ws = "[]"]
  have n: "neutral (stdev_close_mixer E [] d1) d2" unfolding d2_def by (rule neutral_unmapped)
  have d2: "st_ok E d2" "cb_thread_of d2 = None" "\<not> callback_thread_active d2"
    using c(1-3) n neutral_st_ok [OF n, of E] by (simp_all add: neutral_def)
  then have "st_ok E (closed_device d2)" by (simp add: closed_device_def st_ok_def st_ok_parts pcms_ok_def)
  then show "st_ok E (snd (stdev_close E ws d))" using a(2) by (simp add: eq)
  show "quota i (snd (stdev_close E ws d)) \<le> quota i d" if "i < 2"
  proof -
    have "quota i (closed_device d2) \<le> quota i d2"
      using that by (simp add: closed_device_def quota_def)
    also have "\<dots> \<le> quota i d1" using neutral_quota [OF n] c(4) [OF that] by simp
    also have "\<dots> \<le> quota i d" unfolding d1_def by (rule join.quota [OF a TrueI that])
    finally show ?thesis by (simp add: eq)
  qed
  assume m: "mixer_healthy E" "pcm_ready E" "mic_inv d"
  have "mic_inv d1" unfolding d1_def by (rule join.mic [OF a(1) m(1,2) a(2) TrueI m(3)])
  from c(6) [OF m(1,2) this] n have "recognize_started d2 = 0" "is_mic_configured d2 \<longrightarrow> is_recording d2"
    by (simp_all add: neutral_def)
  then have "mic_inv (closed_device d2)" by (simp add: closed_device_def mic_inv_def)
  then show "mic_inv (snd (stdev_close E ws d))" using m(3) by (simp add: eq)
qed

lemma neutral_open_vtsdev: "neutral d (snd (open_vtsdev E d))"
  by (simp add: open_vtsdev_def vts_unfold del: log_calls_simps)

lemma neutral_link [simp]:
  "neutral d (d'\<lparr>audio_primary_lib := l\<rparr>) = neutral d d'" "neutral d (d'\<lparr>notify_sthal_status := f\<rparr>) = neutral d d'"
  by (simp_all add: neutral_def)

lemma neutral_link_audio_hal: "neutral d (snd (link_audio_hal E d))"
  by (simp add: link_audio_hal_def vts_unfold)

lemma init_mixer_props:
  assumes "st_ok E d" "\<not> sthal_opened d"
  shows "st_ok E (snd (stdev_init_mixer E d))" "quota i (snd (stdev_init_mixer E d)) = quota i d"
    "mic_inv d \<Longrightarrow> mic_inv (snd (stdev_init_mixer E d))" "\<not> sthal_opened (snd (stdev_init_mixer E d))"
proof -
  let ?d = "snd (syscall E (mixer_open (VTS_MIXER_CARD E)) d)"
  have n: "neutral d ?d" by simp
  have eq: "snd (stdev_init_mixer E d) = ?d\<lparr>mixer := fst (syscall E (mixer_open (VTS_MIXER_CARD E)) d)\<rparr>"
    by (simp add: stdev_init_mixer_def vts_unfold)
  show "st_ok E (snd (stdev_init_mixer E d))"
    using assms(1) neutral_st_ok [OF n, of E] by (simp add: eq st_ok_def st_ok_parts pcms_ok_def)
  show "quota i (snd (stdev_init_mixer E d)) = quota i d" using neutral_quota [OF n, of i] by (simp add: eq quota_def)
  show "mic_inv d \<Longrightarrow> mic_inv (snd (stdev_init_mixer E d))" "\<not> sthal_opened (snd (stdev_init_mixer E d))"
    using assms(2) n by (auto simp: eq mic_inv_def neutral_def has_client_def)
qed

lemma reset_device_props:
  assumes "st_ok E d" "\<not> sthal_opened d"
  shows "st_ok E (reset_device d)" "quota i (reset_device d) = quota i d" "mic_inv (reset_device d)"
proof -
  show "st_ok E (reset_device d)" using assms by (auto simp: reset_device_def st_ok_def st_ok_parts pcms_ok_def)
qed (simp_all add: reset_device_def quota_def mic_inv_def)

definition open_finish :: "st_env \<Rightarrow> stdev \<Rightarrow> stdev" where
  "open_finish E d =
     (let r = link_audio_hal E (reset_device d) in
      if \<not> fst r then stdev_close_mixer E [] (snd r)
      else snd (set_mixer_ctrls E [''VTS Force Reset''] (Some [1]) 1 False (snd r)))"

lemma open_eq:
  "snd (stdev_open E name d) =
     (if \<not> name \<or> sthal_opened d then d
      else let r1 = open_vtsdev E d; r2 = stdev_init_mixer E (snd r1) in
        if \<not> fst r1 then snd r1 else if fst r2 \<noteq> 0 then snd r2 else open_finish E (snd r2))"
  by (simp add: stdev_open_def open_finish_def vts_unfold)

lemma open_finish_props:
  assumes "pcm_fresh E" "st_ok E d" "\<not> sthal_opened d"
  shows "st_ok E (open_finish E d)" "i < 2 \<Longrightarrow> quota i (open_finish E d) \<le> quota i d"
    "mixer_healthy E \<Longrightarrow> pcm_ready E \<Longrightarrow> mic_inv (open_finish E d)"
proof -
  define r where "r = link_audio_hal E (reset_device d)"
  have n: "neutral (reset_device d) (snd r)" by (simp add: r_def neutral_link_audio_hal)
  have r: "st_ok E (snd r)" "quota i (snd r) = quota i d" "mic_inv (snd r)"
    using reset_device_props [OF assms(2,3)] neutral_st_ok [OF n, of E] neutral_quota [OF n, of i] neutral_mic_inv [OF n] by simp_all
  let ?m = "snd (set_mixer_ctrls E [''VTS Force Reset''] (Some [1]) 1 False (snd r))"
  have m: "st_ok E ?m" "quota i ?m = quota i (snd r)" "mic_inv ?m = mic_inv (snd r)"
    using mixer_keep_st_ok [OF set_mixer_ctrls_keep, of E] r(1) mixer_keep_quota [OF set_mixer_ctrls_keep]
    by (simp_all add: st_ok_def [of E "snd r"] masks_ok_def mic_inv_def has_client_def)
  have eq: "open_finish E d = (if \<not> fst r then stdev_close_mixer E [] (snd r) else ?m)"
    by (simp add: open_finish_def r_def Let_def)
  note c = close_mixer_props [OF assms(1) r(1), where ws = "[]"]
  show "st_ok E (open_finish E d)" "mixer_healthy E \<Longrightarrow> pcm_ready E \<Longrightarrow> mic_inv (open_finish E d)"
    using c(1,6) m r by (simp_all add: eq)
  show "i < 2 \<Longrightarrow> quota i (open_finish E d) \<le> quota i d" using c(4) [of i] m(2) r(2) by (simp add: eq)
qed

interpretation dev_open: client_op E "\<lambda>_. True" "\<lambda>d. snd (stdev_open E name d)" for E name
proof
  fix d i
  assume a: "pcm_fresh E" "st_ok E d"
  define r1 where "r1 = open_vtsdev E d"
  define r2 where "r2 = stdev_init_mixer E (snd r1)"
  have eq: "snd (stdev_open E name d) = (if \<not> name \<or> sthal_opened d then d
      else if \<not> fst r1 then snd r1 else if fst r2 \<noteq> 0 then snd r2 else open_finish E (snd r2))"
    by (simp add: open_eq r1_def r2_def Let_def)
  have n: "neutral d (snd r1)" by (simp add: r1_def neutral_open_vtsdev)
  have r1: "st_ok E (snd r1)" "quota i (snd r1) = quota i d" "mic_inv (snd r1) = mic_inv d" "sthal_opened (snd r1) = sthal_opened d"
    using a(2) n neutral_st_ok [OF n, of E] neutral_quota [OF n, of i] neutral_mic_inv [OF n] by (simp_all add: neutral_def)
  note r2 = init_mixer_props [OF r1(1), folded r2_def]
  note f = open_finish_props [OF a(1) r2(1,4)]
  show "st_ok E (snd (stdev_open E name d))" using a(2) r1 r2(1) f(1) by (simp add: eq)
  show "quota i (snd (stdev_open E name d)) \<le> quota i d" if "i < 2"
    using r1(2,4) r2(2) [of i] f(2) [of i] that by (simp add: eq)
  show "mic_inv (snd (stdev_open E name d))" if "mixer_healthy E" "pcm_ready E" "mic_inv d"
    using r1 r2(3) f(3) that by (simp add: eq)
qed

interpretation get_properties: client_op E "\<lambda>_. True" "\<lambda>d. snd (snd (stdev_get_properties E null_arg d))" for E null_arg
  by (rule client_op_neutral) (simp add: stdev_get_properties_def vts_unfold)

end
