(* ===== verification/St_Reach.thy ===== *)
theory St_Reach
  imports St_Invariant
begin

text \<open>
  The sound trigger HAL as a state machine: the operations as events, the states reachable by
  any interleaving of them with rounds of the callback thread, and the theorems about all of
  these states. A framework method is called only on an open device, as the framework's contract
  asks; the functions exported to the audio HAL may be called at any time.
\<close>

section \<open>Events and reachable states\<close>

datatype st_event =
    Open bool
  | Close "wake list"
  | Get_properties bool
  | Load "sound_model option" bool int int
  | Unload "wake list" int
  | Start int "(recognition_config \<times> string) option" int int
  | Start_extended int "recognition_config_extended_1_3 option" int int
  | Stop "wake list" nat int
  | Open_for_streaming
  | Read_samples int nat
  | Close_for_streaming int
  | Open_recording
  | Read_recording nat
  | Close_recording
  | Headset int
  | Voicecall int
  | Notify_record int
  | Thread_round wake

text \<open>The result of an event; \<open>None\<close> when the operation does not return or its behaviour is undefined.\<close>

fun st_exec :: "st_env \<Rightarrow> st_event \<Rightarrow> stdev \<Rightarrow> (int \<times> stdev) option" where
  "st_exec E (Open name) d = Some (stdev_open E name d)"
| "st_exec E (Close ws) d = Some (stdev_close E ws d)"
| "st_exec E (Get_properties null_arg) d = (let (r, _, d) = stdev_get_properties E null_arg d in Some (r, d))"
| "st_exec E (Load sm nh cb ck) d = (case stdev_load_sound_model E sm nh cb ck d of None \<Rightarrow> None | Some (r, _, d) \<Rightarrow> Some (r, d))"
| "st_exec E (Unload ws h) d = Some (stdev_unload_sound_model E ws h d)"
| "st_exec E (Start h c cb ck) d = Some (stdev_start_recognition E h c cb ck d)"
| "st_exec E (Start_extended h c cb ck) d = Some (stdev_start_recognition_extended E h c cb ck d)"
| "st_exec E (Stop ws n h) d = stdev_stop_recognition E ws n h d"
| "st_exec E Open_for_streaming d = Some (sound_trigger_open_for_streaming E d)"
| "st_exec E (Read_samples h n) d = (let (r, d) = sound_trigger_read_samples E h n d in Some (uint r, d))"
| "st_exec E (Close_for_streaming h) d = Some (sound_trigger_close_for_streaming E h d)"
| "st_exec E Open_recording d = Some (sound_trigger_open_recording E d)"
| "st_exec E (Read_recording n) d = (let (r, d) = sound_trigger_read_recording_samples E n d in Some (uint r, d))"
| "st_exec E Close_recording d = Some (sound_trigger_close_recording E d)"
| "st_exec E (Headset c) d = Some (sound_trigger_headset_status E c d)"
| "st_exec E (Voicecall s) d = Some (sound_trigger_voicecall_status E s d)"
| "st_exec E (Notify_record s) d = Some (sound_trigger_notify_ahal_record_status E s d)"
| "st_exec E (Thread_round w) d = Some (0, callback_thread_step E w d)"

fun framework_call :: "st_event \<Rightarrow> bool" where
  "framework_call (Load _ _ _ _) = True"
| "framework_call (Unload _ _) = True"
| "framework_call (Start _ _ _ _) = True"
| "framework_call (Start_extended _ _ _ _) = True"
| "framework_call (Stop _ _ _) = True"
| "framework_call (Get_properties _) = True"
| "framework_call _ = False"

text \<open>A run: the device it reaches and, for each model, how often its client registered.\<close>

fun registers :: "st_event \<Rightarrow> int \<Rightarrow> nat \<Rightarrow> nat" where
  "registers (Start h _ _ _) r i = (if r = 0 \<and> h = int i then 1 else 0)"
| "registers (Start_extended h _ _ _) r i = (if r = 0 \<and> h = int i then 1 else 0)"
| "registers _ r i = 0"

inductive st_reachable :: "st_env \<Rightarrow> (nat \<Rightarrow> nat) \<Rightarrow> stdev \<Rightarrow> bool" for E where
  init: "st_reachable E (\<lambda>_. 0) g_stdev"
| step: "st_reachable E starts d \<Longrightarrow> (framework_call e \<Longrightarrow> sthal_opened d) \<Longrightarrow> st_exec E e d = Some (r, d') \<Longrightarrow>
    st_reachable E (\<lambda>i. starts i + registers e r i) d'"

inductive_cases st_reachableE: "st_reachable E starts d"

lemma client_op_result:
  assumes "client_op E pre op" "pcm_fresh E" "st_ok E d" "pre d" "d' = op d"
  shows "st_ok E d' \<and> (mixer_healthy E \<and> pcm_ready E \<and> mic_inv d \<longrightarrow> mic_inv d') \<and> (i < 2 \<longrightarrow> quota i d' \<le> quota i d + n)"
  using assms(2-5) client_op.quota [OF assms(1-4), of i] client_op.axioms(1) [OF assms(1)]
  by (auto simp: device_op_def intro: trans_le_add1)

lemma exec_keeps:
  assumes "pcm_fresh E" "st_ok E d" "framework_call e \<Longrightarrow> sthal_opened d" "st_exec E e d = Some (r, d')"
  shows "st_ok E d' \<and> (mixer_healthy E \<and> pcm_ready E \<and> mic_inv d \<longrightarrow> mic_inv d') \<and>
    (i < 2 \<longrightarrow> quota i d' \<le> quota i d + registers e r i)"
proof (cases e)
  case (Open x)
  show ?thesis by (rule client_op_result [OF dev_open.client_op_axioms [of E x] assms(1,2) TrueI]) (use assms(4) Open in simp)
next
  case (Close ws)
  show ?thesis by (rule client_op_result [OF close.client_op_axioms [of E ws] assms(1,2) TrueI]) (use assms(4) Close in simp)
next
  case (Get_properties n)
  show ?thesis
    by (rule client_op_result [OF get_properties.client_op_axioms [of E n] assms(1,2) TrueI])
      (use assms(4) Get_properties in \<open>auto simp: Let_def case_prod_unfold\<close>)
next
  case (Load sm nh cb ck)
  show ?thesis
    by (rule client_op_result [OF load.client_op_axioms [of E sm nh cb ck] assms(1,2) TrueI])
      (use assms(4) Load in \<open>auto simp: load_state_def split: option.splits\<close>)
next
  case (Unload ws h)
  show ?thesis by (rule client_op_result [OF unload.client_op_axioms [of E ws h] assms(1,2)]) (use assms(3,4) Unload in simp_all)
next
  case (Start h c cb ck)
  have "sthal_opened d" "stdev_start_recognition E h c cb ck d = (r, d')" using assms(3,4) Start by simp_all
  then show ?thesis
    using start_props(1,2) [OF assms(1,2), of h c cb ck] start_props(3) [OF assms(1,2), of i h c cb ck] Start by (auto split: if_splits)
next
  case (Start_extended h c cb ck)
  define c' where "c' = map_option (\<lambda>c. (base c, extended_params c)) c"
  have "sthal_opened d" "stdev_start_recognition E h c' cb ck d = (r, d')"
    using assms(3,4) Start_extended by (simp_all add: stdev_start_recognition_extended_def c'_def)
  then show ?thesis
    using start_props(1,2) [OF assms(1,2), of h c' cb ck] start_props(3) [OF assms(1,2), of i h c' cb ck] Start_extended by (auto split: if_splits)
next
  case (Stop ws n h)
  show ?thesis
    by (rule client_op_result [OF stop.client_op_axioms [of E ws n h] assms(1,2)]) (use assms(3,4) Stop in \<open>simp_all add: state_of_def\<close>)
next
  case Open_for_streaming
  show ?thesis
    by (rule client_op_result [OF open_streaming.client_op_axioms [of E] assms(1,2) TrueI]) (use assms(4) Open_for_streaming in simp)
next
  case (Read_samples h n)
  show ?thesis
    by (rule client_op_result [OF read_samples.client_op_axioms [of E h n] assms(1,2) TrueI])
      (use assms(4) Read_samples in \<open>auto simp: Let_def case_prod_unfold\<close>)
next
  case (Close_for_streaming h)
  show ?thesis
    by (rule client_op_result [OF close_streaming.client_op_axioms [of E h] assms(1,2) TrueI]) (use assms(4) Close_for_streaming in simp)
next
  case Open_recording
  show ?thesis by (rule client_op_result [OF open_recording.client_op_axioms [of E] assms(1,2) TrueI]) (use assms(4) Open_recording in simp)
next
  case (Read_recording n)
  show ?thesis
    by (rule client_op_result [OF read_recording.client_op_axioms [of E n] assms(1,2) TrueI])
      (use assms(4) Read_recording in \<open>auto simp: Let_def case_prod_unfold\<close>)
next
  case Close_recording
  show ?thesis by (rule client_op_result [OF close_recording.client_op_axioms [of E] assms(1,2) TrueI]) (use assms(4) Close_recording in simp)
next
  case (Headset c)
  show ?thesis by (rule client_op_result [OF headset.client_op_axioms [of E c] assms(1,2) TrueI]) (use assms(4) Headset in simp)
next
  case (Voicecall s)
  show ?thesis by (rule client_op_result [OF voicecall.client_op_axioms [of E s] assms(1,2) TrueI]) (use assms(4) Voicecall in simp)
next
  case (Notify_record s)
  show ?thesis by (rule client_op_result [OF notify.client_op_axioms [of E s] assms(1,2) TrueI]) (use assms(4) Notify_record in simp)
next
  case (Thread_round w)
  show ?thesis by (rule client_op_result [OF thread_step.client_op_axioms [of E w] assms(1,2) TrueI]) (use assms(4) Thread_round in simp)
qed

lemma g_stdev_ok: "st_ok E g_stdev" "mic_inv g_stdev" "i < 2 \<Longrightarrow> quota i g_stdev = 0"
  by (auto simp: g_stdev_def st_ok_def st_ok_parts pcms_ok_def mic_inv_def quota_def callback_count_def less_2_cases_iff)

lemma reachable_inv:
  assumes "st_reachable E starts d" "pcm_fresh E"
  shows "st_ok E d \<and> (mixer_healthy E \<and> pcm_ready E \<longrightarrow> mic_inv d) \<and> (\<forall>i < 2. quota i d \<le> starts i)"
  using assms(1)
proof (induction rule: st_reachable.induct)
  case init
  show ?case using g_stdev_ok by simp
next
  case (step starts d e r d')
  have "quota i d' \<le> starts i + registers e r i" if "i < 2" for i
    using exec_keeps [OF assms(2), of d e r d' i] step that by fastforce
  then show ?case using exec_keeps [OF assms(2), of d e r d'] step by blast
qed

section \<open>Invariants of every run\<close>

text \<open>The device after a successful open of the sample environment, which is reachable.\<close>

definition opened_device :: stdev where
  "opened_device = snd (stdev_open sample_env True g_stdev)"

lemma opened_device_reachable: "st_reachable sample_env (\<lambda>_. 0) opened_device"
proof -
  have "st_exec sample_env (Open True) g_stdev = Some (fst (stdev_open sample_env True g_stdev), opened_device)"
    by (simp add: opened_device_def)
  from st_reachable.step [OF st_reachable.init _ this] show ?thesis by simp
qed

lemma sample_ready: "pcm_ready sample_env"
  by (simp add: pcm_ready_def sample_env_def)

text \<open>
  C16 (st_state_consistent). In every reachable state of an open device a model's handle is its index
  or free, and so is its entry of failed stops; the masks name the two models; a callback thread runs
  exactly while \<open>callback_thread_active\<close> is set; and the seamless recording and its pcm node exist only
  while the VTS streams.
\<close>

theorem st_state_consistent:
  assumes "st_reachable E starts d" "pcm_fresh E" "sthal_opened d"
  shows "(\<forall>i < 2. model_handles d ! i \<in> {-1, int i} \<and> model_stopfailedhandles d ! i \<in> {HANDLE_NONE, int i}) \<and>
    length (model_handles d) = 2 \<and> length (recognition_callbacks d) = 2 \<and> length (configs d) = 2 \<and>
    is_streaming d \<in> {0, 1, 2} \<and> recognize_started d \<in> {0..3} \<and>
    (callback_thread_active d \<longleftrightarrow> cb_thread_of d \<noteq> None) \<and>
    (is_seamless_recording d \<or> streaming_pcm d \<noteq> NULL \<longrightarrow> is_streaming d \<noteq> 0)"
  using reachable_inv [OF assms(1,2)] assms(3) by (simp add: st_ok_def st_ok_parts)

lemma opened_device_open: "sthal_opened opened_device"
  by (simp add: opened_device_def g_stdev_def stdev_open_def open_vtsdev_def stdev_init_mixer_def reset_device_def
      link_audio_hal_def sample_env_def syscall_def vts_unfold)

lemma opened_device_fields:
  "is_generic opened_device = 0" "model_handles opened_device = [-1, -1]" "recognition_callbacks opened_device = [0, 0]"
  "vtsdev_fd opened_device = 7" "mapped_addr opened_device = 7" "mixer opened_device = 7" "voicecall_state opened_device = VOICECALL_STOPPED"
  "callback_thread_active opened_device = False" "is_streaming opened_device = 0" "recognize_started opened_device = 0"
  "is_recording opened_device = False" "model_stopfailedhandles opened_device = [HANDLE_NONE, HANDLE_NONE]"
  by (simp_all add: opened_device_def g_stdev_def stdev_open_def open_vtsdev_def stdev_init_mixer_def reset_device_def
      link_audio_hal_def sample_env_def syscall_def vts_unfold numeral_2_eq_2)

theorem st_state_consistent_witness:
  "st_reachable sample_env (\<lambda>_. 0) opened_device \<and> pcm_fresh sample_env \<and> sthal_opened opened_device \<and>
   model_handles opened_device ! 1 \<in> {-1, 1}"
proof -
  have "model_handles opened_device ! 1 \<in> {-1, int 1}"
    using st_state_consistent [OF opened_device_reachable sample_fresh opened_device_open, THEN conjunct1, rule_format, of 1]
    by (rule conjunct1) simp
  then show ?thesis
    unfolding of_nat_1 by (intro conjI opened_device_reachable sample_fresh opened_device_open)
qed

text \<open>
  The operations that may come between the checks and the read of \<open>sound_trigger_read_samples\<close> and
  leave the streaming node alone. All others either take \<open>trigger_lock\<close>, and so wait for the reader, or
  may close the node: unloading, closing, the callback thread, the end of a recording after a failed
  stop, and the notification of the audio HAL.
\<close>

fun spares_stream :: "st_event \<Rightarrow> bool" where
  "spares_stream (Get_properties _) = True"
| "spares_stream (Load _ _ _ _) = True"
| "spares_stream Open_recording = True"
| "spares_stream (Read_recording _) = True"
| "spares_stream _ = False"

primrec st_run :: "st_env \<Rightarrow> st_event list \<Rightarrow> stdev \<Rightarrow> stdev option" where
  "st_run E [] d = Some d"
| "st_run E (e # es) d = (case st_exec E e d of None \<Rightarrow> None | Some (r, d) \<Rightarrow> st_run E es d)"

lemma spares_stream_keeps:
  assumes "spares_stream e" "st_exec E e d = Some (r, d')"
  shows "streaming_pcm d' = streaming_pcm d" "sthal_opened d' = sthal_opened d"
proof -
  have load: "d' = load_state d (stdev_load_sound_model E sm nh cb ck d)" if "e = Load sm nh cb ck" for sm nh cb ck
    using assms(2) that by (auto simp: load_state_def split: option.splits)
  have "streaming_pcm d' = streaming_pcm d \<and> sthal_opened d' = sthal_opened d"
  proof (cases e)
    case (Get_properties n)
    then show ?thesis using assms(2) by (auto simp: stdev_get_properties_def syscall_def Let_def split: if_splits)
  next
    case (Load sm nh cb ck)
    show ?thesis
      by (rule load_cases [where d = d and E = E and sm = sm and nh = nh and cb = cb and ck = ck]) (simp_all add: load [OF Load] neutral_def)
  next
    case Open_recording
    then have "d' = snd (sound_trigger_open_recording E d)" using assms(2) by auto
    then show ?thesis
      by (simp add: open_recording_eq open_recording_pcm_eq mic_off_if_unused_def close_recording_pcm_def log_calls_def Let_def)
  next
    case (Read_recording n)
    then show ?thesis using assms(2) by (auto simp: sound_trigger_read_recording_samples_def syscall_def Let_def split: if_splits)
  qed (use assms(1) in simp_all)
  then show "streaming_pcm d' = streaming_pcm d" "sthal_opened d' = sthal_opened d" by simp_all
qed

lemma spares_stream_run:
  assumes "pcm_fresh E" "st_ok E d" "sthal_opened d" "list_all spares_stream es" "st_run E es d = Some d'"
  shows "st_ok E d' \<and> streaming_pcm d' = streaming_pcm d"
  using assms
proof (induction es arbitrary: d)
  case (Cons e es)
  obtain r d1 where e: "st_exec E e d = Some (r, d1)" "st_run E es d1 = Some d'" using Cons.prems(5) by (auto split: option.splits)
  have "spares_stream e" "list_all spares_stream es" using Cons.prems(4) by simp_all
  note k = spares_stream_keeps [OF this(1) e(1)]
  have "st_ok E d1" using exec_keeps [OF Cons.prems(1,2) _ e(1)] Cons.prems(3) by blast
  with Cons.IH [OF Cons.prems(1) _ _ \<open>list_all spares_stream es\<close> e(2)] Cons.prems(3) k show ?case by simp
qed simp

text \<open>
  C15 (pcm_nodes_sound). In every run in which operations do not overlap, each pcm node is read, queried
  and closed only while it is open, apart from \<open>pcm_close\<close> on NULL; the nodes the device holds are open,
  and the streaming and the recording node are never the same. A read of the stream that is overlapped
  by queries of the properties, loads, and openings and reads of a recording still reads an open node.
\<close>

theorem pcm_nodes_sound:
  assumes "st_reachable E starts d" "pcm_fresh E"
  shows "pcm_safe E (calls d) \<and>
    (streaming_pcm d \<noteq> NULL \<longrightarrow> streaming_pcm d \<in> live_pcms E (calls d)) \<and>
    (recording_pcm d \<noteq> NULL \<longrightarrow> recording_pcm d \<in> live_pcms E (calls d) \<and> recording_pcm d \<noteq> streaming_pcm d) \<and>
    (read_samples_check h d = Inr p \<and> list_all spares_stream es \<and> st_run E es d = Some d' \<longrightarrow>
       pcm_safe E (calls (snd (read_samples_pcm E n p d'))))"
proof -
  have ok: "st_ok E d" using reachable_inv [OF assms] by simp
  have "pcm_safe E (calls (snd (read_samples_pcm E n p d')))"
    if "read_samples_check h d = Inr p" "list_all spares_stream es" "st_run E es d = Some d'"
  proof -
    have "sthal_opened d" "p = streaming_pcm d" using that(1) by (auto simp: read_samples_check_def split: if_splits)
    with spares_stream_run [OF assms(2) ok _ that(2,3)] show ?thesis
      by (auto simp: read_samples_pcm_def syscall_def st_ok_def pcms_ok_def)
  qed
  then show ?thesis using ok by (auto simp: st_ok_def pcms_ok_def)
qed

theorem pcm_nodes_sound_witness:
  "st_reachable sample_env (\<lambda>_. 0) opened_device \<and> pcm_fresh sample_env \<and> pcm_safe sample_env (calls opened_device)"
  using pcm_nodes_sound [OF opened_device_reachable sample_fresh] by (simp add: opened_device_reachable sample_fresh)

text \<open>
  C7 (microphone_only_when_used). When the mixer works and pcm nodes are ready when they are opened, the
  microphone of the VTS is on only while a recording runs, a client waits for its word, or the VTS
  streams; and a model is started only while the microphone is on and somebody uses it.
\<close>

theorem microphone_only_when_used:
  assumes "st_reachable E starts d" "pcm_fresh E" "mixer_healthy E" "pcm_ready E"
  shows "(is_mic_configured d \<longrightarrow> is_recording d \<or> has_client d \<or> is_streaming d \<noteq> 0) \<and>
    (recognize_started d \<noteq> 0 \<longrightarrow> is_mic_configured d \<and> sthal_opened d \<and> (has_client d \<or> is_streaming d \<noteq> 0))"
  using reachable_inv [OF assms(1,2)] assms(3,4) by (simp add: mic_inv_def)

theorem microphone_only_when_used_witness:
  "st_reachable sample_env (\<lambda>_. 0) opened_device \<and> mixer_healthy sample_env \<and> pcm_ready sample_env \<and>
   \<not> is_mic_configured opened_device"
proof -
  have "\<not> is_recording opened_device" "\<not> has_client opened_device" "is_streaming opened_device = 0"
    by (simp_all add: opened_device_fields has_client_iff)
  with microphone_only_when_used [OF opened_device_reachable sample_fresh sample_env_healthy sample_ready]
  show ?thesis by (simp add: opened_device_reachable sample_env_healthy sample_ready)
qed

text \<open>
  C8 (callback_once_per_start). In every run, whatever the thread receives and however operations
  and rounds interleave, the client of a model was called at most as often as recognition of that
  model was started.
\<close>

theorem callback_once_per_start:
  assumes "st_reachable E starts d" "pcm_fresh E" "i < 2"
  shows "callback_count i (calls d) \<le> starts i"
  using reachable_inv [OF assms(1,2)] assms(3) by (force simp: quota_def)

theorem callback_once_per_start_witness:
  "st_reachable sample_env (\<lambda>_. 0) opened_device \<and> callback_count 1 (calls opened_device) = 0"
  using callback_once_per_start [OF opened_device_reachable sample_fresh, of 1] by (simp add: opened_device_reachable)

end
