(* ===== verification/St_Session.thy ===== *)
theory St_Session
  imports St_Reach
begin

text \<open>
  What a client of the sound trigger HAL is promised, as an abstract machine with one small state
  per model: whether the model is loaded, whether its client waits for the word, and how often the
  client was told. The operations, the callback thread and every recovery path of the HAL are
  shown to simulate it.
\<close>

section \<open>The abstract machine\<close>

record session =
  loaded :: bool
  listening :: bool
  told :: nat

datatype session_action =
    Reset
  | Load_model
  | Unload_model
  | Listen bool
  | Internal

text \<open>
  A client that waits may be told once and then waits no longer, or may be dropped; nobody else
  is told.
\<close>

definition serves :: "session \<Rightarrow> session \<Rightarrow> bool" where
  "serves s s' \<longleftrightarrow> told s \<le> told s' \<and> told s' + of_bool (listening s') \<le> told s + of_bool (listening s)"

fun session_step :: "session_action \<Rightarrow> session \<Rightarrow> session \<Rightarrow> bool" where
  "session_step Reset s s' \<longleftrightarrow> \<not> loaded s' \<and> serves s s'"
| "session_step Load_model s s' \<longleftrightarrow> \<not> loaded s \<and> s' = s\<lparr>loaded := True\<rparr>"
| "session_step Unload_model s s' \<longleftrightarrow> loaded s \<and> \<not> loaded s' \<and> serves s s'"
| "session_step (Listen w) s s' \<longleftrightarrow> loaded s \<and> s' = s\<lparr>listening := w\<rparr>"
| "session_step Internal s s' \<longleftrightarrow> loaded s' = loaded s \<and> serves s s'"

text \<open>The session of a model in a state of the device, and the action an event is for it.\<close>

definition session_of :: "nat \<Rightarrow> stdev \<Rightarrow> session" where
  "session_of i d = \<lparr>loaded = (sthal_opened d \<and> model_handles d ! i = int i),
     listening = (recognition_callbacks d ! i \<noteq> NULL), told = callback_count i (calls d)\<rparr>"

fun action_of :: "nat \<Rightarrow> st_event \<Rightarrow> int \<Rightarrow> session_action" where
  "action_of i (Open _) r = (if r = 0 then Reset else Internal)"
| "action_of i (Close _) r = (if r = 0 then Reset else Internal)"
| "action_of i (Load (Some m) _ _ _) r =
     (if r = 0 \<and> map_option fst (model_index_of m 0) = Some i then Load_model else Internal)"
| "action_of i (Unload _ h) r = (if r = 0 \<and> h = int i then Unload_model else Internal)"
| "action_of i (Start h _ cb _) r = (if r = 0 \<and> h = int i then Listen (cb \<noteq> NULL) else Internal)"
| "action_of i (Start_extended h _ cb _) r = (if r = 0 \<and> h = int i then Listen (cb \<noteq> NULL) else Internal)"
| "action_of i _ r = Internal"

section \<open>What the operations leave alone\<close>

text \<open>The part of the device the sessions depend on, apart from the registered clients.\<close>

definition face :: "stdev \<Rightarrow> int list \<times> bool \<times> (nat \<Rightarrow> nat)" where
  "face d = (model_handles d, sthal_opened d, \<lambda>i. callback_count i (calls d))"

lemma neutral_face: "neutral d d' \<Longrightarrow> face d' = face d"
  using quiet_ext_callbacks [of "calls d" "calls d'"] by (simp add: face_def neutral_def)

lemma mixer_keep_face: "mixer_keep d d' \<Longrightarrow> face d' = face d"
  using quiet_ext_callbacks [of "calls d" "calls d'"] mixer_keep_fields(1,14) [of d d'] by (simp add: face_def mixer_keep_def)

lemma face_upd [simp]:
  "face (d\<lparr>configs := c\<rparr>) = face d" "face (d\<lparr>recognition_callbacks := r\<rparr>) = face d" "face (d\<lparr>recognition_cookies := k\<rparr>) = face d"
  "face (d\<lparr>model_execstate := e\<rparr>) = face d" "face (d\<lparr>model_stopfailedhandles := f\<rparr>) = face d"
  "face (d\<lparr>recog_cbstate := s\<rparr>) = face d" "face (d\<lparr>is_streaming := m\<rparr>) = face d" "face (d\<lparr>is_recording := b\<rparr>) = face d"
  "face (d\<lparr>is_seamless_recording := b\<rparr>) = face d" "face (d\<lparr>streaming_pcm := p\<rparr>) = face d" "face (d\<lparr>recording_pcm := p\<rparr>) = face d"
  "face (d\<lparr>active_mic := a\<rparr>) = face d" "face (d\<lparr>voicecall_state := v\<rparr>) = face d" "face (d\<lparr>is_generic := g\<rparr>) = face d"
  "face (d\<lparr>callback_thread_active := b\<rparr>) = face d" "face (d\<lparr>cb_thread_of := t\<rparr>) = face d"
  by (simp_all add: face_def)

lemma face_power [simp]: "face (stdev_vts_set_power E a d) = face d"
  by (simp add: face_def)

lemma face_mic [simp]: "face (stdev_vts_set_mic E on d) = face d"
  by (rule mixer_keep_face) (rule set_mic.keep)

text \<open>Calls that tell no client leave the sessions alone.\<close>

fun tells :: "st_call \<Rightarrow> bool" where
  "tells (recognition_callback _ _ _ _) = True"
| "tells _ = False"

lemma face_syscall [simp]: "\<not> tells c \<Longrightarrow> face (snd (syscall E c d)) = face d"
  by (cases c) (simp_all add: face_def syscall_def callback_count_Cons)

lemma face_emit [simp]: "\<not> tells c \<Longrightarrow> face (emit c d) = face d"
  by (cases c) (simp_all add: face_def log_calls_def callback_count_Cons)

lemmas face_log [simp] = face_emit [unfolded log_calls_simps]

lemma face_close_streaming_pcm [simp]: "face (close_streaming_pcm d) = face d"
  by (simp add: close_streaming_pcm_def)

lemma face_stop_aborted [simp]: "face (stop_aborted E i d) = face d"
  by (simp add: stop_aborted_def Let_def)

lemma face_handle_stop [simp]: "face (handle_stop_recognition_l E d) = face d"
  by (simp add: handle_stop_recognition_l_def recover_model_def Let_def upt_rec)

lemma face_start_thread [simp]: "face (snd (stdev_start_callback_thread E d)) = face d"
  using thread_keep_start [of d E] quiet_ext_callbacks [of "calls d" "calls (snd (stdev_start_callback_thread E d))"]
  by (simp add: face_def thread_keep_def)

lemma face_close_sockets [simp]: "face (stdev_close_callback_thread_sockets d) = face d"
  using thread_keep_sockets [OF thread_keep_refl, of d] quiet_ext_callbacks [of "calls d" "calls (stdev_close_callback_thread_sockets d)"]
  by (simp add: face_def thread_keep_def)

lemma face_copy_config [simp]: "face (snd (copy_config E h c d)) = face d"
  by (rule neutral_face) (rule neutral_copy_config)

lemma face_recording [simp]:
  "face (close_recording_pcm d) = face d" "face (snd (open_recording_pcm E d)) = face d" "face (mic_off_if_unused E d) = face d"
  by (simp_all add: close_recording_pcm_def open_recording_pcm_def mic_off_if_unused_def vts_unfold)

lemma face_close_pcms [simp]: "face (close_pcms d) = face d"
  by (simp add: close_pcms_def Let_def)

text \<open>The operations that tell no client and neither load a model nor open the device.\<close>

lemma face_silent_ops [simp]:
  "face (snd (snd (stdev_get_properties E n d))) = face d"
  "face (snd (sound_trigger_open_for_streaming E d)) = face d"
  "face (snd (sound_trigger_read_samples E h l d)) = face d"
  "face (snd (sound_trigger_close_for_streaming E h d)) = face d"
  "face (snd (sound_trigger_open_recording E d)) = face d"
  "face (snd (sound_trigger_read_recording_samples E l d)) = face d"
  "face (snd (sound_trigger_close_recording E d)) = face d"
  "face (snd (sound_trigger_voicecall_status E c d)) = face d"
  "face (snd (sound_trigger_notify_ahal_record_status E c d)) = face d"
  by (simp_all add: stdev_get_properties_def sound_trigger_open_for_streaming_def sound_trigger_read_samples_def read_samples_check_def read_samples_pcm_def
      sound_trigger_close_for_streaming_def sound_trigger_open_recording_def sound_trigger_read_recording_samples_def
      sound_trigger_close_recording_def sound_trigger_voicecall_status_def sound_trigger_notify_ahal_record_status_def
      vts_unfold)

lemma face_headset [simp]: "face (snd (sound_trigger_headset_status E c d)) = face d"
proof -
  have "face (switched_mic E c d) = face d" by (simp add: switched_mic_def Let_def)
  moreover have "face (snd (reopen_recording E d')) = face d'" "face (snd (reopen_streaming E d')) = face d'" for d'
    by (simp_all add: reopen_recording_def reopen_streaming_def vts_unfold)
  ultimately show ?thesis by (simp add: headset_eq Let_def)
qed

lemma face_start [simp]: "face (snd (stdev_start_recognition E h c cb ck d)) = face d"
  by (simp add: start_eq recovered_def register_def Let_def)

section \<open>What the callback thread may do\<close>

definition face_grows :: "stdev \<Rightarrow> stdev \<Rightarrow> bool" where
  "face_grows d d' \<longleftrightarrow> model_handles d' = model_handles d \<and> sthal_opened d' = sthal_opened d \<and>
     (\<forall>i. callback_count i (calls d) \<le> callback_count i (calls d'))"

lemma face_grows_face: "face d' = face d \<Longrightarrow> face_grows d d'"
  by (simp add: face_grows_def face_def fun_eq_iff)

lemma face_grows_via: "face_grows d1 d2 \<Longrightarrow> face d1 = face d \<Longrightarrow> face d' = face d2 \<Longrightarrow> face_grows d d'"
  by (simp add: face_grows_def face_def fun_eq_iff)

lemma face_grows_trans [trans]: "face_grows d1 d2 \<Longrightarrow> face_grows d2 d3 \<Longrightarrow> face_grows d1 d3"
  by (auto simp: face_grows_def intro: le_trans)

lemma face_stop_in_callback [simp]: "face (stop_in_callback h d) = face d"
proof (cases "stop_wait 100 0 h d")
  case (Return r d')
  from stop_wait_return [OF this] Return show ?thesis by (auto simp: stop_in_callback_def mark_stopabort_def)
qed (simp_all add: stop_in_callback_def)

lemma face_stops_in_callback [simp]: "face (fold stop_in_callback hs d) = face d"
  by (induction hs arbitrary: d) simp_all

lemma grows_call_client: "face_grows d (call_client E i event d)"
proof -
  let ?c = "recognition_callback i (recognition_callbacks d ! i) event (recognition_cookies d ! i)"
  have "face_grows d (emit ?c (d\<lparr>recog_cbstate := RECOG_CB_CALLED\<rparr>))"
    by (simp add: face_grows_def log_calls_def callback_count_Cons)
  from face_grows_via [OF this refl] show ?thesis
    by (simp add: call_client_def Let_def face_grows_face)
qed

lemma face_alloc:
  "face (snd (sound_trigger_event_alloc E i d)) = face d" "face (snd (sound_trigger_generic_event_alloc E i d)) = face d"
  by (simp_all add: sound_trigger_event_alloc_def sound_trigger_generic_event_alloc_def vts_unfold)

lemma grows_trigger_event: "face_grows d (snd (trigger_event E i d))"
proof -
  define r where "r = (if has_bit (is_generic d) i then sound_trigger_generic_event_alloc E i d
    else sound_trigger_event_alloc E i d)"
  have r: "face (snd r) = face d" by (simp add: r_def face_alloc)
  have c: "face_grows d (call_client E i event (snd r))" for event
    by (rule face_grows_via [OF grows_call_client r refl])
  have a: "face (after_client E i d') = face d'" for d' by (simp add: after_client_def Let_def)
  have "face_grows d d'" if "face d' = face (call_client E i event (snd r))" for d' event
    by (rule face_grows_via [OF c refl that])
  then show ?thesis
    unfolding trigger_event_eq Let_def
    unfolding r_def [symmetric]
    by (auto simp: a r face_grows_face split: option.split)
qed

lemma grows_uevent_scan: "face_grows d (snd (uevent_scan E msg d))"
proof (induction msg d rule: uevent_scan_induct [where E = E])
  case (event msg d rest i)
  then show ?case
    using grows_trigger_event [of d E i] by (subst uevent_scan_step) (auto simp: Let_def intro: face_grows_trans)
qed (simp_all add: uevent_scan_step [of _ "[]"] face_grows_face, subst uevent_scan_step, simp add: Let_def)

lemma grows_thread_step: "face_grows d (callback_thread_step E w d)"
proof (cases "cb_thread_of d")
  case (Some t)
  define d0 where "d0 = d\<lparr>recog_cbstate := RECOG_CB_STARTED\<rparr>"
  define r where "r = thread_round E w t d0"
  have e: "face (snd (recover_socket E t d0)) = face d0" using neutral_face [OF neutral_recover_socket] Some by (simp add: d0_def)
  have u: "face_grows d0 (snd (uevent_scan E msg (emit (uevent_recv s) d0)))" for msg s
    by (rule face_grows_via [OF grows_uevent_scan _ refl]) (simp del: log_calls_simps)
  have "face_grows d0 (snd r)"
    using e u by (simp add: r_def thread_round_def face_grows_face del: log_calls_simps)
  then have d: "face d' = face (snd r) \<Longrightarrow> face_grows d d'" for d'
    by (rule face_grows_via) (simp add: d0_def)
  have "callback_thread_step E w d = (if fst r then thread_exit E (snd r) else (snd r)\<lparr>recog_cbstate := RECOG_CB_NONE\<rparr>)"
    using Some by (simp add: callback_thread_step_def r_def d0_def case_prod_unfold)
  then show ?thesis by (simp add: d thread_exit_def Let_def)
qed (simp add: callback_thread_step_def face_grows_face)

lemma grows_thread_loop: "face_grows d (callback_thread_loop E ws d)"
  by (induction ws arbitrary: d)
    (auto simp: callback_thread_loop_def face_grows_face intro: face_grows_trans [OF grows_thread_step])

lemma grows_join: "face_grows d (stdev_join_callback_thread E ws k d)"
proof -
  have "face_grows d (end_thread E ws d)"
    using face_grows_via [OF grows_thread_loop [of "write_send_socket [84] d" E "ws @ [no_uevent]"] _ face_emit,
        of d pthread_join]
    by (simp add: end_thread_def face_grows_face neutral_face [OF neutral_write_send] del: log_calls_simps)
  then show ?thesis
    by (rule face_grows_via) (simp_all add: join_eq)
qed

lemma grows_stop_l: "face_grows d (snd (stdev_stop_recognition_l E ws h d))"
proof -
  have "face_grows d (stop_model E ws h d)" for h
    unfolding stop_model_def Let_def
    by (auto intro: face_grows_face face_grows_via [OF grows_join _ refl])
  from face_grows_via [OF this refl] show ?thesis by (simp add: stop_l_eq face_grows_face)
qed

lemma grows_close_mixer: "face_grows d (stdev_close_mixer E ws d)"
  by (rule face_grows_via [OF grows_join [of "stdev_vts_set_power E 0 d" E ws False]])
    (simp_all add: close_mixer_eq del: log_calls_simps)

section \<open>The simulation\<close>

lemma serves_session:
  assumes "quota i d' \<le> quota i d" "callback_count i (calls d) \<le> callback_count i (calls d')"
  shows "serves (session_of i d) (session_of i d')"
  using assms by (simp add: serves_def session_of_def quota_def split: if_splits)

text \<open>
  The interface of an operation that, seen from a client, does nothing but perhaps tell or drop
  it: a client operation whose calls only grow.
\<close>

locale session_op = client_op +
  assumes grows: "face_grows d (op d)"
begin

lemma internal:
  assumes "pcm_fresh E" "st_ok E d" "pre d" "i < 2"
  shows "session_step Internal (session_of i d) (session_of i (op d))"
  using serves_session [OF quota [OF assms]] grows [of d] by (simp add: face_grows_def session_of_def)

end

lemma session_op_face: "client_op E pre op \<Longrightarrow> (\<And>d. face (op d) = face d) \<Longrightarrow> session_op E pre op"
  by (simp add: session_op_def session_op_axioms_def face_grows_face)

interpretation get_properties_session: session_op E "\<lambda>_. True" "\<lambda>d. snd (snd (stdev_get_properties E n d))" for E n
  by (rule session_op_face [OF get_properties.client_op_axioms face_silent_ops(1)])

interpretation open_streaming_session: session_op E "\<lambda>_. True" "\<lambda>d. snd (sound_trigger_open_for_streaming E d)" for E
  by (rule session_op_face [OF open_streaming.client_op_axioms face_silent_ops(2)])

interpretation read_samples_session: session_op E "\<lambda>_. True" "\<lambda>d. snd (sound_trigger_read_samples E h n d)" for E h n
  by (rule session_op_face [OF read_samples.client_op_axioms face_silent_ops(3)])

interpretation close_streaming_session: session_op E "\<lambda>_. True" "\<lambda>d. snd (sound_trigger_close_for_streaming E h d)" for E h
  by (rule session_op_face [OF close_streaming.client_op_axioms face_silent_ops(4)])

interpretation open_recording_session: session_op E "\<lambda>_. True" "\<lambda>d. snd (sound_trigger_open_recording E d)" for E
  by (rule session_op_face [OF open_recording.client_op_axioms face_silent_ops(5)])

interpretation read_recording_session: session_op E "\<lambda>_. True" "\<lambda>d. snd (sound_trigger_read_recording_samples E n d)" for E n
  by (rule session_op_face [OF read_recording.client_op_axioms face_silent_ops(6)])

interpretation close_recording_session: session_op E "\<lambda>_. True" "\<lambda>d. snd (sound_trigger_close_recording E d)" for E
  by (rule session_op_face [OF close_recording.client_op_axioms face_silent_ops(7)])

interpretation voicecall_session: session_op E "\<lambda>_. True" "\<lambda>d. snd (sound_trigger_voicecall_status E s d)" for E s
  by (rule session_op_face [OF voicecall.client_op_axioms face_silent_ops(8)])

interpretation notify_session: session_op E "\<lambda>_. True" "\<lambda>d. snd (sound_trigger_notify_ahal_record_status E s d)" for E s
  by (rule session_op_face [OF notify.client_op_axioms face_silent_ops(9)])

interpretation headset_session: session_op E "\<lambda>_. True" "\<lambda>d. snd (sound_trigger_headset_status E c d)" for E c
  by (rule session_op_face [OF headset.client_op_axioms face_headset])

interpretation thread_session: session_op E "\<lambda>_. True" "callback_thread_step E w" for E w
  by unfold_locales (rule grows_thread_step)

lemma grows_stop: "face_grows d (state_of d (stdev_stop_recognition E ws n h d))"
  by (rule stop_cases [of d E ws n h]) (auto simp: mark_stopabort_def intro: face_grows_face grows_stop_l)

interpretation stop_session: session_op E sthal_opened "\<lambda>d. state_of d (stdev_stop_recognition E ws n h d)" for E ws n h
  by unfold_locales (rule grows_stop)

text \<open>The operations that change which models are loaded, and the one that registers a client.\<close>

lemma unload_session:
  assumes "pcm_fresh E" "st_ok E d" "sthal_opened d" "i < 2" "stdev_unload_sound_model E ws h d = (r, d')"
  shows "session_step (if r = 0 \<and> h = int i then Unload_model else Internal) (session_of i d) (session_of i d')"
proof -
  define d1 where "d1 = (if recognition_callbacks d ! nat h \<noteq> NULL \<or> has_bit (is_streaming d) (nat h)
    then snd (stdev_stop_recognition_l E ws h d) else d)"
  have r: "r = (if h < 0 \<or> h \<ge> 2 then -EINVAL else if model_handles d ! nat h \<noteq> h then -ENOSYS else 0)"
    and d': "d' = (if h < 0 \<or> h \<ge> 2 \<or> model_handles d ! nat h \<noteq> h then d else d1\<lparr>model_handles := (model_handles d1)[nat h := -1]\<rparr>)"
    using assms(5) by (auto simp: stdev_unload_sound_model_def stop_l_eq d1_def handle_matches_def Let_def case_prod_unfold split: if_splits)
  have g: "face_grows d d1" by (simp add: d1_def grows_stop_l face_grows_face)
  have q: "quota i d' \<le> quota i d" using unload.quota [OF assms(1-4), of ws h] assms(5) by simp
  have "callback_count i (calls d) \<le> callback_count i (calls d')" using g by (simp add: d' face_grows_def)
  note s = serves_session [OF q this]
  have l: "length (model_handles d) = 2" using assms(2) by (simp add: st_ok_def shape_ok_def)
  show ?thesis
    using s g assms(3,4) l by (auto simp: r d' session_of_def face_grows_def nth_list_update)
qed

lemma close_session:
  assumes "pcm_fresh E" "st_ok E d" "i < 2" "stdev_close E ws d = (r, d')"
  shows "session_step (if r = 0 then Reset else Internal) (session_of i d) (session_of i d')"
proof -
  define d1 where "d1 = unmapped E (stdev_close_mixer E [] (stdev_join_callback_thread E ws False d))"
  have d': "d' = (if \<not> sthal_opened d then d else closed_device d1)" and r: "r = (if sthal_opened d then 0 else -EFAULT)"
    using close_eq [of E ws d] assms(4) by (auto simp: d1_def stdev_close_def Let_def split: if_splits)
  have "face_grows d d1"
    unfolding d1_def
    by (rule face_grows_via [OF face_grows_trans [OF grows_join grows_close_mixer] refl neutral_face [OF neutral_unmapped]])
  then have "callback_count i (calls d) \<le> callback_count i (calls d')" by (simp add: d' face_grows_def closed_device_def)
  moreover have "quota i d' \<le> quota i d" using close.quota [OF assms(1,2) TrueI assms(3), of ws] assms(4) by simp
  ultimately have "serves (session_of i d) (session_of i d')" by (simp add: serves_session)
  then show ?thesis by (auto simp: d' r session_of_def closed_device_def)
qed

lemma open_session:
  assumes "pcm_fresh E" "st_ok E d" "i < 2" "stdev_open E name d = (r, d')"
  shows "session_step (if r = 0 then Reset else Internal) (session_of i d) (session_of i d')"
proof -
  define r1 where "r1 = open_vtsdev E d"
  define r2 where "r2 = stdev_init_mixer E (snd r1)"
  define r3 where "r3 = link_audio_hal E (reset_device (snd r2))"
  have n1: "face (snd r1) = face d" unfolding r1_def by (rule neutral_face [OF neutral_open_vtsdev])
  have n2: "face (snd r2) = face (snd r1)"
  proof -
    have "face (d\<lparr>mixer := m\<rparr>) = face d" for d m by (simp add: face_def)
    then show ?thesis by (simp add: r2_def stdev_init_mixer_def vts_unfold)
  qed
  have n3: "face (snd r3) = face (reset_device (snd r2))" unfolding r3_def by (rule neutral_face [OF neutral_link_audio_hal])
  have "face_grows (snd r3) (open_finish E (snd r2))"
    using grows_close_mixer [of "snd r3"] face_grows_face [OF mixer_keep_face [OF set_mixer_ctrls_keep], of "snd r3"]
    by (simp add: open_finish_def r3_def Let_def)
  from face_grows_via [OF this n3 refl] have g: "face_grows (reset_device (snd r2)) (open_finish E (snd r2))" .
  have f: "model_handles (open_finish E (snd r2)) = replicate 2 (-1)"
    "callback_count i (calls d) \<le> callback_count i (calls (open_finish E (snd r2)))"
    using g n1 n2 by (auto simp: face_grows_def reset_device_def face_def fun_eq_iff)
  have eq: "d' = (if \<not> name \<or> sthal_opened d then d else if \<not> fst r1 then snd r1 else if fst r2 \<noteq> 0 then snd r2
      else open_finish E (snd r2))"
    using open_eq [of E name d] assms(4) by (simp add: r1_def r2_def Let_def)
  have r: "r = 0 \<longleftrightarrow> name \<and> \<not> sthal_opened d \<and> fst r1 \<and> fst r2 = 0"
    using assms(4) by (auto simp: stdev_open_def r1_def r2_def vts_unfold split: if_splits)
  have q: "quota i d' \<le> quota i d" using dev_open.quota [OF assms(1,2) TrueI assms(3), of name] assms(4) by simp
  have "callback_count i (calls d) \<le> callback_count i (calls d')"
    using f(2) n1 n2 by (simp add: eq face_def fun_eq_iff)
  from serves_session [OF q this] show ?thesis
    using f(1) n1 n2 assms(3) r by (auto simp: eq session_of_def face_def less_2_cases_iff)
qed

lemma model_index_fst: "map_option fst (model_index_of m g) = map_option fst (model_index_of m g')"
  by (simp add: model_index_of_def split: sound_model_type.split)

lemma session_of_cong:
  "face d' = face d \<Longrightarrow> recognition_callbacks d' = recognition_callbacks d \<Longrightarrow> session_of i d' = session_of i d"
  by (simp add: session_of_def face_def fun_eq_iff)

lemma neutral_session: "neutral d d' \<Longrightarrow> session_of i d' = session_of i d"
  by (rule session_of_cong [OF neutral_face]) (simp_all add: neutral_def)

lemma load_result:
  assumes "stdev_load_sound_model E sm nh cb ck d = Some (r, hnd, d')"
  obtains "r \<noteq> 0" "neutral d d'"
  | m i g d2 where "r = 0" "sm = Some m" "model_index_of m (is_generic d) = Some (i, g)" "neutral d d2" "model_handles d ! i = -1"
      "d' = d2\<lparr>model_handles := (model_handles d2)[i := int i], sound_model_callbacks := (sound_model_callbacks d2)[i := cb],
               sound_model_cookies := (sound_model_cookies d2)[i := ck]\<rparr>"
proof (cases "\<exists>m i g. sm = Some m \<and> \<not> (nh \<or> sm_data_size m = 0 \<or> sm_data_offset m < sizeof_sound_model E) \<and>
    model_index_of m (is_generic d) = Some (i, g) \<and> model_handles d ! i = -1")
  case True
  then obtain m i g where m: "sm = Some m" "\<not> (nh \<or> sm_data_size m = 0 \<or> sm_data_offset m < sizeof_sound_model E)"
    "model_index_of m (is_generic d) = Some (i, g)" "model_handles d ! i = -1" by blast
  obtain ret d2 where v: "vts_load_sound_model E (drop (sm_data_offset m) (sm_bytes m)) (sm_data_size m) i (d\<lparr>is_generic := g\<rparr>) = Some (ret, d2)"
    using assms m by (auto simp: stdev_load_sound_model_def Let_def split: option.splits)
  have "neutral d (d\<lparr>is_generic := g\<rparr>)" by (simp add: neutral_def)
  from neutral_trans [OF this neutral_vts_load [OF v]] have n: "neutral d d2" by simp
  show thesis
  proof (cases "ret = 0")
    case True
    then show thesis using that(2) [OF _ m(1,3) n m(4)] assms m v by (simp add: stdev_load_sound_model_def Let_def)
  next
    case False
    then show thesis using that(1) n assms m v by (simp add: stdev_load_sound_model_def Let_def)
  qed
next
  case False
  have "neutral d (d\<lparr>is_generic := g\<rparr>)" for g by (simp add: neutral_def)
  then have "r \<noteq> 0 \<and> neutral d d'"
    using assms False by (auto simp: stdev_load_sound_model_def Let_def split: option.splits if_splits)
  then show thesis using that(1) by blast
qed

lemma load_session:
  assumes "st_ok E d" "sthal_opened d" "i < 2" "stdev_load_sound_model E sm nh cb ck d = Some (r, hnd, d')"
  shows "session_step (action_of i (Load sm nh cb ck) r) (session_of i d) (session_of i d')"
proof (rule load_result [OF assms(4)])
  assume "r \<noteq> 0" "neutral d d'"
  then show ?thesis using neutral_session [of d d' i] by (cases sm) (simp_all add: serves_def)
next
  fix m j g d2
  assume a: "r = 0" "sm = Some m" "model_index_of m (is_generic d) = Some (j, g)" "neutral d d2" "model_handles d ! j = -1"
    and d': "d' = d2\<lparr>model_handles := (model_handles d2)[j := int j], sound_model_callbacks := (sound_model_callbacks d2)[j := cb],
      sound_model_cookies := (sound_model_cookies d2)[j := ck]\<rparr>"
  have j: "map_option fst (model_index_of m 0) = Some j" "j < 2"
    using model_index_fst [of m 0 "is_generic d"] a(3) model_index_less [OF a(3)] by simp_all
  have h: "model_handles d2 = model_handles d" "length (model_handles d) = 2" "sthal_opened d2"
    using a(4) assms(1,2) by (simp_all add: neutral_def st_ok_def shape_ok_def)
  have "session_of i d' = (session_of i d2)\<lparr>loaded := if i = j then True else loaded (session_of i d2)\<rparr>"
    using h j(2) by (simp add: d' session_of_def nth_list_update)
  with neutral_session [OF a(4), of i] have s: "session_of i d' = (session_of i d)\<lparr>loaded := if i = j then True else loaded (session_of i d)\<rparr>"
    by simp
  show ?thesis using a(1,2,5) j by (auto simp: s serves_def) (simp_all add: session_of_def)
qed

lemma prepared_ok:
  assumes "st_ok E d" "sthal_opened d"
  shows "st_ok E (snd (stdev_start_callback_thread E (snd (copy_config E h c (recovered E h d)))))"
proof -
  have n: "neutral (recovered E h d) (snd (copy_config E h c (recovered E h d)))" by (rule neutral_copy_config)
  have "st_ok E (recovered E h d)" "sthal_opened (recovered E h d)"
    using keeps_handle_stop [of E d] assms by (simp_all add: recovered_def keeps_def)
  then have "st_ok E (snd (copy_config E h c (recovered E h d)))" "sthal_opened (snd (copy_config E h c (recovered E h d)))"
    using n neutral_st_ok [OF n, of E] by (simp_all add: neutral_def)
  then show ?thesis by (simp add: start_thread_ok)
qed

lemma start_session:
  assumes "pcm_fresh E" "st_ok E d" "sthal_opened d" "i < 2" "stdev_start_recognition E h c cb ck d = (r, d')"
  shows "session_step (if r = 0 \<and> h = int i then Listen (cb \<noteq> NULL) else Internal) (session_of i d) (session_of i d')"
proof (cases "r = 0 \<and> h = int i")
  case True
  have "handle_matches d h" using assms(5) True by (auto simp: start_eq split: if_splits)
  moreover define d3 where "d3 = snd (stdev_start_callback_thread E (snd (copy_config E (nat h) c (recovered E (nat h) d))))"
  ultimately have "recognition_callbacks d' = recognition_callbacks (register E (nat h) cb ck d3)"
    using assms(5) True by (auto simp: start_eq Let_def split: if_splits)
  moreover have "st_ok E d3"
    unfolding d3_def by (rule prepared_ok [OF assms(2,3)])
  ultimately have "recognition_callbacks d' ! i = cb"
    using True assms(4) by (simp add: register_def Let_def st_ok_def shape_ok_def)
  moreover have "face d' = face d" using face_start [of E h c cb ck d] assms(5) by simp
  moreover have "loaded (session_of i d)"
    using \<open>handle_matches d h\<close> True assms(3) by (simp add: session_of_def handle_matches_def)
  ultimately show ?thesis using True by (simp add: session_of_def face_def fun_eq_iff)
next
  case False
  have "quota i d' \<le> quota i d" using start_props(3) [OF assms(1-4), of h c cb ck] False assms(5) by auto
  moreover have f: "face d' = face d" using face_start [of E h c cb ck d] assms(5) by simp
  ultimately show ?thesis
    using False serves_session [of i d' d] by (simp add: face_def fun_eq_iff) (auto simp: session_of_def)
qed

text \<open>The functions exported to the audio HAL.\<close>

fun audio_hal_call :: "st_event \<Rightarrow> bool" where
  "audio_hal_call Open_for_streaming = True"
| "audio_hal_call (Read_samples _ _) = True"
| "audio_hal_call (Close_for_streaming _) = True"
| "audio_hal_call Open_recording = True"
| "audio_hal_call (Read_recording _) = True"
| "audio_hal_call Close_recording = True"
| "audio_hal_call (Headset _) = True"
| "audio_hal_call (Voicecall _) = True"
| "audio_hal_call (Notify_record _) = True"
| "audio_hal_call _ = False"

lemma audio_hal_session:
  assumes "pcm_fresh E" "st_ok E d" "i < 2" "st_exec E e d = Some (r, d')" "audio_hal_call e"
  shows "session_step Internal (session_of i d) (session_of i d')"
proof -
  note n = assms(1,2) TrueI assms(3)
  show ?thesis
  proof (cases e)
    case Open_for_streaming
    then show ?thesis using open_streaming_session.internal [OF n] assms(4) by simp
  next
    case (Read_samples h l)
    then show ?thesis using read_samples_session.internal [OF n, of h l] assms(4) by (auto simp: case_prod_unfold Let_def)
  next
    case (Close_for_streaming h)
    then show ?thesis using close_streaming_session.internal [OF n, of h] assms(4) by simp
  next
    case Open_recording
    then show ?thesis using open_recording_session.internal [OF n] assms(4) by simp
  next
    case (Read_recording l)
    then show ?thesis using read_recording_session.internal [OF n, of l] assms(4) by (auto simp: case_prod_unfold Let_def)
  next
    case Close_recording
    then show ?thesis using close_recording_session.internal [OF n] assms(4) by simp
  next
    case (Headset c)
    then show ?thesis using headset_session.internal [OF n, of c] assms(4) by simp
  next
    case (Voicecall s)
    then show ?thesis using voicecall_session.internal [OF n, of s] assms(4) by simp
  next
    case (Notify_record s)
    then show ?thesis using notify_session.internal [OF n, of s] assms(4) by simp
  qed (use assms(5) in simp_all)
qed

text \<open>
  C4 (recognition_sessions_refine). The HAL refines the abstract recognition sessions: whatever event
  happens in a reachable state, with whatever result, the session of each model makes exactly the
  step that event stands for. Opening and closing unload it; a successful load, unload or start
  changes it as asked; everything else (other models, failures, streaming, recording, headset
  and call notifications, rounds of the callback thread, stop requests on every path) never loads
  a model and never registers a client, and tells a client only if it was waiting, which uses the
  registration up.
\<close>

theorem recognition_sessions_refine:
  assumes "st_reachable E starts d" "pcm_fresh E" "framework_call e \<Longrightarrow> sthal_opened d"
    and "st_exec E e d = Some (r, d')" "i < 2"
  shows "session_step (action_of i e r) (session_of i d) (session_of i d')"
proof -
  have ok: "st_ok E d" using reachable_inv [OF assms(1,2)] by simp
  note a = assms(2) ok
  note n = a TrueI assms(5)
  show ?thesis
  proof (cases e)
    case (Open x)
    then show ?thesis using open_session [OF a assms(5), of x] assms(4) by simp
  next
    case (Close x)
    then show ?thesis using close_session [OF a assms(5), of x] assms(4) by simp
  next
    case (Load sm nh cb ck)
    then show ?thesis using load_session [OF ok _ assms(5), of sm nh cb ck r _ d'] assms(3,4) by (auto split: option.splits)
  next
    case (Unload ws h)
    then show ?thesis using unload_session [OF a _ assms(5), of ws h] assms(3,4) by simp
  next
    case (Start h c cb ck)
    then show ?thesis using start_session [OF a _ assms(5), of h c cb ck] assms(3,4) by simp
  next
    case (Start_extended h c cb ck)
    then show ?thesis
      using start_session [OF a _ assms(5), of h "map_option (\<lambda>c. (base c, extended_params c)) c" cb ck] assms(3,4)
      by (simp add: stdev_start_recognition_extended_def)
  next
    case (Stop ws m h)
    then show ?thesis using stop_session.internal [OF a _ assms(5), of ws m h] assms(3,4) by (simp add: state_of_def)
  next
    case (Thread_round w)
    then show ?thesis using thread_session.internal [OF n, of w] assms(4) by simp
  next
    case (Get_properties x)
    then show ?thesis using get_properties_session.internal [OF n, of x] assms(4) by (simp add: case_prod_unfold Let_def)
  qed (use audio_hal_session [OF a assms(5), of e r d'] assms(4) in auto)
qed

text \<open>A device with the hotword model loaded.\<close>

definition sample_model :: sound_model where
  "sample_model = \<lparr>sm_type = SOUND_MODEL_TYPE_KEYPHRASE, vendor_uuid = hotword_uuid, sm_data_size = 2, sm_data_offset = 4,
     sm_bytes = [0, 0, 0, 0, 1, 2]\<rparr>"

definition loaded_device :: stdev where
  "loaded_device = load_state opened_device (stdev_load_sound_model sample_env (Some sample_model) False 8 9 opened_device)"

lemma load_sample: "st_exec sample_env (Load (Some sample_model) False 8 9) opened_device = Some (0, loaded_device)"
  by (simp add: loaded_device_def load_state_def stdev_load_sound_model_def sample_model_def model_index_of_def hotword_uuid_def
      bixby_uuid_def opened_device_fields vts_load_sound_model_def load_modelbinary_def sample_env_def syscall_def vts_unfold)

theorem recognition_sessions_refine_witness:
  "st_reachable sample_env (\<lambda>_. 0) opened_device \<and> pcm_fresh sample_env \<and>
   st_exec sample_env (Load (Some sample_model) False 8 9) opened_device = Some (0, loaded_device) \<and>
   session_step Load_model (session_of HOTWORD_INDEX opened_device) (session_of HOTWORD_INDEX loaded_device)"
proof -
  have "action_of HOTWORD_INDEX (Load (Some sample_model) False 8 9) 0 = Load_model"
    by (simp add: sample_model_def model_index_of_def hotword_uuid_def bixby_uuid_def)
  with recognition_sessions_refine [OF opened_device_reachable sample_fresh opened_device_open load_sample, of HOTWORD_INDEX]
  have "session_step Load_model (session_of HOTWORD_INDEX opened_device) (session_of HOTWORD_INDEX loaded_device)" by simp
  then show ?thesis by (intro conjI opened_device_reachable sample_fresh load_sample)
qed

end
