(* ===== verification/St_Behaviour.thy ===== *)
theory St_Behaviour
  imports St_Session
begin

text \<open>
  What single operations of the sound trigger HAL do in every reachable state: starting and
  stopping recognition, the start of a voice call, and the error paths on which the code does
  not behave as its callers expect.
\<close>

section \<open>Starting and stopping\<close>

text \<open>The calls on the way to a running thread succeed.\<close>

definition calls_succeed :: "st_env \<Rightarrow> bool" where
  "calls_succeed E \<longleftrightarrow> (\<forall>cs. sys E cs socketpair \<noteq> -1 \<and> sys E cs uevent_open_socket \<noteq> -1 \<and> sys E cs pthread_create = 0 \<and>
     sys E cs malloc_config \<noteq> NULL)"

lemma start_thread_works:
  "calls_succeed E \<Longrightarrow> fst (stdev_start_callback_thread E d) = 0 \<and> callback_thread_active (snd (stdev_start_callback_thread E d))"
  by (simp add: calls_succeed_def stdev_start_callback_thread_def thread_prologue_def vts_unfold syscall_def)

lemma copy_config_works: "calls_succeed E \<Longrightarrow> fst (copy_config E h c d)"
  by (simp add: calls_succeed_def copy_config_def vts_unfold syscall_def split: option.split)

text \<open>A power cycle of a healthy mixer leaves exactly the requested models started.\<close>

lemma power_cycle_started:
  assumes "mixer_healthy E" "mixer d \<noteq> NULL" "recognize_started d \<in> {0..3}" "a \<in> {1..3}"
  shows "recognize_started (stdev_vts_set_power E a (stdev_vts_set_power E 0 d)) = a"
proof -
  have off: "recognize_started (stdev_vts_set_power E 0 d) = 0" using power_off_flags(1) [OF assms(1,3)] assms(2) by simp
  then have "recognize_started (end_streaming (stdev_vts_set_power E 0 d)) \<in> {0..3}"
    "mixer (end_streaming (stdev_vts_set_power E 0 d)) \<noteq> NULL" using assms(2) by simp_all
  from vts_power_on [OF assms(1) this(2,1) assms(4)] off show ?thesis by (simp add: set_power_eq [of E a])
qed

lemma copy_config_fields [simp]:
  "recognition_callbacks (snd (copy_config E h c d)) = recognition_callbacks d"
  "mixer (snd (copy_config E h c d)) = mixer d" "is_streaming (snd (copy_config E h c d)) = is_streaming d"
  "recognize_started (snd (copy_config E h c d)) = recognize_started d"
  using neutral_copy_config [of d E h c] by (simp_all add: neutral_def)

text \<open>
  C9 (start_recognition_listens). Starting recognition of a loaded model succeeds and takes effect: its
  client is registered with its cookie, the model is running, the callback thread exists, the
  microphone is on, and the VTS looks for exactly the models whose clients wait. This holds in every
  reachable state of an open device that has its mixer, with no call in progress, no failed stop to recover from and
  nothing streaming, for a client with a callback, when the mixer works and sockets, thread and memory
  can be had.
\<close>

theorem start_recognition_listens:
  assumes "st_reachable E starts d" "pcm_fresh E" "mixer_healthy E" "calls_succeed E"
    and "sthal_opened d" "mixer d \<noteq> NULL" "handle_matches d h" "voicecall_state d = VOICECALL_STOPPED"
    and "\<not> stop_failed d" "is_streaming d = 0" "cb \<noteq> NULL" "stdev_start_recognition E h c cb ck d = (r, d')"
  shows "r = 0 \<and> recognition_callbacks d' = (recognition_callbacks d)[nat h := cb] \<and> recognition_cookies d' ! nat h = ck \<and>
    model_execstate d' ! nat h = MODEL_STATE_RUNNING \<and> callback_thread_active d' \<and> is_mic_configured d' \<and>
    recognize_started d' = stdev_active_callback_bitmask d'"
proof -
  define d1 where "d1 = snd (copy_config E (nat h) c d)"
  define d2 where "d2 = snd (stdev_start_callback_thread E d1)"
  define d3 where "d3 = d2\<lparr>recognition_callbacks := (recognition_callbacks d2)[nat h := cb],
    recognition_cookies := (recognition_cookies d2)[nat h := ck]\<rparr>"
  define b where "b = stdev_active_callback_bitmask d3"
  define d4 where "d4 = stdev_vts_set_power E b (stdev_vts_set_power E 0 d3)"
  have ok: "st_ok E d" using reachable_inv [OF assms(1,2)] by simp
  have rec: "recovered E (nat h) d = d" using assms(9) by (simp add: recovered_def)
  have "st_ok E d2" unfolding d2_def d1_def by (rule prepared_ok [OF ok assms(5), of "nat h" c, unfolded rec])
  then have len: "length (recognition_callbacks d2) = 2" "length (recognition_cookies d2) = 2" "length (model_execstate d2) = 2"
    and mask: "recognize_started d3 \<in> {0..3}"
    by (simp_all add: st_ok_def shape_ok_def masks_ok_def d3_def)
  have f: "recognition_callbacks d2 = recognition_callbacks d" "is_streaming d2 = 0" "mixer d3 \<noteq> NULL" "callback_thread_active d3"
    using assms(6,10) start_thread_works [OF assms(4), of d1] by (simp_all add: d3_def d2_def d1_def)
  have h: "nat h < 2" by (rule handle_matches_less [OF assms(7)])
  have "recognition_callbacks d3 ! nat h \<noteq> NULL" using len(1) h assms(11) by (simp add: d3_def)
  then have b: "b \<in> {1..3}" "b \<noteq> 0"
    using h bitmask_range [of d3] by (auto simp: b_def less_2_cases_iff)
  have d4: "register E (nat h) cb ck d2 = d4"
    using f(2) unfolding register_def Let_def d4_def b_def d3_def by simp
  have eq: "r = 0" "d' = d4\<lparr>model_stopfailedhandles := (model_stopfailedhandles d4)[nat h := HANDLE_NONE],
       model_execstate := (model_execstate d4)[nat h := MODEL_STATE_RUNNING]\<rparr>"
    using assms(7,8,12) copy_config_works [OF assms(4), of "nat h" c d] start_thread_works [OF assms(4), of d1]
    unfolding start_eq Let_def rec d1_def [symmetric] d2_def [symmetric] d4 by simp_all
  have m: "stdev_active_callback_bitmask d' = b" by (simp add: eq active_callback_bitmask_eq d4_def b_def)
  show ?thesis
    using power_cycle_started [OF assms(3) f(3) mask b(1)] power_on_mic [OF b(2), of E "stdev_vts_set_power E 0 d3"] len h f(1,4)
    unfolding m by (simp add: eq d4_def) (simp add: d3_def)
qed

lemma loaded_device_reachable: "st_reachable sample_env (\<lambda>_. 0) loaded_device"
  using st_reachable.step [OF opened_device_reachable opened_device_open load_sample] by simp

lemma loaded_device_fields:
  "sthal_opened loaded_device" "mixer loaded_device = 7" "model_handles loaded_device = [0, -1]"
  "voicecall_state loaded_device = VOICECALL_STOPPED" "is_streaming loaded_device = 0"
  "model_stopfailedhandles loaded_device = [HANDLE_NONE, HANDLE_NONE]" "recognition_callbacks loaded_device = [0, 0]"
  by (simp_all add: loaded_device_def load_state_def stdev_load_sound_model_def sample_model_def model_index_of_def hotword_uuid_def
      bixby_uuid_def opened_device_fields opened_device_open vts_load_sound_model_def load_modelbinary_def
      sample_env_def syscall_def log_calls_def vts_unfold)

lemma sample_succeeds: "calls_succeed sample_env"
  by (simp add: calls_succeed_def sample_env_def)

theorem start_recognition_listens_witness:
  "st_reachable sample_env (\<lambda>_. 0) loaded_device \<and> handle_matches loaded_device 0 \<and>
   callback_thread_active (snd (stdev_start_recognition sample_env 0 None 5 6 loaded_device))"
proof -
  have h: "handle_matches loaded_device 0" "\<not> stop_failed loaded_device"
    by (simp_all add: handle_matches_def stop_failed_def loaded_device_fields)
  obtain r d' where s: "stdev_start_recognition sample_env 0 None 5 6 loaded_device = (r, d')" by fastforce
  have "mixer loaded_device \<noteq> NULL" "(5 :: int) \<noteq> NULL" by (simp_all add: loaded_device_fields)
  from start_recognition_listens [OF loaded_device_reachable sample_fresh sample_env_healthy sample_succeeds
      loaded_device_fields(1) this(1) h(1) loaded_device_fields(4) h(2) loaded_device_fields(5) this(2) s]
  show ?thesis using h(1) by (simp add: loaded_device_reachable s)
qed

lemma stop_wait_undefined:
  "recog_cbstate d \<noteq> RECOG_CB_CALLED \<Longrightarrow> stop_wait n r h d = Undefined \<longleftrightarrow> 100 \<le> n + r \<and> \<not> (0 \<le> h \<and> h < 2)"
proof (induction n arbitrary: r)
  case 0
  then show ?case by (simp add: stop_wait_not_called [of d 0])
next
  case (Suc n)
  then show ?case by (auto simp: stop_wait_not_called [of d "Suc n"])
qed

lemma stop_wait_defined: "recog_cbstate d = RECOG_CB_CALLED \<Longrightarrow> stop_wait n r h d \<noteq> Undefined"
  by (simp add: stop_wait_called)

text \<open>
  A stop request always returns, and its behaviour is undefined
  exactly when the lock cannot be had in 101 attempts, no callback is running, and the handle is none of the two
  indices: after the last attempt the arrays are written at the unchecked handle.
\<close>

theorem stop_recognition_undefined:
  "stdev_stop_recognition E ws n h d = None \<longleftrightarrow> n \<ge> 101 \<and> recog_cbstate d \<noteq> RECOG_CB_CALLED \<and> \<not> (0 \<le> h \<and> h < int MAX_SOUND_MODELS)"
proof (cases n)
  case (Suc m)
  then have "stdev_stop_recognition E ws n h d = None \<longleftrightarrow> stop_wait m 0 h d = Undefined"
    by (simp add: stdev_stop_recognition_def split: stop_result.split)
  with Suc show ?thesis
    using stop_wait_undefined [of d m 0 h] stop_wait_defined [of d m 0 h]
    by (cases "recog_cbstate d = RECOG_CB_CALLED") simp_all
qed (simp add: stdev_stop_recognition_def)

text \<open>A model without a client has none after operations that register nobody.\<close>

lemma stays_dropped:
  assumes "face_grows d d'" "quota i d' \<le> quota i d" "recognition_callbacks d ! i = NULL"
  shows "recognition_callbacks d' ! i = NULL"
proof -
  have "callback_count i (calls d) \<le> callback_count i (calls d')" using assms(1) by (simp add: face_grows_def)
  with assms(2,3) show ?thesis by (simp add: quota_def split: if_splits)
qed

lemma stop_model_dropped:
  assumes "pcm_fresh E" "st_ok E d" "i < 2" "i = h \<or> recognition_callbacks d ! i = NULL"
  shows "recognition_callbacks (stop_model E ws h d) ! i = NULL"
proof -
  define d1 where "d1 = d\<lparr>configs := (configs d)[h := None], recognition_callbacks := (recognition_callbacks d)[h := NULL]\<rparr>"
  have ok: "st_ok E d1" unfolding d1_def by (rule release_ok [OF assms(2)])
  have c: "recognition_callbacks d1 ! i = NULL"
    using assms(2-4) by (cases "i = h") (auto simp: d1_def st_ok_def shape_ok_def)
  from stays_dropped [OF grows_join join.quota [OF assms(1) ok TrueI assms(3)] c]
  show ?thesis using c by (simp add: stop_model_def Let_def flip: d1_def)
qed

lemma stop_model_idle:
  assumes "pcm_fresh E" "st_ok E d" "h < 2" "is_streaming d = 0 \<or> has_bit (is_streaming d) h"
    and "recognition_callbacks d ! (1 - h) = NULL"
  shows "\<not> callback_thread_active (stop_model E ws h d)" "is_streaming (stop_model E ws h d) = 0"
proof -
  define d1 where "d1 = d\<lparr>configs := (configs d)[h := None], recognition_callbacks := (recognition_callbacks d)[h := NULL]\<rparr>"
  have ok: "st_ok E d1" unfolding d1_def by (rule release_ok [OF assms(2)])
  have "stdev_active_callback_bitmask d1 = 0"
    using assms(2,3,5) by (auto simp: d1_def st_ok_def shape_ok_def less_2_cases_iff nth_list_update)
  then have "stop_model E ws h d = stdev_join_callback_thread E ws False d1"
    using assms(4) unfolding stop_model_def Let_def d1_def by simp
  with join_fields(1) [OF assms(1) ok, of ws False]
  show "\<not> callback_thread_active (stop_model E ws h d)" "is_streaming (stop_model E ws h d) = 0"
    by (simp_all add: join_eq)
qed

text \<open>
  C33 (stop_recognition_releases). In every reachable state of an open device without a call in progress,
  with a working mixer and pcm nodes that are ready when they are opened, a stop request that succeeds
  releases the client: its callback is gone and it is marked stopped. If no other client waits and no
  other model streams, the callback thread has ended, nothing streams, no model is started, and the
  microphone is off unless a recording uses it.
\<close>

theorem stop_recognition_releases:
  assumes "st_reachable E starts d" "pcm_fresh E" "mixer_healthy E" "pcm_ready E" "sthal_opened d"
    and "voicecall_state d = VOICECALL_STOPPED" "stdev_stop_recognition_l E ws h d = (0, d')"
  shows "0 \<le> h \<and> h < int MAX_SOUND_MODELS \<and> recognition_callbacks d' ! nat h = NULL \<and>
    model_execstate d' ! nat h = MODEL_STATE_NONE \<and> model_stopfailedhandles d' ! nat h = HANDLE_NONE \<and>
    ((is_streaming d = 0 \<or> has_bit (is_streaming d) (nat h)) \<and> recognition_callbacks d ! (1 - nat h) = NULL \<longrightarrow>
       \<not> callback_thread_active d' \<and> is_streaming d' = 0 \<and> recognize_started d' = 0 \<and> (is_mic_configured d' \<longrightarrow> is_recording d'))"
proof -
  define m where "m = stop_model E ws (nat h) d"
  have inv: "st_ok E d" "mic_inv d" using reachable_inv [OF assms(1,2)] assms(3,4) by simp_all
  have h: "handle_matches d h" and d': "d' = m\<lparr>model_stopfailedhandles := (model_stopfailedhandles m)[nat h := HANDLE_NONE],
      model_execstate := (model_execstate m)[nat h := MODEL_STATE_NONE]\<rparr>"
    using assms(6,7) by (auto simp: stop_l_eq m_def split: if_splits)
  have hb: "0 \<le> h" "h < 2" "nat h < 2" using h by (auto simp: handle_matches_def)
  note p = stop_model_props [OF assms(2) inv(1), where ws = ws and h = "nat h", folded m_def]
  have len: "length (model_execstate m) = 2" "length (model_stopfailedhandles m) = 2"
    using p(1) by (simp_all add: st_ok_def shape_ok_def)
  have mic: "mic_inv m" by (rule p(4) [OF assms(3,5) mic_inv_weak [OF inv(2)]])
  note drop = stop_model_dropped [OF assms(2) inv(1), where ws = ws and h = "nat h", folded m_def]
  have "\<not> has_client m" if "recognition_callbacks d ! (1 - nat h) = NULL"
  proof -
    have "i = nat h \<or> i = 1 - nat h" if "i < 2" for i using that hb(3) by auto
    then show ?thesis using drop that by (auto simp: has_client_def)
  qed
  with stop_model_idle [OF assms(2) inv(1) hb(3), of ws, folded m_def] mic drop [of "nat h"] hb len
  show ?thesis by (simp add: d' mic_inv_def) blast
qed

text \<open>The device of the first witness after recognition was started.\<close>

definition listening_device :: stdev where
  "listening_device = snd (stdev_start_recognition sample_env 0 None 5 6 loaded_device)"

lemma listening_device_reachable:
  "\<exists>starts. st_reachable sample_env starts listening_device" "sthal_opened listening_device"
  "voicecall_state listening_device = VOICECALL_STOPPED" "handle_matches listening_device 0"
  "recognition_callbacks listening_device ! 0 \<noteq> NULL"
proof -
  have f: "face listening_device = face loaded_device" unfolding listening_device_def by simp
  have "st_exec sample_env (Start 0 None 5 6) loaded_device =
      Some (fst (stdev_start_recognition sample_env 0 None 5 6 loaded_device), listening_device)"
    by (simp add: listening_device_def)
  from st_reachable.step [OF loaded_device_reachable loaded_device_fields(1) this]
  show "\<exists>starts. st_reachable sample_env starts listening_device" by blast
  show "sthal_opened listening_device" "handle_matches listening_device 0"
    using f loaded_device_fields(1,3) by (simp_all add: face_def handle_matches_def)
  show "voicecall_state listening_device = VOICECALL_STOPPED" "recognition_callbacks listening_device ! 0 \<noteq> NULL"
    using start_thread_works [OF sample_succeeds]
    by (simp_all add: listening_device_def start_eq Let_def register_def recovered_def copy_config_def handle_matches_def
        loaded_device_fields stop_failed_def)
qed

theorem stop_recognition_releases_witness:
  "\<exists>starts d'. st_reachable sample_env starts listening_device \<and>
     stdev_stop_recognition_l sample_env [] 0 listening_device = (0, d') \<and> recognition_callbacks d' ! 0 = NULL"
proof -
  obtain starts where r: "st_reachable sample_env starts listening_device" using listening_device_reachable(1) by blast
  have "fst (stdev_stop_recognition_l sample_env [] 0 listening_device) = 0"
    using listening_device_reachable by (simp add: stop_l_eq)
  then obtain d' where s: "stdev_stop_recognition_l sample_env [] 0 listening_device = (0, d')"
    by (metis prod.collapse)
  from stop_recognition_releases [OF r sample_fresh sample_env_healthy sample_ready listening_device_reachable(2,3) s] r s
  show ?thesis by auto
qed

section \<open>Voice calls\<close>

lemma voicecall_start_eq:
  fixes E :: st_env and d :: stdev
  assumes "sthal_opened d" "is_mic_configured d"
  defines "d2 \<equiv> stdev_vts_set_power E 0 (close_pcms d)"
  shows "sound_trigger_voicecall_status E 1 d =
    (0, d2\<lparr>recognition_callbacks := (recognition_callbacks d2)[HOTWORD_INDEX := NULL, SVOICE_INDEX := NULL],
           voicecall_state := VOICECALL_STARTED\<rparr>)"
proof -
  have "stdev_vts_set_power E 0 (if is_streaming d \<noteq> 0 then (close_pcms d)\<lparr>is_streaming := 0\<rparr> else close_pcms d) = d2"
    by (simp add: d2_def stdev_vts_set_power_def close_streaming_pcm_def log_calls_def)
  then show ?thesis using assms(1,2) unfolding sound_trigger_voicecall_status_def Let_def by simp
qed

text \<open>
  C34 (voice_call_silences). When a call starts on an open device whose microphone is on, with a working
  mixer and pcm nodes that are ready when they are opened, the streaming node and the node of a
  recording are closed, every client is dropped, no model is started and the microphone is off. In the
  state the call begins with, opening and closing recordings, opening streams, closing them with a
  positive handle and starting recognition of a loaded model are refused with \<open>-EBUSY\<close>, a stop request
  is answered with success, and none of them changes anything.
\<close>

theorem voice_call_silences:
  assumes "st_reachable E starts d" "pcm_fresh E" "mixer_healthy E" "pcm_ready E" "sthal_opened d" "is_mic_configured d"
    and "sound_trigger_voicecall_status E 1 d = (r, d')"
  shows "r = 0 \<and> \<not> is_mic_configured d' \<and> recognize_started d' = 0 \<and> is_streaming d' = 0 \<and> streaming_pcm d' = NULL \<and>
    \<not> is_recording d' \<and> (is_recording d \<longrightarrow> recording_pcm d' = NULL) \<and> recognition_callbacks d' = [NULL, NULL] \<and>
    sound_trigger_open_recording E d' = (-EBUSY, d') \<and> sound_trigger_open_for_streaming E d' = (-EBUSY, d') \<and>
    sound_trigger_close_recording E d' = (-EBUSY, d') \<and> (0 < a \<longrightarrow> sound_trigger_close_for_streaming E a d' = (-EBUSY, d')) \<and>
    (handle_matches d' h \<longrightarrow> stdev_start_recognition E h c cb ck d' = (-EBUSY, d')) \<and>
    stdev_stop_recognition_l E ws h d' = (0, d')"
proof -
  define d2 where "d2 = stdev_vts_set_power E 0 (close_pcms d)"
  have inv: "st_ok E d" "mic_inv d" using reachable_inv [OF assms(1,2)] assms(3,4) by simp_all
  have d': "r = 0" "d' = d2\<lparr>recognition_callbacks := (recognition_callbacks d2)[HOTWORD_INDEX := NULL, SVOICE_INDEX := NULL],
      voicecall_state := VOICECALL_STARTED\<rparr>"
    using assms(7) voicecall_start_eq [OF assms(5,6), of E, folded d2_def] by simp_all
  have off: "\<not> is_mic_configured d2" "recognize_started d2 = 0"
    unfolding d2_def by (rule close_and_power_off [OF assms(3) inv(1) mic_inv_weak [OF inv(2)]])+
  have "st_ok E d2" unfolding d2_def by (rule set_power_ok [OF close_pcms_props(1) [OF inv(1)]])
  then have "length (recognition_callbacks d2) = 2" by (simp add: st_ok_def shape_ok_def)
  then have "(recognition_callbacks d2)[0 := NULL, 1 := NULL] = [NULL, NULL]"
    by (auto simp: numeral_2_eq_2 length_Suc_conv)
  then have cb: "recognition_callbacks d' = [NULL, NULL]" by (simp add: d'(2))
  have flags: "sthal_opened d'" "voicecall_state d' = VOICECALL_STARTED" "is_streaming d' = 0" "streaming_pcm d' = NULL" "\<not> is_recording d'"
    using assms(5) by (simp_all add: d'(2) d2_def close_pcms_props)
  have "handle_matches d' h \<longrightarrow> stdev_start_recognition E h c cb ck d' = (-EBUSY, d')"
    using cb handle_matches_less [of d' h]
    by (auto simp: stdev_start_recognition_def flags(2) Let_def less_2_cases_iff)
  moreover have "is_recording d \<longrightarrow> recording_pcm d' = NULL"
    by (simp add: d'(2) d2_def close_pcms_def close_recording_pcm_def close_streaming_pcm_def log_calls_def Let_def)
  ultimately show ?thesis using flags cb off d'
    by (simp add: sound_trigger_open_recording_def sound_trigger_open_for_streaming_def sound_trigger_close_recording_def
        sound_trigger_close_for_streaming_def stdev_stop_recognition_l_def)
qed

lemma listening_device_mic: "is_mic_configured listening_device"
proof -
  define d1 where "d1 = snd (stdev_start_callback_thread sample_env (snd (copy_config sample_env 0 None loaded_device)))"
  define d2 where "d2 = d1\<lparr>recognition_callbacks := (recognition_callbacks d1)[0 := 5], recognition_cookies := (recognition_cookies d1)[0 := 6]\<rparr>"
  have "recognition_callbacks d2 = [5, 0]" "is_streaming d2 = 0"
    by (simp_all add: d2_def d1_def loaded_device_fields)
  then have "stdev_active_callback_bitmask d2 \<noteq> 0" by simp
  with power_on_mic [OF this] \<open>is_streaming d2 = 0\<close> have "is_mic_configured (register sample_env 0 5 6 d1)"
    by (simp add: register_def Let_def flip: d2_def del: active_callback_bitmask_0)
  then show ?thesis
    using start_thread_works [OF sample_succeeds] copy_config_works [OF sample_succeeds]
    by (simp add: listening_device_def start_eq Let_def recovered_def handle_matches_def loaded_device_fields stop_failed_def
        flip: d1_def)
qed

theorem voice_call_silences_witness:
  "\<exists>starts. st_reachable sample_env starts listening_device \<and> is_mic_configured listening_device \<and>
     \<not> is_mic_configured (snd (sound_trigger_voicecall_status sample_env 1 listening_device))"
proof -
  obtain starts where r: "st_reachable sample_env starts listening_device" using listening_device_reachable(1) by blast
  from voice_call_silences [OF r sample_fresh sample_env_healthy sample_ready listening_device_reachable(2) listening_device_mic
      prod.collapse [symmetric]] r
  show ?thesis using listening_device_mic by blast
qed

section \<open>Failures\<close>

lemma power_off_live: "live_pcms E (calls (stdev_vts_set_power E 0 d)) = live_pcms E (calls d) - {streaming_pcm d}"
  using quiet_ext_pcms(1) [OF vts_power.keep [of "end_streaming d" E 0, unfolded mixer_keep_def, THEN conjunct2], of E]
  by (auto simp: set_power_eq end_streaming_def close_streaming_pcm_def log_calls_def)

text \<open>
  A read of the stream holds only \<open>trigger_lock\<close>, which unloading a model does not
  take: when a client unloads the model that streams between the checks of a read and the read itself,
  and no thread and no other client is there, the read is made on a node that is closed.
\<close>

theorem read_races_unload:
  assumes "st_ok E d" "read_samples_check a d = Inr p" "p \<noteq> NULL" "handle_matches d h" "has_bit (is_streaming d) (nat h)"
    and "\<not> callback_thread_active d" "recognition_callbacks d ! (1 - nat h) = NULL" "stdev_unload_sound_model E ws h d = (r, d')"
  shows "r = 0 \<and> \<not> pcm_safe E (calls (snd (read_samples_pcm E n p d')))"
proof -
  define d1 where "d1 = d\<lparr>configs := (configs d)[nat h := None], recognition_callbacks := (recognition_callbacks d)[nat h := NULL]\<rparr>"
  have p: "p = streaming_pcm d" "voicecall_state d \<noteq> VOICECALL_STARTED" using assms(2) by (auto simp: read_samples_check_def split: if_splits)
  have h: "nat h < 2" "0 \<le> h" "h < 2" "model_handles d ! nat h = h" using assms(4) by (auto simp: handle_matches_def)
  have "stdev_active_callback_bitmask d1 = 0"
    using assms(1,7) h(1) by (auto simp: d1_def st_ok_def shape_ok_def less_2_cases_iff nth_list_update)
  then have "stop_model E ws (nat h) d = stdev_close_callback_thread_sockets (stdev_vts_set_power E 0 d1)"
    using assms(5,6) by (simp add: stop_model_def join_eq end_thread_def Let_def flip: d1_def) (simp add: d1_def)
  then have "r = 0" "quiet_ext (calls (stdev_vts_set_power E 0 d1)) (calls d')"
    using assms(4,5,8) h p(2) thread_keep_sockets [OF thread_keep_refl, of "stdev_vts_set_power E 0 d1"]
    by (auto simp: stdev_unload_sound_model_def stop_l_eq thread_keep_def Let_def)
  moreover have "p \<notin> live_pcms E (calls (stdev_vts_set_power E 0 d1))" by (simp add: power_off_live p(1) d1_def)
  ultimately show ?thesis using assms(3) quiet_ext_pcms(1) [of _ "calls d'" E] by (simp add: read_samples_pcm_def syscall_def)
qed

definition streaming_device :: stdev where
  "streaming_device = running_device\<lparr>recognition_callbacks := [NULL, NULL], is_streaming := 2, streaming_pcm := 100, is_seamless_recording := True,
     callback_thread_active := False, cb_thread_of := None, voicecall_state := VOICECALL_STOPPED, calls := [pcm_open 0 0]\<rparr>"

theorem read_races_unload_witness:
  "read_samples_check 1 streaming_device = Inr 100 \<and>
   \<not> pcm_safe sample_env (calls (snd (read_samples_pcm sample_env 8 100 (snd (stdev_unload_sound_model sample_env [] 1 streaming_device)))))"
proof -
  have ok: "st_ok sample_env streaming_device"
    by (simp add: streaming_device_def running_device_def g_stdev_def st_ok_def st_ok_parts pcms_ok_def less_2_cases_iff
        all_conj_distrib nth_Cons' sample_env_def)
  have c: "read_samples_check 1 streaming_device = Inr 100"
    by (simp add: read_samples_check_def streaming_device_def running_device_def)
  from read_races_unload [OF ok c _ _ _ _ _ prod.collapse [symmetric], where h = 1] c show ?thesis
    by (auto simp: streaming_device_def running_device_def handle_matches_def has_bit_def)
qed

text \<open>
  When the library of the audio HAL exists but cannot be
  loaded, \<open>stdev_open\<close> closes the mixer and takes the path of a failed open, but returns 0: the
  caller gets a device that counts as open and whose mixer pointer is closed.
\<close>

theorem open_failure_reported_as_success:
  assumes "\<not> sthal_opened d" "fst (open_vtsdev E d)" "\<And>cs n. sys E cs (mixer_open n) \<noteq> NULL"
    and "\<And>cs p. sys E cs (sys_access p) = 0" "\<And>cs p. sys E cs (sys_dlopen p) = NULL"
    and "stdev_open E True d = (r, d')" "pcm_fresh E" "st_reachable E starts d"
  shows "r = 0 \<and> sthal_opened d' \<and> mixer d' \<noteq> NULL \<and> hd (calls d') = mixer_close (mixer d')"
proof -
  define r2 where "r2 = stdev_init_mixer E (snd (open_vtsdev E d))"
  define d3 where "d3 = snd (link_audio_hal E (reset_device (snd r2)))"
  have r2: "fst r2 = 0" "mixer (snd r2) \<noteq> NULL"
    using assms(3) by (simp_all add: r2_def stdev_init_mixer_def vts_unfold syscall_def)
  have l: "\<not> fst (link_audio_hal E (reset_device (snd r2)))"
    using assms(4,5) by (simp add: link_audio_hal_def vts_unfold syscall_def)
  have n: "neutral (reset_device (snd r2)) d3" unfolding d3_def by (rule neutral_link_audio_hal)
  have d': "r = 0" "d' = stdev_close_mixer E [] d3"
    using assms(1,2,6) r2(1) l by (simp_all add: stdev_open_def vts_unfold d3_def r2_def)
  have n1: "neutral d (snd (open_vtsdev E d))" by (rule neutral_open_vtsdev)
  have ok1: "st_ok E (snd (open_vtsdev E d))" "\<not> sthal_opened (snd (open_vtsdev E d))"
    using assms(1) reachable_inv [OF assms(8,7)] n1 neutral_st_ok [OF n1, of E] by (simp_all add: neutral_def)
  note i = init_mixer_props [OF ok1, folded r2_def]
  have d3: "sthal_opened d3" "mixer d3 \<noteq> NULL" "\<not> callback_thread_active d3"
    using n r2(2) i(1,4) by (auto simp: neutral_def reset_device_def st_ok_def thread_ok_def)
  then have j: "stdev_join_callback_thread E [] False (stdev_vts_set_power E 0 d3) =
      stdev_close_callback_thread_sockets (stdev_vts_set_power E 0 (stdev_vts_set_power E 0 d3))"
    by (simp add: join_eq end_thread_def)
  show ?thesis
    using d3 by (simp add: d' close_mixer_eq j) (simp add: log_calls_def)
qed

text \<open>An environment in which only the loading of that library fails.\<close>

definition no_library_env :: st_env where
  "no_library_env = sample_env\<lparr>sys := (\<lambda>cs c. case c of sys_dlopen _ \<Rightarrow> NULL | _ \<Rightarrow> sample_sys cs c)\<rparr>"

theorem open_failure_reported_as_success_witness:
  "\<not> sthal_opened g_stdev \<and> fst (stdev_open no_library_env True g_stdev) = 0 \<and>
   sthal_opened (snd (stdev_open no_library_env True g_stdev))"
proof -
  have closed: "\<not> sthal_opened g_stdev" by (simp add: g_stdev_def)
  have vts: "fst (open_vtsdev no_library_env g_stdev)"
    by (simp add: open_vtsdev_def no_library_env_def sample_env_def syscall_def vts_unfold)
  have "live_pcms no_library_env cs \<subseteq> {100..<100 + int (length cs)}" for cs
  proof (induction no_library_env cs rule: live_pcms.induct)
    case (2 a b cs)
    then show ?case by (force simp: no_library_env_def)
  qed (auto simp: no_library_env_def)
  then have "pcm_fresh no_library_env" by (fastforce simp: pcm_fresh_def no_library_env_def)
  from open_failure_reported_as_success [OF closed vts _ _ _ prod.collapse [symmetric] this st_reachable.init] closed
  show ?thesis by (simp add: no_library_env_def)
qed

text \<open>
  A recording whose node is not ready fails, but leaves the microphone on and the node open; closing
  it is then refused, so nothing but a later power cycle gives the microphone back.
\<close>

lemma failed_recording_leaves_mic:
  assumes "sthal_opened d" "voicecall_state d = VOICECALL_STOPPED" "\<not> is_recording d" "\<not> stop_failed d"
    and "\<And>cs a b. sys E cs (pcm_open a b) \<noteq> NULL" "\<And>cs p. sys E cs (pcm_is_ready p) = 0"
    and "sound_trigger_open_recording E d = (r, d')"
  shows "r = -EFAULT \<and> is_mic_configured d' \<and> recording_pcm d' \<noteq> NULL \<and> sound_trigger_close_recording E d' = (-EINVAL, d')"
proof -
  have "r = -EFAULT" "d' = snd (open_recording_pcm E (stdev_vts_set_mic E True d))"
    using assms by (simp_all add: sound_trigger_open_recording_def open_recording_pcm_def syscall_def vts_unfold)
  with assms(1-5) show ?thesis
    by (simp add: open_recording_pcm_eq opened_pcm_def sound_trigger_close_recording_def stop_failed_def)
qed

text \<open>
  When the streaming node cannot be opened again after a change of the microphone, the recording
  node is closed although the recording stays registered; closing the recording then closes NULL.
\<close>

lemma headset_configured_eq:
  assumes "sthal_opened d" "is_mic_configured d"
  shows "sound_trigger_headset_status E c d =
    (let r = reopen_recording E (switched_mic E c d) in if fst r then (-EFAULT, snd r) else reopen_streaming E (snd r))"
proof -
  have "stdev_active_callback_bitmask (close_pcms d) = stdev_active_callback_bitmask d"
    by (simp add: active_callback_bitmask_eq close_pcms_props)
  with assms show ?thesis
    unfolding sound_trigger_headset_status_def switched_mic_def Let_def case_prod_unfold by simp
qed

lemma close_pcms_fields:
  "is_recording d \<Longrightarrow> recording_pcm (close_pcms d) = NULL" "model_stopfailedhandles (close_pcms d) = model_stopfailedhandles d"
  "voicecall_state (close_pcms d) = voicecall_state d"
  by (simp_all add: close_pcms_def close_recording_pcm_def close_streaming_pcm_def log_calls_def Let_def)

lemma switched_mic_fields:
  assumes "is_streaming d \<noteq> 0"
  shows "is_streaming (switched_mic E c d) = is_streaming d" "is_seamless_recording (switched_mic E c d) = is_seamless_recording d"
    "is_recording (switched_mic E c d) = is_recording d" "streaming_pcm (switched_mic E c d) = NULL"
    "sthal_opened (switched_mic E c d) = sthal_opened d" "voicecall_state (switched_mic E c d) = voicecall_state d"
    "model_stopfailedhandles (switched_mic E c d) = model_stopfailedhandles d"
    "is_recording d \<Longrightarrow> recording_pcm (switched_mic E c d) = NULL"
  using assms by (simp_all add: switched_mic_def Let_def close_pcms_fields close_pcms_props)

lemma headset_failure_closes_null:
  assumes "sthal_opened d" "voicecall_state d = VOICECALL_STOPPED" "is_mic_configured d" "is_recording d"
    and "is_streaming d \<noteq> 0" "is_seamless_recording d" "\<not> stop_failed d"
    and "\<And>cs. sys E cs (pcm_open (VTS_SOUND_CARD E) (VTS_TRICAP_DEVICE_NODE E)) = p" "p \<noteq> NULL"
    and "\<And>cs. sys E cs (pcm_open (VTS_SOUND_CARD E) (VTS_RECORD_DEVICE_NODE E)) \<noteq> p"
    and "\<And>cs q. sys E cs (pcm_is_ready q) = (if q = p then 0 else 1)"
  shows "\<exists>d'. sound_trigger_headset_status E c d = (-EFAULT, d') \<and> is_recording d' \<and> recording_pcm d' = NULL \<and>
    pcm_close NULL \<in> set (calls (snd (sound_trigger_close_recording E d')))"
proof -
  define s where "s = stdev_vts_set_mic E True (switched_mic E c d)"
  define r where "r = open_recording_pcm E s"
  note f = switched_mic_fields [OF assms(5), of E c]
  have r: "reopen_recording E (switched_mic E c d) = r" "\<not> fst r"
    using assms(4,10,11) f by (simp_all add: reopen_recording_def r_def s_def Let_def)
      (simp add: open_recording_pcm_def syscall_def vts_unfold)
  have rf: "is_streaming (snd r) \<noteq> 0" "is_seamless_recording (snd r)" "streaming_pcm (snd r) = NULL" "is_recording (snd r)"
    "sthal_opened (snd r)" "voicecall_state (snd r) = VOICECALL_STOPPED" "model_stopfailedhandles (snd r) = model_stopfailedhandles d"
    using assms(1-6) f by (simp_all add: r_def open_recording_pcm_eq s_def)
  define d' where "d' = snd (reopen_streaming E (snd r))"
  have "sound_trigger_headset_status E c d = (-EFAULT, d')"
    using rf(1-3) r assms(8,9,11) headset_configured_eq [OF assms(1,3), of E c]
    by (simp add: d'_def reopen_streaming_def Let_def syscall_def)
  moreover have d': "is_recording d'" "recording_pcm d' = NULL" "sthal_opened d'" "voicecall_state d' = VOICECALL_STOPPED" "\<not> stop_failed d'"
    using rf assms(7-9,11)
    by (simp_all add: d'_def reopen_streaming_eq opened_pcm_def Let_def close_recording_pcm_def log_calls_def stop_failed_def)
  moreover have "pcm_close NULL \<in> set (calls (snd (sound_trigger_close_recording E d')))"
  proof -
    have "set (calls d0) \<subseteq> set (calls (mic_off_if_unused E d0))" for d0
      using set_mic.keep [of d0 E False] by (auto simp: mic_off_if_unused_def mixer_keep_def quiet_ext_def)
    from this [of "closed_recording d'"] have "pcm_close NULL \<in> set (calls (mic_off_if_unused E (closed_recording d')))"
      using d'(2) by (auto simp: closed_recording_def log_calls_def)
    then show ?thesis using d' by (simp add: close_recording_eq stop_recovered_def Let_def)
  qed
  ultimately show ?thesis by blast
qed

end
