(* ===== verification/Ril_Client.thy ===== *)
theory Ril_Client
  imports Exynos_Prelude
begin

text \<open>
  The RIL audio client of the primary audio HAL, \<open>libaudio/audiohal/audioril-sec/secril_interface.c\<close>:
  a singleton that loads the RIL client library, opens and connects a client, and passes the call
  settings of the voice manager on to the modem. The library is not part of the sources: what a
  call into it returns is given by an environment that may depend on all calls made before, and
  every call is recorded in a log. The result \<open>None\<close> of an operation is a call through a function
  pointer that is NULL. The theorems show when opening succeeds, that every client that is used is
  open, which settings survive, and which clients are lost.
\<close>

section \<open>State\<close>

abbreviation (input) NULL :: int where "NULL \<equiv> 0"
abbreviation (input) MAX_RETRY :: nat where "MAX_RETRY \<equiv> 10"
abbreviation (input) CP1 :: int where "CP1 \<equiv> 0"
abbreviation (input) VOLTE_OFF :: int where "VOLTE_OFF \<equiv> 0"
abbreviation (input) VOLTE_VOICE :: int where "VOLTE_VOICE \<equiv> 1"
abbreviation (input) NB_SAMPLING_RATE :: int where "NB_SAMPLING_RATE \<equiv> 8000"
abbreviation (input) WB_SAMPLING_RATE :: int where "WB_SAMPLING_RATE \<equiv> 16000"
abbreviation (input) VOICE_AUDIO_TURN_OFF_I2S :: int where "VOICE_AUDIO_TURN_OFF_I2S \<equiv> 0"
abbreviation (input) VOICE_AUDIO_TURN_ON_I2S :: int where "VOICE_AUDIO_TURN_ON_I2S \<equiv> 1"

datatype SoundType = SOUND_TYPE_NONE | SOUND_TYPE_VOICE | SOUND_TYPE_SPEAKER | SOUND_TYPE_HEADSET | SOUND_TYPE_BTVOICE

datatype AudioPath =
    SOUND_AUDIO_PATH_NONE | SOUND_AUDIO_PATH_HANDSET | SOUND_AUDIO_PATH_HEADSET | SOUND_AUDIO_PATH_HANDSFREE
  | SOUND_AUDIO_PATH_BLUETOOTH | SOUND_AUDIO_PATH_STEREO_BLUETOOTH | SOUND_AUDIO_PATH_SPEAKRERPHONE | SOUND_AUDIO_PATH_35PI_HEADSET | SOUND_AUDIO_PATH_BT_NS_EC_OFF
  | SOUND_AUDIO_PATH_WB_BLUETOOTH | SOUND_AUDIO_PATH_WB_BT_NS_EC_OFF | SOUND_AUDIO_PATH_HANDSET_HAC | SOUND_AUDIO_PATH_LINEOUT
  | SOUND_AUDIO_PATH_VOLTE_HANDSET | SOUND_AUDIO_PATH_VOLTE_HEADSET | SOUND_AUDIO_PATH_VOLTE_HFK
  | SOUND_AUDIO_PATH_VOLTE_BLUETOOTH | SOUND_AUDIO_PATH_VOLTE_STEREO_BLUETOOTH | SOUND_AUDIO_PATH_VOLTE_SPEAKRERPHONE | SOUND_AUDIO_PATH_VOLTE_35PI_HEADSET | SOUND_AUDIO_PATH_VOLTE_BT_NS_EC_OFF
  | SOUND_AUDIO_PATH_VOLTE_WB_BLUETOOTH | SOUND_AUDIO_PATH_VOLTE_WB_BT_NS_EC_OFF | SOUND_AUDIO_PATH_VOLTE_HANDSET_HAC
  | SOUND_AUDIO_PATH_VOLTE_LINEOUT | SOUND_AUDIO_PATH_MAX

text \<open>
  The output devices the code names. Any other value of \<open>audio_devices_t\<close>, a combination of devices
  included, is the last constructor with its bits and whether one of them is a Bluetooth SCO device.
\<close>

datatype audio_devices =
    AUDIO_DEVICE_NONE | AUDIO_DEVICE_OUT_EARPIECE | AUDIO_DEVICE_OUT_SPEAKER | AUDIO_DEVICE_OUT_WIRED_HEADSET
  | AUDIO_DEVICE_OUT_WIRED_HEADPHONE | AUDIO_DEVICE_OUT_BLUETOOTH_SCO | AUDIO_DEVICE_OUT_BLUETOOTH_SCO_HEADSET
  | AUDIO_DEVICE_OUT_BLUETOOTH_SCO_CARKIT | AUDIO_DEVICE_OUT_LINE | AUDIO_DEVICE_OTHER u32 bool

text \<open>Calls that leave the client; a pointer is an integer, NULL is 0.\<close>

datatype ril_call =
    calloc_intf
  | calloc_voice
  | dlopen_lib
  | dlsym_lib int string
  | dlclose_lib int
  | OpenClient_RILD
  | CloseClient_RILD int
  | Connect_RILD int
  | isConnected_RILD int
  | SetCallVolume int SoundType int
  | SetCallAudioPath int AudioPath
  | SetMute int bool
  | SetCallClockSync int int

record ril_env =
  ril_sys :: "ril_call list \<Rightarrow> ril_call \<Rightarrow> int"

text \<open>The singleton; a function pointer is the address \<open>dlsym\<close> returned.\<close>

record rilclient_intf =
  lib_handle :: int
  client :: int
  sound_type :: SoundType
  extraVolume :: bool
  wbAmr :: bool
  emergencyMode :: bool
  btsco_ec :: bool
  btsco_sr :: int
  audio_mode :: int
  audio_state :: bool
  tx_mute :: bool
  rx_mute :: bool
  dualmic :: bool
  current_modem :: int
  realcall :: bool
  volte_status :: int
  call_forward :: bool
  usbmic_state :: bool
  hac_mode :: bool
  ril_open_client :: int
  ril_close_client :: int
  ril_connect :: int
  ril_is_connected :: int
  ril_disconnect :: int
  ril_set_audio_volume :: int
  ril_set_audio_path :: int
  ril_set_multi_mic :: int
  ril_set_mute :: int
  ril_set_audio_clock :: int
  ril_set_tty_mode :: int

record ril_world =
  ril_instance :: "rilclient_intf option"
  ril_calls :: "ril_call list"

definition ril_syscall :: "ril_env \<Rightarrow> ril_call \<Rightarrow> ril_world \<Rightarrow> int \<times> ril_world" where
  "ril_syscall E c w = (ril_sys E (ril_calls w) c, w\<lparr>ril_calls := c # ril_calls w\<rparr>)"

definition ril_emit :: "ril_call \<Rightarrow> ril_world \<Rightarrow> ril_world" where
  "ril_emit c w = w\<lparr>ril_calls := c # ril_calls w\<rparr>"

section \<open>The singleton\<close>

definition zero_intf :: rilclient_intf where
  "zero_intf = \<lparr>lib_handle = NULL, client = NULL, sound_type = SOUND_TYPE_NONE, extraVolume = False, wbAmr = False,
     emergencyMode = False, btsco_ec = False, btsco_sr = 0, audio_mode = 0, audio_state = False, tx_mute = False,
     rx_mute = False, dualmic = False, current_modem = 0, realcall = False, volte_status = 0, call_forward = False,
     usbmic_state = False, hac_mode = False, ril_open_client = NULL, ril_close_client = NULL, ril_connect = NULL,
     ril_is_connected = NULL, ril_disconnect = NULL, ril_set_audio_volume = NULL, ril_set_audio_path = NULL,
     ril_set_multi_mic = NULL, ril_set_mute = NULL, ril_set_audio_clock = NULL, ril_set_tty_mode = NULL\<rparr>"

definition getInstance :: "ril_env \<Rightarrow> ril_world \<Rightarrow> rilclient_intf option \<times> ril_world" where
  "getInstance E w =
     (case ril_instance w of
        Some r \<Rightarrow> (Some r, w)
      | None \<Rightarrow> (let (p, w) = ril_syscall E calloc_intf w in
                 if p = NULL then (None, w) else (Some zero_intf, w\<lparr>ril_instance := Some zero_intf\<rparr>)))"

definition destroyInstance :: "ril_world \<Rightarrow> ril_world" where
  "destroyInstance w = w\<lparr>ril_instance := None\<rparr>"

text \<open>What a setter does with the singleton, if there is memory for it.\<close>

definition with_instance :: "ril_env \<Rightarrow> (rilclient_intf \<Rightarrow> ril_world \<Rightarrow> rilclient_intf \<times> ril_world) \<Rightarrow> ril_world \<Rightarrow> ril_world" where
  "with_instance E f w =
     (case getInstance E w of
        (None, w) \<Rightarrow> w
      | (Some r, w) \<Rightarrow> (let (r, w) = f r w in w\<lparr>ril_instance := Some r\<rparr>))"

definition map_incall_device :: "rilclient_intf \<Rightarrow> audio_devices \<Rightarrow> AudioPath" where
  "map_incall_device voice devices =
     (let off = (volte_status voice = VOLTE_OFF);
          sco = (if off then
                   (if btsco_ec voice then
                      (if btsco_sr voice = NB_SAMPLING_RATE then SOUND_AUDIO_PATH_BT_NS_EC_OFF else SOUND_AUDIO_PATH_WB_BT_NS_EC_OFF)
                    else
                      (if btsco_sr voice = NB_SAMPLING_RATE then SOUND_AUDIO_PATH_BLUETOOTH else SOUND_AUDIO_PATH_WB_BLUETOOTH))
                 else
                   (if btsco_ec voice then
                      (if btsco_sr voice = NB_SAMPLING_RATE then SOUND_AUDIO_PATH_VOLTE_BT_NS_EC_OFF
                       else SOUND_AUDIO_PATH_VOLTE_WB_BT_NS_EC_OFF)
                    else
                      (if btsco_sr voice = NB_SAMPLING_RATE then SOUND_AUDIO_PATH_VOLTE_BLUETOOTH
                       else SOUND_AUDIO_PATH_VOLTE_WB_BLUETOOTH)))
      in case devices of
           AUDIO_DEVICE_OUT_EARPIECE \<Rightarrow>
             (if off then (if hac_mode voice then SOUND_AUDIO_PATH_HANDSET_HAC else SOUND_AUDIO_PATH_HANDSET)
              else (if hac_mode voice then SOUND_AUDIO_PATH_VOLTE_HANDSET_HAC else SOUND_AUDIO_PATH_VOLTE_HANDSET))
         | AUDIO_DEVICE_OUT_SPEAKER \<Rightarrow> (if off then SOUND_AUDIO_PATH_SPEAKRERPHONE else SOUND_AUDIO_PATH_VOLTE_SPEAKRERPHONE)
         | AUDIO_DEVICE_OUT_WIRED_HEADSET \<Rightarrow> (if off then SOUND_AUDIO_PATH_HEADSET else SOUND_AUDIO_PATH_VOLTE_HEADSET)
         | AUDIO_DEVICE_OUT_WIRED_HEADPHONE \<Rightarrow> (if off then SOUND_AUDIO_PATH_35PI_HEADSET else SOUND_AUDIO_PATH_VOLTE_35PI_HEADSET)
         | AUDIO_DEVICE_OUT_BLUETOOTH_SCO \<Rightarrow> sco
         | AUDIO_DEVICE_OUT_BLUETOOTH_SCO_HEADSET \<Rightarrow> sco
         | AUDIO_DEVICE_OUT_BLUETOOTH_SCO_CARKIT \<Rightarrow> sco
         | AUDIO_DEVICE_OUT_LINE \<Rightarrow> (if off then SOUND_AUDIO_PATH_LINEOUT else SOUND_AUDIO_PATH_VOLTE_LINEOUT)
         | _ \<Rightarrow> (if off then SOUND_AUDIO_PATH_HANDSET else SOUND_AUDIO_PATH_VOLTE_HANDSET))"

definition map_sound_from_device :: "AudioPath \<Rightarrow> SoundType" where
  "map_sound_from_device path =
     (case path of
        SOUND_AUDIO_PATH_SPEAKRERPHONE \<Rightarrow> SOUND_TYPE_SPEAKER
      | SOUND_AUDIO_PATH_HEADSET \<Rightarrow> SOUND_TYPE_HEADSET
      | _ \<Rightarrow> SOUND_TYPE_VOICE)"

section \<open>Opening and closing\<close>

definition init_intf :: "rilclient_intf \<Rightarrow> rilclient_intf" where
  "init_intf r =
     r\<lparr>lib_handle := NULL, extraVolume := False, wbAmr := False, emergencyMode := False, btsco_ec := False, btsco_sr := 8000,
       audio_mode := 0, audio_state := False, tx_mute := False, rx_mute := False, dualmic := False, current_modem := CP1,
       realcall := False, volte_status := VOLTE_OFF, call_forward := False, usbmic_state := False, hac_mode := False\<rparr>"

definition bind_symbols :: "ril_env \<Rightarrow> rilclient_intf \<Rightarrow> ril_world \<Rightarrow> rilclient_intf \<times> ril_world" where
  "bind_symbols E r w =
     (let h = lib_handle r;
          (f, w) = ril_syscall E (dlsym_lib h ''OpenClient_RILD'') w; r = r\<lparr>ril_open_client := f\<rparr>;
          (f, w) = ril_syscall E (dlsym_lib h ''CloseClient_RILD'') w; r = r\<lparr>ril_close_client := f\<rparr>;
          (f, w) = ril_syscall E (dlsym_lib h ''Connect_RILD'') w; r = r\<lparr>ril_connect := f\<rparr>;
          (f, w) = ril_syscall E (dlsym_lib h ''isConnected_RILD'') w; r = r\<lparr>ril_is_connected := f\<rparr>;
          (f, w) = ril_syscall E (dlsym_lib h ''Disconnect_RILD'') w; r = r\<lparr>ril_disconnect := f\<rparr>;
          (f, w) = ril_syscall E (dlsym_lib h ''SetCallVolume'') w; r = r\<lparr>ril_set_audio_volume := f\<rparr>;
          (f, w) = ril_syscall E (dlsym_lib h ''SetCallAudioPath'') w; r = r\<lparr>ril_set_audio_path := f\<rparr>;
          (f, w) = ril_syscall E (dlsym_lib h ''SetTwoMicControl'') w; r = r\<lparr>ril_set_multi_mic := f\<rparr>;
          (f, w) = ril_syscall E (dlsym_lib h ''SetMute'') w; r = r\<lparr>ril_set_mute := f\<rparr>;
          (f, w) = ril_syscall E (dlsym_lib h ''SetCallClockSync'') w; r = r\<lparr>ril_set_audio_clock := f\<rparr>
      in (r, w))"

text \<open>The attempts to open and connect a client; \<open>n\<close> of them are left.\<close>

fun open_loop :: "ril_env \<Rightarrow> nat \<Rightarrow> rilclient_intf \<Rightarrow> ril_world \<Rightarrow> (rilclient_intf \<times> ril_world) option" where
  "open_loop E 0 r w = Some (r, w)"
| "open_loop E (Suc n) r w =
     (let (c, w) = ril_syscall E OpenClient_RILD w; r = r\<lparr>client := c\<rparr> in
      if c = NULL then open_loop E n r w
      else if ril_is_connected r = NULL then None
      else (let (k, w) = ril_syscall E (isConnected_RILD c) w in
            if k \<noteq> 0 then Some (r, w)
            else if ril_connect r = NULL then None
            else (let (k, w) = ril_syscall E (Connect_RILD c) w in
                  if k = 0 then Some (r, w)
                  else if ril_close_client r = NULL then None
                  else open_loop E n (r\<lparr>client := NULL\<rparr>) (ril_emit (CloseClient_RILD c) w))))"

text \<open>The label \<open>open_err\<close>.\<close>

definition open_err :: "rilclient_intf \<Rightarrow> ril_world \<Rightarrow> int \<times> ril_world" where
  "open_err r w = (-1, destroyInstance (if lib_handle r \<noteq> NULL then ril_emit (dlclose_lib (lib_handle r)) w else w))"

definition SecRilOpen :: "ril_env \<Rightarrow> ril_world \<Rightarrow> (int \<times> ril_world) option" where
  "SecRilOpen E w =
     (case getInstance E w of
        (None, w) \<Rightarrow> Some (-1, w)
      | (Some r, w) \<Rightarrow>
          (let r = init_intf r; (h, w) = ril_syscall E dlopen_lib w; r = r\<lparr>lib_handle := h\<rparr> in
           if h = NULL then Some (-1, destroyInstance w)
           else (let (r, w) = bind_symbols E r w in
                 if ril_open_client r = NULL then Some (open_err r w)
                 else case open_loop E MAX_RETRY r w of
                        None \<Rightarrow> None
                      | Some (r, w) \<Rightarrow>
                          if client r = NULL then Some (open_err r w)
                          else if ril_is_connected r = NULL then None
                          else (let (k, w) = ril_syscall E (isConnected_RILD (client r)) w in
                                if k = 0 then Some (open_err r w) else Some (0, w\<lparr>ril_instance := Some r\<rparr>)))))"

definition SecRilClose :: "ril_env \<Rightarrow> ril_world \<Rightarrow> ril_world" where
  "SecRilClose E w =
     (case getInstance E w of
        (None, w) \<Rightarrow> w
      | (Some r, w) \<Rightarrow>
          (let w = (if client r \<noteq> NULL \<and> ril_close_client r \<noteq> NULL then ril_emit (CloseClient_RILD (client r)) w else w);
               w = (if lib_handle r \<noteq> NULL then ril_emit (dlclose_lib (lib_handle r)) w else w)
           in destroyInstance w))"

section \<open>Settings\<close>

definition SecRilCheckConnection :: "ril_env \<Rightarrow> ril_world \<Rightarrow> (int \<times> ril_world) option" where
  "SecRilCheckConnection E w =
     (case getInstance E w of
        (None, w) \<Rightarrow> Some (0, w)
      | (Some r, w) \<Rightarrow>
          if client r \<noteq> NULL then
            (if ril_is_connected r = NULL then None
             else (let (k, w) = ril_syscall E (isConnected_RILD (client r)) w in Some (if k \<noteq> 0 then 1 else 0, w)))
          else Some (0, w))"

definition SecRilSetExtraVolume :: "ril_env \<Rightarrow> bool \<Rightarrow> ril_world \<Rightarrow> ril_world" where
  "SecRilSetExtraVolume E on = with_instance E (\<lambda>r w. (r\<lparr>extraVolume := on\<rparr>, w))"

definition SecRilSetWbamr :: "ril_env \<Rightarrow> int \<Rightarrow> ril_world \<Rightarrow> ril_world" where
  "SecRilSetWbamr E on = with_instance E (\<lambda>r w. (r\<lparr>wbAmr := (on \<noteq> 0)\<rparr>, w))"

definition SecRilsetEmergencyMode :: "ril_env \<Rightarrow> bool \<Rightarrow> ril_world \<Rightarrow> ril_world" where
  "SecRilsetEmergencyMode E on = with_instance E (\<lambda>r w. (r\<lparr>emergencyMode := on\<rparr>, w))"

definition SecRilSetScoSolution :: "ril_env \<Rightarrow> bool \<Rightarrow> int \<Rightarrow> ril_world \<Rightarrow> ril_world" where
  "SecRilSetScoSolution E echoCancle sampleRate =
     with_instance E (\<lambda>r w. (r\<lparr>btsco_ec := echoCancle, btsco_sr := sampleRate\<rparr>, w))"

definition SecRilSetVoiceVolume :: "ril_env \<Rightarrow> int \<Rightarrow> ril_world \<Rightarrow> ril_world" where
  "SecRilSetVoiceVolume E volume =
     with_instance E (\<lambda>r w. (r, if ril_set_audio_volume r \<noteq> NULL \<and> client r \<noteq> NULL
                                then ril_emit (SetCallVolume (client r) (sound_type r) volume) w else w))"

definition SecRilSetVoicePath :: "ril_env \<Rightarrow> audio_devices \<Rightarrow> ril_world \<Rightarrow> int \<times> ril_world" where
  "SecRilSetVoicePath E device w =
     (case getInstance E w of
        (None, w) \<Rightarrow> (0, w)
      | (Some r, w) \<Rightarrow>
          (let path = map_incall_device r device; r = r\<lparr>sound_type := map_sound_from_device path\<rparr>;
               w = w\<lparr>ril_instance := Some r\<rparr>
           in if ril_set_audio_path r \<noteq> NULL \<and> client r \<noteq> NULL then ril_syscall E (SetCallAudioPath (client r) path) w
              else (0, w)))"

definition SecRilSetAudioMode :: "ril_env \<Rightarrow> int \<Rightarrow> bool \<Rightarrow> ril_world \<Rightarrow> ril_world" where
  "SecRilSetAudioMode E mode state = with_instance E (\<lambda>r w. (r\<lparr>audio_mode := mode, audio_state := state\<rparr>, w))"

definition SecRilSetTxMute :: "ril_env \<Rightarrow> bool \<Rightarrow> ril_world \<Rightarrow> ril_world" where
  "SecRilSetTxMute E state =
     with_instance E (\<lambda>r w. (r\<lparr>tx_mute := state\<rparr>,
       if ril_set_mute r \<noteq> NULL \<and> client r \<noteq> NULL then ril_emit (SetMute (client r) state) w else w))"

definition SecRilSetRxMute :: "ril_env \<Rightarrow> bool \<Rightarrow> ril_world \<Rightarrow> ril_world" where
  "SecRilSetRxMute E state = with_instance E (\<lambda>r w. (r\<lparr>rx_mute := state\<rparr>, w))"

definition SecRilSetDualMic :: "ril_env \<Rightarrow> bool \<Rightarrow> ril_world \<Rightarrow> ril_world" where
  "SecRilSetDualMic E state = with_instance E (\<lambda>r w. (r\<lparr>dualmic := state\<rparr>, w))"

definition SecRilSetCurrentModem :: "ril_env \<Rightarrow> int \<Rightarrow> ril_world \<Rightarrow> ril_world" where
  "SecRilSetCurrentModem E curModem = with_instance E (\<lambda>r w. (r\<lparr>current_modem := curModem\<rparr>, w))"

definition SecRilSetRealCallStatus :: "ril_env \<Rightarrow> bool \<Rightarrow> ril_world \<Rightarrow> ril_world" where
  "SecRilSetRealCallStatus E on = with_instance E (\<lambda>r w. (r\<lparr>realcall := on\<rparr>, w))"

definition SecRilSetVoLTEState :: "ril_env \<Rightarrow> int \<Rightarrow> ril_world \<Rightarrow> ril_world" where
  "SecRilSetVoLTEState E state = with_instance E (\<lambda>r w. (r\<lparr>volte_status := state\<rparr>, w))"

definition SecRilSetHACMode :: "ril_env \<Rightarrow> bool \<Rightarrow> ril_world \<Rightarrow> ril_world" where
  "SecRilSetHACMode E state = with_instance E (\<lambda>r w. (r\<lparr>hac_mode := state\<rparr>, w))"

definition SecRilSetCallFowardingMode :: "ril_env \<Rightarrow> bool \<Rightarrow> ril_world \<Rightarrow> ril_world" where
  "SecRilSetCallFowardingMode E callFwd = with_instance E (\<lambda>r w. (r\<lparr>call_forward := callFwd\<rparr>, w))"

definition SecRilSetSoundClkMode :: "ril_env \<Rightarrow> int \<Rightarrow> ril_world \<Rightarrow> ril_world" where
  "SecRilSetSoundClkMode E mode =
     with_instance E (\<lambda>r w. (r,
       if ril_set_audio_clock r \<noteq> NULL then
         ril_emit (SetCallClockSync (client r) (if mode \<noteq> 0 then VOICE_AUDIO_TURN_ON_I2S else VOICE_AUDIO_TURN_OFF_I2S)) w
       else w))"

definition SecRilSetUSBMicState :: "ril_env \<Rightarrow> bool \<Rightarrow> ril_world \<Rightarrow> ril_world" where
  "SecRilSetUSBMicState E state = with_instance E (\<lambda>r w. (r\<lparr>usbmic_state := state\<rparr>, w))"

section \<open>Clients\<close>

text \<open>The clients that are open after a log, which has the latest call first, and the client a call uses.\<close>

fun open_clients :: "ril_env \<Rightarrow> ril_call list \<Rightarrow> int set" where
  "open_clients E [] = {}"
| "open_clients E (OpenClient_RILD # cs) = insert (ril_sys E cs OpenClient_RILD) (open_clients E cs) - {NULL}"
| "open_clients E (CloseClient_RILD c # cs) = open_clients E cs - {c}"
| "open_clients E (_ # cs) = open_clients E cs"

fun uses_client :: "ril_call \<Rightarrow> int option" where
  "uses_client (CloseClient_RILD c) = Some c"
| "uses_client (Connect_RILD c) = Some c"
| "uses_client (isConnected_RILD c) = Some c"
| "uses_client (SetCallVolume c _ _) = Some c"
| "uses_client (SetCallAudioPath c _) = Some c"
| "uses_client (SetMute c _) = Some c"
| "uses_client (SetCallClockSync c _) = Some c"
| "uses_client _ = None"

fun client_safe :: "ril_env \<Rightarrow> ril_call list \<Rightarrow> bool" where
  "client_safe E [] \<longleftrightarrow> True"
| "client_safe E (c # cs) \<longleftrightarrow> (case uses_client c of None \<Rightarrow> True | Some x \<Rightarrow> x \<in> open_clients E cs) \<and> client_safe E cs"

text \<open>The clock mode the modem was last asked for.\<close>

fun clock_state :: "ril_call list \<Rightarrow> int option" where
  "clock_state [] = None"
| "clock_state (SetCallClockSync _ m # cs) = Some m"
| "clock_state (_ # cs) = clock_state cs"

text \<open>The part of the singleton that ties it to the library.\<close>

definition link :: "rilclient_intf \<Rightarrow> int \<times> int \<times> int list" where
  "link r = (lib_handle r, client r, [ril_open_client r, ril_close_client r, ril_connect r, ril_is_connected r, ril_disconnect r,
     ril_set_audio_volume r, ril_set_audio_path r, ril_set_multi_mic r, ril_set_mute r, ril_set_audio_clock r])"

text \<open>
  The invariant: every call used an open client, the client of the singleton is open and can be
  asked whether it is connected, and a singleton that knows how to switch the clock has a client.
\<close>

definition instance_ok :: "ril_env \<Rightarrow> ril_call list \<Rightarrow> rilclient_intf \<Rightarrow> bool" where
  "instance_ok E cs r \<longleftrightarrow>
     (client r \<noteq> NULL \<longrightarrow> client r \<in> open_clients E cs \<and> ril_is_connected r \<noteq> NULL) \<and> (ril_set_audio_clock r \<noteq> NULL \<longrightarrow> client r \<noteq> NULL)"

definition ril_ok :: "ril_env \<Rightarrow> ril_world \<Rightarrow> bool" where
  "ril_ok E w \<longleftrightarrow> client_safe E (ril_calls w) \<and> (\<forall>r. ril_instance w = Some r \<longrightarrow> instance_ok E (ril_calls w) r)"

lemma link_client: "link r' = link r \<Longrightarrow> client r' = client r \<and> ril_set_audio_clock r' = ril_set_audio_clock r \<and>
    ril_set_audio_path r' = ril_set_audio_path r"
  by (simp add: link_def)

lemma instance_ok_link: "link r' = link r \<Longrightarrow> instance_ok E cs r' = instance_ok E cs r"
  by (simp add: instance_ok_def link_def)

lemma zero_intf_ok [simp]: "instance_ok E cs zero_intf"
  by (simp add: instance_ok_def zero_intf_def)

lemma getInstance_props:
  assumes "getInstance E w = (r, w')" "ril_ok E w"
  shows "ril_ok E w'" "ril_instance w' = r" "clock_state (ril_calls w') = clock_state (ril_calls w)"
    "ril_instance w = Some r0 \<Longrightarrow> r = Some r0 \<and> w' = w" "open_clients E (ril_calls w') = open_clients E (ril_calls w)"
  using assms by (auto simp: getInstance_def ril_ok_def ril_syscall_def split: option.splits if_splits)

section \<open>Settings keep the client\<close>

text \<open>
  The contract of a setting towards the voice manager: it keeps the invariant and the tie of the
  singleton to the library, and does not touch the clock of the modem.
\<close>

locale ril_setter =
  fixes E :: ril_env and op :: "ril_world \<Rightarrow> ril_world"
  assumes ok: "ril_ok E w \<Longrightarrow> ril_ok E (op w)"
    and keep: "ril_instance w = Some r \<Longrightarrow> \<exists>r'. ril_instance (op w) = Some r' \<and> link r' = link r"
    and clock: "clock_state (ril_calls (op w)) = clock_state (ril_calls w)"

text \<open>A client that is there, with the functions that switch the clock and set the path.\<close>

definition modem_link :: "ril_world \<Rightarrow> bool" where
  "modem_link w \<longleftrightarrow> (\<exists>r. ril_instance w = Some r \<and> client r \<noteq> NULL \<and> ril_set_audio_clock r \<noteq> NULL \<and> ril_set_audio_path r \<noteq> NULL)"

context ril_setter
begin

lemma modem_link: "modem_link w \<Longrightarrow> modem_link (op w)"
  unfolding modem_link_def using keep link_client by metis

end

lemma with_instance_eq:
  "with_instance E f w = (case getInstance E w of (None, w1) \<Rightarrow> w1
     | (Some r, w1) \<Rightarrow> (snd (f r w1))\<lparr>ril_instance := Some (fst (f r w1))\<rparr>)"
  unfolding with_instance_def Let_def case_prod_unfold ..

text \<open>A setting stores a field and may pass it to the client.\<close>

lemma setter_intro:
  assumes "\<And>r. link (g r) = link r"
    and "\<And>r. P r \<Longrightarrow> client r \<noteq> NULL \<and> uses_client (c r) = Some (client r) \<and> (\<forall>x. c r \<noteq> CloseClient_RILD x) \<and>
      (\<forall>x m. c r \<noteq> SetCallClockSync x m)"
    and "\<And>r w. f r w = (g r, if P r then ril_emit (c r) w else w)"
  shows "ril_setter E (with_instance E f)"
proof
  have call: "clock_state (c r # cs) = clock_state cs \<and> open_clients E (c r # cs) = open_clients E cs" if "P r" for r cs
    using assms(2) [OF that] by (cases "c r") auto
  fix w
  obtain i w1 where i: "getInstance E w = (i, w1)" by fastforce
  have eq: "with_instance E f w = (case i of None \<Rightarrow> w1
      | Some r \<Rightarrow> (if P r then ril_emit (c r) w1 else w1)\<lparr>ril_instance := Some (g r)\<rparr>)"
    by (simp add: with_instance_eq i assms(3) split: option.split)
  show "clock_state (ril_calls (with_instance E f w)) = clock_state (ril_calls w)"
  proof -
    have "clock_state (ril_calls w1) = clock_state (ril_calls w)"
      using i by (auto simp: getInstance_def ril_syscall_def split: option.splits if_splits)
    then show ?thesis by (simp add: eq ril_emit_def call split: option.split)
  qed
  show "\<exists>r'. ril_instance (with_instance E f w) = Some r' \<and> link r' = link r" if "ril_instance w = Some r" for r
  proof -
    have "i = Some r" using i that by (simp add: getInstance_def)
    then show ?thesis by (simp add: eq assms(1))
  qed
  assume ok: "ril_ok E w"
  note p = getInstance_props [OF i ok]
  show "ril_ok E (with_instance E f w)"
  proof (cases i)
    case (Some r)
    have r: "instance_ok E (ril_calls w1) r" "client_safe E (ril_calls w1)" using p(1,2) Some by (simp_all add: ril_ok_def)
    have "instance_ok E (ril_calls w1) (g r)" using r(1) instance_ok_link [OF assms(1)] by simp
    moreover have "instance_ok E (c r # ril_calls w1) (g r) = instance_ok E (ril_calls w1) (g r)" if "P r"
      by (simp add: instance_ok_def call [OF that])
    moreover have "client_safe E (c r # ril_calls w1)" if "P r"
      using r assms(2) [OF that] by (simp add: instance_ok_def)
    ultimately show ?thesis using r(2) by (auto simp: eq Some ril_ok_def ril_emit_def)
  qed (use p(1) in \<open>simp add: eq\<close>)
qed

lemma plain_setter: "(\<And>r. link (g r) = link r) \<Longrightarrow> ril_setter E (with_instance E (\<lambda>r w. (g r, w)))"
  by (rule setter_intro [where P = "\<lambda>_. False" and c = "\<lambda>_. calloc_intf" and g = g]) simp_all

interpretation extra_volume: ril_setter E "SecRilSetExtraVolume E on" for E on
  unfolding SecRilSetExtraVolume_def by (rule plain_setter) (simp add: link_def)

interpretation wbamr: ril_setter E "SecRilSetWbamr E on" for E on
  unfolding SecRilSetWbamr_def by (rule plain_setter) (simp add: link_def)

interpretation emergency: ril_setter E "SecRilsetEmergencyMode E on" for E on
  unfolding SecRilsetEmergencyMode_def by (rule plain_setter) (simp add: link_def)

interpretation sco: ril_setter E "SecRilSetScoSolution E ec sr" for E ec sr
  unfolding SecRilSetScoSolution_def by (rule plain_setter) (simp add: link_def)

interpretation audio_mode: ril_setter E "SecRilSetAudioMode E m s" for E m s
  unfolding SecRilSetAudioMode_def by (rule plain_setter) (simp add: link_def)

interpretation rx_mute: ril_setter E "SecRilSetRxMute E s" for E s
  unfolding SecRilSetRxMute_def by (rule plain_setter) (simp add: link_def)

interpretation dual_mic: ril_setter E "SecRilSetDualMic E s" for E s
  unfolding SecRilSetDualMic_def by (rule plain_setter) (simp add: link_def)

interpretation modem: ril_setter E "SecRilSetCurrentModem E m" for E m
  unfolding SecRilSetCurrentModem_def by (rule plain_setter) (simp add: link_def)

interpretation real_call: ril_setter E "SecRilSetRealCallStatus E on" for E on
  unfolding SecRilSetRealCallStatus_def by (rule plain_setter) (simp add: link_def)

interpretation volte: ril_setter E "SecRilSetVoLTEState E s" for E s
  unfolding SecRilSetVoLTEState_def by (rule plain_setter) (simp add: link_def)

interpretation hac: ril_setter E "SecRilSetHACMode E s" for E s
  unfolding SecRilSetHACMode_def by (rule plain_setter) (simp add: link_def)

interpretation forwarding: ril_setter E "SecRilSetCallFowardingMode E s" for E s
  unfolding SecRilSetCallFowardingMode_def by (rule plain_setter) (simp add: link_def)

interpretation usb_mic: ril_setter E "SecRilSetUSBMicState E s" for E s
  unfolding SecRilSetUSBMicState_def by (rule plain_setter) (simp add: link_def)

interpretation volume: ril_setter E "SecRilSetVoiceVolume E v" for E v
  unfolding SecRilSetVoiceVolume_def
  by (rule setter_intro [where g = "\<lambda>r. r" and P = "\<lambda>r. ril_set_audio_volume r \<noteq> NULL \<and> client r \<noteq> NULL"
        and c = "\<lambda>r. SetCallVolume (client r) (sound_type r) v"]) simp_all

interpretation tx_mute: ril_setter E "SecRilSetTxMute E s" for E s
  unfolding SecRilSetTxMute_def
  by (rule setter_intro [where g = "\<lambda>r. r\<lparr>tx_mute := s\<rparr>" and P = "\<lambda>r. ril_set_mute r \<noteq> NULL \<and> client r \<noteq> NULL"
        and c = "\<lambda>r. SetMute (client r) s"]) (simp_all add: link_def)

lemma SecRilSetVoicePath_eq:
  "(\<lambda>w. snd (SecRilSetVoicePath E d w)) = with_instance E (\<lambda>r w. (r\<lparr>sound_type := map_sound_from_device (map_incall_device r d)\<rparr>,
     if ril_set_audio_path r \<noteq> NULL \<and> client r \<noteq> NULL then ril_emit (SetCallAudioPath (client r) (map_incall_device r d)) w else w))"
  by (auto simp: fun_eq_iff SecRilSetVoicePath_def with_instance_def ril_syscall_def ril_emit_def Let_def split: option.split prod.split)

interpretation path: ril_setter E "\<lambda>w. snd (SecRilSetVoicePath E d w)" for E d
  unfolding SecRilSetVoicePath_eq
  by (rule setter_intro [where g = "\<lambda>r. r\<lparr>sound_type := map_sound_from_device (map_incall_device r d)\<rparr>"
        and P = "\<lambda>r. ril_set_audio_path r \<noteq> NULL \<and> client r \<noteq> NULL"
        and c = "\<lambda>r. SetCallAudioPath (client r) (map_incall_device r d)"]) (simp_all add: link_def)

section \<open>Opening and closing keep the invariant\<close>

lemma open_loop_props:
  assumes "open_loop E n r w = Some (r', w')" "client_safe E (ril_calls w)" "client r \<noteq> NULL \<longrightarrow> client r \<in> open_clients E (ril_calls w)"
  shows "client_safe E (ril_calls w') \<and> (client r' \<noteq> NULL \<longrightarrow> client r' \<in> open_clients E (ril_calls w')) \<and>
    clock_state (ril_calls w') = clock_state (ril_calls w) \<and> r' = r\<lparr>client := client r'\<rparr>"
  using assms
proof (induction n arbitrary: r w)
  case (Suc n)
  define c where "c = ril_sys E (ril_calls w) OpenClient_RILD"
  define w1 where "w1 = w\<lparr>ril_calls := OpenClient_RILD # ril_calls w\<rparr>"
  define w2 where "w2 = w1\<lparr>ril_calls := isConnected_RILD c # ril_calls w1\<rparr>"
  define w3 where "w3 = w2\<lparr>ril_calls := Connect_RILD c # ril_calls w2\<rparr>"
  define w4 where "w4 = w3\<lparr>ril_calls := CloseClient_RILD c # ril_calls w3\<rparr>"
  note ws = w4_def w3_def w2_def w1_def
  have loop: "open_loop E (Suc n) r w =
     (if c = NULL then open_loop E n (r\<lparr>client := c\<rparr>) w1
      else if ril_is_connected r = NULL then None
      else if ril_sys E (ril_calls w1) (isConnected_RILD c) \<noteq> 0 then Some (r\<lparr>client := c\<rparr>, w2)
      else if ril_connect r = NULL then None
      else if ril_sys E (ril_calls w2) (Connect_RILD c) = 0 then Some (r\<lparr>client := c\<rparr>, w3)
      else if ril_close_client r = NULL then None
      else open_loop E n (r\<lparr>client := NULL\<rparr>) w4)"
    by (simp add: ril_syscall_def ril_emit_def Let_def c_def ws)
  have safe: "client_safe E (ril_calls w1)" "c \<noteq> NULL \<Longrightarrow> client_safe E (ril_calls w2) \<and> c \<in> open_clients E (ril_calls w2)"
    "c \<noteq> NULL \<Longrightarrow> client_safe E (ril_calls w3) \<and> c \<in> open_clients E (ril_calls w3)" "c \<noteq> NULL \<Longrightarrow> client_safe E (ril_calls w4)"
    using Suc.prems(2) by (simp_all add: ws c_def)
  have clock: "clock_state (ril_calls w1) = clock_state (ril_calls w)" "clock_state (ril_calls w2) = clock_state (ril_calls w)"
    "clock_state (ril_calls w3) = clock_state (ril_calls w)" "clock_state (ril_calls w4) = clock_state (ril_calls w)"
    by (simp_all add: ws)
  show ?case
    using Suc.prems(1) Suc.IH [of "r\<lparr>client := NULL\<rparr>" w1] Suc.IH [of "r\<lparr>client := NULL\<rparr>" w4] safe clock
    unfolding loop by (auto split: if_splits)
qed simp

lemma bind_symbols_props:
  "client (fst (bind_symbols E r w)) = client r" "lib_handle (fst (bind_symbols E r w)) = lib_handle r"
  "client_safe E (ril_calls (snd (bind_symbols E r w))) = client_safe E (ril_calls w)"
  "open_clients E (ril_calls (snd (bind_symbols E r w))) = open_clients E (ril_calls w)"
  "clock_state (ril_calls (snd (bind_symbols E r w))) = clock_state (ril_calls w)"
  "ril_instance (snd (bind_symbols E r w)) = ril_instance w"
  by (simp_all add: bind_symbols_def ril_syscall_def Let_def)

definition opened :: "ril_env \<Rightarrow> rilclient_intf \<Rightarrow> ril_world \<Rightarrow> rilclient_intf \<times> ril_world" where
  "opened E r w = (let (h, w) = ril_syscall E dlopen_lib w in bind_symbols E ((init_intf r)\<lparr>lib_handle := h\<rparr>) w)"

lemma ril_open_eq:
  "SecRilOpen E w =
     (case getInstance E w of (None, w1) \<Rightarrow> Some (-1, w1)
      | (Some r, w1) \<Rightarrow>
          if ril_sys E (ril_calls w1) dlopen_lib = NULL then Some (-1, destroyInstance (snd (ril_syscall E dlopen_lib w1)))
          else let r2 = fst (opened E r w1); w2 = snd (opened E r w1) in
            if ril_open_client r2 = NULL then Some (open_err r2 w2)
            else case open_loop E MAX_RETRY r2 w2 of None \<Rightarrow> None
                 | Some (r3, w3) \<Rightarrow>
                     if client r3 = NULL then Some (open_err r3 w3)
                     else if ril_is_connected r3 = NULL then None
                     else if ril_sys E (ril_calls w3) (isConnected_RILD (client r3)) = 0
                     then Some (open_err r3 (ril_emit (isConnected_RILD (client r3)) w3))
                     else Some (0, (ril_emit (isConnected_RILD (client r3)) w3)\<lparr>ril_instance := Some r3\<rparr>))"
  unfolding SecRilOpen_def opened_def Let_def case_prod_unfold
  by (simp add: ril_syscall_def ril_emit_def split: option.split)

lemma open_err_props:
  "client_safe E (ril_calls (snd (open_err r w))) = client_safe E (ril_calls w)" "ril_instance (snd (open_err r w)) = None"
  "clock_state (ril_calls (snd (open_err r w))) = clock_state (ril_calls w)" "fst (open_err r w) = -1"
  "open_clients E (ril_calls (snd (open_err r w))) = open_clients E (ril_calls w)"
  by (simp_all add: open_err_def destroyInstance_def ril_emit_def)

text \<open>The library has every function the client looks up.\<close>

definition symbols_found :: "ril_env \<Rightarrow> bool" where
  "symbols_found E \<longleftrightarrow> (\<forall>cs h n. ril_sys E cs (dlsym_lib h n) \<noteq> NULL)"

lemma bind_symbols_found:
  assumes "symbols_found E" "(r', w') = bind_symbols E r w"
  shows "ril_open_client r' \<noteq> NULL" "ril_close_client r' \<noteq> NULL" "ril_connect r' \<noteq> NULL" "ril_is_connected r' \<noteq> NULL"
    "ril_set_audio_path r' \<noteq> NULL" "ril_set_audio_clock r' \<noteq> NULL"
  using assms by (simp_all add: symbols_found_def bind_symbols_def ril_syscall_def Let_def)

lemma opened_props:
  "client (fst (opened E r w)) = client r"
  "client_safe E (ril_calls (snd (opened E r w))) = client_safe E (ril_calls w)"
  "open_clients E (ril_calls (snd (opened E r w))) = open_clients E (ril_calls w)"
  "clock_state (ril_calls (snd (opened E r w))) = clock_state (ril_calls w)"
  "lib_handle (fst (opened E r w)) = ril_sys E (ril_calls w) dlopen_lib"
  by (simp_all add: opened_def ril_syscall_def case_prod_unfold bind_symbols_props init_intf_def)

lemma opened_found:
  assumes "symbols_found E"
  shows "ril_open_client (fst (opened E r w)) \<noteq> NULL" "ril_is_connected (fst (opened E r w)) \<noteq> NULL"
    "ril_connect (fst (opened E r w)) \<noteq> NULL" "ril_close_client (fst (opened E r w)) \<noteq> NULL"
    "ril_set_audio_clock (fst (opened E r w)) \<noteq> NULL" "ril_set_audio_path (fst (opened E r w)) \<noteq> NULL"
  using bind_symbols_found [OF assms prod.collapse] by (simp_all add: opened_def Let_def case_prod_unfold)

lemma open_props:
  assumes "SecRilOpen E w = Some (v, w')" "ril_ok E w"
  shows "ril_ok E w'" "clock_state (ril_calls w') = clock_state (ril_calls w)"
    "v = 0 \<Longrightarrow> \<exists>r. ril_instance w' = Some r \<and> client r \<noteq> NULL" "v \<noteq> 0 \<Longrightarrow> v = -1 \<and> ril_instance w' = None"
    "symbols_found E \<Longrightarrow> v = 0 \<Longrightarrow> modem_link w'"
proof -
  obtain i w1 where i: "getInstance E w = (i, w1)" by fastforce
  note g = getInstance_props [OF i assms(2)]
  have "ril_ok E w' \<and> clock_state (ril_calls w') = clock_state (ril_calls w) \<and>
    (if v = 0 then \<exists>r. ril_instance w' = Some r \<and> client r \<noteq> NULL \<and> (symbols_found E \<longrightarrow> ril_set_audio_clock r \<noteq> NULL \<and> ril_set_audio_path r \<noteq> NULL)
     else v = -1 \<and> ril_instance w' = None)"
  proof (cases i)
    case None
    then show ?thesis using assms(1) g by (auto simp: ril_open_eq i)
  next
    case (Some r)
    define r2 where "r2 = fst (opened E r w1)"
    define w2 where "w2 = snd (opened E r w1)"
    have w2: "client_safe E (ril_calls w2)" "client r2 \<noteq> NULL \<longrightarrow> client r2 \<in> open_clients E (ril_calls w2)"
      "clock_state (ril_calls w2) = clock_state (ril_calls w)"
      using g(1-3) Some by (auto simp: r2_def w2_def opened_props ril_ok_def instance_ok_def)
    have err: "ril_ok E (snd (open_err a b)) \<and> clock_state (ril_calls (snd (open_err a b))) = clock_state (ril_calls w) \<and>
        ril_instance (snd (open_err a b)) = None" if "client_safe E (ril_calls b)" "clock_state (ril_calls b) = clock_state (ril_calls w)" for a b
      using that by (simp add: ril_ok_def open_err_props)
    have open_case: ?thesis if "open_loop E MAX_RETRY r2 w2 = Some (r3, w3)" "client r3 \<noteq> NULL" "ril_is_connected r3 \<noteq> NULL"
        "v = 0" "w' = (ril_emit (isConnected_RILD (client r3)) w3)\<lparr>ril_instance := Some r3\<rparr>" for r3 w3
      using open_loop_props [OF that(1) w2(1,2)] that(2-5) w2(3) opened_found(5,6) [of E r w1]
      by (auto simp: ril_ok_def ril_emit_def instance_ok_def r2_def
          dest: arg_cong [of _ _ ril_set_audio_clock] arg_cong [of _ _ ril_set_audio_path])
    have "open_loop E MAX_RETRY r2 w2 = Some (r3, w3) \<Longrightarrow> client_safe E (ril_calls w3) \<and>
        clock_state (ril_calls w3) = clock_state (ril_calls w) \<and>
        (client r3 \<noteq> NULL \<longrightarrow> client_safe E (ril_calls (ril_emit (isConnected_RILD (client r3)) w3)) \<and>
          clock_state (ril_calls (ril_emit (isConnected_RILD (client r3)) w3)) = clock_state (ril_calls w))" for r3 w3
      using open_loop_props [OF _ w2(1,2)] w2(3) by (fastforce simp: ril_emit_def)
    with err [where b = w2] err open_case assms(1) g w2 show ?thesis
      unfolding ril_open_eq i Some
      by (auto simp: Let_def ril_ok_def destroyInstance_def ril_syscall_def open_err_props prod_eq_iff simp flip: r2_def w2_def
          split: if_splits option.splits)
  qed
  then show "ril_ok E w'" "clock_state (ril_calls w') = clock_state (ril_calls w)"
    "v = 0 \<Longrightarrow> \<exists>r. ril_instance w' = Some r \<and> client r \<noteq> NULL" "v \<noteq> 0 \<Longrightarrow> v = -1 \<and> ril_instance w' = None"
    "symbols_found E \<Longrightarrow> v = 0 \<Longrightarrow> modem_link w'"
    by (auto simp: modem_link_def split: if_splits)
qed

lemma open_loop_returns:
  assumes "ril_is_connected r \<noteq> NULL" "ril_connect r \<noteq> NULL" "ril_close_client r \<noteq> NULL"
  shows "\<exists>c w'. open_loop E n r w = Some (r\<lparr>client := c\<rparr>, w')"
  using assms
proof (induction n arbitrary: r w)
  case 0
  show ?case by (rule exI [of _ "client r"]) simp
next
  case (Suc n)
  have "\<exists>c w'. open_loop E n (r\<lparr>client := NULL\<rparr>) v = Some (r\<lparr>client := c\<rparr>, w')" for v
    using Suc.IH [of "r\<lparr>client := NULL\<rparr>" v] Suc.prems by simp
  then show ?case using Suc.prems by (auto simp: ril_syscall_def ril_emit_def Let_def)
qed

lemma open_returns:
  assumes "symbols_found E"
  shows "SecRilOpen E w \<noteq> None"
proof (cases "getInstance E w")
  case (Pair i w1)
  show ?thesis
  proof (cases i)
    case (Some r)
    note f = opened_found [OF assms, of r w1]
    obtain c w3 where "open_loop E MAX_RETRY (fst (opened E r w1)) (snd (opened E r w1)) = Some ((fst (opened E r w1))\<lparr>client := c\<rparr>, w3)"
      using open_loop_returns [OF f(2-4)] by metis
    then show ?thesis using f by (simp add: ril_open_eq Pair Some Let_def)
  qed (simp add: ril_open_eq Pair)
qed

lemma clock_props:
  assumes "ril_ok E w"
  shows "ril_ok E (SecRilSetSoundClkMode E m w)"
    "modem_link w \<Longrightarrow> modem_link (SecRilSetSoundClkMode E m w) \<and> clock_state (ril_calls (SecRilSetSoundClkMode E m w)) =
       Some (if m \<noteq> 0 then VOICE_AUDIO_TURN_ON_I2S else VOICE_AUDIO_TURN_OFF_I2S)"
proof -
  obtain i w1 where i: "getInstance E w = (i, w1)" by fastforce
  note g = getInstance_props [OF i assms]
  show "ril_ok E (SecRilSetSoundClkMode E m w)"
    using g(1,2) by (auto simp: SecRilSetSoundClkMode_def with_instance_eq i ril_ok_def ril_emit_def instance_ok_def split: option.split)
  assume "modem_link w"
  then show "modem_link (SecRilSetSoundClkMode E m w) \<and> clock_state (ril_calls (SecRilSetSoundClkMode E m w)) =
       Some (if m \<noteq> 0 then VOICE_AUDIO_TURN_ON_I2S else VOICE_AUDIO_TURN_OFF_I2S)"
    by (auto simp: modem_link_def SecRilSetSoundClkMode_def with_instance_def getInstance_def ril_emit_def)
qed

lemma close_props:
  assumes "ril_ok E w"
  shows "ril_ok E (SecRilClose E w)" "ril_instance (SecRilClose E w) = None"
    "clock_state (ril_calls (SecRilClose E w)) = clock_state (ril_calls w)"
proof -
  obtain i w1 where i: "getInstance E w = (i, w1)" by fastforce
  note g = getInstance_props [OF i assms]
  show "ril_ok E (SecRilClose E w)" "ril_instance (SecRilClose E w) = None"
    "clock_state (ril_calls (SecRilClose E w)) = clock_state (ril_calls w)"
    using g(1-3) by (auto simp: SecRilClose_def i ril_ok_def ril_emit_def destroyInstance_def instance_ok_def Let_def split: option.split)
qed

lemma check_props:
  assumes "ril_ok E w"
  shows "\<exists>v w'. SecRilCheckConnection E w = Some (v, w') \<and> ril_ok E w'"
proof -
  obtain i w1 where i: "getInstance E w = (i, w1)" by fastforce
  note g = getInstance_props [OF i assms]
  show ?thesis
    using g(1,2) by (auto simp: SecRilCheckConnection_def i ril_ok_def ril_syscall_def instance_ok_def split: option.split)
qed

section \<open>Runs\<close>

datatype ril_event =
    RilOpen | RilClose | RilCheckConnection
  | RilExtraVolume bool | RilWbamr int | RilEmergencyMode bool | RilScoSolution bool int | RilVoiceVolume int
  | RilVoicePath audio_devices | RilAudioMode int bool | RilTxMute bool | RilRxMute bool | RilDualMic bool
  | RilCurrentModem int | RilRealCallStatus bool | RilVoLTEState int | RilHACMode bool | RilCallFowardingMode bool
  | RilSoundClkMode int | RilUSBMicState bool

primrec ril_exec :: "ril_env \<Rightarrow> ril_event \<Rightarrow> ril_world \<Rightarrow> ril_world option" where
  "ril_exec E RilOpen w = map_option snd (SecRilOpen E w)"
| "ril_exec E RilClose w = Some (SecRilClose E w)"
| "ril_exec E RilCheckConnection w = map_option snd (SecRilCheckConnection E w)"
| "ril_exec E (RilExtraVolume on) w = Some (SecRilSetExtraVolume E on w)"
| "ril_exec E (RilWbamr on) w = Some (SecRilSetWbamr E on w)"
| "ril_exec E (RilEmergencyMode on) w = Some (SecRilsetEmergencyMode E on w)"
| "ril_exec E (RilScoSolution ec sr) w = Some (SecRilSetScoSolution E ec sr w)"
| "ril_exec E (RilVoiceVolume v) w = Some (SecRilSetVoiceVolume E v w)"
| "ril_exec E (RilVoicePath d) w = Some (snd (SecRilSetVoicePath E d w))"
| "ril_exec E (RilAudioMode m s) w = Some (SecRilSetAudioMode E m s w)"
| "ril_exec E (RilTxMute s) w = Some (SecRilSetTxMute E s w)"
| "ril_exec E (RilRxMute s) w = Some (SecRilSetRxMute E s w)"
| "ril_exec E (RilDualMic s) w = Some (SecRilSetDualMic E s w)"
| "ril_exec E (RilCurrentModem m) w = Some (SecRilSetCurrentModem E m w)"
| "ril_exec E (RilRealCallStatus on) w = Some (SecRilSetRealCallStatus E on w)"
| "ril_exec E (RilVoLTEState s) w = Some (SecRilSetVoLTEState E s w)"
| "ril_exec E (RilHACMode s) w = Some (SecRilSetHACMode E s w)"
| "ril_exec E (RilCallFowardingMode s) w = Some (SecRilSetCallFowardingMode E s w)"
| "ril_exec E (RilSoundClkMode m) w = Some (SecRilSetSoundClkMode E m w)"
| "ril_exec E (RilUSBMicState s) w = Some (SecRilSetUSBMicState E s w)"

definition ril_start :: ril_world where
  "ril_start = \<lparr>ril_instance = None, ril_calls = []\<rparr>"

inductive ril_reachable :: "ril_env \<Rightarrow> ril_world \<Rightarrow> bool" for E where
  ril_reachable_start: "ril_reachable E ril_start"
| ril_reachable_step: "ril_reachable E w \<Longrightarrow> ril_exec E e w = Some w' \<Longrightarrow> ril_reachable E w'"

lemmas setter_ok =
  extra_volume.ok wbamr.ok emergency.ok sco.ok audio_mode.ok rx_mute.ok dual_mic.ok modem.ok real_call.ok volte.ok hac.ok
  forwarding.ok usb_mic.ok volume.ok tx_mute.ok path.ok

lemma exec_ok: "ril_exec E e w = Some w' \<Longrightarrow> ril_ok E w \<Longrightarrow> ril_ok E w'"
proof (cases e)
  case RilCheckConnection
  then show "ril_exec E e w = Some w' \<Longrightarrow> ril_ok E w \<Longrightarrow> ril_ok E w'" using check_props [of E w] by auto
qed (auto simp: setter_ok close_props clock_props intro: open_props(1))

lemma exec_returns: "ril_ok E w \<Longrightarrow> symbols_found E \<or> e \<noteq> RilOpen \<Longrightarrow> ril_exec E e w \<noteq> None"
  using check_props [of E w] open_returns [of E w] by (cases e) auto

lemma ril_reachable_ok: "ril_reachable E w \<Longrightarrow> ril_ok E w"
proof (induction rule: ril_reachable.induct)
  case ril_reachable_start
  show ?case by (simp add: ril_start_def ril_ok_def)
qed (rule exec_ok)

text \<open>
  C19 (ril_clients_sound). In every run of the RIL audio client, whatever the library answers and
  whatever the order of openings, settings and closings, each call into the library names a client
  that was opened and has not been closed since, no operation other than \<open>SecRilOpen\<close> calls through
  a NULL function pointer, and \<open>SecRilOpen\<close> does not either when the library has the functions that
  are looked up in it.
\<close>

theorem ril_clients_sound:
  assumes "ril_reachable E w"
  shows "client_safe E (ril_calls w) \<and> (e \<noteq> RilOpen \<or> symbols_found E \<longrightarrow> ril_exec E e w \<noteq> None)"
  using ril_reachable_ok [OF assms] exec_returns [of E w e] by (auto simp: ril_ok_def)

text \<open>
  A modem whose answers depend on the number of the attempt to open a client: whether a client is
  given, whether it is connected at once, whether it can be connected, and whether it then is.
\<close>

definition attempts :: "ril_call list \<Rightarrow> nat" where
  "attempts cs = length (filter (\<lambda>c. c = OpenClient_RILD) cs)"

lemma attempts_Cons [simp]: "attempts (c # cs) = (if c = OpenClient_RILD then 1 else 0) + attempts cs"
  by (simp add: attempts_def)

definition modem_answers :: "ril_env \<Rightarrow> (nat \<Rightarrow> bool) \<Rightarrow> (nat \<Rightarrow> bool) \<Rightarrow> (nat \<Rightarrow> bool) \<Rightarrow> (nat \<Rightarrow> bool) \<Rightarrow> bool" where
  "modem_answers E opens up links stays \<longleftrightarrow> (\<forall>cs c. ril_sys E cs calloc_intf \<noteq> NULL \<and> ril_sys E cs dlopen_lib \<noteq> NULL \<and>
     (ril_sys E cs OpenClient_RILD \<noteq> NULL \<longleftrightarrow> opens (attempts cs)) \<and>
     (ril_sys E (OpenClient_RILD # cs) (isConnected_RILD c) \<noteq> 0 \<longleftrightarrow> up (attempts cs)) \<and>
     (ril_sys E (isConnected_RILD c # OpenClient_RILD # cs) (Connect_RILD c) = 0 \<longleftrightarrow> links (attempts cs)) \<and>
     (ril_sys E (isConnected_RILD c # OpenClient_RILD # cs) (isConnected_RILD c) \<noteq> 0 \<longleftrightarrow> stays (attempts cs)) \<and>
     (ril_sys E (Connect_RILD c # isConnected_RILD c # OpenClient_RILD # cs) (isConnected_RILD c) \<noteq> 0 \<longleftrightarrow> stays (attempts cs)))"

text \<open>The first of \<open>n\<close> attempts, from the \<open>a\<close>-th on, at which a client is given that is or can be connected.\<close>

definition first_usable :: "(nat \<Rightarrow> bool) \<Rightarrow> (nat \<Rightarrow> bool) \<Rightarrow> (nat \<Rightarrow> bool) \<Rightarrow> nat \<Rightarrow> nat \<Rightarrow> nat option" where
  "first_usable opens up links a n = find (\<lambda>i. opens i \<and> (up i \<or> links i)) [a..<a + n]"

lemma first_usable_Suc:
  "first_usable opens up links a (Suc n) = (if opens a \<and> (up a \<or> links a) then Some a else first_usable opens up links (Suc a) n)"
  by (auto simp: first_usable_def upt_conv_Cons simp del: upt_Suc)

lemma open_loop_retries:
  assumes "modem_answers E opens up links stays" "ril_is_connected r \<noteq> NULL" "ril_connect r \<noteq> NULL" "ril_close_client r \<noteq> NULL"
  shows "case first_usable opens up links (attempts (ril_calls w)) n of
      None \<Rightarrow> \<exists>w'. open_loop E n r w = Some (if n = 0 then r else r\<lparr>client := NULL\<rparr>, w') \<and> attempts (ril_calls w') = attempts (ril_calls w) + n
    | Some i \<Rightarrow> \<exists>c w'. open_loop E n r w = Some (r\<lparr>client := c\<rparr>, w') \<and> c \<noteq> NULL \<and> attempts (ril_calls w') = Suc i
        \<and> (ril_sys E (ril_calls w') (isConnected_RILD c) \<noteq> 0 \<longleftrightarrow> stays i)"
  using assms(2-4)
proof (induction n arbitrary: r w)
  case 0
  show ?case by (simp add: first_usable_def)
next
  case (Suc n)
  let ?a = "attempts (ril_calls w)"
  define c where "c = ril_sys E (ril_calls w) OpenClient_RILD"
  define w1 where "w1 = ril_emit OpenClient_RILD w"
  define w2 where "w2 = ril_emit (isConnected_RILD c) w1"
  define w3 where "w3 = ril_emit (Connect_RILD c) w2"
  have c: "c \<noteq> NULL \<longleftrightarrow> opens ?a" "ril_sys E (ril_calls w1) (isConnected_RILD c) \<noteq> 0 \<longleftrightarrow> up ?a"
    "ril_sys E (ril_calls w2) (Connect_RILD c) = 0 \<longleftrightarrow> links ?a" "ril_sys E (ril_calls w2) (isConnected_RILD c) \<noteq> 0 \<longleftrightarrow> stays ?a"
    "ril_sys E (ril_calls w3) (isConnected_RILD c) \<noteq> 0 \<longleftrightarrow> stays ?a"
    using assms(1) by (simp_all add: modem_answers_def c_def w1_def w2_def w3_def ril_emit_def)
  have loop: "open_loop E (Suc n) r w =
      (if c = NULL then open_loop E n (r\<lparr>client := NULL\<rparr>) w1
       else if ril_sys E (ril_calls w1) (isConnected_RILD c) \<noteq> 0 then Some (r\<lparr>client := c\<rparr>, w2)
       else if ril_sys E (ril_calls w2) (Connect_RILD c) = 0 then Some (r\<lparr>client := c\<rparr>, w3)
       else open_loop E n (r\<lparr>client := NULL\<rparr>) (ril_emit (CloseClient_RILD c) w3))"
    using Suc.prems by (simp add: ril_syscall_def ril_emit_def w1_def w2_def w3_def c_def Let_def)
  have at: "attempts (ril_calls w1) = Suc ?a" "attempts (ril_calls w2) = Suc ?a" "attempts (ril_calls w3) = Suc ?a"
    "attempts (ril_calls (ril_emit (CloseClient_RILD c) w3)) = Suc ?a"
    by (simp_all add: w1_def w2_def w3_def ril_emit_def)
  show ?case
  proof (cases "opens ?a \<and> (up ?a \<or> links ?a)")
    case True
    define w' where "w' = (if up ?a then w2 else w3)"
    have "open_loop E (Suc n) r w = Some (r\<lparr>client := c\<rparr>, w')" unfolding loop using True c by (auto simp: w'_def)
    moreover have "c \<noteq> NULL" "attempts (ril_calls w') = Suc ?a" "ril_sys E (ril_calls w') (isConnected_RILD c) \<noteq> 0 \<longleftrightarrow> stays ?a"
      using True c at by (simp_all add: w'_def)
    ultimately show ?thesis using True by (simp add: first_usable_Suc) blast
  next
    case False
    define w' where "w' = (if c = NULL then w1 else ril_emit (CloseClient_RILD c) w3)"
    have "open_loop E (Suc n) r w = open_loop E n (r\<lparr>client := NULL\<rparr>) w'" unfolding loop using False c by (auto simp: w'_def)
    moreover have "attempts (ril_calls w') = Suc ?a" using at by (simp add: w'_def)
    ultimately show ?thesis
      using Suc.IH [of "r\<lparr>client := NULL\<rparr>" w'] Suc.prems False by (auto simp: first_usable_Suc split: option.splits if_splits)
  qed
qed

text \<open>
  C20 (ril_open_retries). Opening waits for a slow modem: when the library is there with all its
  functions, and whatever each attempt to open, to connect and to check the client gives, \<open>SecRilOpen\<close>
  returns. It stops at the first of ten attempts at which a client is given that is connected or can be
  connected, and gives up after the tenth; the result is 0 exactly if there is such an attempt and the
  client is connected after it, and -1 otherwise.
\<close>

theorem ril_open_retries:
  assumes "symbols_found E" "modem_answers E opens up links stays" "a = attempts (ril_calls w)"
    and "found = first_usable opens up links a MAX_RETRY"
  shows "\<exists>w'. SecRilOpen E w = Some (if \<exists>i. found = Some i \<and> stays i then 0 else -1, w') \<and>
    attempts (ril_calls w') = (case found of None \<Rightarrow> a + MAX_RETRY | Some i \<Rightarrow> Suc i)"
proof -
  obtain i w1 where i: "getInstance E w = (i, w1)" by fastforce
  have "fst (getInstance E w) \<noteq> None"
    using assms(2) by (simp add: getInstance_def ril_syscall_def modem_answers_def split: option.split)
  then obtain r where r: "i = Some r" using i by auto
  define r2 where "r2 = fst (opened E r w1)"
  define w2 where "w2 = snd (opened E r w1)"
  have a: "attempts (ril_calls w2) = a"
    using i by (auto simp: w2_def opened_def bind_symbols_def ril_syscall_def getInstance_def Let_def assms(3) split: option.splits if_splits)
  note f = opened_found [OF assms(1), of r w1, folded r2_def]
  have d: "ril_sys E cs dlopen_lib \<noteq> NULL" for cs using assms(2) by (simp add: modem_answers_def)
  note loop = open_loop_retries [OF assms(2) f(2-4), where w = w2 and n = MAX_RETRY, unfolded a, folded assms(4)]
  show ?thesis
  proof (cases found)
    case None
    with loop d f show ?thesis
      by (auto simp: ril_open_eq i r Let_def open_err_def destroyInstance_def ril_emit_def simp flip: r2_def w2_def)
  next
    case (Some j)
    with loop d f show ?thesis
      by (auto simp: ril_open_eq i r Let_def open_err_def destroyInstance_def ril_emit_def simp flip: r2_def w2_def)
  qed
qed

text \<open>An environment in which a client is given from the second attempt on and can be connected at the third.\<close>

definition slow_modem :: ril_env where
  "slow_modem = \<lparr>ril_sys = \<lambda>cs c. case c of OpenClient_RILD \<Rightarrow> if attempts cs < 1 then NULL else 1
     | isConnected_RILD _ \<Rightarrow> if hd cs = OpenClient_RILD then 0 else 1 | Connect_RILD _ \<Rightarrow> if attempts cs < 3 then -1 else 0 | _ \<Rightarrow> 1\<rparr>"

theorem ril_open_retries_witness:
  "\<exists>w'. SecRilOpen slow_modem ril_start = Some (0, w') \<and> attempts (ril_calls w') = 3"
proof -
  have m: "modem_answers slow_modem (\<lambda>n. 1 \<le> n) (\<lambda>n. False) (\<lambda>n. 2 \<le> n) (\<lambda>n. True)"
    by (auto simp: modem_answers_def slow_modem_def)
  have s: "symbols_found slow_modem" by (simp add: symbols_found_def slow_modem_def)
  have a: "0 = attempts (ril_calls ril_start)" by (simp add: ril_start_def attempts_def)
  have u: "Some 2 = first_usable (\<lambda>n. 1 \<le> n) (\<lambda>n. False) (\<lambda>n. 2 \<le> n) 0 MAX_RETRY"
    by (simp add: first_usable_def upt_rec)
  show ?thesis using ril_open_retries [OF s m a u] by simp
qed

theorem ril_clients_sound_witness:
  "client_safe slow_modem (ril_calls ril_start) \<and> ril_exec slow_modem RilOpen ril_start \<noteq> None"
  using ril_clients_sound [OF ril_reachable_start [of slow_modem], of RilOpen]
  by (simp add: slow_modem_def symbols_found_def)

text \<open>
  A client that opens and connects but then does not report to be
  connected is lost: \<open>SecRilOpen\<close> fails, closes the library and frees the singleton without closing
  the client, so that nothing refers to the client that is still open.
\<close>

theorem failed_open_leaks_client:
  assumes "symbols_found E" "c \<noteq> NULL"
    and "\<And>cs. ril_sys E cs calloc_intf \<noteq> NULL" "\<And>cs. ril_sys E cs dlopen_lib \<noteq> NULL"
    and "\<And>cs. ril_sys E cs OpenClient_RILD = c" "\<And>cs. ril_sys E cs (Connect_RILD c) = 0" "\<And>cs. ril_sys E cs (isConnected_RILD c) = 0"
  shows "\<exists>w'. SecRilOpen E ril_start = Some (-1, w') \<and> c \<in> open_clients E (ril_calls w') \<and> ril_instance w' = None"
proof -
  obtain i w1 where i: "getInstance E ril_start = (i, w1)" by fastforce
  then obtain r where r: "i = Some r"
    using assms(3) by (auto simp: getInstance_def ril_start_def ril_syscall_def split: if_splits)
  define r2 where "r2 = fst (opened E r w1)"
  define w2 where "w2 = snd (opened E r w1)"
  note f = opened_found [OF assms(1), of r w1, folded r2_def]
  define w3 where "w3 = ril_emit (Connect_RILD c) (ril_emit (isConnected_RILD c) (ril_emit OpenClient_RILD w2))"
  have loop: "open_loop E MAX_RETRY r2 w2 = Some (r2\<lparr>client := c\<rparr>, w3)"
    using assms(2,5-7) f by (simp add: numeral_eq_Suc ril_syscall_def ril_emit_def Let_def w3_def)
  show ?thesis
    using assms(2-7) f by (auto simp: ril_open_eq i r Let_def loop open_err_props w3_def ril_emit_def prod_eq_iff simp flip: r2_def w2_def)
qed

definition mute_modem :: ril_env where
  "mute_modem = \<lparr>ril_sys = \<lambda>cs c. case c of Connect_RILD _ \<Rightarrow> 0 | isConnected_RILD _ \<Rightarrow> 0 | _ \<Rightarrow> 1\<rparr>"

theorem failed_open_leaks_client_witness:
  "\<exists>w'. SecRilOpen mute_modem ril_start = Some (-1, w') \<and> 1 \<in> open_clients mute_modem (ril_calls w') \<and> ril_instance w' = None"
  by (rule failed_open_leaks_client) (simp_all add: mute_modem_def symbols_found_def)

end
