(* ===== verification/Voice_Manager.thy ===== *)
theory Voice_Manager
  imports Ril_Client
begin

text \<open>
  The voice call manager of the primary audio HAL, \<open>libaudio/audiohal/voice_manager_sec.c\<close>: the
  status of the call, from the connection to the RIL audio client over the call mode to the active
  call, the settings of the call, and what the manager asks the RIL client of theory \<open>Ril_Client\<close>
  for. The theorems show that the clock of the modem runs exactly while the call is active, that a
  path reaches the modem, that the settings of the manager and of the client agree when the client
  was connected at once, and that they do not after a reconnection.
\<close>

section \<open>State\<close>

abbreviation (input) BT_NREC_INITIALIZED :: int where "BT_NREC_INITIALIZED \<equiv> -1"
abbreviation (input) BT_NREC_ON :: int where "BT_NREC_ON \<equiv> 0"
abbreviation (input) BT_NREC_OFF :: int where "BT_NREC_OFF \<equiv> 1"
abbreviation (input) TTY_MODE_OFF :: int where "TTY_MODE_OFF \<equiv> 0x10"
abbreviation (input) TTY_MODE_FULL :: int where "TTY_MODE_FULL \<equiv> 0x20"
abbreviation (input) TTY_MODE_VCO :: int where "TTY_MODE_VCO \<equiv> 0x40"
abbreviation (input) TTY_MODE_HCO :: int where "TTY_MODE_HCO \<equiv> 0x80"
abbreviation (input) HAC_MODE_OFF :: int where "HAC_MODE_OFF \<equiv> 0x100"
abbreviation (input) HAC_MODE_ON :: int where "HAC_MODE_ON \<equiv> 0x200"
abbreviation (input) VOICE_SR_NB :: int where "VOICE_SR_NB \<equiv> 0"
abbreviation (input) WB :: int where "WB \<equiv> 1"
abbreviation (input) DEVICE_INVALID :: int where "DEVICE_INVALID \<equiv> -1"
abbreviation (input) FACTORY_LOOPBACK_OFF :: int where "FACTORY_LOOPBACK_OFF \<equiv> 0"

datatype call_status_t = CALL_STATUS_INVALID | CALL_STATUS_CONNECTED | CALL_STATUS_INCALLMODE | CALL_STATUS_ACTIVE

text \<open>Fields with the name of a field of the RIL client have the prefix \<open>vm\<close>.\<close>

record voice_manager =
  call_status :: call_status_t
  vm_realcall :: bool
  csvtcall :: bool
  keep_call_mode :: bool
  out_device :: audio_devices
  in_device_id :: int
  bluetooth_nrec :: int
  bluetooth_samplerate :: int
  tty_mode :: int
  vm_hac_mode :: int
  call_forwarding :: bool
  mute_voice :: bool
  cur_modem :: int
  extra_volume :: bool
  voice_samplingrate :: int
  loopback_mode :: int
  vowifi_band :: int
  voip_rx_active :: bool
  voip_wificalling :: bool
  vm_volte_status :: int
  previous_volte_status :: int
  volume_steps_max :: int
  callback :: int

type_synonym vm_state = "voice_manager \<times> ril_world"

text \<open>
  Parameters are what \<open>str_parms_get_str\<close> finds for a key, a value being cut to the buffer of 40
  bytes. The names of the platform's audio parameters are given.
\<close>

type_synonym str_parms = "string \<rightharpoonup> string"

record parm_names =
  AUDIO_PARAMETER_KEY_BT_NREC :: string
  AUDIO_PARAMETER_KEY_BT_SCO_WB :: string
  AUDIO_PARAMETER_KEY_TTY_MODE :: string
  AUDIO_PARAMETER_KEY_HAC :: string
  AUDIO_PARAMETER_VALUE_ON :: string
  AUDIO_PARAMETER_VALUE_OFF :: string
  AUDIO_PARAMETER_VALUE_TTY_OFF :: string
  AUDIO_PARAMETER_VALUE_TTY_VCO :: string
  AUDIO_PARAMETER_VALUE_TTY_HCO :: string
  AUDIO_PARAMETER_VALUE_TTY_FULL :: string
  AUDIO_PARAMETER_VALUE_HAC_ON :: string
  AUDIO_PARAMETER_VALUE_HAC_OFF :: string

definition AUDIO_PARAMETER_VOLTE_STATUS :: string where
  "AUDIO_PARAMETER_VOLTE_STATUS = ''VoLTEstate''"

section \<open>Operations\<close>

definition voice_set_sco_solution :: "ril_env \<Rightarrow> bool \<Rightarrow> int \<Rightarrow> vm_state \<Rightarrow> vm_state" where
  "voice_set_sco_solution E echo_cancel sample_rate = (\<lambda>(v, w). (v, SecRilSetScoSolution E echo_cancel sample_rate w))"

definition voice_set_volte_status :: "ril_env \<Rightarrow> int \<Rightarrow> vm_state \<Rightarrow> vm_state" where
  "voice_set_volte_status E status = (\<lambda>(v, w). (v, SecRilSetVoLTEState E status w))"

definition voice_set_hac_mode :: "ril_env \<Rightarrow> bool \<Rightarrow> vm_state \<Rightarrow> vm_state" where
  "voice_set_hac_mode E status = (\<lambda>(v, w). (v, SecRilSetHACMode E status w))"

definition voice_is_call_mode :: "voice_manager \<Rightarrow> bool" where
  "voice_is_call_mode v \<longleftrightarrow> call_status v = CALL_STATUS_INCALLMODE \<or> call_status v = CALL_STATUS_ACTIVE"

definition voice_is_call_active :: "voice_manager \<Rightarrow> bool" where
  "voice_is_call_active v \<longleftrightarrow> call_status v = CALL_STATUS_ACTIVE"

definition voice_set_call_mode :: "ril_env \<Rightarrow> bool \<Rightarrow> vm_state \<Rightarrow> (int \<times> vm_state) option" where
  "voice_set_call_mode E on = (\<lambda>(v, w).
     case (if call_status v = CALL_STATUS_INVALID \<and> on then
             (case SecRilOpen E w of
                None \<Rightarrow> None
              | Some (ret, w) \<Rightarrow> Some (ret, v\<lparr>call_status := (if ret = 0 then CALL_STATUS_CONNECTED else CALL_STATUS_INVALID)\<rparr>, w))
           else Some (0, v, w)) of
       None \<Rightarrow> None
     | Some (ret, v, w) \<Rightarrow>
         if call_status v = CALL_STATUS_CONNECTED \<and> on then Some (ret, v\<lparr>call_status := CALL_STATUS_INCALLMODE\<rparr>, w)
         else if call_status v = CALL_STATUS_INCALLMODE \<and> \<not> on then Some (ret, v\<lparr>call_status := CALL_STATUS_CONNECTED\<rparr>, w)
         else Some (ret, v, w))"

definition voice_set_call_active :: "ril_env \<Rightarrow> bool \<Rightarrow> vm_state \<Rightarrow> vm_state" where
  "voice_set_call_active E on = (\<lambda>(v, w).
     if call_status v = CALL_STATUS_INCALLMODE \<and> on then (v\<lparr>call_status := CALL_STATUS_ACTIVE\<rparr>, SecRilSetSoundClkMode E 1 w)
     else if call_status v = CALL_STATUS_ACTIVE \<and> \<not> on then (v\<lparr>call_status := CALL_STATUS_INCALLMODE\<rparr>, SecRilSetSoundClkMode E 0 w)
     else (v, w))"

definition voice_set_audio_mode :: "ril_env \<Rightarrow> int \<Rightarrow> bool \<Rightarrow> vm_state \<Rightarrow> vm_state" where
  "voice_set_audio_mode E mode status = (\<lambda>(v, w). (v, SecRilSetAudioMode E mode status w))"

text \<open>\<open>scale\<close> is the product of the volume, a float, with the number of steps, cut to an int.\<close>

definition voice_set_volume :: "ril_env \<Rightarrow> (int \<Rightarrow> int) \<Rightarrow> vm_state \<Rightarrow> int \<times> vm_state" where
  "voice_set_volume E scale = (\<lambda>(v, w).
     if call_status v = CALL_STATUS_ACTIVE then (0, v, SecRilSetVoiceVolume E (scale (volume_steps_max v)) w) else (-1, v, w))"

definition voice_set_extra_volume :: "ril_env \<Rightarrow> bool \<Rightarrow> vm_state \<Rightarrow> vm_state" where
  "voice_set_extra_volume E on = (\<lambda>(v, w). (v, SecRilSetExtraVolume E on w))"

definition voice_set_path :: "ril_env \<Rightarrow> audio_devices \<Rightarrow> vm_state \<Rightarrow> int \<times> vm_state" where
  "voice_set_path E devices = (\<lambda>(v, w).
     if voice_is_call_mode v then (0, v\<lparr>out_device := devices\<rparr>, snd (SecRilSetVoicePath E devices w)) else (-1, v, w))"

definition voice_set_mic_mute :: "ril_env \<Rightarrow> bool \<Rightarrow> vm_state \<Rightarrow> vm_state" where
  "voice_set_mic_mute E status = (\<lambda>(v, w).
     (v, if voice_is_call_mode v \<or> loopback_mode v \<noteq> FACTORY_LOOPBACK_OFF then SecRilSetTxMute E status w else w))"

definition voice_set_rx_mute :: "ril_env \<Rightarrow> bool \<Rightarrow> vm_state \<Rightarrow> vm_state" where
  "voice_set_rx_mute E status = (\<lambda>(v, w). (v, SecRilSetRxMute E status w))"

definition voice_set_usb_mic :: "ril_env \<Rightarrow> bool \<Rightarrow> vm_state \<Rightarrow> vm_state" where
  "voice_set_usb_mic E status = (\<lambda>(v, w). (v, SecRilSetUSBMicState E status w))"

definition voice_set_call_forwarding :: "ril_env \<Rightarrow> bool \<Rightarrow> vm_state \<Rightarrow> vm_state" where
  "voice_set_call_forwarding E callfwd = (\<lambda>(v, w). (v, SecRilSetCallFowardingMode E callfwd w))"

definition voice_set_cur_indevice_id :: "int \<Rightarrow> vm_state \<Rightarrow> vm_state" where
  "voice_set_cur_indevice_id device = (\<lambda>(v, w). (v\<lparr>in_device_id := device\<rparr>, w))"

text \<open>One of the devices is a Bluetooth SCO device.\<close>

fun has_sco :: "audio_devices \<Rightarrow> bool" where
  "has_sco AUDIO_DEVICE_OUT_BLUETOOTH_SCO \<longleftrightarrow> True"
| "has_sco AUDIO_DEVICE_OUT_BLUETOOTH_SCO_HEADSET \<longleftrightarrow> True"
| "has_sco AUDIO_DEVICE_OUT_BLUETOOTH_SCO_CARKIT \<longleftrightarrow> True"
| "has_sco (AUDIO_DEVICE_OTHER _ b) \<longleftrightarrow> b"
| "has_sco _ \<longleftrightarrow> False"

text \<open>
  \<open>voice_set_parameters\<close>, one definition per parameter. The requested devices of the primary output
  are given, or None when there is no primary output; deleting a key takes it from the parameters.
\<close>

definition set_volte :: "ril_env \<Rightarrow> str_parms \<Rightarrow> vm_state \<Rightarrow> vm_state" where
  "set_volte E parms s =
     (case parms AUDIO_PARAMETER_VOLTE_STATUS of
        None \<Rightarrow> s
      | Some value \<Rightarrow>
          (let (v, w) = s;
               v = (if value = ''voice'' then v\<lparr>vm_volte_status := VOLTE_VOICE\<rparr>
                    else if value = ''end'' then v\<lparr>vm_volte_status := VOLTE_OFF\<rparr> else v)
           in voice_set_volte_status E (vm_volte_status v) (v, w)))"

definition set_nrec :: "parm_names \<Rightarrow> str_parms \<times> vm_state \<Rightarrow> str_parms \<times> vm_state" where
  "set_nrec N = (\<lambda>(parms, v, w).
     case parms (AUDIO_PARAMETER_KEY_BT_NREC N) of
       None \<Rightarrow> (parms, v, w)
     | Some value \<Rightarrow>
         (parms(AUDIO_PARAMETER_KEY_BT_NREC N := None),
          if value = AUDIO_PARAMETER_VALUE_ON N then v\<lparr>bluetooth_nrec := BT_NREC_ON\<rparr>
          else if value = AUDIO_PARAMETER_VALUE_OFF N then v\<lparr>bluetooth_nrec := BT_NREC_OFF\<rparr> else v, w))"

definition set_sco_wb :: "ril_env \<Rightarrow> parm_names \<Rightarrow> audio_devices option \<Rightarrow> str_parms \<times> vm_state \<Rightarrow> str_parms \<times> vm_state" where
  "set_sco_wb E N requested = (\<lambda>(parms, v, w).
     case parms (AUDIO_PARAMETER_KEY_BT_SCO_WB N) of
       None \<Rightarrow> (parms, v, w)
     | Some value \<Rightarrow>
         (let v = (if value = AUDIO_PARAMETER_VALUE_ON N then v\<lparr>bluetooth_samplerate := WB_SAMPLING_RATE\<rparr>
                   else if value = AUDIO_PARAMETER_VALUE_OFF N then v\<lparr>bluetooth_samplerate := NB_SAMPLING_RATE\<rparr> else v);
              s = voice_set_sco_solution E (bluetooth_nrec v \<noteq> 0) (bluetooth_samplerate v) (v, w)
          in (parms(AUDIO_PARAMETER_KEY_BT_SCO_WB N := None),
              case requested of
                None \<Rightarrow> s
              | Some devices \<Rightarrow> if voice_is_call_active (fst s) \<and> has_sco devices then snd (voice_set_path E devices s) else s)))"

definition set_tty :: "parm_names \<Rightarrow> str_parms \<times> vm_state \<Rightarrow> str_parms \<times> vm_state" where
  "set_tty N = (\<lambda>(parms, v, w).
     case parms (AUDIO_PARAMETER_KEY_TTY_MODE N) of
       None \<Rightarrow> (parms, v, w)
     | Some value \<Rightarrow>
         (parms(AUDIO_PARAMETER_KEY_TTY_MODE N := None),
          if value = AUDIO_PARAMETER_VALUE_TTY_OFF N then v\<lparr>tty_mode := TTY_MODE_OFF\<rparr>
          else if value = AUDIO_PARAMETER_VALUE_TTY_VCO N then v\<lparr>tty_mode := TTY_MODE_VCO\<rparr>
          else if value = AUDIO_PARAMETER_VALUE_TTY_HCO N then v\<lparr>tty_mode := TTY_MODE_HCO\<rparr>
          else if value = AUDIO_PARAMETER_VALUE_TTY_FULL N then v\<lparr>tty_mode := TTY_MODE_FULL\<rparr> else v, w))"

definition set_hac :: "ril_env \<Rightarrow> parm_names \<Rightarrow> audio_devices option \<Rightarrow> str_parms \<times> vm_state \<Rightarrow> str_parms \<times> vm_state" where
  "set_hac E N requested = (\<lambda>(parms, v, w).
     case parms (AUDIO_PARAMETER_KEY_HAC N) of
       None \<Rightarrow> (parms, v, w)
     | Some value \<Rightarrow>
         (let s = (if value = AUDIO_PARAMETER_VALUE_HAC_ON N then voice_set_hac_mode E True (v\<lparr>vm_hac_mode := HAC_MODE_ON\<rparr>, w)
                   else if value = AUDIO_PARAMETER_VALUE_HAC_OFF N then voice_set_hac_mode E False (v\<lparr>vm_hac_mode := HAC_MODE_OFF\<rparr>, w)
                   else (v, w))
          in (parms(AUDIO_PARAMETER_KEY_HAC N := None),
              case requested of
                None \<Rightarrow> s
              | Some devices \<Rightarrow>
                  if voice_is_call_active (fst s) \<and> devices \<noteq> AUDIO_DEVICE_NONE then snd (voice_set_path E devices s) else s)))"

definition voice_set_parameters ::
  "ril_env \<Rightarrow> parm_names \<Rightarrow> audio_devices option \<Rightarrow> str_parms \<Rightarrow> vm_state \<Rightarrow> str_parms \<times> vm_state" where
  "voice_set_parameters E N requested parms s =
     set_hac E N requested (set_tty N (set_sco_wb E N requested (set_nrec N (parms, set_volte E parms s))))"

definition voice_get_volte_status :: "voice_manager \<Rightarrow> int" where
  "voice_get_volte_status v = vm_volte_status v"

definition voice_get_samplingrate :: "voice_manager \<Rightarrow> int" where
  "voice_get_samplingrate v = voice_samplingrate v"

definition voice_get_vowifi_band :: "voice_manager \<Rightarrow> int" where
  "voice_get_vowifi_band v = vowifi_band v"

definition voice_get_cur_indevice_id :: "voice_manager \<Rightarrow> int" where
  "voice_get_cur_indevice_id v = in_device_id v"

text \<open>The devices are only passed to \<open>SecRilSetLoopback\<close>, which ignores them.\<close>

definition voice_set_loopback_device :: "int \<Rightarrow> vm_state \<Rightarrow> vm_state" where
  "voice_set_loopback_device mode = (\<lambda>(v, w). (v\<lparr>loopback_mode := mode\<rparr>, w))"

definition voice_get_volume_index :: "(int \<Rightarrow> int) \<Rightarrow> voice_manager \<Rightarrow> int" where
  "voice_get_volume_index scale v = scale (volume_steps_max v)"

text \<open>None is a call through a NULL function pointer.\<close>

definition voice_callback :: "vm_state \<Rightarrow> (int \<times> vm_state) option" where
  "voice_callback = (\<lambda>(v, w). if callback v = NULL then None else Some (0, v, w))"

definition voice_deinit :: "ril_env \<Rightarrow> vm_state \<Rightarrow> ril_world" where
  "voice_deinit E = (\<lambda>(v, w). SecRilClose E w)"

text \<open>\<open>atoi\<close>: white space, a sign, digits; the value saturates as a long and is cut to an int.\<close>

fun atoi_digits :: "int \<Rightarrow> string \<Rightarrow> int" where
  "atoi_digits n [] = n"
| "atoi_digits n (c # cs) =
     (if 48 \<le> (of_char c :: nat) \<and> (of_char c :: nat) \<le> 57 then atoi_digits (10 * n + (of_char c - 48)) cs else n)"

definition atoi :: "string \<Rightarrow> int" where
  "atoi s =
     (let s = dropWhile (\<lambda>c. of_char c = (32 :: nat) \<or> 9 \<le> (of_char c :: nat) \<and> (of_char c :: nat) \<le> 13) s;
          n = (case s of
                 c # cs \<Rightarrow> if c = CHR ''-'' then - atoi_digits 0 cs else if c = CHR ''+'' then atoi_digits 0 cs else atoi_digits 0 s
               | [] \<Rightarrow> 0);
          n = max (- (2 ^ 63)) (min (2 ^ 63 - 1) n)
      in (n + 2 ^ 31) mod 2 ^ 32 - 2 ^ 31)"

definition zero_voice :: voice_manager where
  "zero_voice = \<lparr>call_status = CALL_STATUS_INVALID, vm_realcall = False, csvtcall = False, keep_call_mode = False,
     out_device = AUDIO_DEVICE_NONE, in_device_id = 0, bluetooth_nrec = 0, bluetooth_samplerate = 0, tty_mode = 0, vm_hac_mode = 0,
     call_forwarding = False, mute_voice = False, cur_modem = 0, extra_volume = False, voice_samplingrate = 0, loopback_mode = 0,
     vowifi_band = 0, voip_rx_active = False, voip_wificalling = False, vm_volte_status = 0, previous_volte_status = 0,
     volume_steps_max = 0, callback = NULL\<rparr>"

text \<open>\<open>property\<close> is the value of the property of the number of volume steps, \<open>5\<close> when it is not set.\<close>

definition voice_init :: "ril_env \<Rightarrow> string \<Rightarrow> ril_world \<Rightarrow> (voice_manager option \<times> ril_world) option" where
  "voice_init E property w =
     (let (p, w) = ril_syscall E calloc_voice w in
      if p = NULL then Some (None, w)
      else case SecRilOpen E w of
             None \<Rightarrow> None
           | Some (ret, w) \<Rightarrow>
               (let steps = atoi property;
                    v = zero_voice\<lparr>call_status := (if ret = 0 then CALL_STATUS_CONNECTED else CALL_STATUS_INVALID),
                      vm_realcall := False, csvtcall := False, keep_call_mode := False,
                      out_device := AUDIO_DEVICE_NONE, in_device_id := DEVICE_INVALID, bluetooth_nrec := BT_NREC_INITIALIZED,
                      bluetooth_samplerate := NB_SAMPLING_RATE, tty_mode := TTY_MODE_OFF, call_forwarding := False,
                      mute_voice := False, cur_modem := CP1, extra_volume := False,
                      voice_samplingrate := VOICE_SR_NB, loopback_mode := FACTORY_LOOPBACK_OFF,
                      voip_wificalling := False, voip_rx_active := False, vowifi_band := WB,
                      vm_volte_status := VOLTE_OFF, previous_volte_status := VOLTE_OFF,
                      volume_steps_max := (if steps = 0 then atoi ''5'' else steps), callback := NULL\<rparr>
                in Some (Some v, w)))"

section \<open>Settings of a call\<close>

text \<open>The settings that the manager and the client both keep.\<close>

definition call_settings :: "rilclient_intf \<Rightarrow> int \<times> bool" where
  "call_settings r = (volte_status r, hac_mode r)"

definition agree :: "vm_state \<Rightarrow> bool" where
  "agree s \<longleftrightarrow> (\<exists>r. ril_instance (snd s) = Some r \<and> call_settings r = (vm_volte_status (fst s), vm_hac_mode (fst s) = HAC_MODE_ON))"

text \<open>A setting of the client that leaves these alone.\<close>

locale ril_neutral = ril_setter +
  assumes settings: "ril_instance w = Some r \<Longrightarrow> \<exists>r'. ril_instance (op w) = Some r' \<and> call_settings r' = call_settings r"

context ril_neutral
begin

lemma agree: "agree (v, w) \<Longrightarrow> agree (v, op w)"
  unfolding agree_def using settings by fastforce

end

lemma neutral_intro:
  assumes "ril_setter E (with_instance E f)" "\<And>r w. call_settings (fst (f r w)) = call_settings r"
  shows "ril_neutral E (with_instance E f)"
  using assms by (simp add: ril_neutral_def ril_neutral_axioms_def with_instance_def getInstance_def case_prod_unfold Let_def)

interpretation n_sco: ril_neutral E "SecRilSetScoSolution E ec sr" for E ec sr
  using sco.ril_setter_axioms unfolding SecRilSetScoSolution_def by (rule neutral_intro) (simp add: call_settings_def)

interpretation n_audio_mode: ril_neutral E "SecRilSetAudioMode E m s" for E m s
  using audio_mode.ril_setter_axioms unfolding SecRilSetAudioMode_def by (rule neutral_intro) (simp add: call_settings_def)

interpretation n_extra_volume: ril_neutral E "SecRilSetExtraVolume E on" for E on
  using extra_volume.ril_setter_axioms unfolding SecRilSetExtraVolume_def by (rule neutral_intro) (simp add: call_settings_def)

interpretation n_volume: ril_neutral E "SecRilSetVoiceVolume E k" for E k
  using volume.ril_setter_axioms unfolding SecRilSetVoiceVolume_def by (rule neutral_intro) simp

interpretation n_path: ril_neutral E "\<lambda>w. snd (SecRilSetVoicePath E d w)" for E d
  using path.ril_setter_axioms unfolding SecRilSetVoicePath_eq by (rule neutral_intro) (simp add: call_settings_def)

interpretation n_tx_mute: ril_neutral E "SecRilSetTxMute E s" for E s
  using tx_mute.ril_setter_axioms unfolding SecRilSetTxMute_def by (rule neutral_intro) (simp add: call_settings_def)

interpretation n_rx_mute: ril_neutral E "SecRilSetRxMute E s" for E s
  using rx_mute.ril_setter_axioms unfolding SecRilSetRxMute_def by (rule neutral_intro) (simp add: call_settings_def)

interpretation n_usb_mic: ril_neutral E "SecRilSetUSBMicState E s" for E s
  using usb_mic.ril_setter_axioms unfolding SecRilSetUSBMicState_def by (rule neutral_intro) (simp add: call_settings_def)

interpretation n_forwarding: ril_neutral E "SecRilSetCallFowardingMode E s" for E s
  using forwarding.ril_setter_axioms unfolding SecRilSetCallFowardingMode_def by (rule neutral_intro) (simp add: call_settings_def)

text \<open>
  The contract of an operation of the manager that does not change the status of the call, and the
  invariant it keeps: a connected manager has a client with the functions it needs, and the modem was
  asked last to run the clock exactly if the call is active.
\<close>

definition vm_ok :: "ril_env \<Rightarrow> vm_state \<Rightarrow> bool" where
  "vm_ok E s \<longleftrightarrow> ril_ok E (snd s) \<and> (call_status (fst s) \<noteq> CALL_STATUS_INVALID \<longrightarrow> modem_link (snd s)) \<and>
     (clock_state (ril_calls (snd s)) = Some VOICE_AUDIO_TURN_ON_I2S \<longleftrightarrow> call_status (fst s) = CALL_STATUS_ACTIVE)"

locale call_setting =
  fixes E :: ril_env and op :: "vm_state \<Rightarrow> vm_state"
  assumes ok: "ril_ok E (snd s) \<Longrightarrow> ril_ok E (snd (op s))"
    and status: "call_status (fst (op s)) = call_status (fst s)"
    and link: "modem_link (snd s) \<Longrightarrow> modem_link (snd (op s))"
    and clock: "clock_state (ril_calls (snd (op s))) = clock_state (ril_calls (snd s))"
    and keeps_agree: "agree s \<Longrightarrow> agree (op s)"

context call_setting
begin

lemma vm_ok: "vm_ok E s \<Longrightarrow> vm_ok E (op s)"
  using ok link by (simp add: vm_ok_def status clock)

end

lemma call_setting_comp: "call_setting E f \<Longrightarrow> call_setting E g \<Longrightarrow> call_setting E (\<lambda>s. f (g s))"
  by (simp add: call_setting_def del: split_paired_All)

lemma call_setting_if:
  assumes "call_setting E f" "call_setting E g" "\<And>s. op s = (if P s then f s else g s)"
  shows "call_setting E op"
proof -
  have "op = (\<lambda>s. if P s then f s else g s)" using assms(3) by blast
  then show ?thesis using assms(1,2) by (simp add: call_setting_def del: split_paired_All)
qed

context ril_neutral
begin

lemma lift: "call_setting E (\<lambda>(v, w). (v, op w))"
  by unfold_locales (auto simp: ok clock modem_link agree)

end

text \<open>A change of the manager's own fields that are neither status nor call setting.\<close>

lemma call_setting_own:
  assumes "\<And>v. call_status (g v) = call_status v" "\<And>v. vm_volte_status (g v) = vm_volte_status v" "\<And>v. vm_hac_mode (g v) = vm_hac_mode v"
  shows "call_setting E (\<lambda>(v, w). (g v, w))"
  using assms by unfold_locales (auto simp: agree_def)

lemma call_setting_id: "call_setting E (\<lambda>s. s)"
  by unfold_locales simp_all

interpretation vm_audio_mode: call_setting E "voice_set_audio_mode E m s" for E m s
  unfolding voice_set_audio_mode_def by (rule n_audio_mode.lift)

interpretation vm_extra_volume: call_setting E "voice_set_extra_volume E on" for E on
  unfolding voice_set_extra_volume_def by (rule n_extra_volume.lift)

interpretation vm_rx_mute: call_setting E "voice_set_rx_mute E s" for E s
  unfolding voice_set_rx_mute_def by (rule n_rx_mute.lift)

interpretation vm_usb_mic: call_setting E "voice_set_usb_mic E s" for E s
  unfolding voice_set_usb_mic_def by (rule n_usb_mic.lift)

interpretation vm_forwarding: call_setting E "voice_set_call_forwarding E s" for E s
  unfolding voice_set_call_forwarding_def by (rule n_forwarding.lift)

interpretation vm_sco: call_setting E "voice_set_sco_solution E ec sr" for E ec sr
  unfolding voice_set_sco_solution_def by (rule n_sco.lift)

interpretation vm_indevice: call_setting E "voice_set_cur_indevice_id d" for E d
  unfolding voice_set_cur_indevice_id_def by (rule call_setting_own) simp_all

interpretation vm_loopback: call_setting E "voice_set_loopback_device m" for E m
  unfolding voice_set_loopback_device_def by (rule call_setting_own) simp_all

interpretation vm_mic_mute: call_setting E "voice_set_mic_mute E s" for E s
  by (rule call_setting_if [OF n_tx_mute.lift call_setting_id,
        where P = "\<lambda>(v, w). voice_is_call_mode v \<or> loopback_mode v \<noteq> FACTORY_LOOPBACK_OFF"])
     (auto simp: voice_set_mic_mute_def)

interpretation vm_volume: call_setting E "\<lambda>s. snd (voice_set_volume E scale s)" for E scale
proof
  fix s :: vm_state
  obtain v w where s: "s = (v, w)" by fastforce
  note d = voice_set_volume_def s
  show "ril_ok E (snd s) \<Longrightarrow> ril_ok E (snd (snd (voice_set_volume E scale s)))" by (simp add: d volume.ok)
  show "call_status (fst (snd (voice_set_volume E scale s))) = call_status (fst s)" by (simp add: d)
  show "modem_link (snd s) \<Longrightarrow> modem_link (snd (snd (voice_set_volume E scale s)))" by (simp add: d volume.modem_link)
  show "clock_state (ril_calls (snd (snd (voice_set_volume E scale s)))) = clock_state (ril_calls (snd s))" by (simp add: d volume.clock)
  show "agree s \<Longrightarrow> agree (snd (voice_set_volume E scale s))" by (simp add: d n_volume.agree)
qed

interpretation vm_path: call_setting E "\<lambda>s. snd (voice_set_path E d s)" for E d
proof (rule call_setting_if [OF call_setting_comp [OF call_setting_own n_path.lift] call_setting_id])
  show "snd (voice_set_path E d s) = (if voice_is_call_mode (fst s)
      then (\<lambda>(v, w). (v\<lparr>out_device := d\<rparr>, w)) ((\<lambda>(v, w). (v, snd (SecRilSetVoicePath E d w))) s) else s)" for s
    by (cases s) (simp add: voice_set_path_def)
qed simp_all

section \<open>Parameters\<close>

text \<open>The steps of \<open>voice_set_parameters\<close> on the state of the manager, for each value of the parameters.\<close>

lemma set_volte_setting: "call_setting E (set_volte E parms)"
proof
  fix s :: vm_state
  obtain v w where s: "s = (v, w)" by fastforce
  note d = set_volte_def voice_set_volte_status_def s
  show "ril_ok E (snd s) \<Longrightarrow> ril_ok E (snd (set_volte E parms s))" by (simp add: d volte.ok split: option.split)
  show "call_status (fst (set_volte E parms s)) = call_status (fst s)" by (simp add: d split: option.split)
  show "modem_link (snd s) \<Longrightarrow> modem_link (snd (set_volte E parms s))" by (simp add: d volte.modem_link split: option.split)
  show "clock_state (ril_calls (snd (set_volte E parms s))) = clock_state (ril_calls (snd s))" by (simp add: d volte.clock split: option.split)
  show "agree s \<Longrightarrow> agree (set_volte E parms s)"
    by (auto simp: d agree_def SecRilSetVoLTEState_def with_instance_def getInstance_def call_settings_def split: option.split)
qed

lemma set_nrec_setting: "call_setting E (\<lambda>s. snd (set_nrec N (parms, s)))"
  by unfold_locales (auto simp: set_nrec_def agree_def split: option.splits)

lemma set_tty_setting: "call_setting E (\<lambda>s. snd (set_tty N (parms, s)))"
  by unfold_locales (auto simp: set_tty_def agree_def split: option.splits)

lemma hac_setting: "call_setting E (\<lambda>(v, w). voice_set_hac_mode E b (v\<lparr>vm_hac_mode := (if b then HAC_MODE_ON else HAC_MODE_OFF)\<rparr>, w))"
proof
  fix s :: vm_state
  obtain v w where s: "s = (v, w)" by fastforce
  let ?op = "\<lambda>(v, w). voice_set_hac_mode E b (v\<lparr>vm_hac_mode := (if b then HAC_MODE_ON else HAC_MODE_OFF)\<rparr>, w)"
  note d = voice_set_hac_mode_def s
  show "ril_ok E (snd s) \<Longrightarrow> ril_ok E (snd (?op s))" by (simp add: d hac.ok)
  show "call_status (fst (?op s)) = call_status (fst s)" by (simp add: d)
  show "modem_link (snd s) \<Longrightarrow> modem_link (snd (?op s))" by (simp add: d hac.modem_link)
  show "clock_state (ril_calls (snd (?op s))) = clock_state (ril_calls (snd s))" by (simp add: d hac.clock)
  show "agree s \<Longrightarrow> agree (?op s)"
    by (auto simp: d agree_def SecRilSetHACMode_def with_instance_def getInstance_def call_settings_def)
qed

definition repath :: "ril_env \<Rightarrow> (audio_devices \<Rightarrow> bool) \<Rightarrow> audio_devices option \<Rightarrow> vm_state \<Rightarrow> vm_state" where
  "repath E P requested s =
     (case requested of None \<Rightarrow> s | Some d \<Rightarrow> if voice_is_call_active (fst s) \<and> P d then snd (voice_set_path E d s) else s)"

lemma repath_setting: "call_setting E (repath E P requested)"
proof (cases requested)
  case (Some d)
  show ?thesis
    by (rule call_setting_if [OF vm_path.call_setting_axioms call_setting_id, where P = "\<lambda>s. voice_is_call_active (fst s) \<and> P d"])
       (simp add: Some repath_def)
next
  case None
  then have "repath E P requested = (\<lambda>s. s)" by (simp add: fun_eq_iff repath_def)
  then show ?thesis by (simp add: call_setting_id)
qed

lemma sco_setting:
  assumes "\<And>v. call_status (g v) = call_status v" "\<And>v. vm_volte_status (g v) = vm_volte_status v" "\<And>v. vm_hac_mode (g v) = vm_hac_mode v"
  shows "call_setting E (\<lambda>(v, w). voice_set_sco_solution E (ec (g v)) (sr (g v)) (g v, w))"
proof
  fix s :: vm_state
  obtain v w where s: "s = (v, w)" by fastforce
  let ?op = "\<lambda>(v, w). voice_set_sco_solution E (ec (g v)) (sr (g v)) (g v, w)"
  note d = voice_set_sco_solution_def s
  show "ril_ok E (snd s) \<Longrightarrow> ril_ok E (snd (?op s))" by (simp add: d sco.ok)
  show "call_status (fst (?op s)) = call_status (fst s)" by (simp add: d assms(1))
  show "modem_link (snd s) \<Longrightarrow> modem_link (snd (?op s))" by (simp add: d sco.modem_link)
  show "clock_state (ril_calls (snd (?op s))) = clock_state (ril_calls (snd s))" by (simp add: d sco.clock)
  show "agree (?op s)" if "agree s"
  proof -
    have "agree (g v, w)" using that by (simp add: s agree_def assms)
    then show ?thesis by (simp add: d n_sco.agree)
  qed
qed

lemma set_sco_wb_setting: "call_setting E (\<lambda>s. snd (set_sco_wb E N requested (parms, s)))"
proof (cases "parms (AUDIO_PARAMETER_KEY_BT_SCO_WB N)")
  case None
  then show ?thesis by (simp add: set_sco_wb_def case_prod_unfold call_setting_id)
next
  case (Some val)
  define g where "g v = (if val = AUDIO_PARAMETER_VALUE_ON N then v\<lparr>bluetooth_samplerate := WB_SAMPLING_RATE\<rparr>
    else if val = AUDIO_PARAMETER_VALUE_OFF N then v\<lparr>bluetooth_samplerate := NB_SAMPLING_RATE\<rparr> else v)" for v :: voice_manager
  define pre where "pre = (\<lambda>(v, w). voice_set_sco_solution E (bluetooth_nrec (g v) \<noteq> 0) (bluetooth_samplerate (g v)) (g v, w))"
  have "call_setting E pre"
    unfolding pre_def by (rule sco_setting) (simp_all add: g_def)
  then have "call_setting E (\<lambda>s. repath E has_sco requested (pre s))" by (rule call_setting_comp [OF repath_setting])
  moreover have "snd (set_sco_wb E N requested (parms, s)) = repath E has_sco requested (pre s)" for s
    by (cases s) (simp add: set_sco_wb_def Some Let_def pre_def g_def repath_def)
  ultimately show ?thesis by simp
qed

lemma set_hac_setting: "call_setting E (\<lambda>s. snd (set_hac E N requested (parms, s)))"
proof (cases "parms (AUDIO_PARAMETER_KEY_HAC N)")
  case None
  then show ?thesis by (simp add: set_hac_def case_prod_unfold call_setting_id)
next
  case (Some val)
  define pre where "pre = (\<lambda>(v, w). if val = AUDIO_PARAMETER_VALUE_HAC_ON N then voice_set_hac_mode E True (v\<lparr>vm_hac_mode := HAC_MODE_ON\<rparr>, w)
      else if val = AUDIO_PARAMETER_VALUE_HAC_OFF N then voice_set_hac_mode E False (v\<lparr>vm_hac_mode := HAC_MODE_OFF\<rparr>, w) else (v, w))"
  have "call_setting E pre"
    unfolding pre_def using hac_setting [of E True] hac_setting [of E False] call_setting_id [of E]
    by (cases "val = AUDIO_PARAMETER_VALUE_HAC_ON N"; cases "val = AUDIO_PARAMETER_VALUE_HAC_OFF N"; simp add: case_prod_unfold)
  then have "call_setting E (\<lambda>s. repath E (\<lambda>d. d \<noteq> AUDIO_DEVICE_NONE) requested (pre s))"
    by (rule call_setting_comp [OF repath_setting])
  moreover have "snd (set_hac E N requested (parms, s)) = repath E (\<lambda>d. d \<noteq> AUDIO_DEVICE_NONE) requested (pre s)" for s
    by (cases s) (simp add: set_hac_def Some Let_def pre_def repath_def)
  ultimately show ?thesis by simp
qed

text \<open>Which keys are left after a step does not depend on the state of the manager.\<close>

lemma parms_left:
  "fst (set_nrec N (parms, s)) = parms(AUDIO_PARAMETER_KEY_BT_NREC N := None)"
  "fst (set_sco_wb E N requested (parms, s)) = parms(AUDIO_PARAMETER_KEY_BT_SCO_WB N := None)"
  "fst (set_tty N (parms, s)) = parms(AUDIO_PARAMETER_KEY_TTY_MODE N := None)"
  by (auto simp: set_nrec_def set_sco_wb_def set_tty_def Let_def case_prod_unfold fun_eq_iff split: option.split)

interpretation vm_parameters: call_setting E "\<lambda>s. snd (voice_set_parameters E N requested parms s)" for E N requested parms
proof -
  let ?p1 = "parms(AUDIO_PARAMETER_KEY_BT_NREC N := None)"
  let ?p2 = "?p1(AUDIO_PARAMETER_KEY_BT_SCO_WB N := None)"
  let ?p3 = "?p2(AUDIO_PARAMETER_KEY_TTY_MODE N := None)"
  have eq: "snd (voice_set_parameters E N requested parms s) =
      snd (set_hac E N requested (?p3, snd (set_tty N (?p2, snd (set_sco_wb E N requested (?p1,
        snd (set_nrec N (parms, set_volte E parms s))))))))" for s
    unfolding voice_set_parameters_def by (metis parms_left prod.collapse)
  show "call_setting E (\<lambda>s. snd (voice_set_parameters E N requested parms s))"
    unfolding eq by (intro call_setting_comp [OF set_hac_setting] call_setting_comp [OF set_tty_setting]
      call_setting_comp [OF set_sco_wb_setting] call_setting_comp [OF set_nrec_setting] set_volte_setting)
qed

lemma voice_set_path_keeps: "vm_volte_status (fst (snd (voice_set_path E d s))) = vm_volte_status (fst s)"
  by (cases s) (simp add: voice_set_path_def)

text \<open>The VoLTE status is what the parameters say last.\<close>

lemma voice_set_parameters_volte:
  "vm_volte_status (fst (snd (voice_set_parameters E N requested parms s))) =
     (case parms AUDIO_PARAMETER_VOLTE_STATUS of
        Some x \<Rightarrow> if x = ''voice'' then VOLTE_VOICE else if x = ''end'' then VOLTE_OFF else vm_volte_status (fst s)
      | None \<Rightarrow> vm_volte_status (fst s))"
proof -
  have "vm_volte_status (fst (snd (set_hac E N requested p))) = vm_volte_status (fst (snd p))"
    "vm_volte_status (fst (snd (set_tty N p))) = vm_volte_status (fst (snd p))"
    "vm_volte_status (fst (snd (set_sco_wb E N requested p))) = vm_volte_status (fst (snd p))"
    "vm_volte_status (fst (snd (set_nrec N p))) = vm_volte_status (fst (snd p))" for p
    by (cases p, simp add: set_hac_def set_tty_def set_sco_wb_def set_nrec_def voice_set_hac_mode_def voice_set_sco_solution_def Let_def
        voice_set_path_keeps split: option.split)+
  then show ?thesis
    by (simp add: voice_set_parameters_def set_volte_def voice_set_volte_status_def Let_def case_prod_unfold split: option.split)
qed

section \<open>Runs\<close>

datatype vm_event =
    VmCallMode bool | VmCallActive bool | VmAudioMode int bool | VmVolume "int \<Rightarrow> int" | VmExtraVolume bool | VmPath audio_devices
  | VmMicMute bool | VmRxMute bool | VmUsbMic bool | VmCallForwarding bool | VmCurIndevice int
  | VmParameters parm_names "audio_devices option" str_parms | VmLoopback int

primrec vm_exec :: "ril_env \<Rightarrow> vm_event \<Rightarrow> vm_state \<Rightarrow> vm_state option" where
  "vm_exec E (VmCallMode on) s = map_option snd (voice_set_call_mode E on s)"
| "vm_exec E (VmCallActive on) s = Some (voice_set_call_active E on s)"
| "vm_exec E (VmAudioMode m b) s = Some (voice_set_audio_mode E m b s)"
| "vm_exec E (VmVolume scale) s = Some (snd (voice_set_volume E scale s))"
| "vm_exec E (VmExtraVolume on) s = Some (voice_set_extra_volume E on s)"
| "vm_exec E (VmPath d) s = Some (snd (voice_set_path E d s))"
| "vm_exec E (VmMicMute b) s = Some (voice_set_mic_mute E b s)"
| "vm_exec E (VmRxMute b) s = Some (voice_set_rx_mute E b s)"
| "vm_exec E (VmUsbMic b) s = Some (voice_set_usb_mic E b s)"
| "vm_exec E (VmCallForwarding b) s = Some (voice_set_call_forwarding E b s)"
| "vm_exec E (VmCurIndevice d) s = Some (voice_set_cur_indevice_id d s)"
| "vm_exec E (VmParameters N requested parms) s = Some (snd (voice_set_parameters E N requested parms s))"
| "vm_exec E (VmLoopback m) s = Some (voice_set_loopback_device m s)"

inductive vm_steps :: "ril_env \<Rightarrow> vm_state \<Rightarrow> vm_state \<Rightarrow> bool" for E s where
  vm_steps_refl: "vm_steps E s s"
| vm_steps_step: "vm_steps E s t \<Longrightarrow> vm_exec E e t = Some t' \<Longrightarrow> vm_steps E s t'"

lemmas settings_vm_ok =
  vm_audio_mode.vm_ok vm_volume.vm_ok vm_extra_volume.vm_ok vm_path.vm_ok vm_mic_mute.vm_ok vm_rx_mute.vm_ok vm_usb_mic.vm_ok
  vm_forwarding.vm_ok vm_indevice.vm_ok vm_parameters.vm_ok vm_loopback.vm_ok

lemmas settings_agree =
  vm_audio_mode.keeps_agree vm_volume.keeps_agree vm_extra_volume.keeps_agree vm_path.keeps_agree vm_mic_mute.keeps_agree
  vm_rx_mute.keeps_agree vm_usb_mic.keeps_agree vm_forwarding.keeps_agree vm_indevice.keeps_agree vm_parameters.keeps_agree
  vm_loopback.keeps_agree

lemmas settings_status =
  vm_audio_mode.status vm_volume.status vm_extra_volume.status vm_path.status vm_mic_mute.status vm_rx_mute.status vm_usb_mic.status
  vm_forwarding.status vm_indevice.status vm_parameters.status vm_loopback.status

lemma call_mode_ok:
  assumes "symbols_found E" "vm_ok E s"
  shows "\<exists>ret t. voice_set_call_mode E on s = Some (ret, t) \<and> vm_ok E t"
proof -
  obtain v w where s: "s = (v, w)" by fastforce
  obtain ret w' where o: "SecRilOpen E w = Some (ret, w')" using open_returns [OF assms(1), of w] by auto
  note p = open_props [OF o]
  show ?thesis
    using assms p by (auto simp: voice_set_call_mode_def s o vm_ok_def)
qed

lemma call_active_ok:
  assumes "vm_ok E s"
  shows "vm_ok E (voice_set_call_active E on s)"
proof -
  obtain v w where s: "s = (v, w)" by fastforce
  show ?thesis
    using assms clock_props [of E w] by (auto simp: voice_set_call_active_def s vm_ok_def)
qed

lemma vm_exec_ok:
  assumes "symbols_found E" "vm_ok E s" "vm_exec E e s = Some t"
  shows "vm_ok E t"
proof (cases e)
  case (VmCallMode on)
  then show ?thesis using assms(3) call_mode_ok [OF assms(1,2), of on] by auto
qed (use assms(2,3) in \<open>auto simp: settings_vm_ok call_active_ok\<close>)

lemma vm_exec_returns:
  assumes "symbols_found E" "vm_ok E s"
  shows "vm_exec E e s \<noteq> None"
proof (cases e)
  case (VmCallMode on)
  then show ?thesis using call_mode_ok [OF assms, of on] by auto
qed simp_all

lemma vm_steps_ok: "vm_steps E s t \<Longrightarrow> symbols_found E \<Longrightarrow> vm_ok E s \<Longrightarrow> vm_ok E t"
  by (induction rule: vm_steps.induct) (auto intro: vm_exec_ok)

lemma open_settings:
  assumes "SecRilOpen E w = Some (0, w')"
  shows "\<exists>r. ril_instance w' = Some r \<and> call_settings r = (VOLTE_OFF, False)"
proof -
  have loop: "open_loop E n r u = Some (r', u') \<Longrightarrow> call_settings r' = call_settings r" for n r u r' u'
  proof (induction n arbitrary: r u)
    case (Suc n)
    have "call_settings r = call_settings r'" if "open_loop E n (r\<lparr>client := NULL\<rparr>) v = Some (r', u')" for v
      using Suc.IH [OF that] by (simp add: call_settings_def)
    moreover have "call_settings (r\<lparr>client := c\<rparr>) = call_settings r" for c by (simp add: call_settings_def)
    ultimately show ?case
      using Suc.prems by (simp add: ril_syscall_def ril_emit_def Let_def split: if_splits) metis+
  qed simp
  have "call_settings (fst (opened E r u)) = (VOLTE_OFF, False)" for r u
    by (simp add: opened_def ril_syscall_def bind_symbols_def init_intf_def call_settings_def Let_def)
  with loop show ?thesis
    using assms by (auto simp: ril_open_eq Let_def open_err_def split: prod.splits option.splits if_splits)
qed

lemma init_props:
  assumes "voice_init E property ril_start = Some (Some v, w)" "symbols_found E"
  shows "vm_ok E (v, w)" "call_status v = CALL_STATUS_CONNECTED \<Longrightarrow> agree (v, w)"
    "call_status v \<noteq> CALL_STATUS_INVALID \<Longrightarrow> call_status v = CALL_STATUS_CONNECTED"
proof -
  let ?w = "ril_start\<lparr>ril_calls := calloc_voice # ril_calls ril_start\<rparr>"
  have ok: "ril_ok E ?w" "clock_state (ril_calls ?w) = None" by (simp_all add: ril_start_def ril_ok_def)
  obtain ret where o: "SecRilOpen E ?w = Some (ret, w)"
    and v: "call_status v = (if ret = 0 then CALL_STATUS_CONNECTED else CALL_STATUS_INVALID)" "vm_volte_status v = VOLTE_OFF" "vm_hac_mode v = 0"
    using assms(1) by (auto simp: voice_init_def ril_syscall_def Let_def zero_voice_def split: if_splits option.splits)
  note p = open_props [OF o ok(1)]
  show "vm_ok E (v, w)" using p(1,2,5) ok(2) assms(2) v(1) by (auto simp: vm_ok_def)
  show "agree (v, w)" if "call_status v = CALL_STATUS_CONNECTED"
    using open_settings [of E ?w w] o v that by (auto simp: agree_def split: if_splits)
  show "call_status v = CALL_STATUS_CONNECTED" if "call_status v \<noteq> CALL_STATUS_INVALID" using v(1) that by (simp split: if_splits)
qed

text \<open>A manager that is connected stays connected, and its settings stay those of the client.\<close>

definition connected :: "vm_state \<Rightarrow> bool" where
  "connected s \<longleftrightarrow> call_status (fst s) \<noteq> CALL_STATUS_INVALID \<and> agree s"

lemma vm_exec_connected: "connected s \<Longrightarrow> vm_exec E e s = Some t \<Longrightarrow> connected t"
proof (cases e)
  case (VmCallMode on)
  then show "connected s \<Longrightarrow> vm_exec E e s = Some t \<Longrightarrow> connected t"
    by (cases s) (auto simp: connected_def voice_set_call_mode_def agree_def split: if_splits)
next
  case (VmCallActive on)
  then show "connected s \<Longrightarrow> vm_exec E e s = Some t \<Longrightarrow> connected t"
    by (cases s) (auto simp: connected_def voice_set_call_active_def agree_def SecRilSetSoundClkMode_def with_instance_def getInstance_def
        ril_emit_def split: if_splits)
qed (auto simp: connected_def settings_status settings_agree)

lemma vm_steps_connected: "vm_steps E s t \<Longrightarrow> connected s \<Longrightarrow> connected t"
  by (induction rule: vm_steps.induct) (auto intro: vm_exec_connected)

section \<open>Properties\<close>

text \<open>
  C17 (clock_follows_call). From the start of the voice manager on, whatever operations follow in
  whatever order and whatever the modem answers, the last thing the modem was told about its audio
  clock is to turn it on exactly while the call is active; and no operation fails to return. The
  library has the functions that are looked up in it.
\<close>

theorem clock_follows_call:
  assumes "symbols_found E" "voice_init E property ril_start = Some (Some v, w)" "vm_steps E (v, w) (v', w')"
  shows "(clock_state (ril_calls w') = Some VOICE_AUDIO_TURN_ON_I2S \<longleftrightarrow> voice_is_call_active v') \<and> vm_exec E e (v', w') \<noteq> None"
proof -
  have ok: "vm_ok E (v', w')" using vm_steps_ok [OF assms(3,1)] init_props(1) [OF assms(2,1)] by simp
  then show ?thesis using vm_exec_returns [OF assms(1) ok] by (simp add: vm_ok_def voice_is_call_active_def)
qed

text \<open>
  C18 (path_reaches_modem). With a library that has all its functions, in call mode and after any
  operations on a voice manager that was connected when it started, \<open>voice_set_path\<close> sends the modem the path for the device that belongs to the VoLTE
  status and the hearing aid mode of the manager, through the open client, and returns 0; out of
  call mode it returns -1 and sends nothing.
\<close>

theorem path_reaches_modem:
  assumes "symbols_found E"
    and "voice_init E property ril_start = Some (Some v, w)" "call_status v = CALL_STATUS_CONNECTED"
    and "vm_steps E (v, w) (v', w')"
  shows "if voice_is_call_mode v'
    then \<exists>r w''. voice_set_path E d (v', w') = (0, v'\<lparr>out_device := d\<rparr>, w'') \<and>
      ril_instance w' = Some r \<and> volte_status r = vm_volte_status v' \<and> (hac_mode r \<longleftrightarrow> vm_hac_mode v' = HAC_MODE_ON) \<and>
      ril_calls w'' = SetCallAudioPath (client r) (map_incall_device r d) # ril_calls w' \<and>
      client r \<in> open_clients E (ril_calls w')
    else voice_set_path E d (v', w') = (-1, v', w')"
proof -
  have ok: "vm_ok E (v', w')" using vm_steps_ok [OF assms(4,1)] init_props(1) [OF assms(2,1)] by simp
  have "connected (v, w)" using init_props(2) [OF assms(2,1,3)] assms(3) by (simp add: connected_def)
  then have "connected (v', w')" using vm_steps_connected [OF assms(4)] by simp
  then obtain r where r: "ril_instance w' = Some r" "volte_status r = vm_volte_status v'" "hac_mode r \<longleftrightarrow> vm_hac_mode v' = HAC_MODE_ON"
    and st: "call_status v' \<noteq> CALL_STATUS_INVALID"
    by (auto simp: connected_def agree_def call_settings_def)
  have "client r \<noteq> NULL" "ril_set_audio_path r \<noteq> NULL" "client r \<in> open_clients E (ril_calls w')"
    using ok r(1) st by (auto simp: vm_ok_def modem_link_def ril_ok_def instance_ok_def)
  then show ?thesis
    using r by (simp add: voice_set_path_def SecRilSetVoicePath_def getInstance_def ril_syscall_def Let_def)
qed

text \<open>
  C31 (volte_lost_on_reconnect). The VoLTE status is lost when the client is connected late: if the
  connection failed when the manager started and a VoLTE call begins, the retry of \<open>SecRilOpen\<close> in
  \<open>voice_set_call_mode\<close> resets the status in the client, while the manager keeps it; the modem is then
  asked for the path of a circuit switched call.
\<close>

theorem volte_lost_on_reconnect:
  assumes "call_status v = CALL_STATUS_INVALID"
    and "snd (voice_set_parameters E N None [AUDIO_PARAMETER_VOLTE_STATUS \<mapsto> ''voice''] (v, w)) = (v1, w1)"
    and "voice_set_call_mode E True (v1, w1) = Some (0, v2, w2)"
  shows "voice_is_call_mode v2 \<and> voice_get_volte_status v2 = VOLTE_VOICE \<and>
    (\<exists>r. ril_instance w2 = Some r \<and> volte_status r = VOLTE_OFF \<and>
      map_incall_device r AUDIO_DEVICE_OUT_SPEAKER = SOUND_AUDIO_PATH_SPEAKRERPHONE)"
proof -
  have v1: "call_status v1 = CALL_STATUS_INVALID" "vm_volte_status v1 = VOLTE_VOICE"
    using assms(1,2) vm_parameters.status [of E N None "[AUDIO_PARAMETER_VOLTE_STATUS \<mapsto> ''voice'']" "(v, w)"]
      voice_set_parameters_volte [of E N None "[AUDIO_PARAMETER_VOLTE_STATUS \<mapsto> ''voice'']" "(v, w)"] by simp_all
  then obtain ret where o: "SecRilOpen E w1 = Some (ret, w2)" "ret = 0" "v2 = v1\<lparr>call_status := CALL_STATUS_INCALLMODE\<rparr>"
    using assms(3) by (auto simp: voice_set_call_mode_def split: option.splits if_splits)
  then obtain r where "ril_instance w2 = Some r" "call_settings r = (VOLTE_OFF, False)" using open_settings by blast
  then show ?thesis
    using v1 o by (auto simp: voice_is_call_mode_def voice_get_volte_status_def call_settings_def map_incall_device_def)
qed

text \<open>A modem that always answers.\<close>

definition ready_modem :: ril_env where
  "ready_modem = \<lparr>ril_sys = \<lambda>cs c. 1\<rparr>"

lemma ready_modem_open: "\<exists>r w'. SecRilOpen ready_modem w = Some (0, w') \<and> ril_instance w' = Some r"
  by (auto simp: SecRilOpen_def getInstance_def ril_syscall_def ready_modem_def bind_symbols_def numeral_eq_Suc Let_def split: option.split)

lemma ready_modem_symbols: "symbols_found ready_modem"
  by (simp add: symbols_found_def ready_modem_def)

lemma ready_modem_init: "\<exists>v w. voice_init ready_modem ''5'' ril_start = Some (Some v, w) \<and> call_status v = CALL_STATUS_CONNECTED"
  using ready_modem_open [of "snd (ril_syscall ready_modem calloc_voice ril_start)"]
  by (auto simp: voice_init_def ril_syscall_def Let_def) (auto simp: ready_modem_def)

theorem clock_follows_call_witness:
  "\<exists>v w. voice_init ready_modem ''5'' ril_start = Some (Some v, w) \<and>
     (clock_state (ril_calls w) = Some VOICE_AUDIO_TURN_ON_I2S \<longleftrightarrow> voice_is_call_active v) \<and>
     vm_exec ready_modem (VmCallMode True) (v, w) \<noteq> None"
  using ready_modem_init clock_follows_call [OF ready_modem_symbols _ vm_steps_refl] by blast

theorem path_reaches_modem_witness:
  "\<exists>v w w'. voice_init ready_modem ''5'' ril_start = Some (Some v, w) \<and>
     voice_set_path ready_modem AUDIO_DEVICE_OUT_SPEAKER (v\<lparr>call_status := CALL_STATUS_INCALLMODE\<rparr>, w) =
       (0, v\<lparr>call_status := CALL_STATUS_INCALLMODE, out_device := AUDIO_DEVICE_OUT_SPEAKER\<rparr>, w')"
proof -
  obtain v w where i: "voice_init ready_modem ''5'' ril_start = Some (Some v, w)" "call_status v = CALL_STATUS_CONNECTED"
    using ready_modem_init by blast
  have "vm_exec ready_modem (VmCallMode True) (v, w) = Some (v\<lparr>call_status := CALL_STATUS_INCALLMODE\<rparr>, w)"
    by (simp add: voice_set_call_mode_def i(2))
  from path_reaches_modem [OF ready_modem_symbols i vm_steps_step [OF vm_steps_refl this], of AUDIO_DEVICE_OUT_SPEAKER] i(1)
  show ?thesis by (auto simp: voice_is_call_mode_def)
qed

definition some_names :: parm_names where
  "some_names = \<lparr>AUDIO_PARAMETER_KEY_BT_NREC = ''nrec'', AUDIO_PARAMETER_KEY_BT_SCO_WB = ''wb'', AUDIO_PARAMETER_KEY_TTY_MODE = ''tty'',
     AUDIO_PARAMETER_KEY_HAC = ''hac'', AUDIO_PARAMETER_VALUE_ON = ''on'', AUDIO_PARAMETER_VALUE_OFF = ''off'',
     AUDIO_PARAMETER_VALUE_TTY_OFF = ''off'', AUDIO_PARAMETER_VALUE_TTY_VCO = ''vco'', AUDIO_PARAMETER_VALUE_TTY_HCO = ''hco'',
     AUDIO_PARAMETER_VALUE_TTY_FULL = ''full'', AUDIO_PARAMETER_VALUE_HAC_ON = ''ON'', AUDIO_PARAMETER_VALUE_HAC_OFF = ''OFF''\<rparr>"

theorem volte_lost_on_reconnect_witness:
  "\<exists>v2 w2 r. voice_set_call_mode ready_modem True
     (snd (voice_set_parameters ready_modem some_names None [AUDIO_PARAMETER_VOLTE_STATUS \<mapsto> ''voice''] (zero_voice, ril_start))) = Some (0, v2, w2) \<and>
   voice_get_volte_status v2 = VOLTE_VOICE \<and> ril_instance w2 = Some r \<and> volte_status r = VOLTE_OFF"
proof -
  let ?p = "[AUDIO_PARAMETER_VOLTE_STATUS \<mapsto> ''voice'']"
  obtain v1 w1 where p: "snd (voice_set_parameters ready_modem some_names None ?p (zero_voice, ril_start)) = (v1, w1)" by fastforce
  have z: "call_status zero_voice = CALL_STATUS_INVALID" by (simp add: zero_voice_def)
  then have "call_status v1 = CALL_STATUS_INVALID"
    using vm_parameters.status [of ready_modem some_names None ?p "(zero_voice, ril_start)"] p by simp
  then obtain v2 w2 where m: "voice_set_call_mode ready_modem True (v1, w1) = Some (0, v2, w2)"
    using ready_modem_open [of w1] by (auto simp: voice_set_call_mode_def)
  from volte_lost_on_reconnect [OF z p m] m p show ?thesis by auto
qed

end
