(* ===== verification/Cp_Loopback.thy ===== *)
theory Cp_Loopback
  imports Exynos_Prelude "HOL-Library.Monad_Syntax"
begin

text \<open>
  The modem loopback daemon, \<open>cpboot_v3/lb_main.c\<close>: it parses its arguments, then over and over
  opens the loopback node and runs two threads, a sender that sends a packet to the modem, sets an
  alarm of the real time clock and sleeps, and a reader that answers the packets of the modem and
  notes the acknowledged sequence numbers. The threads share the arguments. A thread is a program
  counter with one step per turn of its loop; the step of the sender that waits for the alarm is
  separate, because the reader runs meanwhile. The kernel is an environment: the result of a call
  may depend on all calls made before, and every call is recorded in a log. The result \<open>None\<close> of a
  step is a call that is interrupted forever.
\<close>

section \<open>State\<close>

abbreviation (input) DEFAULT_PKT_SIZE :: int where "DEFAULT_PKT_SIZE \<equiv> 438"
abbreviation (input) DEFAULT_INT_SEC :: int where "DEFAULT_INT_SEC \<equiv> 5"
abbreviation (input) DEFAULT_DUR_SEC :: int where "DEFAULT_DUR_SEC \<equiv> 60"
abbreviation (input) STATE_ONLINE :: int where "STATE_ONLINE \<equiv> 4"

datatype rw_lock = READ_LOCK | WRITE_LOCK

text \<open>The fields of \<open>rtc_time\<close> the daemon computes with; the date is passed on unchanged.\<close>

record rtc_time =
  tm_sec :: int
  tm_min :: int
  tm_hour :: int

text \<open>
  What is written to the loopback node: the start packet with size and interval, the stop packet,
  a packet of the sender with its size, header length and sequence number, an answer of the reader.
\<close>

datatype packet = lb_start int int | lb_stop | lb_data int u16 u8 | lb_answer "u8 list"

text \<open>Calls that leave the daemon. A file descriptor is an int; \<open>select_fd\<close> says whether the node is in the set.\<close>

datatype cld_call =
    open_node | close_fd int | modem_status int | force_crash_exit int
  | wake_open bool rw_lock | wake_write bool rw_lock
  | open_rtc | RTC_RD_TIME int | RTC_ALM_SET int rtc_time | RTC_AIE_ON int | RTC_AIE_OFF int | read_alarm int
  | get_cp_reset | rand_call | malloc_call int
  | select_fd bool int | read_node int int | write_node int packet
  | create_rx | create_tx

record cld_env =
  cld_sys :: "cld_call list \<Rightarrow> cld_call \<Rightarrow> int"
  cld_eintr :: "cld_call list \<Rightarrow> cld_call \<Rightarrow> bool"
  cld_rtc :: "cld_call list \<Rightarrow> rtc_time"
  cld_data :: "cld_call list \<Rightarrow> nat \<Rightarrow> u8"
  cld_heap :: "nat \<Rightarrow> u8"

text \<open>\<open>AP_INIT_LB\<close> and \<open>CP_INIT_LB\<close> of \<open>mode\<close> are the bits 0 and 1.\<close>

record lb_args =
  fd :: int
  mode :: u32
  tx_seq :: u8
  rx_seq :: u8
  tx_interval :: int
  tx_packet :: int
  rx_interval :: int
  rx_packet :: int
  duration :: int
  forever :: bool
  tx_range :: int
  rx_range :: int
  alarm_fd :: int

record cld_world =
  lb :: lb_args
  rtc_temp :: rtc_time
  cld_calls :: "cld_call list"

definition ap_mode :: "lb_args \<Rightarrow> bool" where
  "ap_mode a \<longleftrightarrow> bit (mode a) 0"

definition cp_mode :: "lb_args \<Rightarrow> bool" where
  "cp_mode a \<longleftrightarrow> bit (mode a) 1"

definition cld_syscall :: "cld_env \<Rightarrow> cld_call \<Rightarrow> cld_world \<Rightarrow> int \<times> cld_world" where
  "cld_syscall E c w = (cld_sys E (cld_calls w) c, w\<lparr>cld_calls := c # cld_calls w\<rparr>)"

definition cld_emit :: "cld_call \<Rightarrow> cld_world \<Rightarrow> cld_world" where
  "cld_emit c w = w\<lparr>cld_calls := c # cld_calls w\<rparr>"

definition on_lb :: "(lb_args \<Rightarrow> lb_args) \<Rightarrow> cld_world \<Rightarrow> cld_world" where
  "on_lb f w = w\<lparr>lb := f (lb w)\<rparr>"

text \<open>A \<open>long\<close> stored in an \<open>int\<close>, and an \<open>unsigned long\<close> stored in a \<open>long\<close>.\<close>

definition to_int :: "int \<Rightarrow> int" where
  "to_int n = (n + 2 ^ 31) mod 2 ^ 32 - 2 ^ 31"

definition to_long :: "int \<Rightarrow> int" where
  "to_long n = (n + 2 ^ 63) mod 2 ^ 64 - 2 ^ 63"

section \<open>Locks and alarms\<close>

definition cld_wake_lock :: "cld_env \<Rightarrow> bool \<Rightarrow> rw_lock \<Rightarrow> cld_world \<Rightarrow> cld_world" where
  "cld_wake_lock E on lock w =
     (let (f, w) = cld_syscall E (wake_open on lock) w in
      if f < 0 then w else cld_emit (close_fd f) (cld_emit (wake_write on lock) w))"

text \<open>The conversion of an interval in seconds to a time of day.\<close>

definition interval_rtc :: "int \<Rightarrow> rtc_time" where
  "interval_rtc n =
     (let s = to_int n;
          (m, s) = (if 60 \<le> s then (s div 60, s mod 60) else (0, s));
          (h, m) = (if 60 \<le> m then (m div 60, m mod 60) else (0, m));
          h = (if 24 \<le> h then h mod 24 else h)
      in \<lparr>tm_sec = s, tm_min = m, tm_hour = h\<rparr>)"

definition rtc_add :: "rtc_time \<Rightarrow> rtc_time \<Rightarrow> rtc_time" where
  "rtc_add now t =
     (let s = tm_sec now + tm_sec t; m = tm_min now + tm_min t; h = tm_hour now + tm_hour t;
          (s, m) = (if 60 \<le> s then (s mod 60, m + 1) else (s, m));
          (m, h) = (if 60 \<le> m then (m mod 60, h + 1) else (m, h));
          h = (if h = 24 then 0 else h)
      in \<lparr>tm_sec = s, tm_min = m, tm_hour = h\<rparr>)"

text \<open>A call that is repeated while it is interrupted.\<close>

partial_function (option) retry :: "cld_env \<Rightarrow> cld_call \<Rightarrow> cld_world \<Rightarrow> (int \<times> cld_world) option" where
  "retry E c w =
     (let (ret, w') = cld_syscall E c w in
      if ret < 0 \<and> cld_eintr E (cld_calls w) c then retry E c w' else Some (ret, w'))"

definition alarm_failed :: "int \<Rightarrow> cld_world \<Rightarrow> int \<times> cld_world" where
  "alarm_failed ret w = (ret, on_lb (\<lambda>a. a\<lparr>alarm_fd := -1\<rparr>) (cld_emit (close_fd (alarm_fd (lb w))) w))"

text \<open>The clock is opened when it is not open, and the interval is kept.\<close>

definition open_alarm :: "cld_env \<Rightarrow> cld_world \<Rightarrow> cld_world" where
  "open_alarm E w =
     (if alarm_fd (lb w) < 0 then
        (let (f, w) = cld_syscall E open_rtc w
         in (on_lb (\<lambda>a. a\<lparr>alarm_fd := f\<rparr>) w)\<lparr>rtc_temp := interval_rtc (tx_interval (lb w))\<rparr>)
      else w)"

definition set_alarm :: "cld_env \<Rightarrow> cld_world \<Rightarrow> (int \<times> cld_world) option" where
  "set_alarm E w =
     (let w = open_alarm E w;
          f = alarm_fd (lb w)
      in if f < 0 then Some (f, w)
         else do {
           (ret, w) \<leftarrow> retry E (RTC_RD_TIME f) w;
           if ret < 0 then Some (alarm_failed ret w)
           else do {
             let rtc = cld_rtc E (cld_calls w);
             let w = (if tx_range (lb w) \<noteq> 0 then w\<lparr>rtc_temp := interval_rtc (tx_interval (lb w))\<rparr> else w);
             (ret, w) \<leftarrow> retry E (RTC_ALM_SET f (rtc_add rtc (rtc_temp w))) w;
             if ret < 0 then Some (alarm_failed ret w)
             else do {
               (ret, w) \<leftarrow> retry E (RTC_AIE_ON f) w;
               if ret < 0 then Some (alarm_failed ret w) else Some (ret, w)
             }
           }
         })"

definition unset_alarm :: "cld_env \<Rightarrow> cld_world \<Rightarrow> cld_world option" where
  "unset_alarm E w =
     (if 0 \<le> alarm_fd (lb w) then do {
        (ret, w) \<leftarrow> retry E (RTC_AIE_OFF (alarm_fd (lb w))) w;
        Some (on_lb (\<lambda>a. a\<lparr>alarm_fd := -1\<rparr>) (cld_emit (close_fd (alarm_fd (lb w))) w))
      } else Some w)"

partial_function (option) wait_for_alarm :: "cld_env \<Rightarrow> cld_world \<Rightarrow> (int \<times> cld_world) option" where
  "wait_for_alarm E w =
     (let w = cld_wake_lock E False WRITE_LOCK w;
          eintr = cld_eintr E (cld_calls w) (read_alarm (alarm_fd (lb w)));
          (result, w) = cld_syscall E (read_alarm (alarm_fd (lb w))) w;
          w = cld_wake_lock E True WRITE_LOCK w
      in if result < 0 \<and> eintr then wait_for_alarm E w else Some (result, w))"

definition set_and_wait_for_alarm :: "cld_env \<Rightarrow> cld_world \<Rightarrow> cld_world option" where
  "set_and_wait_for_alarm E w = do {
     (ret, w) \<leftarrow> set_alarm E w;
     if ret < 0 then Some (on_lb (\<lambda>a. a\<lparr>duration := 0\<rparr>) w)
     else do {
       (ret, w) \<leftarrow> wait_for_alarm E w;
       Some (if ret < 0 then on_lb (\<lambda>a. a\<lparr>duration := 0\<rparr>) w else w)
     }
   }"

section \<open>The reader\<close>

text \<open>
  \<open>rand\<close> is not negative, so that its C remainder is the remainder by the absolute value.
  The reader keeps the size of its buffer, the timeout of \<open>select\<close>, the last reset count of the modem,
  whether the node is in the set of file descriptors (\<open>select\<close> takes it out on a timeout), and the
  buffer; inside a packet also the number of bytes received. \<open>R_overflow\<close> is an access outside of
  the buffer.
\<close>

record reader =
  alloc_size :: int
  timeout_sec :: int
  rst_old :: int
  rfds :: bool
  buff :: "nat \<Rightarrow> u8"

datatype reader_pc = R_start | R_loop reader | R_retry reader nat | R_exit | R_done | R_overflow

definition hdr_len :: "(nat \<Rightarrow> u8) \<Rightarrow> nat" where
  "hdr_len b = unat (b 0) + 256 * unat (b 1)"

definition reader_start :: "cld_env \<Rightarrow> cld_world \<Rightarrow> reader_pc \<times> cld_world" where
  "reader_start E w =
     (let n = max (tx_packet (lb w)) (rx_packet (lb w));
          (p, w) = cld_syscall E (malloc_call n) w
      in if p = 0 then (R_exit, w)
         else (let t = 2;
                   t = (if ap_mode (lb w) \<and> t < tx_interval (lb w) then tx_interval (lb w) else t);
                   t = (if cp_mode (lb w) \<and> t < \<bar>rx_interval (lb w)\<bar> then \<bar>rx_interval (lb w)\<bar> else t);
                   (rst, w) = cld_syscall E get_cp_reset w
               in (R_loop \<lparr>alloc_size = n, timeout_sec = t, rst_old = rst, rfds = True, buff = cld_heap E\<rparr>, w)))"

text \<open>The bytes of a read are stored from the offset on.\<close>

definition store :: "nat \<Rightarrow> nat \<Rightarrow> (nat \<Rightarrow> u8) \<Rightarrow> (nat \<Rightarrow> u8) \<Rightarrow> nat \<Rightarrow> u8" where
  "store off n d b = (\<lambda>i. if off \<le> i \<and> i < off + n then d (i - off) else b i)"

definition handle_packet :: "cld_env \<Rightarrow> reader \<Rightarrow> cld_world \<Rightarrow> reader_pc \<times> cld_world" where
  "handle_packet E r w =
     (if alloc_size r < 5 then (R_overflow, w)
      else if buff r 4 = 0x90 then
        (let (ret, w) = cld_syscall E (write_node (fd (lb w)) (lb_answer (map (buff r) [0..<hdr_len (buff r)]))) w in
         if ret < 0 then (R_exit, w)
         else if \<not> forever (lb w) \<and> \<not> ap_mode (lb w) then
           (let w = (if rx_range (lb w) \<noteq> 0 then
                       (let (x, w) = cld_syscall E rand_call w
                        in on_lb (\<lambda>a. a\<lparr>rx_interval := x mod \<bar>rx_range a\<bar> + 1\<rparr>) w)
                     else w)
            in (R_loop r, on_lb (\<lambda>a. a\<lparr>duration := duration a - rx_interval a\<rparr>) w))
         else (R_loop r, w))
      else if buff r 4 = 0x91 then (R_loop r, on_lb (\<lambda>a. a\<lparr>rx_seq := buff r 2\<rparr>) w)
      else (R_exit, w))"

definition reader_retry :: "cld_env \<Rightarrow> reader \<Rightarrow> nat \<Rightarrow> cld_world \<Rightarrow> reader_pc \<times> cld_world" where
  "reader_retry E r recved w =
     (let (rst_cur, w) = cld_syscall E get_cp_reset w in
      if rst_cur \<noteq> rst_old r then (R_exit, w)
      else
        (let w = cld_wake_lock E False READ_LOCK w;
             (ret, w) = cld_syscall E (select_fd (rfds r) (2 * timeout_sec r)) w;
             w = cld_wake_lock E True READ_LOCK w
         in if ret < 0 then (R_exit, w)
            else if ret = 0 then (R_loop (r\<lparr>rfds := False\<rparr>), w)
            else
              (let (ret, w) = cld_syscall E (modem_status (fd (lb w))) w in
               if ret < 0 \<or> ret \<noteq> STATE_ONLINE then (R_exit, w)
               else
                 (let d = cld_data E (cld_calls w);
                      (ret, w) = cld_syscall E (read_node (fd (lb w)) (alloc_size r)) w
                  in if ret < 0 then (R_exit, w)
                     else if alloc_size r < int recved + ret then (R_overflow, w)
                     else if alloc_size r < 2 then (R_overflow, w)
                     else
                       (let r = r\<lparr>buff := store recved (nat ret) d (buff r)\<rparr>;
                            recved = add32 recved (nat ret)
                        in if recved \<noteq> hdr_len (buff r) then (R_retry r recved, w) else handle_packet E r w)))))"

definition reader_step :: "cld_env \<Rightarrow> reader_pc \<Rightarrow> cld_world \<Rightarrow> reader_pc \<times> cld_world" where
  "reader_step E pc w =
     (case pc of
        R_start \<Rightarrow> reader_start E w
      | R_loop r \<Rightarrow> if forever (lb w) \<or> 0 < duration (lb w) then reader_retry E r 0 w else (R_exit, w)
      | R_retry r recved \<Rightarrow> reader_retry E r recved w
      | R_exit \<Rightarrow>
          (let w = on_lb (\<lambda>a. a\<lparr>duration := 0\<rparr>) w
           in (R_done, if cp_mode (lb w) then cld_emit (write_node (fd (lb w)) lb_stop) w else w))
      | R_done \<Rightarrow> (R_done, w)
      | R_overflow \<Rightarrow> (R_overflow, w))"

section \<open>The sender\<close>

definition seq_diff :: "int \<Rightarrow> int \<Rightarrow> int" where
  "seq_diff a b = (if b \<le> a then a - b else a + (0xFF - b))"

text \<open>
  The sender keeps the last reset count of the modem. Of the variable \<open>ret\<close> only the sign is used at
  the label \<open>exit\<close>; \<open>S_upload\<close> is the sleep until the modem is uploaded.
\<close>

datatype sender_pc = S_start | S_loop int | S_wait int | S_exit int | S_join | S_done | S_upload | S_overflow

definition sender_start :: "cld_env \<Rightarrow> cld_world \<Rightarrow> sender_pc \<times> cld_world" where
  "sender_start E w =
     (let (ret, w) =
        (if cp_mode (lb w) then
           (let pkt = lb_start (rx_packet (lb w)) (rx_interval (lb w));
                w = (if rx_interval (lb w) < 0 then
                       on_lb (\<lambda>a. a\<lparr>rx_range := to_int \<bar>rx_interval a\<bar>, rx_interval := \<bar>rx_interval a\<bar>\<rparr>) w
                     else w)
            in cld_syscall E (write_node (fd (lb w)) pkt) w)
         else (0, w))
      in if ret < 0 then (S_exit ret, w)
         else if ap_mode (lb w) then
           (let (p, w) = cld_syscall E (malloc_call (tx_packet (lb w))) w in
            if p = 0 then (S_exit (-1), w)
            else if tx_packet (lb w) < 5 then (S_overflow, w)
            else (let (rst, w) = cld_syscall E get_cp_reset (on_lb (\<lambda>a. a\<lparr>alarm_fd := -1\<rparr>) w) in (S_loop rst, w)))
         else (S_exit ret, w))"

definition sender_round :: "cld_env \<Rightarrow> int \<Rightarrow> cld_world \<Rightarrow> sender_pc \<times> cld_world" where
  "sender_round E rst w =
     (let (rst_cur, w) = cld_syscall E get_cp_reset w in
      if rst_cur \<noteq> rst then (S_exit (-1), w)
      else if 2 < seq_diff (uint (tx_seq (lb w))) (uint (rx_seq (lb w))) then
        (let (ret, w) = cld_syscall E (force_crash_exit (fd (lb w))) w
         in if ret < 0 then (S_exit ret, w) else (S_upload, w))
      else
        (let (ret, w) = cld_syscall E (modem_status (fd (lb w))) w in
         if ret < 0 then (S_exit ret, w)
         else if ret \<noteq> STATE_ONLINE then (S_exit (-1), w)
         else
           (let (ret, w) = cld_syscall E (write_node (fd (lb w))
                  (lb_data (tx_packet (lb w)) (word_of_int (tx_packet (lb w))) (tx_seq (lb w)))) w
            in if ret < 0 then (S_exit ret, w)
               else (let w = on_lb (\<lambda>a. a\<lparr>tx_seq := tx_seq a + 1\<rparr>) w;
                         w = (if tx_range (lb w) \<noteq> 0 then
                                (let (x, w) = cld_syscall E rand_call w
                                 in on_lb (\<lambda>a. a\<lparr>tx_interval := x mod \<bar>tx_range a\<bar> + 1\<rparr>) w)
                              else w)
                     in (S_wait rst_cur, w)))))"

text \<open>\<open>joined\<close> says that the reader has ended.\<close>

definition sender_step :: "cld_env \<Rightarrow> bool \<Rightarrow> sender_pc \<Rightarrow> cld_world \<Rightarrow> (sender_pc \<times> cld_world) option" where
  "sender_step E joined pc w =
     (case pc of
        S_start \<Rightarrow> Some (sender_start E w)
      | S_loop rst \<Rightarrow> Some (if forever (lb w) \<or> 0 < duration (lb w) then sender_round E rst w else (S_exit 0, w))
      | S_wait rst \<Rightarrow> do {
          w \<leftarrow> set_and_wait_for_alarm E w;
          Some (S_loop rst, if forever (lb w) then w else on_lb (\<lambda>a. a\<lparr>duration := duration a - tx_interval a\<rparr>) w)
        }
      | S_exit ret \<Rightarrow> do {
          let w = (if ret < 0 then on_lb (\<lambda>a. a\<lparr>duration := 0\<rparr>) w else w);
          if ap_mode (lb w) then map_option (\<lambda>w. (S_join, w)) (unset_alarm E w) else Some (S_done, w)
        }
      | S_join \<Rightarrow> Some (if joined then S_done else S_join, w)
      | _ \<Rightarrow> Some (pc, w))"

section \<open>Arguments\<close>

text \<open>
  \<open>strtoul\<close> with base 10: white space, a sign, digits. The result is the value, whether the whole
  string was read, and whether the value was in range; a negative number is negated modulo \<open>2 ^ 64\<close>.
\<close>

definition is_space :: "char \<Rightarrow> bool" where
  "is_space c \<longleftrightarrow> of_char c = (32 :: nat) \<or> 9 \<le> (of_char c :: nat) \<and> (of_char c :: nat) \<le> 13"

definition is_digit :: "char \<Rightarrow> bool" where
  "is_digit c \<longleftrightarrow> 48 \<le> (of_char c :: nat) \<and> (of_char c :: nat) \<le> 57"

definition digits_value :: "string \<Rightarrow> int" where
  "digits_value ds = foldl (\<lambda>n c. 10 * n + (of_char c - 48)) 0 ds"

definition strtoul :: "string \<Rightarrow> int \<times> bool \<times> bool" where
  "strtoul s =
     (let t = dropWhile is_space s;
          (neg, t) = (case t of c # cs \<Rightarrow> if c = CHR ''-'' then (True, cs) else if c = CHR ''+'' then (False, cs) else (False, t)
                      | [] \<Rightarrow> (False, t));
          ds = takeWhile is_digit t; rest = dropWhile is_digit t; n = digits_value ds
      in if ds = [] then (0, s = [], True)
         else if 2 ^ 64 \<le> n then (2 ^ 64 - 1, rest = [], False)
         else (if neg then (- n) mod 2 ^ 64 else n, rest = [], True))"

definition arg_value :: "int \<Rightarrow> string option \<Rightarrow> int" where
  "arg_value dflt optarg =
     (case optarg of
        None \<Rightarrow> dflt
      | Some s \<Rightarrow> (let (p_val, whole, in_range) = strtoul s in if \<not> whole \<or> \<not> in_range \<or> p_val = 0 then dflt else p_val))"

text \<open>
  The options as \<open>getopt\<close> delivers them, with their arguments; any other character is the \<open>?\<close> of an
  unknown option, which the code skips. The local variable \<open>mode\<close> is the mode chosen last.
\<close>

datatype last_mode = No_mode | AP_INIT_LB | CP_INIT_LB

fun get_opts :: "(char \<times> string option) list \<Rightarrow> last_mode \<Rightarrow> lb_args \<Rightarrow> (last_mode \<times> lb_args) option" where
  "get_opts [] m a = Some (m, a)"
| "get_opts ((opt, optarg) # opts) m a =
     (if opt = CHR ''h'' then None
      else if opt = CHR ''r'' then
        get_opts opts CP_INIT_LB (a\<lparr>mode := mode a OR 2, rx_packet := DEFAULT_PKT_SIZE, rx_interval := DEFAULT_INT_SEC,
          duration := DEFAULT_DUR_SEC\<rparr>)
      else if opt = CHR ''s'' then
        get_opts opts AP_INIT_LB (a\<lparr>mode := mode a OR 1, tx_packet := DEFAULT_PKT_SIZE, tx_interval := DEFAULT_INT_SEC,
          duration := DEFAULT_DUR_SEC\<rparr>)
      else if opt = CHR ''t'' then
        (let p_val = arg_value DEFAULT_INT_SEC optarg in
         case m of
           AP_INIT_LB \<Rightarrow> get_opts opts m (a\<lparr>tx_interval := to_long p_val\<rparr>)
         | CP_INIT_LB \<Rightarrow> get_opts opts m (a\<lparr>rx_interval := to_long p_val\<rparr>)
         | No_mode \<Rightarrow> None)
      else if opt = CHR ''p'' then
        (let p_val = arg_value DEFAULT_PKT_SIZE optarg in
         case m of
           AP_INIT_LB \<Rightarrow> get_opts opts m (a\<lparr>tx_packet := p_val\<rparr>)
         | CP_INIT_LB \<Rightarrow> get_opts opts m (a\<lparr>rx_packet := p_val\<rparr>)
         | No_mode \<Rightarrow> None)
      else if opt = CHR ''d'' then
        (let d = to_long (arg_value DEFAULT_DUR_SEC optarg)
         in get_opts opts m (a\<lparr>duration := d, forever := (d < 0 \<or> forever a)\<rparr>))
      else get_opts opts m a)"

definition get_cld_args :: "(char \<times> string option) list \<Rightarrow> lb_args \<Rightarrow> lb_args option" where
  "get_cld_args opts a =
     (case get_opts opts No_mode a of
        None \<Rightarrow> None
      | Some (m, a) \<Rightarrow>
          (let a = (if m = No_mode then
                      a\<lparr>mode := 1, tx_packet := DEFAULT_PKT_SIZE, tx_interval := DEFAULT_INT_SEC, duration := DEFAULT_DUR_SEC\<rparr>
                    else a)
           in Some (if tx_interval a < 0 then a\<lparr>tx_range := to_int \<bar>tx_interval a\<bar>, tx_interval := \<bar>tx_interval a\<bar>\<rparr> else a)))"

section \<open>The daemon\<close>

text \<open>
  The main thread, all reader threads it ever created, latest last, and the latest sender. The main
  thread creates a reader and a sender, joins the sender and starts over.
\<close>

datatype main_pc = M_open | M_wait | M_create_rx | M_create_tx | M_join | M_end

record daemon =
  main_thread :: main_pc
  readers :: "reader_pc list"
  sender :: sender_pc
  world :: cld_world

definition zero_args :: lb_args where
  "zero_args = \<lparr>fd = 0, mode = 0, tx_seq = 0, rx_seq = 0, tx_interval = 0, tx_packet = 0, rx_interval = 0, rx_packet = 0,
     duration = 0, forever = False, tx_range = 0, rx_range = 0, alarm_fd = 0\<rparr>"

definition cld_start :: "(char \<times> string option) list \<Rightarrow> daemon option" where
  "cld_start opts =
     map_option (\<lambda>a. \<lparr>main_thread = M_open, readers = [], sender = S_done,
       world = \<lparr>lb = a, rtc_temp = \<lparr>tm_sec = 0, tm_min = 0, tm_hour = 0\<rparr>, cld_calls = []\<rparr>\<rparr>) (get_cld_args opts zero_args)"

definition main_exit :: "cld_env \<Rightarrow> cld_world \<Rightarrow> cld_world" where
  "main_exit E w = cld_wake_lock E False READ_LOCK (if 0 \<le> fd (lb w) then cld_emit (close_fd (fd (lb w))) w else w)"

definition main_step :: "cld_env \<Rightarrow> daemon \<Rightarrow> daemon option" where
  "main_step E d =
     (let w = world d in
      case main_thread d of
        M_open \<Rightarrow>
          (let (f, w) = cld_syscall E open_node w; w = on_lb (\<lambda>a. a\<lparr>fd := f\<rparr>) w in
           if f < 0 then Some (d\<lparr>main_thread := M_end, world := w\<rparr>)
           else (let w = cld_wake_lock E True WRITE_LOCK (cld_wake_lock E True READ_LOCK w)
                 in Some (d\<lparr>main_thread := M_wait, world := on_lb (\<lambda>a. a\<lparr>tx_seq := 0, rx_seq := 0\<rparr>) w\<rparr>)))
      | M_wait \<Rightarrow>
          (let (ret, w) = cld_syscall E (modem_status (fd (lb w))) w
           in Some (d\<lparr>main_thread := (if ret = STATE_ONLINE then M_create_rx else M_wait), world := w\<rparr>))
      | M_create_rx \<Rightarrow>
          (let (ret, w) = cld_syscall E create_rx w in
           if ret \<noteq> 0 then Some (d\<lparr>main_thread := M_end, world := main_exit E w\<rparr>)
           else Some (d\<lparr>main_thread := M_create_tx, readers := readers d @ [R_start], world := w\<rparr>))
      | M_create_tx \<Rightarrow>
          (let (ret, w) = cld_syscall E create_tx w in
           if ret \<noteq> 0 then Some (d\<lparr>main_thread := M_end, world := main_exit E (cld_wake_lock E False WRITE_LOCK w)\<rparr>)
           else Some (d\<lparr>main_thread := M_join, sender := S_start, world := w\<rparr>))
      | M_join \<Rightarrow>
          (if sender d = S_done then do {
             w \<leftarrow> unset_alarm E (cld_wake_lock E False WRITE_LOCK w);
             Some (d\<lparr>main_thread := M_open, world := cld_emit (close_fd (fd (lb w))) w\<rparr>)
           } else Some d)
      | M_end \<Rightarrow> Some d)"

text \<open>The threads run until the process ends.\<close>

inductive cld_step :: "cld_env \<Rightarrow> daemon \<Rightarrow> daemon \<Rightarrow> bool" for E where
  main: "main_step E d = Some d' \<Longrightarrow> cld_step E d d'"
| reader: "main_thread d \<noteq> M_end \<Longrightarrow> i < length (readers d) \<Longrightarrow> reader_step E (readers d ! i) (world d) = (pc, w) \<Longrightarrow>
    cld_step E d (d\<lparr>readers := (readers d)[i := pc], world := w\<rparr>)"
| sender: "main_thread d \<noteq> M_end \<Longrightarrow>
    sender_step E (readers d \<noteq> [] \<and> last (readers d) = R_done) (sender d) (world d) = Some (pc, w) \<Longrightarrow>
    cld_step E d (d\<lparr>sender := pc, world := w\<rparr>)"

inductive cld_reachable :: "cld_env \<Rightarrow> daemon \<Rightarrow> daemon \<Rightarrow> bool" for E d where
  cld_reachable_refl: "cld_reachable E d d"
| cld_reachable_step: "cld_reachable E d d' \<Longrightarrow> cld_step E d' d'' \<Longrightarrow> cld_reachable E d d''"

section \<open>The alarm\<close>

definition rtc_seconds :: "rtc_time \<Rightarrow> int" where
  "rtc_seconds t = 3600 * tm_hour t + 60 * tm_min t + tm_sec t"

definition valid_rtc :: "rtc_time \<Rightarrow> bool" where
  "valid_rtc t \<longleftrightarrow> 0 \<le> tm_sec t \<and> tm_sec t < 60 \<and> 0 \<le> tm_min t \<and> tm_min t < 60 \<and> 0 \<le> tm_hour t \<and> tm_hour t < 24"

lemma to_int_id: "- (2 ^ 31) \<le> n \<Longrightarrow> n < 2 ^ 31 \<Longrightarrow> to_int n = n"
  by (simp add: to_int_def)

lemma interval_rtc_valid:
  assumes "0 \<le> n" "n < 2 ^ 31"
  shows "valid_rtc (interval_rtc n) \<and> rtc_seconds (interval_rtc n) = n mod 86400"
proof -
  have id: "to_int n = n" using assms by (intro to_int_id) simp_all
  have "n mod 86400 = 3600 * (n div 60 div 60 mod 24) + 60 * (n div 60 mod 60) + n mod 60"
    using zmod_zmult2_eq [of 1440 n 60] zmod_zmult2_eq [of 24 "n div 60" 60] by simp
  moreover have "interval_rtc n = \<lparr>tm_sec = n mod 60, tm_min = n div 60 mod 60, tm_hour = n div 60 div 60 mod 24\<rparr>"
  proof -
    have keep: "(if b \<le> x then x mod b else x) = x mod b" if "0 \<le> x" "0 < b" for x b :: int using that by simp
    have zero: "(if b \<le> x then x div b else 0) = x div b" if "0 \<le> x" "0 < b" for x b :: int using that by simp
    have pair: "(if c then (a, b) else (a', b')) = (if c then a else a', if c then b else b')" for c and a b a' b' :: int by simp
    have "0 \<le> n div 60" "0 \<le> n div 60 div 60" using assms by (simp_all add: pos_imp_zdiv_nonneg_iff)
    with assms show ?thesis unfolding interval_rtc_def id Let_def pair by (simp only: keep zero prod.case zero_less_numeral)
  qed
  ultimately show ?thesis by (simp add: valid_rtc_def rtc_seconds_def)
qed

lemma carry:
  fixes a b c e x x' y y' z z' :: int
  assumes "z + z' = 60 * a + b" "y + y' + a = 60 * c + e"
  shows "3600 * x + 60 * y + z + (3600 * x' + 60 * y' + z') = 3600 * (x + x' + c) + 60 * e + b"
  using assms by algebra

lemma rtc_add_sum:
  assumes "valid_rtc now" "valid_rtc t"
  shows "rtc_seconds (rtc_add now t) = (let s = rtc_seconds now + rtc_seconds t in if s div 3600 = 24 then s - 86400 else s) \<and>
    (valid_rtc (rtc_add now t) \<longleftrightarrow> rtc_seconds now + rtc_seconds t < 90000)"
proof -
  define s where "s = tm_sec now + tm_sec t"
  define m where "m = tm_min now + tm_min t + s div 60"
  define h where "h = tm_hour now + tm_hour t + m div 60"
  have b: "0 \<le> s" "s < 120" "0 \<le> m" "m < 120" "0 \<le> h" using assms by (auto simp: s_def m_def h_def valid_rtc_def)
  have eq: "rtc_add now t = \<lparr>tm_sec = s mod 60, tm_min = m mod 60, tm_hour = (if h = 24 then 0 else h)\<rparr>"
  proof -
    have "s div 60 = (if 60 \<le> s then 1 else 0)" "m div 60 = (if 60 \<le> m then 1 else 0)" using b by auto
    then show ?thesis using b by (auto simp: rtc_add_def Let_def s_def m_def h_def)
  qed
  have sum: "rtc_seconds now + rtc_seconds t = 3600 * h + 60 * (m mod 60) + s mod 60"
  proof -
    have "tm_sec now + tm_sec t = 60 * (s div 60) + s mod 60" "tm_min now + tm_min t + s div 60 = 60 * (m div 60) + m mod 60"
      by (simp_all only: s_def [symmetric] m_def [symmetric] mult_div_mod_eq)
    from carry [OF this] show ?thesis unfolding rtc_seconds_def h_def .
  qed
  define k where "k = 60 * (m mod 60) + s mod 60"
  have "m mod 60 < 60" "s mod 60 < 60" by simp_all
  then have k: "0 \<le> k" "k < 3600" unfolding k_def by (simp, linarith)
  have total: "rtc_seconds now + rtc_seconds t = 3600 * h + k" using sum by (simp add: k_def)
  then have div: "(rtc_seconds now + rtc_seconds t) div 3600 = h" using k by (simp add: int_div_pos_eq)
  have secs: "rtc_seconds (rtc_add now t) = 3600 * (if h = 24 then 0 else h) + k" by (simp add: eq rtc_seconds_def k_def)
  have "valid_rtc (rtc_add now t) \<longleftrightarrow> h < 25" using b(5) by (auto simp: eq valid_rtc_def)
  moreover have "h < 25 \<longleftrightarrow> 3600 * h + k < 90000" using k by linarith
  ultimately show ?thesis unfolding secs Let_def div unfolding total by simp
qed

lemma day_wrap:
  fixes x :: int
  assumes "0 \<le> x" "x < 90000"
  shows "(if x div 3600 = 24 then x - 86400 else x) = x mod 86400"
proof (cases "x < 86400")
  case True
  then have "x div 3600 < 24" by (simp add: div_less_iff_less_mult)
  with True assms show ?thesis by simp
next
  case False
  then have "x div 3600 = 24" using assms by (intro int_div_pos_eq [of x 3600 24 "x - 86400"]) simp_all
  moreover have "x mod 86400 = x - 86400" using False assms by (intro int_mod_pos_eq [of x 86400 1 "x - 86400"]) simp_all
  ultimately show ?thesis by simp
qed

text \<open>The calls to the real time clock succeed.\<close>

definition rtc_works :: "cld_env \<Rightarrow> bool" where
  "rtc_works E \<longleftrightarrow> (\<forall>cs f t. 0 \<le> cld_sys E cs open_rtc \<and> 0 \<le> cld_sys E cs (RTC_RD_TIME f) \<and> 0 \<le> cld_sys E cs (RTC_ALM_SET f t) \<and>
     0 \<le> cld_sys E cs (RTC_AIE_ON f) \<and> valid_rtc (cld_rtc E cs))"

lemma retry_once: "0 \<le> cld_sys E (cld_calls w) c \<Longrightarrow> retry E c w = Some (cld_syscall E c w)"
  by (subst retry.simps) (simp add: cld_syscall_def)

text \<open>
  C22 (alarm_next_time). With a working real time clock, the first alarm of the sender is set for the
  time of day that lies the interval ahead, also over midnight, as long as the sum of the current
  time and the interval, taken modulo a day, is below 25 hours. At 25 hours and more the hour is not
  reduced and the alarm is set to a time that does not exist.
\<close>

theorem alarm_next_time:
  fixes w :: cld_world and E :: cld_env
  defines "n \<equiv> tx_interval (lb w)" and "now \<equiv> cld_rtc E (RTC_RD_TIME (cld_sys E (cld_calls w) open_rtc) # open_rtc # cld_calls w)"
  assumes "rtc_works E" "alarm_fd (lb w) < 0" "0 \<le> n" "n < 2 ^ 31"
  shows "\<exists>ret w' next. set_alarm E w = Some (ret, w') \<and> 0 \<le> ret \<and> RTC_ALM_SET (alarm_fd (lb w')) next \<in> set (cld_calls w') \<and>
    (if rtc_seconds now + n mod 86400 < 90000
     then valid_rtc next \<and> rtc_seconds next = (rtc_seconds now + n) mod 86400 else \<not> valid_rtc next)"
proof -
  define f where "f = cld_sys E (cld_calls w) open_rtc"
  have E: "0 \<le> f" "0 \<le> cld_sys E cs (RTC_RD_TIME f)" "0 \<le> cld_sys E cs (RTC_ALM_SET f t)" "0 \<le> cld_sys E cs (RTC_AIE_ON f)"
    "valid_rtc now" for cs t
    using assms(3) by (simp_all add: rtc_works_def f_def now_def)
  define t where "t = interval_rtc n"
  have t: "valid_rtc t" "rtc_seconds t = n mod 86400" using interval_rtc_valid [OF assms(5,6)] by (simp_all add: t_def)
  note sum = rtc_add_sum [OF E(5) t(1), unfolded t(2)]
  have "0 \<le> rtc_seconds now" "rtc_seconds now < 86400" using E(5) by (simp_all add: rtc_seconds_def valid_rtc_def)
  moreover have "0 \<le> n mod 86400" by simp
  ultimately have range: "0 \<le> rtc_seconds now + n mod 86400" by simp
  have secs: "rtc_seconds (rtc_add now t) = (rtc_seconds now + n) mod 86400" if "rtc_seconds now + n mod 86400 < 90000"
    using sum day_wrap [OF range that] by (simp add: mod_add_right_eq)
  have "set_alarm E w = Some (cld_sys E (RTC_ALM_SET f (rtc_add now t) # RTC_RD_TIME f # open_rtc # cld_calls w) (RTC_AIE_ON f),
      (on_lb (\<lambda>a. a\<lparr>alarm_fd := f\<rparr>) w)\<lparr>rtc_temp := t,
        cld_calls := RTC_AIE_ON f # RTC_ALM_SET f (rtc_add now t) # RTC_RD_TIME f # open_rtc # cld_calls w\<rparr>)"
    using assms(4) E(1-4) E(1-4) [THEN leD]
    by (simp add: set_alarm_def open_alarm_def cld_syscall_def on_lb_def retry_once f_def [symmetric] n_def [symmetric] t_def [symmetric] now_def [folded f_def, symmetric] Let_def)
  then show ?thesis
    using E(4) sum secs by (auto simp: on_lb_def intro!: exI [of _ "rtc_add now t"])
qed

section \<open>The arguments are usable\<close>

lemma digits_value_nonneg: "\<forall>c\<in>set ds. is_digit c \<Longrightarrow> 0 \<le> digits_value ds"
proof -
  have "0 \<le> foldl (\<lambda>n c. 10 * n + (of_char c - 48)) n ds" if "0 \<le> n" "\<forall>c\<in>set ds. is_digit c" for n :: int and ds
    using that
  proof (induction ds arbitrary: n)
    case (Cons c ds)
    have "(of_char c :: int) = int (of_char c)" by (simp only: of_nat_of_char)
    then have "48 \<le> (of_char c :: int)" using Cons.prems(2) by (simp add: is_digit_def)
    then show ?case using Cons by simp
  qed simp
  then show "\<forall>c\<in>set ds. is_digit c \<Longrightarrow> 0 \<le> digits_value ds" by (simp add: digits_value_def)
qed

lemma strtoul_range: "0 \<le> fst (strtoul s) \<and> fst (strtoul s) < 2 ^ 64"
proof -
  have "0 \<le> digits_value (takeWhile is_digit t)" for t
    by (rule digits_value_nonneg) (auto dest: set_takeWhileD)
  then show ?thesis by (auto simp: strtoul_def Let_def simp del: takeWhile.simps dropWhile.simps split: list.split)
qed

lemma arg_value_range: "0 < dflt \<Longrightarrow> dflt < 2 ^ 64 \<Longrightarrow> 0 < arg_value dflt optarg \<and> arg_value dflt optarg < 2 ^ 64"
proof (cases optarg)
  case (Some s)
  then show "0 < dflt \<Longrightarrow> dflt < 2 ^ 64 \<Longrightarrow> 0 < arg_value dflt optarg \<and> arg_value dflt optarg < 2 ^ 64"
    using strtoul_range [of s] by (auto simp: arg_value_def case_prod_unfold Let_def)
qed (simp add: arg_value_def)

lemma to_long_nonzero:
  assumes "0 < n" "n < 2 ^ 64"
  shows "to_long n \<noteq> 0"
proof (cases "n < 2 ^ 63")
  case True
  then have "(n + 2 ^ 63) mod 2 ^ 64 = n + 2 ^ 63" using assms by (intro mod_pos_pos_trivial) simp_all
  then show ?thesis using assms by (simp add: to_long_def)
next
  case False
  then have "(n + 2 ^ 63) mod 2 ^ 64 = n + 2 ^ 63 - 2 ^ 64" using assms by (intro int_mod_pos_eq [of _ _ 1]) simp_all
  then show ?thesis using assms by (simp add: to_long_def)
qed

lemma interval_nonzero: "to_long (arg_value DEFAULT_INT_SEC optarg) \<noteq> 0"
  using arg_value_range [of DEFAULT_INT_SEC optarg] by (intro to_long_nonzero) simp_all

text \<open>What parsing keeps: the sender has an interval once it is enabled.\<close>

definition sender_interval :: "last_mode \<Rightarrow> lb_args \<Rightarrow> bool" where
  "sender_interval m a \<longleftrightarrow> (ap_mode a \<longrightarrow> tx_interval a \<noteq> 0) \<and> (m = AP_INIT_LB \<longrightarrow> ap_mode a)"

lemma sender_interval_steps:
  "sender_interval m a \<Longrightarrow> sender_interval CP_INIT_LB (a\<lparr>mode := mode a OR 2, rx_packet := x, rx_interval := y, duration := z\<rparr>)"
  "sender_interval AP_INIT_LB (a\<lparr>mode := mode a OR 1, tx_packet := x, tx_interval := DEFAULT_INT_SEC, duration := z\<rparr>)"
  "sender_interval AP_INIT_LB a \<Longrightarrow> sender_interval AP_INIT_LB (a\<lparr>tx_interval := to_long (arg_value DEFAULT_INT_SEC optarg)\<rparr>)"
  "sender_interval m a \<Longrightarrow> sender_interval m (a\<lparr>rx_interval := x\<rparr>)" "sender_interval m a \<Longrightarrow> sender_interval m (a\<lparr>tx_packet := x\<rparr>)"
  "sender_interval m a \<Longrightarrow> sender_interval m (a\<lparr>rx_packet := x\<rparr>)"
  "sender_interval m a \<Longrightarrow> sender_interval m (a\<lparr>duration := x, forever := b\<rparr>)"
  using interval_nonzero by (auto simp: sender_interval_def ap_mode_def bit_or_iff bit_1_iff bit_numeral_rec)

lemma get_opts_interval: "get_opts opts m a = Some (m', a') \<Longrightarrow> sender_interval m a \<Longrightarrow> sender_interval m' a'"
proof (induction opts arbitrary: m a)
  case (Cons oa opts)
  obtain opt optarg where oa: "oa = (opt, optarg)" by fastforce
  show ?case
    using Cons.prems unfolding oa get_opts.simps Let_def
    by (auto split: if_split_asm last_mode.split_asm elim!: Cons.IH intro!: sender_interval_steps)
qed simp

lemma get_cld_args_interval: "get_cld_args opts zero_args = Some a \<Longrightarrow> ap_mode a \<Longrightarrow> 1 \<le> tx_interval a"
  using get_opts_interval [of opts No_mode zero_args]
  by (auto simp: get_cld_args_def zero_args_def sender_interval_def ap_mode_def Let_def split: option.splits if_splits)

section \<open>A test ends\<close>

fun is_data :: "cld_call \<Rightarrow> bool" where
  "is_data (write_node f (lb_data n l q)) \<longleftrightarrow> True"
| "is_data _ \<longleftrightarrow> False"

definition sends :: "cld_call list \<Rightarrow> int" where
  "sends cs = int (length (filter is_data cs))"

text \<open>What everything but a round of the sender does to the data the test is about.\<close>

definition quiet :: "cld_world \<Rightarrow> cld_world \<Rightarrow> bool" where
  "quiet w w' \<longleftrightarrow> sends (cld_calls w') = sends (cld_calls w) \<and> mode (lb w') = mode (lb w) \<and> forever (lb w') = forever (lb w) \<and>
     tx_interval (lb w') = tx_interval (lb w) \<and> (duration (lb w') = duration (lb w) \<or> duration (lb w') = 0)"

lemma quiet_refl [simp]: "quiet w w"
  by (simp add: quiet_def)

lemma quiet_trans [trans]: "quiet w w' \<Longrightarrow> quiet w' w'' \<Longrightarrow> quiet w w''"
  by (auto simp: quiet_def)

lemma quiet_emit [simp]: "\<not> is_data c \<Longrightarrow> quiet w (cld_emit c w') = quiet w w'"
  by (simp add: quiet_def cld_emit_def sends_def)

lemma quiet_syscall [simp]: "\<not> is_data c \<Longrightarrow> quiet w (snd (cld_syscall E c w')) = quiet w w'"
  by (simp add: quiet_def cld_syscall_def sends_def)

text \<open>A change of the arguments that leaves the test alone.\<close>

definition quiet_upd :: "(lb_args \<Rightarrow> lb_args) \<Rightarrow> lb_args \<Rightarrow> bool" where
  "quiet_upd f a \<longleftrightarrow> mode (f a) = mode a \<and> forever (f a) = forever a \<and> tx_interval (f a) = tx_interval a \<and>
     (duration (f a) = duration a \<or> duration (f a) = 0)"

lemma quiet_on_lb: "quiet w w' \<Longrightarrow> quiet_upd f (lb w') \<Longrightarrow> quiet w (on_lb f w')"
  by (auto simp: quiet_def on_lb_def quiet_upd_def)

lemma quiet_rtc [simp]: "quiet w (w'\<lparr>rtc_temp := t\<rparr>) = quiet w w'"
  by (simp add: quiet_def)

lemma quiet_wake [simp]: "quiet w (cld_wake_lock E b l w') = quiet w w'"
  by (simp add: cld_wake_lock_def case_prod_unfold Let_def)

lemma quiet_retry:
  assumes "retry E c w = Some r" "\<not> is_data c"
  shows "quiet w (snd r)"
proof -
  have "\<not> is_data c \<longrightarrow> quiet w (snd r)"
  proof (rule retry.raw_induct [where P = "\<lambda>E c w r. \<not> is_data c \<longrightarrow> quiet w (snd r)", OF _ assms(1)])
    fix loop E c w r
    assume IH: "\<And>E c w r. loop E c w = Some r \<Longrightarrow> \<not> is_data c \<longrightarrow> quiet w (snd r)"
      and body: "(let (ret, w') = cld_syscall E c w in
        if ret < 0 \<and> cld_eintr E (cld_calls w) c then loop E c w' else Some (ret, w')) = Some r"
    have "\<not> is_data c \<Longrightarrow> quiet (snd (cld_syscall E c w)) (snd r) \<Longrightarrow> quiet w (snd r)" by (erule quiet_trans [rotated]) simp
    then show "\<not> is_data c \<longrightarrow> quiet w (snd r)"
      using body IH [of E c "snd (cld_syscall E c w)" r]
      by (auto simp: case_prod_unfold Let_def split: if_splits)
  qed
  with assms(2) show ?thesis by simp
qed

lemma quiet_wait:
  assumes "wait_for_alarm E w = Some r"
  shows "quiet w (snd r)"
proof (rule wait_for_alarm.raw_induct [where P = "\<lambda>E w r. quiet w (snd r)", OF _ assms])
  fix loop E w r
  let ?u = "cld_wake_lock E False WRITE_LOCK w"
  let ?v = "cld_wake_lock E True WRITE_LOCK (snd (cld_syscall E (read_alarm (alarm_fd (lb ?u))) ?u))"
  assume IH: "\<And>E w r. loop E w = Some r \<Longrightarrow> quiet w (snd r)"
    and body: "(let w = ?u; eintr = cld_eintr E (cld_calls w) (read_alarm (alarm_fd (lb w)));
        (result, w) = cld_syscall E (read_alarm (alarm_fd (lb w))) w; w = cld_wake_lock E True WRITE_LOCK w
      in if result < 0 \<and> eintr then loop E w else Some (result, w)) = Some r"
  have "quiet ?v (snd r) \<Longrightarrow> quiet w (snd r)" by (erule quiet_trans [rotated]) simp
  then show "quiet w (snd r)"
    using body IH [of E ?v r] by (auto simp: case_prod_unfold Let_def split: if_splits)
qed

lemma quiet_alarm_failed: "quiet w w' \<Longrightarrow> quiet w (snd (alarm_failed ret w'))"
  by (simp add: alarm_failed_def quiet_on_lb quiet_upd_def)

lemma quiet_set_alarm:
  assumes "set_alarm E w = Some r"
  shows "quiet w (snd r)"
proof -
  have opened: "quiet w (open_alarm E w)" by (simp add: open_alarm_def case_prod_unfold Let_def quiet_on_lb quiet_upd_def)
  have step: "quiet w y" if "retry E c w' = Some (x, y)" "quiet w w'" "\<not> is_data c" for c w' x y
    using that(2) quiet_retry [OF that(1,3)] quiet_trans by auto
  have rd: "quiet w y" if "retry E (RTC_RD_TIME f) w' = Some (x, y)" "quiet w w'" for f w' x y
    using step that by auto
  have alm: "quiet w y" if "retry E (RTC_ALM_SET f t) w' = Some (x, y)" "quiet w w'" for f t w' x y
    using step that by auto
  have aie: "quiet w y" if "retry E (RTC_AIE_ON f) w' = Some (x, y)" "quiet w w'" for f w' x y
    using step that by auto
  show ?thesis
    using assms opened unfolding set_alarm_def Let_def
    by (auto split: if_split_asm Option.bind_split_asm intro!: quiet_alarm_failed dest!: rd alm aie)
qed

lemma quiet_unset_alarm: "unset_alarm E w = Some w' \<Longrightarrow> quiet w w'"
  by (auto simp: unset_alarm_def split: if_splits Option.bind_splits dest!: quiet_retry intro!: quiet_on_lb simp: quiet_upd_def)

lemma quiet_set_and_wait:
  assumes "set_and_wait_for_alarm E w = Some w'"
  shows "quiet w w'"
proof -
  have zero: "quiet w (on_lb (\<lambda>a. a\<lparr>duration := 0\<rparr>) v)" if "quiet w v" for v
    using that by (rule quiet_on_lb) (simp add: quiet_upd_def)
  obtain ret v where v: "set_alarm E w = Some (ret, v)" using assms by (auto simp: set_and_wait_for_alarm_def split: Option.bind_splits)
  have q: "quiet w v" using quiet_set_alarm [OF v] by simp
  have "quiet w (snd r)" if "wait_for_alarm E v = Some r" for r using q quiet_wait [OF that] by (rule quiet_trans)
  then show ?thesis
    using assms q by (auto simp: set_and_wait_for_alarm_def v split: if_splits Option.bind_splits intro!: zero)
qed

lemma quiet_ap: "quiet w w' \<Longrightarrow> ap_mode (lb w') = ap_mode (lb w)"
  by (simp add: quiet_def ap_mode_def)

lemma quiet_handle_packet:
  assumes "quiet w w'" "ap_mode (lb w)"
  shows "quiet w (snd (handle_packet E r w'))"
proof -
  have "ap_mode (lb w')" using assms quiet_ap by blast
  then show ?thesis
    using assms(1) by (simp add: handle_packet_def case_prod_unfold Let_def quiet_on_lb quiet_upd_def ap_mode_def cld_syscall_def)
      (simp add: quiet_def sends_def)
qed

lemma quiet_reader_retry:
  assumes "quiet w w'" "ap_mode (lb w)"
  shows "quiet w (snd (reader_retry E r n w'))"
  using assms by (simp add: reader_retry_def case_prod_unfold Let_def quiet_handle_packet)

lemma quiet_reader:
  assumes "reader_step E pc w = (pc', w')" "ap_mode (lb w)"
  shows "quiet w w'"
proof -
  have "quiet w (snd (reader_step E pc w))"
    using quiet_reader_retry [OF quiet_refl assms(2)]
    by (simp add: reader_step_def reader_start_def case_prod_unfold Let_def quiet_on_lb quiet_upd_def split: reader_pc.split)
  with assms(1) show ?thesis by simp
qed

lemma quiet_main:
  assumes "main_step E d = Some d'"
  shows "quiet (world d) (world d')"
proof (cases "main_thread d")
  case M_join
  have "quiet (world d) w" if "unset_alarm E (cld_wake_lock E False WRITE_LOCK (world d)) = Some w" for w
    using quiet_unset_alarm [OF that] by (rule quiet_trans [rotated]) simp
  then show ?thesis using assms M_join by (auto simp: main_step_def split: if_splits Option.bind_splits)
qed (use assms in \<open>auto simp: main_step_def main_exit_def case_prod_unfold Let_def quiet_on_lb quiet_upd_def split: if_splits\<close>)

text \<open>
  The invariant of a test of \<open>D\<close> seconds. A packet is paid for with the duration after the wait, or
  when the sender ends after an error.
\<close>

fun pending :: "sender_pc \<Rightarrow> int" where
  "pending (S_wait _) = 1"
| "pending (S_exit ret) = (if ret < 0 then 1 else 0)"
| "pending _ = 0"

definition test_inv :: "int \<Rightarrow> daemon \<Rightarrow> bool" where
  "test_inv D d \<longleftrightarrow>
     (let a = lb (world d); n = sends (cld_calls (world d)) in
      ap_mode a \<and> \<not> forever a \<and> 1 \<le> tx_interval a \<and> n \<le> D \<and>
      n + max 0 (duration a) \<le> D + pending (sender d) \<and>
      (main_thread d \<notin> {M_join, M_end} \<longrightarrow> sender d = S_done))"

lemma test_inv_quiet:
  "test_inv D d \<Longrightarrow> quiet (world d) w \<Longrightarrow> test_inv D (d\<lparr>world := w\<rparr>)"
  by (auto simp: test_inv_def quiet_def ap_mode_def Let_def)

lemma pending_range: "0 \<le> pending pc"
  by (cases pc) simp_all

lemma test_inv_sender_quiet:
  assumes "test_inv D d" "quiet (world d) w" "main_thread d \<in> {M_join, M_end}" "pending (sender d) = 0"
  shows "test_inv D (d\<lparr>sender := pc, world := w\<rparr>)"
  using assms pending_range [of pc] by (auto simp: test_inv_def quiet_def ap_mode_def Let_def)

lemma quiet_sender_start: "quiet w (snd (sender_start E w))"
  by (simp add: sender_start_def case_prod_unfold Let_def quiet_on_lb quiet_upd_def)

text \<open>A round either sends nothing, or tries to send one packet and then waits or ends.\<close>

lemma sender_round_cases:
  obtains (quits) "quiet w (snd (sender_round E rst w))"
  | (sends) "pending (fst (sender_round E rst w)) = 1" "sends (cld_calls (snd (sender_round E rst w))) = sends (cld_calls w) + 1"
      "mode (lb (snd (sender_round E rst w))) = mode (lb w)" "forever (lb (snd (sender_round E rst w))) = forever (lb w)"
      "duration (lb (snd (sender_round E rst w))) = duration (lb w)"
      "1 \<le> tx_interval (lb w) \<longrightarrow> 1 \<le> tx_interval (lb (snd (sender_round E rst w)))"
proof -
  define r where "r = sender_round E rst w"
  have "quiet w (snd r) \<or> (pending (fst r) = 1 \<and> sends (cld_calls (snd r)) = sends (cld_calls w) + 1 \<and>
      mode (lb (snd r)) = mode (lb w) \<and> forever (lb (snd r)) = forever (lb w) \<and> duration (lb (snd r)) = duration (lb w) \<and>
      (1 \<le> tx_interval (lb w) \<longrightarrow> 1 \<le> tx_interval (lb (snd r))))"
    by (auto simp: r_def sender_round_def cld_syscall_def on_lb_def Let_def quiet_def sends_def)
  then show ?thesis using quits sends unfolding r_def by blast
qed

lemma test_inv_sender:
  assumes "test_inv D d" "sender_step E j (sender d) (world d) = Some (pc, w)"
  shows "test_inv D (d\<lparr>sender := pc, world := w\<rparr>)"
proof (cases "sender d = S_done")
  case True
  then have "d\<lparr>sender := pc, world := w\<rparr> = d" using assms(2) by (simp add: sender_step_def)
  then show ?thesis using assms(1) by simp
next
  case False
  then have join: "main_thread d \<in> {M_join, M_end}" using assms(1) by (auto simp: test_inv_def Let_def)
  note q = test_inv_sender_quiet [OF assms(1) _ join]
  show ?thesis
  proof (cases "sender d")
    case S_start
    then show ?thesis using assms(2) quiet_sender_start [of "world d" E] q [of w pc] by (auto simp: sender_step_def)
  next
    case (S_loop rst)
    show ?thesis
    proof (cases "0 < duration (lb (world d))")
      case True
      then have r: "sender_round E rst (world d) = (pc, w)" using assms(2) S_loop by (simp add: sender_step_def)
      show ?thesis
      proof (cases rule: sender_round_cases [of "world d" E rst])
        case quits
        then show ?thesis using r q S_loop by simp
      next
        case sends
        then show ?thesis using r assms(1) True S_loop join by (auto simp: test_inv_def ap_mode_def Let_def)
      qed
    next
      case False
      moreover have "\<not> forever (lb (world d))" using assms(1) by (simp add: test_inv_def Let_def)
      ultimately show ?thesis using assms(2) S_loop q [of w pc] by (simp add: sender_step_def)
    qed
  next
    case (S_wait rst)
    then obtain v where v: "set_and_wait_for_alarm E (world d) = Some v" "pc = S_loop rst"
      "w = (if forever (lb v) then v else on_lb (\<lambda>a. a\<lparr>duration := duration a - tx_interval a\<rparr>) v)"
      using assms(2) by (auto simp: sender_step_def split: Option.bind_splits)
    then show ?thesis using quiet_set_and_wait [OF v(1)] assms(1) S_wait join
      by (auto simp: test_inv_def quiet_def ap_mode_def on_lb_def Let_def)
  next
    case (S_exit ret)
    let ?v = "if ret < 0 then on_lb (\<lambda>a. a\<lparr>duration := 0\<rparr>) (world d) else world d"
    have v: "quiet (world d) ?v" by (simp add: quiet_on_lb quiet_upd_def)
    have w: "quiet ?v w" "pc = S_join \<or> pc = S_done"
      using assms(2) S_exit quiet_unset_alarm by (auto simp: sender_step_def Let_def split: if_splits)
    show ?thesis
    proof (cases "ret < 0")
      case True
      then have "duration (lb w) = 0" using w(1) by (auto simp: quiet_def on_lb_def)
      then show ?thesis
        using quiet_trans [OF v w(1)] w(2) assms(1) join by (auto simp: test_inv_def quiet_def ap_mode_def Let_def)
    next
      case False
      then show ?thesis using q quiet_trans [OF v w(1)] S_exit by simp
    qed
  qed (use assms(2) q [of w pc] in \<open>auto simp: sender_step_def\<close>)
qed

lemma test_inv_step: "cld_step E d d' \<Longrightarrow> test_inv D d \<Longrightarrow> test_inv D d'"
proof (induction rule: cld_step.induct)
  case (main d d')
  have "test_inv D (d\<lparr>world := world d'\<rparr>)" using test_inv_quiet [OF main(2) quiet_main [OF main(1)]] .
  then show ?case using main by (cases "main_thread d") (auto simp: main_step_def test_inv_def Let_def case_prod_unfold split: if_splits Option.bind_splits)
next
  case (reader d i pc w)
  then have "quiet (world d) w" by (auto simp: test_inv_def Let_def intro: quiet_reader)
  from test_inv_quiet [OF reader(4) this] show ?case by (simp add: test_inv_def)
next
  case (sender d pc w)
  then show ?case by (intro test_inv_sender)
qed

text \<open>
  C21 (lb_sends_bounded). A test with a given duration ends: whatever the modem, the clock and the
  property of the reset count do, and however the threads interleave, the daemon sends at most as
  many test packets as the duration has seconds, and this includes everything it does after it has
  reloaded.
\<close>

theorem lb_sends_bounded:
  assumes "cld_start opts = Some d" "ap_mode (lb (world d))" "\<not> forever (lb (world d))" "cld_reachable E d d'"
  shows "sends (cld_calls (world d')) \<le> max 0 (duration (lb (world d)))"
proof -
  have "test_inv (max 0 (duration (lb (world d)))) d"
    using assms(1-3) get_cld_args_interval by (auto simp: cld_start_def test_inv_def sends_def Let_def)
  with assms(4) have "test_inv (max 0 (duration (lb (world d)))) d'"
    by (induction rule: cld_reachable.induct) (auto intro: test_inv_step)
  then show ?thesis by (simp add: test_inv_def Let_def)
qed

section \<open>Faults\<close>

text \<open>\<open>select\<close> on an empty set of file descriptors finds none that is ready.\<close>

definition select_honest :: "cld_env \<Rightarrow> bool" where
  "select_honest E \<longleftrightarrow> (\<forall>cs t. cld_sys E cs (select_fd False t) \<le> 0)"

fun deaf :: "reader_pc \<Rightarrow> bool" where
  "deaf (R_loop r) \<longleftrightarrow> \<not> rfds r"
| "deaf (R_retry r _) \<longleftrightarrow> \<not> rfds r"
| "deaf R_exit \<longleftrightarrow> True"
| "deaf R_done \<longleftrightarrow> True"
| "deaf _ \<longleftrightarrow> False"

fun is_read :: "cld_call \<Rightarrow> bool" where
  "is_read (read_node f n) \<longleftrightarrow> True"
| "is_read _ \<longleftrightarrow> False"

definition reads :: "cld_call list \<Rightarrow> nat" where
  "reads cs = length (filter is_read cs)"

lemma wake_lock_lb [simp]: "lb (cld_wake_lock E b l w) = lb w"
  by (simp add: cld_wake_lock_def cld_syscall_def cld_emit_def Let_def)

lemma wake_lock_reads [simp]: "reads (cld_calls (cld_wake_lock E b l w)) = reads (cld_calls w)"
  by (simp add: cld_wake_lock_def cld_syscall_def cld_emit_def Let_def reads_def)

lemma deaf_retry:
  assumes "select_honest E" "\<not> rfds r"
  shows "deaf (fst (reader_retry E r n w)) \<and> rx_seq (lb (snd (reader_retry E r n w))) = rx_seq (lb w) \<and>
    reads (cld_calls (snd (reader_retry E r n w))) = reads (cld_calls w)"
proof -
  have "cld_sys E cs (select_fd (rfds r) t) < 0 \<or> cld_sys E cs (select_fd (rfds r) t) = 0" for cs t
    using assms by (simp add: select_honest_def order_le_less)
  then show ?thesis
    by (auto simp: reader_retry_def Let_def case_prod_unfold cld_syscall_def reads_def wake_lock_reads [unfolded reads_def])
qed

lemma deaf_step:
  assumes "select_honest E" "deaf pc"
  shows "deaf (fst (reader_step E pc w)) \<and> rx_seq (lb (snd (reader_step E pc w))) = rx_seq (lb w) \<and>
    reads (cld_calls (snd (reader_step E pc w))) = reads (cld_calls w)"
  using assms(2) deaf_retry [OF assms(1)]
  by (cases pc) (auto simp: reader_step_def on_lb_def cld_emit_def reads_def Let_def)

lemma main_step_readers: "main_step E d = Some d' \<Longrightarrow> readers d' = readers d \<or> readers d' = readers d @ [R_start]"
  by (cases "main_thread d") (auto simp: main_step_def Let_def case_prod_unfold split: if_splits Option.bind_splits)

lemma cld_step_deaf:
  assumes "cld_step E d d'" "select_honest E" "i < length (readers d)" "deaf (readers d ! i)"
  shows "i < length (readers d') \<and> deaf (readers d' ! i)"
  using assms
proof (induction rule: cld_step.induct)
  case (main d d')
  then show ?case using main_step_readers [OF main(1)] by (auto simp: nth_append)
next
  case (reader d j pc w)
  then show ?case using deaf_step [of E "readers d ! i" "world d"] by (cases "j = i") auto
qed simp

text \<open>
  C32 (timeout_deafens_reader). A single timeout ends the reception for good: \<open>select\<close> takes the node
  out of the set of file descriptors and the reader never puts it back, so that from then on, for
  as long as the reader runs, it does not read from the node and the acknowledged sequence number
  does not move.
\<close>

theorem timeout_deafens_reader:
  assumes "select_honest E" "i < length (readers d)" "readers d ! i = R_loop (r\<lparr>rfds := False\<rparr>)" "cld_reachable E d d'"
  shows "deaf (readers d' ! i) \<and>
    rx_seq (lb (snd (reader_step E (readers d' ! i) (world d')))) = rx_seq (lb (world d')) \<and>
    reads (cld_calls (snd (reader_step E (readers d' ! i) (world d')))) = reads (cld_calls (world d'))"
proof -
  from assms(4) have "i < length (readers d') \<and> deaf (readers d' ! i)"
    by (induction rule: cld_reachable.induct) (use assms(1-3) cld_step_deaf in auto)
  with deaf_step [OF assms(1)] show ?thesis by blast
qed

lemma timeout_leaves:
  assumes "cld_sys E (cld_calls w) get_cp_reset = rst_old r" "\<And>cs t. cld_sys E cs (select_fd (rfds r) t) = 0"
  shows "fst (reader_retry E r n w) = R_loop (r\<lparr>rfds := False\<rparr>)"
  using assms by (simp add: reader_retry_def cld_syscall_def Let_def)

text \<open>
  A packet that arrives in two parts overflows the buffer of the reader: the
  second read stores behind the first part and still asks for as many bytes as the whole buffer has.
\<close>

theorem reader_overflow:
  assumes "\<And>cs. cld_sys E cs get_cp_reset = rst_old r" "\<And>cs t. 0 < cld_sys E cs (select_fd (rfds r) t)"
    and "\<And>cs f. cld_sys E cs (modem_status f) = STATE_ONLINE"
    and "\<And>cs f m. cld_sys E cs (read_node f m) = (if reads cs = 0 then int n else m)"
    and "0 < n" "int n < alloc_size r" "2 \<le> n" "hdr_len (cld_data E cs) \<noteq> n" "\<And>cs'. cld_data E cs' = cld_data E cs" "n < 2 ^ 32"
    and "0 < duration (lb w)" "reads (cld_calls w) = 0"
  shows "fst (reader_step E (fst (reader_step E (R_loop r) w)) (snd (reader_step E (R_loop r) w))) = R_overflow"
proof -
  let ?r = "r\<lparr>buff := store 0 n (cld_data E cs) (buff r)\<rparr>"
  have len: "hdr_len (buff ?r) = hdr_len (cld_data E cs)" using assms(7) by (simp add: hdr_len_def store_def)
  have add: "add32 0 n = n" using assms(10) by (simp add: add32_def)
  have sel: "\<not> cld_sys E cs' (select_fd (rfds r) t) < 0" "cld_sys E cs' (select_fd (rfds r) t) \<noteq> 0" for cs' t
    using assms(2) [of cs' t] by simp_all
  have reads: "reads (c # cs') = (if is_read c then 1 else 0) + reads cs'" for c cs' by (simp add: reads_def)
  define p where "p = reader_retry E r 0 w"
  have p: "fst p = R_retry ?r n" "reads (cld_calls (snd p)) = 1"
    using assms(3-6,12) assms(9) [of "_ # _"] len add assms(8) sel
    by (simp_all add: p_def reader_retry_def cld_syscall_def assms(1) Let_def reads)
  have "fst (reader_retry E ?r n (snd p)) = R_overflow"
    using assms(3-6) p(2) sel by (simp add: reader_retry_def cld_syscall_def assms(1) Let_def reads)
  then show ?thesis using assms(11) p(1) by (simp add: reader_step_def p_def [symmetric])
qed

text \<open>The node opens, the modem is online, threads can be created and packets written.\<close>

definition modem_up :: "cld_env \<Rightarrow> bool" where
  "modem_up E \<longleftrightarrow> (\<forall>cs f pkt. 0 \<le> cld_sys E cs open_node \<and> cld_sys E cs (modem_status f) = STATE_ONLINE \<and> cld_sys E cs create_rx = 0 \<and>
     cld_sys E cs create_tx = 0 \<and> 0 \<le> cld_sys E cs (write_node f pkt) \<and> \<not> cld_eintr E cs (RTC_AIE_OFF f))"

lemma retry_uninterrupted: "\<not> cld_eintr E (cld_calls w) c \<Longrightarrow> retry E c w = Some (cld_syscall E c w)"
  by (subst retry.simps) (simp add: cld_syscall_def)

lemma wake_lock_calls: "set (cld_calls w) \<subseteq> set (cld_calls (cld_wake_lock E b l w))"
  by (auto simp: cld_wake_lock_def cld_syscall_def cld_emit_def Let_def)

text \<open>A state in which the main thread is about to start over, in the mode for the modem only.\<close>

definition cp_idle :: "nat \<Rightarrow> daemon \<Rightarrow> bool" where
  "cp_idle n d \<longleftrightarrow> main_thread d = M_open \<and> readers d = replicate n R_start \<and> sender d = S_done \<and> cp_mode (lb (world d)) \<and>
     \<not> ap_mode (lb (world d)) \<and> (if n = 0 then alarm_fd (lb (world d)) = 0 else close_fd 0 \<in> set (cld_calls (world d)))"

definition cp_same :: "cld_world \<Rightarrow> cld_world \<Rightarrow> bool" where
  "cp_same w w' \<longleftrightarrow> mode (lb w') = mode (lb w) \<and> alarm_fd (lb w') = alarm_fd (lb w) \<and> set (cld_calls w) \<subseteq> set (cld_calls w')"

lemma cp_same_trans: "cp_same w w' \<Longrightarrow> cp_same w' w'' \<Longrightarrow> cp_same w w''"
  by (auto simp: cp_same_def)

lemma cp_same_syscall: "cp_same w (snd (cld_syscall E c w))"
  by (auto simp: cp_same_def cld_syscall_def)

lemma cp_same_wake: "cp_same w (cld_wake_lock E b l w)"
  using wake_lock_calls by (auto simp: cp_same_def)

lemma cp_opens:
  assumes "modem_up E" "main_thread d = M_open"
  shows "\<exists>w. main_step E d = Some (d\<lparr>main_thread := M_wait, world := w\<rparr>) \<and> cp_same (world d) w"
proof -
  let ?w = "on_lb (\<lambda>a. a\<lparr>fd := cld_sys E (cld_calls (world d)) open_node\<rparr>) (snd (cld_syscall E open_node (world d)))"
  let ?v = "cld_wake_lock E True WRITE_LOCK (cld_wake_lock E True READ_LOCK ?w)"
  have "cp_same (world d) ?w" by (auto simp: cp_same_def cld_syscall_def on_lb_def)
  then have "cp_same (world d) ?v" using cp_same_wake cp_same_trans by metis
  then have "cp_same (world d) (on_lb (\<lambda>a. a\<lparr>tx_seq := 0, rx_seq := 0\<rparr>) ?v)" by (simp add: cp_same_def on_lb_def)
  moreover have "main_step E d = Some (d\<lparr>main_thread := M_wait, world := on_lb (\<lambda>a. a\<lparr>tx_seq := 0, rx_seq := 0\<rparr>) ?v\<rparr>)"
    using assms by (simp add: main_step_def cld_syscall_def modem_up_def Let_def leD)
  ultimately show ?thesis by blast
qed

lemma cp_sender:
  assumes "modem_up E" "cp_mode (lb w)" "\<not> ap_mode (lb w)"
  shows "\<exists>ret w'. 0 \<le> ret \<and> sender_start E w = (S_exit ret, w') \<and> cp_same w w'"
  using assms
  by (auto simp: sender_start_def modem_up_def cld_syscall_def on_lb_def cp_mode_def ap_mode_def cp_same_def Let_def leD)

lemma cp_unset:
  assumes "modem_up E" "if n = 0 then alarm_fd (lb w) = 0 else close_fd 0 \<in> set (cld_calls w)"
  shows "\<exists>w'. unset_alarm E w = Some w' \<and> mode (lb w') = mode (lb w) \<and> close_fd 0 \<in> set (cld_calls w')"
  using assms by (auto simp: unset_alarm_def retry_uninterrupted modem_up_def cld_syscall_def on_lb_def cld_emit_def split: if_splits)

text \<open>The state of the daemon with all its parts, and a round of the main thread as steps between such states.\<close>

abbreviation (input) daemon_at :: "main_pc \<Rightarrow> reader_pc list \<Rightarrow> sender_pc \<Rightarrow> cld_world \<Rightarrow> daemon" where
  "daemon_at m rs sp w \<equiv> \<lparr>main_thread = m, readers = rs, sender = sp, world = w\<rparr>"

lemma cp_starts:
  assumes "modem_up E"
  shows "\<exists>w'. cld_reachable E (daemon_at M_open rs sp w) (daemon_at M_join (rs @ [R_start]) S_start w') \<and> cp_same w w'"
proof -
  obtain w1 where w1: "main_step E (daemon_at M_open rs sp w) = Some (daemon_at M_wait rs sp w1)" "cp_same w w1"
    using cp_opens [OF assms, of "daemon_at M_open rs sp w"] by auto
  define w2 where "w2 = snd (cld_syscall E (modem_status (fd (lb w1))) w1)"
  define w3 where "w3 = snd (cld_syscall E create_rx w2)"
  define w4 where "w4 = snd (cld_syscall E create_tx w3)"
  have "cp_same w w4" using w1(2) cp_same_syscall cp_same_trans unfolding w4_def w3_def w2_def by metis
  moreover have "main_step E (daemon_at M_wait rs sp w1) = Some (daemon_at M_create_rx rs sp w2)"
    "main_step E (daemon_at M_create_rx rs sp w2) = Some (daemon_at M_create_tx (rs @ [R_start]) sp w3)"
    "main_step E (daemon_at M_create_tx (rs @ [R_start]) sp w3) = Some (daemon_at M_join (rs @ [R_start]) S_start w4)"
    using assms by (simp_all add: main_step_def w2_def w3_def w4_def cld_syscall_def modem_up_def)
  ultimately show ?thesis
    using w1(1) cld_reachable_refl cld_reachable_step cld_step.main by metis
qed

lemma cp_ends:
  assumes "modem_up E" "cp_mode (lb w)" "\<not> ap_mode (lb w)" "if n = 0 then alarm_fd (lb w) = 0 else close_fd 0 \<in> set (cld_calls w)"
  shows "\<exists>w'. cld_reachable E (daemon_at M_join rs S_start w) (daemon_at M_open rs S_done w') \<and>
    mode (lb w') = mode (lb w) \<and> close_fd 0 \<in> set (cld_calls w')"
proof -
  obtain ret w1 where w1: "0 \<le> ret" "sender_start E w = (S_exit ret, w1)" "cp_same w w1" using cp_sender [OF assms(1-3)] by blast
  let ?u = "cld_wake_lock E False WRITE_LOCK w1"
  have u: "cp_same w ?u" using w1(3) cp_same_wake by (rule cp_same_trans)
  then have "if n = 0 then alarm_fd (lb ?u) = 0 else close_fd 0 \<in> set (cld_calls ?u)"
    using assms(4) by (auto simp: cp_same_def split: if_splits)
  from cp_unset [OF assms(1) this] obtain w2 where w2: "unset_alarm E ?u = Some w2" "mode (lb w2) = mode (lb ?u)" "close_fd 0 \<in> set (cld_calls w2)"
    by blast
  define w3 where "w3 = cld_emit (close_fd (fd (lb w2))) w2"
  have s1: "cld_step E (daemon_at M_join rs S_start w) (daemon_at M_join rs (S_exit ret) w1)"
    using cld_step.sender [of "daemon_at M_join rs S_start w" E "S_exit ret" w1] w1(2) by (simp add: sender_step_def)
  have "\<not> ap_mode (lb w1)" using w1(3) assms(3) by (simp add: cp_same_def ap_mode_def)
  then have s2: "cld_step E (daemon_at M_join rs (S_exit ret) w1) (daemon_at M_join rs S_done w1)"
    using cld_step.sender [of "daemon_at M_join rs (S_exit ret) w1" E S_done w1] w1(1) by (simp add: sender_step_def)
  have s3: "cld_step E (daemon_at M_join rs S_done w1) (daemon_at M_open rs S_done w3)"
    using w2(1) by (intro cld_step.main) (simp add: main_step_def w3_def)
  have "cld_reachable E (daemon_at M_join rs S_start w) (daemon_at M_open rs S_done w3)"
    using s1 s2 s3 cld_reachable_refl cld_reachable_step by metis
  moreover have "mode (lb w3) = mode (lb w)" "close_fd 0 \<in> set (cld_calls w3)" using w2(2,3) u by (simp_all add: w3_def cld_emit_def cp_same_def)
  ultimately show ?thesis by blast
qed

lemma cld_reachable_trans: "cld_reachable E d' d'' \<Longrightarrow> cld_reachable E d d' \<Longrightarrow> cld_reachable E d d''"
  by (induction rule: cld_reachable.induct) (auto intro: cld_reachable_step)

lemma cp_round:
  assumes "modem_up E" "cp_idle n d"
  shows "\<exists>d'. cld_reachable E d d' \<and> cp_idle (Suc n) d'"
proof -
  define w where "w = world d"
  have d: "d = daemon_at M_open (replicate n R_start) S_done w" and w: "cp_mode (lb w)" "\<not> ap_mode (lb w)"
    "if n = 0 then alarm_fd (lb w) = 0 else close_fd 0 \<in> set (cld_calls w)"
    using assms(2) by (simp_all add: cp_idle_def w_def)
  obtain w1 where r1: "cld_reachable E d (daemon_at M_join (replicate (Suc n) R_start) S_start w1)" and s: "cp_same w w1"
    using cp_starts [OF assms(1), of "replicate n R_start" S_done w] d by (auto simp: replicate_append_same)
  have "cp_mode (lb w1)" "\<not> ap_mode (lb w1)" "if n = 0 then alarm_fd (lb w1) = 0 else close_fd 0 \<in> set (cld_calls w1)"
    using w s by (auto simp: cp_same_def ap_mode_def cp_mode_def split: if_splits)
  from cp_ends [OF assms(1) this, of "replicate (Suc n) R_start"] obtain w2
    where r2: "cld_reachable E (daemon_at M_join (replicate (Suc n) R_start) S_start w1) (daemon_at M_open (replicate (Suc n) R_start) S_done w2)"
      "mode (lb w2) = mode (lb w1)" "close_fd 0 \<in> set (cld_calls w2)" by blast
  have "cp_idle (Suc n) (daemon_at M_open (replicate (Suc n) R_start) S_done w2)"
    using r2(2,3) w s by (simp add: cp_idle_def cp_same_def ap_mode_def cp_mode_def)
  with cld_reachable_trans [OF r2(1) r1] show ?thesis by blast
qed

text \<open>
  In the mode in which only the modem sends (\<open>cld -r\<close>) the sender ends after
  its start packet without waiting for the reader, and the main thread, which joins only the sender,
  starts over: however large \<open>n\<close> is, the daemon can have \<open>n\<close> reader threads none of which has ended. On
  its first round it also closes file descriptor 0, because the alarm descriptor is still zero.
\<close>

theorem cp_mode_spawns_readers:
  assumes "modem_up E" "cld_start [(CHR ''r'', None)] = Some d"
  shows "\<exists>d'. cld_reachable E d d' \<and> readers d' = replicate n R_start \<and> (n \<noteq> 0 \<longrightarrow> close_fd 0 \<in> set (cld_calls (world d')))"
proof -
  have "cp_idle 0 d" using assms(2)
    by (auto simp: cld_start_def get_cld_args_def zero_args_def cp_idle_def cp_mode_def ap_mode_def bit_numeral_rec)
  then have "\<exists>d'. cld_reachable E d d' \<and> cp_idle n d'"
  proof (induction n)
    case 0
    then show ?case using cld_reachable_refl by blast
  next
    case (Suc n)
    then show ?case using cp_round [OF assms(1)] cld_reachable_trans by blast
  qed
  then show ?thesis by (auto simp: cp_idle_def split: if_splits)
qed

text \<open>
  The distance of two sequence numbers is one too small after the numbers have wrapped around: a
  modem that has not acknowledged three packets is then still taken for healthy.
\<close>

lemma seq_diff_wraps:
  assumes "0 \<le> a" "a < 256" "0 \<le> b" "b < 256"
  shows "seq_diff a b = (a - b) mod 256 - (if a < b then 1 else 0)"
proof (cases "a < b")
  case True
  then have "(a - b) mod 256 = a - b + 256" using assms by (intro int_mod_pos_eq [of _ _ "-1"]) simp_all
  with True show ?thesis by (simp add: seq_diff_def)
next
  case False
  with assms show ?thesis by (simp add: seq_diff_def)
qed

section \<open>Concrete runs\<close>

text \<open>A modem that is always online, at ten o'clock, where every call succeeds.\<close>

definition calm :: cld_env where
  "calm = \<lparr>cld_sys = (\<lambda>cs c. case c of modem_status _ \<Rightarrow> STATE_ONLINE | create_rx \<Rightarrow> 0 | create_tx \<Rightarrow> 0 | get_cp_reset \<Rightarrow> 0
       | select_fd b _ \<Rightarrow> (if b then 1 else 0) | read_node _ m \<Rightarrow> (if reads cs = 0 then 400 else m) | _ \<Rightarrow> 7),
     cld_eintr = (\<lambda>cs c. False), cld_rtc = (\<lambda>cs. \<lparr>tm_sec = 0, tm_min = 0, tm_hour = 10\<rparr>), cld_data = (\<lambda>cs i. 1), cld_heap = (\<lambda>i. 0)\<rparr>"

definition first_world :: cld_world where
  "first_world = \<lparr>lb = zero_args\<lparr>mode := 1, tx_packet := 438, tx_interval := 5, duration := 60, alarm_fd := -1\<rparr>,
     rtc_temp = \<lparr>tm_sec = 0, tm_min = 0, tm_hour = 0\<rparr>, cld_calls = []\<rparr>"

theorem alarm_next_time_witness:
  "\<exists>ret w' next. set_alarm calm first_world = Some (ret, w') \<and> RTC_ALM_SET (alarm_fd (lb w')) next \<in> set (cld_calls w') \<and>
     rtc_seconds next = 36005"
  using alarm_next_time [of calm first_world]
  by (auto simp: calm_def first_world_def rtc_works_def valid_rtc_def rtc_seconds_def)

theorem lb_sends_bounded_witness:
  "\<exists>d. cld_start [(CHR ''s'', None), (CHR ''d'', Some ''10'')] = Some d \<and> sends (cld_calls (world d)) \<le> 10"
proof -
  obtain d where d: "cld_start [(CHR ''s'', None), (CHR ''d'', Some ''10'')] = Some d" "ap_mode (lb (world d))" "\<not> forever (lb (world d))"
    "duration (lb (world d)) = 10"
    by (simp add: cld_start_def get_cld_args_def zero_args_def ap_mode_def arg_value_def strtoul_def is_space_def is_digit_def digits_value_def
        to_long_def)
  from lb_sends_bounded [OF d(1-3) cld_reachable_refl [of calm]] d show ?thesis by auto
qed

theorem timeout_deafens_reader_witness:
  "deaf (readers \<lparr>main_thread = M_join, readers = [R_loop \<lparr>alloc_size = 438, timeout_sec = 5, rst_old = 0, rfds = False, buff = (\<lambda>i. 0)\<rparr>],
     sender = S_done, world = first_world\<rparr> ! 0)"
  using timeout_deafens_reader [of calm 0 "daemon_at M_join [R_loop \<lparr>alloc_size = 438, timeout_sec = 5, rst_old = 0, rfds = False, buff = (\<lambda>i. 0)\<rparr>]
      S_done first_world" "\<lparr>alloc_size = 438, timeout_sec = 5, rst_old = 0, rfds = True, buff = (\<lambda>i. 0)\<rparr>", OF _ _ _ cld_reachable_refl]
  by (simp add: calm_def select_honest_def)

theorem reader_overflow_witness:
  "fst (reader_step calm (fst (reader_step calm (R_loop \<lparr>alloc_size = 438, timeout_sec = 5, rst_old = 0, rfds = True, buff = (\<lambda>i. 0)\<rparr>) first_world))
     (snd (reader_step calm (R_loop \<lparr>alloc_size = 438, timeout_sec = 5, rst_old = 0, rfds = True, buff = (\<lambda>i. 0)\<rparr>) first_world))) = R_overflow"
  by (rule reader_overflow [where n = 400 and cs = "[]"]) (simp_all add: calm_def first_world_def zero_args_def hdr_len_def reads_def)

theorem cp_mode_spawns_readers_witness:
  "\<exists>d d'. cld_start [(CHR ''r'', None)] = Some d \<and> cld_reachable calm d d' \<and> readers d' = [R_start, R_start, R_start]"
proof -
  obtain d where d: "cld_start [(CHR ''r'', None)] = Some d" by (simp add: cld_start_def get_cld_args_def)
  have "modem_up calm" by (simp add: modem_up_def calm_def)
  from cp_mode_spawns_readers [OF this d, of 3] d show ?thesis by (auto simp: numeral_eq_Suc)
qed

end
