(* ===== verification/V4l2_Device.thy ===== *)
theory V4l2_Device
  imports Exynos_Prelude "HOL-Library.Sublist"
begin

text \<open>
  The wrappers around video devices and their sub-devices, \<open>libv4l2/exynos_v4l2.c\<close> and
  \<open>libv4l2/exynos_subdev.c\<close>: the search for a device by name, opening and closing, the enumeration of
  formats, and one function per ioctl that checks its arguments. The kernel is an environment: what
  a call returns, its errno and the structure it leaves behind may depend on all calls made before,
  and every call is recorded in a log. The theorems show which device is found, that every ioctl
  gets the arguments it was checked for, and when the search for a sub-device does not end.
\<close>

section \<open>Devices and calls\<close>

datatype ftype = S_IFCHR | S_IFLNK | S_IFOTHER

record v4l2_stat =
  st_type :: ftype
  st_rdev :: nat

datatype path = Dev_video nat | Sysfs_video nat | Dev_subdev nat | Sysfs_subdev nat | File string

text \<open>
  The fields the code reads of the structures it passes: the buffer type, the kind of memory, the
  index, pixel format and capabilities of a query, the id and value of a control; the rest is opaque.
\<close>

record v4l2_struct =
  buf_type :: u32
  memory_kind :: u32
  index :: u32
  pixelformat :: u32
  capabilities :: u32
  ctrl_id :: u32
  ctrl_value :: int
  input_name :: string
  rest :: int

datatype vidioc =
    VIDIOC_ENUMINPUT | VIDIOC_S_INPUT | VIDIOC_QUERYCAP | VIDIOC_ENUM_FMT | VIDIOC_G_FMT | VIDIOC_TRY_FMT | VIDIOC_S_FMT
  | VIDIOC_REQBUFS | VIDIOC_QUERYBUF | VIDIOC_QBUF | VIDIOC_DQBUF | VIDIOC_STREAMON | VIDIOC_STREAMOFF | VIDIOC_CROPCAP
  | VIDIOC_G_CROP | VIDIOC_S_CROP | VIDIOC_G_CTRL | VIDIOC_S_CTRL | VIDIOC_PREPARE_BUF | VIDIOC_G_PARM | VIDIOC_S_PARM
  | VIDIOC_G_EXT_CTRLS | VIDIOC_S_EXT_CTRLS
  | VIDIOC_SUBDEV_ENUM_FRAME_SIZE | VIDIOC_SUBDEV_G_FMT | VIDIOC_SUBDEV_S_FMT | VIDIOC_SUBDEV_G_CROP | VIDIOC_SUBDEV_S_CROP
  | VIDIOC_SUBDEV_ENUM_FRAME_INTERVAL | VIDIOC_SUBDEV_G_FRAME_INTERVAL | VIDIOC_SUBDEV_S_FRAME_INTERVAL
  | VIDIOC_SUBDEV_ENUM_MBUS_CODE

text \<open>The argument of an ioctl is None when it is a NULL pointer.\<close>

datatype v4l2_call = open_dev path int | close_dev int | ioctl_dev int vidioc "v4l2_struct option"

record v4l2_env =
  v4l2_sys :: "v4l2_call list \<Rightarrow> v4l2_call \<Rightarrow> int"
  v4l2_errno :: "v4l2_call list \<Rightarrow> v4l2_call \<Rightarrow> int"
  v4l2_out :: "v4l2_call list \<Rightarrow> v4l2_call \<Rightarrow> v4l2_struct"
  v4l2_lstat :: "path \<Rightarrow> v4l2_stat option"
  v4l2_fopen :: "path \<Rightarrow> string option"

type_synonym v4l2_log = "v4l2_call list"

text \<open>An ioctl on a structure, and one whose argument may be NULL; it returns what the structure then holds.\<close>

definition ioctl_struct :: "v4l2_env \<Rightarrow> int \<Rightarrow> vidioc \<Rightarrow> v4l2_struct \<Rightarrow> v4l2_log \<Rightarrow> int \<times> v4l2_struct \<times> v4l2_log" where
  "ioctl_struct E fd req s cs = (let c = ioctl_dev fd req (Some s) in (v4l2_sys E cs c, v4l2_out E cs c, c # cs))"

definition v4l2_ioctl :: "v4l2_env \<Rightarrow> int \<Rightarrow> vidioc \<Rightarrow> v4l2_struct option \<Rightarrow> v4l2_log \<Rightarrow> int \<times> v4l2_struct option \<times> v4l2_log" where
  "v4l2_ioctl E fd req arg cs =
     (case arg of
        None \<Rightarrow> (v4l2_sys E cs (ioctl_dev fd req None), None, ioctl_dev fd req None # cs)
      | Some s \<Rightarrow> let (ret, out, cs) = ioctl_struct E fd req s cs in (ret, Some out, cs))"

text \<open>A structure on the stack whose fields the code does not set is taken to be zero there.\<close>

definition zero_struct :: v4l2_struct where
  "zero_struct = \<lparr>buf_type = 0, memory_kind = 0, index = 0, pixelformat = 0, capabilities = 0, ctrl_id = 0, ctrl_value = 0, input_name = [], rest = 0\<rparr>"

section \<open>Opening\<close>

text \<open>The types \<open>VIDEO_CAPTURE\<close>, \<open>VIDEO_OUTPUT\<close>, \<open>VIDEO_OVERLAY\<close>, the two \<open>MPLANE\<close> types, and private ones.\<close>

definition v4l2_check_buf_type :: "u32 \<Rightarrow> bool" where
  "v4l2_check_buf_type t \<longleftrightarrow> t = 1 \<or> t = 9 \<or> t = 2 \<or> t = 10 \<or> t = 3 \<or> 0x80 \<le> t"

definition exynos_v4l2_open :: "v4l2_env \<Rightarrow> path \<Rightarrow> int \<Rightarrow> v4l2_log \<Rightarrow> int \<times> v4l2_log" where
  "exynos_v4l2_open E filename oflag cs = (v4l2_sys E cs (open_dev filename oflag), open_dev filename oflag # cs)"

text \<open>\<open>fgets\<close> with a buffer of 64 bytes: the first line with its newline, at most 63 characters.\<close>

definition fgets64 :: "string \<Rightarrow> string option" where
  "fgets64 content =
     (let line = takeWhile (\<lambda>c. c \<noteq> CHR 0x0A) content;
          line = (if length line < length content then line @ [CHR 0x0A] else line)
      in if content = [] then None else Some (take 63 line))"

text \<open>\<open>strncmp(name, devname, strlen(devname)) == 0\<close>, for strings that end at their first NUL.\<close>

definition c_string :: "string \<Rightarrow> string" where
  "c_string s = takeWhile (\<lambda>c. c \<noteq> CHR 0x00) s"

definition name_matches :: "string \<Rightarrow> string \<Rightarrow> bool" where
  "name_matches devname name \<longleftrightarrow> prefix (c_string devname) (c_string name)"

definition is_video_node :: "v4l2_stat option \<Rightarrow> bool" where
  "is_video_node s = (case s of None \<Rightarrow> False | Some st \<Rightarrow> st_type st = S_IFCHR \<and> st_rdev st mod 65536 div 256 = 81)"

datatype search = Found nat | Not_found | Symlink

function video_search :: "v4l2_env \<Rightarrow> string \<Rightarrow> nat \<Rightarrow> search" where
  "video_search E devname i =
     (if 255 < i then Not_found
      else if is_video_node (v4l2_lstat E (Dev_video i)) then
        (if map_option st_type (v4l2_lstat E (Dev_video i)) = Some S_IFLNK then Symlink
         else case v4l2_fopen E (Sysfs_video i) of
                None \<Rightarrow> video_search E devname (i + 1)
              | Some content \<Rightarrow>
                  (case fgets64 content of
                     None \<Rightarrow> video_search E devname (i + 1)
                   | Some name \<Rightarrow> if name_matches devname name then Found i else video_search E devname (i + 1)))
      else video_search E devname (i + 1))"
  by pat_completeness auto
termination by (relation "measure (\<lambda>(E, d, i). 256 - i)") auto

definition exynos_v4l2_open_devname :: "v4l2_env \<Rightarrow> string \<Rightarrow> int \<Rightarrow> v4l2_log \<Rightarrow> int \<times> v4l2_log" where
  "exynos_v4l2_open_devname E devname oflag cs =
     (case video_search E devname 0 of
        Found i \<Rightarrow> exynos_v4l2_open E (Dev_video i) oflag cs
      | Not_found \<Rightarrow> (-1, cs)
      | Symlink \<Rightarrow> (-1, cs))"

definition exynos_v4l2_close :: "v4l2_env \<Rightarrow> int \<Rightarrow> v4l2_log \<Rightarrow> int \<times> v4l2_log" where
  "exynos_v4l2_close E fd cs = (if fd < 0 then (-1, cs) else (v4l2_sys E cs (close_dev fd), close_dev fd # cs))"

section \<open>Queries\<close>

text \<open>The name of an input, when there is one.\<close>

definition exynos_v4l2_enuminput :: "v4l2_env \<Rightarrow> int \<Rightarrow> u32 \<Rightarrow> v4l2_log \<Rightarrow> string option \<times> v4l2_log" where
  "exynos_v4l2_enuminput E fd i cs =
     (if fd < 0 then (None, cs)
      else let (ret, out, cs) = ioctl_struct E fd VIDIOC_ENUMINPUT (zero_struct\<lparr>index := i\<rparr>) cs in
           if ret \<noteq> 0 then (None, cs) else (Some (take 32 (c_string (input_name out))), cs))"

definition exynos_v4l2_s_input :: "v4l2_env \<Rightarrow> int \<Rightarrow> u32 \<Rightarrow> v4l2_log \<Rightarrow> int \<times> v4l2_log" where
  "exynos_v4l2_s_input E fd i cs =
     (if fd < 0 then (-1, cs)
      else let (ret, out, cs) = ioctl_struct E fd VIDIOC_S_INPUT (zero_struct\<lparr>index := i\<rparr>) cs in (ret, cs))"

text \<open>The capabilities \<open>VIDEO_CAPTURE\<close>, \<open>VIDEO_CAPTURE_MPLANE\<close>, \<open>VIDEO_OUTPUT\<close>, \<open>VIDEO_OUTPUT_MPLANE\<close>, \<open>VIDEO_OVERLAY\<close>.\<close>

definition exynos_v4l2_querycap :: "v4l2_env \<Rightarrow> int \<Rightarrow> u32 \<Rightarrow> v4l2_log \<Rightarrow> bool \<times> v4l2_log" where
  "exynos_v4l2_querycap E fd need_caps cs =
     (if fd < 0 then (False, cs)
      else if need_caps AND 0x1 = 0 \<and> need_caps AND 0x1000 = 0 \<and> need_caps AND 0x2 = 0 \<and> need_caps AND 0x2000 = 0 \<and> need_caps AND 0x4 = 0
      then (False, cs)
      else let (ret, out, cs) = ioctl_struct E fd VIDIOC_QUERYCAP zero_struct cs in
           if ret \<noteq> 0 then (False, cs) else (need_caps AND capabilities out = need_caps, cs))"

text \<open>The enumeration of formats; it goes on as long as the driver answers.\<close>

partial_function (option) enum_fmt_loop :: "v4l2_env \<Rightarrow> int \<Rightarrow> v4l2_struct \<Rightarrow> u32 \<Rightarrow> v4l2_log \<Rightarrow> (bool \<times> v4l2_log) option" where
  "enum_fmt_loop E fd fmtdesc fmt cs =
     (let (ret, fmtdesc, cs) = ioctl_struct E fd VIDIOC_ENUM_FMT fmtdesc cs in
      if ret \<noteq> 0 then Some (False, cs)
      else if pixelformat fmtdesc = fmt then Some (True, cs)
      else enum_fmt_loop E fd (fmtdesc\<lparr>index := index fmtdesc + 1\<rparr>) fmt cs)"

definition exynos_v4l2_enum_fmt :: "v4l2_env \<Rightarrow> int \<Rightarrow> u32 \<Rightarrow> u32 \<Rightarrow> v4l2_log \<Rightarrow> (bool \<times> v4l2_log) option" where
  "exynos_v4l2_enum_fmt E fd type fmt cs = enum_fmt_loop E fd (zero_struct\<lparr>buf_type := type, index := 0\<rparr>) fmt cs"

section \<open>Requests\<close>

text \<open>What the functions check of the structure before they pass it on.\<close>

definition type_ok :: "v4l2_struct \<Rightarrow> bool" where
  "type_ok s \<longleftrightarrow> v4l2_check_buf_type (buf_type s)"

definition memory_ok :: "v4l2_struct \<Rightarrow> bool" where
  "memory_ok s \<longleftrightarrow> memory_kind s = 1 \<or> memory_kind s = 2 \<or> memory_kind s = 4"

definition mmap_or_dmabuf :: "v4l2_struct \<Rightarrow> bool" where
  "mmap_or_dmabuf s \<longleftrightarrow> memory_kind s = 1 \<or> memory_kind s = 4"

type_synonym v4l2_result = "int \<times> v4l2_struct option \<times> v4l2_log"

definition exynos_v4l2_g_fmt :: "v4l2_env \<Rightarrow> int \<Rightarrow> v4l2_struct option \<Rightarrow> v4l2_log \<Rightarrow> v4l2_result" where
  "exynos_v4l2_g_fmt E fd fmt cs =
     (if fd < 0 then (-1, fmt, cs)
      else case fmt of
             None \<Rightarrow> (-1, fmt, cs)
           | Some s \<Rightarrow> if \<not> type_ok s then (-1, fmt, cs) else v4l2_ioctl E fd VIDIOC_G_FMT fmt cs)"

definition v4l2_s_fmt :: "v4l2_env \<Rightarrow> int \<Rightarrow> vidioc \<Rightarrow> v4l2_struct option \<Rightarrow> v4l2_log \<Rightarrow> v4l2_result" where
  "v4l2_s_fmt E fd request fmt cs =
     (if fd < 0 then (-1, fmt, cs)
      else case fmt of
             None \<Rightarrow> (-1, fmt, cs)
           | Some s \<Rightarrow> if \<not> type_ok s then (-1, fmt, cs) else v4l2_ioctl E fd request fmt cs)"

definition exynos_v4l2_try_fmt :: "v4l2_env \<Rightarrow> int \<Rightarrow> v4l2_struct option \<Rightarrow> v4l2_log \<Rightarrow> v4l2_result" where
  "exynos_v4l2_try_fmt E fd fmt cs = v4l2_s_fmt E fd VIDIOC_TRY_FMT fmt cs"

definition exynos_v4l2_s_fmt :: "v4l2_env \<Rightarrow> int \<Rightarrow> v4l2_struct option \<Rightarrow> v4l2_log \<Rightarrow> v4l2_result" where
  "exynos_v4l2_s_fmt E fd fmt cs = v4l2_s_fmt E fd VIDIOC_S_FMT fmt cs"

definition exynos_v4l2_reqbufs :: "v4l2_env \<Rightarrow> int \<Rightarrow> v4l2_struct option \<Rightarrow> v4l2_log \<Rightarrow> v4l2_result" where
  "exynos_v4l2_reqbufs E fd req cs =
     (if fd < 0 then (-1, req, cs)
      else case req of
             None \<Rightarrow> (-1, req, cs)
           | Some s \<Rightarrow> if \<not> memory_ok s then (-1, req, cs) else if \<not> type_ok s then (-1, req, cs)
                      else v4l2_ioctl E fd VIDIOC_REQBUFS req cs)"

definition exynos_v4l2_querybuf :: "v4l2_env \<Rightarrow> int \<Rightarrow> v4l2_struct option \<Rightarrow> v4l2_log \<Rightarrow> v4l2_result" where
  "exynos_v4l2_querybuf E fd buf cs =
     (if fd < 0 then (-1, buf, cs)
      else case buf of
             None \<Rightarrow> (-1, buf, cs)
           | Some s \<Rightarrow> if \<not> mmap_or_dmabuf s then (-1, buf, cs) else if \<not> type_ok s then (-1, buf, cs)
                      else v4l2_ioctl E fd VIDIOC_QUERYBUF buf cs)"

definition exynos_v4l2_qbuf :: "v4l2_env \<Rightarrow> int \<Rightarrow> v4l2_struct option \<Rightarrow> v4l2_log \<Rightarrow> v4l2_result" where
  "exynos_v4l2_qbuf E fd buf cs =
     (if fd < 0 then (-1, buf, cs)
      else case buf of
             None \<Rightarrow> (-1, buf, cs)
           | Some s \<Rightarrow> if \<not> memory_ok s then (-1, buf, cs) else if \<not> type_ok s then (-1, buf, cs)
                      else v4l2_ioctl E fd VIDIOC_QBUF buf cs)"

abbreviation (input) EAGAIN :: int where "EAGAIN \<equiv> 11"

definition exynos_v4l2_dqbuf :: "v4l2_env \<Rightarrow> int \<Rightarrow> v4l2_struct option \<Rightarrow> v4l2_log \<Rightarrow> v4l2_result" where
  "exynos_v4l2_dqbuf E fd buf cs =
     (if fd < 0 then (-1, buf, cs)
      else case buf of
             None \<Rightarrow> (-1, buf, cs)
           | Some s \<Rightarrow>
               if \<not> memory_ok s then (-1, buf, cs) else if \<not> type_ok s then (-1, buf, cs)
               else let (ret, out, cs') = v4l2_ioctl E fd VIDIOC_DQBUF buf cs in
                    if ret \<noteq> 0 \<and> v4l2_errno E cs (ioctl_dev fd VIDIOC_DQBUF buf) = EAGAIN then (- EAGAIN, out, cs') else (ret, out, cs'))"

text \<open>The two functions that take a buffer type pass its address.\<close>

definition exynos_v4l2_streamon :: "v4l2_env \<Rightarrow> int \<Rightarrow> u32 \<Rightarrow> v4l2_log \<Rightarrow> int \<times> v4l2_log" where
  "exynos_v4l2_streamon E fd type cs =
     (if fd < 0 then (-1, cs)
      else if \<not> v4l2_check_buf_type type then (-1, cs)
      else let (ret, out, cs) = ioctl_struct E fd VIDIOC_STREAMON (zero_struct\<lparr>buf_type := type\<rparr>) cs in (ret, cs))"

definition exynos_v4l2_streamoff :: "v4l2_env \<Rightarrow> int \<Rightarrow> u32 \<Rightarrow> v4l2_log \<Rightarrow> int \<times> v4l2_log" where
  "exynos_v4l2_streamoff E fd type cs =
     (if fd < 0 then (-1, cs)
      else if \<not> v4l2_check_buf_type type then (-1, cs)
      else let (ret, out, cs) = ioctl_struct E fd VIDIOC_STREAMOFF (zero_struct\<lparr>buf_type := type\<rparr>) cs in (ret, cs))"

definition exynos_v4l2_cropcap :: "v4l2_env \<Rightarrow> int \<Rightarrow> v4l2_struct option \<Rightarrow> v4l2_log \<Rightarrow> v4l2_result" where
  "exynos_v4l2_cropcap E fd crop cs =
     (if fd < 0 then (-1, crop, cs)
      else case crop of
             None \<Rightarrow> (-1, crop, cs)
           | Some s \<Rightarrow> if \<not> type_ok s then (-1, crop, cs) else v4l2_ioctl E fd VIDIOC_CROPCAP crop cs)"

definition exynos_v4l2_g_crop :: "v4l2_env \<Rightarrow> int \<Rightarrow> v4l2_struct option \<Rightarrow> v4l2_log \<Rightarrow> v4l2_result" where
  "exynos_v4l2_g_crop E fd crop cs =
     (if fd < 0 then (-1, crop, cs)
      else case crop of
             None \<Rightarrow> (-1, crop, cs)
           | Some s \<Rightarrow> if \<not> type_ok s then (-1, crop, cs) else v4l2_ioctl E fd VIDIOC_G_CROP crop cs)"

definition exynos_v4l2_s_crop :: "v4l2_env \<Rightarrow> int \<Rightarrow> v4l2_struct option \<Rightarrow> v4l2_log \<Rightarrow> v4l2_result" where
  "exynos_v4l2_s_crop E fd crop cs =
     (if fd < 0 then (-1, crop, cs)
      else case crop of
             None \<Rightarrow> (-1, crop, cs)
           | Some s \<Rightarrow> if \<not> type_ok s then (-1, crop, cs) else v4l2_ioctl E fd VIDIOC_S_CROP crop cs)"

text \<open>The value of a control is stored when the ioctl succeeds.\<close>

definition exynos_v4l2_g_ctrl :: "v4l2_env \<Rightarrow> int \<Rightarrow> u32 \<Rightarrow> int \<Rightarrow> v4l2_log \<Rightarrow> int \<times> int \<times> v4l2_log" where
  "exynos_v4l2_g_ctrl E fd ctl val cs =
     (if fd < 0 then (-1, val, cs)
      else let (ret, out, cs) = ioctl_struct E fd VIDIOC_G_CTRL (zero_struct\<lparr>ctrl_id := ctl\<rparr>) cs in
           if ret \<noteq> 0 then (ret, val, cs) else (ret, ctrl_value out, cs))"

definition exynos_v4l2_s_ctrl :: "v4l2_env \<Rightarrow> int \<Rightarrow> u32 \<Rightarrow> int \<Rightarrow> v4l2_log \<Rightarrow> int \<times> v4l2_log" where
  "exynos_v4l2_s_ctrl E fd ctl val cs =
     (if fd < 0 then (-1, cs)
      else let (ret, out, cs) = ioctl_struct E fd VIDIOC_S_CTRL (zero_struct\<lparr>ctrl_id := ctl, ctrl_value := val\<rparr>) cs in (ret, cs))"

definition exynos_v4l2_prepare :: "v4l2_env \<Rightarrow> int \<Rightarrow> v4l2_struct option \<Rightarrow> v4l2_log \<Rightarrow> v4l2_result" where
  "exynos_v4l2_prepare E fd arg cs = (if fd < 0 then (-1, arg, cs) else v4l2_ioctl E fd VIDIOC_PREPARE_BUF arg cs)"

text \<open>The stream parameters are read without a check for NULL; None is this read.\<close>

definition exynos_v4l2_g_parm :: "v4l2_env \<Rightarrow> int \<Rightarrow> v4l2_struct option \<Rightarrow> v4l2_log \<Rightarrow> v4l2_result option" where
  "exynos_v4l2_g_parm E fd streamparm cs =
     (if fd < 0 then Some (-1, streamparm, cs)
      else case streamparm of
             None \<Rightarrow> None
           | Some s \<Rightarrow> if \<not> type_ok s then Some (-1, streamparm, cs) else Some (v4l2_ioctl E fd VIDIOC_G_PARM streamparm cs))"

definition exynos_v4l2_s_parm :: "v4l2_env \<Rightarrow> int \<Rightarrow> v4l2_struct option \<Rightarrow> v4l2_log \<Rightarrow> v4l2_result option" where
  "exynos_v4l2_s_parm E fd streamparm cs =
     (if fd < 0 then Some (-1, streamparm, cs)
      else case streamparm of
             None \<Rightarrow> None
           | Some s \<Rightarrow> if \<not> type_ok s then Some (-1, streamparm, cs) else Some (v4l2_ioctl E fd VIDIOC_S_PARM streamparm cs))"

definition exynos_v4l2_g_ext_ctrl :: "v4l2_env \<Rightarrow> int \<Rightarrow> v4l2_struct option \<Rightarrow> v4l2_log \<Rightarrow> v4l2_result" where
  "exynos_v4l2_g_ext_ctrl E fd ctrl cs =
     (if fd < 0 \<or> ctrl = None then (-1, ctrl, cs) else v4l2_ioctl E fd VIDIOC_G_EXT_CTRLS ctrl cs)"

definition exynos_v4l2_s_ext_ctrl :: "v4l2_env \<Rightarrow> int \<Rightarrow> v4l2_struct option \<Rightarrow> v4l2_log \<Rightarrow> v4l2_result" where
  "exynos_v4l2_s_ext_ctrl E fd ctrl cs =
     (if fd < 0 \<or> ctrl = None then (-1, ctrl, cs) else v4l2_ioctl E fd VIDIOC_S_EXT_CTRLS ctrl cs)"

section \<open>Sub-devices\<close>

definition exynos_subdev_open :: "v4l2_env \<Rightarrow> path \<Rightarrow> int \<Rightarrow> v4l2_log \<Rightarrow> int \<times> v4l2_log" where
  "exynos_subdev_open E filename oflag cs = (v4l2_sys E cs (open_dev filename oflag), open_dev filename oflag # cs)"

text \<open>The search; when the name cannot be opened the loop goes on with the same node.\<close>

partial_function (option) subdev_search :: "v4l2_env \<Rightarrow> string \<Rightarrow> nat \<Rightarrow> search option" where
  "subdev_search E devname i =
     (if 63 < i then Some Not_found
      else if is_video_node (v4l2_lstat E (Dev_subdev i)) then
        (if map_option st_type (v4l2_lstat E (Dev_subdev i)) = Some S_IFLNK then Some Symlink
         else case v4l2_fopen E (Sysfs_subdev i) of
                None \<Rightarrow> subdev_search E devname i
              | Some content \<Rightarrow>
                  (case fgets64 content of
                     None \<Rightarrow> subdev_search E devname (i + 1)
                   | Some name \<Rightarrow> if name_matches devname name then Some (Found i) else subdev_search E devname (i + 1)))
      else subdev_search E devname (i + 1))"

definition exynos_subdev_get_node_num :: "v4l2_env \<Rightarrow> string \<Rightarrow> int option" where
  "exynos_subdev_get_node_num E devname =
     map_option (\<lambda>s. case s of Found i \<Rightarrow> int i | Not_found \<Rightarrow> -1 | Symlink \<Rightarrow> -1) (subdev_search E devname 0)"

definition exynos_subdev_open_devname :: "v4l2_env \<Rightarrow> string \<Rightarrow> int \<Rightarrow> v4l2_log \<Rightarrow> (int \<times> v4l2_log) option" where
  "exynos_subdev_open_devname E devname oflag cs =
     map_option (\<lambda>s. case s of Found i \<Rightarrow> exynos_subdev_open E (Dev_subdev i) oflag cs | Not_found \<Rightarrow> (-1, cs) | Symlink \<Rightarrow> (-1, cs))
       (subdev_search E devname 0)"

definition exynos_subdev_close :: "v4l2_env \<Rightarrow> int \<Rightarrow> v4l2_log \<Rightarrow> int \<times> v4l2_log" where
  "exynos_subdev_close E fd cs = (if fd < 0 then (-1, cs) else (v4l2_sys E cs (close_dev fd), close_dev fd # cs))"

definition exynos_subdev_enum_frame_size :: "v4l2_env \<Rightarrow> int \<Rightarrow> v4l2_struct option \<Rightarrow> v4l2_log \<Rightarrow> v4l2_result" where
  "exynos_subdev_enum_frame_size E fd frame_size_enum cs =
     (if fd < 0 \<or> frame_size_enum = None then (-1, frame_size_enum, cs) else v4l2_ioctl E fd VIDIOC_SUBDEV_ENUM_FRAME_SIZE frame_size_enum cs)"

definition exynos_subdev_g_fmt :: "v4l2_env \<Rightarrow> int \<Rightarrow> v4l2_struct option \<Rightarrow> v4l2_log \<Rightarrow> v4l2_result" where
  "exynos_subdev_g_fmt E fd fmt cs =
     (if fd < 0 \<or> fmt = None then (-1, fmt, cs) else v4l2_ioctl E fd VIDIOC_SUBDEV_G_FMT fmt cs)"

definition exynos_subdev_s_fmt :: "v4l2_env \<Rightarrow> int \<Rightarrow> v4l2_struct option \<Rightarrow> v4l2_log \<Rightarrow> v4l2_result" where
  "exynos_subdev_s_fmt E fd fmt cs =
     (if fd < 0 \<or> fmt = None then (-1, fmt, cs) else v4l2_ioctl E fd VIDIOC_SUBDEV_S_FMT fmt cs)"

definition exynos_subdev_g_crop :: "v4l2_env \<Rightarrow> int \<Rightarrow> v4l2_struct option \<Rightarrow> v4l2_log \<Rightarrow> v4l2_result" where
  "exynos_subdev_g_crop E fd crop cs =
     (if fd < 0 \<or> crop = None then (-1, crop, cs) else v4l2_ioctl E fd VIDIOC_SUBDEV_G_CROP crop cs)"

definition exynos_subdev_s_crop :: "v4l2_env \<Rightarrow> int \<Rightarrow> v4l2_struct option \<Rightarrow> v4l2_log \<Rightarrow> v4l2_result" where
  "exynos_subdev_s_crop E fd crop cs =
     (if fd < 0 \<or> crop = None then (-1, crop, cs) else v4l2_ioctl E fd VIDIOC_SUBDEV_S_CROP crop cs)"

definition exynos_subdev_enum_frame_interval :: "v4l2_env \<Rightarrow> int \<Rightarrow> v4l2_struct option \<Rightarrow> v4l2_log \<Rightarrow> v4l2_result" where
  "exynos_subdev_enum_frame_interval E fd frame_internval_enum cs =
     (if fd < 0 \<or> frame_internval_enum = None then (-1, frame_internval_enum, cs) else v4l2_ioctl E fd VIDIOC_SUBDEV_ENUM_FRAME_INTERVAL frame_internval_enum cs)"

definition exynos_subdev_g_frame_interval :: "v4l2_env \<Rightarrow> int \<Rightarrow> v4l2_struct option \<Rightarrow> v4l2_log \<Rightarrow> v4l2_result" where
  "exynos_subdev_g_frame_interval E fd frame_internval cs =
     (if fd < 0 \<or> frame_internval = None then (-1, frame_internval, cs) else v4l2_ioctl E fd VIDIOC_SUBDEV_G_FRAME_INTERVAL frame_internval cs)"

definition exynos_subdev_s_frame_interval :: "v4l2_env \<Rightarrow> int \<Rightarrow> v4l2_struct option \<Rightarrow> v4l2_log \<Rightarrow> v4l2_result" where
  "exynos_subdev_s_frame_interval E fd frame_internval cs =
     (if fd < 0 \<or> frame_internval = None then (-1, frame_internval, cs) else v4l2_ioctl E fd VIDIOC_SUBDEV_S_FRAME_INTERVAL frame_internval cs)"

definition exynos_subdev_enum_mbus_code :: "v4l2_env \<Rightarrow> int \<Rightarrow> v4l2_struct option \<Rightarrow> v4l2_log \<Rightarrow> v4l2_result" where
  "exynos_subdev_enum_mbus_code E fd mbus_code_enum cs =
     (if fd < 0 \<or> mbus_code_enum = None then (-1, mbus_code_enum, cs) else v4l2_ioctl E fd VIDIOC_SUBDEV_ENUM_MBUS_CODE mbus_code_enum cs)"

section \<open>Checked requests\<close>

text \<open>
  The contract of a function that checks its arguments: it refuses a bad descriptor, a NULL pointer
  and a structure that is not accepted, with -1 and without a call, and otherwise makes the one
  request it is for.
\<close>

locale checked_request =
  fixes E :: v4l2_env and op :: "int \<Rightarrow> v4l2_struct option \<Rightarrow> v4l2_log \<Rightarrow> v4l2_result" and req :: vidioc and accepts :: "v4l2_struct \<Rightarrow> bool"
  assumes refused: "fd < 0 \<or> (\<forall>s. arg = Some s \<longrightarrow> \<not> accepts s) \<Longrightarrow> op fd arg cs = (-1, arg, cs)"
    and passed: "0 \<le> fd \<Longrightarrow> accepts s \<Longrightarrow> snd (op fd (Some s) cs) = (Some (v4l2_out E cs (ioctl_dev fd req (Some s))), ioctl_dev fd req (Some s) # cs)"

text \<open>
  The calls that were checked: what each request requires of its structure. Only
  \<open>exynos_v4l2_enum_fmt\<close> does not check the descriptor.
\<close>

primrec required :: "vidioc \<Rightarrow> v4l2_struct \<Rightarrow> bool" where
  "required VIDIOC_ENUMINPUT s \<longleftrightarrow> True"
| "required VIDIOC_S_INPUT s \<longleftrightarrow> True"
| "required VIDIOC_QUERYCAP s \<longleftrightarrow> True"
| "required VIDIOC_ENUM_FMT s \<longleftrightarrow> True"
| "required VIDIOC_G_FMT s \<longleftrightarrow> type_ok s"
| "required VIDIOC_TRY_FMT s \<longleftrightarrow> type_ok s"
| "required VIDIOC_S_FMT s \<longleftrightarrow> type_ok s"
| "required VIDIOC_REQBUFS s \<longleftrightarrow> memory_ok s \<and> type_ok s"
| "required VIDIOC_QUERYBUF s \<longleftrightarrow> mmap_or_dmabuf s \<and> type_ok s"
| "required VIDIOC_QBUF s \<longleftrightarrow> memory_ok s \<and> type_ok s"
| "required VIDIOC_DQBUF s \<longleftrightarrow> memory_ok s \<and> type_ok s"
| "required VIDIOC_STREAMON s \<longleftrightarrow> type_ok s"
| "required VIDIOC_STREAMOFF s \<longleftrightarrow> type_ok s"
| "required VIDIOC_CROPCAP s \<longleftrightarrow> type_ok s"
| "required VIDIOC_G_CROP s \<longleftrightarrow> type_ok s"
| "required VIDIOC_S_CROP s \<longleftrightarrow> type_ok s"
| "required VIDIOC_G_CTRL s \<longleftrightarrow> True"
| "required VIDIOC_S_CTRL s \<longleftrightarrow> True"
| "required VIDIOC_PREPARE_BUF s \<longleftrightarrow> True"
| "required VIDIOC_G_PARM s \<longleftrightarrow> type_ok s"
| "required VIDIOC_S_PARM s \<longleftrightarrow> type_ok s"
| "required VIDIOC_G_EXT_CTRLS s \<longleftrightarrow> True"
| "required VIDIOC_S_EXT_CTRLS s \<longleftrightarrow> True"
| "required VIDIOC_SUBDEV_ENUM_FRAME_SIZE s \<longleftrightarrow> True"
| "required VIDIOC_SUBDEV_G_FMT s \<longleftrightarrow> True"
| "required VIDIOC_SUBDEV_S_FMT s \<longleftrightarrow> True"
| "required VIDIOC_SUBDEV_G_CROP s \<longleftrightarrow> True"
| "required VIDIOC_SUBDEV_S_CROP s \<longleftrightarrow> True"
| "required VIDIOC_SUBDEV_ENUM_FRAME_INTERVAL s \<longleftrightarrow> True"
| "required VIDIOC_SUBDEV_G_FRAME_INTERVAL s \<longleftrightarrow> True"
| "required VIDIOC_SUBDEV_S_FRAME_INTERVAL s \<longleftrightarrow> True"
| "required VIDIOC_SUBDEV_ENUM_MBUS_CODE s \<longleftrightarrow> True"

definition guarded :: "v4l2_call \<Rightarrow> bool" where
  "guarded c = (case c of
      ioctl_dev fd req arg \<Rightarrow>
        (0 \<le> fd \<or> req = VIDIOC_ENUM_FMT) \<and> (case arg of None \<Rightarrow> req = VIDIOC_PREPARE_BUF | Some s \<Rightarrow> required req s)
    | _ \<Rightarrow> True)"

lemma guarded_simps [simp]:
  "guarded (open_dev p f)" "guarded (close_dev fd)"
  "guarded (ioctl_dev fd req None) \<longleftrightarrow> (0 \<le> fd \<or> req = VIDIOC_ENUM_FMT) \<and> req = VIDIOC_PREPARE_BUF"
  "guarded (ioctl_dev fd req (Some s)) \<longleftrightarrow> (0 \<le> fd \<or> req = VIDIOC_ENUM_FMT) \<and> required req s"
  by (simp_all add: guarded_def)

context checked_request
begin

lemma calls:
  "snd (snd (op fd arg cs)) = cs \<or> (\<exists>s. arg = Some s \<and> 0 \<le> fd \<and> accepts s \<and> snd (snd (op fd arg cs)) = ioctl_dev fd req (Some s) # cs)"
proof (cases "\<exists>s. arg = Some s \<and> 0 \<le> fd \<and> accepts s")
  case False
  then have "fd < 0 \<or> (\<forall>s. arg = Some s \<longrightarrow> \<not> accepts s)" by auto
  from refused [OF this] show ?thesis by simp
qed (auto simp: passed)

lemma keeps_guarded: "(\<And>s. accepts s \<Longrightarrow> required req s) \<Longrightarrow> \<forall>c\<in>set cs. guarded c \<Longrightarrow> \<forall>c\<in>set (snd (snd (op fd arg cs))). guarded c"
  using calls [of fd arg cs] by auto

end

interpretation r_g_fmt: checked_request E "exynos_v4l2_g_fmt E" VIDIOC_G_FMT "type_ok" for E
  by unfold_locales (auto simp: exynos_v4l2_g_fmt_def v4l2_ioctl_def ioctl_struct_def Let_def split: option.split)

interpretation r_try_fmt: checked_request E "exynos_v4l2_try_fmt E" VIDIOC_TRY_FMT "type_ok" for E
  by unfold_locales (auto simp: exynos_v4l2_try_fmt_def v4l2_s_fmt_def v4l2_ioctl_def ioctl_struct_def Let_def split: option.split)

interpretation r_s_fmt: checked_request E "exynos_v4l2_s_fmt E" VIDIOC_S_FMT "type_ok" for E
  by unfold_locales (auto simp: exynos_v4l2_s_fmt_def v4l2_s_fmt_def v4l2_ioctl_def ioctl_struct_def Let_def split: option.split)

interpretation r_reqbufs: checked_request E "exynos_v4l2_reqbufs E" VIDIOC_REQBUFS "\<lambda>s. memory_ok s \<and> type_ok s" for E
  by unfold_locales (auto simp: exynos_v4l2_reqbufs_def v4l2_ioctl_def ioctl_struct_def Let_def split: option.split)

interpretation r_querybuf: checked_request E "exynos_v4l2_querybuf E" VIDIOC_QUERYBUF "\<lambda>s. mmap_or_dmabuf s \<and> type_ok s" for E
  by unfold_locales (auto simp: exynos_v4l2_querybuf_def v4l2_ioctl_def ioctl_struct_def Let_def split: option.split)

interpretation r_qbuf: checked_request E "exynos_v4l2_qbuf E" VIDIOC_QBUF "\<lambda>s. memory_ok s \<and> type_ok s" for E
  by unfold_locales (auto simp: exynos_v4l2_qbuf_def v4l2_ioctl_def ioctl_struct_def Let_def split: option.split)

interpretation r_cropcap: checked_request E "exynos_v4l2_cropcap E" VIDIOC_CROPCAP "type_ok" for E
  by unfold_locales (auto simp: exynos_v4l2_cropcap_def v4l2_ioctl_def ioctl_struct_def Let_def split: option.split)

interpretation r_g_crop: checked_request E "exynos_v4l2_g_crop E" VIDIOC_G_CROP "type_ok" for E
  by unfold_locales (auto simp: exynos_v4l2_g_crop_def v4l2_ioctl_def ioctl_struct_def Let_def split: option.split)

interpretation r_s_crop: checked_request E "exynos_v4l2_s_crop E" VIDIOC_S_CROP "type_ok" for E
  by unfold_locales (auto simp: exynos_v4l2_s_crop_def v4l2_ioctl_def ioctl_struct_def Let_def split: option.split)

interpretation r_g_ext_ctrl: checked_request E "exynos_v4l2_g_ext_ctrl E" VIDIOC_G_EXT_CTRLS "\<lambda>s. True" for E
  by unfold_locales (auto simp: exynos_v4l2_g_ext_ctrl_def v4l2_ioctl_def ioctl_struct_def Let_def split: option.split)

interpretation r_s_ext_ctrl: checked_request E "exynos_v4l2_s_ext_ctrl E" VIDIOC_S_EXT_CTRLS "\<lambda>s. True" for E
  by unfold_locales (auto simp: exynos_v4l2_s_ext_ctrl_def v4l2_ioctl_def ioctl_struct_def Let_def split: option.split)

interpretation subdev_enum_frame_size: checked_request E "exynos_subdev_enum_frame_size E" VIDIOC_SUBDEV_ENUM_FRAME_SIZE "\<lambda>s. True" for E
  by unfold_locales (auto simp: exynos_subdev_enum_frame_size_def v4l2_ioctl_def ioctl_struct_def Let_def split: option.split)

interpretation subdev_g_fmt: checked_request E "exynos_subdev_g_fmt E" VIDIOC_SUBDEV_G_FMT "\<lambda>s. True" for E
  by unfold_locales (auto simp: exynos_subdev_g_fmt_def v4l2_ioctl_def ioctl_struct_def Let_def split: option.split)

interpretation subdev_s_fmt: checked_request E "exynos_subdev_s_fmt E" VIDIOC_SUBDEV_S_FMT "\<lambda>s. True" for E
  by unfold_locales (auto simp: exynos_subdev_s_fmt_def v4l2_ioctl_def ioctl_struct_def Let_def split: option.split)

interpretation subdev_g_crop: checked_request E "exynos_subdev_g_crop E" VIDIOC_SUBDEV_G_CROP "\<lambda>s. True" for E
  by unfold_locales (auto simp: exynos_subdev_g_crop_def v4l2_ioctl_def ioctl_struct_def Let_def split: option.split)

interpretation subdev_s_crop: checked_request E "exynos_subdev_s_crop E" VIDIOC_SUBDEV_S_CROP "\<lambda>s. True" for E
  by unfold_locales (auto simp: exynos_subdev_s_crop_def v4l2_ioctl_def ioctl_struct_def Let_def split: option.split)

interpretation subdev_enum_frame_interval: checked_request E "exynos_subdev_enum_frame_interval E" VIDIOC_SUBDEV_ENUM_FRAME_INTERVAL "\<lambda>s. True" for E
  by unfold_locales (auto simp: exynos_subdev_enum_frame_interval_def v4l2_ioctl_def ioctl_struct_def Let_def split: option.split)

interpretation subdev_g_frame_interval: checked_request E "exynos_subdev_g_frame_interval E" VIDIOC_SUBDEV_G_FRAME_INTERVAL "\<lambda>s. True" for E
  by unfold_locales (auto simp: exynos_subdev_g_frame_interval_def v4l2_ioctl_def ioctl_struct_def Let_def split: option.split)

interpretation subdev_s_frame_interval: checked_request E "exynos_subdev_s_frame_interval E" VIDIOC_SUBDEV_S_FRAME_INTERVAL "\<lambda>s. True" for E
  by unfold_locales (auto simp: exynos_subdev_s_frame_interval_def v4l2_ioctl_def ioctl_struct_def Let_def split: option.split)

interpretation subdev_enum_mbus_code: checked_request E "exynos_subdev_enum_mbus_code E" VIDIOC_SUBDEV_ENUM_MBUS_CODE "\<lambda>s. True" for E
  by unfold_locales (auto simp: exynos_subdev_enum_mbus_code_def v4l2_ioctl_def ioctl_struct_def Let_def split: option.split)

interpretation r_dqbuf: checked_request E "exynos_v4l2_dqbuf E" VIDIOC_DQBUF "\<lambda>s. memory_ok s \<and> type_ok s" for E
  by unfold_locales (auto simp: exynos_v4l2_dqbuf_def v4l2_ioctl_def ioctl_struct_def Let_def split: option.split)

section \<open>Sequences of calls\<close>

text \<open>The functions that take a structure, by their request; the others take their arguments.\<close>

datatype v4l2_event =
    Open_file path int | Open_devname string int | Close_dev int | Enuminput int u32 | S_input int u32 | Querycap int u32
  | Enum_fmt int u32 u32 | Streamon int u32 | Streamoff int u32 | G_ctrl int u32 int | S_ctrl int u32 int
  | G_parm int "v4l2_struct option" | S_parm int "v4l2_struct option"
  | Subdev_open path int | Subdev_open_devname string int | Subdev_close int
  | Request vidioc int "v4l2_struct option"

definition request_log :: "v4l2_env \<Rightarrow> vidioc \<Rightarrow> int \<Rightarrow> v4l2_struct option \<Rightarrow> v4l2_log \<Rightarrow> v4l2_log" where
  "request_log E req fd arg cs =
     (case req of
        VIDIOC_G_FMT \<Rightarrow> snd (snd (exynos_v4l2_g_fmt E fd arg cs))
      | VIDIOC_TRY_FMT \<Rightarrow> snd (snd (exynos_v4l2_try_fmt E fd arg cs))
      | VIDIOC_S_FMT \<Rightarrow> snd (snd (exynos_v4l2_s_fmt E fd arg cs))
      | VIDIOC_REQBUFS \<Rightarrow> snd (snd (exynos_v4l2_reqbufs E fd arg cs))
      | VIDIOC_QUERYBUF \<Rightarrow> snd (snd (exynos_v4l2_querybuf E fd arg cs))
      | VIDIOC_QBUF \<Rightarrow> snd (snd (exynos_v4l2_qbuf E fd arg cs))
      | VIDIOC_DQBUF \<Rightarrow> snd (snd (exynos_v4l2_dqbuf E fd arg cs))
      | VIDIOC_CROPCAP \<Rightarrow> snd (snd (exynos_v4l2_cropcap E fd arg cs))
      | VIDIOC_G_CROP \<Rightarrow> snd (snd (exynos_v4l2_g_crop E fd arg cs))
      | VIDIOC_S_CROP \<Rightarrow> snd (snd (exynos_v4l2_s_crop E fd arg cs))
      | VIDIOC_G_EXT_CTRLS \<Rightarrow> snd (snd (exynos_v4l2_g_ext_ctrl E fd arg cs))
      | VIDIOC_S_EXT_CTRLS \<Rightarrow> snd (snd (exynos_v4l2_s_ext_ctrl E fd arg cs))
      | VIDIOC_SUBDEV_ENUM_FRAME_SIZE \<Rightarrow> snd (snd (exynos_subdev_enum_frame_size E fd arg cs))
      | VIDIOC_SUBDEV_G_FMT \<Rightarrow> snd (snd (exynos_subdev_g_fmt E fd arg cs))
      | VIDIOC_SUBDEV_S_FMT \<Rightarrow> snd (snd (exynos_subdev_s_fmt E fd arg cs))
      | VIDIOC_SUBDEV_G_CROP \<Rightarrow> snd (snd (exynos_subdev_g_crop E fd arg cs))
      | VIDIOC_SUBDEV_S_CROP \<Rightarrow> snd (snd (exynos_subdev_s_crop E fd arg cs))
      | VIDIOC_SUBDEV_ENUM_FRAME_INTERVAL \<Rightarrow> snd (snd (exynos_subdev_enum_frame_interval E fd arg cs))
      | VIDIOC_SUBDEV_G_FRAME_INTERVAL \<Rightarrow> snd (snd (exynos_subdev_g_frame_interval E fd arg cs))
      | VIDIOC_SUBDEV_S_FRAME_INTERVAL \<Rightarrow> snd (snd (exynos_subdev_s_frame_interval E fd arg cs))
      | VIDIOC_SUBDEV_ENUM_MBUS_CODE \<Rightarrow> snd (snd (exynos_subdev_enum_mbus_code E fd arg cs))
      | VIDIOC_PREPARE_BUF \<Rightarrow> snd (snd (exynos_v4l2_prepare E fd arg cs))
      | _ \<Rightarrow> cs)"

primrec v4l2_exec :: "v4l2_env \<Rightarrow> v4l2_event \<Rightarrow> v4l2_log \<Rightarrow> v4l2_log option" where
  "v4l2_exec E (Open_file p f) cs = Some (snd (exynos_v4l2_open E p f cs))"
| "v4l2_exec E (Open_devname d f) cs = Some (snd (exynos_v4l2_open_devname E d f cs))"
| "v4l2_exec E (Close_dev fd) cs = Some (snd (exynos_v4l2_close E fd cs))"
| "v4l2_exec E (Enuminput fd i) cs = Some (snd (exynos_v4l2_enuminput E fd i cs))"
| "v4l2_exec E (S_input fd i) cs = Some (snd (exynos_v4l2_s_input E fd i cs))"
| "v4l2_exec E (Querycap fd c) cs = Some (snd (exynos_v4l2_querycap E fd c cs))"
| "v4l2_exec E (Enum_fmt fd t f) cs = map_option snd (exynos_v4l2_enum_fmt E fd t f cs)"
| "v4l2_exec E (Streamon fd t) cs = Some (snd (exynos_v4l2_streamon E fd t cs))"
| "v4l2_exec E (Streamoff fd t) cs = Some (snd (exynos_v4l2_streamoff E fd t cs))"
| "v4l2_exec E (G_ctrl fd c x) cs = Some (snd (snd (exynos_v4l2_g_ctrl E fd c x cs)))"
| "v4l2_exec E (S_ctrl fd c x) cs = Some (snd (exynos_v4l2_s_ctrl E fd c x cs))"
| "v4l2_exec E (G_parm fd a) cs = map_option (\<lambda>r. snd (snd r)) (exynos_v4l2_g_parm E fd a cs)"
| "v4l2_exec E (S_parm fd a) cs = map_option (\<lambda>r. snd (snd r)) (exynos_v4l2_s_parm E fd a cs)"
| "v4l2_exec E (Subdev_open p f) cs = Some (snd (exynos_subdev_open E p f cs))"
| "v4l2_exec E (Subdev_open_devname d f) cs = map_option snd (exynos_subdev_open_devname E d f cs)"
| "v4l2_exec E (Subdev_close fd) cs = Some (snd (exynos_subdev_close E fd cs))"
| "v4l2_exec E (Request req fd a) cs = Some (request_log E req fd a cs)"

inductive v4l2_reachable :: "v4l2_env \<Rightarrow> v4l2_log \<Rightarrow> bool" for E where
  v4l2_reachable_start: "v4l2_reachable E []"
| v4l2_reachable_step: "v4l2_reachable E cs \<Longrightarrow> v4l2_exec E e cs = Some cs' \<Longrightarrow> v4l2_reachable E cs'"

lemmas checked_guarded =
  r_g_fmt.keeps_guarded r_try_fmt.keeps_guarded r_s_fmt.keeps_guarded r_reqbufs.keeps_guarded r_querybuf.keeps_guarded
  r_qbuf.keeps_guarded r_dqbuf.keeps_guarded r_cropcap.keeps_guarded r_g_crop.keeps_guarded r_s_crop.keeps_guarded
  r_g_ext_ctrl.keeps_guarded r_s_ext_ctrl.keeps_guarded subdev_enum_frame_size.keeps_guarded subdev_g_fmt.keeps_guarded
  subdev_s_fmt.keeps_guarded subdev_g_crop.keeps_guarded subdev_s_crop.keeps_guarded subdev_enum_frame_interval.keeps_guarded
  subdev_g_frame_interval.keeps_guarded subdev_s_frame_interval.keeps_guarded subdev_enum_mbus_code.keeps_guarded

lemma prepare_guarded: "\<forall>c\<in>set cs. guarded c \<Longrightarrow> \<forall>c\<in>set (snd (snd (exynos_v4l2_prepare E fd arg cs))). guarded c"
  by (cases arg) (auto simp: exynos_v4l2_prepare_def v4l2_ioctl_def ioctl_struct_def Let_def)

lemma request_log_guarded: "\<forall>c\<in>set cs. guarded c \<Longrightarrow> \<forall>c\<in>set (request_log E req fd arg cs). guarded c"
  by (cases req; simp only: request_log_def vidioc.case; (assumption | rule checked_guarded prepare_guarded; (assumption | simp)))

lemma enum_fmt_guarded:
  assumes "enum_fmt_loop E fd d fmt cs = Some r" "\<forall>c\<in>set cs. guarded c"
  shows "\<forall>c\<in>set (snd r). guarded c"
proof -
  have "(\<forall>c\<in>set cs. guarded c) \<longrightarrow> (\<forall>c\<in>set (snd r). guarded c)"
  proof (rule enum_fmt_loop.raw_induct [where P = "\<lambda>E fd d fmt cs r. (\<forall>c\<in>set cs. guarded c) \<longrightarrow> (\<forall>c\<in>set (snd r). guarded c)", OF _ assms(1)])
    fix loop E fd d fmt cs r
    assume IH: "\<And>E fd d fmt cs r. loop E fd d fmt cs = Some r \<Longrightarrow> (\<forall>c\<in>set cs. guarded c) \<longrightarrow> (\<forall>c\<in>set (snd r). guarded c)"
      and body: "(let (ret, d, cs) = ioctl_struct E fd VIDIOC_ENUM_FMT d cs in
        if ret \<noteq> 0 then Some (False, cs)
        else if pixelformat d = fmt then Some (True, cs)
        else loop E fd (d\<lparr>index := index d + 1\<rparr>) fmt cs) = Some r"
    show "(\<forall>c\<in>set cs. guarded c) \<longrightarrow> (\<forall>c\<in>set (snd r). guarded c)"
      using body IH [of E fd _ fmt "ioctl_dev fd VIDIOC_ENUM_FMT (Some d) # cs" r]
      by (auto simp: v4l2_ioctl_def ioctl_struct_def Let_def split: if_splits option.splits)
  qed
  with assms(2) show ?thesis by simp
qed

lemma exec_guarded:
  assumes "v4l2_exec E e cs = Some cs'" "\<forall>c\<in>set cs. guarded c"
  shows "\<forall>c\<in>set cs'. guarded c"
proof (cases e)
  case (Enum_fmt fd t f)
  then show ?thesis using assms enum_fmt_guarded by (auto simp: exynos_v4l2_enum_fmt_def)
next
  case (Subdev_open_devname d f)
  then obtain z where "subdev_search E d 0 = Some z" using assms(1) by (auto simp: exynos_subdev_open_devname_def)
  then show ?thesis using assms Subdev_open_devname by (cases z) (auto simp: exynos_subdev_open_devname_def exynos_subdev_open_def)
next
  case (Open_devname d f)
  then show ?thesis using assms by (auto simp: exynos_v4l2_open_devname_def exynos_v4l2_open_def simp del: video_search.simps split: search.splits)
qed (use assms request_log_guarded in \<open>auto simp: exynos_v4l2_open_def exynos_v4l2_close_def exynos_v4l2_enuminput_def exynos_v4l2_s_input_def
  exynos_v4l2_querycap_def exynos_v4l2_streamon_def exynos_v4l2_streamoff_def exynos_v4l2_g_ctrl_def exynos_v4l2_s_ctrl_def
  exynos_v4l2_g_parm_def exynos_v4l2_s_parm_def exynos_subdev_open_def exynos_subdev_close_def
  v4l2_ioctl_def ioctl_struct_def type_ok_def Let_def split: if_splits option.splits search.splits\<close>)

text \<open>
  C23 (v4l2_calls_guarded). In every sequence of calls of the video and sub-device functions, each
  ioctl goes to a descriptor that is not negative, except the enumeration of formats, and a NULL
  argument is passed on only by the preparation of a buffer. A structure for the requests of formats,
  buffers other than their preparation, streaming, cropping and stream parameters has a buffer type
  that is known, and one for the requests of buffers a kind of memory that is known, for the query
  mapped memory or a shared buffer. The structures of the other requests are passed on as they are.
\<close>

theorem v4l2_calls_guarded:
  assumes "v4l2_reachable E cs" "ioctl_dev fd req arg \<in> set cs"
  shows "(0 \<le> fd \<or> req = VIDIOC_ENUM_FMT) \<and>
    (case arg of
       None \<Rightarrow> req = VIDIOC_PREPARE_BUF
     | Some s \<Rightarrow>
         (req \<in> {VIDIOC_G_FMT, VIDIOC_TRY_FMT, VIDIOC_S_FMT, VIDIOC_REQBUFS, VIDIOC_QUERYBUF, VIDIOC_QBUF, VIDIOC_DQBUF,
                 VIDIOC_STREAMON, VIDIOC_STREAMOFF, VIDIOC_CROPCAP, VIDIOC_G_CROP, VIDIOC_S_CROP, VIDIOC_G_PARM, VIDIOC_S_PARM} \<longrightarrow>
            v4l2_check_buf_type (buf_type s)) \<and>
         (req \<in> {VIDIOC_REQBUFS, VIDIOC_QBUF, VIDIOC_DQBUF} \<longrightarrow> memory_kind s \<in> {1, 2, 4}) \<and>
         (req = VIDIOC_QUERYBUF \<longrightarrow> memory_kind s \<in> {1, 4}))"
proof -
  from assms(1) have "\<forall>c\<in>set cs. guarded c"
    by (induction rule: v4l2_reachable.induct) (auto dest: exec_guarded)
  with assms(2) have "guarded (ioctl_dev fd req arg)" by blast
  then show ?thesis by (cases arg) (auto simp: type_ok_def memory_ok_def mmap_or_dmabuf_def)
qed

text \<open>
  A kernel for the examples: node 2 is a video device, sub-device node 1 has no readable name, and
  the driver has two formats.
\<close>

definition sample_env :: v4l2_env where
  "sample_env =
     \<lparr>v4l2_sys = (\<lambda>cs c. case c of open_dev p f \<Rightarrow> 7 | close_dev fd \<Rightarrow> 0
        | ioctl_dev fd req (Some s) \<Rightarrow> (if req = VIDIOC_ENUM_FMT \<and> 2 \<le> unat (index s) then -1 else 0) | ioctl_dev fd req None \<Rightarrow> -1),
      v4l2_errno = (\<lambda>cs c. 22),
      v4l2_out = (\<lambda>cs c. case c of ioctl_dev fd req (Some s) \<Rightarrow> s\<lparr>pixelformat := (if index s = 0 then 0x3231564E else 0x34324752)\<rparr> | _ \<Rightarrow> zero_struct),
      v4l2_lstat = (\<lambda>p. if p = Dev_video 2 \<or> p = Dev_subdev 1 then Some \<lparr>st_type = S_IFCHR, st_rdev = 81 * 256 + 2\<rparr> else None),
      v4l2_fopen = (\<lambda>p. if p = Sysfs_video 2 then Some ''s5p-mfc-dec'' else None)\<rparr>"

theorem v4l2_calls_guarded_witness:
  "\<exists>cs. v4l2_reachable sample_env cs \<and> ioctl_dev 7 VIDIOC_G_FMT (Some (zero_struct\<lparr>buf_type := 9\<rparr>)) \<in> set cs
        \<and> v4l2_check_buf_type 9"
proof -
  let ?s = "zero_struct\<lparr>buf_type := 9\<rparr>"
  have ok: "type_ok ?s" by (simp add: type_ok_def v4l2_check_buf_type_def zero_struct_def)
  have "v4l2_exec sample_env (Request VIDIOC_G_FMT 7 (Some ?s)) [] = Some [ioctl_dev 7 VIDIOC_G_FMT (Some ?s)]"
    using ok by (simp add: request_log_def exynos_v4l2_g_fmt_def v4l2_ioctl_def ioctl_struct_def Let_def)
  from v4l2_reachable_step [OF v4l2_reachable_start this]
  have "v4l2_reachable sample_env [ioctl_dev 7 VIDIOC_G_FMT (Some ?s)]" .
  with v4l2_calls_guarded [OF this, of 7 VIDIOC_G_FMT "Some ?s"] show ?thesis
    by (intro exI [of _ "[ioctl_dev 7 VIDIOC_G_FMT (Some ?s)]"]) simp
qed

text \<open>
  A driver that enumerates the formats \<open>fs\<close>, as documented for the request: at an index below their
  number it succeeds and fills in the format, leaving the index and the type; above it fails.
\<close>

definition enumerates :: "v4l2_env \<Rightarrow> int \<Rightarrow> u32 \<Rightarrow> u32 list \<Rightarrow> bool" where
  "enumerates E fd type fs \<longleftrightarrow> length fs < 2 ^ 32 \<and>
     (\<forall>cs s. buf_type s = type \<longrightarrow>
        (let c = ioctl_dev fd VIDIOC_ENUM_FMT (Some s); i = unat (index s) in
         if i < length fs
         then v4l2_sys E cs c = 0 \<and> index (v4l2_out E cs c) = index s \<and> buf_type (v4l2_out E cs c) = type
              \<and> pixelformat (v4l2_out E cs c) = fs ! i
         else v4l2_sys E cs c \<noteq> 0))"

lemma unat_u32_Suc: "unat (i :: u32) < n \<Longrightarrow> n < 2 ^ 32 \<Longrightarrow> unat (i + 1) = Suc (unat i)"
  by (simp add: unat_word_ariths)

lemma enum_fmt_loop_finds:
  assumes E: "enumerates E fd type fs" and "buf_type s = type" "unat (index s) \<le> length fs"
  shows "\<exists>cs'. enum_fmt_loop E fd s fmt cs = Some (fmt \<in> set (drop (unat (index s)) fs), cs')"
  using assms(2,3)
proof (induction "length fs - unat (index s)" arbitrary: s cs)
  case 0
  with E show ?case
    by (subst enum_fmt_loop.simps) (simp add: enumerates_def ioctl_struct_def Let_def)
next
  case (Suc n)
  let ?i = "unat (index s)" and ?c = "ioctl_dev fd VIDIOC_ENUM_FMT (Some s)"
  let ?s = "(v4l2_out E cs ?c)\<lparr>index := index s + 1\<rparr>"
  have lt: "?i < length fs" using Suc(2) by simp
  then have ok: "v4l2_sys E cs ?c = 0" "index (v4l2_out E cs ?c) = index s" "buf_type (v4l2_out E cs ?c) = type"
      "pixelformat (v4l2_out E cs ?c) = fs ! ?i" and len: "length fs < 2 ^ 32"
    using E Suc(3) by (simp_all add: enumerates_def Let_def)
  have i: "unat (index s + 1) = Suc ?i" using unat_u32_Suc [OF lt len] .
  have d: "drop ?i fs = fs ! ?i # drop (Suc ?i) fs" using lt by (rule Cons_nth_drop_Suc [symmetric])
  have "\<exists>cs'. enum_fmt_loop E fd ?s fmt (?c # cs) = Some (fmt \<in> set (drop (Suc ?i) fs), cs')"
    using Suc(1) [of ?s "?c # cs"] Suc(2) ok(3) lt i by simp
  then show ?case
    by (subst enum_fmt_loop.simps) (auto simp: ioctl_struct_def Let_def ok d)
qed

text \<open>
  On a driver that enumerates its formats as the request documents,
  \<open>exynos_v4l2_enum_fmt\<close> returns, and it returns true exactly for the formats the driver has.
\<close>

theorem enum_fmt_finds:
  assumes "enumerates E fd type fs"
  shows "\<exists>cs'. exynos_v4l2_enum_fmt E fd type fmt cs = Some (fmt \<in> set fs, cs')"
  using enum_fmt_loop_finds [OF assms, of "zero_struct\<lparr>buf_type := type, index := 0\<rparr>" fmt cs]
  by (simp add: exynos_v4l2_enum_fmt_def)

theorem enum_fmt_finds_witness:
  "(\<exists>cs. exynos_v4l2_enum_fmt sample_env 7 9 0x34324752 [] = Some (True, cs))
   \<and> (\<exists>cs. exynos_v4l2_enum_fmt sample_env 7 9 0x32315559 [] = Some (False, cs))"
proof -
  have "unat (i :: u32) = 0 \<or> unat i = Suc 0 \<or> 2 \<le> unat i" for i by arith
  then have "enumerates sample_env 7 9 [0x3231564E, 0x34324752]"
    by (fastforce simp: enumerates_def sample_env_def Let_def less_Suc_eq unat_eq_zero)
  from enum_fmt_finds [OF this, of "0x34324752" "[]"] enum_fmt_finds [OF this, of "0x32315559" "[]"]
  show ?thesis by simp
qed

section \<open>The search for a device\<close>

text \<open>The node \<open>i\<close> is a video device with a readable name that begins with the name asked for.\<close>

definition matches :: "v4l2_stat option \<Rightarrow> string option \<Rightarrow> string \<Rightarrow> bool" where
  "matches st file devname \<longleftrightarrow> is_video_node st \<and>
     (\<exists>content name. file = Some content \<and> fgets64 content = Some name \<and> name_matches devname name)"

abbreviation (input) video_matches :: "v4l2_env \<Rightarrow> string \<Rightarrow> nat \<Rightarrow> bool" where
  "video_matches E devname i \<equiv> matches (v4l2_lstat E (Dev_video i)) (v4l2_fopen E (Sysfs_video i)) devname"

abbreviation (input) subdev_matches :: "v4l2_env \<Rightarrow> string \<Rightarrow> nat \<Rightarrow> bool" where
  "subdev_matches E devname i \<equiv> matches (v4l2_lstat E (Dev_subdev i)) (v4l2_fopen E (Sysfs_subdev i)) devname"

lemma is_video_node_Some [simp]: "is_video_node (Some st) \<longleftrightarrow> st_type st = S_IFCHR \<and> st_rdev st mod 65536 div 256 = 81"
  by (simp add: is_video_node_def)

declare video_search.simps [simp del]

lemma video_search_step:
  "video_search E devname i =
     (if 255 < i then Not_found else if video_matches E devname i then Found i else video_search E devname (i + 1))"
  by (subst video_search.simps) (auto simp: matches_def split: option.split)

lemma video_search_result:
  "video_search E devname i = (case find (video_matches E devname) [i..<256] of None \<Rightarrow> Not_found | Some j \<Rightarrow> Found j)"
proof (induction "256 - i" arbitrary: i)
  case 0
  then show ?case by (subst video_search_step) simp
next
  case (Suc n)
  then have "[i..<256] = i # [i + 1..<256]" "\<not> 255 < i" by (simp_all add: upt_conv_Cons)
  with Suc show ?case by (subst video_search_step) simp
qed

lemma least_below:
  fixes P :: "nat \<Rightarrow> bool"
  assumes "\<exists>i<n. P i"
  shows "P (LEAST i. P i)" "(LEAST i. P i) < n" "j < (LEAST i. P i) \<Longrightarrow> \<not> P j"
proof -
  obtain i where i: "i < n" "P i" using assms by blast
  show "P (LEAST i. P i)" using i(2) by (rule LeastI)
  show "(LEAST i. P i) < n" using Least_le [of P i] i by simp
  show "j < (LEAST i. P i) \<Longrightarrow> \<not> P j" by (rule not_less_Least)
qed

lemma find_least: "find P [0..<n] = (if \<exists>i<n. P i then Some (LEAST i. P i) else None)"
proof (cases "\<exists>i<n. P i")
  case True
  define k where "k = (LEAST i. P i)"
  have "P k" "k < n" "\<And>j. j < k \<Longrightarrow> \<not> P j" unfolding k_def using least_below [OF True] by blast+
  then have "find P [0..<n] = Some k" unfolding find_Some_iff by (intro exI [of _ k]) simp
  then show ?thesis using True by (simp only: k_def if_True)
qed (auto simp: find_None_iff)

text \<open>
  C24 (v4l2_finds_device). \<open>exynos_v4l2_open_devname\<close> opens the video node with the smallest number, of the
  256 there are, whose name begins with the name asked for, and returns what opening it returns;
  when there is none it returns -1 and opens nothing.
\<close>

theorem v4l2_finds_device:
  "exynos_v4l2_open_devname E devname oflag cs =
     (if \<exists>i<256. matches (v4l2_lstat E (Dev_video i)) (v4l2_fopen E (Sysfs_video i)) devname
      then exynos_v4l2_open E (Dev_video (LEAST i. matches (v4l2_lstat E (Dev_video i)) (v4l2_fopen E (Sysfs_video i)) devname)) oflag cs
      else (-1, cs))"
  unfolding exynos_v4l2_open_devname_def video_search_result find_least
  by (cases "\<exists>i<256. matches (v4l2_lstat E (Dev_video i)) (v4l2_fopen E (Sysfs_video i)) devname") (simp_all only: if_True if_False option.case search.case)

theorem v4l2_finds_device_witness: "exynos_v4l2_open_devname sample_env ''s5p-mfc'' 2 [] = (7, [open_dev (Dev_video 2) 2])"
proof -
  let ?m = "\<lambda>i. matches (v4l2_lstat sample_env (Dev_video i)) (v4l2_fopen sample_env (Sysfs_video i)) ''s5p-mfc''"
  have m: "?m i \<longleftrightarrow> i = 2" for i
    by (auto simp: matches_def sample_env_def is_video_node_def fgets64_def name_matches_def c_string_def)
  then have "\<exists>i<256. ?m i" "(LEAST i. ?m i) = 2" by (simp, simp only: Least_equality order_refl)
  then show ?thesis using v4l2_finds_device [of sample_env "''s5p-mfc''" 2 "[]"]
    by (simp only: if_True) (simp add: exynos_v4l2_open_def sample_env_def)
qed

text \<open>A sub-device node whose name cannot be opened.\<close>

definition stuck :: "v4l2_env \<Rightarrow> nat \<Rightarrow> bool" where
  "stuck E i \<longleftrightarrow> is_video_node (v4l2_lstat E (Dev_subdev i)) \<and> v4l2_fopen E (Sysfs_subdev i) = None"

lemma stuck_hangs: "stuck E i \<Longrightarrow> i \<le> 63 \<Longrightarrow> subdev_search E devname i = None"
proof -
  have "subdev_search E devname i = Some y \<Longrightarrow> \<not> (stuck E i \<and> i \<le> 63)" for y
  proof (rule subdev_search.raw_induct [where P = "\<lambda>E d i y. \<not> (stuck E i \<and> i \<le> 63)"])
    fix loop E d i y
    assume IH: "\<And>E d i y. loop E d i = Some y \<Longrightarrow> \<not> (stuck E i \<and> i \<le> 63)"
      and body: "(if 63 < i then Some Not_found
        else if is_video_node (v4l2_lstat E (Dev_subdev i)) then
          (if map_option st_type (v4l2_lstat E (Dev_subdev i)) = Some S_IFLNK then Some Symlink
           else case v4l2_fopen E (Sysfs_subdev i) of None \<Rightarrow> loop E d i
                | Some content \<Rightarrow> (case fgets64 content of None \<Rightarrow> loop E d (i + 1)
                     | Some name \<Rightarrow> if name_matches d name then Some (Found i) else loop E d (i + 1)))
        else loop E d (i + 1)) = Some y"
    show "\<not> (stuck E i \<and> i \<le> 63)"
      using body IH [of E d i y] by (cases "v4l2_fopen E (Sysfs_subdev i)") (auto simp: stuck_def split: if_splits)
  qed
  then show "stuck E i \<Longrightarrow> i \<le> 63 \<Longrightarrow> subdev_search E devname i = None" by (cases "subdev_search E devname i") auto
qed

lemma subdev_search_step:
  "subdev_search E devname i =
     (if 63 < i then Some Not_found else if stuck E i then None else if subdev_matches E devname i then Some (Found i)
      else subdev_search E devname (i + 1))"
proof (cases "63 < i \<or> stuck E i")
  case True
  then show ?thesis
  proof (cases "63 < i")
    case True
    then show ?thesis by (subst subdev_search.simps) simp
  next
    case False
    with True show ?thesis by (simp add: stuck_hangs)
  qed
next
  case False
  then show ?thesis
    by (subst subdev_search.simps) (auto simp: matches_def stuck_def split: option.split)
qed

text \<open>The nodes where the search stops, with or without a result.\<close>

lemma subdev_search_result:
  "subdev_search E devname i =
     (case find (\<lambda>j. stuck E j \<or> subdev_matches E devname j) [i..<64] of
        None \<Rightarrow> Some Not_found | Some j \<Rightarrow> if stuck E j then None else Some (Found j))"
proof (induction "64 - i" arbitrary: i)
  case 0
  then show ?case by (subst subdev_search_step) simp
next
  case (Suc n)
  then have "[i..<64] = i # [i + 1..<64]" "\<not> 63 < i" by (simp_all add: upt_conv_Cons)
  with Suc show ?case by (subst subdev_search_step) simp
qed

text \<open>
  C30 (subdev_search_hangs). The search for a sub-device by name ends, with the smallest matching number
  or -1, unless a node before the first match has a name that cannot be opened: then, and only then,
  it tries the same node forever.
\<close>

theorem subdev_search_hangs:
  "exynos_subdev_get_node_num E devname =
     (if \<exists>i<64. stuck E i \<and> (\<forall>j<i. \<not> matches (v4l2_lstat E (Dev_subdev j)) (v4l2_fopen E (Sysfs_subdev j)) devname) then None
      else if \<exists>i<64. matches (v4l2_lstat E (Dev_subdev i)) (v4l2_fopen E (Sysfs_subdev i)) devname
      then Some (int (LEAST i. matches (v4l2_lstat E (Dev_subdev i)) (v4l2_fopen E (Sysfs_subdev i)) devname))
      else Some (-1))"
proof -
  let ?m = "\<lambda>i. matches (v4l2_lstat E (Dev_subdev i)) (v4l2_fopen E (Sysfs_subdev i)) devname"
  let ?p = "\<lambda>i. stuck E i \<or> ?m i"
  have not_both: "\<not> (stuck E i \<and> ?m i)" for i by (auto simp: stuck_def matches_def)
  show ?thesis
  proof (cases "\<exists>i<64. ?p i")
    case True
    define k where "k = (LEAST i. ?p i)"
    have k: "?p k" "k < 64" "\<And>j. j < k \<Longrightarrow> \<not> ?p j"
      unfolding k_def using least_below [OF True] by blast+
    have f: "find ?p [0..<64] = Some k" using True unfolding find_least k_def by (simp only: if_True)
    show ?thesis
    proof (cases "stuck E k")
      case True
      then show ?thesis using k f by (auto simp: exynos_subdev_get_node_num_def subdev_search_result)
    next
      case False
      then have m: "?m k" using k(1) by blast
      then have "(LEAST i. ?m i) = k" using k(3) by (intro Least_equality) (auto simp: not_less [symmetric])
      moreover have "\<not> (\<exists>i<64. stuck E i \<and> (\<forall>j<i. \<not> ?m j))"
        using m k(3) False by (metis linorder_neqE_nat)
      ultimately show ?thesis using False k(2) m f by (auto simp: exynos_subdev_get_node_num_def subdev_search_result)
    qed
  next
    case False
    then have "find ?p [0..<64] = None" by (simp add: find_least)
    then show ?thesis using False by (auto simp: exynos_subdev_get_node_num_def subdev_search_result)
  qed
qed

theorem subdev_search_hangs_witness: "exynos_subdev_get_node_num sample_env ''s5p-mipi-csis'' = None"
proof -
  have "stuck sample_env 1" by (simp add: stuck_def sample_env_def is_video_node_def)
  moreover have "\<not> matches (v4l2_lstat sample_env (Dev_subdev j)) (v4l2_fopen sample_env (Sysfs_subdev j)) d" for j d
    by (simp add: matches_def sample_env_def)
  ultimately have "\<exists>i<64. stuck sample_env i \<and> (\<forall>j<i. \<not> matches (v4l2_lstat sample_env (Dev_subdev j)) (v4l2_fopen sample_env (Sysfs_subdev j)) ''s5p-mipi-csis'')"
    by (intro exI [of _ 1]) simp
  then show ?thesis using subdev_search_hangs [of sample_env "''s5p-mipi-csis''"] by (simp only: if_True)
qed

end
