(* ===== verification/Exynos_Hoare.thy ===== *)
theory Exynos_Hoare
  imports Exynos_Prelude "HOL-Library.Monad_Syntax"
begin

text \<open>
  Code that may be undefined, as a function into an option: None is a read through a NULL or freed
  pointer, or a call that never returns. This theory has the partial correctness of such code,
  \<open>holds Q x\<close>, with one rule per construct of the do-notation, by which the invariants of the audio
  HAL are proved, and the rules for code that is defined.
\<close>

definition holds :: "('a \<Rightarrow> bool) \<Rightarrow> 'a option \<Rightarrow> bool" where
  "holds Q x = (case x of None \<Rightarrow> True | Some a \<Rightarrow> Q a)"

named_theorems holds_rules

lemma holds_Some [simp]: "holds Q (Some a) \<longleftrightarrow> Q a"
  by (simp add: holds_def)

lemma holds_None [simp]: "holds Q None"
  by (simp add: holds_def)

lemma holdsD: "holds Q x \<Longrightarrow> x = Some a \<Longrightarrow> Q a"
  by simp

lemma holdsI: "(\<And>a. x = Some a \<Longrightarrow> Q a) \<Longrightarrow> holds Q x"
  by (cases x) auto

lemma holds_mono: "holds P x \<Longrightarrow> (\<And>a. P a \<Longrightarrow> Q a) \<Longrightarrow> holds Q x"
  by (cases x) auto

lemma holds_bind [holds_rules]: "holds P x \<Longrightarrow> (\<And>a. P a \<Longrightarrow> holds Q (f a)) \<Longrightarrow> holds Q (x \<bind> f)"
  by (cases x) auto

lemma holds_read: "(\<And>a. x = Some a \<Longrightarrow> holds Q (f a)) \<Longrightarrow> holds Q (x \<bind> f)"
  by (cases x) auto

lemma holds_if [holds_rules]: "(c \<Longrightarrow> holds Q x) \<Longrightarrow> (\<not> c \<Longrightarrow> holds Q y) \<Longrightarrow> holds Q (if c then x else y)"
  by simp

lemma holds_case [holds_rules]:
  "(p = None \<Longrightarrow> holds Q x) \<Longrightarrow> (\<And>a. p = Some a \<Longrightarrow> holds Q (f a)) \<Longrightarrow> holds Q (case p of None \<Rightarrow> x | Some a \<Rightarrow> f a)"
  by (cases p) auto

lemma holds_map: "holds Q (map_option f x) \<longleftrightarrow> holds (\<lambda>a. Q (f a)) x"
  by (cases x) auto

lemma holds_conj: "holds P x \<Longrightarrow> holds Q x \<Longrightarrow> holds (\<lambda>a. P a \<and> Q a) x"
  by (cases x) auto

end
