(* ===== verification/Audio_State.thy ===== *)
theory Audio_State
  imports Complex_Main Voice_Manager Exynos_Hoare
begin

text \<open>
  The data of the primary audio HAL, \<open>libaudio/audiohal/audio_hw.h\<close> and the headers it includes: the
  names of usages, devices and stream types, the streams, the device, and the world around them.
  The audio proxy that drives the hardware is not part of the sources: it is an environment, and
  the calls it gets are recorded in a log. The voice manager and its RIL client are those of theory
  \<open>Voice_Manager\<close>. Streams are on a heap, so that a pointer to a stream that was freed is visible.
\<close>

section \<open>Names\<close>

datatype (plugins only: code size) audio_usage =
    AUSAGE_MEDIA | AUSAGE_RECORDING | AUSAGE_CAMCORDER
  | AUSAGE_VOICE_CALL_NB | AUSAGE_VOICE_CALL_NB_HAC | AUSAGE_VOICE_CALL_WB | AUSAGE_VOICE_CALL_WB_HAC
  | AUSAGE_VOLTE_CALL_NB | AUSAGE_VOLTE_CALL_WB | AUSAGE_VOLTE_CALL_SWB
  | AUSAGE_VOLTE_VT_CALL_NB | AUSAGE_VOLTE_VT_CALL_WB | AUSAGE_VOLTE_VT_CALL_SWB | AUSAGE_TTY | AUSAGE_INCALL_MUSIC
  | AUSAGE_WIFI_CALL_NB | AUSAGE_WIFI_CALL_WB | AUSAGE_WIFI_CALL_SWB | AUSAGE_VIDEO_CALL | AUSAGE_VOIP_CALL | AUSAGE_COMMUNICATION | AUSAGE_AP_TTY
  | AUSAGE_INCALL_UPLINK | AUSAGE_INCALL_DOWNLINK | AUSAGE_INCALL_UPLINK_DOWNLINK | AUSAGE_RECOGNITION
  | AUSAGE_FM_RADIO_TUNER | AUSAGE_FM_RADIO_CAPTURE | AUSAGE_HOTWORD_SEAMLESS | AUSAGE_HOTWORD_RECORD
  | AUSAGE_LOOPBACK | AUSAGE_LOOPBACK_NODELAY | AUSAGE_LOOPBACK_REALTIME | AUSAGE_LOOPBACK_CODEC | AUSAGE_RMS | AUSAGE_NONE

datatype (plugins only: code size) device_type =
    DEVICE_EARPIECE | DEVICE_SPEAKER | DEVICE_HEADSET | DEVICE_HEADPHONE | DEVICE_SPEAKER_AND_HEADSET | DEVICE_SPEAKER_AND_HEADPHONE
  | DEVICE_BT_HEADSET | DEVICE_FM_EXTERNAL | DEVICE_SPEAKER_AND_BT_HEADSET | DEVICE_USB_HEADSET | DEVICE_AUX_DIGITAL | DEVICE_LINE_OUT
  | DEVICE_SPEAKER_AND_LINEOUT | DEVICE_CALL_FWD
  | DEVICE_MAIN_MIC | DEVICE_HEADSET_MIC | DEVICE_BT_HEADSET_MIC | DEVICE_BT_NREC_HEADSET_MIC | DEVICE_USB_HEADSET_MIC
  | DEVICE_HANDSET_MIC | DEVICE_SPEAKER_MIC | DEVICE_HEADPHONE_MIC | DEVICE_SUB_MIC | DEVICE_FULL_MIC | DEVICE_HCO_MIC | DEVICE_VCO_MIC
  | DEVICE_FM_TUNER | DEVICE_LINE_OUT_MIC | DEVICE_NONE

text \<open>The numbers of the enumeration, which the code uses as a bit mask; devices that nothing selects are left out.\<close>

primrec device_code :: "device_type \<Rightarrow> u32" where
  "device_code DEVICE_EARPIECE = 0" | "device_code DEVICE_SPEAKER = 1" | "device_code DEVICE_HEADSET = 2" | "device_code DEVICE_HEADPHONE = 3"
| "device_code DEVICE_SPEAKER_AND_HEADSET = 4" | "device_code DEVICE_SPEAKER_AND_HEADPHONE = 5" | "device_code DEVICE_BT_HEADSET = 6"
| "device_code DEVICE_FM_EXTERNAL = 7" | "device_code DEVICE_SPEAKER_AND_BT_HEADSET = 8" | "device_code DEVICE_USB_HEADSET = 9"
| "device_code DEVICE_AUX_DIGITAL = 10" | "device_code DEVICE_LINE_OUT = 11" | "device_code DEVICE_SPEAKER_AND_LINEOUT = 12"
| "device_code DEVICE_CALL_FWD = 17" | "device_code DEVICE_MAIN_MIC = 18" | "device_code DEVICE_HEADSET_MIC = 19"
| "device_code DEVICE_BT_HEADSET_MIC = 21" | "device_code DEVICE_BT_NREC_HEADSET_MIC = 22" | "device_code DEVICE_USB_HEADSET_MIC = 23"
| "device_code DEVICE_HANDSET_MIC = 24" | "device_code DEVICE_SPEAKER_MIC = 25" | "device_code DEVICE_HEADPHONE_MIC = 26"
| "device_code DEVICE_SUB_MIC = 28" | "device_code DEVICE_FULL_MIC = 31" | "device_code DEVICE_HCO_MIC = 32" | "device_code DEVICE_VCO_MIC = 33"
| "device_code DEVICE_FM_TUNER = 34" | "device_code DEVICE_LINE_OUT_MIC = 35" | "device_code DEVICE_NONE = 36"

datatype modifier_type = MODIFIER_BT_SCO_RX_NB | MODIFIER_BT_SCO_RX_WB | MODIFIER_BT_SCO_TX_NB | MODIFIER_BT_SCO_TX_WB | MODIFIER_NONE

datatype (plugins only: code size) audio_stream_type =
    ASTREAM_PLAYBACK_NO_ATTRIBUTE | ASTREAM_PLAYBACK_PRIMARY | ASTREAM_PLAYBACK_FAST | ASTREAM_PLAYBACK_DEEP_BUFFER
  | ASTREAM_PLAYBACK_LOW_LATENCY | ASTREAM_PLAYBACK_COMPR_OFFLOAD | ASTREAM_PLAYBACK_MMAP | ASTREAM_PLAYBACK_USB_DEVICE
  | ASTREAM_PLAYBACK_AUX_DIGITAL | ASTREAM_PLAYBACK_INCALL_MUSIC
  | ASTREAM_CAPTURE_NO_ATTRIBUTE | ASTREAM_CAPTURE_PRIMARY | ASTREAM_CAPTURE_CALL | ASTREAM_CAPTURE_LOW_LATENCY | ASTREAM_CAPTURE_MMAP
  | ASTREAM_CAPTURE_USB_DEVICE | ASTREAM_CAPTURE_FM_TUNER | ASTREAM_CAPTURE_HOTWORD | ASTREAM_NONE

datatype audio_mode_t = AUDIO_MODE_NORMAL | AUDIO_MODE_RINGTONE | AUDIO_MODE_IN_CALL | AUDIO_MODE_IN_COMMUNICATION | AUDIO_MODE_OTHER int

datatype fm_state_t = FM_OFF | FM_ON | FM_RECORDING

datatype force_route = NON_FORCE_ROUTE | FORCE_ROUTE | CALL_DRIVE

datatype factory_mode_status = FACTORY_MODE_NONE | FACTORY_MODE_FORCE_ROUTE | FACTORY_MODE_LOOPBACK | FACTORY_MODE_RMS

datatype loopback_type =
    LOOPBACK_OFF | LOOPBACK_PCM | LOOPBACK_PACKET | LOOPBACK_PCM_NODELAY | LOOPBACK_PACKET_NODELAY | LOOPBACK_CODEC | LOOPBACK_REALTIME

text \<open>The states of a stream, in the order in which the code compares them.\<close>

datatype stream_status = STATUS_STANDBY | STATUS_READY | STATUS_IDLE | STATUS_PLAYING | STATUS_PAUSED

primrec status_code :: "stream_status \<Rightarrow> nat" where
  "status_code STATUS_STANDBY = 0" | "status_code STATUS_READY = 1" | "status_code STATUS_IDLE = 2"
| "status_code STATUS_PLAYING = 3" | "status_code STATUS_PAUSED = 4"

lemma status_code_inject: "status_code a = status_code b \<Longrightarrow> a = b"
  by (cases a; cases b) simp_all

instantiation stream_status :: linorder
begin

definition less_eq_stream_status :: "stream_status \<Rightarrow> stream_status \<Rightarrow> bool" where
  "less_eq_stream_status a b \<longleftrightarrow> status_code a \<le> status_code b"

definition less_stream_status :: "stream_status \<Rightarrow> stream_status \<Rightarrow> bool" where
  "less_stream_status a b \<longleftrightarrow> status_code a < status_code b"

instance
  by standard (auto simp: less_eq_stream_status_def less_stream_status_def intro: status_code_inject)

end

lemma status_less_simps [simp]:
  "STATUS_STANDBY < t \<longleftrightarrow> t \<noteq> STATUS_STANDBY"
  "STATUS_READY < t \<longleftrightarrow> t = STATUS_IDLE \<or> t = STATUS_PLAYING \<or> t = STATUS_PAUSED"
  "STATUS_IDLE < t \<longleftrightarrow> t = STATUS_PLAYING \<or> t = STATUS_PAUSED"
  by (cases t; simp add: less_stream_status_def)+

text \<open>
  Values of \<open>audio_devices_t\<close> as the platform numbers them: bit sets, of which those of input
  devices have the highest bit; the prefix \<open>AUDIO_DEVICE\<close> is \<open>AD\<close>.
\<close>

abbreviation (input) AD_NONE :: u32 where "AD_NONE \<equiv> 0"
abbreviation (input) AD_BIT_IN :: u32 where "AD_BIT_IN \<equiv> 0x80000000"
abbreviation (input) AD_OUT_EARPIECE :: u32 where "AD_OUT_EARPIECE \<equiv> 0x1"
abbreviation (input) AD_OUT_SPEAKER :: u32 where "AD_OUT_SPEAKER \<equiv> 0x2"
abbreviation (input) AD_OUT_WIRED_HEADSET :: u32 where "AD_OUT_WIRED_HEADSET \<equiv> 0x4"
abbreviation (input) AD_OUT_WIRED_HEADPHONE :: u32 where "AD_OUT_WIRED_HEADPHONE \<equiv> 0x8"
abbreviation (input) AD_OUT_BLUETOOTH_SCO :: u32 where "AD_OUT_BLUETOOTH_SCO \<equiv> 0x10"
abbreviation (input) AD_OUT_BLUETOOTH_SCO_HEADSET :: u32 where "AD_OUT_BLUETOOTH_SCO_HEADSET \<equiv> 0x20"
abbreviation (input) AD_OUT_BLUETOOTH_SCO_CARKIT :: u32 where "AD_OUT_BLUETOOTH_SCO_CARKIT \<equiv> 0x40"
abbreviation (input) AD_OUT_ALL_SCO :: u32 where "AD_OUT_ALL_SCO \<equiv> 0x70"
abbreviation (input) AD_OUT_AUX_DIGITAL :: u32 where "AD_OUT_AUX_DIGITAL \<equiv> 0x400"
abbreviation (input) AD_OUT_USB_ACCESSORY :: u32 where "AD_OUT_USB_ACCESSORY \<equiv> 0x2000"
abbreviation (input) AD_OUT_USB_DEVICE :: u32 where "AD_OUT_USB_DEVICE \<equiv> 0x4000"
abbreviation (input) AD_OUT_TELEPHONY_TX :: u32 where "AD_OUT_TELEPHONY_TX \<equiv> 0x10000"
abbreviation (input) AD_OUT_LINE :: u32 where "AD_OUT_LINE \<equiv> 0x20000"
abbreviation (input) AD_OUT_USB_HEADSET :: u32 where "AD_OUT_USB_HEADSET \<equiv> 0x4000000"
abbreviation (input) AD_IN_BUILTIN_MIC :: u32 where "AD_IN_BUILTIN_MIC \<equiv> 0x80000004"
abbreviation (input) AD_IN_BLUETOOTH_SCO_HEADSET :: u32 where "AD_IN_BLUETOOTH_SCO_HEADSET \<equiv> 0x80000008"
abbreviation (input) AD_IN_WIRED_HEADSET :: u32 where "AD_IN_WIRED_HEADSET \<equiv> 0x80000010"
abbreviation (input) AD_IN_TELEPHONY_RX :: u32 where "AD_IN_TELEPHONY_RX \<equiv> 0x80000040"
abbreviation (input) AD_IN_BACK_MIC :: u32 where "AD_IN_BACK_MIC \<equiv> 0x80000080"
abbreviation (input) AD_IN_USB_ACCESSORY :: u32 where "AD_IN_USB_ACCESSORY \<equiv> 0x80000800"
abbreviation (input) AD_IN_USB_DEVICE :: u32 where "AD_IN_USB_DEVICE \<equiv> 0x80001000"
abbreviation (input) AD_IN_FM_TUNER :: u32 where "AD_IN_FM_TUNER \<equiv> 0x80002000"
abbreviation (input) AD_IN_USB_HEADSET :: u32 where "AD_IN_USB_HEADSET \<equiv> 0x82000000"
abbreviation (input) AD_IN_DEFAULT :: u32 where "AD_IN_DEFAULT \<equiv> 0xC0000000"

abbreviation (input) AUDIO_SOURCE_DEFAULT :: u32 where "AUDIO_SOURCE_DEFAULT \<equiv> 0"
abbreviation (input) AUDIO_SOURCE_MIC :: u32 where "AUDIO_SOURCE_MIC \<equiv> 1"
abbreviation (input) AUDIO_SOURCE_VOICE_UPLINK :: u32 where "AUDIO_SOURCE_VOICE_UPLINK \<equiv> 2"
abbreviation (input) AUDIO_SOURCE_VOICE_DOWNLINK :: u32 where "AUDIO_SOURCE_VOICE_DOWNLINK \<equiv> 3"
abbreviation (input) AUDIO_SOURCE_VOICE_CALL :: u32 where "AUDIO_SOURCE_VOICE_CALL \<equiv> 4"
abbreviation (input) AUDIO_SOURCE_CAMCORDER :: u32 where "AUDIO_SOURCE_CAMCORDER \<equiv> 5"
abbreviation (input) AUDIO_SOURCE_VOICE_RECOGNITION :: u32 where "AUDIO_SOURCE_VOICE_RECOGNITION \<equiv> 6"
abbreviation (input) AUDIO_SOURCE_VOICE_COMMUNICATION :: u32 where "AUDIO_SOURCE_VOICE_COMMUNICATION \<equiv> 7"
abbreviation (input) AUDIO_SOURCE_FM_TUNER :: u32 where "AUDIO_SOURCE_FM_TUNER \<equiv> 1998"
abbreviation (input) AUDIO_SOURCE_HOTWORD :: u32 where "AUDIO_SOURCE_HOTWORD \<equiv> 1999"

abbreviation (input) VOICE_SR_WB :: int where "VOICE_SR_WB \<equiv> 1"
abbreviation (input) VOICE_SR_SWB :: int where "VOICE_SR_SWB \<equiv> 2"
abbreviation (input) VOLTE_VIDEO :: int where "VOLTE_VIDEO \<equiv> 2"

definition popcount :: "u32 \<Rightarrow> nat" where
  "popcount d = length (filter (\<lambda>i. bit d i) [0..<32])"

text \<open>The devices as the RIL client distinguishes them.\<close>

definition ril_devices :: "u32 \<Rightarrow> audio_devices" where
  "ril_devices d =
     (if d = AD_NONE then AUDIO_DEVICE_NONE else if d = AD_OUT_EARPIECE then AUDIO_DEVICE_OUT_EARPIECE
      else if d = AD_OUT_SPEAKER then AUDIO_DEVICE_OUT_SPEAKER else if d = AD_OUT_WIRED_HEADSET then AUDIO_DEVICE_OUT_WIRED_HEADSET
      else if d = AD_OUT_WIRED_HEADPHONE then AUDIO_DEVICE_OUT_WIRED_HEADPHONE
      else if d = AD_OUT_BLUETOOTH_SCO then AUDIO_DEVICE_OUT_BLUETOOTH_SCO
      else if d = AD_OUT_BLUETOOTH_SCO_HEADSET then AUDIO_DEVICE_OUT_BLUETOOTH_SCO_HEADSET
      else if d = AD_OUT_BLUETOOTH_SCO_CARKIT then AUDIO_DEVICE_OUT_BLUETOOTH_SCO_CARKIT
      else if d = AD_OUT_LINE then AUDIO_DEVICE_OUT_LINE else AUDIO_DEVICE_OTHER d (d AND AD_OUT_ALL_SCO \<noteq> 0))"

section \<open>State\<close>

record factory_manager =
  fac_mode :: factory_mode_status
  fac_loopback_mode :: loopback_type
  fac_out_device :: u32
  fac_in_device :: u32
  rms_test_enable :: bool
  is_calibration_test :: bool
  is_dspk_changed :: bool

record stream_common =
  proxy_stream :: int
  io_handle :: int
  requested_devices :: u32
  requested_sample_rate :: u32
  requested_channel_mask :: u32
  requested_format :: u32
  requested_frame_count :: u32
  offload_audio_format :: u32
  stream_type :: audio_stream_type
  stream_usage :: audio_usage
  stream_status :: stream_status

datatype offload_msg = OFFLOAD_MSG_INVALID | OFFLOAD_MSG_WAIT_WRITE | OFFLOAD_MSG_WAIT_DRAIN | OFFLOAD_MSG_WAIT_PARTIAL_DRAIN | OFFLOAD_MSG_EXIT

text \<open>The callback is given by its cookie, 0 when none was set; the message that the thread works on is its own.\<close>

record stream_offload =
  nonblock_flag :: bool
  off_callback :: int
  callback_thread :: bool
  msg_list :: "offload_msg list"
  thread_msg :: offload_msg
  callback_thread_blocked :: bool

record stream_out =
  out_common :: stream_common
  out_flags :: u32
  offload :: stream_offload
  vol_left :: rat
  vol_right :: rat
  force :: force_route
  rollback_devices :: u32

record stream_in =
  in_common :: stream_common
  in_flags :: u32
  requested_source :: u32
  pcm_reconfig :: bool

text \<open>
  The device; fields that are only initialised are left out. A pointer to a stream is its address,
  None is NULL; a volume, a float, is a rational number.
\<close>

record audio_device =
  proxy :: int
  playback_list :: "nat list"
  capture_list :: "nat list"
  actual_playback_device :: u32
  actual_capture_device :: u32
  previous_playback_device :: u32
  previous_capture_device :: u32
  is_route_created :: bool
  is_playback_path_routed :: bool
  active_playback_ausage :: audio_usage
  active_playback_device :: device_type
  active_playback_modifier :: modifier_type
  is_capture_path_routed :: bool
  active_capture_ausage :: audio_usage
  active_capture_device :: device_type
  active_capture_modifier :: modifier_type
  current_devices :: u32
  voice :: "voice_manager option"
  voice_volume :: rat
  mic_mute :: bool
  factory :: "factory_manager option"
  primary_output :: "nat option"
  active_input :: "nat option"
  compress_output :: "nat option"
  amode :: audio_mode_t
  previous_amode :: audio_mode_t
  incallmusic_on :: bool
  voipse_on :: bool
  screen_on :: bool
  fm_state :: fm_state_t
  fm_need_route :: bool
  seamless_enabled :: bool
  support_reciever :: bool
  fm_via_a2dp :: bool
  pcmread_latency :: int
  update_offload_volume :: bool

text \<open>
  The calls that leave the HAL. The path that a call of \<open>proxy_set_route\<close> is for is not an argument
  of it but is recorded. The calls with a question are answered without a trace.
\<close>

datatype audio_path = Playback_path | Capture_path

datatype compress_type = COMPRESS_TYPE_WAIT | COMPRESS_TYPE_NEXTTRACK | COMPRESS_TYPE_PARTIALDRAIN | COMPRESS_TYPE_DRAIN

datatype cbk_event = STREAM_CBK_EVENT_WRITE_READY | STREAM_CBK_EVENT_DRAIN_READY | STREAM_CBK_EVENT_ERROR

datatype (plugins only: code size) px_call =
    proxy_set_route audio_path audio_usage device_type modifier_type bool
  | proxy_create_playback_stream audio_stream_type | proxy_destroy_playback_stream int
  | proxy_open_playback_stream int int | proxy_close_playback_stream int | proxy_start_playback_stream int | proxy_stop_playback_stream int
  | proxy_write_playback_buffer int int | proxy_reconfig_playback_stream int audio_stream_type u32 u32 u32 | proxy_setparam_playback_stream int
  | proxy_create_capture_stream audio_stream_type audio_usage | proxy_destroy_capture_stream int
  | proxy_open_capture_stream int int | proxy_close_capture_stream int | proxy_start_capture_stream int | proxy_stop_capture_stream int
  | proxy_read_capture_buffer int int | proxy_reconfig_capture_stream int audio_stream_type u32 u32 u32 | proxy_setparam_capture_stream int
  | proxy_reconfig_capture_usage int audio_stream_type audio_usage | proxy_update_capture_usage int audio_usage
  | proxy_offload_set_nonblock int | proxy_offload_pause int | proxy_offload_resume int | proxy_offload_compress_func int compress_type
  | offload_event int cbk_event
  | proxy_start_voice_call | proxy_stop_voice_call | proxy_start_fm_radio | proxy_stop_fm_radio
  | proxy_set_mixer_value_int string int | proxy_set_audiomode audio_mode_t | proxy_set_volume rat rat | proxy_set_communication_volume int
  | proxy_call_status bool | proxy_set_parameters | proxy_init | proxy_deinit int | proxy_init_route string | proxy_deinit_route int
  | proxy_init_offload_effect_lib int
  | calloc_stream | calloc_device | calloc_factory
  | mutex_lock audio_path nat | mutex_unlock audio_path nat
  | is_active_usage_APCall | is_active_usage_CPCall | is_usage_CPCall audio_usage
  | proxy_get_actual_sampling_rate int | proxy_get_actual_channel_count int | proxy_get_actual_format int | proxy_get_actual_period_size int

text \<open>The names of the platform's parameters, apart from those of the voice manager.\<close>

record hal_names =
  AUDIO_PARAMETER_STREAM_ROUTING :: string
  AUDIO_PARAMETER_STREAM_FORMAT :: string
  AUDIO_PARAMETER_STREAM_CHANNELS :: string
  AUDIO_PARAMETER_STREAM_SAMPLING_RATE :: string
  AUDIO_PARAMETER_STREAM_INPUT_SOURCE :: string
  AUDIO_PARAMETER_DEVICE_CONNECT :: string
  AUDIO_PARAMETER_DEVICE_DISCONNECT :: string
  AUDIO_PARAMETER_KEY_SCREEN_STATE :: string

text \<open>
  The environment: the proxy, the RIL library, the names of the platform's parameters, the product
  of a volume with the number of its steps, the property of that number, the number a parameter
  stands for, the masks of channels, the name of the interface, the contents of the file that names
  the mixer paths, and how the HAL was built.
\<close>

record hal_env =
  px :: "px_call list \<Rightarrow> px_call \<Rightarrow> int"
  ril_lib :: ril_env
  voice_names :: parm_names
  names :: hal_names
  volume_scale :: "rat \<Rightarrow> int \<Rightarrow> int"
  volume_property :: string
  str_parms_int :: "string \<Rightarrow> int option"
  out_mask_from_count :: "int \<Rightarrow> u32"
  in_mask_from_count :: "int \<Rightarrow> u32"
  AUDIO_HARDWARE_INTERFACE :: string
  mixer_info :: "string option"
  SUPPORT_STHAL_INTERFACE :: bool
  SUPPORT_SPEECH_PARAM :: bool
  USE_SITRIL :: bool

text \<open>New streams get a new address, so the address of a freed stream stays unused.\<close>

record hal =
  dev :: audio_device
  outs :: "nat \<rightharpoonup> stream_out"
  ins :: "nat \<rightharpoonup> stream_in"
  next_addr :: nat
  ril :: ril_world
  px_log :: "px_call list"

definition px_query :: "hal_env \<Rightarrow> px_call \<Rightarrow> hal \<Rightarrow> int" where
  "px_query E c s = px E (px_log s) c"

definition px_do :: "px_call \<Rightarrow> hal \<Rightarrow> hal" where
  "px_do c s = s\<lparr>px_log := c # px_log s\<rparr>"

definition px_ask :: "hal_env \<Rightarrow> px_call \<Rightarrow> hal \<Rightarrow> int \<times> hal" where
  "px_ask E c s = (px_query E c s, px_do c s)"

definition upd_dev :: "(audio_device \<Rightarrow> audio_device) \<Rightarrow> hal \<Rightarrow> hal" where
  "upd_dev f s = s\<lparr>dev := f (dev s)\<rparr>"

definition upd_out :: "nat \<Rightarrow> (stream_out \<Rightarrow> stream_out) \<Rightarrow> hal \<Rightarrow> hal" where
  "upd_out i f s = s\<lparr>outs := (outs s)(i := map_option f (outs s i))\<rparr>"

definition upd_in :: "nat \<Rightarrow> (stream_in \<Rightarrow> stream_in) \<Rightarrow> hal \<Rightarrow> hal" where
  "upd_in i f s = s\<lparr>ins := (ins s)(i := map_option f (ins s i))\<rparr>"

text \<open>What a pointer points to; None when it is NULL or the stream was freed.\<close>

definition deref_out :: "hal \<Rightarrow> nat option \<Rightarrow> stream_out option" where
  "deref_out s p = p \<bind> outs s"

definition deref_in :: "hal \<Rightarrow> nat option \<Rightarrow> stream_in option" where
  "deref_in s p = p \<bind> ins s"

text \<open>The value of a parameter, cut to a buffer of \<open>n\<close> bytes.\<close>

definition parm :: "str_parms \<Rightarrow> string \<Rightarrow> nat \<Rightarrow> string option" where
  "parm parms key n = map_option (take (n - 1)) (parms key)"

text \<open>An operation of the voice manager on the manager of the device, when there is one.\<close>

definition on_voice :: "(vm_state \<Rightarrow> vm_state) \<Rightarrow> hal \<Rightarrow> hal" where
  "on_voice f s =
     (case voice (dev s) of
        None \<Rightarrow> s
      | Some v \<Rightarrow> (let (v, w) = f (v, ril s) in s\<lparr>dev := (dev s)\<lparr>voice := Some v\<rparr>, ril := w\<rparr>))"

text \<open>The part of a stream that both kinds have.\<close>

definition upd_ocommon :: "nat \<Rightarrow> (stream_common \<Rightarrow> stream_common) \<Rightarrow> hal \<Rightarrow> hal" where
  "upd_ocommon k f = upd_out k (\<lambda>x. x\<lparr>out_common := f (out_common x)\<rparr>)"

definition upd_icommon :: "nat \<Rightarrow> (stream_common \<Rightarrow> stream_common) \<Rightarrow> hal \<Rightarrow> hal" where
  "upd_icommon k f = upd_in k (\<lambda>x. x\<lparr>in_common := f (in_common x)\<rparr>)"

definition out_status :: "nat \<Rightarrow> stream_status \<Rightarrow> hal \<Rightarrow> hal" where
  "out_status k t = upd_ocommon k (\<lambda>c. c\<lparr>stream_status := t\<rparr>)"

definition in_status :: "nat \<Rightarrow> stream_status \<Rightarrow> hal \<Rightarrow> hal" where
  "in_status k t = upd_icommon k (\<lambda>c. c\<lparr>stream_status := t\<rparr>)"

text \<open>What the parts of the state are after each kind of change.\<close>

lemma dev_simps [simp]:
  "dev (px_do c s) = dev s" "dev (upd_dev f s) = f (dev s)" "dev (upd_out k g s) = dev s" "dev (upd_in k h s) = dev s"
  "dev (upd_ocommon k c1 s) = dev s" "dev (upd_icommon k c1 s) = dev s" "dev (out_status k t s) = dev s" "dev (in_status k t s) = dev s"
  by (simp_all add: px_do_def upd_dev_def upd_out_def upd_in_def upd_ocommon_def upd_icommon_def out_status_def in_status_def)

lemma log_simps [simp]:
  "px_log (px_do c s) = c # px_log s" "px_log (upd_dev f s) = px_log s" "px_log (upd_out k g s) = px_log s" "px_log (upd_in k h s) = px_log s"
  "px_log (upd_ocommon k c1 s) = px_log s" "px_log (upd_icommon k c1 s) = px_log s" "px_log (out_status k t s) = px_log s"
  "px_log (in_status k t s) = px_log s"
  by (simp_all add: px_do_def upd_dev_def upd_out_def upd_in_def upd_ocommon_def upd_icommon_def out_status_def in_status_def)

lemma outs_simps [simp]:
  "outs (px_do c s) = outs s" "outs (upd_dev f s) = outs s" "outs (upd_out k g s) = (outs s)(k := map_option g (outs s k))"
  "outs (upd_in k h s) = outs s" "outs (upd_icommon k c1 s) = outs s" "outs (in_status k t s) = outs s"
  by (simp_all add: px_do_def upd_dev_def upd_out_def upd_in_def upd_icommon_def in_status_def)

lemma ins_simps [simp]:
  "ins (px_do c s) = ins s" "ins (upd_dev f s) = ins s" "ins (upd_in k h s) = (ins s)(k := map_option h (ins s k))"
  "ins (upd_out k g s) = ins s" "ins (upd_ocommon k c1 s) = ins s" "ins (out_status k t s) = ins s"
  by (simp_all add: px_do_def upd_dev_def upd_out_def upd_in_def upd_ocommon_def out_status_def)

lemma on_voice_simps [simp]:
  "outs (on_voice f s) = outs s" "ins (on_voice f s) = ins s" "px_log (on_voice f s) = px_log s"
  by (auto simp: on_voice_def split: option.split prod.split)

end
