(* ===== verification/Audio_Route.thy ===== *)
theory Audio_Route
  imports Audio_State
begin

text \<open>
  The routing part of the primary audio HAL, \<open>libaudio/audiohal/audio_hw.c\<close>: the usage and the device
  that a stream is played on or recorded from, and \<open>adev_set_route\<close>, which brings the two audio
  paths there. The result None is a read through a NULL or freed pointer, or a recursion without
  end. The lemmas show when a device is selected at all.
\<close>

section \<open>Modes\<close>

definition isCPCallMode :: "audio_device \<Rightarrow> bool" where
  "isCPCallMode d \<longleftrightarrow> amode d = AUDIO_MODE_IN_CALL"

definition isAPCallMode :: "audio_device \<Rightarrow> bool" where
  "isAPCallMode d \<longleftrightarrow> amode d = AUDIO_MODE_IN_COMMUNICATION"

definition isCallMode :: "audio_device \<Rightarrow> bool" where
  "isCallMode d \<longleftrightarrow> isCPCallMode d \<or> isAPCallMode d"

definition isFactoryMode :: "audio_device \<Rightarrow> bool" where
  "isFactoryMode d = (case factory d of None \<Rightarrow> False | Some f \<Rightarrow> fac_mode f \<noteq> FACTORY_MODE_NONE)"

definition isCallRecording :: "u32 \<Rightarrow> bool" where
  "isCallRecording source \<longleftrightarrow>
     source = AUDIO_SOURCE_VOICE_UPLINK \<or> source = AUDIO_SOURCE_VOICE_DOWNLINK \<or> source = AUDIO_SOURCE_VOICE_CALL"

definition isFMRadioOn :: "audio_device \<Rightarrow> bool" where
  "isFMRadioOn d \<longleftrightarrow> fm_state d = FM_ON \<or> fm_state d = FM_RECORDING"

definition need_voipse_on :: "audio_device \<Rightarrow> bool" where
  "need_voipse_on d \<longleftrightarrow> isAPCallMode d \<and> \<not> voipse_on d"

definition isUSBHeadsetConnect :: "audio_device \<Rightarrow> bool" where
  "isUSBHeadsetConnect d \<longleftrightarrow>
     actual_playback_device d = AD_OUT_USB_DEVICE \<or> actual_playback_device d = AD_OUT_USB_ACCESSORY
     \<or> actual_playback_device d = AD_OUT_USB_HEADSET"

section \<open>The usage of a stream\<close>

definition adev_get_ausage_for_factory :: "audio_device \<Rightarrow> audio_usage" where
  "adev_get_ausage_for_factory d =
     (case factory d of
        None \<Rightarrow> AUSAGE_NONE
      | Some f \<Rightarrow>
          if fac_mode f = FACTORY_MODE_LOOPBACK then
            (case fac_loopback_mode f of
               LOOPBACK_PACKET \<Rightarrow> AUSAGE_LOOPBACK
             | LOOPBACK_CODEC \<Rightarrow> AUSAGE_LOOPBACK_CODEC
             | LOOPBACK_REALTIME \<Rightarrow> AUSAGE_LOOPBACK_REALTIME
             | LOOPBACK_PACKET_NODELAY \<Rightarrow> AUSAGE_LOOPBACK_NODELAY
             | _ \<Rightarrow> AUSAGE_LOOPBACK)
          else if fac_mode f = FACTORY_MODE_RMS then AUSAGE_RMS
          else AUSAGE_NONE)"

definition adev_get_ausage_for_volte :: "audio_device \<Rightarrow> audio_usage" where
  "adev_get_ausage_for_volte d =
     (case voice d of
        None \<Rightarrow> AUSAGE_NONE
      | Some v \<Rightarrow>
          let rate = voice_get_samplingrate v in
          if voice_get_volte_status v = VOLTE_VOICE then
            (if rate = VOICE_SR_SWB then AUSAGE_VOLTE_CALL_SWB else if rate = VOICE_SR_WB then AUSAGE_VOLTE_CALL_WB else AUSAGE_VOLTE_CALL_NB)
          else if voice_get_volte_status v = VOLTE_VIDEO then
            (if rate = VOICE_SR_SWB then AUSAGE_VOLTE_VT_CALL_SWB else if rate = VOICE_SR_WB then AUSAGE_VOLTE_VT_CALL_WB
             else AUSAGE_VOLTE_VT_CALL_NB)
          else AUSAGE_NONE)"

definition adev_get_ausage_for_call :: "audio_device \<Rightarrow> audio_usage" where
  "adev_get_ausage_for_call d =
     (case voice d of
        None \<Rightarrow> AUSAGE_NONE
      | Some v \<Rightarrow>
          if tty_mode v \<noteq> TTY_MODE_OFF then AUSAGE_TTY
          else if incallmusic_on d then AUSAGE_INCALL_MUSIC
          else if voice_get_volte_status v \<noteq> VOLTE_OFF then adev_get_ausage_for_volte d
          else if voice_get_samplingrate v = VOICE_SR_WB then
            (if vm_hac_mode v = HAC_MODE_ON then AUSAGE_VOICE_CALL_WB_HAC else AUSAGE_VOICE_CALL_WB)
          else (if vm_hac_mode v = HAC_MODE_ON then AUSAGE_VOICE_CALL_NB_HAC else AUSAGE_VOICE_CALL_NB))"

definition voip_of_input :: "hal \<Rightarrow> audio_usage option" where
  "voip_of_input s =
     (case active_input (dev s) of
        None \<Rightarrow> Some AUSAGE_COMMUNICATION
      | Some i \<Rightarrow> do {
          x \<leftarrow> ins s i;
          Some (if requested_source x = AUDIO_SOURCE_MIC then AUSAGE_VOIP_CALL else AUSAGE_COMMUNICATION) })"

definition adev_get_ausage_for_voip :: "hal \<Rightarrow> audio_usage option" where
  "adev_get_ausage_for_voip s =
     (case voice (dev s) of
        None \<Rightarrow> voip_of_input s
      | Some v \<Rightarrow>
          if csvtcall v then Some AUSAGE_VIDEO_CALL
          else if voip_wificalling v then
            (if tty_mode v \<noteq> TTY_MODE_OFF then Some AUSAGE_AP_TTY
             else do {
               p \<leftarrow> deref_out s (primary_output (dev s));
               Some (if requested_devices (out_common p) AND AD_OUT_ALL_SCO \<noteq> 0 then
                       (if bluetooth_samplerate v = WB_SAMPLING_RATE then AUSAGE_WIFI_CALL_WB else AUSAGE_WIFI_CALL_NB)
                     else if voice_get_vowifi_band v = VOICE_SR_SWB then AUSAGE_WIFI_CALL_SWB
                     else if voice_get_vowifi_band v = VOICE_SR_WB then AUSAGE_WIFI_CALL_WB
                     else AUSAGE_WIFI_CALL_NB) })
          else voip_of_input s)"

definition adev_get_playback_ausage :: "hal \<Rightarrow> audio_usage option" where
  "adev_get_playback_ausage s =
     (let d = dev s in
      if isFactoryMode d then Some (adev_get_ausage_for_factory d)
      else if isCPCallMode d then Some (adev_get_ausage_for_call d)
      else if isAPCallMode d then adev_get_ausage_for_voip s
      else if isFMRadioOn d then do {
        p \<leftarrow> deref_out s (primary_output d);
        Some (if popcount (requested_devices (out_common p)) = 1 then AUSAGE_FM_RADIO_TUNER else AUSAGE_NONE) }
      else Some AUSAGE_NONE)"

definition adev_get_capture_ausage :: "hal \<Rightarrow> stream_in \<Rightarrow> audio_usage option" where
  "adev_get_capture_ausage s x =
     (let d = dev s; source = requested_source x in
      if isFactoryMode d then Some (adev_get_ausage_for_factory d)
      else if isCPCallMode d then
        Some (if source = AUDIO_SOURCE_VOICE_UPLINK then AUSAGE_INCALL_UPLINK
              else if source = AUDIO_SOURCE_VOICE_DOWNLINK then AUSAGE_INCALL_DOWNLINK
              else if source = AUDIO_SOURCE_VOICE_CALL then AUSAGE_INCALL_UPLINK_DOWNLINK
              else AUSAGE_RECORDING)
      else if isAPCallMode d then adev_get_ausage_for_voip s
      else Some (if source = AUDIO_SOURCE_CAMCORDER then AUSAGE_CAMCORDER
                 else if source = AUDIO_SOURCE_VOICE_RECOGNITION then AUSAGE_RECOGNITION
                 else AUSAGE_RECORDING))"

text \<open>\<open>adev_get_ausage_from_stream\<close>, for an output and for an input stream.\<close>

definition out_ausage :: "hal \<Rightarrow> stream_out \<Rightarrow> audio_usage option" where
  "out_ausage s x = do {
     u \<leftarrow> adev_get_playback_ausage s;
     Some (if u = AUSAGE_NONE then stream_usage (out_common x) else u) }"

definition in_ausage :: "hal \<Rightarrow> stream_in \<Rightarrow> audio_usage option" where
  "in_ausage s x = do {
     u \<leftarrow> adev_get_capture_ausage s x;
     Some (if u = AUSAGE_NONE then stream_usage (in_common x) else u) }"

section \<open>The device of a stream\<close>

text \<open>The microphone that goes with an output device, and what a text telephone makes of it in a call.\<close>

definition call_mic :: "audio_device \<Rightarrow> device_type \<Rightarrow> device_type option" where
  "call_mic d devices =
     (case devices of
        DEVICE_EARPIECE \<Rightarrow> Some DEVICE_HANDSET_MIC
      | DEVICE_SPEAKER \<Rightarrow> Some DEVICE_SPEAKER_MIC
      | DEVICE_HEADSET \<Rightarrow> Some DEVICE_HEADSET_MIC
      | DEVICE_HEADPHONE \<Rightarrow> Some DEVICE_HEADPHONE_MIC
      | DEVICE_BT_HEADSET \<Rightarrow>
          if isAPCallMode d then do {
            v \<leftarrow> voice d;
            Some (if bluetooth_nrec v \<noteq> 0 then DEVICE_BT_HEADSET_MIC else DEVICE_BT_NREC_HEADSET_MIC) }
          else Some DEVICE_BT_HEADSET_MIC
      | DEVICE_USB_HEADSET \<Rightarrow>
          Some (if actual_capture_device d \<noteq> AD_IN_USB_DEVICE \<and> actual_capture_device d \<noteq> AD_IN_USB_HEADSET
                then DEVICE_HANDSET_MIC else DEVICE_USB_HEADSET_MIC)
      | DEVICE_LINE_OUT \<Rightarrow> Some DEVICE_LINE_OUT_MIC
      | DEVICE_NONE \<Rightarrow> Some DEVICE_NONE
      | _ \<Rightarrow> Some (if support_reciever d then DEVICE_HANDSET_MIC else DEVICE_SPEAKER_MIC))"

abbreviation (input) HEADPHONE_HEADSET_SPEAKER_LINE_OUT :: u32 where
  "HEADPHONE_HEADSET_SPEAKER_LINE_OUT \<equiv>
     device_code DEVICE_HEADPHONE OR device_code DEVICE_HEADSET OR device_code DEVICE_SPEAKER OR device_code DEVICE_LINE_OUT"

abbreviation (input) HEADPHONE_HEADSET_LINE_OUT :: u32 where
  "HEADPHONE_HEADSET_LINE_OUT \<equiv> device_code DEVICE_HEADPHONE OR device_code DEVICE_HEADSET OR device_code DEVICE_LINE_OUT"

definition tty_mic :: "audio_device \<Rightarrow> device_type \<Rightarrow> device_type \<Rightarrow> device_type" where
  "tty_mic d devices mic =
     (case voice d of
        None \<Rightarrow> mic
      | Some v \<Rightarrow>
          if tty_mode v \<noteq> TTY_MODE_OFF \<and> device_code devices AND HEADPHONE_HEADSET_SPEAKER_LINE_OUT \<noteq> 0 then
            (if tty_mode v = TTY_MODE_FULL then DEVICE_FULL_MIC
             else if tty_mode v = TTY_MODE_HCO then
               (if device_code devices AND HEADPHONE_HEADSET_LINE_OUT \<noteq> 0 then DEVICE_HCO_MIC else mic)
             else if tty_mode v = TTY_MODE_VCO then DEVICE_VCO_MIC
             else mic)
          else mic)"

definition get_indevice_id_from_outdevice :: "audio_device \<Rightarrow> device_type \<Rightarrow> device_type option" where
  "get_indevice_id_from_outdevice d devices =
     (if isCallMode d then map_option (tty_mic d devices) (call_mic d devices)
      else Some (case devices of
                   DEVICE_SPEAKER \<Rightarrow> DEVICE_MAIN_MIC | DEVICE_EARPIECE \<Rightarrow> DEVICE_MAIN_MIC | DEVICE_HEADPHONE \<Rightarrow> DEVICE_MAIN_MIC
                 | DEVICE_SPEAKER_AND_HEADPHONE \<Rightarrow> DEVICE_MAIN_MIC | DEVICE_AUX_DIGITAL \<Rightarrow> DEVICE_MAIN_MIC
                 | DEVICE_LINE_OUT \<Rightarrow> DEVICE_MAIN_MIC | DEVICE_SPEAKER_AND_LINEOUT \<Rightarrow> DEVICE_MAIN_MIC
                 | DEVICE_HEADSET \<Rightarrow> DEVICE_HEADSET_MIC | DEVICE_SPEAKER_AND_HEADSET \<Rightarrow> DEVICE_HEADSET_MIC
                 | DEVICE_BT_HEADSET \<Rightarrow> DEVICE_BT_HEADSET_MIC | DEVICE_SPEAKER_AND_BT_HEADSET \<Rightarrow> DEVICE_BT_HEADSET_MIC
                 | DEVICE_USB_HEADSET \<Rightarrow> DEVICE_USB_HEADSET_MIC
                 | _ \<Rightarrow> DEVICE_NONE))"

text \<open>The output device in a call, without the case \<open>AUDIO_DEVICE_OUT_TELEPHONY_TX\<close>.\<close>

definition call_device :: "audio_device \<Rightarrow> u32 \<Rightarrow> device_type" where
  "call_device d devices =
     (if devices = AD_OUT_EARPIECE then DEVICE_EARPIECE
      else if devices = AD_OUT_SPEAKER then DEVICE_SPEAKER
      else if devices = AD_OUT_WIRED_HEADSET then DEVICE_HEADSET
      else if devices = AD_OUT_WIRED_HEADPHONE then DEVICE_HEADPHONE
      else if devices = AD_OUT_BLUETOOTH_SCO \<or> devices = AD_OUT_BLUETOOTH_SCO_HEADSET \<or> devices = AD_OUT_BLUETOOTH_SCO_CARKIT then DEVICE_BT_HEADSET
      else if devices = AD_OUT_USB_DEVICE \<or> devices = AD_OUT_USB_HEADSET then DEVICE_USB_HEADSET
      else if devices = AD_OUT_LINE then DEVICE_LINE_OUT
      else if devices = AD_NONE then DEVICE_NONE
      else if support_reciever d then DEVICE_EARPIECE
      else DEVICE_SPEAKER)"

text \<open>What a text telephone and call forwarding make of it.\<close>

definition tty_device :: "voice_manager \<Rightarrow> u32 \<Rightarrow> device_type \<Rightarrow> device_type" where
  "tty_device v devices ret =
     (if tty_mode v \<noteq> TTY_MODE_OFF
         \<and> devices AND (AD_OUT_WIRED_HEADPHONE OR AD_OUT_LINE OR AD_OUT_WIRED_HEADSET OR AD_OUT_SPEAKER) \<noteq> 0 then
        (if tty_mode v = TTY_MODE_FULL then DEVICE_HEADSET
         else if tty_mode v = TTY_MODE_HCO then
           (if devices AND (AD_OUT_WIRED_HEADPHONE OR AD_OUT_WIRED_HEADSET OR AD_OUT_LINE) \<noteq> 0 then DEVICE_EARPIECE else ret)
         else if tty_mode v = TTY_MODE_VCO then DEVICE_HEADSET
         else ret)
      else ret)"

definition fwd_device :: "audio_device \<Rightarrow> voice_manager \<Rightarrow> device_type \<Rightarrow> device_type" where
  "fwd_device d v ret = (if isCPCallMode d \<and> call_forwarding v then DEVICE_CALL_FWD else ret)"

text \<open>The device outside of a call, and in a call when it has selected none.\<close>

definition plain_device :: "audio_device \<Rightarrow> u32 \<Rightarrow> device_type" where
  "plain_device d devices =
     (if AD_BIT_IN < devices then
        (if 2 \<le> popcount devices then
           (if devices = AD_IN_BUILTIN_MIC then DEVICE_MAIN_MIC
            else if devices = AD_IN_WIRED_HEADSET then DEVICE_HEADSET_MIC
            else if devices = AD_IN_BLUETOOTH_SCO_HEADSET then DEVICE_BT_HEADSET_MIC
            else if devices = AD_IN_BACK_MIC then DEVICE_SUB_MIC
            else if devices = AD_IN_USB_ACCESSORY \<or> devices = AD_IN_USB_DEVICE \<or> devices = AD_IN_USB_HEADSET then DEVICE_USB_HEADSET_MIC
            else if devices = AD_IN_FM_TUNER then DEVICE_FM_TUNER
            else DEVICE_MAIN_MIC)
         else DEVICE_NONE)
      else if fm_via_a2dp d \<and> isFMRadioOn d then DEVICE_FM_EXTERNAL
      else if popcount devices = 1 then
        (if devices = AD_OUT_EARPIECE then DEVICE_EARPIECE
         else if devices = AD_OUT_SPEAKER then DEVICE_SPEAKER
         else if devices = AD_OUT_WIRED_HEADSET then DEVICE_HEADSET
         else if devices = AD_OUT_WIRED_HEADPHONE then DEVICE_HEADPHONE
         else if devices = AD_OUT_BLUETOOTH_SCO \<or> devices = AD_OUT_BLUETOOTH_SCO_HEADSET \<or> devices = AD_OUT_BLUETOOTH_SCO_CARKIT then DEVICE_BT_HEADSET
         else if devices = AD_OUT_AUX_DIGITAL then DEVICE_AUX_DIGITAL
         else if devices = AD_OUT_USB_ACCESSORY \<or> devices = AD_OUT_USB_DEVICE \<or> devices = AD_OUT_USB_HEADSET then DEVICE_USB_HEADSET
         else if devices = AD_OUT_LINE then DEVICE_LINE_OUT
         else DEVICE_NONE)
      else if popcount devices = 2 then
        (if devices = AD_OUT_SPEAKER OR AD_OUT_WIRED_HEADSET then DEVICE_SPEAKER_AND_HEADSET
         else if devices = AD_OUT_SPEAKER OR AD_OUT_WIRED_HEADPHONE then DEVICE_SPEAKER_AND_HEADPHONE
         else if devices AND AD_OUT_ALL_SCO \<noteq> 0 \<and> devices AND AD_OUT_SPEAKER \<noteq> 0 then DEVICE_SPEAKER_AND_BT_HEADSET
         else if devices AND AD_OUT_USB_DEVICE \<noteq> 0 \<and> devices AND AD_OUT_SPEAKER \<noteq> 0 then DEVICE_SPEAKER
         else if devices = AD_OUT_SPEAKER OR AD_OUT_LINE then DEVICE_SPEAKER_AND_LINEOUT
         else DEVICE_NONE)
      else DEVICE_NONE)"

text \<open>
  In a call the device of an input, and of \<open>AUDIO_DEVICE_OUT_TELEPHONY_TX\<close>, is that of the primary
  output: the function calls itself. None is a read through NULL, or this recursion without end.
\<close>

partial_function (option) get_device_id :: "hal \<Rightarrow> u32 \<Rightarrow> device_type option" where
  "get_device_id s devices =
     (if isCallMode (dev s) then
        (if AD_BIT_IN < devices then do {
           p \<leftarrow> deref_out s (primary_output (dev s));
           out \<leftarrow> get_device_id s (requested_devices (out_common p));
           get_indevice_id_from_outdevice (dev s) out }
         else do {
           ret \<leftarrow> (if devices = AD_OUT_TELEPHONY_TX then do {
                    p \<leftarrow> deref_out s (primary_output (dev s));
                    get_device_id s (requested_devices (out_common p)) }
                  else Some (call_device (dev s) devices));
           v \<leftarrow> voice (dev s);
           let ret = fwd_device (dev s) v (tty_device v devices ret);
           Some (if ret \<noteq> DEVICE_NONE then ret else plain_device (dev s) devices) })
      else Some (plain_device (dev s) devices))"

definition get_apcall_speech_param :: "hal_env \<Rightarrow> hal \<Rightarrow> stream_out \<Rightarrow> int option" where
  "get_apcall_speech_param E s x =
     (if SUPPORT_SPEECH_PARAM E then do {
        device \<leftarrow> get_device_id s (requested_devices (out_common x));
        Some (case device of
                DEVICE_EARPIECE \<Rightarrow> 8
              | DEVICE_SPEAKER \<Rightarrow> 9
              | DEVICE_HEADSET \<Rightarrow> 11 | DEVICE_SPEAKER_AND_HEADSET \<Rightarrow> 11
              | DEVICE_HEADPHONE \<Rightarrow> 10 | DEVICE_SPEAKER_AND_HEADPHONE \<Rightarrow> 10
              | DEVICE_LINE_OUT \<Rightarrow> 12 | DEVICE_SPEAKER_AND_LINEOUT \<Rightarrow> 12
              | DEVICE_BT_HEADSET \<Rightarrow> (case voice (dev s) of None \<Rightarrow> 7 | Some v \<Rightarrow> if bluetooth_nrec v \<noteq> 0 then 6 else 7)
              | DEVICE_SPEAKER_AND_BT_HEADSET \<Rightarrow> (case voice (dev s) of None \<Rightarrow> 7 | Some v \<Rightarrow> if bluetooth_nrec v \<noteq> 0 then 6 else 7)
              | _ \<Rightarrow> 8) }
      else Some 8)"

text \<open>\<open>adev_get_device\<close> and \<open>adev_get_capture_device\<close>, for an output and for an input stream.\<close>

definition out_device_id :: "hal \<Rightarrow> stream_out \<Rightarrow> device_type option" where
  "out_device_id s x =
     (if isFactoryMode (dev s) then get_device_id s (fac_out_device (the (factory (dev s))))
      else get_device_id s (requested_devices (out_common x)))"

definition in_device_id :: "hal \<Rightarrow> stream_in \<Rightarrow> device_type option" where
  "in_device_id s x =
     (if isFactoryMode (dev s) then get_device_id s (fac_in_device (the (factory (dev s))))
      else get_device_id s (requested_devices (in_common x)))"

definition out_capture_device :: "hal \<Rightarrow> stream_out \<Rightarrow> device_type option" where
  "out_capture_device s x =
     (if isFactoryMode (dev s) then get_device_id s (fac_in_device (the (factory (dev s))))
      else do {
        out \<leftarrow> get_device_id s (requested_devices (out_common x));
        get_indevice_id_from_outdevice (dev s) out })"

definition adev_get_modifier :: "audio_device \<Rightarrow> device_type \<Rightarrow> modifier_type" where
  "adev_get_modifier d device =
     (let wide = (case voice d of None \<Rightarrow> False | Some v \<Rightarrow> bluetooth_samplerate v = WB_SAMPLING_RATE) in
      case device of
        DEVICE_BT_HEADSET \<Rightarrow> if wide then MODIFIER_BT_SCO_RX_WB else MODIFIER_BT_SCO_RX_NB
      | DEVICE_SPEAKER_AND_BT_HEADSET \<Rightarrow> if wide then MODIFIER_BT_SCO_RX_WB else MODIFIER_BT_SCO_RX_NB
      | DEVICE_BT_HEADSET_MIC \<Rightarrow> if wide then MODIFIER_BT_SCO_TX_WB else MODIFIER_BT_SCO_TX_NB
      | DEVICE_BT_NREC_HEADSET_MIC \<Rightarrow> if wide then MODIFIER_BT_SCO_TX_WB else MODIFIER_BT_SCO_TX_NB
      | _ \<Rightarrow> MODIFIER_NONE)"

text \<open>The devices for which the primary output is asked, and what the function does for the others.\<close>

definition refers :: "u32 \<Rightarrow> bool" where
  "refers devices \<longleftrightarrow> AD_BIT_IN < devices \<or> devices = AD_OUT_TELEPHONY_TX"

lemma call_mic_defined: "voice d = Some v \<Longrightarrow> \<exists>m. call_mic d dv = Some m"
  by (cases dv) (simp_all add: call_mic_def)

lemma indevice_defined: "voice d = Some v \<Longrightarrow> \<exists>m. get_indevice_id_from_outdevice d dv = Some m"
  using call_mic_defined by (fastforce simp: get_indevice_id_from_outdevice_def)

lemma get_device_id_plain: "\<not> isCallMode (dev s) \<Longrightarrow> get_device_id s devices = Some (plain_device (dev s) devices)"
  by (simp add: get_device_id.simps)

lemma get_device_id_direct:
  "isCallMode (dev s) \<Longrightarrow> \<not> refers devices \<Longrightarrow> get_device_id s devices =
     map_option (\<lambda>v. let ret = fwd_device (dev s) v (tty_device v devices (call_device (dev s) devices))
        in if ret \<noteq> DEVICE_NONE then ret else plain_device (dev s) devices) (voice (dev s))"
  by (subst get_device_id.simps) (auto simp: refers_def Let_def map_option_case split: Option.bind_splits)

lemma get_device_id_refers:
  assumes "isCallMode (dev s)" "refers devices" "get_device_id s devices \<noteq> None"
  obtains x v where "deref_out s (primary_output (dev s)) = Some x" "get_device_id s (requested_devices (out_common x)) \<noteq> None"
  using assms(3) by (subst (asm) get_device_id.simps) (use assms(1,2) in \<open>auto simp: refers_def split: if_splits Option.bind_splits\<close>)

text \<open>When the primary output itself refers to the primary output, the function does not return.\<close>

lemma get_device_id_diverges:
  assumes "get_device_id s devices = Some dv"
  shows "isCallMode (dev s) \<longrightarrow> refers devices \<longrightarrow>
    (\<forall>x. deref_out s (primary_output (dev s)) = Some x \<longrightarrow> \<not> refers (requested_devices (out_common x)))"
proof (rule get_device_id.raw_induct [where P = "\<lambda>s devices dv. isCallMode (dev s) \<longrightarrow> refers devices \<longrightarrow>
    (\<forall>x. deref_out s (primary_output (dev s)) = Some x \<longrightarrow> \<not> refers (requested_devices (out_common x)))", OF _ assms])
  fix get s devices dv
  assume IH: "\<And>s devices dv. get s devices = Some dv \<Longrightarrow> isCallMode (dev s) \<longrightarrow> refers devices \<longrightarrow>
      (\<forall>x. deref_out s (primary_output (dev s)) = Some x \<longrightarrow> \<not> refers (requested_devices (out_common x)))"
    and body: "(if isCallMode (dev s) then
        (if AD_BIT_IN < devices then do {
           p \<leftarrow> deref_out s (primary_output (dev s));
           out \<leftarrow> get s (requested_devices (out_common p));
           get_indevice_id_from_outdevice (dev s) out }
         else do {
           ret \<leftarrow> (if devices = AD_OUT_TELEPHONY_TX then do {
                    p \<leftarrow> deref_out s (primary_output (dev s));
                    get s (requested_devices (out_common p)) }
                  else Some (call_device (dev s) devices));
           v \<leftarrow> voice (dev s);
           let ret = fwd_device (dev s) v (tty_device v devices ret);
           Some (if ret \<noteq> DEVICE_NONE then ret else plain_device (dev s) devices) })
      else Some (plain_device (dev s) devices)) = Some dv"
  show "isCallMode (dev s) \<longrightarrow> refers devices \<longrightarrow>
      (\<forall>x. deref_out s (primary_output (dev s)) = Some x \<longrightarrow> \<not> refers (requested_devices (out_common x)))"
  proof (intro impI allI)
    fix x
    assume a: "isCallMode (dev s)" "refers devices" "deref_out s (primary_output (dev s)) = Some x"
    then obtain dv' where "get s (requested_devices (out_common x)) = Some dv'"
      using body by (auto simp: refers_def split: if_splits Option.bind_splits)
    from IH [OF this] a show "\<not> refers (requested_devices (out_common x))" by auto
  qed
qed

lemma get_device_id_returns:
  "(\<exists>dv. get_device_id s devices = Some dv) \<longleftrightarrow>
     \<not> isCallMode (dev s) \<or>
     voice (dev s) \<noteq> None \<and>
       (\<not> refers devices \<or> (\<exists>x. deref_out s (primary_output (dev s)) = Some x \<and> \<not> refers (requested_devices (out_common x))))"
proof (cases "isCallMode (dev s) \<and> refers devices")
  case False
  then show ?thesis by (cases "isCallMode (dev s)") (auto simp: get_device_id_plain get_device_id_direct)
next
  case True
  show ?thesis
  proof (cases "\<exists>x. deref_out s (primary_output (dev s)) = Some x \<and> \<not> refers (requested_devices (out_common x))")
    case False
    then show ?thesis using True get_device_id_diverges get_device_id_refers [of s devices] by (metis option.distinct(1))
  next
    case ex: True
    then obtain x where x: "deref_out s (primary_output (dev s)) = Some x" "\<not> refers (requested_devices (out_common x))" by blast
    show ?thesis using True x indevice_defined
      by (subst get_device_id.simps) (auto simp: refers_def get_device_id_direct Let_def split: Option.bind_splits)
  qed
qed

text \<open>The function without recursion, by which it is evaluated.\<close>

definition direct_device :: "hal \<Rightarrow> voice_manager \<Rightarrow> u32 \<Rightarrow> device_type \<Rightarrow> device_type" where
  "direct_device s v devices ret =
     (let ret = fwd_device (dev s) v (tty_device v devices ret) in if ret \<noteq> DEVICE_NONE then ret else plain_device (dev s) devices)"

lemma get_device_id_code [code]:
  "get_device_id s devices =
     (if \<not> isCallMode (dev s) then Some (plain_device (dev s) devices)
      else case voice (dev s) of
             None \<Rightarrow> None
           | Some v \<Rightarrow>
               if \<not> refers devices then Some (direct_device s v devices (call_device (dev s) devices))
               else case deref_out s (primary_output (dev s)) of
                      None \<Rightarrow> None
                    | Some x \<Rightarrow>
                        let own = requested_devices (out_common x); out = direct_device s v own (call_device (dev s) own) in
                        if refers own then None
                        else if AD_BIT_IN < devices then get_indevice_id_from_outdevice (dev s) out
                        else Some (direct_device s v devices out))"
proof (cases "isCallMode (dev s) \<and> refers devices \<and> (\<exists>dv. get_device_id s devices = Some dv)")
  case True
  then obtain x v where x: "deref_out s (primary_output (dev s)) = Some x" "\<not> refers (requested_devices (out_common x))" "voice (dev s) = Some v"
    using get_device_id_returns [of s devices] by auto
  then show ?thesis using True
    by (subst get_device_id.simps) (auto simp: refers_def get_device_id_direct direct_device_def Let_def split: Option.bind_splits)
next
  case False
  then consider "\<not> isCallMode (dev s)" | "isCallMode (dev s)" "\<not> refers devices" | "isCallMode (dev s)" "refers devices" "get_device_id s devices = None"
    by auto
  then show ?thesis
  proof cases
    case 3
    then show ?thesis using get_device_id_returns [of s devices] by (auto simp: Let_def split: option.split)
  qed (auto simp: get_device_id_plain get_device_id_direct direct_device_def split: option.split)
qed

section \<open>Active streams\<close>

text \<open>The streams of a list, with their addresses; None when one of them was freed.\<close>

definition out_streams :: "hal \<Rightarrow> (nat \<times> stream_out) list option" where
  "out_streams s = those (map (\<lambda>i. map_option (Pair i) (outs s i)) (playback_list (dev s)))"

definition in_streams :: "hal \<Rightarrow> (nat \<times> stream_in) list option" where
  "in_streams s = those (map (\<lambda>i. map_option (Pair i) (ins s i)) (capture_list (dev s)))"

definition get_active_playback_count :: "hal \<Rightarrow> nat option \<Rightarrow> nat option" where
  "get_active_playback_count s out = do {
     xs \<leftarrow> out_streams s;
     Some (length (filter (\<lambda>(i, x). Some i \<noteq> out \<and> stream_type (out_common x) \<noteq> ASTREAM_PLAYBACK_AUX_DIGITAL
       \<and> stream_type (out_common x) \<noteq> ASTREAM_PLAYBACK_USB_DEVICE \<and> STATUS_STANDBY < stream_status (out_common x)) xs)) }"

definition get_active_capture_count :: "hal \<Rightarrow> nat option" where
  "get_active_capture_count s = do {
     xs \<leftarrow> in_streams s;
     Some (length (filter (\<lambda>(i, x). stream_type (in_common x) \<noteq> ASTREAM_CAPTURE_CALL \<and> STATUS_STANDBY < stream_status (in_common x)) xs)) }"

definition is_primary_output :: "audio_device \<Rightarrow> nat \<Rightarrow> bool" where
  "is_primary_output d k \<longleftrightarrow> primary_output d = Some k"

definition output_drives_call :: "audio_device \<Rightarrow> nat \<Rightarrow> stream_out \<Rightarrow> bool" where
  "output_drives_call d k x \<longleftrightarrow> primary_output d = Some k \<or> stream_usage (out_common x) = AUSAGE_INCALL_MUSIC"

section \<open>Routing\<close>

text \<open>What the device records of a path.\<close>

definition set_playback :: "bool \<Rightarrow> audio_usage \<times> device_type \<times> modifier_type \<Rightarrow> audio_device \<Rightarrow> audio_device" where
  "set_playback routed path d = d\<lparr>is_playback_path_routed := routed, active_playback_ausage := fst path,
     active_playback_device := fst (snd path), active_playback_modifier := snd (snd path)\<rparr>"

definition set_capture :: "bool \<Rightarrow> audio_usage \<times> device_type \<times> modifier_type \<Rightarrow> audio_device \<Rightarrow> audio_device" where
  "set_capture routed path d = d\<lparr>is_capture_path_routed := routed, active_capture_ausage := fst path,
     active_capture_device := fst (snd path), active_capture_modifier := snd (snd path)\<rparr>"

abbreviation (input) NO_PATH :: "audio_usage \<times> device_type \<times> modifier_type" where
  "NO_PATH \<equiv> (AUSAGE_NONE, DEVICE_NONE, MODIFIER_NONE)"

definition playback_route :: "audio_device \<Rightarrow> audio_usage \<times> device_type \<times> modifier_type" where
  "playback_route d = (active_playback_ausage d, active_playback_device d, active_playback_modifier d)"

definition capture_route :: "audio_device \<Rightarrow> audio_usage \<times> device_type \<times> modifier_type" where
  "capture_route d = (active_capture_ausage d, active_capture_device d, active_capture_modifier d)"

definition proxy_route :: "audio_path \<Rightarrow> audio_usage \<times> device_type \<times> modifier_type \<Rightarrow> bool \<Rightarrow> hal \<Rightarrow> hal" where
  "proxy_route dir path on = px_do (proxy_set_route dir (fst path) (fst (snd path)) (snd (snd path)) on)"

text \<open>A path is set unless it is set already for the same usage and device, or \<open>skip\<close> says so.\<close>

definition route_playback :: "audio_usage \<times> device_type \<times> modifier_type \<Rightarrow> hal \<Rightarrow> hal" where
  "route_playback path s =
     upd_dev (set_playback True path)
       (if is_playback_path_routed (dev s) \<and> active_playback_ausage (dev s) = fst path \<and> active_playback_device (dev s) = fst (snd path)
        then s else proxy_route Playback_path path True s)"

definition unroute_playback :: "bool \<Rightarrow> hal \<Rightarrow> hal" where
  "unroute_playback in_use s =
     (if \<not> is_playback_path_routed (dev s) then upd_dev (set_playback False NO_PATH) s
      else if in_use then s
      else upd_dev (set_playback False NO_PATH) (proxy_route Playback_path (playback_route (dev s)) False s))"

definition route_capture :: "bool \<Rightarrow> audio_usage \<times> device_type \<times> modifier_type \<Rightarrow> hal \<Rightarrow> hal" where
  "route_capture skip path s =
     upd_dev (set_capture True path) (if is_capture_path_routed (dev s) \<and> skip then s else proxy_route Capture_path path True s)"

definition unroute_capture :: "bool \<Rightarrow> hal \<Rightarrow> hal" where
  "unroute_capture in_use s =
     (if \<not> is_capture_path_routed (dev s) then upd_dev (set_capture False NO_PATH) s
      else if in_use then s
      else upd_dev (set_capture False NO_PATH) (proxy_route Capture_path (capture_route (dev s)) False s))"

definition same_capture :: "audio_device \<Rightarrow> audio_usage \<Rightarrow> device_type \<Rightarrow> bool" where
  "same_capture d u dv \<longleftrightarrow> active_capture_ausage d = u \<and> active_capture_device d = dv"

text \<open>Whether the input that is active is not in standby.\<close>

definition active_input_works :: "hal \<Rightarrow> bool option" where
  "active_input_works s =
     (case active_input (dev s) of
        None \<Rightarrow> Some False
      | Some i \<Rightarrow> do { x \<leftarrow> ins s i; Some (STATUS_STANDBY < stream_status (in_common x)) })"

text \<open>The capture path of a call, which the primary output drives.\<close>

definition drive_capture :: "stream_out \<Rightarrow> bool \<Rightarrow> hal \<Rightarrow> hal option" where
  "drive_capture x capture_set s =
     (if capture_set then do {
        u \<leftarrow> out_ausage s x;
        dv \<leftarrow> out_capture_device s x;
        Some (route_capture (same_capture (dev s) u dv) (u, dv, adev_get_modifier (dev s) dv) s) }
      else if is_capture_path_routed (dev s) then do {
        n \<leftarrow> get_active_capture_count s;
        Some (unroute_capture (0 < n) s) }
      else Some (unroute_capture False s))"

text \<open>\<open>adev_set_route\<close> for an output stream.\<close>

definition set_route_out :: "hal_env \<Rightarrow> nat \<Rightarrow> bool \<Rightarrow> force_route \<Rightarrow> hal \<Rightarrow> hal option" where
  "set_route_out E k on fr s = do {
     x \<leftarrow> outs s k;
     let drive = (output_drives_call (dev s) k x \<and> fr = CALL_DRIVE);
     capture_set \<leftarrow>
       (if drive \<and> (isAPCallMode (dev s) \<or> \<not> isCPCallMode (dev s) \<and> px_query E is_active_usage_CPCall s \<noteq> 0) then do {
          works \<leftarrow> active_input_works s;
          Some (works \<and> on) }
        else Some on);
     if on then do {
       u \<leftarrow> out_ausage s x;
       dv \<leftarrow> out_device_id s x;
       if u = AUSAGE_MEDIA \<and> dv = DEVICE_AUX_DIGITAL then Some s
       else do {
         let s = route_playback (u, dv, adev_get_modifier (dev s) dv) s;
         if drive then drive_capture x capture_set s else Some s } }
     else do {
       s \<leftarrow> (if is_playback_path_routed (dev s) \<and> fr \<noteq> FORCE_ROUTE then do {
               n \<leftarrow> get_active_playback_count s (Some k);
               Some (unroute_playback (0 < n \<or> isCPCallMode (dev s)
                 \<or> (case factory (dev s) of None \<Rightarrow> False | Some f \<Rightarrow> fac_mode f = FACTORY_MODE_LOOPBACK) \<or> isFMRadioOn (dev s)) s) }
             else Some (unroute_playback False s));
       if drive then drive_capture x capture_set s else Some s } }"

text \<open>\<open>adev_set_route\<close> for an input stream, outside of the case that hands over to the primary output.\<close>

definition set_route_in_alone :: "nat \<Rightarrow> bool \<Rightarrow> force_route \<Rightarrow> hal \<Rightarrow> hal option" where
  "set_route_in_alone i on fr s = do {
     x \<leftarrow> ins s i;
     if on then do {
       u \<leftarrow> in_ausage s x;
       dv \<leftarrow> in_device_id s x;
       Some (route_capture
         (\<not> fm_need_route (dev s) \<and> (same_capture (dev s) u dv \<or> isFMRadioOn (dev s) \<and> u \<noteq> AUSAGE_CAMCORDER))
         (u, dv, adev_get_modifier (dev s) dv) s) }
     else if is_capture_path_routed (dev s) \<and> fr \<noteq> FORCE_ROUTE then do {
       n \<leftarrow> get_active_capture_count s;
       Some (unroute_capture (0 < n \<or> isCPCallMode (dev s)) s) }
     else Some (unroute_capture False s) }"

definition set_route_in :: "hal_env \<Rightarrow> nat \<Rightarrow> bool \<Rightarrow> force_route \<Rightarrow> hal \<Rightarrow> hal option" where
  "set_route_in E i on fr s = do {
     x \<leftarrow> ins s i;
     if isAPCallMode (dev s) \<and> on \<and> STATUS_STANDBY < stream_status (in_common x) then do {
       p \<leftarrow> primary_output (dev s);
       set_route_out E p True CALL_DRIVE s }
     else set_route_in_alone i on fr s }"

end
