(* ===== verification/Audio_Stream.thy ===== *)
theory Audio_Stream
  imports Audio_Route
begin

text \<open>
  The streams of the primary audio HAL, \<open>libaudio/audiohal/audio_hw.c\<close>: every operation of an output and
  of an input stream, the thread of a compress offload stream, and \<open>update_call_stream\<close>, which
  closes the streams that a change of the call concerns and routes anew. An operation is one step:
  it holds the lock of its stream. The thread of an offload stream takes a message in one step and
  answers it in another; an operation that waits for the thread makes that second step first.
\<close>

section \<open>The call and the streams\<close>

definition is_factory_bt_realtime_loopback_mode :: "factory_manager option \<Rightarrow> bool" where
  "is_factory_bt_realtime_loopback_mode fm =
     (case fm of
        None \<Rightarrow> False
      | Some f \<Rightarrow> fac_loopback_mode f = LOOPBACK_REALTIME \<and> fac_out_device f = AD_OUT_BLUETOOTH_SCO_HEADSET
                 \<and> fac_in_device f = AD_IN_BLUETOOTH_SCO_HEADSET)"

text \<open>
  The locks that \<open>update_call_stream\<close> holds, one per type of stream. It closes the output streams that
  work, with their locks held, and the input streams, which are reconfigured by their next read.
\<close>

type_synonym locks = "audio_stream_type \<Rightarrow> (audio_path \<times> nat) option"

primrec close_outs :: "bool \<Rightarrow> bool \<Rightarrow> nat list \<Rightarrow> locks \<times> hal \<Rightarrow> (locks \<times> hal) option" where
  "close_outs concerned changed [] ls = Some ls"
| "close_outs concerned changed (k # ks) ls = do {
     x \<leftarrow> outs (snd ls) k;
     let c = out_common x;
     let (lock, s) = ls;
     close_outs concerned changed ks
       (if concerned then
          (let s = px_do (mutex_lock Playback_path k) s in
           if changed \<and> proxy_stream c \<noteq> NULL \<and> stream_status c \<noteq> STATUS_STANDBY then
             (lock(stream_type c := Some (Playback_path, k)),
              out_status k STATUS_STANDBY
                (px_do (proxy_close_playback_stream (proxy_stream c)) (px_do (proxy_stop_playback_stream (proxy_stream c)) s)))
           else (lock(stream_type c := None), px_do (mutex_unlock Playback_path k) s))
        else (lock, s)) }"

text \<open>Whether an input stream is to be closed: \<open>path\<close> and \<open>call\<close> say whether the path and the call have changed.\<close>

definition in_concerned :: "audio_device \<Rightarrow> bool \<Rightarrow> bool \<Rightarrow> stream_in \<Rightarrow> bool" where
  "in_concerned d path call x \<longleftrightarrow>
     (path \<and> isCallMode d \<or> call \<and> isAPCallMode d
      \<or> isCPCallMode d \<and> stream_type (in_common x) = ASTREAM_CAPTURE_PRIMARY \<and> isCallRecording (requested_source x)
      \<or> \<not> isCPCallMode d \<and> (stream_type (in_common x) = ASTREAM_CAPTURE_CALL \<or> stream_type (in_common x) = ASTREAM_CAPTURE_PRIMARY))
     \<and> proxy_stream (in_common x) \<noteq> NULL \<and> stream_status (in_common x) = STATUS_PLAYING"

definition close_in :: "bool \<Rightarrow> bool \<Rightarrow> nat \<Rightarrow> stream_in \<Rightarrow> locks \<times> hal \<Rightarrow> locks \<times> hal" where
  "close_in path call k x ls =
     (let c = in_common x; lock = (fst ls)(stream_type c := Some (Capture_path, k)); s = snd ls in
      if stream_type c = ASTREAM_CAPTURE_PRIMARY \<or> stream_type c = ASTREAM_CAPTURE_CALL then
        (let s = px_do (mutex_lock Capture_path k) s in
         if in_concerned (dev s) path call x then
           (lock, upd_in k (\<lambda>x. x\<lparr>pcm_reconfig := True\<rparr>)
              (px_do (proxy_close_capture_stream (proxy_stream c)) (px_do (proxy_stop_capture_stream (proxy_stream c)) s)))
         else (lock(stream_type c := None), px_do (mutex_unlock Capture_path k) s))
      else (lock, s))"

primrec close_ins :: "bool \<Rightarrow> bool \<Rightarrow> nat list \<Rightarrow> locks \<times> hal \<Rightarrow> (locks \<times> hal) option" where
  "close_ins path call [] ls = Some ls"
| "close_ins path call (k # ks) ls = do {
     x \<leftarrow> ins (snd ls) k;
     close_ins path call ks (close_in path call k x ls) }"

text \<open>The types of streams in the order of their numbers, in which the locks are released.\<close>

definition all_types :: "audio_stream_type list" where
  "all_types =
     [ASTREAM_PLAYBACK_NO_ATTRIBUTE, ASTREAM_PLAYBACK_PRIMARY, ASTREAM_PLAYBACK_FAST, ASTREAM_PLAYBACK_DEEP_BUFFER,
      ASTREAM_PLAYBACK_LOW_LATENCY, ASTREAM_PLAYBACK_COMPR_OFFLOAD, ASTREAM_PLAYBACK_MMAP, ASTREAM_PLAYBACK_USB_DEVICE,
      ASTREAM_PLAYBACK_AUX_DIGITAL, ASTREAM_PLAYBACK_INCALL_MUSIC,
      ASTREAM_CAPTURE_NO_ATTRIBUTE, ASTREAM_CAPTURE_PRIMARY, ASTREAM_CAPTURE_CALL, ASTREAM_CAPTURE_LOW_LATENCY, ASTREAM_CAPTURE_MMAP,
      ASTREAM_CAPTURE_USB_DEVICE, ASTREAM_CAPTURE_FM_TUNER, ASTREAM_CAPTURE_HOTWORD, ASTREAM_NONE]"

primrec unlock_all :: "locks \<Rightarrow> audio_stream_type list \<Rightarrow> hal \<Rightarrow> hal" where
  "unlock_all lock [] s = s"
| "unlock_all lock (t # ts) s = unlock_all lock ts (case lock t of None \<Rightarrow> s | Some (p, k) \<Rightarrow> px_do (mutex_unlock p k) s)"

text \<open>A call whose path changes is interrupted: the receiver is muted and the voice call stopped.\<close>

definition interrupt_call :: "hal_env \<Rightarrow> bool \<Rightarrow> hal \<Rightarrow> hal" where
  "interrupt_call E path_changed s =
     (case voice (dev s) of
        None \<Rightarrow> s
      | Some v \<Rightarrow>
          if (path_changed \<or> active_playback_ausage (dev s) = AUSAGE_INCALL_MUSIC) \<and> voice_is_call_active v then
            px_do proxy_stop_voice_call
              (on_voice (voice_set_call_active (ril_lib E) False)
                (if \<not> mute_voice v then on_voice (voice_set_rx_mute (ril_lib E) True) s else s))
          else s)"

text \<open>The path is set for a call and reset in standby; then the locks are released.\<close>

definition route_call :: "hal_env \<Rightarrow> nat \<Rightarrow> locks \<Rightarrow> hal \<Rightarrow> hal option" where
  "route_call E k lock s = do {
     x \<leftarrow> outs s k;
     s \<leftarrow> (if isCallMode (dev s) then set_route_out E k True CALL_DRIVE s
          else if stream_status (out_common x) = STATUS_STANDBY then set_route_out E k False CALL_DRIVE s
          else Some s);
     Some (unlock_all lock all_types s) }"

definition update_call_stream :: "hal_env \<Rightarrow> nat \<Rightarrow> u32 \<Rightarrow> u32 \<Rightarrow> hal \<Rightarrow> hal option" where
  "update_call_stream E k current new s = do {
     cur_device \<leftarrow> get_device_id s current;
     new_device \<leftarrow> get_device_id s new;
     let d = dev s;
     let cur_in = (if isCallMode d then active_capture_device d else DEVICE_NONE);
     new_in \<leftarrow> (if isCallMode d then get_indevice_id_from_outdevice d new_device else Some DEVICE_NONE);
     let path_changed = (cur_device \<noteq> new_device
           \<or> cur_in \<noteq> new_in \<and> (cur_in = DEVICE_USB_HEADSET_MIC \<or> new_in = DEVICE_USB_HEADSET_MIC));
     let call_state_BT = (previous_amode d = AUDIO_MODE_RINGTONE \<and> px_query E is_active_usage_CPCall s = 0 \<and> isCPCallMode d
           \<and> new_device = DEVICE_BT_HEADSET);
     let call_state_changed = (isAPCallMode d \<and> px_query E is_active_usage_APCall s = 0
           \<or> isCPCallMode d \<and> px_query E is_active_usage_APCall s \<noteq> 0
           \<or> \<not> isCallMode d \<and> (cur_device = DEVICE_EARPIECE \<or> cur_device = DEVICE_SPEAKER) \<or> call_state_BT);
     let concerned = (call_state_BT \<or> cur_device = DEVICE_EARPIECE \<or> new_device = DEVICE_EARPIECE
           \<or> cur_device = DEVICE_SPEAKER \<or> new_device = DEVICE_SPEAKER);
     ls \<leftarrow> close_outs concerned (path_changed \<or> call_state_changed) (playback_list d) (\<lambda>_. None, s);
     (lock, s) \<leftarrow> close_ins path_changed call_state_changed (capture_list d) ls;
     route_call E k lock (interrupt_call E path_changed s) }"

definition update_capture_stream :: "nat \<Rightarrow> u32 \<Rightarrow> u32 \<Rightarrow> hal \<Rightarrow> hal option" where
  "update_capture_stream k current new s = do {
     cur_in \<leftarrow> get_device_id s current;
     new_in \<leftarrow> get_device_id s new;
     x \<leftarrow> ins s k;
     Some (if \<not> isAPCallMode (dev s) \<and> \<not> isCPCallMode (dev s)
             \<and> (cur_in = DEVICE_BT_HEADSET_MIC \<and> new_in \<noteq> DEVICE_BT_HEADSET_MIC \<or> cur_in \<noteq> DEVICE_BT_HEADSET_MIC \<and> new_in = DEVICE_BT_HEADSET_MIC)
             \<and> STATUS_STANDBY < stream_status (in_common x)
           then upd_in k (\<lambda>x. x\<lparr>pcm_reconfig := True\<rparr>) s else s) }"

definition set_call_forwarding :: "hal_env \<Rightarrow> hal \<Rightarrow> hal option" where
  "set_call_forwarding E s =
     (if (case voice (dev s) of None \<Rightarrow> False | Some v \<Rightarrow> voice_is_call_mode v) then do {
        s \<leftarrow> (case primary_output (dev s) of
               None \<Rightarrow> Some s
             | Some p \<Rightarrow> do {
                 x \<leftarrow> outs s p;
                 let devices = requested_devices (out_common x);
                 if devices \<noteq> 0 then update_call_stream E p devices devices s else Some s });
        let s = (if proxy (dev s) \<noteq> NULL then px_do proxy_start_voice_call s else s);
        Some (on_voice (voice_set_call_active (ril_lib E) True) s) }
      else case primary_output (dev s) of None \<Rightarrow> Some s | Some p \<Rightarrow> set_route_out E p True CALL_DRIVE s)"

section \<open>The thread of an offload stream\<close>

abbreviation (input) ENOMEM :: int where "ENOMEM \<equiv> 12"
abbreviation (input) ENOSYS :: int where "ENOSYS \<equiv> 38"
abbreviation (input) EINVAL :: int where "EINVAL \<equiv> 22"

definition upd_offload :: "nat \<Rightarrow> (stream_offload \<Rightarrow> stream_offload) \<Rightarrow> hal \<Rightarrow> hal" where
  "upd_offload k f = upd_out k (\<lambda>x. x\<lparr>offload := f (offload x)\<rparr>)"

definition send_offload_msg :: "hal_env \<Rightarrow> nat \<Rightarrow> offload_msg \<Rightarrow> hal \<Rightarrow> int \<times> hal" where
  "send_offload_msg E k msg s =
     (let (p, s) = px_ask E calloc_stream s in
      if p \<noteq> NULL then (0, upd_offload k (\<lambda>f. f\<lparr>msg_list := msg_list f @ [msg]\<rparr>) s) else (- ENOMEM, s))"

text \<open>The thread takes a message, or wakes up without one; the message to exit ends it.\<close>

definition offload_take :: "nat \<Rightarrow> hal \<Rightarrow> hal option" where
  "offload_take k s = do {
     x \<leftarrow> outs s k;
     let f = offload x;
     let msg = (case msg_list f of [] \<Rightarrow> OFFLOAD_MSG_INVALID | m # ms \<Rightarrow> m);
     Some (if msg = OFFLOAD_MSG_EXIT then upd_offload k (\<lambda>f. f\<lparr>msg_list := [], callback_thread := False\<rparr>) s
           else upd_offload k (\<lambda>f. f\<lparr>msg_list := tl (msg_list f), thread_msg := msg, callback_thread_blocked := True\<rparr>) s) }"

text \<open>It answers the message without the lock and calls the client; None is a callback that was never set.\<close>

definition offload_answer :: "hal_env \<Rightarrow> nat \<Rightarrow> int \<Rightarrow> offload_msg \<Rightarrow> hal \<Rightarrow> cbk_event option \<times> hal" where
  "offload_answer E k p msg s =
     (case msg of
        OFFLOAD_MSG_WAIT_WRITE \<Rightarrow>
          (Some STREAM_CBK_EVENT_WRITE_READY, px_do (proxy_offload_compress_func p COMPRESS_TYPE_WAIT) s)
      | OFFLOAD_MSG_WAIT_PARTIAL_DRAIN \<Rightarrow>
          (let (ret, s) = px_ask E (proxy_offload_compress_func p COMPRESS_TYPE_PARTIALDRAIN)
                            (px_do (proxy_offload_compress_func p COMPRESS_TYPE_NEXTTRACK) s)
           in (Some (if ret \<noteq> 0 then STREAM_CBK_EVENT_ERROR else STREAM_CBK_EVENT_DRAIN_READY),
               out_status k STATUS_IDLE (px_do (proxy_stop_playback_stream p) s)))
      | OFFLOAD_MSG_WAIT_DRAIN \<Rightarrow>
          (let (ret, s) = px_ask E (proxy_offload_compress_func p COMPRESS_TYPE_DRAIN) s
           in (Some (if ret \<noteq> 0 then STREAM_CBK_EVENT_ERROR else STREAM_CBK_EVENT_DRAIN_READY), s))
      | _ \<Rightarrow> (None, s))"

definition call_offload_client :: "int \<Rightarrow> cbk_event \<Rightarrow> hal \<Rightarrow> hal option" where
  "call_offload_client cb event s = (if cb = NULL then None else Some (px_do (offload_event cb event) s))"

definition offload_finish :: "hal_env \<Rightarrow> nat \<Rightarrow> hal \<Rightarrow> hal option" where
  "offload_finish E k s = do {
     x \<leftarrow> outs s k;
     let (event, s) = offload_answer E k (proxy_stream (out_common x)) (thread_msg (offload x)) s;
     let s = upd_offload k (\<lambda>f. f\<lparr>callback_thread_blocked := False\<rparr>) s;
     case event of None \<Rightarrow> Some s | Some e \<Rightarrow> call_offload_client (off_callback (offload x)) e s }"

text \<open>The list of messages is initialised after the thread was created.\<close>

definition create_offload_callback_thread :: "nat \<Rightarrow> hal \<Rightarrow> hal" where
  "create_offload_callback_thread k = upd_offload k (\<lambda>f. f\<lparr>callback_thread := True, callback_thread_blocked := False, msg_list := []\<rparr>)"

text \<open>The thread is sent the message to exit, and joined: what it still answers before is done first.\<close>

primrec run_thread :: "hal_env \<Rightarrow> nat \<Rightarrow> nat \<Rightarrow> hal \<Rightarrow> hal option" where
  "run_thread E k 0 s = Some s"
| "run_thread E k (Suc n) s = do { s \<leftarrow> offload_take k s; s \<leftarrow> offload_finish E k s; run_thread E k n s }"

definition destroy_offload_callback_thread :: "hal_env \<Rightarrow> nat \<Rightarrow> hal \<Rightarrow> hal option" where
  "destroy_offload_callback_thread E k s = do {
     x \<leftarrow> outs s k;
     s \<leftarrow> (if callback_thread_blocked (offload x) then offload_finish E k s else Some s);
     let (ret, s) = send_offload_msg E k OFFLOAD_MSG_EXIT s;
     if ret \<noteq> 0 then None
     else do {
       x \<leftarrow> outs s k;
       s \<leftarrow> run_thread E k (length (takeWhile (\<lambda>m. m \<noteq> OFFLOAD_MSG_EXIT) (msg_list (offload x)))) s;
       offload_take k s } }"

section \<open>Output streams\<close>

definition ABOX_APCALLBUFFTYPE_CONTROL_NAME :: string where
  "ABOX_APCALLBUFFTYPE_CONTROL_NAME = ''ABOX PCM ext APCALL BUFFTYPE''"

definition ABOX_APCALL_SPEECH_PARAM_CONTROL_NAME :: string where
  "ABOX_APCALL_SPEECH_PARAM_CONTROL_NAME = ''ABOX Speech Param''"

definition ABOX_APCALL_MUTE_CONTROL_NAME :: string where
  "ABOX_APCALL_MUTE_CONTROL_NAME = ''ABOX ERAP info Mute Primary''"

definition out_get_buffer_size :: "hal_env \<Rightarrow> nat \<Rightarrow> stream_out \<Rightarrow> hal \<Rightarrow> nat" where
  "out_get_buffer_size E frame_size x s =
     (let period = nat (px_query E (proxy_get_actual_period_size (proxy_stream (out_common x))) s) in
      if stream_type (out_common x) = ASTREAM_PLAYBACK_COMPR_OFFLOAD then period else mul32 period frame_size)"

text \<open>A stream that goes to standby is stopped and closed, and its path reset or handed back to the call.\<close>

definition out_shut :: "hal_env \<Rightarrow> nat \<Rightarrow> stream_out \<Rightarrow> hal \<Rightarrow> hal option" where
  "out_shut E k x s = do {
     let c = out_common x;
     s \<leftarrow> (if STATUS_IDLE < stream_status c then do {
             s \<leftarrow> (if stream_type c = ASTREAM_PLAYBACK_COMPR_OFFLOAD \<and> callback_thread_blocked (offload x) then offload_finish E k s else Some s);
             Some (out_status k STATUS_IDLE (px_do (proxy_stop_playback_stream (proxy_stream c)) s)) }
           else Some s);
     let s = out_status k STATUS_STANDBY (px_do (proxy_close_playback_stream (proxy_stream c)) s);
     Some (if stream_type c = ASTREAM_PLAYBACK_PRIMARY \<and> voipse_on (dev s)
           then upd_dev (\<lambda>d. d\<lparr>voipse_on := False\<rparr>) (px_do (proxy_set_mixer_value_int ABOX_APCALLBUFFTYPE_CONTROL_NAME 0) s) else s) }"

definition out_unroute :: "hal_env \<Rightarrow> nat \<Rightarrow> audio_stream_type \<Rightarrow> hal \<Rightarrow> hal option" where
  "out_unroute E k t s =
     (if is_playback_path_routed (dev s) then
        (if t = ASTREAM_PLAYBACK_INCALL_MUSIC \<and> incallmusic_on (dev s) \<and> isCPCallMode (dev s) then do {
           let s = upd_dev (\<lambda>d. d\<lparr>incallmusic_on := False\<rparr>) s;
           case primary_output (dev s) of
             None \<Rightarrow> Some s
           | Some p \<Rightarrow> do {
               y \<leftarrow> outs s p;
               s \<leftarrow> update_call_stream E p (requested_devices (out_common y)) (requested_devices (out_common y)) s;
               Some (px_do proxy_start_voice_call s) } }
         else set_route_out E k False NON_FORCE_ROUTE
                (if t = ASTREAM_PLAYBACK_INCALL_MUSIC then upd_dev (\<lambda>d. d\<lparr>incallmusic_on := False\<rparr>) s else s))
      else Some s)"

definition out_standby :: "hal_env \<Rightarrow> nat \<Rightarrow> hal \<Rightarrow> hal option" where
  "out_standby E k s = do {
     x \<leftarrow> outs s k;
     if \<not> STATUS_STANDBY < stream_status (out_common x) then Some s
     else do {
       s \<leftarrow> out_shut E k x s;
       s \<leftarrow> out_unroute E k (stream_type (out_common x)) s;
       Some (upd_out k (\<lambda>x. x\<lparr>force := NON_FORCE_ROUTE, rollback_devices := AD_NONE\<rparr>) s) } }"

text \<open>
  One of the three parts of the configuration of a stream: refused while the stream works; changed,
  which the proxy has to be told, when the value is new and not zero.
\<close>

definition config_parm ::
  "string option \<Rightarrow> (stream_common \<Rightarrow> u32) \<Rightarrow> (u32 \<Rightarrow> stream_common \<Rightarrow> stream_common) \<Rightarrow> stream_common \<Rightarrow> int \<times> stream_common \<times> bool" where
  "config_parm v old put c =
     (case v of
        None \<Rightarrow> (0, c, False)
      | Some value \<Rightarrow>
          if STATUS_READY < stream_status c then (- ENOSYS, c, False)
          else let new = word_of_int (atoi value) in if new \<noteq> old c \<and> new \<noteq> 0 then (0, put new c, True) else (0, c, False))"

definition format_parm :: "string option \<Rightarrow> stream_common \<Rightarrow> int \<times> stream_common \<times> bool" where
  "format_parm v = config_parm v requested_format (\<lambda>n c. c\<lparr>requested_format := n\<rparr>)"

definition channel_parm :: "string option \<Rightarrow> stream_common \<Rightarrow> int \<times> stream_common \<times> bool" where
  "channel_parm v = config_parm v requested_channel_mask (\<lambda>n c. c\<lparr>requested_channel_mask := n\<rparr>)"

definition rate_parm :: "string option \<Rightarrow> stream_common \<Rightarrow> int \<times> stream_common \<times> bool" where
  "rate_parm v = config_parm v requested_sample_rate (\<lambda>n c. c\<lparr>requested_sample_rate := n\<rparr>)"

definition out_reconfig :: "nat \<Rightarrow> (stream_common \<Rightarrow> int \<times> stream_common \<times> bool) \<Rightarrow> hal \<Rightarrow> (int \<times> hal) option" where
  "out_reconfig k f s = do {
     x \<leftarrow> outs s k;
     let (ret, c, changed) = f (out_common x);
     let s = upd_ocommon k (\<lambda>_. c) s;
     Some (ret, if changed then px_do (proxy_reconfig_playback_stream (proxy_stream c) (stream_type c)
                  (requested_sample_rate c) (requested_channel_mask c) (requested_format c)) s else s) }"

text \<open>How an output stream is routed: \<open>FORCE_ROUTE\<close> for two devices at once, \<open>CALL_DRIVE\<close> for a call.\<close>

definition out_set_force :: "hal_env \<Rightarrow> nat \<Rightarrow> u32 \<Rightarrow> hal \<Rightarrow> hal option" where
  "out_set_force E k devices s = do {
     x \<leftarrow> outs s k;
     let s = upd_out k (\<lambda>x. x\<lparr>force := NON_FORCE_ROUTE\<rparr>) s;
     if is_primary_output (dev s) k \<and> popcount devices = 2 then
       Some (upd_out k (\<lambda>x. x\<lparr>force := FORCE_ROUTE, rollback_devices := current_devices (dev s)\<rparr>) s)
     else if output_drives_call (dev s) k x then do {
       works \<leftarrow> (if isAPCallMode (dev s) \<and> px_query E is_active_usage_CPCall s = 0 then active_input_works s else Some False);
       let s = (if isCPCallMode (dev s) \<or> px_query E is_active_usage_CPCall s \<noteq> 0 \<or> works
                then upd_out k (\<lambda>x. x\<lparr>force := CALL_DRIVE\<rparr>) s else s);
       Some (if stream_type (out_common x) = ASTREAM_PLAYBACK_INCALL_MUSIC \<and> isCPCallMode (dev s) \<and> devices \<noteq> AD_NONE
             then upd_dev (\<lambda>d. d\<lparr>incallmusic_on := True\<rparr>) s else s) }
     else Some (upd_dev (\<lambda>d. d\<lparr>current_devices := devices\<rparr>) s) }"

text \<open>In a call of the modem the RIL client gets the path, the call is started and gets its volume.\<close>

definition out_start_call :: "hal_env \<Rightarrow> u32 \<Rightarrow> hal \<Rightarrow> hal" where
  "out_start_call E devices s =
     (if voice (dev s) = None then s
      else let s = on_voice (\<lambda>w. snd (voice_set_path (ril_lib E) (ril_devices devices) w)) s;
               s = (if \<not> voice_is_call_active (the (voice (dev s)))
                    then on_voice (voice_set_call_active (ril_lib E) True) (px_do proxy_start_voice_call s) else s)
           in on_voice (\<lambda>w. snd (voice_set_volume (ril_lib E) (volume_scale E (voice_volume (dev s))) w)) s)"

definition out_route :: "hal_env \<Rightarrow> nat \<Rightarrow> u32 \<Rightarrow> hal \<Rightarrow> hal option" where
  "out_route E k devices s = do {
     x \<leftarrow> outs s k;
     let current = requested_devices (out_common x);
     let devices = (if stream_type (out_common x) = ASTREAM_PLAYBACK_INCALL_MUSIC \<and> isUSBHeadsetConnect (dev s)
            \<and> devices = AD_OUT_TELEPHONY_TX \<and> isCallMode (dev s) then AD_OUT_EARPIECE else devices);
     if devices = AD_NONE then Some s
     else do {
       _ \<leftarrow> get_device_id s current;
       _ \<leftarrow> get_device_id s devices;
       let s = upd_ocommon k (\<lambda>c. c\<lparr>requested_devices := devices\<rparr>) s;
       let s = (if stream_type (out_common x) = ASTREAM_PLAYBACK_COMPR_OFFLOAD
                then upd_dev (\<lambda>d. d\<lparr>update_offload_volume := True\<rparr>) s else s);
       if is_primary_output (dev s) k \<and> popcount devices = 2 \<or> output_drives_call (dev s) k x \<and> isCallMode (dev s)
          \<or> is_playback_path_routed (dev s) \<or> STATUS_STANDBY < stream_status (out_common x)
       then do {
         s \<leftarrow> out_set_force E k devices s;
         x \<leftarrow> outs s k;
         s \<leftarrow> (if output_drives_call (dev s) k x \<and> isCallMode (dev s) then update_call_stream E k current devices s
               else set_route_out E k True (force x) s);
         x \<leftarrow> outs s k;
         Some (if output_drives_call (dev s) k x \<and> isCPCallMode (dev s) then out_start_call E (requested_devices (out_common x)) s else s) }
       else Some (if \<not> is_primary_output (dev s) k then upd_dev (\<lambda>d. d\<lparr>current_devices := devices\<rparr>) s else s) } }"

text \<open>The log output names the device of both sets, so both have to be known.\<close>

definition out_set_parameters :: "hal_env \<Rightarrow> nat \<Rightarrow> str_parms \<Rightarrow> hal \<Rightarrow> (int \<times> hal) option" where
  "out_set_parameters E k parms s = do {
     x \<leftarrow> outs s k;
     let s = (if stream_type (out_common x) = ASTREAM_PLAYBACK_COMPR_OFFLOAD
              then px_do (proxy_setparam_playback_stream (proxy_stream (out_common x))) s else s);
     s \<leftarrow> (case parm parms (AUDIO_PARAMETER_STREAM_ROUTING (names E)) 32 of
             None \<Rightarrow> Some s
           | Some value \<Rightarrow> out_route E k (word_of_int (atoi value)) s);
     (ret, s) \<leftarrow> out_reconfig k (format_parm (parm parms (AUDIO_PARAMETER_STREAM_FORMAT (names E)) 32)) s;
     if ret \<noteq> 0 then Some (ret, s)
     else do {
       (ret, s) \<leftarrow> out_reconfig k (channel_parm (parm parms (AUDIO_PARAMETER_STREAM_CHANNELS (names E)) 32)) s;
       if ret \<noteq> 0 then Some (ret, s)
       else out_reconfig k (rate_parm (parm parms (AUDIO_PARAMETER_STREAM_SAMPLING_RATE (names E)) 32)) s } }"

definition out_set_volume :: "nat \<Rightarrow> rat \<Rightarrow> rat \<Rightarrow> hal \<Rightarrow> (int \<times> hal) option" where
  "out_set_volume k left right s = do {
     x \<leftarrow> outs s k;
     Some (if stream_type (out_common x) = ASTREAM_PLAYBACK_COMPR_OFFLOAD then
             (0, if vol_left x \<noteq> left \<or> vol_right x \<noteq> right \<or> update_offload_volume (dev s)
                 then upd_dev (\<lambda>d. d\<lparr>update_offload_volume := False\<rparr>)
                        (px_do (proxy_set_volume left right) (upd_out k (\<lambda>x. x\<lparr>vol_left := left, vol_right := right\<rparr>) s))
                 else s)
           else (- ENOSYS, s)) }"

text \<open>The speech enhancement of a call over the network is switched on before the stream is opened.\<close>

definition trigger_voipse :: "hal_env \<Rightarrow> nat \<Rightarrow> hal \<Rightarrow> hal option" where
  "trigger_voipse E k s = do {
     x \<leftarrow> outs s k;
     let s = upd_dev (\<lambda>d. d\<lparr>voipse_on := True\<rparr>) (px_do (proxy_set_mixer_value_int ABOX_APCALLBUFFTYPE_CONTROL_NAME 1) s);
     n \<leftarrow> get_apcall_speech_param E s x;
     Some (px_do (proxy_set_mixer_value_int ABOX_APCALL_SPEECH_PARAM_CONTROL_NAME n) s) }"

definition needs_voipse :: "hal_env \<Rightarrow> stream_out \<Rightarrow> hal \<Rightarrow> bool" where
  "needs_voipse E x s \<longleftrightarrow>
     need_voipse_on (dev s) \<and> stream_type (out_common x) = ASTREAM_PLAYBACK_PRIMARY \<and> px_query E is_active_usage_APCall s \<noteq> 0"

definition out_write_open :: "hal_env \<Rightarrow> nat \<Rightarrow> hal \<Rightarrow> (int \<times> bool \<times> hal) option" where
  "out_write_open E k s = do {
     x \<leftarrow> outs s k;
     let s = out_status k STATUS_READY s;
     s \<leftarrow> (if stream_type (out_common x) = ASTREAM_PLAYBACK_INCALL_MUSIC \<and> isCPCallMode (dev s)
           then set_route_out E k True CALL_DRIVE (upd_dev (\<lambda>d. d\<lparr>incallmusic_on := True\<rparr>) s)
           else if \<not> is_playback_path_routed (dev s) then set_route_out E k True NON_FORCE_ROUTE s else Some s);
     let mute = needs_voipse E x s;
     s \<leftarrow> (if mute then trigger_voipse E k s else Some s);
     let (ret, s) = px_ask E (proxy_open_playback_stream (proxy_stream (out_common x)) 0) s;
     Some (ret, mute, if ret \<noteq> 0 then s else out_status k STATUS_IDLE s) }"

text \<open>A stream that is open already is opened again when the speech enhancement changes.\<close>

definition out_write_reopen :: "hal_env \<Rightarrow> nat \<Rightarrow> bool \<Rightarrow> hal \<Rightarrow> (bool \<times> hal) option" where
  "out_write_reopen E k mute s = do {
     x \<leftarrow> outs s k;
     let p = proxy_stream (out_common x);
     if needs_voipse E x s then do {
       s \<leftarrow> trigger_voipse E k (px_do (proxy_close_playback_stream p) s);
       Some (True, px_do (proxy_open_playback_stream p 0) s) }
     else if stream_type (out_common x) = ASTREAM_PLAYBACK_PRIMARY \<and> voipse_on (dev s) \<and> \<not> isAPCallMode (dev s) then
       Some (True, px_do (proxy_open_playback_stream p 0) (upd_dev (\<lambda>d. d\<lparr>voipse_on := False\<rparr>)
         (px_do (proxy_set_mixer_value_int ABOX_APCALLBUFFTYPE_CONTROL_NAME 0) (px_do (proxy_close_playback_stream p) s))))
     else Some (mute, s) }"

definition out_write_data :: "hal_env \<Rightarrow> nat \<Rightarrow> int \<Rightarrow> bool \<Rightarrow> hal \<Rightarrow> (int \<times> hal) option" where
  "out_write_data E k bytes mute s = do {
     (mute, s) \<leftarrow> out_write_reopen E k mute s;
     x \<leftarrow> outs s k;
     let c = out_common x;
     if stream_type c = ASTREAM_PLAYBACK_INCALL_MUSIC \<and> (isUSBHeadsetConnect (dev s) \<or> \<not> isCallMode (dev s)) \<and> stream_status c = STATUS_PLAYING
     then Some (0, s)
     else do {
       let (wrote, s) = px_ask E (proxy_write_playback_buffer (proxy_stream c) bytes) s;
       if wrote < 0 then Some (wrote, s)
       else do {
         let (ret, s) = (if stream_status c = STATUS_IDLE then
                           (let (ret, s) = px_ask E (proxy_start_playback_stream (proxy_stream c)) s in
                            (ret, if ret \<noteq> 0 then s else out_status k STATUS_PLAYING s))
                         else (0, s));
         if ret \<noteq> 0 then Some (ret, s)
         else do {
           let s = (if mute then px_do (proxy_set_mixer_value_int ABOX_APCALL_MUTE_CONTROL_NAME 20) s else s);
           Some (wrote, if stream_type c = ASTREAM_PLAYBACK_COMPR_OFFLOAD \<and> wrote < bytes
                        then snd (send_offload_msg E k OFFLOAD_MSG_WAIT_WRITE s) else s) } } } }"

definition out_write :: "hal_env \<Rightarrow> nat \<Rightarrow> bool \<Rightarrow> int \<Rightarrow> hal \<Rightarrow> (int \<times> hal) option" where
  "out_write E k buffer bytes s = do {
     x \<leftarrow> outs s k;
     (ret, mute, s) \<leftarrow> (if stream_status (out_common x) = STATUS_STANDBY then out_write_open E k s else Some (0, False, s));
     if ret \<noteq> 0 then Some (ret, s)
     else do {
       x \<leftarrow> outs s k;
       if STATUS_READY < stream_status (out_common x) \<and> buffer \<and> 0 < bytes then out_write_data E k bytes mute s
       else Some (0, s) } }"

definition out_set_callback :: "nat \<Rightarrow> int \<Rightarrow> int \<Rightarrow> hal \<Rightarrow> (int \<times> hal) option" where
  "out_set_callback k cb cookie s = do {
     x \<leftarrow> outs s k;
     Some (if stream_type (out_common x) = ASTREAM_PLAYBACK_COMPR_OFFLOAD \<and> cb \<noteq> NULL \<and> cookie \<noteq> NULL
           then (0, upd_offload k (\<lambda>f. f\<lparr>off_callback := cb\<rparr>) s) else (- EINVAL, s)) }"

definition out_pause :: "hal_env \<Rightarrow> nat \<Rightarrow> hal \<Rightarrow> (int \<times> hal) option" where
  "out_pause E k s = do {
     x \<leftarrow> outs s k;
     let c = out_common x;
     Some (if stream_type c = ASTREAM_PLAYBACK_COMPR_OFFLOAD \<and> stream_status c = STATUS_PLAYING then
             (let (ret, s) = px_ask E (proxy_offload_pause (proxy_stream c)) s in (ret, if ret = 0 then out_status k STATUS_PAUSED s else s))
           else (- ENOSYS, s)) }"

definition out_resume :: "hal_env \<Rightarrow> nat \<Rightarrow> hal \<Rightarrow> (int \<times> hal) option" where
  "out_resume E k s = do {
     x \<leftarrow> outs s k;
     let c = out_common x;
     Some (if stream_type c = ASTREAM_PLAYBACK_COMPR_OFFLOAD \<and> stream_status c = STATUS_PAUSED then
             (let (ret, s) = px_ask E (proxy_offload_resume (proxy_stream c)) s in (ret, if ret = 0 then out_status k STATUS_PLAYING s else s))
           else (- ENOSYS, s)) }"

definition out_drain :: "hal_env \<Rightarrow> nat \<Rightarrow> bool \<Rightarrow> hal \<Rightarrow> (int \<times> hal) option" where
  "out_drain E k early s = do {
     x \<leftarrow> outs s k;
     if stream_type (out_common x) = ASTREAM_PLAYBACK_COMPR_OFFLOAD then
       (if STATUS_IDLE < stream_status (out_common x) then
          Some (send_offload_msg E k (if early then OFFLOAD_MSG_WAIT_PARTIAL_DRAIN else OFFLOAD_MSG_WAIT_DRAIN) s)
        else map_option (Pair (- ENOSYS)) (call_offload_client (off_callback (offload x)) STREAM_CBK_EVENT_DRAIN_READY s))
     else Some (- ENOSYS, s) }"

definition out_flush :: "hal_env \<Rightarrow> nat \<Rightarrow> hal \<Rightarrow> (int \<times> hal) option" where
  "out_flush E k s = do {
     x \<leftarrow> outs s k;
     let c = out_common x;
     Some (if stream_type c = ASTREAM_PLAYBACK_COMPR_OFFLOAD then
             (if STATUS_IDLE < stream_status c then
                (let (ret, s) = px_ask E (proxy_stop_playback_stream (proxy_stream c)) s in (ret, out_status k STATUS_IDLE s))
              else (0, s))
           else (- ENOSYS, s)) }"

text \<open>The streams that share their buffer with the client.\<close>

definition out_stop :: "nat \<Rightarrow> hal \<Rightarrow> (int \<times> hal) option" where
  "out_stop k s = do {
     x \<leftarrow> outs s k;
     let c = out_common x;
     Some (- ENOSYS, if stream_type c = ASTREAM_PLAYBACK_MMAP \<and> stream_status c = STATUS_PLAYING
                     then out_status k STATUS_IDLE (px_do (proxy_stop_playback_stream (proxy_stream c)) s) else s) }"

definition out_start :: "hal_env \<Rightarrow> nat \<Rightarrow> hal \<Rightarrow> (int \<times> hal) option" where
  "out_start E k s = do {
     x \<leftarrow> outs s k;
     let c = out_common x;
     Some (if stream_type c = ASTREAM_PLAYBACK_MMAP \<and> stream_status c = STATUS_IDLE then
             (let (ret, s) = px_ask E (proxy_start_playback_stream (proxy_stream c)) s in (ret, if ret \<noteq> 0 then s else out_status k STATUS_PLAYING s))
           else (- ENOSYS, s)) }"

definition out_create_mmap_buffer :: "hal_env \<Rightarrow> nat \<Rightarrow> int \<Rightarrow> bool \<Rightarrow> hal \<Rightarrow> (int \<times> hal) option" where
  "out_create_mmap_buffer E k min_size_frames info s = do {
     x \<leftarrow> outs s k;
     let c = out_common x;
     if \<not> info \<or> min_size_frames = 0 then Some (- EINVAL, s)
     else if stream_type c \<noteq> ASTREAM_PLAYBACK_MMAP \<or> stream_status c \<noteq> STATUS_STANDBY then Some (- ENOSYS, s)
     else do {
       let s = out_status k STATUS_READY s;
       s \<leftarrow> (if \<not> is_playback_path_routed (dev s) then set_route_out E k True NON_FORCE_ROUTE s else Some s);
       let (ret, s) = px_ask E (proxy_open_playback_stream (proxy_stream c) min_size_frames) s;
       Some (ret, out_status k (if ret \<noteq> 0 then STATUS_STANDBY else STATUS_IDLE) s) } }"

section \<open>Input streams\<close>

definition in_get_buffer_size :: "hal_env \<Rightarrow> nat \<Rightarrow> nat \<Rightarrow> stream_in \<Rightarrow> hal \<Rightarrow> nat" where
  "in_get_buffer_size E PREDEFINED_LOW_CAPTURE_DURATION frame_size x s =
     (let c = in_common x;
          rate = unat (requested_sample_rate c);
          period = nat (px_query E (proxy_get_actual_period_size (proxy_stream c)) s);
          frames = (if int rate \<noteq> px_query E (proxy_get_actual_sampling_rate (proxy_stream c)) s then
                      (if stream_type c = ASTREAM_CAPTURE_PRIMARY then mul32 rate 20 div 1000
                       else if stream_type c = ASTREAM_CAPTURE_LOW_LATENCY then mul32 rate PREDEFINED_LOW_CAPTURE_DURATION div 1000
                       else period)
                    else period)
      in frames * frame_size)"

definition in_standby :: "hal_env \<Rightarrow> nat \<Rightarrow> hal \<Rightarrow> hal option" where
  "in_standby E k s = do {
     x \<leftarrow> ins s k;
     let c = in_common x;
     if \<not> STATUS_STANDBY < stream_status c then Some s
     else do {
       let s = (if STATUS_IDLE < stream_status c then in_status k STATUS_IDLE (px_do (proxy_stop_capture_stream (proxy_stream c)) s) else s);
       let s = in_status k STATUS_STANDBY (px_do (proxy_close_capture_stream (proxy_stream c)) s);
       s \<leftarrow> (if \<not> (SUPPORT_STHAL_INTERFACE E \<and> stream_type c = ASTREAM_CAPTURE_HOTWORD) \<and> is_capture_path_routed (dev s)
             then set_route_in E k False NON_FORCE_ROUTE s else Some s);
       Some (upd_dev (\<lambda>d. d\<lparr>active_input := None\<rparr>) s) } }"

definition stop_active_input :: "nat \<Rightarrow> hal \<Rightarrow> hal option" where
  "stop_active_input k s = do {
     x \<leftarrow> ins s k;
     let p = proxy_stream (in_common x);
     Some (if STATUS_STANDBY < stream_status (in_common x)
           then px_do (proxy_close_capture_stream p) (px_do (proxy_stop_capture_stream p) (in_status k STATUS_STANDBY s)) else s) }"

definition in_reconfig :: "nat \<Rightarrow> (stream_common \<Rightarrow> int \<times> stream_common \<times> bool) \<Rightarrow> hal \<Rightarrow> (int \<times> hal) option" where
  "in_reconfig k f s = do {
     x \<leftarrow> ins s k;
     let (ret, c, changed) = f (in_common x);
     let s = upd_icommon k (\<lambda>_. c) s;
     Some (ret, if changed then px_do (proxy_reconfig_capture_stream (proxy_stream c) (stream_type c)
                  (requested_sample_rate c) (requested_channel_mask c) (requested_format c)) s else s) }"

text \<open>A change to or from the source of voice recognition stops the stream at once.\<close>

definition in_change_recognition :: "nat \<Rightarrow> string option \<Rightarrow> hal \<Rightarrow> hal option" where
  "in_change_recognition k value s =
     (case value of
        None \<Rightarrow> Some s
      | Some val \<Rightarrow> do {
          x \<leftarrow> ins s k;
          let new = word_of_int (atoi val);
          if requested_source x = AUDIO_SOURCE_VOICE_RECOGNITION \<or> new = AUDIO_SOURCE_VOICE_RECOGNITION then do {
            s \<leftarrow> stop_active_input k s;
            let s = upd_in k (\<lambda>x. x\<lparr>requested_source := new\<rparr>) s;
            x \<leftarrow> ins s k;
            u \<leftarrow> adev_get_capture_ausage s x;
            Some (upd_in k (\<lambda>x. x\<lparr>pcm_reconfig := True\<rparr>) (upd_icommon k (\<lambda>c. c\<lparr>stream_usage := u\<rparr>) s)) }
          else Some s })"

definition in_route :: "hal_env \<Rightarrow> nat \<Rightarrow> u32 \<Rightarrow> hal \<Rightarrow> hal option" where
  "in_route E k devices s = do {
     x \<leftarrow> ins s k;
     let current = requested_devices (in_common x);
     if devices = AD_NONE then Some s
     else do {
       _ \<leftarrow> get_device_id s current;
       _ \<leftarrow> get_device_id s devices;
       let s = upd_icommon k (\<lambda>c. c\<lparr>requested_devices := devices\<rparr>) s;
       s \<leftarrow> update_capture_stream k current devices s;
       if (is_capture_path_routed (dev s) \<or> STATUS_STANDBY < stream_status (in_common x)) \<and> \<not> isCPCallMode (dev s)
       then set_route_in E k True NON_FORCE_ROUTE s else Some s } }"

definition in_change_source :: "nat \<Rightarrow> string option \<Rightarrow> hal \<Rightarrow> (int \<times> hal) option" where
  "in_change_source k value s =
     (case value of
        None \<Rightarrow> Some (0, s)
      | Some val \<Rightarrow> do {
          x \<leftarrow> ins s k;
          let new = word_of_int (atoi val);
          if STATUS_READY < stream_status (in_common x) then Some (- ENOSYS, s)
          else if new \<noteq> requested_source x \<and> new \<noteq> AUDIO_SOURCE_DEFAULT then do {
            let s = upd_in k (\<lambda>x. x\<lparr>requested_source := new\<rparr>) s;
            if new = AUDIO_SOURCE_VOICE_CALL then do {
              x \<leftarrow> ins s k;
              u \<leftarrow> adev_get_capture_ausage s x;
              Some (0, px_do (proxy_update_capture_usage (proxy_stream (in_common x)) u) (upd_icommon k (\<lambda>c. c\<lparr>stream_usage := u\<rparr>) s)) }
            else Some (0, s) }
          else Some (0, s) })"

definition in_set_parameters :: "hal_env \<Rightarrow> nat \<Rightarrow> str_parms \<Rightarrow> hal \<Rightarrow> (int \<times> hal) option" where
  "in_set_parameters E k parms s = do {
     x \<leftarrow> ins s k;
     if SUPPORT_STHAL_INTERFACE E \<and> stream_type (in_common x) = ASTREAM_CAPTURE_HOTWORD then Some (0, s)
     else do {
       let s = (if stream_type (in_common x) = ASTREAM_CAPTURE_USB_DEVICE
                then px_do (proxy_setparam_capture_stream (proxy_stream (in_common x))) s else s);
       let source = parm parms (AUDIO_PARAMETER_STREAM_INPUT_SOURCE (names E)) 32;
       s \<leftarrow> in_change_recognition k source s;
       s \<leftarrow> (case parm parms (AUDIO_PARAMETER_STREAM_ROUTING (names E)) 32 of
               None \<Rightarrow> Some s
             | Some value \<Rightarrow> in_route E k (word_of_int (atoi value)) s);
       (ret, s) \<leftarrow> in_reconfig k (format_parm (parm parms (AUDIO_PARAMETER_STREAM_FORMAT (names E)) 32)) s;
       if ret \<noteq> 0 then Some (ret, s)
       else do {
         (ret, s) \<leftarrow> in_reconfig k (channel_parm (parm parms (AUDIO_PARAMETER_STREAM_CHANNELS (names E)) 32)) s;
         if ret \<noteq> 0 then Some (ret, s)
         else do {
           (ret, s) \<leftarrow> in_reconfig k (rate_parm (parm parms (AUDIO_PARAMETER_STREAM_SAMPLING_RATE (names E)) 32)) s;
           if ret \<noteq> 0 then Some (ret, s) else in_change_source k source s } } } }"

text \<open>The type of a stream follows the call when it is opened.\<close>

definition in_retype :: "hal_env \<Rightarrow> nat \<Rightarrow> bool \<Rightarrow> hal \<Rightarrow> hal option" where
  "in_retype E k reconfig s = do {
     x \<leftarrow> ins s k;
     let t = stream_type (in_common x);
     let call_active = (px_query E is_active_usage_CPCall s \<noteq> 0);
     if isCPCallMode (dev s) \<and> call_active \<and> t \<noteq> ASTREAM_CAPTURE_CALL
        \<or> \<not> isCPCallMode (dev s) \<and> \<not> call_active \<and> (t = ASTREAM_CAPTURE_CALL \<or> reconfig \<and> t = ASTREAM_CAPTURE_PRIMARY)
     then do {
       let new = (if isCPCallMode (dev s) \<and> isCallRecording (requested_source x) then ASTREAM_CAPTURE_CALL else ASTREAM_CAPTURE_PRIMARY);
       u \<leftarrow> adev_get_capture_ausage s x;
       Some (px_do (proxy_reconfig_capture_usage (proxy_stream (in_common x)) new u)
         (upd_icommon k (\<lambda>c. c\<lparr>stream_type := new, stream_usage := u\<rparr>) s)) }
     else Some s }"

definition in_read_open :: "hal_env \<Rightarrow> nat \<Rightarrow> bool \<Rightarrow> hal \<Rightarrow> (int \<times> hal) option" where
  "in_read_open E k reconfig s = do {
     s \<leftarrow> in_retype E k reconfig (in_status k STATUS_READY s);
     let s = upd_dev (\<lambda>d. d\<lparr>active_input := Some k\<rparr>) s;
     x \<leftarrow> ins s k;
     let t = stream_type (in_common x);
     s \<leftarrow> (if \<not> (SUPPORT_STHAL_INTERFACE E \<and> t = ASTREAM_CAPTURE_HOTWORD) \<and> \<not> is_capture_path_routed (dev s)
             \<and> \<not> is_factory_bt_realtime_loopback_mode (factory (dev s)) \<and> t \<noteq> ASTREAM_CAPTURE_CALL
           then set_route_in E k True NON_FORCE_ROUTE s else Some s);
     let (ret, s) = px_ask E (proxy_open_capture_stream (proxy_stream (in_common x)) 0) s;
     Some (ret, if ret \<noteq> 0 then s else in_status k STATUS_IDLE s) }"

text \<open>The result, whether the buffer was cleared because the microphone is muted, and the state.\<close>

definition in_read :: "hal_env \<Rightarrow> nat \<Rightarrow> bool \<Rightarrow> int \<Rightarrow> hal \<Rightarrow> (int \<times> bool \<times> hal) option" where
  "in_read E k buffer bytes s = do {
     x \<leftarrow> ins s k;
     let reconfig = pcm_reconfig x;
     s \<leftarrow> (if reconfig then map_option (upd_in k (\<lambda>x. x\<lparr>pcm_reconfig := False\<rparr>)) (stop_active_input k s) else Some s);
     x \<leftarrow> ins s k;
     (ret, s) \<leftarrow> (if stream_status (in_common x) = STATUS_STANDBY then in_read_open E k reconfig s else Some (0, s));
     if ret \<noteq> 0 then Some (ret, False, s)
     else do {
       x \<leftarrow> ins s k;
       let p = proxy_stream (in_common x);
       let (ret, s) = (if stream_status (in_common x) = STATUS_IDLE then
                         (let (ret, s) = px_ask E (proxy_start_capture_stream p) s in (ret, if ret \<noteq> 0 then s else in_status k STATUS_PLAYING s))
                       else (0, s));
       if ret \<noteq> 0 then Some (ret, False, s)
       else do {
         x \<leftarrow> ins s k;
         Some (if stream_status (in_common x) = STATUS_PLAYING \<and> buffer \<and> 0 < bytes then
                 (let (ret, s) = px_ask E (proxy_read_capture_buffer p bytes) s in
                  (ret, mic_mute (dev s) \<and> (isAPCallMode (dev s) \<or> \<not> isCallRecording (requested_source x)) \<and> 0 \<le> ret, s))
               else (0, False, s)) } } }"

definition in_stop :: "nat \<Rightarrow> hal \<Rightarrow> (int \<times> hal) option" where
  "in_stop k s = do {
     x \<leftarrow> ins s k;
     let c = in_common x;
     Some (- ENOSYS, if stream_type c = ASTREAM_CAPTURE_MMAP \<and> stream_status c = STATUS_PLAYING
                     then in_status k STATUS_IDLE (px_do (proxy_stop_capture_stream (proxy_stream c)) s) else s) }"

definition in_start :: "hal_env \<Rightarrow> nat \<Rightarrow> hal \<Rightarrow> (int \<times> hal) option" where
  "in_start E k s = do {
     x \<leftarrow> ins s k;
     let c = in_common x;
     Some (if stream_type c = ASTREAM_CAPTURE_MMAP \<and> stream_status c = STATUS_IDLE then
             (let (ret, s) = px_ask E (proxy_start_capture_stream (proxy_stream c)) s in (ret, if ret \<noteq> 0 then s else in_status k STATUS_PLAYING s))
           else (- ENOSYS, s)) }"

definition in_create_mmap_buffer :: "hal_env \<Rightarrow> nat \<Rightarrow> int \<Rightarrow> bool \<Rightarrow> hal \<Rightarrow> (int \<times> hal) option" where
  "in_create_mmap_buffer E k min_size_frames info s = do {
     x \<leftarrow> ins s k;
     let c = in_common x;
     if \<not> info \<or> min_size_frames = 0 then Some (- EINVAL, s)
     else if stream_type c \<noteq> ASTREAM_CAPTURE_MMAP \<or> stream_status c \<noteq> STATUS_STANDBY then Some (- ENOSYS, s)
     else do {
       let s = in_status k STATUS_READY s;
       s \<leftarrow> (if \<not> is_capture_path_routed (dev s) then set_route_in E k True NON_FORCE_ROUTE s else Some s);
       let (ret, s) = px_ask E (proxy_open_capture_stream (proxy_stream c) min_size_frames) s;
       Some (ret, in_status k (if ret \<noteq> 0 then STATUS_STANDBY else STATUS_IDLE) s) } }"

end
