(* ===== verification/Audio_Device.thy ===== *)
theory Audio_Device
  imports Audio_Stream
begin

text \<open>
  The device of the primary audio HAL, \<open>libaudio/audiohal/audio_hw.c\<close>, with its factory tests,
  \<open>libaudio/audiohal/factory_manager.c\<close>: modes, volume, parameters, opening and closing of streams
  and of the device itself, which is a singleton with a count of its users.
\<close>

section \<open>Factory tests\<close>

primrec loopback_code :: "loopback_type \<Rightarrow> int" where
  "loopback_code LOOPBACK_OFF = 0" | "loopback_code LOOPBACK_PCM = 1" | "loopback_code LOOPBACK_PACKET = 2"
| "loopback_code LOOPBACK_PCM_NODELAY = 3" | "loopback_code LOOPBACK_PACKET_NODELAY = 4" | "loopback_code LOOPBACK_CODEC = 5"
| "loopback_code LOOPBACK_REALTIME = 6"

definition is_factory_mode :: "factory_manager option \<Rightarrow> bool" where
  "is_factory_mode fm = (case fm of None \<Rightarrow> False | Some f \<Rightarrow> fac_mode f \<noteq> FACTORY_MODE_NONE)"

definition is_factory_loopback_mode :: "factory_manager option \<Rightarrow> bool" where
  "is_factory_loopback_mode fm = (case fm of None \<Rightarrow> False | Some f \<Rightarrow> fac_mode f = FACTORY_MODE_LOOPBACK)"

definition is_factory_rms_mode :: "factory_manager option \<Rightarrow> bool" where
  "is_factory_rms_mode fm = (case fm of None \<Rightarrow> False | Some f \<Rightarrow> fac_mode f = FACTORY_MODE_RMS)"

definition starts_with :: "string \<Rightarrow> string \<Rightarrow> bool" where
  "starts_with p value \<longleftrightarrow> take (length p) value = p"

definition factory_set_path_for_loopback :: "string \<Rightarrow> factory_manager \<Rightarrow> factory_manager" where
  "factory_set_path_for_loopback value f =
     (let (out, inp) =
        (if starts_with ''ear_ear'' value then (AD_OUT_WIRED_HEADSET, AD_IN_WIRED_HEADSET)
         else if starts_with ''mic1_spk'' value then (AD_OUT_SPEAKER, AD_IN_BUILTIN_MIC)
         else if starts_with ''mic2_spk'' value then (AD_OUT_SPEAKER, AD_IN_BACK_MIC)
         else if starts_with ''mic1_rcv'' value then (AD_OUT_EARPIECE, AD_IN_BUILTIN_MIC)
         else if starts_with ''mic2_rcv'' value then (AD_OUT_EARPIECE, AD_IN_BACK_MIC)
         else if starts_with ''mic1_ear'' value then (AD_OUT_WIRED_HEADSET, AD_IN_BUILTIN_MIC)
         else if starts_with ''mic2_ear'' value then (AD_OUT_WIRED_HEADSET, AD_IN_BACK_MIC)
         else if starts_with ''bt_bt'' value then (AD_OUT_BLUETOOTH_SCO_HEADSET, AD_IN_BLUETOOTH_SCO_HEADSET)
         else (AD_OUT_EARPIECE, AD_IN_BUILTIN_MIC))
      in f\<lparr>fac_out_device := out, fac_in_device := inp\<rparr>)"

definition factory_set_path_for_force_route :: "string \<Rightarrow> factory_manager \<Rightarrow> factory_manager" where
  "factory_set_path_for_force_route value f =
     (let f = (if \<not> rms_test_enable f then f\<lparr>fac_mode := FACTORY_MODE_FORCE_ROUTE\<rparr> else f) in
      if value = ''spk'' then f\<lparr>fac_out_device := AD_OUT_SPEAKER\<rparr>
      else if value = ''rcv'' then f\<lparr>fac_out_device := AD_OUT_EARPIECE\<rparr>
      else if value = ''ear'' then f\<lparr>fac_out_device := AD_OUT_WIRED_HEADSET\<rparr>
      else if value = ''off'' then f\<lparr>fac_mode := FACTORY_MODE_NONE, fac_out_device := AD_NONE\<rparr>
      else f)"

definition factory_set_path_for_rms :: "string \<Rightarrow> factory_manager \<Rightarrow> factory_manager" where
  "factory_set_path_for_rms value f =
     (if value = ''on'' then f\<lparr>fac_mode := FACTORY_MODE_RMS, rms_test_enable := True\<rparr>
      else if value = ''main'' then f\<lparr>fac_in_device := AD_IN_BUILTIN_MIC\<rparr>
      else if value = ''sub'' then f\<lparr>fac_in_device := AD_IN_BACK_MIC\<rparr>
      else if value = ''spk_mic1'' then f\<lparr>fac_in_device := AD_IN_BUILTIN_MIC\<rparr>
      else if value = ''off'' then f\<lparr>fac_mode := FACTORY_MODE_NONE, fac_in_device := AD_NONE, rms_test_enable := False\<rparr>
      else f)"

definition factory_type :: "string \<Rightarrow> factory_manager \<Rightarrow> factory_manager" where
  "factory_type value f =
     (if value = ''codec'' then f\<lparr>fac_loopback_mode := LOOPBACK_CODEC\<rparr>
      else if value = ''realtime'' then f\<lparr>fac_loopback_mode := LOOPBACK_REALTIME\<rparr>
      else if value = ''pcm'' then f\<lparr>fac_loopback_mode := LOOPBACK_PCM\<rparr>
      else if value = ''packet'' then f\<lparr>fac_loopback_mode := LOOPBACK_PACKET\<rparr>
      else if value = ''packet_nodelay'' then f\<lparr>fac_loopback_mode := LOOPBACK_PACKET_NODELAY\<rparr>
      else f)"

definition upd_factory :: "(factory_manager \<Rightarrow> factory_manager) \<Rightarrow> hal \<Rightarrow> hal" where
  "upd_factory f = upd_dev (\<lambda>d. d\<lparr>factory := map_option f (factory d)\<rparr>)"

text \<open>The primary output is routed while it works and unrouted in standby.\<close>

definition factory_reroute :: "hal_env \<Rightarrow> force_route \<Rightarrow> hal \<Rightarrow> hal option" where
  "factory_reroute E fr s =
     (case primary_output (dev s) of
        None \<Rightarrow> Some s
      | Some p \<Rightarrow> do {
          x \<leftarrow> outs s p;
          set_route_out E p (stream_status (out_common x) \<noteq> STATUS_STANDBY) fr s })"

text \<open>An operation of the voice manager that may not return.\<close>

definition on_voice_call_mode :: "hal_env \<Rightarrow> bool \<Rightarrow> hal \<Rightarrow> hal option" where
  "on_voice_call_mode E on s =
     (case voice (dev s) of
        None \<Rightarrow> Some s
      | Some v \<Rightarrow> do {
          (ret, v, w) \<leftarrow> voice_set_call_mode (ril_lib E) on (v, ril s);
          Some (s\<lparr>dev := (dev s)\<lparr>voice := Some v\<rparr>, ril := w\<rparr>) })"

definition factory_loopback_off :: "hal_env \<Rightarrow> factory_manager \<Rightarrow> hal \<Rightarrow> hal option" where
  "factory_loopback_off E f s = do {
     let s = upd_factory (\<lambda>f. f\<lparr>fac_mode := FACTORY_MODE_NONE, fac_out_device := AD_NONE, fac_in_device := AD_NONE\<rparr>) s;
     let s = (if fac_loopback_mode f \<noteq> LOOPBACK_REALTIME
              then px_do proxy_stop_voice_call (on_voice (voice_set_loopback_device (loopback_code LOOPBACK_OFF)) s) else s);
     let s = upd_factory (\<lambda>f. f\<lparr>fac_loopback_mode := LOOPBACK_OFF\<rparr>) s;
     s \<leftarrow> factory_reroute E CALL_DRIVE s;
     s \<leftarrow> on_voice_call_mode E False s;
     Some (if SUPPORT_STHAL_INTERFACE E then px_do (proxy_call_status False) s else s) }"

definition factory_loopback :: "hal_env \<Rightarrow> string \<Rightarrow> hal \<Rightarrow> hal option" where
  "factory_loopback E value s = do {
     f \<leftarrow> factory (dev s);
     if value = AUDIO_PARAMETER_VALUE_ON (voice_names E) then do {
       let s = upd_factory (\<lambda>f. f\<lparr>fac_mode := FACTORY_MODE_LOOPBACK\<rparr>) s;
       Some (if SUPPORT_STHAL_INTERFACE E then px_do (proxy_call_status True) s else s) }
     else if value = AUDIO_PARAMETER_VALUE_OFF (voice_names E) then factory_loopback_off E f s
     else Some s }"

definition factory_path :: "hal_env \<Rightarrow> string \<Rightarrow> hal \<Rightarrow> hal option" where
  "factory_path E value s = do {
     f \<leftarrow> factory (dev s);
     let s = upd_factory (factory_set_path_for_loopback value) s;
     let realtime = (fac_loopback_mode f = LOOPBACK_REALTIME);
     let s = (if \<not> realtime then on_voice (voice_set_loopback_device (loopback_code (fac_loopback_mode f))) s else s);
     let s = px_do proxy_stop_voice_call s;
     s \<leftarrow> (case primary_output (dev s) of None \<Rightarrow> Some s | Some p \<Rightarrow> set_route_out E p True CALL_DRIVE s);
     Some (if \<not> realtime then
             on_voice (voice_set_mic_mute (ril_lib E) False)
               (on_voice (\<lambda>w. snd (voice_set_volume (ril_lib E) (volume_scale E (voice_volume (dev s))) w)) (px_do proxy_start_voice_call s))
           else s) }"

definition factory_rms :: "hal_env \<Rightarrow> string \<Rightarrow> hal \<Rightarrow> hal option" where
  "factory_rms E value s = do {
     let s = upd_factory (factory_set_path_for_rms value) s;
     case active_input (dev s) of
       None \<Rightarrow> Some s
     | Some i \<Rightarrow> do {
         x \<leftarrow> ins s i;
         if in_flags x AND 2 = 0 \<and> value \<noteq> ''on'' then set_route_in E i True NON_FORCE_ROUTE s else Some s } }"

text \<open>
  \<open>factory_set_parameters\<close>, called with a factory manager. \<open>factory_test_path\<close> and \<open>factory_test_route\<close> must
  have a value that is not empty.
\<close>

definition factory_set_parameters :: "hal_env \<Rightarrow> str_parms \<Rightarrow> hal \<Rightarrow> hal option" where
  "factory_set_parameters E parms s = do {
     let s = (case parm parms ''factory_test_type'' 32 of None \<Rightarrow> s | Some value \<Rightarrow> upd_factory (factory_type value) s);
     s \<leftarrow> (case parm parms ''factory_test_loopback'' 32 of None \<Rightarrow> Some s | Some value \<Rightarrow> factory_loopback E value s);
     s \<leftarrow> (case parm parms ''factory_test_path'' 32 of
             None \<Rightarrow> Some s | Some value \<Rightarrow> if value \<noteq> [] then factory_path E value s else Some s);
     s \<leftarrow> (case parm parms ''factory_test_route'' 32 of
             None \<Rightarrow> Some s
           | Some value \<Rightarrow> if value \<noteq> [] then factory_reroute E FORCE_ROUTE (upd_factory (factory_set_path_for_force_route value) s) else Some s);
     case parm parms ''factory_test_mic_check'' 32 of None \<Rightarrow> Some s | Some value \<Rightarrow> factory_rms E value s }"

definition zero_factory :: factory_manager where
  "zero_factory = \<lparr>fac_mode = FACTORY_MODE_NONE, fac_loopback_mode = LOOPBACK_OFF, fac_out_device = AD_NONE, fac_in_device = AD_NONE,
     rms_test_enable = False, is_calibration_test = False, is_dspk_changed = False\<rparr>"

definition factory_init :: "hal_env \<Rightarrow> hal \<Rightarrow> factory_manager option \<times> hal" where
  "factory_init E s = (let (p, s) = px_ask E calloc_factory s in (if p = NULL then None else Some zero_factory, s))"

section \<open>Volume, mode and parameters\<close>

definition adev_init_check :: "audio_device \<Rightarrow> int" where
  "adev_init_check d = (if proxy d \<noteq> NULL \<and> is_route_created d then 0 else -19)"

definition roll_back :: "hal_env \<Rightarrow> hal \<Rightarrow> (bool \<times> hal) option" where
  "roll_back E s =
     (if voice_volume (dev s) \<noteq> 0 then Some (False, s)
      else do {
        n \<leftarrow> get_active_playback_count s (primary_output (dev s));
        if n = 0 then Some (False, s)
        else do {
          p \<leftarrow> primary_output (dev s);
          x \<leftarrow> outs s p;
          if force x = FORCE_ROUTE \<and> rollback_devices x \<noteq> AD_NONE then do {
            s \<leftarrow> set_route_out E p True NON_FORCE_ROUTE (upd_ocommon p (\<lambda>c. c\<lparr>requested_devices := rollback_devices x\<rparr>) s);
            Some (True, s) }
          else Some (False, s) } })"

definition adev_set_voice_volume :: "hal_env \<Rightarrow> rat \<Rightarrow> hal \<Rightarrow> (int \<times> hal) option" where
  "adev_set_voice_volume E volume s =
     (if volume < 0 \<or> 1 < volume then Some (- EINVAL, s)
      else do {
        s \<leftarrow> (if (case voice (dev s) of None \<Rightarrow> False | Some v \<Rightarrow> voice_is_call_mode v)
              then Some (on_voice (\<lambda>w. snd (voice_set_volume (ril_lib E) (volume_scale E volume) w)) s)
              else do {
                (rolled, s) \<leftarrow> roll_back E s;
                Some (if \<not> rolled \<and> USE_SITRIL E \<and> isAPCallMode (dev s) \<and> proxy (dev s) \<noteq> NULL
                      then px_do (proxy_set_communication_volume
                             (case voice (dev s) of None \<Rightarrow> 0 | Some v \<Rightarrow> voice_get_volume_index (volume_scale E volume) v)) s
                      else s) });
        Some (0, upd_dev (\<lambda>d. d\<lparr>voice_volume := volume\<rparr>) s) })"

text \<open>A call of the modem is not left for the mode of a call over the network while it is a real one.\<close>

definition keep_mode :: "audio_mode_t \<Rightarrow> audio_device \<Rightarrow> audio_mode_t \<times> audio_device" where
  "keep_mode mode d =
     (case voice d of
        None \<Rightarrow> (mode, d)
      | Some v \<Rightarrow>
          if mode = AUDIO_MODE_IN_COMMUNICATION \<and> isCPCallMode d \<and> vm_realcall v
          then (amode d, d\<lparr>voice := Some (v\<lparr>keep_call_mode := True\<rparr>)\<rparr>)
          else if mode = AUDIO_MODE_IN_CALL \<and> keep_call_mode v then (mode, d\<lparr>voice := Some (v\<lparr>keep_call_mode := False\<rparr>)\<rparr>)
          else (mode, d))"

definition end_call :: "hal_env \<Rightarrow> hal \<Rightarrow> hal option" where
  "end_call E s = do {
     let s = px_do proxy_stop_voice_call
               (on_voice (\<lambda>(v, w). voice_set_call_active (ril_lib E) False (v\<lparr>keep_call_mode := False\<rparr>, w)) s);
     p \<leftarrow> primary_output (dev s);
     x \<leftarrow> outs s p;
     s \<leftarrow> update_call_stream E p (requested_devices (out_common x)) (requested_devices (out_common x)) s;
     s \<leftarrow> on_voice_call_mode E False s;
     Some (px_do (proxy_call_status False) s) }"

definition begin_call :: "hal_env \<Rightarrow> hal \<Rightarrow> hal option" where
  "begin_call E s = do {
     mute \<leftarrow> (if previous_amode (dev s) = AUDIO_MODE_RINGTONE then do {
               x \<leftarrow> deref_out s (primary_output (dev s));
               dv \<leftarrow> get_device_id s (requested_devices (out_common x));
               Some (dv = DEVICE_BT_HEADSET) }
             else Some False);
     let s = (if mute then px_do (proxy_set_mixer_value_int ABOX_APCALL_MUTE_CONTROL_NAME 30) s else s);
     s \<leftarrow> on_voice_call_mode E True s;
     Some (px_do (proxy_call_status True) s) }"

definition adev_set_mode :: "hal_env \<Rightarrow> audio_mode_t \<Rightarrow> hal \<Rightarrow> hal option" where
  "adev_set_mode E mode s = do {
     let (mode, d) = keep_mode mode (dev s);
     let s = s\<lparr>dev := d\<rparr>;
     if amode d = mode then Some s
     else do {
       let s = px_do (proxy_set_audiomode mode) (upd_dev (\<lambda>d. d\<lparr>previous_amode := amode d, amode := mode\<rparr>) s);
       case voice (dev s) of
         None \<Rightarrow> Some s
       | Some v \<Rightarrow>
           if (mode = AUDIO_MODE_NORMAL \<or> mode = AUDIO_MODE_IN_COMMUNICATION) \<and> voice_is_call_active v then end_call E s
           else if mode = AUDIO_MODE_IN_CALL then begin_call E s
           else Some s } }"

definition adev_set_mic_mute :: "hal_env \<Rightarrow> bool \<Rightarrow> hal \<Rightarrow> hal" where
  "adev_set_mic_mute E state s =
     upd_dev (\<lambda>d. d\<lparr>mic_mute := state\<rparr>) (if mic_mute (dev s) \<noteq> state then on_voice (voice_set_mic_mute (ril_lib E) state) s else s)"

text \<open>The parameters of the device, one definition per parameter.\<close>

definition parm_int :: "hal_env \<Rightarrow> str_parms \<Rightarrow> string \<Rightarrow> int option" where
  "parm_int E parms key = parms key \<bind> str_parms_int E"

abbreviation (input) USB_MICS :: u32 where "USB_MICS \<equiv> AD_IN_USB_DEVICE OR AD_IN_USB_HEADSET"

definition device_connect :: "hal_env \<Rightarrow> str_parms \<Rightarrow> hal \<Rightarrow> hal option" where
  "device_connect E parms s =
     (case parm_int E parms (AUDIO_PARAMETER_DEVICE_CONNECT (names E)) of
        None \<Rightarrow> Some s
      | Some val \<Rightarrow> do {
          let device = word_of_int val;
          let s = (if AD_BIT_IN < device then
                     (let s = upd_dev (\<lambda>d. d\<lparr>previous_capture_device := actual_capture_device d, actual_capture_device := device\<rparr>) s in
                      if device AND USB_MICS \<noteq> 0 then on_voice (voice_set_usb_mic (ril_lib E) True) s else s)
                   else upd_dev (\<lambda>d. d\<lparr>previous_playback_device := actual_playback_device d, actual_playback_device := device\<rparr>) s);
          _ \<leftarrow> get_device_id s device;
          Some s })"

definition device_disconnect :: "hal_env \<Rightarrow> str_parms \<Rightarrow> hal \<Rightarrow> hal option" where
  "device_disconnect E parms s =
     (case parm_int E parms (AUDIO_PARAMETER_DEVICE_DISCONNECT (names E)) of
        None \<Rightarrow> Some s
      | Some val \<Rightarrow> do {
          let device = word_of_int val;
          _ \<leftarrow> get_device_id s device;
          Some (if AD_BIT_IN < device then
                  (let s = upd_dev (\<lambda>d. d\<lparr>actual_capture_device := previous_capture_device d, previous_capture_device := device\<rparr>) s in
                   if device AND USB_MICS \<noteq> 0 then on_voice (voice_set_usb_mic (ril_lib E) False) s else s)
                else upd_dev (\<lambda>d. d\<lparr>actual_playback_device := previous_playback_device d, previous_playback_device := device\<rparr>) s) })"

definition screen_state :: "hal_env \<Rightarrow> str_parms \<Rightarrow> hal \<Rightarrow> hal" where
  "screen_state E parms s =
     (case parm parms (AUDIO_PARAMETER_KEY_SCREEN_STATE (names E)) 256 of
        None \<Rightarrow> s
      | Some value \<Rightarrow> upd_dev (\<lambda>d. d\<lparr>screen_on := (value = AUDIO_PARAMETER_VALUE_ON (voice_names E))\<rparr>) s)"

definition fm_mode :: "str_parms \<Rightarrow> hal \<Rightarrow> hal" where
  "fm_mode parms s =
     (case parm parms ''fm_mode'' 256 of
        None \<Rightarrow> s
      | Some value \<Rightarrow> if starts_with ''on'' value \<or> \<not> isFMRadioOn (dev s) then s else upd_dev (\<lambda>d. d\<lparr>fm_state := FM_OFF\<rparr>) s)"

definition fm_volume :: "hal_env \<Rightarrow> nat option \<Rightarrow> str_parms \<Rightarrow> hal \<Rightarrow> hal option" where
  "fm_volume E primary parms s =
     (case parm parms ''fm_radio_volume'' 256 of
        None \<Rightarrow> Some s
      | Some value \<Rightarrow>
          if starts_with ''on'' value then do {
            p \<leftarrow> primary;
            s \<leftarrow> set_route_out E p True NON_FORCE_ROUTE s;
            Some (px_do proxy_start_fm_radio s) }
          else do {
            let s = px_do proxy_stop_fm_radio s;
            if px_query E is_active_usage_APCall s \<noteq> 0 \<or> (case voice (dev s) of None \<Rightarrow> False | Some v \<Rightarrow> voice_is_call_active v) then Some s
            else do {
              p \<leftarrow> primary;
              x \<leftarrow> outs s p;
              if stream_status (out_common x) = STATUS_STANDBY then set_route_out E p False NON_FORCE_ROUTE s else Some s } })"

definition seamless_voice :: "str_parms \<Rightarrow> hal \<Rightarrow> hal" where
  "seamless_voice parms s =
     (case parm parms ''seamless_voice'' 256 of None \<Rightarrow> s | Some value \<Rightarrow> upd_dev (\<lambda>d. d\<lparr>seamless_enabled := (value = ''on'')\<rparr>) s)"

text \<open>The parameters that were handled are deleted; what the voice manager leaves goes to the factory manager.\<close>

definition voice_parameters :: "hal_env \<Rightarrow> str_parms \<Rightarrow> hal \<Rightarrow> (str_parms \<times> hal) option" where
  "voice_parameters E parms s =
     (case voice (dev s) of
        None \<Rightarrow> Some (parms, s)
      | Some v \<Rightarrow> do {
          requested \<leftarrow> (case primary_output (dev s) of
                          None \<Rightarrow> Some None
                        | Some p \<Rightarrow> do { x \<leftarrow> outs s p; Some (Some (ril_devices (requested_devices (out_common x)))) });
          let (parms, v, w) = voice_set_parameters (ril_lib E) (voice_names E) requested parms (v, ril s);
          Some (parms, s\<lparr>dev := (dev s)\<lparr>voice := Some v\<rparr>, ril := w\<rparr>) })"

definition adev_set_parameters :: "hal_env \<Rightarrow> str_parms \<Rightarrow> hal \<Rightarrow> (int \<times> hal) option" where
  "adev_set_parameters E parms s = do {
     let primary = primary_output (dev s);
     let (status, s) = px_ask E proxy_set_parameters s;
     if status \<noteq> 0 then Some (status, s)
     else do {
       s \<leftarrow> device_connect E parms s;
       s \<leftarrow> device_disconnect E parms s;
       let s = fm_mode parms (screen_state E parms s);
       s \<leftarrow> fm_volume E primary parms s;
       let s = seamless_voice parms s;
       (parms, s) \<leftarrow> voice_parameters E parms s;
       s \<leftarrow> (if factory (dev s) \<noteq> None \<and> voice (dev s) \<noteq> None then factory_set_parameters E parms s else Some s);
       Some (0, s) } }"

section \<open>Opening and closing streams\<close>

record audio_config =
  sample_rate :: u32
  channel_mask :: u32
  format :: u32
  frame_count :: u32

abbreviation (input) EEXIST :: int where "EEXIST \<equiv> 17"
abbreviation (input) OUT_FLAG_DIRECT :: u32 where "OUT_FLAG_DIRECT \<equiv> 0x1"
abbreviation (input) OUT_FLAG_PRIMARY :: u32 where "OUT_FLAG_PRIMARY \<equiv> 0x2"
abbreviation (input) OUT_FLAG_FAST :: u32 where "OUT_FLAG_FAST \<equiv> 0x4"
abbreviation (input) OUT_FLAG_DEEP_BUFFER :: u32 where "OUT_FLAG_DEEP_BUFFER \<equiv> 0x8"
abbreviation (input) OUT_FLAG_COMPRESS_OFFLOAD :: u32 where "OUT_FLAG_COMPRESS_OFFLOAD \<equiv> 0x10"
abbreviation (input) OUT_FLAG_NON_BLOCKING :: u32 where "OUT_FLAG_NON_BLOCKING \<equiv> 0x20"
abbreviation (input) OUT_FLAG_RAW :: u32 where "OUT_FLAG_RAW \<equiv> 0x100"
abbreviation (input) OUT_FLAG_MMAP_NOIRQ :: u32 where "OUT_FLAG_MMAP_NOIRQ \<equiv> 0x4000"
abbreviation (input) OUT_FLAG_INCALL_MUSIC :: u32 where "OUT_FLAG_INCALL_MUSIC \<equiv> 0x10000"
abbreviation (input) IN_FLAG_FAST :: u32 where "IN_FLAG_FAST \<equiv> 0x1"
abbreviation (input) IN_FLAG_HW_HOTWORD :: u32 where "IN_FLAG_HW_HOTWORD \<equiv> 0x2"
abbreviation (input) IN_FLAG_MMAP_NOIRQ :: u32 where "IN_FLAG_MMAP_NOIRQ \<equiv> 0x10"
abbreviation (input) IN_FLAG_VOIP_TX :: u32 where "IN_FLAG_VOIP_TX \<equiv> 0x20"
abbreviation (input) AUDIO_FORMAT_PCM_16_BIT :: u32 where "AUDIO_FORMAT_PCM_16_BIT \<equiv> 1"

definition new_common :: "int \<Rightarrow> u32 \<Rightarrow> audio_config \<Rightarrow> stream_common" where
  "new_common handle devices config =
     \<lparr>proxy_stream = NULL, io_handle = handle, requested_devices = devices, requested_sample_rate = sample_rate config,
      requested_channel_mask = channel_mask config, requested_format = format config, requested_frame_count = frame_count config,
      offload_audio_format = 0, stream_type = ASTREAM_NONE, stream_usage = AUSAGE_NONE, stream_status = STATUS_STANDBY\<rparr>"

definition new_out :: "int \<Rightarrow> u32 \<Rightarrow> u32 \<Rightarrow> audio_config \<Rightarrow> stream_out" where
  "new_out handle devices flags config =
     \<lparr>out_common = new_common handle devices config, out_flags = flags,
      offload = \<lparr>nonblock_flag = False, off_callback = NULL, callback_thread = False, msg_list = [], thread_msg = OFFLOAD_MSG_INVALID,
        callback_thread_blocked = False\<rparr>,
      vol_left = 0, vol_right = 0, force = NON_FORCE_ROUTE, rollback_devices = AD_NONE\<rparr>"

definition new_in :: "int \<Rightarrow> u32 \<Rightarrow> u32 \<Rightarrow> u32 \<Rightarrow> audio_config \<Rightarrow> stream_in" where
  "new_in handle devices flags source config =
     \<lparr>in_common = new_common handle devices config, in_flags = flags, requested_source = source, pcm_reconfig = False\<rparr>"

definition retype :: "audio_stream_type \<Rightarrow> audio_usage \<Rightarrow> stream_common \<Rightarrow> stream_common" where
  "retype t u c = c\<lparr>stream_type := t, stream_usage := u\<rparr>"

text \<open>
  The type and usage of an output stream by its flags, None when they are not supported. A direct
  stream that is neither offloaded nor mapped has no type and is opened all the same.
\<close>

definition out_type :: "u32 \<Rightarrow> u32 \<Rightarrow> (audio_stream_type \<times> audio_usage) option" where
  "out_type flags devices =
     (if flags = 0 then
        Some (if devices = AD_OUT_AUX_DIGITAL then ASTREAM_PLAYBACK_AUX_DIGITAL
              else if devices = AD_OUT_USB_ACCESSORY \<or> devices = AD_OUT_USB_DEVICE \<or> devices = AD_OUT_USB_HEADSET then ASTREAM_PLAYBACK_USB_DEVICE
              else ASTREAM_PLAYBACK_NO_ATTRIBUTE, AUSAGE_MEDIA)
      else if flags AND OUT_FLAG_DIRECT \<noteq> 0 then
        Some (if flags AND OUT_FLAG_COMPRESS_OFFLOAD \<noteq> 0 \<and> flags AND OUT_FLAG_NON_BLOCKING \<noteq> 0 then (ASTREAM_PLAYBACK_COMPR_OFFLOAD, AUSAGE_MEDIA)
              else if flags AND OUT_FLAG_MMAP_NOIRQ \<noteq> 0 then (ASTREAM_PLAYBACK_MMAP, AUSAGE_MEDIA)
              else (ASTREAM_NONE, AUSAGE_NONE))
      else if flags AND OUT_FLAG_PRIMARY \<noteq> 0 then Some (ASTREAM_PLAYBACK_PRIMARY, AUSAGE_MEDIA)
      else if flags AND OUT_FLAG_FAST \<noteq> 0 then
        Some (if flags AND OUT_FLAG_RAW \<noteq> 0 then ASTREAM_PLAYBACK_LOW_LATENCY else ASTREAM_PLAYBACK_FAST, AUSAGE_MEDIA)
      else if flags AND OUT_FLAG_DEEP_BUFFER \<noteq> 0 then Some (ASTREAM_PLAYBACK_DEEP_BUFFER, AUSAGE_MEDIA)
      else if flags AND OUT_FLAG_INCALL_MUSIC \<noteq> 0 then Some (ASTREAM_PLAYBACK_INCALL_MUSIC, AUSAGE_INCALL_MUSIC)
      else None)"

definition put_out :: "nat \<Rightarrow> stream_out \<Rightarrow> hal \<Rightarrow> hal" where
  "put_out k x s = s\<lparr>outs := (outs s)(k \<mapsto> x), next_addr := Suc k\<rparr>"

definition put_in :: "nat \<Rightarrow> stream_in \<Rightarrow> hal \<Rightarrow> hal" where
  "put_in k x s = s\<lparr>ins := (ins s)(k \<mapsto> x), next_addr := Suc k\<rparr>"

definition free_out :: "nat \<Rightarrow> hal \<Rightarrow> hal" where
  "free_out k s = s\<lparr>outs := (outs s)(k := None)\<rparr>"

definition free_in :: "nat \<Rightarrow> hal \<Rightarrow> hal" where
  "free_in k s = s\<lparr>ins := (ins s)(k := None)\<rparr>"

text \<open>The first primary output brings the voice manager up.\<close>

definition init_voice :: "hal_env \<Rightarrow> hal \<Rightarrow> hal option" where
  "init_voice E s =
     (case voice (dev s) of
        Some v \<Rightarrow> Some s
      | None \<Rightarrow> do {
          (v, w) \<leftarrow> voice_init (ril_lib E) (volume_property E) (ril s);
          Some (s\<lparr>dev := (dev s)\<lparr>voice := v\<rparr>, ril := w\<rparr>) })"

text \<open>The important streams among them are entered; a second primary output is refused.\<close>

definition enter_out :: "hal_env \<Rightarrow> nat \<Rightarrow> audio_stream_type \<Rightarrow> hal \<Rightarrow> (int \<times> hal) option" where
  "enter_out E k t s =
     (if t = ASTREAM_PLAYBACK_COMPR_OFFLOAD then
        Some (0, if compress_output (dev s) = None then upd_dev (\<lambda>d. d\<lparr>compress_output := Some k\<rparr>) s else s)
      else if t = ASTREAM_PLAYBACK_PRIMARY then do {
        s \<leftarrow> init_voice E s;
        Some (if primary_output (dev s) = None then (0, upd_dev (\<lambda>d. d\<lparr>primary_output := Some k\<rparr>) s) else (- EEXIST, s)) }
      else Some (0, s))"

text \<open>What the proxy actually plays replaces a configuration that was left open.\<close>

definition actual_config :: "hal_env \<Rightarrow> (int \<Rightarrow> u32) \<Rightarrow> bool \<Rightarrow> stream_common \<Rightarrow> audio_config \<Rightarrow> hal \<Rightarrow> audio_config \<times> stream_common" where
  "actual_config E of_count always c config s =
     (let p = proxy_stream c;
          (config, c) = (if sample_rate config = 0 \<or> always then
             (let r = word_of_int (px_query E (proxy_get_actual_sampling_rate p) s) in (config\<lparr>sample_rate := r\<rparr>, c\<lparr>requested_sample_rate := r\<rparr>))
             else (config, c));
          (config, c) = (if channel_mask config = 0 then
             (let m = of_count (px_query E (proxy_get_actual_channel_count p) s) in (config\<lparr>channel_mask := m\<rparr>, c\<lparr>requested_channel_mask := m\<rparr>))
             else (config, c))
      in if format config = 0 then
           (let f = word_of_int (px_query E (proxy_get_actual_format p) s) in (config\<lparr>format := f\<rparr>, c\<lparr>requested_format := f\<rparr>))
         else (config, c))"

definition out_created :: "hal_env \<Rightarrow> nat \<Rightarrow> u32 \<Rightarrow> audio_config \<Rightarrow> hal \<Rightarrow> (audio_config \<times> hal) option" where
  "out_created E k flags config s = do {
     x \<leftarrow> outs s k;
     let c = out_common x;
     let s = (if stream_type c = ASTREAM_PLAYBACK_COMPR_OFFLOAD then
                upd_ocommon k (\<lambda>c. c\<lparr>offload_audio_format := AUDIO_FORMAT_PCM_16_BIT\<rparr>)
                  (if flags AND OUT_FLAG_NON_BLOCKING \<noteq> 0
                   then create_offload_callback_thread k (upd_offload k (\<lambda>f. f\<lparr>nonblock_flag := True\<rparr>) (px_do (proxy_offload_set_nonblock (proxy_stream c)) s))
                   else s)
              else s);
     let (config, c') = (if stream_type c = ASTREAM_PLAYBACK_USB_DEVICE \<or> stream_type c = ASTREAM_PLAYBACK_AUX_DIGITAL
                         then actual_config E (out_mask_from_count E) (stream_type c = ASTREAM_PLAYBACK_USB_DEVICE) c config s else (config, c));
     let s = upd_ocommon k (\<lambda>c. c\<lparr>requested_sample_rate := requested_sample_rate c', requested_channel_mask := requested_channel_mask c',
                                  requested_format := requested_format c', stream_status := STATUS_STANDBY\<rparr>) s;
     let (p, s) = px_ask E calloc_stream s;
     if p = NULL then None
     else Some (config, upd_out k (\<lambda>x. x\<lparr>force := NON_FORCE_ROUTE, rollback_devices := AD_NONE\<rparr>)
                          (upd_dev (\<lambda>d. d\<lparr>playback_list := playback_list d @ [k]\<rparr>) s)) }"

text \<open>The result, the stream and the configuration.\<close>

definition create_out ::
  "hal_env \<Rightarrow> nat \<Rightarrow> u32 \<Rightarrow> audio_config \<Rightarrow> audio_stream_type \<times> audio_usage \<Rightarrow> hal \<Rightarrow> (int \<times> nat option \<times> audio_config \<times> hal) option" where
  "create_out E k flags config tu s = do {
     (ret, s) \<leftarrow> enter_out E k (fst tu) s;
     if ret \<noteq> 0 then Some (ret, None, config, free_out k s)
     else do {
       let (p, s) = px_ask E (proxy_create_playback_stream (fst tu)) (upd_ocommon k (retype (fst tu) (snd tu)) s);
       if p = NULL then
         Some (- EINVAL, None, config,
               free_out k (if fst tu = ASTREAM_PLAYBACK_PRIMARY then upd_dev (\<lambda>d. d\<lparr>primary_output := None\<rparr>) s else s))
       else do {
         (config, s) \<leftarrow> out_created E k flags config (upd_ocommon k (\<lambda>c. c\<lparr>proxy_stream := p\<rparr>) s);
         Some (0, Some k, config, s) } } }"

definition adev_open_output_stream ::
  "hal_env \<Rightarrow> int \<Rightarrow> u32 \<Rightarrow> u32 \<Rightarrow> audio_config \<Rightarrow> hal \<Rightarrow> (int \<times> nat option \<times> audio_config \<times> hal) option" where
  "adev_open_output_stream E handle devices flags config s = do {
     let (p, s) = px_ask E calloc_stream s;
     if p = NULL then Some (- ENOMEM, None, config, s)
     else do {
       let k = next_addr s;
       let s = put_out k (new_out handle devices flags config) s;
       case out_type flags devices of
         None \<Rightarrow> Some (- EINVAL, None, config, free_out k s)
       | Some tu \<Rightarrow> create_out E k flags config tu s } }"

definition adev_close_output_stream :: "hal_env \<Rightarrow> nat \<Rightarrow> hal \<Rightarrow> hal option" where
  "adev_close_output_stream E k s = do {
     s \<leftarrow> out_standby E k s;
     x \<leftarrow> outs s k;
     let s = upd_dev (\<lambda>d. d\<lparr>playback_list := removeAll k (playback_list d),
                            primary_output := (if primary_output d = Some k then None else primary_output d),
                            compress_output := (if compress_output d = Some k then None else compress_output d)\<rparr>) s;
     s \<leftarrow> (if stream_type (out_common x) = ASTREAM_PLAYBACK_COMPR_OFFLOAD \<and> nonblock_flag (offload x)
           then destroy_offload_callback_thread E k s else Some s);
     let s = (if stream_type (out_common x) = ASTREAM_PLAYBACK_INCALL_MUSIC then upd_dev (\<lambda>d. d\<lparr>incallmusic_on := False\<rparr>) s else s);
     Some (free_out k (px_do (proxy_destroy_playback_stream (proxy_stream (out_common x))) s)) }"

text \<open>In a call the flags of an input stream follow its sample rate.\<close>

definition in_call_flags :: "audio_device \<Rightarrow> audio_config \<Rightarrow> u32 \<Rightarrow> u32" where
  "in_call_flags d config flags =
     (if isCallMode d then
        (if sample_rate config = 48000 \<and> flags AND IN_FLAG_VOIP_TX \<noteq> 0 then IN_FLAG_FAST
         else if sample_rate config \<noteq> 48000 \<and> flags AND IN_FLAG_FAST \<noteq> 0 then (flags AND NOT IN_FLAG_FAST) OR IN_FLAG_VOIP_TX
         else flags)
      else flags)"

text \<open>
  The type and usage of an input stream. Opening the radio, a camcorder or a communication stream
  routes at once. Without a type the result is an error, with the state as it then is.
\<close>

definition in_type_plain :: "hal_env \<Rightarrow> nat \<Rightarrow> u32 \<Rightarrow> u32 \<Rightarrow> hal \<Rightarrow> (bool \<times> hal) option" where
  "in_type_plain E k devices source s = do {
     let d = dev s;
     if isCPCallMode d \<and> px_query E (is_usage_CPCall (active_capture_ausage d)) s \<noteq> 0 \<and> isCallRecording source then
       Some (True, upd_icommon k (retype ASTREAM_CAPTURE_CALL
         (if source = AUDIO_SOURCE_VOICE_UPLINK then AUSAGE_INCALL_UPLINK
          else if source = AUDIO_SOURCE_VOICE_DOWNLINK then AUSAGE_INCALL_DOWNLINK
          else if source = AUDIO_SOURCE_VOICE_CALL then AUSAGE_INCALL_UPLINK_DOWNLINK
          else AUSAGE_INCALL_UPLINK)) s)
     else if source = AUDIO_SOURCE_FM_TUNER \<and> devices = AD_IN_FM_TUNER then do {
       s \<leftarrow> set_route_in E k True NON_FORCE_ROUTE
             (upd_icommon k (retype ASTREAM_CAPTURE_FM_TUNER AUSAGE_FM_RADIO_TUNER) (upd_dev (\<lambda>d. d\<lparr>fm_state := FM_ON, fm_need_route := True\<rparr>) s));
       Some (True, upd_dev (\<lambda>d. d\<lparr>fm_need_route := False\<rparr>) s) }
     else if devices = AD_IN_DEFAULT \<and> source = AUDIO_SOURCE_DEFAULT then
       Some (True, upd_icommon k (retype ASTREAM_CAPTURE_NO_ATTRIBUTE AUSAGE_RECORDING) s)
     else if devices = AD_IN_TELEPHONY_RX \<and> isUSBHeadsetConnect d then Some (False, s)
     else if source = AUDIO_SOURCE_CAMCORDER then
       map_option (Pair True) (set_route_in E k True NON_FORCE_ROUTE (upd_icommon k (retype ASTREAM_CAPTURE_PRIMARY AUSAGE_CAMCORDER) s))
     else if source = AUDIO_SOURCE_VOICE_COMMUNICATION then do {
       let s = upd_icommon k (\<lambda>c. c\<lparr>stream_type := ASTREAM_CAPTURE_PRIMARY\<rparr>) s;
       x \<leftarrow> ins s k;
       u \<leftarrow> adev_get_capture_ausage s x;
       map_option (Pair True) (set_route_in E k True NON_FORCE_ROUTE (upd_icommon k (\<lambda>c. c\<lparr>stream_usage := u\<rparr>) s)) }
     else Some (True, upd_icommon k (retype ASTREAM_CAPTURE_PRIMARY
            (if source = AUDIO_SOURCE_VOICE_RECOGNITION then AUSAGE_RECOGNITION else AUSAGE_RECORDING)) s) }"

definition in_type :: "hal_env \<Rightarrow> nat \<Rightarrow> u32 \<Rightarrow> u32 \<Rightarrow> audio_config \<Rightarrow> u32 \<Rightarrow> hal \<Rightarrow> (bool \<times> hal) option" where
  "in_type E k devices flags config source s = do {
     let seamless = (source = AUDIO_SOURCE_HOTWORD \<or> seamless_enabled (dev s) \<and> source = AUDIO_SOURCE_VOICE_RECOGNITION);
     if SUPPORT_STHAL_INTERFACE E
        \<and> (seamless \<or> flags AND IN_FLAG_HW_HOTWORD \<noteq> 0 \<and> source = AUDIO_SOURCE_VOICE_RECOGNITION) then
       Some (True, upd_icommon k (retype ASTREAM_CAPTURE_HOTWORD (if seamless then AUSAGE_HOTWORD_SEAMLESS else AUSAGE_HOTWORD_RECORD)) s)
     else if flags = 0 \<or> flags AND IN_FLAG_VOIP_TX \<noteq> 0 then in_type_plain E k devices source s
     else if flags AND IN_FLAG_FAST \<noteq> 0 then Some (True, upd_icommon k (retype ASTREAM_CAPTURE_LOW_LATENCY AUSAGE_MEDIA) s)
     else if flags AND IN_FLAG_MMAP_NOIRQ \<noteq> 0 \<and> sample_rate config = 48000 then
       Some (True, upd_icommon k (retype ASTREAM_CAPTURE_MMAP AUSAGE_MEDIA) s)
     else Some (False, s) }"

text \<open>The latency is a quotient; None when the actual rate is zero.\<close>

definition in_created :: "hal_env \<Rightarrow> nat \<Rightarrow> audio_config \<Rightarrow> hal \<Rightarrow> (audio_config \<times> hal) option" where
  "in_created E k config s = do {
     x \<leftarrow> ins s k;
     let c = in_common x;
     let (config, c) = (if stream_type c = ASTREAM_CAPTURE_USB_DEVICE then actual_config E (in_mask_from_count E) False c config s else (config, c));
     let s = upd_icommon k (\<lambda>_. c\<lparr>stream_status := STATUS_STANDBY\<rparr>) s;
     let (p, s) = px_ask E calloc_stream s;
     let rate = px_query E (proxy_get_actual_sampling_rate (proxy_stream c)) s;
     if p = NULL \<or> rate = 0 then None
     else Some (config, upd_in k (\<lambda>x. x\<lparr>pcm_reconfig := False\<rparr>)
            (upd_dev (\<lambda>d. d\<lparr>capture_list := capture_list d @ [k],
               pcmread_latency := px_query E (proxy_get_actual_period_size (proxy_stream c)) s * 1000 mod 2 ^ 32 div rate\<rparr>) s)) }"

definition adev_open_input_stream ::
  "hal_env \<Rightarrow> int \<Rightarrow> u32 \<Rightarrow> audio_config \<Rightarrow> u32 \<Rightarrow> u32 \<Rightarrow> hal \<Rightarrow> (int \<times> nat option \<times> audio_config \<times> hal) option" where
  "adev_open_input_stream E handle devices config flags source s = do {
     let (p, s) = px_ask E calloc_stream s;
     if p = NULL then Some (- ENOMEM, None, config, s)
     else do {
       let k = next_addr s;
       let s = put_in k (new_in handle devices flags source config) s;
       (ok, s) \<leftarrow> in_type E k devices (in_call_flags (dev s) config flags) config source s;
       if \<not> ok then Some (- EINVAL, None, config, free_in k s)
       else do {
         x \<leftarrow> ins s k;
         let (p, s) = px_ask E (proxy_create_capture_stream (stream_type (in_common x)) (stream_usage (in_common x))) s;
         if p = NULL then Some (- EINVAL, None, config, free_in k s)
         else do {
           (config, s) \<leftarrow> in_created E k config (upd_icommon k (\<lambda>c. c\<lparr>proxy_stream := p\<rparr>) s);
           Some (0, Some k, config, s) } } } }"

definition adev_close_input_stream :: "hal_env \<Rightarrow> nat \<Rightarrow> hal \<Rightarrow> hal option" where
  "adev_close_input_stream E k s = do {
     s \<leftarrow> in_standby E k s;
     x \<leftarrow> ins s k;
     let u = stream_usage (in_common x);
     s \<leftarrow> (if u = AUSAGE_FM_RADIO_TUNER then set_route_in E k False NON_FORCE_ROUTE (upd_dev (\<lambda>d. d\<lparr>fm_state := FM_OFF\<rparr>) s)
           else if u = AUSAGE_FM_RADIO_CAPTURE then set_route_in E k False NON_FORCE_ROUTE (upd_dev (\<lambda>d. d\<lparr>fm_state := FM_ON\<rparr>) s)
           else Some s);
     Some (free_in k (px_do (proxy_destroy_capture_stream (proxy_stream (in_common x)))
       (upd_dev (\<lambda>d. d\<lparr>capture_list := removeAll k (capture_list d)\<rparr>) s))) }"

section \<open>Opening and closing the device\<close>

text \<open>
  The singleton: its address in \<open>instance\<close> may be NULL, valid, or that of a device that was freed.
\<close>

datatype instance_state = NO_INSTANCE | INSTANCE | FREED_INSTANCE

record hal_module =
  singleton :: instance_state
  adev_ref_count :: u32
  hal_state :: hal

definition zero_device :: audio_device where
  "zero_device =
     \<lparr>proxy = NULL, playback_list = [], capture_list = [], actual_playback_device = 0, actual_capture_device = 0,
      previous_playback_device = 0, previous_capture_device = 0, is_route_created = False,
      is_playback_path_routed = False, active_playback_ausage = AUSAGE_MEDIA, active_playback_device = DEVICE_EARPIECE,
      active_playback_modifier = MODIFIER_BT_SCO_RX_NB,
      is_capture_path_routed = False, active_capture_ausage = AUSAGE_MEDIA, active_capture_device = DEVICE_EARPIECE,
      active_capture_modifier = MODIFIER_BT_SCO_RX_NB, current_devices = 0, voice = None, voice_volume = 0, mic_mute = False,
      factory = None, primary_output = None, active_input = None, compress_output = None,
      amode = AUDIO_MODE_NORMAL, previous_amode = AUDIO_MODE_NORMAL, incallmusic_on = False, voipse_on = False, screen_on = False,
      fm_state = FM_OFF, fm_need_route = False, seamless_enabled = False, support_reciever = False, fm_via_a2dp = False,
      pcmread_latency = 0, update_offload_volume = False\<rparr>"

text \<open>The device as \<open>adev_open\<close> initialises it, with its proxy and its factory manager.\<close>

definition initial_device :: "audio_device \<Rightarrow> audio_device" where
  "initial_device d =
     d\<lparr>is_route_created := True, actual_playback_device := AD_OUT_SPEAKER, actual_capture_device := AD_IN_BUILTIN_MIC,
       previous_playback_device := AD_NONE, previous_capture_device := AD_NONE,
       is_playback_path_routed := False, active_playback_ausage := AUSAGE_NONE, active_playback_device := DEVICE_NONE,
       active_playback_modifier := MODIFIER_NONE,
       is_capture_path_routed := False, active_capture_ausage := AUSAGE_NONE, active_capture_device := DEVICE_NONE,
       active_capture_modifier := MODIFIER_NONE, playback_list := [], capture_list := [],
       primary_output := None, active_input := None, amode := AUDIO_MODE_NORMAL, previous_amode := AUDIO_MODE_NORMAL,
       incallmusic_on := False, voipse_on := False, voice_volume := 0, mic_mute := False, fm_state := FM_OFF, fm_need_route := False,
       support_reciever := False, fm_via_a2dp := False, pcmread_latency := 0, update_offload_volume := False, current_devices := AD_NONE\<rparr>"

abbreviation (input) MAX_MIXER_LENGTH :: nat where "MAX_MIXER_LENGTH \<equiv> 256"

definition DEFAULT_MIXER_PATH :: string where
  "DEFAULT_MIXER_PATH = ''/vendor/etc/''"

definition DEFAULT_MIXER_FILE :: string where
  "DEFAULT_MIXER_FILE = ''mixer_paths.xml''"

text \<open>
  The file name that the device tree gives is read into a buffer of 256 bytes, terminated, and put
  behind the path in another; None is a write outside of one of them.
\<close>

definition adev_init_route :: "hal_env \<Rightarrow> hal \<Rightarrow> (bool \<times> hal) option" where
  "adev_init_route E s = do {
     (done, s) \<leftarrow>
       (case mixer_info E of
          None \<Rightarrow> Some (False, s)
        | Some content \<Rightarrow>
            (let read = take MAX_MIXER_LENGTH content; file = takeWhile (\<lambda>c. c \<noteq> CHR 0x00) read in
             if read = [] then Some (False, s)
             else if MAX_MIXER_LENGTH \<le> length read \<or> MAX_MIXER_LENGTH \<le> length DEFAULT_MIXER_PATH + length file then None
             else let (ret, s) = px_ask E (proxy_init_route (DEFAULT_MIXER_PATH @ file)) s in Some (ret \<noteq> 0, s)));
     if done then Some (True, s)
     else let (ret, s) = px_ask E (proxy_init_route (DEFAULT_MIXER_PATH @ DEFAULT_MIXER_FILE)) s in Some (ret \<noteq> 0, s) }"

definition open_failed :: "hal_module \<Rightarrow> hal \<Rightarrow> int \<times> hal_module" where
  "open_failed m s =
     (- ENOSYS, m\<lparr>singleton := FREED_INSTANCE,
        hal_state := (if proxy (dev s) \<noteq> NULL then px_do (proxy_deinit (proxy (dev s))) s else s)\<rparr>)"

definition open_device :: "hal_env \<Rightarrow> hal_module \<Rightarrow> (int \<times> hal_module) option" where
  "open_device E m = do {
     let (p, s) = px_ask E proxy_init (hal_state m);
     let s = upd_dev (\<lambda>d. d\<lparr>proxy := p\<rparr>) s;
     if p = NULL then Some (open_failed m s)
     else do {
       (ret, s) \<leftarrow> adev_init_route E s;
       if \<not> ret then Some (open_failed m s)
       else do {
         let (f, s) = factory_init E (upd_dev initial_device s);
         let s = px_do (proxy_init_offload_effect_lib p) (upd_dev (\<lambda>d. d\<lparr>factory := f\<rparr>) s);
         Some (0, m\<lparr>hal_state := s, adev_ref_count := adev_ref_count m + 1\<rparr>) } } }"

definition get_instance :: "hal_env \<Rightarrow> hal_module \<Rightarrow> int \<times> hal_module" where
  "get_instance E m =
     (if singleton m = NO_INSTANCE then
        (let (p, s) = px_ask E calloc_device (hal_state m) in
         (p, if p = NULL then m\<lparr>hal_state := s\<rparr> else m\<lparr>singleton := INSTANCE, hal_state := s\<lparr>dev := zero_device\<rparr>\<rparr>))
      else (1, m))"

definition adev_open :: "hal_env \<Rightarrow> string \<Rightarrow> hal_module \<Rightarrow> (int \<times> hal_module) option" where
  "adev_open E name m =
     (if name \<noteq> AUDIO_HARDWARE_INTERFACE E then Some (- EINVAL, m)
      else do {
        let (p, m) = get_instance E m;
        if p = NULL then Some (- ENOMEM, m)
        else if adev_ref_count m \<noteq> 0 then Some (0, m\<lparr>adev_ref_count := adev_ref_count m + 1\<rparr>)
        else if singleton m = FREED_INSTANCE then None
        else open_device E m })"

text \<open>
  The factory manager is not freed, and open streams are not closed. A close too many brings the
  count, an unsigned integer, from 0 to its largest value.
\<close>

definition adev_close :: "hal_env \<Rightarrow> hal_module \<Rightarrow> hal_module option" where
  "adev_close E m =
     (let n = adev_ref_count m - 1 in
      if n \<noteq> 0 then Some (m\<lparr>adev_ref_count := n\<rparr>)
      else if singleton m \<noteq> INSTANCE then None
      else do {
          let s = hal_state m;
          let s = (case voice (dev s) of None \<Rightarrow> s | Some v \<Rightarrow> s\<lparr>ril := voice_deinit (ril_lib E) (v, ril s), dev := (dev s)\<lparr>voice := None\<rparr>\<rparr>);
          let s = px_do (proxy_deinit_route (proxy (dev s))) s;
          let s = (if proxy (dev s) \<noteq> NULL then upd_dev (\<lambda>d. d\<lparr>proxy := NULL\<rparr>) (px_do (proxy_deinit (proxy (dev s))) s) else s);
          Some (m\<lparr>singleton := NO_INSTANCE, adev_ref_count := n, hal_state := s\<rparr>) })"

end
