(* ===== verification/Audio_Invariant.thy ===== *)
theory Audio_Invariant
  imports Audio_Device
begin

text \<open>
  What every operation of the primary audio HAL keeps. The locale \<open>hal_frame\<close> states which changes of
  the state an invariant has to survive: calls of the proxy, updates of streams and of the device
  that leave its core alone, and the four ways to change a path. Every operation is made of these,
  so each keeps every such invariant. Setting the paths needs less, which is the locale \<open>route_only\<close>, and an update of the streams of a
  call lies between, \<open>route_frame\<close>. The routes of the hardware and the states of the streams are
  two of them.
\<close>

section \<open>Frames\<close>

text \<open>The core of the device: the recorded paths, the lists of streams and the primary output.\<close>

definition core ::
  "audio_device \<Rightarrow> (bool \<times> audio_usage \<times> device_type \<times> modifier_type) \<times> (bool \<times> audio_usage \<times> device_type) \<times> nat list \<times> nat list \<times> nat option" where
  "core d = ((is_playback_path_routed d, active_playback_ausage d, active_playback_device d, active_playback_modifier d),
     (is_capture_path_routed d, active_capture_ausage d, active_capture_device d), playback_list d, capture_list d, primary_output d)"

definition out_frame :: "(stream_out \<Rightarrow> stream_out) \<Rightarrow> bool" where
  "out_frame f \<longleftrightarrow> (\<forall>x. stream_type (out_common (f x)) = stream_type (out_common x)
     \<and> (stream_status (out_common (f x)) = STATUS_PAUSED \<longrightarrow> stream_status (out_common x) = STATUS_PAUSED))"

definition in_frame :: "(stream_in \<Rightarrow> stream_in) \<Rightarrow> bool" where
  "in_frame f \<longleftrightarrow> (\<forall>x. stream_status (in_common (f x)) = STATUS_PAUSED \<longrightarrow> stream_status (in_common x) = STATUS_PAUSED)"

text \<open>The path that a call sets or resets, if it does.\<close>

definition route_of :: "audio_path \<Rightarrow> px_call \<Rightarrow> (audio_usage \<times> device_type \<times> modifier_type \<times> bool) option" where
  "route_of p c = (case c of proxy_set_route q u dv m on \<Rightarrow> if q = p then Some (u, dv, m, on) else None | _ \<Rightarrow> None)"

definition no_route :: "px_call \<Rightarrow> bool" where
  "no_route c \<longleftrightarrow> (\<forall>p. route_of p c = None)"

text \<open>The rules by which an operation is taken apart.\<close>

lemma bind_state:
  fixes m :: "hal option"
  shows "holds P m \<Longrightarrow> (\<And>s. P s \<Longrightarrow> holds Q (f s)) \<Longrightarrow> holds Q (m \<bind> f)"
  by (rule holds_bind)

lemma bind_pair:
  fixes m :: "('a \<times> hal) option"
  shows "holds (\<lambda>r. P (snd r)) m \<Longrightarrow> (\<And>a s. P s \<Longrightarrow> holds Q (f a s)) \<Longrightarrow> holds Q (m \<bind> (\<lambda>(a, s). f a s))"
  by (cases m) auto

lemma let_state:
  fixes e :: hal
  shows "P e \<Longrightarrow> (\<And>s. P s \<Longrightarrow> holds Q (f s)) \<Longrightarrow> holds Q (Let e f)"
  by (simp add: Let_def)

lemma let_pair:
  fixes e :: "'a \<times> hal"
  shows "P (snd e) \<Longrightarrow> (\<And>a s. P s \<Longrightarrow> holds Q (f a s)) \<Longrightarrow> holds Q (Let e (\<lambda>(a, s). f a s))"
  by (cases e) (simp add: Let_def)

lemma let_value:
  fixes e :: 'v
  shows "holds Q (f e) \<Longrightarrow> holds Q (Let e f)"
  by (simp add: Let_def)

lemmas bind_reads =
  holds_read [where 'a = stream_out] holds_read [where 'a = stream_in] holds_read [where 'a = device_type]
  holds_read [where 'a = audio_usage] holds_read [where 'a = nat] holds_read [where 'a = bool] holds_read [where 'a = int]
  holds_read [where 'a = voice_manager] holds_read [where 'a = factory_manager]

lemmas let_values =
  let_value [where 'v = bool] let_value [where 'v = stream_common] let_value [where 'v = "u32"] let_value [where 'v = audio_stream_type]
  let_value [where 'v = audio_device] let_value [where 'v = int] let_value [where 'v = audio_usage] let_value [where 'v = device_type]
  let_value [where 'v = "string option"] let_value [where 'v = stream_offload] let_value [where 'v = offload_msg]
  let_value [where 'v = "nat option"] let_value [where 'v = nat]

lemma bind_triple:
  fixes m :: "('a \<times> 'b \<times> hal) option"
  shows "holds (\<lambda>r. P (snd (snd r))) m \<Longrightarrow> (\<And>a b s. P s \<Longrightarrow> holds Q (f a b s)) \<Longrightarrow> holds Q (m \<bind> (\<lambda>(a, b, s). f a b s))"
  by (cases m) auto

lemma holds_Some_triple: "P s \<Longrightarrow> holds (\<lambda>r. P (snd (snd r))) (Some (a, b, s))"
  by simp

lemma holds_pair_Some: "P s \<Longrightarrow> holds (\<lambda>r. P (snd r)) (Some (a, s))"
  by simp

lemma holds_pair_map: "holds P m \<Longrightarrow> holds (\<lambda>r. P (snd r)) (map_option (Pair a) m)"
  by (simp add: holds_map)

lemma holds_Some_state: "P s \<Longrightarrow> holds P (Some s)"
  by simp

locale route_only =
  fixes P :: "hal \<Rightarrow> bool"
  assumes route_playback: "P s \<Longrightarrow> P (route_playback (usage, dv, adev_get_modifier (dev s) dv) s)"
    and unroute_playback: "P s \<Longrightarrow> P (unroute_playback u s)"
    and route_capture: "P s \<Longrightarrow> P (route_capture skip path s)"
    and unroute_capture: "P s \<Longrightarrow> P (unroute_capture u s)"

locale route_frame = route_only +
  assumes px_do: "P s \<Longrightarrow> no_route c \<Longrightarrow> P (px_do c s)"
    and upd_out: "P s \<Longrightarrow> out_frame g \<Longrightarrow> P (upd_out k g s)"
    and upd_in: "P s \<Longrightarrow> in_frame h \<Longrightarrow> P (upd_in k h s)"

locale hal_frame = route_frame +
  assumes upd_dev: "P s \<Longrightarrow> (\<And>d. core (f d) = core d) \<Longrightarrow> P (upd_dev f s)"
    and pause: "P s \<Longrightarrow> outs s k = Some x \<Longrightarrow> stream_type (out_common x) = ASTREAM_PLAYBACK_COMPR_OFFLOAD \<Longrightarrow> P (out_status k STATUS_PAUSED s)"
    and set_voice: "P s \<Longrightarrow> P (s\<lparr>dev := (dev s)\<lparr>voice := v\<rparr>, ril := w\<rparr>)"

lemmas frame_defs = no_route_def route_of_def core_def out_frame_def in_frame_def

context route_only
begin

lemmas op_rules = holds_if holds_case bind_state [where P = P] bind_pair [where P = P] bind_reads let_state [where P = P] let_pair [where P = P] let_values
  holds_Some_state holds_pair_Some holds_pair_map holds_None

lemma drive_capture: "P s \<Longrightarrow> holds P (drive_capture x on s)"
  unfolding drive_capture_def by (intro op_rules route_playback unroute_playback route_capture unroute_capture)

lemma set_route_out: "P s \<Longrightarrow> holds P (set_route_out E k on fr s)"
  unfolding set_route_out_def by (intro op_rules route_playback unroute_playback route_capture unroute_capture drive_capture)

lemma set_route_in: "P s \<Longrightarrow> holds P (set_route_in E k on fr s)"
  unfolding set_route_in_def set_route_in_alone_def by (intro op_rules route_playback unroute_playback route_capture unroute_capture set_route_out)

end

context route_frame
begin

lemma P_if: "(c \<Longrightarrow> P a) \<Longrightarrow> (\<not> c \<Longrightarrow> P b) \<Longrightarrow> P (if c then a else b)"
  by simp

lemma P_case: "(p = None \<Longrightarrow> P x) \<Longrightarrow> (\<And>a. p = Some a \<Longrightarrow> P (f a)) \<Longrightarrow> P (case p of None \<Rightarrow> x | Some a \<Rightarrow> f a)"
  by (cases p) auto

lemma px_ask: "P s \<Longrightarrow> no_route c \<Longrightarrow> P (snd (px_ask E c s))"
  by (simp add: px_ask_def px_do)

lemma out_status: "P s \<Longrightarrow> t \<noteq> STATUS_PAUSED \<Longrightarrow> P (out_status k t s)"
  unfolding out_status_def upd_ocommon_def by (rule upd_out) (auto simp: out_frame_def)

lemma in_status: "P s \<Longrightarrow> t \<noteq> STATUS_PAUSED \<Longrightarrow> P (in_status k t s)"
  unfolding in_status_def upd_icommon_def by (rule upd_in) (auto simp: in_frame_def)

lemma upd_ocommon:
  "P s \<Longrightarrow> (\<And>c. stream_type (f c) = stream_type c) \<Longrightarrow> (\<And>c. stream_status (f c) = stream_status c) \<Longrightarrow> P (upd_ocommon k f s)"
  unfolding upd_ocommon_def by (rule upd_out) (auto simp: out_frame_def)

lemma upd_icommon: "P s \<Longrightarrow> (\<And>c. stream_status (f c) = stream_status c) \<Longrightarrow> P (upd_icommon k f s)"
  unfolding upd_icommon_def by (rule upd_in) (auto simp: in_frame_def)

lemmas route_rules = P_if px_ask px_do upd_out upd_in out_status in_status upd_ocommon upd_icommon
  route_playback unroute_playback route_capture unroute_capture

lemma close_outs: "P (snd ls) \<Longrightarrow> holds (\<lambda>r. P (snd r)) (close_outs concerned changed ks ls)"
proof (induction ks arbitrary: ls)
  case (Cons k ks)
  then show ?case
    by (cases ls) (auto simp: Let_def frame_defs intro!: holds_read Cons.IH out_status px_do)
qed simp

lemma close_in: "P (snd ls) \<Longrightarrow> P (snd (close_in path call k x ls))"
  by (auto simp: close_in_def Let_def frame_defs intro!: upd_in px_do)

lemma close_ins: "P (snd ls) \<Longrightarrow> holds (\<lambda>r. P (snd r)) (close_ins path call ks ls)"
proof (induction ks arbitrary: ls)
  case (Cons k ks)
  show ?case unfolding close_ins.simps by (intro holds_read Cons.IH close_in Cons.prems)
qed simp

lemma unlock_all: "P s \<Longrightarrow> P (unlock_all lock ts s)"
proof (induction ts arbitrary: s)
  case (Cons t ts)
  then show ?case by (cases "lock t") (auto simp: frame_defs intro!: Cons.IH px_do)
qed simp

lemma route_call: "P s \<Longrightarrow> holds P (route_call E k lock s)"
  unfolding route_call_def by (intro op_rules set_route_out unlock_all)

end

context hal_frame
begin

lemma on_voice: "P s \<Longrightarrow> P (on_voice f s)"
  using set_voice by (auto simp: on_voice_def split: option.split prod.split)

lemma upd_offload: "P s \<Longrightarrow> P (upd_offload k f s)"
  unfolding upd_offload_def by (rule upd_out) (auto simp: out_frame_def)

lemmas state_rules = route_rules upd_dev on_voice upd_offload

lemma interrupt_call: "P s \<Longrightarrow> P (interrupt_call E path s)"
  by (auto simp: interrupt_call_def frame_defs intro!: px_do on_voice split: option.split)

lemma update_call_stream: "P s \<Longrightarrow> holds P (update_call_stream E k current new s)"
  unfolding update_call_stream_def
  by (intro op_rules holds_bind [OF close_outs] bind_pair [OF close_ins] interrupt_call route_call) simp_all

lemma update_capture_stream: "P s \<Longrightarrow> holds P (update_capture_stream k current new s)"
  unfolding update_capture_stream_def by (intro op_rules state_rules) (simp_all add: frame_defs)

lemma set_call_forwarding: "P s \<Longrightarrow> holds P (set_call_forwarding E s)"
  unfolding set_call_forwarding_def by (intro op_rules state_rules update_call_stream set_route_out) (simp_all add: frame_defs)

lemma send_offload_msg: "P s \<Longrightarrow> P (snd (send_offload_msg E k msg s))"
  by (auto simp: send_offload_msg_def px_ask_def Let_def frame_defs intro!: upd_offload px_do)

lemma offload_take: "P s \<Longrightarrow> holds P (offload_take k s)"
  unfolding offload_take_def by (intro op_rules state_rules)

lemma call_offload_client: "P s \<Longrightarrow> holds P (call_offload_client cb event s)"
  unfolding call_offload_client_def by (intro op_rules state_rules) (simp_all add: frame_defs)

lemma offload_answer: "P s \<Longrightarrow> P (snd (offload_answer E k p msg s))"
  by (cases msg) (auto simp: offload_answer_def px_ask_def Let_def frame_defs intro!: out_status px_do)

lemma offload_finish: "P s \<Longrightarrow> holds P (offload_finish E k s)"
  unfolding offload_finish_def by (intro op_rules state_rules offload_answer call_offload_client)

lemma run_thread: "P s \<Longrightarrow> holds P (run_thread E k n s)"
proof (induction n arbitrary: s)
  case (Suc n)
  show ?case unfolding run_thread.simps by (intro op_rules offload_take offload_finish Suc)
qed simp

lemma destroy_thread: "P s \<Longrightarrow> holds P (destroy_offload_callback_thread E k s)"
  unfolding destroy_offload_callback_thread_def by (intro op_rules offload_finish run_thread offload_take send_offload_msg)

lemma out_shut: "P s \<Longrightarrow> holds P (out_shut E k x s)"
  unfolding out_shut_def by (intro op_rules state_rules offload_finish) (simp_all add: frame_defs)

lemma out_unroute: "P s \<Longrightarrow> holds P (out_unroute E k t s)"
  unfolding out_unroute_def by (intro op_rules state_rules update_call_stream set_route_out) (simp_all add: frame_defs)

lemma out_standby: "P s \<Longrightarrow> holds P (out_standby E k s)"
  unfolding out_standby_def by (intro op_rules upd_out out_shut out_unroute) (simp_all add: frame_defs)

lemma config_parm:
  assumes "\<And>n c. stream_type (put n c) = stream_type c \<and> stream_status (put n c) = stream_status c"
  shows "stream_type (fst (snd (config_parm v old put c))) = stream_type c"
    "stream_status (fst (snd (config_parm v old put c))) = stream_status c"
  using assms by (auto simp: config_parm_def Let_def split: option.split)

lemma out_reconfig:
  assumes "P s" "\<And>c. stream_type (fst (snd (f c))) = stream_type c" "\<And>c. stream_status (fst (snd (f c))) = stream_status c"
  shows "holds (\<lambda>r. P (snd r)) (out_reconfig k f s)"
  unfolding out_reconfig_def
proof (rule holds_read)
  fix x assume x: "outs s k = Some x"
  obtain r c ch where f: "f (out_common x) = (r, c, ch)" by (cases "f (out_common x)") auto
  have "upd_ocommon k (\<lambda>_. c) s = upd_ocommon k (\<lambda>y. if y = out_common x then c else y) s"
    using x by (simp add: upd_ocommon_def upd_out_def)
  moreover have "P \<dots>" using assms(2,3) [of "out_common x"] f by (intro upd_ocommon assms(1)) auto
  ultimately show "holds (\<lambda>r. P (snd r)) (let (ret, c, changed) = f (out_common x); s = upd_ocommon k (\<lambda>_. c) s
      in Some (ret, if changed then px_do (proxy_reconfig_playback_stream (proxy_stream c) (stream_type c) (requested_sample_rate c)
           (requested_channel_mask c) (requested_format c)) s else s))"
    by (simp add: f Let_def px_do frame_defs)
qed

lemma in_reconfig:
  assumes "P s" "\<And>c. stream_status (fst (snd (f c))) = stream_status c"
  shows "holds (\<lambda>r. P (snd r)) (in_reconfig k f s)"
  unfolding in_reconfig_def
proof (rule holds_read)
  fix x assume x: "ins s k = Some x"
  obtain r c ch where f: "f (in_common x) = (r, c, ch)" by (cases "f (in_common x)") auto
  have "upd_icommon k (\<lambda>_. c) s = upd_icommon k (\<lambda>y. if y = in_common x then c else y) s"
    using x by (simp add: upd_icommon_def upd_in_def)
  moreover have "P \<dots>" using assms(2) [of "in_common x"] f by (intro upd_icommon assms(1)) auto
  ultimately show "holds (\<lambda>r. P (snd r)) (let (ret, c, changed) = f (in_common x); s = upd_icommon k (\<lambda>_. c) s
      in Some (ret, if changed then px_do (proxy_reconfig_capture_stream (proxy_stream c) (stream_type c) (requested_sample_rate c)
           (requested_channel_mask c) (requested_format c)) s else s))"
    by (simp add: f Let_def px_do frame_defs)
qed

lemmas parm_frames = config_parm format_parm_def channel_parm_def rate_parm_def

lemma out_set_force: "P s \<Longrightarrow> holds P (out_set_force E k devices s)"
  unfolding out_set_force_def by (intro op_rules state_rules) (simp_all add: frame_defs)

lemma out_start_call: "P s \<Longrightarrow> P (out_start_call E devices s)"
  by (auto simp: out_start_call_def Let_def frame_defs intro!: on_voice px_do)

lemma out_route: "P s \<Longrightarrow> holds P (out_route E k devices s)"
  unfolding out_route_def
  by (intro op_rules state_rules out_set_force update_call_stream set_route_out out_start_call) (simp_all add: frame_defs)

lemma out_set_parameters: "P s \<Longrightarrow> holds (\<lambda>r. P (snd r)) (out_set_parameters E k parms s)"
  unfolding out_set_parameters_def
  by (intro op_rules state_rules out_route out_reconfig) (simp_all add: frame_defs parm_frames)

lemma out_set_volume: "P s \<Longrightarrow> holds (\<lambda>r. P (snd r)) (out_set_volume k l r s)"
  unfolding out_set_volume_def by (rule holds_read) (auto simp: frame_defs intro!: upd_dev px_do upd_out)

lemma trigger_voipse: "P s \<Longrightarrow> holds P (trigger_voipse E k s)"
  unfolding trigger_voipse_def by (intro op_rules state_rules) (simp_all add: frame_defs)

lemma out_write_open: "P s \<Longrightarrow> holds (\<lambda>r. P (snd (snd r))) (out_write_open E k s)"
  unfolding out_write_open_def
  apply (intro op_rules state_rules set_route_out trigger_voipse)
  apply (simp_all add: frame_defs out_status)
  done

lemma out_write_reopen: "P s \<Longrightarrow> holds (\<lambda>r. P (snd r)) (out_write_reopen E k mute s)"
  unfolding out_write_reopen_def
  by (intro op_rules state_rules trigger_voipse) (simp_all add: frame_defs)

lemma out_write_data: "P s \<Longrightarrow> holds (\<lambda>r. P (snd r)) (out_write_data E k bytes mute s)"
  unfolding out_write_data_def
  apply (intro op_rules state_rules out_write_reopen send_offload_msg)
  apply (auto simp: frame_defs px_ask_def Let_def intro!: out_status px_do send_offload_msg)
  done

lemma out_write: "P s \<Longrightarrow> holds (\<lambda>r. P (snd r)) (out_write E k buffer bytes s)"
  unfolding out_write_def
  by (intro op_rules bind_triple [OF holds_if [OF out_write_open holds_Some_triple]] out_write_data)

lemma out_set_callback: "P s \<Longrightarrow> holds (\<lambda>r. P (snd r)) (out_set_callback k cb cookie s)"
  unfolding out_set_callback_def by (intro op_rules) (simp add: upd_offload)

lemma out_pause: "P s \<Longrightarrow> holds (\<lambda>r. P (snd r)) (out_pause E k s)"
  unfolding out_pause_def by (intro op_rules) (auto simp: frame_defs px_ask_def Let_def intro!: pause px_do)

lemma out_resume: "P s \<Longrightarrow> holds (\<lambda>r. P (snd r)) (out_resume E k s)"
  unfolding out_resume_def by (intro op_rules) (auto simp: frame_defs px_ask_def Let_def intro!: out_status px_do)

lemma out_drain: "P s \<Longrightarrow> holds (\<lambda>r. P (snd r)) (out_drain E k early s)"
  unfolding out_drain_def by (intro op_rules call_offload_client) (auto intro!: send_offload_msg)

lemma out_flush: "P s \<Longrightarrow> holds (\<lambda>r. P (snd r)) (out_flush E k s)"
  unfolding out_flush_def by (intro op_rules) (auto simp: frame_defs px_ask_def Let_def intro!: out_status px_do)

lemma out_stop: "P s \<Longrightarrow> holds (\<lambda>r. P (snd r)) (out_stop k s)"
  unfolding out_stop_def by (intro op_rules) (auto simp: frame_defs intro!: out_status px_do)

lemma out_start: "P s \<Longrightarrow> holds (\<lambda>r. P (snd r)) (out_start E k s)"
  unfolding out_start_def by (intro op_rules) (auto simp: frame_defs px_ask_def Let_def intro!: out_status px_do)

lemma out_create_mmap_buffer: "P s \<Longrightarrow> holds (\<lambda>r. P (snd r)) (out_create_mmap_buffer E k n info s)"
  unfolding out_create_mmap_buffer_def by (intro op_rules state_rules set_route_out) (simp_all add: frame_defs)

lemma in_standby: "P s \<Longrightarrow> holds P (in_standby E k s)"
  unfolding in_standby_def by (intro op_rules state_rules set_route_in) (simp_all add: frame_defs)

lemma stop_active_input: "P s \<Longrightarrow> holds P (stop_active_input k s)"
  unfolding stop_active_input_def by (intro op_rules state_rules) (simp_all add: frame_defs)

lemma in_change_recognition: "P s \<Longrightarrow> holds P (in_change_recognition k v s)"
  unfolding in_change_recognition_def by (intro op_rules state_rules stop_active_input) (simp_all add: frame_defs)

lemma in_route: "P s \<Longrightarrow> holds P (in_route E k devices s)"
  unfolding in_route_def by (intro op_rules state_rules update_capture_stream set_route_in) simp_all

lemma in_change_source: "P s \<Longrightarrow> holds (\<lambda>r. P (snd r)) (in_change_source k v s)"
  unfolding in_change_source_def by (intro op_rules state_rules) (simp_all add: frame_defs)

lemma in_set_parameters: "P s \<Longrightarrow> holds (\<lambda>r. P (snd r)) (in_set_parameters E k parms s)"
  unfolding in_set_parameters_def
  by (intro op_rules state_rules in_change_recognition in_route in_reconfig in_change_source) (simp_all add: frame_defs parm_frames)

lemma in_retype: "P s \<Longrightarrow> holds P (in_retype E k reconfig s)"
  unfolding in_retype_def by (intro op_rules state_rules) (simp_all add: frame_defs)

lemma in_read_open: "P s \<Longrightarrow> holds (\<lambda>r. P (snd r)) (in_read_open E k reconfig s)"
  unfolding in_read_open_def by (intro op_rules state_rules in_retype set_route_in) (simp_all add: frame_defs)

lemma in_read: "P s \<Longrightarrow> holds (\<lambda>r. P (snd (snd r))) (in_read E k buffer bytes s)"
  unfolding in_read_def
  apply (intro op_rules state_rules stop_active_input in_read_open)
  apply (auto simp: frame_defs px_ask_def Let_def holds_map intro!: in_status px_do upd_in holds_mono [OF stop_active_input])
  done

lemma in_stop: "P s \<Longrightarrow> holds (\<lambda>r. P (snd r)) (in_stop k s)"
  unfolding in_stop_def by (intro op_rules) (auto simp: frame_defs intro!: in_status px_do)

lemma in_start: "P s \<Longrightarrow> holds (\<lambda>r. P (snd r)) (in_start E k s)"
  unfolding in_start_def by (intro op_rules) (auto simp: frame_defs px_ask_def Let_def intro!: in_status px_do)

lemma in_create_mmap_buffer: "P s \<Longrightarrow> holds (\<lambda>r. P (snd r)) (in_create_mmap_buffer E k n info s)"
  unfolding in_create_mmap_buffer_def by (intro op_rules state_rules set_route_in) (simp_all add: frame_defs)

lemma upd_factory: "P s \<Longrightarrow> P (upd_factory f s)"
  unfolding upd_factory_def by (rule upd_dev) (simp_all add: frame_defs)

lemma on_voice_call_mode: "P s \<Longrightarrow> holds P (on_voice_call_mode E on s)"
  by (auto simp: on_voice_call_mode_def intro!: set_voice holds_read split: option.split)

lemma factory_reroute: "P s \<Longrightarrow> holds P (factory_reroute E fr s)"
  unfolding factory_reroute_def by (intro op_rules set_route_out)

lemma factory_loopback_off: "P s \<Longrightarrow> holds P (factory_loopback_off E f s)"
  unfolding factory_loopback_off_def
  by (intro op_rules state_rules upd_factory factory_reroute on_voice_call_mode) (simp_all add: frame_defs)

lemma factory_loopback: "P s \<Longrightarrow> holds P (factory_loopback E v s)"
  unfolding factory_loopback_def by (intro op_rules state_rules upd_factory factory_loopback_off) (simp_all add: frame_defs)

lemma factory_path: "P s \<Longrightarrow> holds P (factory_path E v s)"
  unfolding factory_path_def by (intro op_rules state_rules upd_factory set_route_out) (simp_all add: frame_defs)

lemma factory_rms: "P s \<Longrightarrow> holds P (factory_rms E v s)"
  unfolding factory_rms_def by (intro op_rules upd_factory set_route_in)

lemma factory_set_parameters: "P s \<Longrightarrow> holds P (factory_set_parameters E parms s)"
  unfolding factory_set_parameters_def
  by (intro op_rules P_case upd_factory factory_loopback factory_path factory_reroute factory_rms)

lemma roll_back: "P s \<Longrightarrow> holds (\<lambda>r. P (snd r)) (roll_back E s)"
  unfolding roll_back_def by (intro op_rules state_rules set_route_out) simp_all

lemma adev_set_voice_volume: "P s \<Longrightarrow> holds (\<lambda>r. P (snd r)) (adev_set_voice_volume E v s)"
  unfolding adev_set_voice_volume_def by (intro op_rules state_rules roll_back) (simp_all add: frame_defs)

lemma end_call: "P s \<Longrightarrow> holds P (end_call E s)"
  unfolding end_call_def by (intro op_rules state_rules update_call_stream on_voice_call_mode) (simp_all add: frame_defs)

lemma begin_call: "P s \<Longrightarrow> holds P (begin_call E s)"
  unfolding begin_call_def by (intro op_rules state_rules on_voice_call_mode) (simp_all add: frame_defs)

lemma keep_mode: "P s \<Longrightarrow> P (s\<lparr>dev := snd (keep_mode mode (dev s))\<rparr>)"
  using set_voice [where s = s and w = "ril s"] by (auto simp: keep_mode_def split: option.split)

lemma adev_set_mode: "P s \<Longrightarrow> holds P (adev_set_mode E mode s)"
  unfolding adev_set_mode_def using keep_mode [of s mode]
  by (cases "keep_mode mode (dev s)") (auto simp: Let_def frame_defs intro!: op_rules upd_dev px_do end_call begin_call)

lemma adev_set_mic_mute: "P s \<Longrightarrow> P (adev_set_mic_mute E state s)"
  unfolding adev_set_mic_mute_def by (intro state_rules) (simp_all add: frame_defs)

lemma device_connect: "P s \<Longrightarrow> holds P (device_connect E parms s)"
  unfolding device_connect_def by (intro op_rules state_rules) (auto simp: Let_def frame_defs intro!: on_voice upd_dev)

lemma device_disconnect: "P s \<Longrightarrow> holds P (device_disconnect E parms s)"
  unfolding device_disconnect_def by (intro op_rules state_rules) (auto simp: Let_def frame_defs intro!: on_voice upd_dev)

lemma plain_parms: "P s \<Longrightarrow> P (screen_state E parms s)" "P s \<Longrightarrow> P (fm_mode parms s)" "P s \<Longrightarrow> P (seamless_voice parms s)"
  unfolding screen_state_def fm_mode_def seamless_voice_def by (auto simp: frame_defs intro!: upd_dev split: option.split)

lemma fm_volume: "P s \<Longrightarrow> holds P (fm_volume E primary parms s)"
  unfolding fm_volume_def by (intro op_rules state_rules set_route_out) (simp_all add: frame_defs)

lemma voice_parameters: "P s \<Longrightarrow> holds (\<lambda>r. P (snd r)) (voice_parameters E parms s)"
  by (auto simp: voice_parameters_def intro!: set_voice holds_read split: option.split prod.split)

lemma adev_set_parameters: "P s \<Longrightarrow> holds (\<lambda>r. P (snd r)) (adev_set_parameters E parms s)"
  unfolding adev_set_parameters_def
  by (intro op_rules state_rules device_connect device_disconnect plain_parms fm_volume voice_parameters factory_set_parameters)
    (simp_all add: frame_defs)

lemma in_type_plain: "P s \<Longrightarrow> holds (\<lambda>r. P (snd r)) (in_type_plain E k devices source s)"
  unfolding in_type_plain_def retype_def by (intro op_rules state_rules set_route_in) (simp_all add: frame_defs)

lemma in_type: "P s \<Longrightarrow> holds (\<lambda>r. P (snd r)) (in_type E k devices flags config source s)"
  unfolding in_type_def retype_def by (intro op_rules in_type_plain upd_icommon) simp_all

end

end
