(* ===== verification/Audio_Reach.thy ===== *)
theory Audio_Reach
  imports Audio_Invariant
begin

text \<open>
  The life of the primary audio HAL: the calls of its clients and the steps of the offload threads,
  in any order, after the device was opened. The locale \<open>hal_life\<close> adds opening and closing of
  streams to \<open>hal_frame\<close>. In every state that is reached, the paths of the hardware are those the
  device records, and its lists are those of the streams that exist.
\<close>

section \<open>Runs\<close>

text \<open>
  What can happen to the device: a call of a client, with its arguments, or a step of the thread of an
  offload stream, which takes a message when it is not busy and answers it when it is.
\<close>

datatype (plugins only: code size) hal_event =
    Out_standby nat | Out_set_parameters nat str_parms | Out_set_volume nat rat rat | Out_write nat bool int
  | Out_set_callback nat int int | Out_pause nat | Out_resume nat | Out_drain nat bool | Out_flush nat
  | Out_stop nat | Out_start nat | Out_create_mmap_buffer nat int bool
  | In_standby nat | In_set_parameters nat str_parms | In_read nat bool int | In_stop nat | In_start nat | In_create_mmap_buffer nat int bool
  | Set_voice_volume rat | Set_mode audio_mode_t | Set_mic_mute bool | Set_parameters str_parms | Set_call_forwarding
  | Open_output int u32 u32 audio_config | Close_output nat | Open_input int u32 audio_config u32 u32 | Close_input nat
  | Thread_take nat | Thread_finish nat

definition thread_step :: "bool \<Rightarrow> (hal \<Rightarrow> hal option) \<Rightarrow> nat \<Rightarrow> hal \<Rightarrow> hal option" where
  "thread_step busy f k s = do {
     x \<leftarrow> outs s k;
     if callback_thread (offload x) \<and> callback_thread_blocked (offload x) = busy then f s else Some s }"

primrec hal_exec :: "hal_env \<Rightarrow> hal_event \<Rightarrow> hal \<Rightarrow> hal option" where
  "hal_exec E (Out_standby k) s = out_standby E k s"
| "hal_exec E (Out_set_parameters k parms) s = map_option snd (out_set_parameters E k parms s)"
| "hal_exec E (Out_set_volume k l r) s = map_option snd (out_set_volume k l r s)"
| "hal_exec E (Out_write k buffer bytes) s = map_option snd (out_write E k buffer bytes s)"
| "hal_exec E (Out_set_callback k cb cookie) s = map_option snd (out_set_callback k cb cookie s)"
| "hal_exec E (Out_pause k) s = map_option snd (out_pause E k s)"
| "hal_exec E (Out_resume k) s = map_option snd (out_resume E k s)"
| "hal_exec E (Out_drain k early) s = map_option snd (out_drain E k early s)"
| "hal_exec E (Out_flush k) s = map_option snd (out_flush E k s)"
| "hal_exec E (Out_stop k) s = map_option snd (out_stop k s)"
| "hal_exec E (Out_start k) s = map_option snd (out_start E k s)"
| "hal_exec E (Out_create_mmap_buffer k n info) s = map_option snd (out_create_mmap_buffer E k n info s)"
| "hal_exec E (In_standby k) s = in_standby E k s"
| "hal_exec E (In_set_parameters k parms) s = map_option snd (in_set_parameters E k parms s)"
| "hal_exec E (In_read k buffer bytes) s = map_option (\<lambda>r. snd (snd r)) (in_read E k buffer bytes s)"
| "hal_exec E (In_stop k) s = map_option snd (in_stop k s)"
| "hal_exec E (In_start k) s = map_option snd (in_start E k s)"
| "hal_exec E (In_create_mmap_buffer k n info) s = map_option snd (in_create_mmap_buffer E k n info s)"
| "hal_exec E (Set_voice_volume v) s = map_option snd (adev_set_voice_volume E v s)"
| "hal_exec E (Set_mode mode) s = adev_set_mode E mode s"
| "hal_exec E (Set_mic_mute state) s = Some (adev_set_mic_mute E state s)"
| "hal_exec E (Set_parameters parms) s = map_option snd (adev_set_parameters E parms s)"
| "hal_exec E Set_call_forwarding s = set_call_forwarding E s"
| "hal_exec E (Open_output handle devices flags config) s =
     map_option (\<lambda>r. snd (snd (snd r))) (adev_open_output_stream E handle devices flags config s)"
| "hal_exec E (Close_output k) s = adev_close_output_stream E k s"
| "hal_exec E (Open_input handle devices config flags source) s =
     map_option (\<lambda>r. snd (snd (snd r))) (adev_open_input_stream E handle devices config flags source s)"
| "hal_exec E (Close_input k) s = adev_close_input_stream E k s"
| "hal_exec E (Thread_take k) s = thread_step False (offload_take k) k s"
| "hal_exec E (Thread_finish k) s = thread_step True (offload_finish E k) k s"

primrec hal_run :: "hal_env \<Rightarrow> hal_event list \<Rightarrow> hal \<Rightarrow> hal option" where
  "hal_run E [] s = Some s"
| "hal_run E (e # es) s = do { s \<leftarrow> hal_exec E e s; hal_run E es s }"

text \<open>The module when the library was loaded, and the states after the device was opened.\<close>

definition loaded :: "hal_module \<Rightarrow> bool" where
  "loaded m \<longleftrightarrow> singleton m = NO_INSTANCE \<and> adev_ref_count m = 0
     \<and> outs (hal_state m) = Map.empty \<and> ins (hal_state m) = Map.empty \<and> px_log (hal_state m) = []"

inductive hal_reachable :: "hal_env \<Rightarrow> hal \<Rightarrow> bool" for E where
  opened: "loaded m \<Longrightarrow> adev_open E name m = Some (0, m') \<Longrightarrow> hal_reachable E (hal_state m')"
| step: "hal_reachable E s \<Longrightarrow> hal_exec E e s = Some s' \<Longrightarrow> hal_reachable E s'"

lemma hal_run_reachable: "hal_reachable E s \<Longrightarrow> hal_run E es s = Some s' \<Longrightarrow> hal_reachable E s'"
  by (induction es arbitrary: s) (auto split: Option.bind_splits intro: step)

section \<open>Streams come and go\<close>

context hal_frame
begin

lemma thread_step: "P s \<Longrightarrow> (\<And>s. P s \<Longrightarrow> holds P (f s)) \<Longrightarrow> holds P (thread_step busy f k s)"
  unfolding thread_step_def by (intro op_rules) simp_all

text \<open>Every event but opening and closing keeps what is only known to survive the frame.\<close>

lemmas stream_ops = out_standby out_set_parameters out_set_volume out_write out_set_callback out_pause out_resume out_drain out_flush
  out_stop out_start out_create_mmap_buffer in_standby in_set_parameters in_read in_stop in_start in_create_mmap_buffer

lemmas device_ops = adev_set_voice_volume adev_set_mode adev_set_parameters set_call_forwarding
  thread_step offload_take offload_finish

end


definition paths :: "audio_device \<Rightarrow> (bool \<times> audio_usage \<times> device_type \<times> modifier_type) \<times> (bool \<times> audio_usage \<times> device_type)" where
  "paths d = ((is_playback_path_routed d, active_playback_ausage d, active_playback_device d, active_playback_modifier d),
     (is_capture_path_routed d, active_capture_ausage d, active_capture_device d))"

locale hal_life = hal_frame +
  assumes alloc_out: "P s \<Longrightarrow> stream_status (out_common x) \<noteq> STATUS_PAUSED \<Longrightarrow> P (put_out k x s)"
    and alloc_in: "P s \<Longrightarrow> stream_status (in_common y) \<noteq> STATUS_PAUSED \<Longrightarrow> P (put_in k y s)"
    and fresh_common: "P s \<Longrightarrow> outs s k = Some x \<Longrightarrow> stream_status (f (out_common x)) \<noteq> STATUS_PAUSED \<Longrightarrow> P (upd_ocommon k f s)"
    and drop_out: "P s \<Longrightarrow> P (free_out k s)"
    and drop_in: "P s \<Longrightarrow> P (free_in k s)"
    and upd_lists: "P s \<Longrightarrow> (\<And>d. paths (g d) = paths d) \<Longrightarrow> P (upd_dev g s)"

context hal_life
begin

lemma enter_out: "P s \<Longrightarrow> holds (\<lambda>r. P (snd r)) (enter_out E k t s)"
  by (auto simp: enter_out_def init_voice_def paths_def intro!: upd_lists set_voice holds_read split: option.split)

lemma out_created: "P s \<Longrightarrow> holds (\<lambda>r. P (snd r)) (out_created E k flags config s)"
  unfolding out_created_def
  by (intro holds_read)
    (auto simp: Let_def px_ask_def case_prod_unfold frame_defs paths_def create_offload_callback_thread_def upd_ocommon_def
      intro!: upd_lists px_do upd_out upd_offload)

lemma enter_out_outs: "enter_out E k t s = Some (r, s') \<Longrightarrow> outs s' = outs s"
  by (auto simp: enter_out_def init_voice_def split: if_splits option.splits Option.bind_splits)

lemma create_out:
  assumes "P s" "outs s k = Some x" "stream_status (out_common x) \<noteq> STATUS_PAUSED"
  shows "holds (\<lambda>r. P (snd (snd (snd r)))) (create_out E k flags config tu s)"
  unfolding create_out_def
proof (rule holds_read, clarify)
  fix ret s1
  assume e: "enter_out E k (fst tu) s = Some (ret, s1)"
  have P1: "P s1" using holdsD [OF enter_out [OF assms(1)] e] by simp
  have "outs s1 k = Some x" using enter_out_outs [OF e] assms(2) by simp
  then have "P (upd_ocommon k (retype (fst tu) (snd tu)) s1)"
    using P1 assms(3) by (intro fresh_common [where x = x]) (simp_all add: retype_def)
  then have "P (px_do (proxy_create_playback_stream (fst tu)) (upd_ocommon k (retype (fst tu) (snd tu)) s1))"
    by (simp add: px_do frame_defs)
  then show "holds (\<lambda>r. P (snd (snd (snd r)))) (if ret \<noteq> 0 then Some (ret, None, config, free_out k s1)
      else let (p, s) = px_ask E (proxy_create_playback_stream (fst tu)) (upd_ocommon k (retype (fst tu) (snd tu)) s1)
           in if p = NULL then
                Some (- EINVAL, None, config,
                      free_out k (if fst tu = ASTREAM_PLAYBACK_PRIMARY then upd_dev (\<lambda>d. d\<lparr>primary_output := None\<rparr>) s else s))
              else out_created E k flags config (upd_ocommon k (\<lambda>c. c\<lparr>proxy_stream := p\<rparr>) s) \<bind> (\<lambda>(config, s). Some (0, Some k, config, s)))"
    using P1 by (auto simp: px_ask_def paths_def intro!: bind_pair [OF out_created] drop_out upd_lists upd_ocommon)
qed

lemma adev_open_output_stream: "P s \<Longrightarrow> holds (\<lambda>r. P (snd (snd (snd r)))) (adev_open_output_stream E handle devices flags config s)"
  unfolding adev_open_output_stream_def Let_def px_ask_def prod.case
  by (auto simp: frame_defs new_out_def new_common_def put_out_def [THEN arg_cong, of outs]
    intro!: drop_out alloc_out px_do create_out split: option.split)

lemma adev_close_output_stream: "P s \<Longrightarrow> holds P (adev_close_output_stream E k s)"
  unfolding adev_close_output_stream_def
  by (intro op_rules P_if px_do upd_dev upd_lists out_standby destroy_thread drop_out) (simp_all add: frame_defs paths_def)

lemma in_created: "P s \<Longrightarrow> holds (\<lambda>r. P (snd r)) (in_created E k config s)"
  unfolding in_created_def
  by (intro holds_read) (auto simp: Let_def px_ask_def case_prod_unfold frame_defs paths_def upd_icommon_def intro!: upd_lists px_do upd_in)

lemma adev_open_input_stream:
  "P s \<Longrightarrow> holds (\<lambda>r. P (snd (snd (snd r)))) (adev_open_input_stream E handle devices config flags source s)"
  unfolding adev_open_input_stream_def Let_def px_ask_def prod.case
  by (intro holds_if holds_read [where 'a = stream_in] bind_pair [OF in_type] bind_pair [OF in_created])
    (auto simp: frame_defs new_in_def new_common_def intro!: drop_in alloc_in px_do upd_icommon)

lemma adev_close_input_stream: "P s \<Longrightarrow> holds P (adev_close_input_stream E k s)"
  unfolding adev_close_input_stream_def
  by (intro op_rules P_if px_do upd_lists in_standby set_route_in drop_in) (simp_all add: frame_defs paths_def)

lemmas life_ops = adev_open_output_stream adev_close_output_stream adev_open_input_stream adev_close_input_stream

lemma hal_exec: "P s \<Longrightarrow> holds P (hal_exec E e s)"
  by (cases e) (simp_all add: holds_map stream_ops device_ops life_ops adev_set_mic_mute)

lemma hal_exec_result: "P s \<Longrightarrow> hal_exec E e s = Some s' \<Longrightarrow> P s'"
  using hal_exec holdsD by metis

end

section \<open>The paths of the hardware\<close>

text \<open>
  The modifiers that the driver gives to a device: one, except for the devices of a Bluetooth headset,
  whose modifier is that of a narrow or of a wide band.
\<close>

definition modifiers :: "device_type \<Rightarrow> modifier_type set" where
  "modifiers dv =
     (if dv = DEVICE_BT_HEADSET \<or> dv = DEVICE_SPEAKER_AND_BT_HEADSET then {MODIFIER_BT_SCO_RX_NB, MODIFIER_BT_SCO_RX_WB}
      else if dv = DEVICE_BT_HEADSET_MIC \<or> dv = DEVICE_BT_NREC_HEADSET_MIC then {MODIFIER_BT_SCO_TX_NB, MODIFIER_BT_SCO_TX_WB}
      else {MODIFIER_NONE})"

lemma adev_get_modifier_range: "adev_get_modifier d dv \<in> modifiers dv"
  by (cases dv) (simp_all add: adev_get_modifier_def modifiers_def)

lemma modifiers_unique: "modifiers dv = {m} \<longleftrightarrow> m = MODIFIER_NONE \<and>
    dv \<notin> {DEVICE_BT_HEADSET, DEVICE_SPEAKER_AND_BT_HEADSET, DEVICE_BT_HEADSET_MIC, DEVICE_BT_NREC_HEADSET_MIC}"
  by (auto simp: modifiers_def)

text \<open>
  The last call that set or reset a path, and whether every reset named the path that was set: its
  usage, its device and its modifier, the latter up to the band of a Bluetooth headset.
\<close>

primrec last_route :: "audio_path \<Rightarrow> px_call list \<Rightarrow> (audio_usage \<times> device_type \<times> modifier_type \<times> bool) option" where
  "last_route p [] = None"
| "last_route p (c # cs) = (case route_of p c of None \<Rightarrow> last_route p cs | Some r \<Rightarrow> Some r)"

definition set_to :: "audio_path \<Rightarrow> audio_usage \<Rightarrow> device_type \<Rightarrow> modifier_type \<Rightarrow> px_call list \<Rightarrow> bool" where
  "set_to p u dv m cs \<longleftrightarrow>
     (\<exists>m'. last_route p cs = Some (u, dv, m', True) \<and> m \<in> modifiers dv \<and> m' \<in> modifiers dv)"

primrec resets_match :: "audio_path \<Rightarrow> px_call list \<Rightarrow> bool" where
  "resets_match p [] \<longleftrightarrow> True"
| "resets_match p (c # cs) \<longleftrightarrow> resets_match p cs \<and>
     (case route_of p c of None \<Rightarrow> True | Some (u, dv, m, on) \<Rightarrow> on \<or> set_to p u dv m cs)"

definition is_set :: "audio_path \<Rightarrow> px_call list \<Rightarrow> bool" where
  "is_set p cs \<longleftrightarrow> (\<exists>u dv m. last_route p cs = Some (u, dv, m, True))"

definition playback_ok :: "hal \<Rightarrow> bool" where
  "playback_ok s \<longleftrightarrow> resets_match Playback_path (px_log s) \<and>
     (is_playback_path_routed (dev s) \<longrightarrow>
        set_to Playback_path (active_playback_ausage (dev s)) (active_playback_device (dev s)) (active_playback_modifier (dev s)) (px_log s)) \<and>
     (\<not> is_playback_path_routed (dev s) \<longrightarrow> playback_route (dev s) = NO_PATH \<and> \<not> is_set Playback_path (px_log s))"

lemma set_to_exact: "set_to p u dv m cs \<Longrightarrow> modifiers dv = {m'} \<Longrightarrow> last_route p cs = Some (u, dv, m, True)"
  by (auto simp: set_to_def)

definition capture_ok :: "hal \<Rightarrow> bool" where
  "capture_ok s \<longleftrightarrow> is_capture_path_routed (dev s) = is_set Capture_path (px_log s)
     \<and> (\<not> is_capture_path_routed (dev s) \<longrightarrow> active_capture_ausage (dev s) = AUSAGE_NONE \<and> active_capture_device (dev s) = DEVICE_NONE)"

definition routes_ok :: "hal \<Rightarrow> bool" where
  "routes_ok s \<longleftrightarrow> playback_ok s \<and> capture_ok s"

lemmas routes_defs = routes_ok_def playback_ok_def capture_ok_def is_set_def playback_route_def set_to_def

lemma routes_ok_same:
  assumes "routes_ok s" "paths (dev s') = paths (dev s)" "px_log s' = px_log s"
  shows "routes_ok s'"
  using assms by (simp add: routes_defs paths_def)

lemma core_paths: "core d = core d' \<Longrightarrow> paths d = paths d'"
  by (simp add: core_def paths_def)

lemma routes_ok_px_do: "routes_ok s \<Longrightarrow> no_route c \<Longrightarrow> routes_ok (px_do c s)"
  by (simp add: routes_defs no_route_def)

lemmas routing_defs = route_playback_def unroute_playback_def route_capture_def unroute_capture_def
  proxy_route_def playback_route_def capture_route_def set_playback_def set_capture_def

interpretation routes: hal_life routes_ok
proof unfold_locales
  fix s
  assume ok: "routes_ok s"
  show "no_route c \<Longrightarrow> routes_ok (px_do c s)" for c using ok by (rule routes_ok_px_do)
  show "routes_ok (upd_dev f s)" if "\<And>d. core (f d) = core d" for f
    using routes_ok_same [OF ok] core_paths [OF that] by simp
  show "routes_ok (upd_out k g s)" "routes_ok (upd_in k h s)" "routes_ok (out_status k t s)" "routes_ok (upd_ocommon k f s)" for k g h t f
    by (rule routes_ok_same [OF ok]; simp)+
  show "routes_ok (s\<lparr>dev := (dev s)\<lparr>voice := v\<rparr>, ril := w\<rparr>)" for v w
    by (rule routes_ok_same [OF ok]) (simp_all add: paths_def)
  show "routes_ok (route_playback (u, dv, adev_get_modifier (dev s) dv) s)" for u dv
    using ok adev_get_modifier_range [of "dev s" dv] by (auto simp: routing_defs routes_defs route_of_def)
  show "routes_ok (unroute_playback u s)" for u
    using ok by (auto simp: routing_defs routes_defs route_of_def)
  show "routes_ok (route_capture skip path s)" for skip path
    using ok by (auto simp: routing_defs routes_defs route_of_def)
  show "routes_ok (unroute_capture u s)" for u
    using ok by (auto simp: routing_defs routes_defs route_of_def)
  show "routes_ok (put_out k x s)" "routes_ok (put_in k y s)" "routes_ok (free_out k s)" "routes_ok (free_in k s)" for k x y
    by (rule routes_ok_same [OF ok]; simp add: put_out_def put_in_def free_out_def free_in_def)+
  show "routes_ok (upd_dev g s)" if "\<And>d. paths (g d) = paths d" for g
    using routes_ok_same [OF ok] that by simp
qed

section \<open>The states of the streams\<close>

text \<open>Only a stream that the hardware decodes is ever paused.\<close>

definition status_ok :: "hal \<Rightarrow> bool" where
  "status_ok s \<longleftrightarrow>
     (\<forall>k x. outs s k = Some x \<longrightarrow> stream_status (out_common x) = STATUS_PAUSED \<longrightarrow> stream_type (out_common x) = ASTREAM_PLAYBACK_COMPR_OFFLOAD)
     \<and> (\<forall>k x. ins s k = Some x \<longrightarrow> stream_status (in_common x) \<noteq> STATUS_PAUSED)"

lemma routing_streams [simp]:
  "outs (route_playback path s) = outs s" "outs (unroute_playback u s) = outs s" "outs (route_capture skip path s) = outs s"
  "outs (unroute_capture u s) = outs s" "ins (route_playback path s) = ins s" "ins (unroute_playback u s) = ins s"
  "ins (route_capture skip path s) = ins s" "ins (unroute_capture u s) = ins s"
  by (simp_all add: routing_defs)

interpretation status: hal_life status_ok
proof unfold_locales
  fix s
  assume ok: "status_ok s"
  show "status_ok (px_do c s)" "status_ok (upd_dev f s)" "status_ok (s\<lparr>dev := (dev s)\<lparr>voice := v\<rparr>, ril := w\<rparr>)"
    "status_ok (route_playback path s)" "status_ok (unroute_playback u s)" "status_ok (route_capture skip path s)"
    "status_ok (unroute_capture u s)" for c f v w path skip u
    using ok by (simp_all add: status_ok_def)
  show "status_ok (upd_out k g s)" if "out_frame g" for k g
    using ok that by (auto simp: status_ok_def out_frame_def)
  show "status_ok (upd_in k h s)" if "in_frame h" for k h
    using ok that by (auto simp: status_ok_def in_frame_def)
  show "status_ok (out_status k STATUS_PAUSED s)"
    if "outs s k = Some x" "stream_type (out_common x) = ASTREAM_PLAYBACK_COMPR_OFFLOAD" for k x
    using ok that by (auto simp: status_ok_def out_status_def upd_ocommon_def)
  show "status_ok (upd_ocommon k f s)" if "outs s k = Some x" "stream_status (f (out_common x)) \<noteq> STATUS_PAUSED" for k x f
    using ok that by (auto simp: status_ok_def upd_ocommon_def)
  show "status_ok (put_out k x s)" if "stream_status (out_common x) \<noteq> STATUS_PAUSED" for k x
    using ok that by (auto simp: status_ok_def put_out_def)
  show "status_ok (put_in k y s)" if "stream_status (in_common y) \<noteq> STATUS_PAUSED" for k y
    using ok that by (auto simp: status_ok_def put_in_def)
  show "status_ok (free_out k s)" "status_ok (free_in k s)" for k
    using ok by (auto simp: status_ok_def free_out_def free_in_def)
qed (simp add: status_ok_def)

section \<open>The lists of the streams\<close>

text \<open>
  What no operation but opening and closing changes: the lists, the primary output, the addresses in
  use and the type of every output stream.
\<close>

definition out_types :: "hal \<Rightarrow> nat \<Rightarrow> audio_stream_type option" where
  "out_types s k = map_option (\<lambda>x. stream_type (out_common x)) (outs s k)"

definition shape :: "hal \<Rightarrow> (nat list \<times> nat list \<times> nat option) \<times> (nat \<Rightarrow> audio_stream_type option) \<times> nat set \<times> nat" where
  "shape s = ((playback_list (dev s), capture_list (dev s), primary_output (dev s)), out_types s, dom (ins s), next_addr s)"

lemma next_addr_simps [simp]:
  "next_addr (px_do c s) = next_addr s" "next_addr (upd_dev f s) = next_addr s" "next_addr (upd_out k g s) = next_addr s"
  "next_addr (upd_in k h s) = next_addr s" "next_addr (upd_ocommon k c1 s) = next_addr s" "next_addr (upd_icommon k c1 s) = next_addr s"
  "next_addr (out_status k t s) = next_addr s"
  by (simp_all add: px_do_def upd_dev_def upd_out_def upd_in_def upd_ocommon_def upd_icommon_def out_status_def)

interpretation shape: hal_frame "\<lambda>s. shape s = sh" for sh
proof unfold_locales
  fix s
  assume ok: "shape s = sh"
  show "shape (px_do c s) = sh" "shape (s\<lparr>dev := (dev s)\<lparr>voice := v\<rparr>, ril := w\<rparr>) = sh"
    "shape (route_playback path s) = sh" "shape (unroute_playback u s) = sh" "shape (route_capture skip path s) = sh"
    "shape (unroute_capture u s) = sh" for c v w path skip u
    using ok by (auto simp: shape_def out_types_def routing_defs)
  show "shape (upd_dev f s) = sh" if "\<And>d. core (f d) = core d" for f
    using ok that [of "dev s"] by (auto simp: shape_def out_types_def core_def)
  show "shape (upd_out k g s) = sh" if "out_frame g" for k g
    using ok that by (auto simp: shape_def out_types_def out_frame_def option.map_comp o_def)
  show "shape (upd_in k h s) = sh" for k h
    using ok by (auto simp: shape_def out_types_def dom_def)
  show "shape (out_status k STATUS_PAUSED s) = sh" for k
    using ok by (auto simp: shape_def out_types_def out_status_def upd_ocommon_def option.map_comp o_def)
qed

text \<open>
  The lists hold the streams that exist, each once; there is a primary output exactly when a stream of
  that type is open, and it is that stream.
\<close>

definition lists_ok :: "(nat list \<times> nat list \<times> nat option) \<times> (nat \<Rightarrow> audio_stream_type option) \<times> nat set \<times> nat \<Rightarrow> bool" where
  "lists_ok sh \<longleftrightarrow>
     (case sh of ((plays, captures, primary), types, used, n) \<Rightarrow>
        distinct plays \<and> distinct captures \<and> set plays = dom types \<and> set captures = used
        \<and> (\<forall>k. k \<in> dom types \<union> used \<longrightarrow> k < n) \<and> dom types \<inter> used = {}
        \<and> (\<forall>k. primary = Some k \<longleftrightarrow> types k = Some ASTREAM_PLAYBACK_PRIMARY))"

definition streams_ok :: "hal \<Rightarrow> bool" where
  "streams_ok s \<longleftrightarrow> lists_ok (shape s)"

lemmas streams_defs = streams_ok_def lists_ok_def shape_def out_types_def

lemma enter_out_shape:
  assumes "enter_out E k t s = Some (r, s')"
  shows "outs s' = outs s \<and> ins s' = ins s \<and> next_addr s' = next_addr s \<and> playback_list (dev s') = playback_list (dev s)
    \<and> capture_list (dev s') = capture_list (dev s)
    \<and> (if r = 0 \<and> t = ASTREAM_PLAYBACK_PRIMARY then primary_output (dev s) = None \<and> primary_output (dev s') = Some k
       else primary_output (dev s') = primary_output (dev s))"
  using assms by (auto simp: enter_out_def init_voice_def split: if_splits option.splits Option.bind_splits)

lemma types_upd [simp]:
  "out_types (px_do c s) = out_types s" "out_types (upd_dev f s) = out_types s" "out_types (free_out k s) = (out_types s)(k := None)"
  "(\<And>c. stream_type (g c) = stream_type c) \<Longrightarrow> out_types (upd_ocommon k g s) = out_types s"
  "out_types (upd_ocommon k (retype t u) s) = (out_types s)(k := map_option (\<lambda>_. t) (outs s k))"
  "(\<And>x. stream_type (out_common (h x)) = stream_type (out_common x)) \<Longrightarrow> out_types (upd_out k h s) = out_types s"
  "out_types (upd_offload k j s) = out_types s"
  by (auto simp: out_types_def free_out_def upd_ocommon_def upd_offload_def retype_def option.map_comp o_def)

lemma dev_upd [simp]: "dev (upd_offload k f s) = dev s" "ins (upd_offload k f s) = ins s" "next_addr (upd_offload k f s) = next_addr s"
  "dev (free_out k s) = dev s" "ins (free_out k s) = ins s" "next_addr (free_out k s) = next_addr s"
  by (simp_all add: upd_offload_def free_out_def)

lemma out_created_shape:
  assumes "out_created E k flags config s = Some (c, s')"
  shows "shape s' = ((playback_list (dev s) @ [k], capture_list (dev s), primary_output (dev s)), out_types s, dom (ins s), next_addr s)"
  using assms
  by (auto simp: out_created_def shape_def Let_def px_ask_def case_prod_unfold create_offload_callback_thread_def split: if_splits Option.bind_splits)

lemma create_out_shape:
  assumes "create_out E k flags config (t, u) s = Some (r, p, c, s')" "outs s k = Some x"
  shows "shape s' =
      (if r = 0 then ((playback_list (dev s) @ [k], capture_list (dev s), if t = ASTREAM_PLAYBACK_PRIMARY then Some k else primary_output (dev s)),
                      (out_types s)(k \<mapsto> t), dom (ins s), next_addr s)
       else ((playback_list (dev s), capture_list (dev s), primary_output (dev s)), (out_types s)(k := None), dom (ins s), next_addr s))
    \<and> (r = 0 \<and> t = ASTREAM_PLAYBACK_PRIMARY \<longrightarrow> primary_output (dev s) = None)"
proof -
  obtain r1 s1 where e: "enter_out E k t s = Some (r1, s1)" using assms(1) by (auto simp: create_out_def split: Option.bind_splits)
  note e1 = enter_out_shape [OF e]
  have types: "out_types s1 = out_types s" using e1 by (simp add: fun_eq_iff out_types_def)
  show ?thesis
    using assms e e1 types
    by (auto simp: create_out_def px_ask_def shape_def [of "free_out _ _"] dest!: out_created_shape split: if_splits Option.bind_splits)
qed

text \<open>The ways in which the shape changes.\<close>

lemma lists_ok_unused: "lists_ok ((ps, cs, pr), T, D, n) \<Longrightarrow> T n = None \<and> n \<notin> D"
  by (cases "T n") (auto simp: lists_ok_def dom_def)

lemma lists_ok_skip: "lists_ok ((ps, cs, pr), T, D, n) \<Longrightarrow> lists_ok ((ps, cs, pr), T, D, Suc n)"
  by (auto simp: lists_ok_def intro: less_SucI)

lemma lists_ok_add_out:
  assumes "lists_ok ((ps, cs, pr), T, D, n)" "t = ASTREAM_PLAYBACK_PRIMARY \<longrightarrow> pr = None"
  shows "lists_ok ((ps @ [n], cs, if t = ASTREAM_PLAYBACK_PRIMARY then Some n else pr), T(n \<mapsto> t), D, Suc n)"
  using assms lists_ok_unused [OF assms(1)] by (auto simp: lists_ok_def intro: less_SucI)

lemma lists_ok_drop_out:
  "lists_ok ((ps, cs, pr), T, D, n) \<Longrightarrow> lists_ok ((removeAll k ps, cs, if pr = Some k then None else pr), T(k := None), D, n)"
  by (auto simp: lists_ok_def distinct_removeAll split: if_splits) (metis option.inject)

lemma lists_ok_add_in: "lists_ok ((ps, cs, pr), T, D, n) \<Longrightarrow> lists_ok ((ps, cs @ [n], pr), T, insert n D, Suc n)"
  using lists_ok_unused [of ps cs pr T D n] by (auto simp: lists_ok_def intro: less_SucI)

lemma lists_ok_drop_in: "lists_ok ((ps, cs, pr), T, D, n) \<Longrightarrow> lists_ok ((ps, removeAll k cs, pr), T, D - {k}, n)"
  by (auto simp: lists_ok_def distinct_removeAll)

lemma shape_put_out: "shape (put_out k x s) =
  ((playback_list (dev s), capture_list (dev s), primary_output (dev s)), (out_types s)(k \<mapsto> stream_type (out_common x)), dom (ins s), Suc k)"
  by (simp add: shape_def put_out_def out_types_def fun_eq_iff)

lemma shape_put_in: "shape (put_in k x s) =
  ((playback_list (dev s), capture_list (dev s), primary_output (dev s)), out_types s, insert k (dom (ins s)), Suc k)"
  by (simp add: shape_def put_in_def out_types_def fun_eq_iff)

lemma shape_free_out:
  "shape (free_out k s) = ((playback_list (dev s), capture_list (dev s), primary_output (dev s)), (out_types s)(k := None), dom (ins s), next_addr s)"
  by (simp add: shape_def)

lemma shape_free_in:
  "shape (free_in k s) = ((playback_list (dev s), capture_list (dev s), primary_output (dev s)), out_types s, dom (ins s) - {k}, next_addr s)"
  by (simp add: shape_def free_in_def out_types_def fun_eq_iff)

lemma shape_parts:
  assumes "shape s = ((ps, cs, pr), T, D, n)"
  shows "playback_list (dev s) = ps" "capture_list (dev s) = cs" "primary_output (dev s) = pr" "out_types s = T" "dom (ins s) = D" "next_addr s = n"
  using assms by (simp_all add: shape_def)

lemma streams_ok_open_output: "streams_ok s \<Longrightarrow> holds (\<lambda>r. streams_ok (snd (snd (snd r)))) (adev_open_output_stream E handle devices flags config s)"
proof (rule holdsI)
  fix res
  assume ok: "streams_ok s" and r: "adev_open_output_stream E handle devices flags config s = Some res"
  obtain r p c s' where res: "res = (r, p, c, s')" by (cases res) auto
  obtain ps cs pr T D n where sh: "shape s = ((ps, cs, pr), T, D, n)" by (cases "shape s") auto
  note parts = shape_parts [OF sh]
  have sok: "lists_ok ((ps, cs, pr), T, D, n)" using ok sh by (simp add: streams_ok_def)
  have T: "T(n := None) = T" using lists_ok_unused [OF sok] by auto
  define s1 where "s1 = put_out n (new_out handle devices flags config) (px_do calloc_stream s)"
  have s1: "shape s1 = ((ps, cs, pr), T(n \<mapsto> ASTREAM_NONE), D, Suc n)"
    by (simp add: s1_def shape_put_out parts new_out_def new_common_def)
  note parts1 = shape_parts [OF s1]
  consider "s' = px_do calloc_stream s" | "s' = free_out n s1" | t u where "create_out E n flags config (t, u) s1 = Some (r, p, c, s')"
    using r by (auto simp: res adev_open_output_stream_def px_ask_def Let_def parts s1_def split: if_splits option.splits)
  then show "streams_ok (snd (snd (snd res)))"
  proof cases
    case 1
    then show ?thesis using ok by (simp add: res streams_ok_def shape_def)
  next
    case 2
    then show ?thesis using lists_ok_skip [OF sok] by (simp add: res streams_ok_def shape_free_out parts1 T)
  next
    case 3
    have "outs s1 n = Some (new_out handle devices flags config)" by (simp add: s1_def put_out_def)
    note c = create_out_shape [OF 3 this, unfolded parts1]
    show ?thesis
    proof (cases "r = 0")
      case True
      then show ?thesis using c lists_ok_add_out [OF sok, of t] by (simp add: res streams_ok_def)
    next
      case False
      then show ?thesis using c lists_ok_skip [OF sok] by (simp add: res streams_ok_def T)
    qed
  qed
qed

text \<open>A stream that is closed leaves its list, and the primary output goes with it.\<close>

lemma close_output_shape:
  "holds (\<lambda>s'. shape s' = ((removeAll k (playback_list (dev s)), capture_list (dev s),
       if primary_output (dev s) = Some k then None else primary_output (dev s)), (out_types s)(k := None), dom (ins s), next_addr s))
     (adev_close_output_stream E k s)"
proof -
  let ?sh = "((removeAll k (playback_list (dev s)), capture_list (dev s),
       if primary_output (dev s) = Some k then None else primary_output (dev s)), out_types s, dom (ins s), next_addr s)"
  show ?thesis
    unfolding adev_close_output_stream_def Let_def
  proof (rule holds_bind [OF shape.out_standby [OF refl]], rule holds_read, rule holds_bind [where P = "\<lambda>s3. shape s3 = ?sh"])
    fix s1 x
    assume "shape s1 = shape s"
    then have "shape (upd_dev (\<lambda>d. d\<lparr>playback_list := removeAll k (playback_list d),
                            primary_output := (if primary_output d = Some k then None else primary_output d),
                            compress_output := (if compress_output d = Some k then None else compress_output d)\<rparr>) s1) = ?sh" (is "shape ?s2 = _")
      by (simp add: shape_def)
    then show "holds (\<lambda>s3. shape s3 = ?sh) (if stream_type (out_common x) = ASTREAM_PLAYBACK_COMPR_OFFLOAD \<and> nonblock_flag (offload x)
           then destroy_offload_callback_thread E k ?s2 else Some ?s2)"
      by (intro holds_if shape.destroy_thread) simp_all
  qed (auto simp: shape_def)
qed

lemma streams_ok_close_output: "streams_ok s \<Longrightarrow> holds streams_ok (adev_close_output_stream E k s)"
  by (rule holds_mono [OF close_output_shape]) (use lists_ok_drop_out in \<open>auto simp: streams_ok_def shape_def\<close>)

lemma shape_upd_in: "shape (upd_in k h s) = shape s" "shape (upd_icommon k g s) = shape s" "shape (px_do c s) = shape s"
  by (auto simp: shape_def upd_icommon_def out_types_def fun_eq_iff)

lemma shape_upd_captures:
  assumes "\<And>d. playback_list (f d) = playback_list d" "\<And>d. primary_output (f d) = primary_output d"
  shows "shape (upd_dev f s) = (case shape s of ((ps, cs, pr), T) \<Rightarrow> ((ps, capture_list (f (dev s)), pr), T))"
  by (simp add: shape_def assms)

lemma streams_ok_kept: "streams_ok s \<Longrightarrow> holds (\<lambda>r. shape (g r) = shape s) m \<Longrightarrow> holds (\<lambda>r. streams_ok (g r)) m"
  by (auto simp: streams_ok_def elim: holds_mono)

lemma in_created_shape:
  assumes "in_created E k config s = Some (c, s')"
  shows "shape s' = ((playback_list (dev s), capture_list (dev s) @ [k], primary_output (dev s)), out_types s, dom (ins s), next_addr s)"
proof -
  obtain f j s1 where "s' = upd_in k j (upd_dev f s1)" "shape s1 = shape s" "playback_list (f (dev s1)) = playback_list (dev s)"
      "capture_list (f (dev s1)) = capture_list (dev s) @ [k]" "primary_output (f (dev s1)) = primary_output (dev s)"
    using assms by (force simp: in_created_def Let_def px_ask_def case_prod_unfold shape_upd_in split: if_splits Option.bind_splits)
  then show ?thesis by (simp only: shape_upd_in) (simp add: shape_def)
qed

lemma streams_ok_open_input:
  "streams_ok s \<Longrightarrow> holds (\<lambda>r. streams_ok (snd (snd (snd r)))) (adev_open_input_stream E handle devices config flags source s)"
proof -
  assume ok: "streams_ok s"
  obtain ps cs pr T D n where sh: "shape s = ((ps, cs, pr), T, D, n)" by (cases "shape s") auto
  note parts = shape_parts [OF sh]
  have sok: "lists_ok ((ps, cs, pr), T, D, n)" using ok sh by (simp add: streams_ok_def)
  define s1 where "s1 = put_in n (new_in handle devices flags source config) (px_do calloc_stream s)"
  have s1: "shape s1 = ((ps, cs, pr), T, insert n D, Suc n)" by (simp add: s1_def shape_put_in parts)
  have drop: "streams_ok (free_in n s2)" if "shape s2 = ((ps, cs, pr), T, insert n D, Suc n)" for s2
    using lists_ok_skip [OF sok] lists_ok_unused [OF sok] by (simp add: streams_ok_def shape_free_in shape_parts [OF that])
  have fin: "streams_ok s3" if "in_created E n config s2 = Some (c, s3)" "shape s2 = ((ps, cs, pr), T, insert n D, Suc n)" for s2 c s3
    using in_created_shape [OF that(1)] lists_ok_add_in [OF sok] by (simp add: streams_ok_def shape_parts [OF that(2)])
  show ?thesis
    unfolding adev_open_input_stream_def Let_def px_ask_def prod.case parts next_addr_simps s1_def [symmetric]
    by (intro holds_if bind_pair [OF shape.in_type [OF s1]] holds_read [where 'a = stream_in] holds_read [where 'a = "audio_config \<times> hal"])
      (auto simp: ok [unfolded streams_ok_def] streams_ok_def [of "px_do _ _"] shape_upd_in intro: drop fin)
qed

lemma streams_ok_close_input: "streams_ok s \<Longrightarrow> holds streams_ok (adev_close_input_stream E k s)"
proof -
  assume ok: "streams_ok s"
  have rm: "streams_ok (free_in k (px_do c (upd_dev (\<lambda>d. d\<lparr>capture_list := removeAll k (capture_list d)\<rparr>) s1)))" if "shape s1 = shape s" for s1 c
    using that ok lists_ok_drop_in [where k = k] unfolding streams_ok_def shape_free_in by (simp add: shape_def)
  show ?thesis
    unfolding adev_close_input_stream_def Let_def
    by (intro holds_bind [OF shape.in_standby [OF refl]] holds_read [where 'a = stream_in] holds_bind [where P = "\<lambda>s1. shape s1 = shape s"] holds_if
        shape.set_route_in) (auto simp: shape_def out_types_def intro!: rm)
qed

lemma streams_ok_exec: "streams_ok s \<Longrightarrow> hal_exec E e s = Some s' \<Longrightarrow> streams_ok s'"
proof (rule holdsD [of streams_ok])
  assume ok: "streams_ok s"
  note kept = streams_ok_kept [OF ok, where g = "\<lambda>s. s"]
  show "holds streams_ok (hal_exec E e s)"
    by (cases e; (rule kept, simp add: holds_map shape.stream_ops shape.device_ops shape.adev_set_mic_mute; fail)?)
      (simp_all add: holds_map streams_ok_open_output streams_ok_open_input streams_ok_close_output streams_ok_close_input ok)
qed

section \<open>Every state that is reached\<close>

lemma init_route_state: "adev_init_route E s = Some (r, s') \<Longrightarrow>
  outs s' = outs s \<and> ins s' = ins s \<and> last_route p (px_log s') = last_route p (px_log s) \<and> (resets_match p (px_log s) \<longrightarrow> resets_match p (px_log s'))"
  by (auto simp: adev_init_route_def px_ask_def Let_def route_of_def split: if_splits option.splits)

lemma open_device_ok:
  assumes "open_device E m = Some (0, m')" "outs (hal_state m) = Map.empty" "ins (hal_state m) = Map.empty"
    "\<And>p. last_route p (px_log (hal_state m)) = None" "\<And>p. resets_match p (px_log (hal_state m))"
  shows "routes_ok (hal_state m')" "status_ok (hal_state m')" "streams_ok (hal_state m')"
proof -
  let ?p = "px_query E proxy_init (hal_state m)"
  let ?s = "upd_dev (\<lambda>d. d\<lparr>proxy := ?p\<rparr>) (px_do proxy_init (hal_state m))"
  obtain s1 f where s1: "adev_init_route E ?s = Some (True, s1)"
    and m': "hal_state m' = px_do (proxy_init_offload_effect_lib ?p) (upd_dev (\<lambda>d. d\<lparr>factory := f\<rparr>) (px_do calloc_factory (upd_dev initial_device s1)))"
    using assms(1) by (auto simp: open_device_def px_ask_def factory_init_def open_failed_def Let_def split: if_splits Option.bind_splits)
  note r = init_route_state [OF s1]
  show "routes_ok (hal_state m')" "status_ok (hal_state m')" "streams_ok (hal_state m')"
    using r [of Playback_path] r [of Capture_path] assms(2-5)
    by (simp_all add: m' routes_defs status_ok_def streams_defs initial_device_def route_of_def dom_def)
qed

lemma opened_ok:
  assumes "loaded m" "adev_open E name m = Some (0, m')"
  shows "routes_ok (hal_state m')" "status_ok (hal_state m')" "streams_ok (hal_state m')"
proof -
  let ?m = "m\<lparr>singleton := INSTANCE, hal_state := px_do calloc_device (hal_state m)\<lparr>dev := zero_device\<rparr>\<rparr>"
  have opened: "open_device E ?m = Some (0, m')"
    using assms by (auto simp: adev_open_def get_instance_def loaded_def px_ask_def split: if_splits)
  show "routes_ok (hal_state m')" "status_ok (hal_state m')" "streams_ok (hal_state m')"
    using assms(1) by (intro open_device_ok [OF opened]; simp add: loaded_def route_of_def)+
qed

lemma reachable_ok:
  assumes "hal_reachable E s"
  shows "routes_ok s" "streams_ok s" "status_ok s"
  using assms
  by (induction rule: hal_reachable.induct) (auto intro: opened_ok routes.hal_exec_result streams_ok_exec status.hal_exec_result)

end
