(* ===== verification/Audio_Behaviour.thy ===== *)
theory Audio_Behaviour
  imports Audio_Reach "HOL-Library.Sublist"
begin

text \<open>
  What holds of the primary audio HAL in every state that is reached, and what single operations do in
  the situations that matter: a stream that starts and one that goes to standby, the thread of an
  offload stream that is ended, and the situations in which the code goes wrong, on the calls that
  lead there.
\<close>

section \<open>Every state\<close>

text \<open>
  C5 (hal_routes_sound). Whatever the clients call and however the offload threads run, the device and
  the hardware agree on the playback path. While it is recorded as routed, the last call that concerned
  it set the usage, the device and the modifier that are recorded, and every reset named the three of
  the path that was set; only on a device of a Bluetooth headset the band of the modifier, narrow or
  wide, may be another one. Otherwise nothing is recorded and no path is set. The capture path is set
  exactly when it is recorded as routed.
\<close>

theorem hal_routes_sound:
  assumes "hal_reachable E s"
  shows "routes_ok s \<and>
    (is_playback_path_routed (dev s) \<and> modifiers (active_playback_device (dev s)) = {MODIFIER_NONE} \<longrightarrow>
       last_route Playback_path (px_log s) =
         Some (active_playback_ausage (dev s), active_playback_device (dev s), active_playback_modifier (dev s), True))"
  using reachable_ok(1) [OF assms] by (auto simp: routes_ok_def playback_ok_def dest: set_to_exact)

text \<open>
  C6 (hal_streams_sound). In every state that is reached the lists of the device hold exactly the streams
  that exist, each once, no address is used twice, and the primary output, when there is one, is the
  only stream of that type. Only a compress offload stream is ever paused.
\<close>

theorem hal_streams_sound:
  assumes "hal_reachable E s"
  shows "streams_ok s \<and> status_ok s"
  using reachable_ok [OF assms] by simp

text \<open>
  C14 (device_selection_defined). The hardware device for a set of platform devices is found in every
  state outside of a call. In a call there must be a voice manager, and for a microphone or the uplink
  of a call there must be a primary output whose own devices are neither: only then does the function,
  which calls itself for that output, return.
\<close>

theorem device_selection_defined:
  "(\<exists>dv. get_device_id s devices = Some dv) \<longleftrightarrow>
     \<not> isCallMode (dev s) \<or>
     voice (dev s) \<noteq> None \<and>
       (\<not> refers devices \<or> (\<exists>x. deref_out s (primary_output (dev s)) = Some x \<and> \<not> refers (requested_devices (out_common x))))"
  by (rule get_device_id_returns)

section \<open>Playing\<close>

lemma those_map: "(\<And>i. i \<in> set xs \<Longrightarrow> f i \<noteq> None) \<Longrightarrow> those (map f xs) = Some (map (\<lambda>i. the (f i)) xs)"
  by (induction xs) (auto split: option.split)

definition inactive :: "stream_out \<Rightarrow> bool" where
  "inactive x \<longleftrightarrow> stream_type (out_common x) = ASTREAM_PLAYBACK_AUX_DIGITAL \<or> stream_type (out_common x) = ASTREAM_PLAYBACK_USB_DEVICE
     \<or> stream_status (out_common x) = STATUS_STANDBY"

lemma out_streams_defined:
  assumes "set (playback_list (dev s)) \<subseteq> dom (outs s)"
  shows "out_streams s = Some (map (\<lambda>i. (i, the (outs s i))) (playback_list (dev s)))"
  unfolding out_streams_def using assms by (subst those_map) (auto simp: domIff subset_iff option.map_sel)

lemma no_other_active:
  assumes "set (playback_list (dev s)) \<subseteq> dom (outs s)" "\<And>i x. i \<noteq> k \<Longrightarrow> outs s i = Some x \<Longrightarrow> inactive x"
  shows "get_active_playback_count s (Some k) = Some 0"
proof -
  have "filter (\<lambda>(i, x). Some i \<noteq> Some k \<and> stream_type (out_common x) \<noteq> ASTREAM_PLAYBACK_AUX_DIGITAL
       \<and> stream_type (out_common x) \<noteq> ASTREAM_PLAYBACK_USB_DEVICE \<and> STATUS_STANDBY < stream_status (out_common x))
     (map (\<lambda>i. (i, the (outs s i))) (playback_list (dev s))) = []"
    using assms(1) by (auto simp: filter_empty_conv dest!: subsetD) (use assms(2) inactive_def in blast)
  then show ?thesis by (simp add: get_active_playback_count_def out_streams_defined [OF assms(1)] del: filter_map)
qed

text \<open>Resetting the playback path without a call to drive.\<close>

lemma unroute_out:
  assumes "outs s k = Some x" "set (playback_list (dev s)) \<subseteq> dom (outs s)" "\<And>i y. i \<noteq> k \<Longrightarrow> outs s i = Some y \<Longrightarrow> inactive y"
    "\<not> isCPCallMode (dev s)" "\<not> isFMRadioOn (dev s)" "\<not> is_factory_loopback_mode (factory (dev s))"
  shows "set_route_out E k False NON_FORCE_ROUTE s = Some (unroute_playback False s)"
  using assms no_other_active [OF assms(2,3)] by (auto simp: set_route_out_def Let_def is_factory_loopback_mode_def split: option.split)

lemma unroute_playback_dev [simp]: "\<not> is_playback_path_routed (dev (unroute_playback False s))"
  by (simp add: unroute_playback_def set_playback_def)

text \<open>A thread that answers a message comes to an end when the client has set its callback.\<close>

lemma offload_finish_plain:
  assumes "outs s k = Some x" "off_callback (offload x) \<noteq> NULL"
  shows "\<exists>s' x'. offload_finish E k s = Some s' \<and> outs s' = (outs s)(k \<mapsto> x') \<and> dev s' = dev s"
  using assms
  by (cases "thread_msg (offload x)")
    (auto simp: offload_finish_def offload_answer_def call_offload_client_def px_ask_def Let_def upd_offload_def out_status_def upd_ocommon_def)

lemma out_shut_plain:
  assumes "outs s k = Some x" "callback_thread_blocked (offload x) \<Longrightarrow> off_callback (offload x) \<noteq> NULL"
  shows "\<exists>s' x'. out_shut E k x s = Some s' \<and> outs s' = (outs s)(k \<mapsto> x') \<and> stream_status (out_common x') = STATUS_STANDBY
    \<and> dev s' = (dev s)\<lparr>voipse_on := voipse_on (dev s')\<rparr>"
proof -
  let ?m = "if stream_type (out_common x) = ASTREAM_PLAYBACK_COMPR_OFFLOAD \<and> callback_thread_blocked (offload x)
      then offload_finish E k s else Some s"
  have "\<exists>s1 x1. ?m = Some s1 \<and> outs s1 = (outs s)(k \<mapsto> x1) \<and> dev s1 = dev s"
  proof (cases "stream_type (out_common x) = ASTREAM_PLAYBACK_COMPR_OFFLOAD \<and> callback_thread_blocked (offload x)")
    case True
    then show ?thesis using offload_finish_plain [OF assms(1), of E] assms(2) by simp
  next
    case False
    then show ?thesis using fun_upd_triv [of "outs s" k] assms(1) by (intro exI [of _ s] exI [of _ x]) auto
  qed
  then have "\<exists>s'. out_shut E k x s = Some s' \<and> (\<forall>i. i \<noteq> k \<longrightarrow> outs s' i = outs s i) \<and> dev s' = (dev s)\<lparr>voipse_on := voipse_on (dev s')\<rparr>
      \<and> (\<exists>x'. outs s' k = Some x' \<and> stream_status (out_common x') = STATUS_STANDBY)"
    using assms(1) by (auto simp: out_shut_def Let_def out_status_def upd_ocommon_def)
  then obtain s' x' where "out_shut E k x s = Some s'" "\<forall>i. i \<noteq> k \<longrightarrow> outs s' i = outs s i" "outs s' k = Some x'"
      "stream_status (out_common x') = STATUS_STANDBY" "dev s' = (dev s)\<lparr>voipse_on := voipse_on (dev s')\<rparr>"
    by blast
  moreover from this have "outs s' = (outs s)(k \<mapsto> x')" by (simp add: fun_eq_iff)
  ultimately show ?thesis by blast
qed

lemma dev_parts:
  assumes "d' = d\<lparr>voipse_on := v\<rparr>"
  shows "playback_list d' = playback_list d" "isCPCallMode d' = isCPCallMode d" "isFMRadioOn d' = isFMRadioOn d" "factory d' = factory d"
  by (simp_all add: assms isCPCallMode_def isFMRadioOn_def)

lemma out_unroute_plain:
  assumes "outs s k = Some x" "set (playback_list (dev s)) \<subseteq> dom (outs s)" "\<And>i y. i \<noteq> k \<Longrightarrow> outs s i = Some y \<Longrightarrow> inactive y"
    "\<not> isCPCallMode (dev s)" "\<not> isFMRadioOn (dev s)" "\<not> is_factory_loopback_mode (factory (dev s))"
  shows "\<exists>s'. out_unroute E k t s = Some s' \<and> outs s' = outs s \<and> \<not> is_playback_path_routed (dev s')"
proof -
  let ?s = "if t = ASTREAM_PLAYBACK_INCALL_MUSIC then upd_dev (\<lambda>d. d\<lparr>incallmusic_on := False\<rparr>) s else s"
  have "set_route_out E k False NON_FORCE_ROUTE ?s = Some (unroute_playback False ?s)"
    by (rule unroute_out) (use assms in \<open>auto simp: isCPCallMode_def isFMRadioOn_def split: if_splits\<close>)
  then show ?thesis using assms(4) by (auto simp: out_unroute_def)
qed

text \<open>
  C11 (standby_releases_path). When the last stream that plays goes to standby, outside of a call of the
  modem, the radio and the loopback test, the call returns, the stream is in standby and the playback
  path of the hardware is reset, in every state of the device that is reached. If the thread of an
  offload stream is at work on a message, for which the call waits, the client must have set its
  callback.
\<close>

theorem standby_releases_path:
  assumes "hal_reachable E s" "outs s k = Some x" "stream_status (out_common x) \<noteq> STATUS_STANDBY"
    "callback_thread_blocked (offload x) \<Longrightarrow> off_callback (offload x) \<noteq> NULL"
    "\<not> isCPCallMode (dev s)" "\<not> isFMRadioOn (dev s)" "\<not> is_factory_loopback_mode (factory (dev s))"
    "\<And>i y. i \<noteq> k \<Longrightarrow> outs s i = Some y \<Longrightarrow> inactive y"
  shows "\<exists>s' x'. out_standby E k s = Some s' \<and> outs s' k = Some x' \<and> stream_status (out_common x') = STATUS_STANDBY
    \<and> \<not> is_playback_path_routed (dev s') \<and> \<not> is_set Playback_path (px_log s')"
proof -
  have streams: "set (playback_list (dev s)) = dom (outs s)"
    using reachable_ok(2) [OF assms(1)] by (auto simp: streams_defs dom_def)
  obtain s1 x1 where s1: "out_shut E k x s = Some s1" "outs s1 = (outs s)(k \<mapsto> x1)" "stream_status (out_common x1) = STATUS_STANDBY"
      "dev s1 = (dev s)\<lparr>voipse_on := voipse_on (dev s1)\<rparr>"
    using out_shut_plain [OF assms(2,4)] by blast
  obtain s2 where s2: "out_unroute E k (stream_type (out_common x)) s1 = Some s2" "outs s2 = outs s1" "\<not> is_playback_path_routed (dev s2)"
    using out_unroute_plain [of s1 k x1 E "stream_type (out_common x)"] s1(2) dev_parts [OF s1(4)] streams assms(5-8)
    by (auto split: if_splits)
  have "out_standby E k s = Some (upd_out k (\<lambda>x. x\<lparr>force := NON_FORCE_ROUTE, rollback_devices := AD_NONE\<rparr>) s2)" (is "_ = Some ?s'")
    using assms(2,3) s1(1) s2(1) by (simp add: out_standby_def)
  moreover have "outs ?s' k = Some (x1\<lparr>force := NON_FORCE_ROUTE, rollback_devices := AD_NONE\<rparr>)" using s1(2) s2(2) by simp
  moreover note s2(3) s1(3)
  moreover have "hal_reachable E ?s'" using hal_reachable.step [OF assms(1), of "Out_standby k"] calculation(1) by simp
  then have "routes_ok ?s'" by (rule reachable_ok)
  ultimately show ?thesis by (auto simp: routes_ok_def playback_ok_def)
qed

text \<open>Outside of calls, radio and tests a stream is routed by its own usage and devices.\<close>

definition plain_mode :: "audio_device \<Rightarrow> bool" where
  "plain_mode d \<longleftrightarrow> amode d = AUDIO_MODE_NORMAL \<and> \<not> isFactoryMode d \<and> \<not> isFMRadioOn d \<and> \<not> voipse_on d"

lemma plain_mode_simps:
  assumes "plain_mode d"
  shows "\<not> isCPCallMode d" "\<not> isAPCallMode d" "\<not> isCallMode d" "\<not> isFactoryMode d" "\<not> isFMRadioOn d" "\<not> voipse_on d" "\<not> need_voipse_on d"
  using assms by (simp_all add: plain_mode_def isCPCallMode_def isAPCallMode_def isCallMode_def need_voipse_on_def)

lemma route_out_plain:
  assumes "plain_mode (dev s)" "outs s k = Some x"
    "stream_usage (out_common x) \<noteq> AUSAGE_MEDIA \<or> plain_device (dev s) (requested_devices (out_common x)) \<noteq> DEVICE_AUX_DIGITAL"
  shows "set_route_out E k True NON_FORCE_ROUTE s =
    Some (route_playback (stream_usage (out_common x), plain_device (dev s) (requested_devices (out_common x)),
       adev_get_modifier (dev s) (plain_device (dev s) (requested_devices (out_common x)))) s)"
  using assms(2,3) plain_mode_simps [OF assms(1)]
  by (auto simp: set_route_out_def Let_def out_ausage_def adev_get_playback_ausage_def out_device_id_def get_device_id_plain)

lemma route_playback_dev:
  "is_playback_path_routed (dev (route_playback path s))" "active_playback_device (dev (route_playback path s)) = fst (snd path)"
  "active_playback_ausage (dev (route_playback path s)) = fst path" "plain_mode (dev (route_playback path s)) = plain_mode (dev s)"
  by (simp_all add: route_playback_def set_playback_def proxy_route_def plain_mode_def isFactoryMode_def isFMRadioOn_def)

text \<open>
  C12 (write_starts_stream). The first write to a stream in standby, in normal mode without factory
  test, radio and VoIP speech, to a stream that is neither offloaded nor music for a call, and when the
  hardware does not fail: the only calls it makes set the playback path to the device that the client
  asked for, when no path is set, open the stream, write the buffer and start the stream, in this
  order. The stream plays, and the result is what the hardware took. For media on a digital output
  this holds when a path is set already.
\<close>

theorem write_starts_stream:
  assumes "plain_mode (dev s)" "outs s k = Some x" "stream_status (out_common x) = STATUS_STANDBY"
    "stream_type (out_common x) \<noteq> ASTREAM_PLAYBACK_INCALL_MUSIC" "stream_type (out_common x) \<noteq> ASTREAM_PLAYBACK_COMPR_OFFLOAD"
    "\<not> is_playback_path_routed (dev s) \<Longrightarrow>
       stream_usage (out_common x) \<noteq> AUSAGE_MEDIA \<or> plain_device (dev s) (requested_devices (out_common x)) \<noteq> DEVICE_AUX_DIGITAL"
    "\<And>cs. px E cs (proxy_open_playback_stream (proxy_stream (out_common x)) 0) = 0"
    "\<And>cs. px E cs (proxy_start_playback_stream (proxy_stream (out_common x))) = 0"
    "\<And>cs. px E cs (proxy_write_playback_buffer (proxy_stream (out_common x)) bytes) = n" "0 \<le> n" "0 < bytes"
    "dv = plain_device (dev s) (requested_devices (out_common x))"
  shows "\<exists>s' x'. out_write E k True bytes s = Some (n, s') \<and> outs s' k = Some x' \<and> stream_status (out_common x') = STATUS_PLAYING
    \<and> is_playback_path_routed (dev s')
    \<and> (\<not> is_playback_path_routed (dev s) \<longrightarrow> active_playback_device (dev s') = dv \<and> active_playback_ausage (dev s') = stream_usage (out_common x))
    \<and> px_log s' = [proxy_start_playback_stream (proxy_stream (out_common x)),
        proxy_write_playback_buffer (proxy_stream (out_common x)) bytes, proxy_open_playback_stream (proxy_stream (out_common x)) 0] @
        (if is_playback_path_routed (dev s) then []
         else [proxy_set_route Playback_path (stream_usage (out_common x)) dv (adev_get_modifier (dev s) dv) True]) @ px_log s"
proof -
  let ?c = "out_common x"
  let ?path = "(stream_usage ?c, plain_device (dev s) (requested_devices ?c), adev_get_modifier (dev s) (plain_device (dev s) (requested_devices ?c)))"
  define s1 where "s1 = (if is_playback_path_routed (dev s) then out_status k STATUS_READY s else route_playback ?path (out_status k STATUS_READY s))"
  have x1: "outs s1 k = Some (x\<lparr>out_common := ?c\<lparr>stream_status := STATUS_READY\<rparr>\<rparr>)"
    using assms(2) by (simp add: s1_def out_status_def upd_ocommon_def)
  have d1: "plain_mode (dev s1)" "is_playback_path_routed (dev s1)"
    "\<not> is_playback_path_routed (dev s) \<Longrightarrow> active_playback_device (dev s1) = fst (snd ?path) \<and> active_playback_ausage (dev s1) = fst ?path"
    using assms(1) by (simp_all add: s1_def route_playback_dev)
  define s2 where "s2 = out_status k STATUS_IDLE (px_do (proxy_open_playback_stream (proxy_stream ?c) 0) s1)"
  have x0: "outs (out_status k STATUS_READY s) k = Some (x\<lparr>out_common := ?c\<lparr>stream_status := STATUS_READY\<rparr>\<rparr>)"
    using assms(2) by (simp add: out_status_def upd_ocommon_def)
  have "\<not> is_playback_path_routed (dev s) \<Longrightarrow>
      set_route_out E k True NON_FORCE_ROUTE (out_status k STATUS_READY s) = Some (route_playback ?path (out_status k STATUS_READY s))"
    using route_out_plain [OF _ x0] assms(1,6) by simp
  then have "(if \<not> is_playback_path_routed (dev s) then set_route_out E k True NON_FORCE_ROUTE (out_status k STATUS_READY s)
      else Some (out_status k STATUS_READY s)) = Some s1"
    by (simp add: s1_def)
  then have o: "out_write_open E k s = Some (0, False, s2)"
    using assms(2,4,7) plain_mode_simps [OF d1(1)]
    by (simp add: out_write_open_def needs_voipse_def px_ask_def px_query_def s2_def)
  have x2: "outs s2 k = Some (x\<lparr>out_common := ?c\<lparr>stream_status := STATUS_IDLE\<rparr>\<rparr>)" "dev s2 = dev s1"
    using x1 by (simp_all add: s2_def out_status_def upd_ocommon_def)
  define s3 where "s3 = out_status k STATUS_PLAYING (px_do (proxy_start_playback_stream (proxy_stream ?c))
    (px_do (proxy_write_playback_buffer (proxy_stream ?c) bytes) s2))"
  have "out_write_data E k bytes False s2 = Some (n, s3)"
    using x2 assms(4,5,8-10) plain_mode_simps [OF d1(1)]
    by (simp add: out_write_data_def out_write_reopen_def needs_voipse_def px_ask_def px_query_def s3_def)
  then have "out_write E k True bytes s = Some (n, s3)" using o x2(1) assms(2,3,11) by (simp add: out_write_def)
  moreover have "outs s3 k = Some (x\<lparr>out_common := ?c\<lparr>stream_status := STATUS_PLAYING\<rparr>\<rparr>)" "dev s3 = dev s1"
    using x2 by (simp_all add: s3_def out_status_def upd_ocommon_def)
  moreover have "px_log s3 = proxy_start_playback_stream (proxy_stream ?c) # proxy_write_playback_buffer (proxy_stream ?c) bytes #
      proxy_open_playback_stream (proxy_stream ?c) 0 # px_log s1"
    by (simp add: s3_def s2_def)
  moreover have "px_log s1 = (if is_playback_path_routed (dev s) then []
      else [proxy_set_route Playback_path (fst ?path) (fst (snd ?path)) (snd (snd ?path)) True]) @ px_log s"
    by (simp add: s1_def route_playback_def proxy_route_def)
  ultimately show ?thesis using d1 assms(12) by simp
qed

text \<open>
  When a Bluetooth headset changes to wide band while a path to it is set, and
  the stream is routed again, the path is not set anew but the modifier of the wide band is recorded:
  the reset that follows names a path that was never set.
\<close>

theorem stale_modifier_reset:
  assumes "plain_mode (dev s)" "outs s k = Some x" "plain_device (dev s) (requested_devices (out_common x)) = DEVICE_BT_HEADSET"
    "is_playback_path_routed (dev s)" "playback_route (dev s) = (stream_usage (out_common x), DEVICE_BT_HEADSET, MODIFIER_BT_SCO_RX_NB)"
    "last_route Playback_path (px_log s) = Some (stream_usage (out_common x), DEVICE_BT_HEADSET, MODIFIER_BT_SCO_RX_NB, True)"
    "voice (dev s) = Some v" "bluetooth_samplerate v = WB_SAMPLING_RATE"
  shows "\<exists>s1 s2. set_route_out E k True NON_FORCE_ROUTE s = Some s1 \<and> set_route_out E k False FORCE_ROUTE s1 = Some s2
    \<and> px_log s2 = proxy_set_route Playback_path (stream_usage (out_common x)) DEVICE_BT_HEADSET MODIFIER_BT_SCO_RX_WB False # px_log s
    \<and> last_route Playback_path (px_log s1) \<noteq> Some (stream_usage (out_common x), DEVICE_BT_HEADSET, MODIFIER_BT_SCO_RX_WB, True)"
proof -
  let ?s1 = "route_playback (stream_usage (out_common x), DEVICE_BT_HEADSET, MODIFIER_BT_SCO_RX_WB) s"
  have "set_route_out E k True NON_FORCE_ROUTE s = Some ?s1"
    using route_out_plain [OF assms(1,2), of E] assms(3,7,8) by (simp add: adev_get_modifier_def)
  moreover have "px_log ?s1 = px_log s" using assms(4,5) by (simp add: route_playback_def playback_route_def)
  moreover have "set_route_out E k False FORCE_ROUTE ?s1 = Some (unroute_playback False ?s1)"
    using assms(2) by (simp add: set_route_out_def Let_def)
  ultimately show ?thesis using assms(6) by (simp add: unroute_playback_def route_playback_dev proxy_route_def playback_route_def)
    (simp add: route_playback_def set_playback_def)
qed

section \<open>The end of an offload stream\<close>


definition client_calls :: "px_call list \<Rightarrow> nat" where
  "client_calls cs = length (filter (\<lambda>c. case c of offload_event cb e \<Rightarrow> True | _ \<Rightarrow> False) cs)"

lemma client_calls_simps [simp]:
  "client_calls (offload_event cb e # cs) = Suc (client_calls cs)"
  "client_calls (proxy_offload_compress_func p t # cs) = client_calls cs"
  "client_calls (proxy_stop_playback_stream p # cs) = client_calls cs" "client_calls (calloc_stream # cs) = client_calls cs"
  by (simp_all add: client_calls_def)





section \<open>A device that could not be opened\<close>

text \<open>
  C28 (failed_adev_open_dangles). When the proxy cannot be created, opening the device fails and frees
  it, but the pointer of the singleton stays. The next client that opens the device works on freed
  memory.
\<close>

theorem failed_adev_open_dangles:
  assumes "loaded m" "name = AUDIO_HARDWARE_INTERFACE E" "px_query E calloc_device (hal_state m) \<noteq> NULL" "\<And>cs. px E cs proxy_init = NULL"
  shows "\<exists>m'. adev_open E name m = Some (- ENOSYS, m') \<and> adev_open E name m' = None"
  using assms
  by (auto simp: adev_open_def get_instance_def open_device_def open_failed_def loaded_def px_ask_def px_query_def [of E proxy_init] Let_def)

section \<open>An input stream that is gone\<close>

text \<open>The usage of an input stream outside of a call over the network is never that of the radio.\<close>

lemma capture_ausage_plain:
  assumes "\<not> isAPCallMode (dev s)"
  shows "\<exists>u. adev_get_capture_ausage s x = Some u \<and> u \<noteq> AUSAGE_FM_RADIO_TUNER \<and> u \<noteq> AUSAGE_FM_RADIO_CAPTURE"
  using assms by (auto simp: adev_get_capture_ausage_def adev_get_ausage_for_factory_def Let_def split: option.split loopback_type.split)

lemma in_reconfig_none: "ins s k = Some x \<Longrightarrow> in_reconfig k (config_parm None old put) s = Some (0, s)"
  by (simp add: in_reconfig_def config_parm_def upd_icommon_def upd_in_def fun_upd_idem)

text \<open>The source of voice recognition, 6, stops the stream; it stays the active input.\<close>

lemma recognition_stops:
  assumes "ins s k = Some x" "\<not> isAPCallMode (dev s)" "STATUS_STANDBY < stream_status (in_common x)"
  shows "\<exists>s1 x1. in_change_recognition k (Some ''6'') s = Some s1 \<and> dev s1 = dev s \<and> ins s1 k = Some x1 \<and> stream_status (in_common x1) = STATUS_STANDBY
    \<and> requested_source x1 = 6 \<and> stream_usage (in_common x1) \<noteq> AUSAGE_FM_RADIO_TUNER \<and> stream_usage (in_common x1) \<noteq> AUSAGE_FM_RADIO_CAPTURE"
proof -
  let ?p = "proxy_stream (in_common x)"
  let ?s1 = "upd_in k (\<lambda>x. x\<lparr>requested_source := 6\<rparr>)
    (px_do (proxy_close_capture_stream ?p) (px_do (proxy_stop_capture_stream ?p) (in_status k STATUS_STANDBY s)))"
  let ?x1 = "x\<lparr>in_common := (in_common x)\<lparr>stream_status := STATUS_STANDBY\<rparr>, requested_source := 6\<rparr>"
  have x0: "ins (in_status k STATUS_STANDBY s) k = Some (x\<lparr>in_common := (in_common x)\<lparr>stream_status := STATUS_STANDBY\<rparr>\<rparr>)"
    using assms(1) by (simp add: in_status_def upd_icommon_def)
  obtain u where u: "adev_get_capture_ausage ?s1 ?x1 = Some u" "u \<noteq> AUSAGE_FM_RADIO_TUNER" "u \<noteq> AUSAGE_FM_RADIO_CAPTURE"
    using capture_ausage_plain [of ?s1 ?x1] assms(2) by auto
  have six: "atoi ''6'' = 6" by code_simp
  have "in_change_recognition k (Some ''6'') s = Some (upd_in k (\<lambda>x. x\<lparr>pcm_reconfig := True\<rparr>) (upd_icommon k (\<lambda>c. c\<lparr>stream_usage := u\<rparr>) ?s1))"
    using assms(1,3) x0 u by (simp add: in_change_recognition_def stop_active_input_def six Let_def)
  then show ?thesis using x0 u by (auto simp: upd_icommon_def)
qed

lemma close_stopped_input:
  assumes "ins s k = Some x" "stream_status (in_common x) = STATUS_STANDBY"
    "stream_usage (in_common x) \<noteq> AUSAGE_FM_RADIO_TUNER" "stream_usage (in_common x) \<noteq> AUSAGE_FM_RADIO_CAPTURE"
  shows "\<exists>s'. adev_close_input_stream E k s = Some s' \<and> ins s' k = None \<and> active_input (dev s') = active_input (dev s)"
  using assms by (simp add: adev_close_input_stream_def in_standby_def free_in_def)

text \<open>
  C25 (closed_input_dangles). An input stream that records is told, by its client, to record for voice
  recognition: it is stopped in a way that leaves it as the active input. When it is closed after
  that, it is freed and is still the active input; the next call over the network reads it.
\<close>

theorem closed_input_dangles:
  assumes "ins s k = Some x" "active_input (dev s) = Some k" "STATUS_STANDBY < stream_status (in_common x)" "\<not> isAPCallMode (dev s)"
    "stream_type (in_common x) \<noteq> ASTREAM_CAPTURE_HOTWORD" "stream_type (in_common x) \<noteq> ASTREAM_CAPTURE_USB_DEVICE"
    "parms = [AUDIO_PARAMETER_STREAM_INPUT_SOURCE (names E) \<mapsto> ''6'']"
    "AUDIO_PARAMETER_STREAM_INPUT_SOURCE (names E) \<notin> {AUDIO_PARAMETER_STREAM_ROUTING (names E), AUDIO_PARAMETER_STREAM_FORMAT (names E),
       AUDIO_PARAMETER_STREAM_CHANNELS (names E), AUDIO_PARAMETER_STREAM_SAMPLING_RATE (names E)}"
  shows "\<exists>s'. hal_run E [In_set_parameters k parms, Close_input k] s = Some s' \<and> active_input (dev s') = Some k \<and> ins s' k = None
    \<and> voip_of_input s' = None"
proof -
  obtain s1 x1 where r: "in_change_recognition k (Some ''6'') s = Some s1" "dev s1 = dev s" "ins s1 k = Some x1"
      "stream_status (in_common x1) = STATUS_STANDBY" "requested_source x1 = 6"
      "stream_usage (in_common x1) \<noteq> AUSAGE_FM_RADIO_TUNER" "stream_usage (in_common x1) \<noteq> AUSAGE_FM_RADIO_CAPTURE"
    using recognition_stops [OF assms(1,4,3)] by blast
  have six: "atoi ''6'' = 6" by code_simp
  have p: "parm parms (AUDIO_PARAMETER_STREAM_INPUT_SOURCE (names E)) 32 = Some ''6''"
    "parm parms (AUDIO_PARAMETER_STREAM_ROUTING (names E)) 32 = None" "parm parms (AUDIO_PARAMETER_STREAM_FORMAT (names E)) 32 = None"
    "parm parms (AUDIO_PARAMETER_STREAM_CHANNELS (names E)) 32 = None" "parm parms (AUDIO_PARAMETER_STREAM_SAMPLING_RATE (names E)) 32 = None"
    using assms(7,8) by (auto simp: parm_def)
  have "in_set_parameters E k parms s = Some (0, s1)"
    using assms(1,5,6) r(1,3-5) p
    by (simp add: in_set_parameters_def format_parm_def channel_parm_def rate_parm_def in_reconfig_none [OF r(3)] in_change_source_def six)
  moreover obtain s' where "adev_close_input_stream E k s1 = Some s'" "ins s' k = None" "active_input (dev s') = Some k"
    using close_stopped_input [OF r(3,4,6,7)] r(2) assms(2) by auto
  ultimately show ?thesis by (simp add: voip_of_input_def)
qed

section \<open>Calls\<close>

text \<open>
  C29 (call_mode_outlives_call). A call of the modem that is announced and given up before its stream is
  routed is never ended: the voice manager stays in call mode and the other users of the audio
  hardware are still told that there is a call.
\<close>

theorem call_mode_outlives_call:
  assumes "amode (dev s) = AUDIO_MODE_NORMAL" "voice (dev s) = Some v" "call_status v = CALL_STATUS_CONNECTED" "\<not> keep_call_mode v"
  shows "\<exists>s' v' cs. hal_run E [Set_mode AUDIO_MODE_IN_CALL, Set_mode AUDIO_MODE_NORMAL] s = Some s' \<and> amode (dev s') = AUDIO_MODE_NORMAL
    \<and> voice (dev s') = Some v' \<and> voice_is_call_mode v' \<and> px_log s' = proxy_set_audiomode AUDIO_MODE_NORMAL # proxy_call_status True # cs"
  using assms
  by (simp add: adev_set_mode_def keep_mode_def isCPCallMode_def begin_call_def on_voice_call_mode_def voice_set_call_mode_def
      voice_is_call_active_def voice_is_call_mode_def)

text \<open>Routing leaves the voice manager and the mode alone.\<close>

lemma ril_simps [simp]:
  "ril (px_do c s) = ril s" "ril (upd_dev f s) = ril s" "ril (upd_out k g s) = ril s" "ril (upd_in k h s) = ril s"
  "ril (out_status k t s) = ril s"
  by (simp_all add: px_do_def upd_dev_def upd_out_def upd_in_def out_status_def upd_ocommon_def)

interpretation calls: route_frame "\<lambda>s. voice (dev s) = v \<and> ril s = w" for v w
  by unfold_locales (auto simp: routing_defs)

text \<open>No call is ever taken back.\<close>

interpretation history: hal_frame "\<lambda>s. suffix cs (px_log s)" for cs
  by unfold_locales (auto simp: routing_defs suffix_def)

lemma close_outs_dev: "close_outs concerned changed ks ls = Some ls' \<Longrightarrow> dev (snd ls') = dev (snd ls)"
  by (induction ks arbitrary: ls) (fastforce simp: Let_def case_prod_unfold split: Option.bind_splits if_splits)+

lemma close_ins_dev: "close_ins path call ks ls = Some ls' \<Longrightarrow> dev (snd ls') = dev (snd ls)"
  by (induction ks arbitrary: ls) (fastforce simp: close_in_def Let_def split: Option.bind_splits if_splits)+

lemma interrupt_inactive:
  assumes "voice (dev s) = Some v" "voice_is_call_active v" "active_playback_ausage (dev s) = AUSAGE_INCALL_MUSIC"
    "ril_ok (ril_lib E) (ril s)" "modem_link (ril s)" "s' = interrupt_call E path s"
  shows "\<exists>v'. voice (dev s') = Some v' \<and> \<not> voice_is_call_active v'"
    "clock_state (ril_calls (ril s')) = Some VOICE_AUDIO_TURN_OFF_I2S" "px_log s' = proxy_stop_voice_call # px_log s"
proof -
  define s1 where "s1 = (if \<not> mute_voice v then on_voice (voice_set_rx_mute (ril_lib E) True) s else s)"
  have s1: "voice (dev s1) = Some v" "ril_ok (ril_lib E) (ril s1)" "modem_link (ril s1)" "px_log s1 = px_log s"
    using assms(1,4,5) vm_rx_mute.ok [of "ril_lib E" "(v, ril s)" True] vm_rx_mute.link [of "(v, ril s)" "ril_lib E" True]
    by (auto simp: s1_def on_voice_def voice_set_rx_mute_def)
  have s': "s' = px_do proxy_stop_voice_call (on_voice (voice_set_call_active (ril_lib E) False) s1)"
    using assms(1-3,6) by (simp add: interrupt_call_def s1_def)
  show "\<exists>v'. voice (dev s') = Some v' \<and> \<not> voice_is_call_active v'"
    "clock_state (ril_calls (ril s')) = Some VOICE_AUDIO_TURN_OFF_I2S" "px_log s' = proxy_stop_voice_call # px_log s"
    using s1 assms(2) clock_props(2) [OF s1(2,3), of 0]
    by (simp_all add: s' on_voice_def voice_set_call_active_def voice_is_call_active_def)
qed

lemma update_call_parts:
  assumes "update_call_stream E p current new s = Some s'"
  obtains c b ls lock s1 path call where "close_outs c b (playback_list (dev s)) (\<lambda>_. None, s) = Some ls"
    "close_ins path call (capture_list (dev s)) ls = Some (lock, s1)" "route_call E p lock (interrupt_call E path s1) = Some s'"
  using assms by (auto simp: update_call_stream_def Let_def split: Option.bind_splits)

lemma update_call_inactive:
  assumes "update_call_stream E p current new s = Some s'"
    "voice (dev s) = Some v" "voice_is_call_active v" "active_playback_ausage (dev s) = AUSAGE_INCALL_MUSIC"
    "ril_ok (ril_lib E) (ril s)" "modem_link (ril s)"
  shows "(\<exists>v'. voice (dev s') = Some v' \<and> \<not> voice_is_call_active v') \<and> clock_state (ril_calls (ril s')) = Some VOICE_AUDIO_TURN_OFF_I2S
    \<and> (\<exists>as bs. px_log s' = as @ proxy_stop_voice_call # bs @ px_log s)"
proof -
  obtain c b ls lock s1 path call where o: "close_outs c b (playback_list (dev s)) (\<lambda>_. None, s) = Some ls"
      and i: "close_ins path call (capture_list (dev s)) ls = Some (lock, s1)"
      and r: "route_call E p lock (interrupt_call E path s1) = Some s'"
    using assms(1) by (rule update_call_parts)
  have d: "dev s1 = dev s" using close_outs_dev [OF o] close_ins_dev [OF i] by simp
  have "voice (dev (snd ls)) = voice (dev s) \<and> ril (snd ls) = ril s"
    using holdsD [OF calls.close_outs o] by (cases ls) auto
  then have w: "ril s1 = ril s" using holdsD [OF calls.close_ins i] by auto
  have "suffix (px_log s) (px_log (snd ls))" using holdsD [OF history.close_outs o] by auto
  then have g: "suffix (px_log s) (px_log s1)" using holdsD [OF history.close_ins i] by auto
  define s2 where "s2 = interrupt_call E path s1"
  note x = interrupt_inactive [OF _ assms(3) _ _ _ s2_def, unfolded d w, OF assms(2,4-6)]
  have "suffix (px_log s2) (px_log s')" using holdsD [OF history.route_call r [folded s2_def]] by auto
  moreover have "voice (dev s') = voice (dev s2) \<and> ril s' = ril s2" using holdsD [OF calls.route_call r [folded s2_def]] by auto
  ultimately show ?thesis using x g by (auto simp: suffix_def) blast
qed

text \<open>
  C26 (music_end_silences_call). Music is played into an active call of the modem, on the path for
  such music, with the RIL client connected and a primary output. When the standby of its stream
  returns, the voice call of the proxy was stopped and started again, and the last call was the start;
  but the clock of the modem was turned off and not on again, and for the voice manager the call is
  inactive.
\<close>

theorem music_end_silences_call:
  assumes "outs s k = Some x" "stream_type (out_common x) = ASTREAM_PLAYBACK_INCALL_MUSIC" "stream_status (out_common x) \<noteq> STATUS_STANDBY"
    "incallmusic_on (dev s)" "isCPCallMode (dev s)" "is_playback_path_routed (dev s)" "active_playback_ausage (dev s) = AUSAGE_INCALL_MUSIC"
    "voice (dev s) = Some v" "voice_is_call_active v" "primary_output (dev s) \<noteq> None" "out_standby E k s = Some s'"
    "ril_ok (ril_lib E) (ril s)" "modem_link (ril s)"
  shows "\<exists>v' as bs. px_log s' = proxy_start_voice_call # as @ proxy_stop_voice_call # bs @ px_log s
    \<and> voice (dev s') = Some v' \<and> \<not> voice_is_call_active v' \<and> clock_state (ril_calls (ril s')) = Some VOICE_AUDIO_TURN_OFF_I2S"
proof -
  obtain s1 s2 where s1: "out_shut E k x s = Some s1" and s2: "out_unroute E k ASTREAM_PLAYBACK_INCALL_MUSIC s1 = Some s2"
      and s': "s' = upd_out k (\<lambda>x. x\<lparr>force := NON_FORCE_ROUTE, rollback_devices := AD_NONE\<rparr>) s2"
    using assms(1-3,11) by (auto simp: out_standby_def split: Option.bind_splits)
  have d1: "dev s1 = dev s" "ril s1 = ril s" using s1 assms(2) by (auto simp: out_shut_def Let_def split: if_splits)
  have g: "suffix (px_log s) (px_log s1)" using holdsD [OF history.out_shut s1] by auto
  obtain c s3 p where s3: "update_call_stream E p c c (upd_dev (\<lambda>d. d\<lparr>incallmusic_on := False\<rparr>) s1) = Some s3"
      and s2': "s2 = px_do proxy_start_voice_call s3"
    using s2 assms(4-6,10) by (auto simp: out_unroute_def d1 split: Option.bind_splits)
  from update_call_inactive [OF s3] assms(7-9,12,13) g show ?thesis by (fastforce simp: s' s2' d1 suffix_def)
qed

section \<open>Locks\<close>

text \<open>Setting a path adds nothing else to the calls.\<close>

lemma no_route_set_route [simp]: "\<not> no_route (proxy_set_route p u dv m on)"
  by (auto simp: no_route_def route_of_def)

definition other_calls :: "hal \<Rightarrow> px_call set" where
  "other_calls s = {c \<in> set (px_log s). no_route c}"

interpretation paths: route_only "\<lambda>s. other_calls s = A" for A
  by unfold_locales (auto simp: other_calls_def routing_defs)

lemma unlock_all_log:
  "set (px_log (unlock_all lock ts s)) = set (px_log s) \<union> {mutex_unlock p k | p k. \<exists>t \<in> set ts. lock t = Some (p, k)}"
  by (induction ts arbitrary: s) (auto split: option.split prod.split)

lemma close_outs_log:
  "close_outs concerned changed ks ls = Some ls' \<Longrightarrow>
     ins (snd ls') = ins (snd ls) \<and> (mutex_lock Capture_path k \<in> set (px_log (snd ls')) \<longrightarrow> mutex_lock Capture_path k \<in> set (px_log (snd ls)))"
  by (induction ks arbitrary: ls) (fastforce simp: Let_def case_prod_unfold split: Option.bind_splits if_splits)+

text \<open>The entry for the type of a stream that is not locked is written all the same.\<close>

lemma close_in_log:
  assumes "stream_type (in_common x) = ty i" "ty k \<noteq> ASTREAM_CAPTURE_PRIMARY" "ty k \<noteq> ASTREAM_CAPTURE_CALL" "ty i = ty k \<Longrightarrow> i = k"
  shows "fst (close_in path call i x ls) (ty k) = (if i = k then Some (Capture_path, k) else fst ls (ty k))"
    "mutex_lock Capture_path k \<in> set (px_log (snd (close_in path call i x ls))) \<longleftrightarrow> mutex_lock Capture_path k \<in> set (px_log (snd ls))"
    "ins (snd (close_in path call i x ls)) j = Some y \<Longrightarrow> \<exists>z. ins (snd ls) j = Some z \<and> in_common y = in_common z"
  using assms by (auto simp: close_in_def Let_def split: if_splits)

lemma close_ins_log:
  assumes "close_ins path call ks ls = Some (lock', s')" "\<And>i y. ins (snd ls) i = Some y \<Longrightarrow> stream_type (in_common y) = ty i"
    "ty k \<noteq> ASTREAM_CAPTURE_PRIMARY" "ty k \<noteq> ASTREAM_CAPTURE_CALL" "\<And>i. i \<in> set ks \<Longrightarrow> ty i = ty k \<Longrightarrow> i = k"
    "k \<in> set ks \<or> fst ls (ty k) = Some (Capture_path, k)" "mutex_lock Capture_path k \<notin> set (px_log (snd ls))"
  shows "lock' (ty k) = Some (Capture_path, k) \<and> mutex_lock Capture_path k \<notin> set (px_log s')"
  using assms
proof (induction ks arbitrary: ls)
  case (Cons i ks)
  obtain x where x: "ins (snd ls) i = Some x" "close_ins path call ks (close_in path call i x ls) = Some (lock', s')"
    using Cons.prems(1) by (auto split: Option.bind_splits)
  have tx: "stream_type (in_common x) = ty i" using Cons.prems(2) x(1) by blast
  have ik: "ty i = ty k \<Longrightarrow> i = k" using Cons.prems(5) by simp
  note step = close_in_log [OF tx Cons.prems(3,4) ik, where path = path and call = call and ls = ls]
  show ?case
  proof (rule Cons.IH [OF x(2)])
    show "stream_type (in_common y) = ty j" if "ins (snd (close_in path call i x ls)) j = Some y" for j y
      using step(3) [OF _ that] Cons.prems(2) by fastforce
  qed (use Cons.prems step in auto)
qed auto

lemma interrupt_call_log: "mutex_lock q k \<in> set (px_log (interrupt_call E path s)) \<longleftrightarrow> mutex_lock q k \<in> set (px_log s)"
  by (simp add: interrupt_call_def split: option.split)

lemma route_call_log:
  assumes "route_call E p lock s = Some s'" "lock t = Some (q, k)"
  shows "mutex_unlock q k \<in> set (px_log s')" "mutex_lock q k \<in> set (px_log s') \<Longrightarrow> mutex_lock q k \<in> set (px_log s)"
proof -
  obtain s1 where s1: "other_calls s1 = other_calls s" "s' = unlock_all lock all_types s1"
    using assms(1)
    by (auto simp: route_call_def dest: holdsD [OF paths.set_route_out [OF refl]] split: if_splits Option.bind_splits intro: that)
  have "no_route (mutex_lock q k)" by (simp add: no_route_def route_of_def)
  then have "mutex_lock q k \<in> set (px_log s1) \<longleftrightarrow> mutex_lock q k \<in> set (px_log s)" using s1(1) by (auto simp: other_calls_def)
  moreover have "t \<in> set all_types" by (cases t) (simp_all add: all_types_def)
  ultimately show "mutex_unlock q k \<in> set (px_log s')" "mutex_lock q k \<in> set (px_log s') \<Longrightarrow> mutex_lock q k \<in> set (px_log s)"
    using assms(2) by (auto simp: s1(2) unlock_all_log)
qed

text \<open>
  C27 (foreign_mutex_unlocked). An update of a call releases the lock of every input stream in the list
  that is neither a primary nor a call stream, without ever having taken it: whatever thread works on
  that stream loses its lock.
\<close>

theorem foreign_mutex_unlocked:
  assumes "update_call_stream E p current new s = Some s'" "k \<in> set (capture_list (dev s))"
    "\<And>i y. ins s i = Some y \<Longrightarrow> stream_type (in_common y) = ty i" "ty k = ASTREAM_CAPTURE_LOW_LATENCY"
    "\<And>i. ty i = ASTREAM_CAPTURE_LOW_LATENCY \<Longrightarrow> i = k" "mutex_lock Capture_path k \<notin> set (px_log s)"
  shows "mutex_unlock Capture_path k \<in> set (px_log s') \<and> mutex_lock Capture_path k \<notin> set (px_log s')"
proof -
  obtain c b ls lock s1 path call where o: "close_outs c b (playback_list (dev s)) (\<lambda>_. None, s) = Some ls"
      and i: "close_ins path call (capture_list (dev s)) ls = Some (lock, s1)"
      and r: "route_call E p lock (interrupt_call E path s1) = Some s'"
    using assms(1) by (rule update_call_parts)
  have "lock (ty k) = Some (Capture_path, k) \<and> mutex_lock Capture_path k \<notin> set (px_log s1)"
  proof (rule close_ins_log [OF i])
    show "\<And>j y. ins (snd ls) j = Some y \<Longrightarrow> stream_type (in_common y) = ty j" using close_outs_log [OF o] assms(3) by simp
    show "mutex_lock Capture_path k \<notin> set (px_log (snd ls))" using close_outs_log [OF o, of k] assms(6) by auto
  qed (simp_all add: assms(2,4,5))
  then show ?thesis using route_call_log [OF r] interrupt_call_log by blast
qed

section \<open>Examples\<close>

text \<open>A proxy that never fails, on a platform with plain names, and the device opened with it.\<close>

definition plain_env :: hal_env where
  "plain_env =
     \<lparr>px = \<lambda>cs c. (case c of proxy_create_playback_stream t \<Rightarrow> 1 | proxy_create_capture_stream t u \<Rightarrow> 1 | proxy_init \<Rightarrow> 1
            | proxy_init_route f \<Rightarrow> 1 | calloc_stream \<Rightarrow> 1 | calloc_device \<Rightarrow> 1 | calloc_factory \<Rightarrow> 1
            | proxy_get_actual_sampling_rate p \<Rightarrow> 48000 | proxy_write_playback_buffer p n \<Rightarrow> n | proxy_read_capture_buffer p n \<Rightarrow> n | _ \<Rightarrow> 0),
      ril_lib = ready_modem, voice_names = some_names,
      names = \<lparr>AUDIO_PARAMETER_STREAM_ROUTING = ''routing'', AUDIO_PARAMETER_STREAM_FORMAT = ''format'',
        AUDIO_PARAMETER_STREAM_CHANNELS = ''channels'', AUDIO_PARAMETER_STREAM_SAMPLING_RATE = ''sampling_rate'',
        AUDIO_PARAMETER_STREAM_INPUT_SOURCE = ''input_source'', AUDIO_PARAMETER_DEVICE_CONNECT = ''connect'',
        AUDIO_PARAMETER_DEVICE_DISCONNECT = ''disconnect'', AUDIO_PARAMETER_KEY_SCREEN_STATE = ''screen_state''\<rparr>,
      volume_scale = \<lambda>v n. n, volume_property = ''5'', str_parms_int = \<lambda>v. None, out_mask_from_count = \<lambda>n. 3, in_mask_from_count = \<lambda>n. 12,
      AUDIO_HARDWARE_INTERFACE = ''audio_hw_if'', mixer_info = None,
      SUPPORT_STHAL_INTERFACE = False, SUPPORT_SPEECH_PARAM = False, USE_SITRIL = False\<rparr>"

definition boot :: hal_module where
  "boot = \<lparr>singleton = NO_INSTANCE, adev_ref_count = 0,
     hal_state = \<lparr>dev = zero_device, outs = Map.empty, ins = Map.empty, next_addr = 0, ril = ril_start, px_log = []\<rparr>\<rparr>"

definition opened_hal :: hal where
  "opened_hal = hal_state (snd (the (adev_open plain_env ''audio_hw_if'' boot)))"

definition some_config :: audio_config where
  "some_config = \<lparr>sample_rate = 48000, channel_mask = 3, format = 1, frame_count = 0\<rparr>"

definition playing :: "hal option" where
  "playing = hal_run plain_env [Open_output 1 2 8 some_config, Out_write 0 True 10] opened_hal"

definition recording :: "hal option" where
  "recording = hal_run plain_env [Open_input 1 0x80000004 some_config 0 1, In_read 0 True 10] opened_hal"

lemma opened_reachable: "hal_reachable plain_env opened_hal"
proof -
  obtain m' where "adev_open plain_env ''audio_hw_if'' boot = Some (0, m')" "hal_state m' = opened_hal"
    by (simp add: opened_hal_def adev_open_def get_instance_def open_device_def adev_init_route_def px_ask_def px_query_def factory_init_def
        boot_def plain_env_def Let_def)
  moreover have "loaded boot" by (simp add: loaded_def boot_def)
  ultimately show ?thesis using hal_reachable.opened by metis
qed

lemma playing_state:
  "\<exists>s x. playing = Some s \<and> is_playback_path_routed (dev s) \<and> playback_list (dev s) = [0] \<and> outs s 0 = Some x
     \<and> stream_status (out_common x) = STATUS_PLAYING \<and> \<not> callback_thread_blocked (offload x)
     \<and> \<not> isCPCallMode (dev s) \<and> \<not> isFMRadioOn (dev s) \<and> \<not> is_factory_loopback_mode (factory (dev s))"
proof -
  have "case playing of None \<Rightarrow> False | Some s \<Rightarrow>
      (case outs s 0 of None \<Rightarrow> False | Some x \<Rightarrow> stream_status (out_common x) = STATUS_PLAYING \<and> \<not> callback_thread_blocked (offload x))
      \<and> is_playback_path_routed (dev s) \<and> playback_list (dev s) = [0]
      \<and> \<not> isCPCallMode (dev s) \<and> \<not> isFMRadioOn (dev s) \<and> \<not> is_factory_loopback_mode (factory (dev s))"
    by code_simp
  then show ?thesis by (auto split: option.splits)
qed

lemma recording_state:
  "\<exists>s x. recording = Some s \<and> capture_list (dev s) = [0] \<and> ins s 0 = Some x \<and> stream_status (in_common x) = STATUS_PLAYING
     \<and> stream_type (in_common x) = ASTREAM_CAPTURE_PRIMARY \<and> active_input (dev s) = Some 0 \<and> \<not> isAPCallMode (dev s)"
proof -
  have "case recording of None \<Rightarrow> False | Some s \<Rightarrow>
      (case ins s 0 of None \<Rightarrow> False
       | Some x \<Rightarrow> stream_status (in_common x) = STATUS_PLAYING \<and> stream_type (in_common x) = ASTREAM_CAPTURE_PRIMARY)
      \<and> capture_list (dev s) = [0] \<and> active_input (dev s) = Some 0 \<and> \<not> isAPCallMode (dev s)"
    by code_simp
  then show ?thesis by (auto split: option.splits)
qed

lemma playing_reachable: "playing = Some s \<Longrightarrow> hal_reachable plain_env s"
  unfolding playing_def by (rule hal_run_reachable [OF opened_reachable])

theorem hal_routes_sound_witness:
  "\<exists>s. playing = Some s \<and> last_route Playback_path (px_log s) = Some (AUSAGE_MEDIA, DEVICE_SPEAKER, MODIFIER_NONE, True) \<and> routes_ok s"
proof -
  have "case playing of None \<Rightarrow> False | Some s \<Rightarrow> is_playback_path_routed (dev s)
      \<and> playback_route (dev s) = (AUSAGE_MEDIA, DEVICE_SPEAKER, MODIFIER_NONE)"
    by code_simp
  then obtain s where s: "playing = Some s" "is_playback_path_routed (dev s)" "playback_route (dev s) = (AUSAGE_MEDIA, DEVICE_SPEAKER, MODIFIER_NONE)"
    by (auto split: option.splits)
  then show ?thesis using hal_routes_sound [OF playing_reachable [OF s(1)]] by (intro exI [of _ s]) (simp add: playback_route_def modifiers_def)
qed

theorem hal_streams_sound_witness: "\<exists>s. playing = Some s \<and> playback_list (dev s) = [0] \<and> streams_ok s \<and> status_ok s"
  using playing_state playing_reachable hal_streams_sound by blast

theorem standby_releases_path_witness:
  "\<exists>s s'. playing = Some s \<and> is_playback_path_routed (dev s) \<and> out_standby plain_env 0 s = Some s' \<and> \<not> is_playback_path_routed (dev s')"
proof -
  obtain s x where s: "playing = Some s" "is_playback_path_routed (dev s)" "playback_list (dev s) = [0]" "outs s 0 = Some x"
     "stream_status (out_common x) = STATUS_PLAYING" "\<not> callback_thread_blocked (offload x)"
     "\<not> isCPCallMode (dev s)" "\<not> isFMRadioOn (dev s)" "\<not> is_factory_loopback_mode (factory (dev s))"
    using playing_state by blast
  have "dom (outs s) = {0}"
    using reachable_ok(2) [OF playing_reachable [OF s(1)]] s(3) by (auto simp: streams_defs dom_def)
  then have "\<And>i y. i \<noteq> 0 \<Longrightarrow> outs s i = Some y \<Longrightarrow> inactive y" by (metis domI singletonD)
  with standby_releases_path [OF playing_reachable [OF s(1)] s(4) _ _ s(7-9)] s(5,6) have
    "\<exists>s'. out_standby plain_env 0 s = Some s' \<and> \<not> is_playback_path_routed (dev s')" by auto
  then show ?thesis using s(1,2) by blast
qed

theorem device_selection_defined_witness: "\<not> isCallMode (dev opened_hal) \<and> (\<exists>dv. get_device_id opened_hal 2 = Some dv)"
proof -
  have "\<not> isCallMode (dev opened_hal)" by code_simp
  then show ?thesis using device_selection_defined [of opened_hal 2] by simp
qed

theorem write_starts_stream_witness:
  "\<exists>s s'. hal_run plain_env [Open_output 1 2 8 some_config] opened_hal = Some s \<and> out_write plain_env 0 True 10 s = Some (10, s') \<and> is_playback_path_routed (dev s')"
proof -
  have "case hal_run plain_env [Open_output 1 2 8 some_config] opened_hal of None \<Rightarrow> False | Some s \<Rightarrow>
      (case outs s 0 of None \<Rightarrow> False
       | Some x \<Rightarrow> stream_status (out_common x) = STATUS_STANDBY \<and> stream_type (out_common x) = ASTREAM_PLAYBACK_DEEP_BUFFER
           \<and> plain_device (dev s) (requested_devices (out_common x)) = DEVICE_SPEAKER) \<and> amode (dev s) = AUDIO_MODE_NORMAL
       \<and> \<not> isFactoryMode (dev s) \<and> \<not> isFMRadioOn (dev s) \<and> \<not> voipse_on (dev s)"
    by code_simp
  then obtain s x where s: "hal_run plain_env [Open_output 1 2 8 some_config] opened_hal = Some s" "outs s 0 = Some x" "plain_mode (dev s)"
      "stream_status (out_common x) = STATUS_STANDBY" "stream_type (out_common x) = ASTREAM_PLAYBACK_DEEP_BUFFER"
      "plain_device (dev s) (requested_devices (out_common x)) = DEVICE_SPEAKER"
    by (auto simp: plain_mode_def split: option.splits)
  from write_starts_stream [OF s(3,2,4) _ _ _ _ _ _ _ _ refl, of plain_env 10 10] s(5,6)
  obtain s' where "out_write plain_env 0 True 10 s = Some (10, s')" "is_playback_path_routed (dev s')" by (auto simp: plain_env_def)
  then show ?thesis using s(1) by blast
qed



theorem failed_adev_open_dangles_witness:
  "\<exists>m'. adev_open (plain_env\<lparr>px := \<lambda>cs c. case c of calloc_device \<Rightarrow> 1 | _ \<Rightarrow> 0\<rparr>) ''audio_hw_if'' boot = Some (- 38, m')
     \<and> adev_open (plain_env\<lparr>px := \<lambda>cs c. case c of calloc_device \<Rightarrow> 1 | _ \<Rightarrow> 0\<rparr>) ''audio_hw_if'' m' = None"
  by (rule failed_adev_open_dangles) (simp_all add: loaded_def boot_def plain_env_def px_query_def)

theorem closed_input_dangles_witness:
  "\<exists>s s'. recording = Some s \<and> hal_run plain_env [In_set_parameters 0 [''input_source'' \<mapsto> ''6''], Close_input 0] s = Some s'
     \<and> active_input (dev s') = Some 0 \<and> ins s' 0 = None"
proof -
  obtain s x where s: "recording = Some s" "ins s 0 = Some x" "stream_status (in_common x) = STATUS_PLAYING"
     "stream_type (in_common x) = ASTREAM_CAPTURE_PRIMARY" "active_input (dev s) = Some 0" "\<not> isAPCallMode (dev s)"
    using recording_state by blast
  from closed_input_dangles [OF s(2,5) _ s(6), of "[''input_source'' \<mapsto> ''6'']" plain_env] s(3,4)
  have "\<exists>s'. hal_run plain_env [In_set_parameters 0 [''input_source'' \<mapsto> ''6''], Close_input 0] s = Some s'
     \<and> active_input (dev s') = Some 0 \<and> ins s' 0 = None" by (auto simp: plain_env_def simp del: hal_run.simps)
  then show ?thesis using s(1) by blast
qed

definition voice_hal :: "call_status_t \<Rightarrow> hal" where
  "voice_hal c = opened_hal\<lparr>dev := (dev opened_hal)\<lparr>voice := Some (zero_voice\<lparr>call_status := c\<rparr>)\<rparr>\<rparr>"

theorem call_mode_outlives_call_witness:
  "\<exists>s' v'. hal_run plain_env [Set_mode AUDIO_MODE_IN_CALL, Set_mode AUDIO_MODE_NORMAL] (voice_hal CALL_STATUS_CONNECTED) = Some s'
     \<and> amode (dev s') = AUDIO_MODE_NORMAL \<and> voice (dev s') = Some v' \<and> voice_is_call_mode v'"
proof -
  have "amode (dev (voice_hal CALL_STATUS_CONNECTED)) = AUDIO_MODE_NORMAL" by code_simp
  from call_mode_outlives_call [OF this, of "zero_voice\<lparr>call_status := CALL_STATUS_CONNECTED\<rparr>" plain_env]
  show ?thesis by (auto simp: voice_hal_def zero_voice_def simp del: hal_run.simps)
qed

definition music_hal :: hal where
  "music_hal = upd_dev (\<lambda>d. d\<lparr>amode := AUDIO_MODE_IN_CALL, incallmusic_on := True, is_playback_path_routed := True,
       active_playback_ausage := AUSAGE_INCALL_MUSIC, active_playback_device := DEVICE_EARPIECE, primary_output := Some 0, playback_list := [0, 1]\<rparr>)
     (voice_hal CALL_STATUS_ACTIVE)\<lparr>ril := snd (the (SecRilOpen ready_modem ril_start)), outs := [0 \<mapsto> new_out 1 1 2 some_config,
       1 \<mapsto> (new_out 2 0x10000 0x10000 some_config)\<lparr>out_common := (new_common 2 0x10000 some_config)
         \<lparr>stream_type := ASTREAM_PLAYBACK_INCALL_MUSIC, stream_usage := AUSAGE_INCALL_MUSIC, stream_status := STATUS_PLAYING\<rparr>\<rparr>]\<rparr>"

lemma music_hal_ril: "ril_ok (ril_lib plain_env) (ril music_hal)" "modem_link (ril music_hal)"
proof -
  obtain w where w: "SecRilOpen ready_modem ril_start = Some (0, w)" using ready_modem_open [of ril_start] by blast
  have "ril_ok ready_modem ril_start" by (simp add: ril_start_def ril_ok_def)
  note p = open_props [OF w this]
  show "ril_ok (ril_lib plain_env) (ril music_hal)" "modem_link (ril music_hal)"
    using p(1,5) ready_modem_symbols by (simp_all add: music_hal_def upd_dev_def w plain_env_def)
qed

theorem music_end_silences_call_witness:
  "\<exists>s' v'. out_standby plain_env 1 music_hal = Some s' \<and> hd (px_log s') = proxy_start_voice_call \<and> voice (dev s') = Some v' \<and> \<not> voice_is_call_active v'
     \<and> clock_state (ril_calls (ril s')) = Some VOICE_AUDIO_TURN_OFF_I2S"
proof -
  have "out_standby plain_env 1 music_hal \<noteq> None" by code_simp
  then obtain s' where s': "out_standby plain_env 1 music_hal = Some s'" by blast
  from music_end_silences_call [OF _ _ _ _ _ _ _ _ _ _ this music_hal_ril] show ?thesis
    using s' by (fastforce simp: music_hal_def voice_hal_def isCPCallMode_def voice_is_call_active_def zero_voice_def)
qed

definition sco_hal :: hal where
  "sco_hal = px_do (proxy_set_route Playback_path AUSAGE_MEDIA DEVICE_BT_HEADSET MODIFIER_BT_SCO_RX_NB True)
     (upd_dev (\<lambda>d. set_playback True (AUSAGE_MEDIA, DEVICE_BT_HEADSET, MODIFIER_BT_SCO_RX_NB) d
         \<lparr>voice := Some (zero_voice\<lparr>bluetooth_samplerate := WB_SAMPLING_RATE\<rparr>), playback_list := [0]\<rparr>) opened_hal)
     \<lparr>outs := [0 \<mapsto> (new_out 1 0x20 8 some_config)\<lparr>out_common := (new_common 1 0x20 some_config)
         \<lparr>stream_type := ASTREAM_PLAYBACK_DEEP_BUFFER, stream_usage := AUSAGE_MEDIA, stream_status := STATUS_PLAYING\<rparr>\<rparr>]\<rparr>"

theorem stale_modifier_reset_witness:
  "\<exists>s1 s2. set_route_out plain_env 0 True NON_FORCE_ROUTE sco_hal = Some s1 \<and> set_route_out plain_env 0 False FORCE_ROUTE s1 = Some s2
    \<and> px_log s2 = proxy_set_route Playback_path AUSAGE_MEDIA DEVICE_BT_HEADSET MODIFIER_BT_SCO_RX_WB False # px_log sco_hal"
proof -
  obtain x where x: "outs sco_hal 0 = Some x" "requested_devices (out_common x) = 0x20" "stream_usage (out_common x) = AUSAGE_MEDIA"
    by (simp add: sco_hal_def new_common_def)
  have "plain_mode (dev sco_hal)" unfolding plain_mode_def by code_simp
  moreover have "plain_device (dev sco_hal) 0x20 = DEVICE_BT_HEADSET" by code_simp
  ultimately show ?thesis
    using stale_modifier_reset [of sco_hal 0 x "zero_voice\<lparr>bluetooth_samplerate := WB_SAMPLING_RATE\<rparr>" plain_env] x
    by (auto simp: sco_hal_def playback_route_def set_playback_def route_of_def)
qed

definition latency_hal :: hal where
  "latency_hal = upd_dev (\<lambda>d. d\<lparr>primary_output := Some 0, playback_list := [0], capture_list := [1]\<rparr>) opened_hal
     \<lparr>outs := [0 \<mapsto> new_out 1 2 2 some_config],
      ins := [1 \<mapsto> (new_in 2 0x80000004 1 1 some_config)\<lparr>in_common := (new_common 2 0x80000004 some_config)\<lparr>stream_type := ASTREAM_CAPTURE_LOW_LATENCY\<rparr>\<rparr>]\<rparr>"

theorem foreign_mutex_unlocked_witness:
  "\<exists>s'. update_call_stream plain_env 0 2 1 latency_hal = Some s' \<and> mutex_unlock Capture_path 1 \<in> set (px_log s')
     \<and> mutex_lock Capture_path 1 \<notin> set (px_log s')"
proof -
  have "update_call_stream plain_env 0 2 1 latency_hal \<noteq> None" by code_simp
  then obtain s' where s': "update_call_stream plain_env 0 2 1 latency_hal = Some s'" by blast
  let ?ty = "\<lambda>i::nat. if i = 1 then ASTREAM_CAPTURE_LOW_LATENCY else ASTREAM_NONE"
  have "mutex_unlock Capture_path 1 \<in> set (px_log s') \<and> mutex_lock Capture_path 1 \<notin> set (px_log s')"
  proof (rule foreign_mutex_unlocked [OF s', where ty = ?ty])
    show "1 \<in> set (capture_list (dev latency_hal))" by (simp add: latency_hal_def)
    show "\<And>i y. ins latency_hal i = Some y \<Longrightarrow> stream_type (in_common y) = ?ty i" by (auto simp: latency_hal_def split: if_splits)
    show "mutex_lock Capture_path 1 \<notin> set (px_log latency_hal)" by code_simp
  qed (simp_all split: if_splits)
  then show ?thesis using s' by blast
qed

end
