(* ===== verification/Spec2Isabelle.thy ===== *)
theory Spec2Isabelle
  imports Sw_Rgb Sw_Tile Exynos_Format Csc_Convert Csc_Handle St_Behaviour Voice_Manager Cp_Loopback V4l2_Device Audio_Behaviour
begin

text \<open>
  A verification of the C part of the Exynos hardware libraries: the colour space conversion
  libraries, the wrappers around the video devices of the kernel, the sound trigger HAL, the primary
  audio HAL with its voice calls down to the modem, and the daemon that tests the link to the modem.

  \<^bold>\<open>The program and its models.\<close>

  \<^item> \<open>libswconverter/swconvertor.c\<close> converts pixels in memory. Theory \<open>Sw_Rgb\<close> holds the six RGB to YUV
    converters (one loop per chroma layout, a fetch per source format), theory \<open>Sw_Tile\<close> the address
    function \<open>Tile2D_To_Linear\<close> and the block loops of the tiled formats. Memory is a function from
    addresses to bytes, pixel arithmetic is on 32-bit words, offsets are naturals with the
    reduction modulo \<open>2 ^ 32\<close> written out; the C \<open>for\<close> loops are \<open>c_for\<close> of \<open>Exynos_Prelude\<close>.
  \<^item> \<open>libexynosutils/exynos_format_v4l2.c\<close> is the table of pixel formats; theory \<open>Exynos_Format\<close> has one
    datatype per name space and one function per C function.
  \<^item> \<open>libcsc/csc.c\<close> puts both behind a handle. Theory \<open>Csc_Convert\<close> has the handle, the copies to and
    from the codec's padded buffers, a converter per source format and the dispatcher \<open>conv_sw\<close>;
    theory \<open>Csc_Handle\<close> the heap of handles, the properties, \<open>csc_convert\<close> and
    \<open>csc_convert_with_rotation\<close> with the hardware path.
  \<^item> \<open>libaudio/sthal/sound_trigger_hw.c\<close> listens for key phrases. Theory \<open>St_Device\<close> has the device, its
    mixer controls, model loading and power control; \<open>St_Thread\<close> the callback thread, one step per
    round of its loop, with the stop requests that race with it; \<open>St_Api\<close> every method of the device
    and every function exported to the audio HAL. \<open>St_Invariant\<close> and \<open>St_Reach\<close> turn them into a state
    machine with its invariants, \<open>St_Session\<close> gives the abstract machine a client sees and the
    simulation, \<open>St_Behaviour\<close> what single operations do.
  \<^item> \<open>libaudio/audiohal/audioril-sec/secril_interface.c\<close> is the client of the modem's RIL library, theory
    \<open>Ril_Client\<close>: the singleton is an option in the state, opening is the counted retry loop, a setting
    is a change of the singleton and at most one call to the library.
  \<^item> \<open>libaudio/audiohal/voice_manager_sec.c\<close> is the manager of voice calls on top of it, theory
    \<open>Voice_Manager\<close>: the call status and its operations over a pair of manager and client.
  \<^item> \<open>libaudio/audiohal/audio_hw.c\<close> is the primary audio HAL, with \<open>factory_manager.c\<close>. Theory \<open>Audio_State\<close> has
    its data, the streams on a heap so that a freed stream is visible, and the log of the calls to the
    audio proxy; \<open>Audio_Route\<close> the choice of usage and device and \<open>adev_set_route\<close>; \<open>Audio_Stream\<close> every
    operation of a stream, the offload thread and \<open>update_call_stream\<close>; \<open>Audio_Device\<close> modes,
    volumes, parameters, factory tests, opening and closing of streams and of the device. It calls the
    operations of \<open>Voice_Manager\<close> on the manager in its state. A result None is a read through a NULL or
    freed pointer, a write behind a buffer or a call that never returns. \<open>Audio_Invariant\<close> shows what
    every operation keeps, \<open>Audio_Reach\<close> makes a state machine of clients and threads of it,
    \<open>Audio_Behaviour\<close> has the theorems. \<open>Exynos_Hoare\<close> holds the rules for such partial code.
  \<^item> \<open>libv4l2/exynos_v4l2.c\<close> and \<open>exynos_subdev.c\<close> wrap the video and sub-device nodes, theory \<open>V4l2_Device\<close>: the
    search by name, opening and closing, and every request with its checks.
  \<^item> \<open>cpboot_v3/lb_main.c\<close> is the loopback daemon, theory \<open>Cp_Loopback\<close>: argument parsing, the alarm of the
    real time clock, and the sender, reader and main threads as program counters over the shared
    arguments, with all their interleavings as a step relation.

  \<^bold>\<open>The world outside.\<close> The kernel, tinyalsa, the audio proxy, the scaler and RIL libraries and the clients' callbacks are
  not part of the sources. Each is an environment, a function from the calls made so far and the
  call at hand to its result, so that a result may be anything and may change; every call is
  recorded in a log that the safety theorems speak about. A theorem that needs a call to succeed
  names it: \<open>mixer_healthy\<close>, \<open>writes_progress\<close>, \<open>alloc_works\<close>, \<open>calls_succeed\<close>, \<open>pcm_fresh\<close>, \<open>pcm_ready\<close>,
  \<open>errno_set\<close> for the sound trigger HAL, \<open>symbols_found\<close> and \<open>modem_answers\<close> for the RIL client,
  \<open>rtc_works\<close>, \<open>select_honest\<close> and \<open>modem_up\<close> for the loopback daemon. Each is satisfied by a concrete
  environment in a witness.

  \<^bold>\<open>Interfaces.\<close> A locale states what a component relies on, and the model's own operations interpret it:
  \<open>tile_layout\<close> (an address function that is injective and bounded, by which the tile loops are
  correct), \<open>handle_property\<close> (a getter and setter pair of a handle), \<open>mixer_op\<close>, \<open>device_op\<close> and its
  extensions \<open>client_op\<close> and \<open>session_op\<close> (what every operation of the sound trigger HAL keeps, from
  single mixer writes to the simulation), \<open>ril_setter\<close> and its extension \<open>ril_neutral\<close> (a setting of
  the RIL client keeps the client, the clock and the other settings), \<open>call_setting\<close> (an operation of
  the voice manager that leaves the call status alone), \<open>checked_request\<close> (a request to a video device
  that is passed on only after its checks), and the chain \<open>route_only\<close>, \<open>route_frame\<close>, \<open>hal_frame\<close>,
  \<open>hal_life\<close> (which changes an invariant of the audio HAL has to survive: setting paths, updating the
  streams of a call, every operation, and streams that come and go), interpreted for the paths of the
  hardware, the states and the lists of the streams, the voice manager and the log.

  \<^bold>\<open>What is shown.\<close>

  \<^item> Conversion: the tile loops copy exactly the bytes the address function names, RGB conversion is
    the BT.601 formula rounded as stated, a conversion between the plain planar and semi-planar
    4:2:0 formats keeps each luma and chroma sample but for one pair, which exchanges the chroma; adding
    and removing the codec padding are inverse; unsupported formats change nothing.
  \<^item> Formats: the two translations are inverse up to listed pairs, frame sizes hold their pixels.
  \<^item> Handles: in every sequence of calls scaler handles are used only while they are open.
  \<^item> Sound trigger: every reachable state is consistent; nodes are used only while open in every run
    whose operations do not overlap, and also while a read of the stream is overlapped by operations
    that leave the stream open; with a healthy mixer and ready nodes the microphone is on only for
    somebody; a client is called at most once per start; starting listens and stopping releases under
    the conditions that are listed; joining ends the thread by the byte it sends; and the HAL refines
    the abstract session machine.
  \<^item> Voice: the RIL client uses only open clients, opening stops at the first of ten attempts that gives
    a usable client, the modem's clock runs exactly while the call is active, and for a manager that is
    connected from the start a path reaches the modem with the manager's settings.
  \<^item> Audio: in every reachable state the usage and device of the paths that the device records are those of the
    hardware, the modifier too but for the band of a SCO headset, and its lists are those of the
    streams; under the conditions that are listed a write opens and starts a stream on the device that
    was asked for and the last standby resets the path; ending an offload stream answers all its
    messages, and it is stated exactly when the choice of a device returns.
  \<^item> Video devices: requests reach the kernel only after their checks, and a search finds the node with the
    smallest number whose name matches.
  \<^item> Loopback: a test with a duration sends a bounded number of packets in every interleaving, and the
    alarm is set to the right time of day while the sum of the hours is below 25.
  \<^item> Faults of the code are theorems too: the handle freed under its owner and the leaked scaler
    (\<open>Csc_Handle\<close>), exchanged chroma (\<open>Csc_Convert\<close>), the copy before the size check (\<open>St_Device\<close>), the
    silenced model (\<open>St_Thread\<close>), the unchecked handle, the failure reported as success and the read
    of a node that another thread closed (\<open>St_Behaviour\<close>), the lost RIL client (\<open>Ril_Client\<close>), the lost VoLTE status (\<open>Voice_Manager\<close>), the
    reader that goes deaf, its buffer overflow and the threads without bound (\<open>Cp_Loopback\<close>), the search
    that does not end (\<open>V4l2_Device\<close>), and in \<open>Audio_Behaviour\<close> the active input and the device that are
    used after they were freed, the reset with the modifier of another band, the call without a clock
    after music, the call that never ends, the foreign lock that is released and the recursion without end.

  \<^bold>\<open>Loops and bounds.\<close> Counted loops are structural recursion or \<open>c_for\<close>; the scan of a uevent has a measure;
  the write loop of \<open>sysfs_write\<close> may run forever when nothing is written and is a
  \<open>partial_function\<close> with the result None then, so its theorem shows that it returns; so are the calls
  of the loopback daemon that are repeated while they are interrupted, the search for a sub-device and
  \<open>get_device_id\<close>, which calls itself. No definition uses fuel. The retries of \<open>SecRilOpen\<close> count down from ten as in the source.

  \<^bold>\<open>Assumptions of the model.\<close> An operation of the sound trigger HAL is one step of the state machine, and so
  is a round of the callback thread. For most operations that is what \<open>stdev->lock\<close> gives, which they hold
  for their whole body. Three do not. \<open>sound_trigger_read_samples\<close> holds only \<open>trigger_lock\<close>, under which
  the stream is not always closed: it is two definitions, the check of the handle and the transfer, the
  step composes them, and \<open>St_Reach\<close> and \<open>St_Behaviour\<close> say what other operations between the two may
  and may not do. \<open>sound_trigger_read_recording_samples\<close> holds only \<open>recording_lock\<close>; every place that
  opens or closes \<open>recording_pcm\<close> takes that lock too, so no operation changes the node during the read.
  \<open>sound_trigger_notify_ahal_record_status\<close> takes no lock: what other operations do during this call is
  not modelled. While an operation joins the
  thread it gives the lock up: the wake-ups the thread still handles are an argument, calls of
  other operations in this window are not interleaved. What is written to one end of the thread's
  pair of sockets can be read at the other. uevent messages are NUL-terminated, a model
  is below 2 GiB, \<open>size_t\<close> has 64 bits. The RIL client and the voice manager are called with the
  lock of the audio HAL, so their operations do not interleave. The threads of the loopback daemon
  have no lock: a step is a turn of a loop, the wait for the alarm a step of its own, so accesses
  within one turn are not interleaved. An operation of the audio HAL is one step, also where it gives
  its lock up to update a call; the thread of an offload stream takes a message in one step and
  answers it in another, and an operation that waits for it makes that second step first. A new
  stream has an address that was never used, constants of the platform have their documented values,
  volumes are rational numbers, and the nodes of the file system do not change during a search.
  Finally, \<open>getopt\<close> delivers the options. The product of a float volume and
  the number of steps is an argument.

  \<^bold>\<open>Not modelled.\<close> The \<open>USE_NV12T_128X64\<close> paths of the tile converters and the \<open>NEON\<close> assembly; the
  stateless stubs of the \<open>STHAL_2_3\<close> build; of the audio HAL the getters, the positions, which only ask
  the proxy, and the dumps; its second generation \<open>audiohal_comv1\<close>, a later copy, and the variants of
  voice manager and RIL client for other modems; the C++ parts (gralloc, tee, ssp, HDR, boot loader,
  services), which mostly marshal requests for firmware that is not part of the sources.
\<close>

end
